(* ===== verification/PyFloat.thy ===== *)
theory PyFloat
  imports Complex_Main Prelude "HOL-Library.Log_Nat"
begin

section \<open>Python's float: IEEE 754 binary64\<close>

text \<open>
  A float is a finite rational, a negative zero, an infinity or NaN.  Every arithmetic
  result is the exact rational result rounded to 53 significant bits, ties to even, with
  gradual underflow (\<open>rnd64\<close>) and overflow to infinity (\<open>mk_flt\<close>).  Comparison is
  exact, on the rationals extended by the two infinities; NaN compares with nothing.
  The functions are executable.  The lemmas: rounding is monotone, keeps signs, and a
  difference of two representable numbers never rounds to zero unless they are equal.
\<close>

subsection \<open>Rationals with infinities\<close>

datatype xrat = XNegInf | XRat rat | XPosInf

instantiation xrat :: linorder
begin

fun less_eq_xrat :: "xrat \<Rightarrow> xrat \<Rightarrow> bool" where
  "less_eq_xrat XNegInf y = True"
| "less_eq_xrat (XRat a) XNegInf = False"
| "less_eq_xrat (XRat a) (XRat b) = (a \<le> b)"
| "less_eq_xrat (XRat a) XPosInf = True"
| "less_eq_xrat XPosInf y = (y = XPosInf)"

definition less_xrat :: "xrat \<Rightarrow> xrat \<Rightarrow> bool" where
  "less_xrat x y \<longleftrightarrow> \<not> y \<le> x"

instance
proof
  fix x y z :: xrat
  show "x < y \<longleftrightarrow> x \<le> y \<and> \<not> y \<le> x"
    by (cases x; cases y) (auto simp: less_xrat_def)
  show "x \<le> x" by (cases x) auto
  show "x \<le> y \<Longrightarrow> y \<le> z \<Longrightarrow> x \<le> z" by (cases x; cases y; cases z) auto
  show "x \<le> y \<Longrightarrow> y \<le> x \<Longrightarrow> x = y" by (cases x; cases y) auto
  show "x \<le> y \<or> y \<le> x" by (cases x; cases y) auto
qed

end

lemma less_XRat [simp]: "XRat a < XRat b \<longleftrightarrow> a < b"
  by (auto simp: less_xrat_def)

lemma less_xrat_inf [simp]:
  "XNegInf < XRat a" "XRat a < XPosInf" "XNegInf < XPosInf" "\<not> XPosInf < x" "\<not> x < XNegInf"
  by (cases x; simp add: less_xrat_def)+

subsection \<open>Rounding to binary64\<close>

text \<open>Round to an integer, ties to even.\<close>

definition rne :: "rat \<Rightarrow> int" where
  "rne x = (let f = \<lfloor>x\<rfloor>; d = x - of_int f in
     if d < 1/2 then f else if 1/2 < d then f + 1 else if even f then f else f + 1)"

definition pow2 :: "int \<Rightarrow> rat" where
  "pow2 e = (if 0 \<le> e then 2 ^ nat e else 1 / 2 ^ nat (- e))"

text \<open>The binary exponent of a positive rational.\<close>

definition flog2 :: "rat \<Rightarrow> int" where
  "flog2 x = (case quotient_of x of (p, q) \<Rightarrow>
     let k = bitlen p - bitlen q in if pow2 k \<le> x then k else k - 1)"

definition rnd_exp :: "rat \<Rightarrow> int" where
  "rnd_exp x = max (flog2 \<bar>x\<bar> - 52) (- 1074)"

definition rnd64 :: "rat \<Rightarrow> rat" where
  "rnd64 x = (if x = 0 then 0 else of_int (rne (x / pow2 (rnd_exp x))) * pow2 (rnd_exp x))"

definition max64 :: rat where
  "max64 = 2 ^ 1024"

lemma max64_code [code]: "max64 =
  179769313486231590772930519078902473361797697894230657273430081157732675805500963132708477322407536021120113879871393357658789768814416622492847430639474124377767893424865485276302219601246094119453082952085005768838150682342462881473913110540827237163350510684586298239947245938479716304835356329624224137216"
  by (simp add: max64_def)

definition is64 :: "rat \<Rightarrow> bool" where
  "is64 r \<longleftrightarrow> rnd64 r = r \<and> \<bar>r\<bar> < max64"

subsection \<open>The values and their arithmetic\<close>

datatype flt = Fin rat | NegZero | PosInf | NegInf | NaN

fun fval :: "flt \<Rightarrow> rat" where
  "fval (Fin r) = r"
| "fval f = 0"

fun fneg_sign :: "flt \<Rightarrow> bool" where
  "fneg_sign (Fin r) = (r < 0)"
| "fneg_sign NegZero = True"
| "fneg_sign NegInf = True"
| "fneg_sign f = False"

fun is_finite :: "flt \<Rightarrow> bool" where
  "is_finite (Fin r) = True"
| "is_finite NegZero = True"
| "is_finite f = False"

fun flt_x :: "flt \<Rightarrow> xrat option" where
  "flt_x (Fin r) = Some (XRat r)"
| "flt_x NegZero = Some (XRat 0)"
| "flt_x PosInf = Some XPosInf"
| "flt_x NegInf = Some XNegInf"
| "flt_x NaN = None"

text \<open>The exact result \<open>x\<close> as a float; \<open>s\<close> is the sign that a zero result takes.\<close>

definition mk_flt :: "bool \<Rightarrow> rat \<Rightarrow> flt" where
  "mk_flt s x = (let r = rnd64 x in
     if r = 0 then (if s then NegZero else Fin 0)
     else if max64 \<le> r then PosInf else if r \<le> - max64 then NegInf else Fin r)"

fun fneg :: "flt \<Rightarrow> flt" where
  "fneg (Fin r) = (if r = 0 then NegZero else Fin (- r))"
| "fneg NegZero = Fin 0"
| "fneg PosInf = NegInf"
| "fneg NegInf = PosInf"
| "fneg NaN = NaN"

definition fabs :: "flt \<Rightarrow> flt" where
  "fabs f = (if fneg_sign f then fneg f else f)"

definition fadd :: "flt \<Rightarrow> flt \<Rightarrow> flt" where
  "fadd a b =
     (if a = NaN \<or> b = NaN then NaN
      else if is_finite a \<and> is_finite b then
        (let s = fval a + fval b in
         if s = 0 then (if fneg_sign a \<and> fneg_sign b then NegZero else Fin 0)
         else mk_flt (s < 0) s)
      else if is_finite a then b
      else if is_finite b then a
      else if a = b then a else NaN)"

definition fsub :: "flt \<Rightarrow> flt \<Rightarrow> flt" where
  "fsub a b = fadd a (fneg b)"

definition finf :: "bool \<Rightarrow> flt" where
  "finf s = (if s then NegInf else PosInf)"

definition fzero :: "bool \<Rightarrow> flt" where
  "fzero s = (if s then NegZero else Fin 0)"

definition fmul :: "flt \<Rightarrow> flt \<Rightarrow> flt" where
  "fmul a b = (let s = (fneg_sign a \<noteq> fneg_sign b) in
     if a = NaN \<or> b = NaN then NaN
     else if is_finite a \<and> is_finite b then mk_flt s (fval a * fval b)
     else if (is_finite a \<and> fval a = 0) \<or> (is_finite b \<and> fval b = 0) then NaN
     else finf s)"

text \<open>Division by a nonzero divisor; Python raises before it divides by zero.\<close>

definition fdiv :: "flt \<Rightarrow> flt \<Rightarrow> flt" where
  "fdiv a b = (let s = (fneg_sign a \<noteq> fneg_sign b) in
     if a = NaN \<or> b = NaN then NaN
     else if is_finite a \<and> is_finite b then mk_flt s (fval a / fval b)
     else if is_finite a then fzero s
     else if is_finite b then finf s else NaN)"

text \<open>\<open>round(x, n)\<close>: the exact value rounded half-even to \<open>n\<close> decimals, then to binary64.\<close>

definition fround :: "nat \<Rightarrow> flt \<Rightarrow> flt" where
  "fround n f = (if is_finite f
     then mk_flt (fneg_sign f) (of_int (rne (fval f * 10 ^ n)) / 10 ^ n) else f)"

definition int_to_flt :: "int \<Rightarrow> flt" where
  "int_to_flt i = mk_flt False (of_int i)"

subsection \<open>Text: \<open>format(x, '.nf')\<close> and \<open>repr\<close>\<close>

definition pad_zeros :: "nat \<Rightarrow> string \<Rightarrow> string" where
  "pad_zeros n s = replicate (n - length s) CHR ''0'' @ s"

definition fmt_fixed :: "nat \<Rightarrow> flt \<Rightarrow> string" where
  "fmt_fixed n f = (case f of
     PosInf \<Rightarrow> ''inf'' | NegInf \<Rightarrow> ''-inf'' | NaN \<Rightarrow> ''nan''
   | _ \<Rightarrow> (let m = rne (\<bar>fval f\<bar> * 10 ^ n) in
        (if fneg_sign f then ''-'' else '''') @ dec (m div 10 ^ n)
          @ (if n = 0 then '''' else ''.'' @ pad_zeros n (dec (m mod 10 ^ n)))))"

text \<open>
  \<open>repr\<close> prints the shortest decimal that reads back as the same float, the closest one
  among those.  \<open>dec_exp x\<close> is the decimal exponent of a positive \<open>x\<close>.
\<close>

definition pow10 :: "int \<Rightarrow> rat" where
  "pow10 e = (if 0 \<le> e then 10 ^ nat e else 1 / 10 ^ nat (- e))"

definition dec_exp :: "rat \<Rightarrow> int" where
  "dec_exp x = (let (p, q) = quotient_of x;
                    k = int (length (dec p)) - int (length (dec q))
                in if pow10 k \<le> x then k else k - 1)"

definition short_candidates :: "rat \<Rightarrow> int \<Rightarrow> nat \<Rightarrow> int list" where
  "short_candidates x e n = (let y = x / pow10 (e - int n + 1); lo = \<lfloor>y\<rfloor> in
     filter (\<lambda>m. rnd64 (of_int m * pow10 (e - int n + 1)) = x)
       (if y - of_int lo \<le> 1/2 then [lo, lo + 1] else [lo + 1, lo]))"

fun shortest :: "rat \<Rightarrow> int \<Rightarrow> nat list \<Rightarrow> int \<times> nat" where
  "shortest x e [] = (0, 0)"
| "shortest x e (n # ns) =
     (case short_candidates x e n of [] \<Rightarrow> shortest x e ns | m # _ \<Rightarrow> (m, n))"

definition strip_zeros :: "string \<Rightarrow> string" where
  "strip_zeros s = rev (dropWhile (\<lambda>c. c = CHR ''0'') (rev s))"

definition repr_pos :: "rat \<Rightarrow> string" where
  "repr_pos x = (let e = dec_exp x; (m, n) = shortest x e [1..<18];
       ds0 = dec m;
       e1 = e + int (length ds0) - int n;
       ds = (let d = strip_zeros ds0 in if d = [] then ''0'' else d) in
     if -4 \<le> e1 \<and> e1 < 16 then
       (if e1 < 0 then ''0.'' @ replicate (nat (- e1) - 1) CHR ''0'' @ ds
        else (let k = nat e1 + 1 in
          if length ds \<le> k then ds @ replicate (k - length ds) CHR ''0'' @ ''.0''
          else take k ds @ ''.'' @ drop k ds))
     else
       take 1 ds @ (if length ds = 1 then '''' else ''.'' @ drop 1 ds)
         @ ''e'' @ (if e1 < 0 then ''-'' else ''+'') @ pad_zeros 2 (dec \<bar>e1\<bar>))"

fun flt_repr :: "flt \<Rightarrow> string" where
  "flt_repr (Fin r) = (if r = 0 then ''0.0'' else if r < 0 then ''-'' @ repr_pos (- r) else repr_pos r)"
| "flt_repr NegZero = ''-0.0''"
| "flt_repr PosInf = ''inf''"
| "flt_repr NegInf = ''-inf''"
| "flt_repr NaN = ''nan''"

subsection \<open>Rounding: monotone, odd, exact on integers\<close>

lemma rne_of_int [simp]: "rne (of_int i) = i"
  by (simp add: rne_def)

lemma rne_bounds: "of_int (rne x) \<le> x + 1/2" "x - 1/2 \<le> of_int (rne x)"
  by (auto simp: rne_def Let_def; linarith)+

lemma rne_near: "\<lfloor>x\<rfloor> \<le> rne x" "rne x \<le> \<lfloor>x\<rfloor> + 1"
  by (auto simp: rne_def Let_def)

lemma rne_mono: "x \<le> y \<Longrightarrow> rne x \<le> rne y"
proof -
  assume xy: "x \<le> y"
  then have f: "\<lfloor>x\<rfloor> \<le> \<lfloor>y\<rfloor>" by (rule floor_mono)
  show ?thesis
  proof (cases "\<lfloor>x\<rfloor> = \<lfloor>y\<rfloor>")
    case True
    with xy show ?thesis by (auto simp: rne_def Let_def)
  next
    case False
    with f show ?thesis using rne_near [of x] rne_near [of y] by linarith
  qed
qed

lemma rne_pos: "1 \<le> x \<Longrightarrow> 1 \<le> rne x"
  using rne_mono [of 1 x] rne_of_int [of 1] by simp

lemma rne_nonneg: "0 \<le> x \<Longrightarrow> 0 \<le> rne x"
  using rne_mono [of 0 x] rne_of_int [of 0] by simp

lemma floor_minus_rat: "\<lfloor>- (x::rat)\<rfloor> = (if of_int \<lfloor>x\<rfloor> = x then - \<lfloor>x\<rfloor> else - \<lfloor>x\<rfloor> - 1)"
proof (cases "of_int \<lfloor>x\<rfloor> = x")
  case True
  then show ?thesis by (metis floor_of_int of_int_minus)
next
  case False
  have "of_int \<lfloor>x\<rfloor> < x" using False of_int_floor_le [of x] by linarith
  moreover have "x < of_int \<lfloor>x\<rfloor> + 1" by linarith
  ultimately have "\<lfloor>- x\<rfloor> = - \<lfloor>x\<rfloor> - 1" by (intro floor_unique) auto
  with False show ?thesis by simp
qed

lemma rne_minus: "rne (- x) = - rne x"
proof (cases "of_int \<lfloor>x\<rfloor> = x")
  case True
  then show ?thesis by (metis of_int_minus rne_of_int)
next
  case False
  have lt: "of_int \<lfloor>x\<rfloor> < x" using False of_int_floor_le [of x] by linarith
  from False lt show ?thesis
    by (auto simp: rne_def Let_def floor_minus_rat)
qed

lemma pow2_pos [simp]: "0 < pow2 e"
  by (simp add: pow2_def)

lemma pow2_nonzero [simp]: "pow2 e \<noteq> 0"
  using pow2_pos [of e] by linarith

lemma pow2_power_int: "pow2 e = power_int 2 e"
  by (simp add: pow2_def power_int_def inverse_eq_divide power_one_over)

lemma pow2_add: "pow2 (a + b) = pow2 a * pow2 b"
  by (simp add: pow2_power_int power_int_add)

lemma pow2_Suc: "pow2 (a + 1) = 2 * pow2 a"
  by (simp add: pow2_power_int power_int_add)

lemma pow2_diff: "pow2 a / pow2 b = pow2 (a - b)"
  by (simp add: pow2_power_int power_int_diff)

lemma pow2_mono: "a \<le> b \<Longrightarrow> pow2 a \<le> pow2 b"
  by (simp add: pow2_power_int power_int_increasing)

lemma pow2_of_nat: "pow2 (int n) = 2 ^ n"
  by (simp add: pow2_def)

lemma pow2_is_int: "0 \<le> e \<Longrightarrow> pow2 e = of_int (2 ^ nat e)"
  by (simp add: pow2_def)

lemma bitlen_pow2:
  assumes "0 < p"
  shows "pow2 (bitlen p - 1) \<le> of_int p" and "of_int p < pow2 (bitlen p)"
proof -
  have "0 < bitlen p" using assms bitlen_nonneg [of p] bitlen_eq_zero_iff [of p] by linarith
  then have e: "pow2 (bitlen p - 1) = of_int (2 ^ nat (bitlen p - 1))"
      "pow2 (bitlen p) = of_int (2 ^ nat (bitlen p))"
    by (intro pow2_is_int; simp)+
  show "pow2 (bitlen p - 1) \<le> of_int p" "of_int p < pow2 (bitlen p)"
    unfolding e of_int_le_iff of_int_less_iff using bitlen_bounds [OF assms] by auto
qed

lemma flog2_bounds:
  assumes "0 < x"
  shows "pow2 (flog2 x) \<le> x" and "x < pow2 (flog2 x + 1)"
proof -
  obtain p q where pq: "quotient_of x = (p, q)" by (cases "quotient_of x")
  have q: "0 < q" using quotient_of_denom_pos [OF pq] .
  have x: "x = of_int p / of_int q" using quotient_of_div [OF pq] .
  have p: "0 < p" using assms q x by (simp add: zero_less_divide_iff)
  define P Q where "P = bitlen p" and "Q = bitlen q"
  have PQ: "0 < P" "0 < Q"
    using p q bitlen_nonneg [of p] bitlen_nonneg [of q]
      bitlen_eq_zero_iff [of p] bitlen_eq_zero_iff [of q]
    unfolding P_def Q_def by linarith+
  note bp = bitlen_pow2 [OF p, folded P_def] and bq = bitlen_pow2 [OF q, folded Q_def]
  have up: "x < pow2 (P - Q + 1)"
  proof -
    have "x < pow2 P / pow2 (Q - 1)"
      unfolding x using bp bq p q by (intro frac_less) auto
    then show ?thesis by (simp add: pow2_diff algebra_simps)
  qed
  have lo: "pow2 (P - Q - 1) \<le> x"
  proof -
    have "pow2 (P - 1) / pow2 Q \<le> x"
      unfolding x using bp bq p q by (intro frac_le) auto
    then show ?thesis by (simp add: pow2_diff algebra_simps)
  qed
  have fl: "flog2 x = (if pow2 (P - Q) \<le> x then P - Q else P - Q - 1)"
    by (simp add: flog2_def pq Let_def P_def Q_def)
  show "pow2 (flog2 x) \<le> x" using lo fl by auto
  show "x < pow2 (flog2 x + 1)" using up fl by auto
qed

lemma flog2_mono: "0 < x \<Longrightarrow> x \<le> y \<Longrightarrow> flog2 x \<le> flog2 y"
proof (rule ccontr)
  assume a: "0 < x" "x \<le> y" "\<not> flog2 x \<le> flog2 y"
  then have "pow2 (flog2 y + 1) \<le> pow2 (flog2 x)" by (intro pow2_mono) simp
  with flog2_bounds(1) [of x] flog2_bounds(2) [of y] a show False by linarith
qed

lemma rnd64_0 [simp]: "rnd64 0 = 0"
  by (simp add: rnd64_def)

lemma rnd64_minus: "rnd64 (- x) = - rnd64 x"
  by (simp add: rnd64_def rnd_exp_def rne_minus)

lemma rnd64_nonneg: "0 \<le> x \<Longrightarrow> 0 \<le> rnd64 x"
  using rne_nonneg [of "x / pow2 (rnd_exp x)"] pow2_pos [of "rnd_exp x"]
  by (simp add: rnd64_def less_imp_le)

lemma rnd64_nonpos: "x \<le> 0 \<Longrightarrow> rnd64 x \<le> 0"
  using rnd64_nonneg [of "- x"] by (simp add: rnd64_minus)

text \<open>A power of two with a larger exponent is a fixed bound of the rounded values.\<close>

lemma scaled_le_pow2:
  assumes "e \<le> k" and "x \<le> pow2 k"
  shows "of_int (rne (x / pow2 e)) * pow2 e \<le> pow2 k"
proof -
  have "x / pow2 e \<le> pow2 (k - e)"
    using assms(2) by (simp add: pow2_diff [symmetric] divide_right_mono less_imp_le)
  also have "pow2 (k - e) = of_int (2 ^ nat (k - e))" using assms(1) by (simp add: pow2_is_int)
  finally have "rne (x / pow2 e) \<le> 2 ^ nat (k - e)"
    using rne_mono rne_of_int by metis
  then have "of_int (rne (x / pow2 e)) \<le> (of_int (2 ^ nat (k - e)) :: rat)"
    by (simp only: of_int_le_iff)
  then have "of_int (rne (x / pow2 e)) \<le> pow2 (k - e)"
    using assms(1) by (simp add: pow2_is_int)
  then have "of_int (rne (x / pow2 e)) * pow2 e \<le> pow2 (k - e) * pow2 e"
    by (intro mult_right_mono) (auto simp: less_imp_le)
  then show ?thesis by (simp add: pow2_add [symmetric])
qed

lemma scaled_ge_pow2:
  assumes "e \<le> k" and "pow2 k \<le> x"
  shows "pow2 k \<le> of_int (rne (x / pow2 e)) * pow2 e"
proof -
  have "pow2 (k - e) \<le> x / pow2 e"
    using assms(2) by (simp add: pow2_diff [symmetric] divide_right_mono less_imp_le)
  moreover have "pow2 (k - e) = of_int (2 ^ nat (k - e))" using assms(1) by (simp add: pow2_is_int)
  ultimately have "2 ^ nat (k - e) \<le> rne (x / pow2 e)"
    using rne_mono rne_of_int by metis
  then have "(of_int (2 ^ nat (k - e)) :: rat) \<le> of_int (rne (x / pow2 e))"
    by (simp only: of_int_le_iff)
  then have "pow2 (k - e) \<le> of_int (rne (x / pow2 e))"
    using assms(1) by (simp add: pow2_is_int)
  then have "pow2 (k - e) * pow2 e \<le> of_int (rne (x / pow2 e)) * pow2 e"
    by (intro mult_right_mono) (auto simp: less_imp_le)
  then show ?thesis by (simp add: pow2_add [symmetric])
qed

lemma rnd64_mono_pos:
  assumes "0 < x" "x \<le> y"
  shows "rnd64 x \<le> rnd64 y"
proof (cases "rnd_exp x = rnd_exp y")
  case True
  have "rne (x / pow2 (rnd_exp y)) \<le> rne (y / pow2 (rnd_exp y))"
    using assms by (intro rne_mono divide_right_mono) (auto simp: less_imp_le)
  with True assms show ?thesis
    by (auto simp: rnd64_def intro!: mult_right_mono less_imp_le)
next
  case False
  have ex: "rnd_exp x < rnd_exp y"
    using False flog2_mono [OF assms] assms by (auto simp: rnd_exp_def)
  with assms have lt: "flog2 x < flog2 y" and ey: "rnd_exp y = flog2 y - 52"
    by (auto simp: rnd_exp_def)
  have "x \<le> pow2 (flog2 y)"
    using flog2_bounds(2) [OF assms(1)] pow2_mono [of "flog2 x + 1" "flog2 y"] lt by simp
  with ex ey have "rnd64 x \<le> pow2 (flog2 y)"
    using assms scaled_le_pow2 [of "rnd_exp x" "flog2 y" x] by (simp add: rnd64_def)
  also have "pow2 (flog2 y) \<le> rnd64 y"
    using assms ey flog2_bounds(1) [of y] scaled_ge_pow2 [of "rnd_exp y" "flog2 y" y]
    by (simp add: rnd64_def)
  finally show ?thesis .
qed

lemma rnd64_mono: "x \<le> y \<Longrightarrow> rnd64 x \<le> rnd64 y"
proof -
  assume xy: "x \<le> y"
  consider "0 < x" | "x \<le> 0" "0 \<le> y" | "y < 0" by linarith
  then show ?thesis
  proof cases
    case 1 then show ?thesis using xy by (rule rnd64_mono_pos)
  next
    case 2 then show ?thesis using rnd64_nonpos rnd64_nonneg order_trans by blast
  next
    case 3
    then have "rnd64 (- y) \<le> rnd64 (- x)" using xy by (intro rnd64_mono_pos) auto
    then show ?thesis by (simp add: rnd64_minus)
  qed
qed

text \<open>Numbers on the subnormal grid: every representable number, every sum of two of them.\<close>

definition on_grid :: "rat \<Rightarrow> bool" where
  "on_grid r \<longleftrightarrow> (\<exists>i::int. r = of_int i * pow2 (- 1074))"

lemma on_grid_diff: "on_grid a \<Longrightarrow> on_grid b \<Longrightarrow> on_grid (a - b)"
  by (auto simp: on_grid_def left_diff_distrib [symmetric] simp flip: of_int_diff)

lemma on_grid_add: "on_grid a \<Longrightarrow> on_grid b \<Longrightarrow> on_grid (a + b)"
  by (auto simp: on_grid_def distrib_right [symmetric] simp flip: of_int_add)

lemma on_grid_of_int: "on_grid (of_int i)"
proof -
  have "of_int i = of_int (i * 2 ^ 1074) * pow2 (- 1074)"
    by (simp add: pow2_def)
  then show ?thesis unfolding on_grid_def by blast
qed

lemma on_grid_rnd64: "on_grid (rnd64 x)"
proof (cases "x = 0")
  case True
  then show ?thesis using on_grid_of_int [of 0] by simp
next
  case False
  let ?e = "rnd_exp x"
  have e: "0 \<le> ?e + 1074" by (simp add: rnd_exp_def)
  have "pow2 ?e = pow2 (?e + 1074) * pow2 (- 1074)"
    by (subst pow2_add [symmetric]) simp
  then have "pow2 ?e = of_int (2 ^ nat (?e + 1074)) * pow2 (- 1074)"
    unfolding pow2_is_int [OF e] .
  then have "rnd64 x = of_int (rne (x / pow2 ?e) * 2 ^ nat (?e + 1074)) * pow2 (- 1074)"
    using False by (simp add: rnd64_def)
  then show ?thesis unfolding on_grid_def by blast
qed

lemma is64_on_grid: "is64 r \<Longrightarrow> on_grid r"
  using on_grid_rnd64 [of r] by (simp add: is64_def)

text \<open>Gradual underflow: a nonzero number on the grid does not round to zero.\<close>

lemma rnd64_grid_pos:
  assumes "on_grid x" "0 < x"
  shows "0 < rnd64 x"
proof -
  let ?e = "rnd_exp x"
  have "1 \<le> x / pow2 ?e"
  proof (cases "flog2 x - 52 \<le> - 1074")
    case True
    then have e: "?e = - 1074" using assms by (simp add: rnd_exp_def)
    obtain i :: int where i: "x = of_int i * pow2 (- 1074)" using assms(1) by (auto simp: on_grid_def)
    with assms(2) have "0 < i"
      using pow2_pos [of "- 1074"] by (auto simp: zero_less_mult_iff simp del: pow2_pos)
    then have "(1::rat) \<le> of_int i" by simp
    with i e show ?thesis by simp
  next
    case False
    then have e: "?e = flog2 x - 52" using assms by (simp add: rnd_exp_def)
    have "pow2 ?e \<le> pow2 (flog2 x)" using e by (intro pow2_mono) simp
    also have "\<dots> \<le> x" using flog2_bounds(1) [OF assms(2)] .
    finally show ?thesis by (simp add: le_divide_eq)
  qed
  then have "1 \<le> rne (x / pow2 ?e)" by (rule rne_pos)
  with assms show ?thesis by (simp add: rnd64_def)
qed

lemma rnd64_sgn: "on_grid x \<Longrightarrow> rnd64 x < 0 \<longleftrightarrow> x < 0"
proof -
  assume g: "on_grid x"
  have "x < 0 \<Longrightarrow> rnd64 x < 0"
  proof -
    assume "x < 0"
    moreover have "on_grid (- x)" using on_grid_diff [OF on_grid_of_int [of 0] g] by simp
    ultimately have "0 < rnd64 (- x)" by (intro rnd64_grid_pos) auto
    then show ?thesis by (simp add: rnd64_minus)
  qed
  then show ?thesis using rnd64_nonneg [of x] by fastforce
qed

lemma rnd64_eq_0: "on_grid x \<Longrightarrow> rnd64 x = 0 \<longleftrightarrow> x = 0"
  using rnd64_sgn [of x] rnd64_grid_pos [of x] by (cases "x < 0"; cases "x = 0") fastforce+

text \<open>A number on its own rounding grid is not changed; in particular small integers.\<close>

lemma rnd64_exact:
  assumes "x = of_int m * pow2 k" "rnd_exp x \<le> k"
  shows "rnd64 x = x"
proof (cases "x = 0")
  case False
  let ?e = "rnd_exp x"
  have "pow2 k / pow2 ?e = of_int (2 ^ nat (k - ?e))"
    using assms(2) by (simp add: pow2_diff pow2_is_int)
  then have "x / pow2 ?e = of_int (m * 2 ^ nat (k - ?e))"
    unfolding assms(1) by (metis of_int_mult times_divide_eq_right)
  then have "of_int (rne (x / pow2 ?e)) = x / pow2 ?e" by (metis rne_of_int)
  with False show ?thesis by (simp add: rnd64_def)
qed simp

lemma flog2_le: "0 < x \<Longrightarrow> x < pow2 (k + 1) \<Longrightarrow> flog2 x \<le> k"
proof (rule ccontr)
  assume a: "0 < x" "x < pow2 (k + 1)" "\<not> flog2 x \<le> k"
  then have "pow2 (k + 1) \<le> pow2 (flog2 x)" by (intro pow2_mono) simp
  with flog2_bounds(1) [of x] a show False by linarith
qed

lemma rnd64_of_int:
  assumes "\<bar>i\<bar> \<le> 2 ^ 53"
  shows "rnd64 (of_int i) = of_int i"
proof (cases "\<bar>i\<bar> < 2 ^ 53")
  case True
  show ?thesis
  proof (cases "i = 0")
    case False
    have "\<bar>of_int i :: rat\<bar> < of_int (2 ^ 53)" using True by (metis of_int_abs of_int_less_iff)
    then have "flog2 \<bar>of_int i :: rat\<bar> \<le> 52"
      using False by (intro flog2_le) (auto simp: pow2_def)
    then have "rnd_exp (of_int i) \<le> 0" by (simp add: rnd_exp_def)
    then show ?thesis by (intro rnd64_exact [of _ i 0]) (simp_all add: pow2_def)
  qed simp
next
  case False
  with assms have "\<bar>i\<bar> = 2 ^ 53" by linarith
  then obtain s where s: "i = s * 2 ^ 53" "\<bar>s\<bar> = (1::int)" by (cases "0 \<le> i") force+
  have "\<bar>of_int i :: rat\<bar> = of_int (2 ^ 53)" using \<open>\<bar>i\<bar> = 2 ^ 53\<close> by (metis of_int_abs)
  then have "flog2 \<bar>of_int i :: rat\<bar> \<le> 53" by (intro flog2_le) (auto simp: pow2_def)
  then have "rnd_exp (of_int i) \<le> 1" by (simp add: rnd_exp_def)
  moreover have "(of_int i :: rat) = of_int (s * 2 ^ 52) * pow2 1" by (simp add: s pow2_def)
  ultimately show ?thesis by (metis rnd64_exact)
qed

lemma is64_of_int: "\<bar>i\<bar> \<le> 2 ^ 53 \<Longrightarrow> is64 (of_int i)"
proof -
  assume i: "\<bar>i\<bar> \<le> 2 ^ 53"
  then have "\<bar>of_int i :: rat\<bar> \<le> of_int (2 ^ 53)" by (metis of_int_abs of_int_le_iff)
  then have "\<bar>of_int i :: rat\<bar> < max64" by (simp add: max64_def)
  with rnd64_of_int [OF i] show ?thesis by (simp add: is64_def)
qed

lemma mk_flt_exact: "is64 r \<Longrightarrow> r \<noteq> 0 \<Longrightarrow> mk_flt s r = Fin r"
  by (auto simp: mk_flt_def is64_def Let_def abs_if split: if_splits)

lemma int_to_flt_exact: "\<bar>i\<bar> \<le> 2 ^ 53 \<Longrightarrow> int_to_flt i = Fin (of_int i)"
  using is64_of_int [of i] by (cases "i = 0") (simp_all add: int_to_flt_def mk_flt_exact, simp add: mk_flt_def)

text \<open>The sign of a computed difference is the sign of the exact one.\<close>

lemma fsub_sign:
  assumes "is_finite a" "is_finite b" "is64 (fval a)" "is64 (fval b)"
  shows "\<exists>x. flt_x (fsub a b) = Some x \<and> (XRat 0 \<le> x \<longleftrightarrow> fval b \<le> fval a)"
proof -
  have fin: "is_finite (fneg b)" "fval (fneg b) = - fval b"
    using assms(2) by (cases b; simp)+
  let ?s = "fval a - fval b"
  have g: "on_grid ?s" using assms(3,4) by (intro on_grid_diff is64_on_grid)
  show ?thesis
  proof (cases "?s = 0")
    case True
    then have "fsub a b \<in> {NegZero, Fin 0}" using assms(1,2) fin
      by (cases a; cases b) (auto simp: fsub_def fadd_def Let_def)
    then show ?thesis using True by auto
  next
    case False
    then have m: "fsub a b = mk_flt (?s < 0) ?s" using assms(1,2) fin
      by (cases a; cases b) (auto simp: fsub_def fadd_def Let_def)
    have "flt_x (mk_flt (?s < 0) ?s) = Some (if max64 \<le> rnd64 ?s then XPosInf
        else if rnd64 ?s \<le> - max64 then XNegInf else XRat (rnd64 ?s))"
      by (auto simp: mk_flt_def Let_def max64_def)
    moreover have "0 \<le> rnd64 ?s \<longleftrightarrow> 0 \<le> ?s" using rnd64_sgn [OF g] by linarith
    ultimately show ?thesis using False unfolding m by (auto simp: max64_def)
  qed
qed


subsection \<open>The order of floats\<close>

text \<open>Floats that are numbers and not negative; their order is that of their values.\<close>

definition fx :: "flt \<Rightarrow> xrat" where
  "fx f = (case flt_x f of Some x \<Rightarrow> x | None \<Rightarrow> XNegInf)"

definition nonneg :: "flt \<Rightarrow> bool" where
  "nonneg f \<longleftrightarrow> XRat 0 \<le> fx f"

definition finite_nonneg :: "flt \<Rightarrow> bool" where
  "finite_nonneg f \<longleftrightarrow> is_finite f \<and> 0 \<le> fval f"

lemma fx_simps [simp]:
  "fx (Fin r) = XRat r" "fx NegZero = XRat 0" "fx PosInf = XPosInf" "fx NegInf = XNegInf" "fx NaN = XNegInf"
  by (simp_all add: fx_def)

lemma finite_fx: "is_finite f \<Longrightarrow> fx f = XRat (fval f)"
  by (cases f) auto

lemma nonneg_cases: "nonneg f \<Longrightarrow> (is_finite f \<and> 0 \<le> fval f) \<or> f = PosInf"
  by (cases f) (auto simp: nonneg_def)

lemma fx_mk_flt: "fx (mk_flt s x) = (if max64 \<le> rnd64 x then XPosInf
    else if rnd64 x \<le> - max64 then XNegInf else XRat (rnd64 x))"
  by (auto simp: mk_flt_def Let_def max64_def)

lemma fx_mk_flt_mono: "x \<le> y \<Longrightarrow> fx (mk_flt s x) \<le> fx (mk_flt t y)"
  using rnd64_mono [of x y] by (auto simp: fx_mk_flt)

lemma nonneg_mk_flt: "0 \<le> x \<Longrightarrow> nonneg (mk_flt s x)"
  using rnd64_nonneg [of x] by (auto simp: nonneg_def fx_mk_flt max64_def)

lemma fx_fadd_finite: "is_finite a \<Longrightarrow> is_finite b \<Longrightarrow> fx (fadd a b) = fx (mk_flt False (fval a + fval b))"
  by (cases a; cases b) (auto simp: fadd_def Let_def fx_mk_flt max64_def)

lemma fadd_PosInf: "nonneg a \<Longrightarrow> fadd a PosInf = PosInf" "nonneg a \<Longrightarrow> fadd PosInf a = PosInf"
  by (cases a; auto simp: fadd_def nonneg_def)+

lemma nonneg_fadd: "nonneg a \<Longrightarrow> nonneg b \<Longrightarrow> nonneg (fadd a b)"
  using nonneg_cases [of a] nonneg_cases [of b] nonneg_mk_flt [of "fval a + fval b" False]
  by (auto simp: fadd_PosInf nonneg_def fx_fadd_finite)

lemma fadd_mono:
  assumes "nonneg a" "nonneg b" "nonneg a'" "nonneg b'" "fx a \<le> fx a'" "fx b \<le> fx b'"
  shows "fx (fadd a b) \<le> fx (fadd a' b')"
proof (cases "a' = PosInf \<or> b' = PosInf")
  case True
  then have "fadd a' b' = PosInf" using assms(3,4) fadd_PosInf by auto
  then show ?thesis by (cases "fx (fadd a b)") auto
next
  case False
  with assms(3,4) have fin': "is_finite a'" "is_finite b'" using nonneg_cases by blast+
  with assms have fin: "is_finite a" "is_finite b"
    using nonneg_cases [of a] nonneg_cases [of b] by (auto simp: finite_fx)
  from assms(5,6) fin fin' have "fval a + fval b \<le> fval a' + fval b'"
    by (auto simp: finite_fx intro: add_mono)
  then show ?thesis by (simp add: fx_fadd_finite fin fin' fx_mk_flt_mono)
qed

text \<open>Adding something that is not negative does not decrease a representable number.\<close>

lemma fadd_ge:
  assumes "is_finite a" "is64 (fval a)" "nonneg b"
  shows "fx a \<le> fx (fadd a b)"
proof (cases "is_finite b")
  case True
  then have b: "0 \<le> fval b" using assms(3) by (cases b) (auto simp: nonneg_def)
  have "rnd64 (fval a) = fval a" "\<bar>fval a\<bar> < max64" using assms(2) by (auto simp: is64_def)
  then have "fx a = fx (mk_flt False (fval a))"
    using assms(1) by (auto simp: finite_fx fx_mk_flt)
  also have "\<dots> \<le> fx (mk_flt False (fval a + fval b))" using b by (intro fx_mk_flt_mono) simp
  finally show ?thesis by (simp add: fx_fadd_finite assms(1) True)
next
  case False
  then have "b = PosInf" using assms(3) by (cases b) (auto simp: nonneg_def)
  then have "fadd a b = PosInf" using assms(1) by (cases a) (auto simp: fadd_def)
  then show ?thesis by (cases "fx a") auto
qed

lemma fadd_not_NaN: "is_finite a \<Longrightarrow> nonneg b \<Longrightarrow> fadd a b \<noteq> NaN"
  by (cases a; cases b) (auto simp: fadd_def nonneg_def mk_flt_def Let_def)

lemma nonneg_int_to_flt: "0 \<le> i \<Longrightarrow> nonneg (int_to_flt i)"
  unfolding int_to_flt_def by (rule nonneg_mk_flt) simp

end
