(* ===== verification/PyValue.thy ===== *)
theory PyValue
  imports PyFloat
begin

section \<open>Dynamic values of the program\<close>

text \<open>
  The JSON values that snapshots, actions, policies and payloads are made of, with the
  Python operations the code applies to them: \<open>==\<close>, the four orderings (which raise
  \<open>TypeError\<close> across kinds), truth, arithmetic on \<open>int\<close> and \<open>float\<close>, \<open>str\<close> and
  \<open>repr\<close>, and the dotted lookups.  A Python \<open>bool\<close> is a number wherever the source
  lets it be one (\<open>isinstance(x, (int, float))\<close>).  Characters are code points below 256.
\<close>

datatype pv =
    VNone
  | VBool bool
  | VInt int
  | VFloat flt
  | VStr string
  | VList "pv list"
  | VDict "(string \<times> pv) list"

subsection \<open>Numbers\<close>

datatype pnum = NI int | NF flt

fun num_of :: "pv \<Rightarrow> pnum option" where
  "num_of (VBool b) = Some (NI (if b then 1 else 0))"
| "num_of (VInt i) = Some (NI i)"
| "num_of (VFloat f) = Some (NF f)"
| "num_of v = None"

fun of_num :: "pnum \<Rightarrow> pv" where
  "of_num (NI i) = VInt i"
| "of_num (NF f) = VFloat f"

definition is_number :: "pv \<Rightarrow> bool" where
  "is_number v \<longleftrightarrow> num_of v \<noteq> None"

fun num_x :: "pnum \<Rightarrow> xrat option" where
  "num_x (NI i) = Some (XRat (of_int i))"
| "num_x (NF f) = flt_x f"

text \<open>The orderings, exact also between \<open>int\<close> and \<open>float\<close>; NaN is related to nothing.\<close>

datatype rel = RLt | RLe | RGt | RGe

fun rel_on :: "rel \<Rightarrow> 'a::linorder \<Rightarrow> 'a \<Rightarrow> bool" where
  "rel_on RLt x y = (x < y)"
| "rel_on RLe x y = (x \<le> y)"
| "rel_on RGt x y = (y < x)"
| "rel_on RGe x y = (y \<le> x)"

fun rel_sym :: "rel \<Rightarrow> string" where
  "rel_sym RLt = ''<''"
| "rel_sym RLe = ''<=''"
| "rel_sym RGt = ''>''"
| "rel_sym RGe = ''>=''"

definition num_rel :: "rel \<Rightarrow> pnum \<Rightarrow> pnum \<Rightarrow> bool" where
  "num_rel r a b = (case (num_x a, num_x b) of (Some x, Some y) \<Rightarrow> rel_on r x y | _ \<Rightarrow> False)"

definition num_eq :: "pnum \<Rightarrow> pnum \<Rightarrow> bool" where
  "num_eq a b = (case (num_x a, num_x b) of (Some x, Some y) \<Rightarrow> x = y | _ \<Rightarrow> False)"

abbreviation num_lt :: "pnum \<Rightarrow> pnum \<Rightarrow> bool" where "num_lt \<equiv> num_rel RLt"
abbreviation num_le :: "pnum \<Rightarrow> pnum \<Rightarrow> bool" where "num_le \<equiv> num_rel RLe"

text \<open>\<open>float(i)\<close> raises when the integer is out of range.\<close>

fun num_flt :: "pnum \<Rightarrow> flt res" where
  "num_flt (NI i) = (let f = int_to_flt i in
     if is_finite f then Inr f else raise OverflowError ''int too large to convert to float'')"
| "num_flt (NF f) = Inr f"

definition num_op :: "(int \<Rightarrow> int \<Rightarrow> int) \<Rightarrow> (flt \<Rightarrow> flt \<Rightarrow> flt) \<Rightarrow> pnum \<Rightarrow> pnum \<Rightarrow> pnum res" where
  "num_op fi ff a b = (case (a, b) of
     (NI i, NI j) \<Rightarrow> Inr (NI (fi i j))
   | _ \<Rightarrow> bindR (num_flt a) (\<lambda>x. bindR (num_flt b) (\<lambda>y. Inr (NF (ff x y)))))"

definition nadd :: "pnum \<Rightarrow> pnum \<Rightarrow> pnum res" where "nadd = num_op (+) fadd"
definition nsub :: "pnum \<Rightarrow> pnum \<Rightarrow> pnum res" where "nsub = num_op (-) fsub"
definition nmul :: "pnum \<Rightarrow> pnum \<Rightarrow> pnum res" where "nmul = num_op (*) fmul"

fun nabs :: "pnum \<Rightarrow> pnum" where
  "nabs (NI i) = NI \<bar>i\<bar>"
| "nabs (NF f) = NF (fabs f)"

text \<open>True division: two integers are divided exactly and rounded once.\<close>

fun ndiv :: "pnum \<Rightarrow> pnum \<Rightarrow> pnum res" where
  "ndiv (NI i) (NI j) =
     (if j = 0 then raise ZeroDivisionError ''division by zero''
      else (let f = mk_flt ((i < 0) \<noteq> (j < 0)) (of_int i / of_int j) in
        if is_finite f then Inr (NF f)
        else raise OverflowError ''integer division result too large for a float''))"
| "ndiv a b = bindR (num_flt a) (\<lambda>x. bindR (num_flt b) (\<lambda>y.
     if is_finite y \<and> fval y = 0 then raise ZeroDivisionError ''float division by zero''
     else Inr (NF (fdiv x y))))"

fun nround :: "nat \<Rightarrow> pnum \<Rightarrow> pnum" where
  "nround n (NI i) = NI i"
| "nround n (NF f) = NF (fround n f)"

text \<open>\<open>min\<close> and \<open>max\<close> keep the earlier argument unless the later one is strictly better.\<close>

fun nmin_list :: "pnum \<Rightarrow> pnum list \<Rightarrow> pnum" where
  "nmin_list m [] = m"
| "nmin_list m (x # xs) = nmin_list (if num_rel RLt x m then x else m) xs"

fun nmax_list :: "pnum \<Rightarrow> pnum list \<Rightarrow> pnum" where
  "nmax_list m [] = m"
| "nmax_list m (x # xs) = nmax_list (if num_rel RGt x m then x else m) xs"

definition ninf :: pnum where "ninf = NF PosInf"
definition nneginf :: pnum where "nneginf = NF NegInf"

subsection \<open>Kinds, truth and equality\<close>

fun type_name :: "pv \<Rightarrow> string" where
  "type_name VNone = ''NoneType''"
| "type_name (VBool b) = ''bool''"
| "type_name (VInt i) = ''int''"
| "type_name (VFloat f) = ''float''"
| "type_name (VStr s) = ''str''"
| "type_name (VList xs) = ''list''"
| "type_name (VDict d) = ''dict''"

fun is_dict :: "pv \<Rightarrow> bool" where
  "is_dict (VDict d) = True"
| "is_dict v = False"

fun as_dict :: "pv \<Rightarrow> pv dict" where
  "as_dict (VDict d) = d"
| "as_dict v = []"

fun as_list :: "pv \<Rightarrow> pv list" where
  "as_list (VList xs) = xs"
| "as_list v = []"

fun truthy :: "pv \<Rightarrow> bool" where
  "truthy VNone = False"
| "truthy (VBool b) = b"
| "truthy (VInt i) = (i \<noteq> 0)"
| "truthy (VFloat f) = (f \<noteq> Fin 0 \<and> f \<noteq> NegZero)"
| "truthy (VStr s) = (s \<noteq> [])"
| "truthy (VList xs) = (xs \<noteq> [])"
| "truthy (VDict d) = (d \<noteq> [])"

lemma zip_size [termination_simp]:
  "(x, y) \<in> set (zip xs ys) \<Longrightarrow> f x < Suc (size_list f xs)"
  "(x, y) \<in> set (zip xs ys) \<Longrightarrow> f x \<le> size_list f xs"
  by (auto dest!: set_zip_leftD intro: size_list_estimation' simp: less_Suc_eq_le)

text \<open>\<open>==\<close>: dictionaries are compared without regard to order, numbers by value.\<close>

fun py_eq :: "pv \<Rightarrow> pv \<Rightarrow> bool" where
  "py_eq VNone w = (w = VNone)"
| "py_eq (VStr s) w = (w = VStr s)"
| "py_eq (VList xs) w = (case w of VList ys \<Rightarrow>
     length xs = length ys \<and> list_all (\<lambda>(x, y). py_eq x y) (zip xs ys) | _ \<Rightarrow> False)"
| "py_eq (VDict d) w = (case w of VDict e \<Rightarrow>
     length d = length e \<and> list_all (\<lambda>(k, v). case dget e k of None \<Rightarrow> False | Some u \<Rightarrow> py_eq v u) d
   | _ \<Rightarrow> False)"
| "py_eq v w = (case (num_of v, num_of w) of (Some a, Some b) \<Rightarrow> num_eq a b | _ \<Rightarrow> False)"


text \<open>Membership: \<open>v in xs\<close> for a list.\<close>

definition py_in :: "pv \<Rightarrow> pv list \<Rightarrow> bool" where
  "py_in v xs \<longleftrightarrow> list_ex (\<lambda>x. py_eq x v) xs"

subsection \<open>Orderings\<close>

definition no_order :: "rel \<Rightarrow> pv \<Rightarrow> pv \<Rightarrow> 'a res" where
  "no_order r a b = raise TypeError (concat [[CHR 0x27], rel_sym r, [CHR 0x27],
     '' not supported between instances of '', [CHR 0x27], type_name a, [CHR 0x27], '' and '', [CHR 0x27], type_name b, [CHR 0x27]])"

text \<open>Lists are compared at the first position where they differ, then by length.\<close>

fun py_rel :: "rel \<Rightarrow> pv \<Rightarrow> pv \<Rightarrow> bool res" and py_rel_list :: "rel \<Rightarrow> pv list \<Rightarrow> pv list \<Rightarrow> bool res" where
  "py_rel r a b = (case (num_of a, num_of b) of
     (Some x, Some y) \<Rightarrow> Inr (num_rel r x y)
   | _ \<Rightarrow> (case (a, b) of
       (VStr s, VStr t) \<Rightarrow> Inr (rel_on r s t)
     | (VList xs, VList ys) \<Rightarrow> py_rel_list r xs ys
     | _ \<Rightarrow> no_order r a b))"
| "py_rel_list r [] ys = Inr (rel_on r 0 (length ys))"
| "py_rel_list r (x # xs) [] = Inr (rel_on r (Suc 0) 0)"
| "py_rel_list r (x # xs) (y # ys) = (if py_eq x y then py_rel_list r xs ys else py_rel r x y)"

declare py_rel.simps [simp del]

lemma py_rel_number: "num_of l = Some y \<Longrightarrow> py_rel r v l = (case num_of v of
     Some x \<Rightarrow> Inr (num_rel r x y) | None \<Rightarrow> no_order r v l)"
  by (subst py_rel.simps) (cases v; cases l; simp)

lemma no_order_not_Inr [simp]: "no_order r a b \<noteq> Inr c"
  by (simp add: no_order_def)

subsection \<open>Text: \<open>repr\<close>, \<open>str\<close> and \<open>json.dumps\<close>\<close>

definition hex_digit :: "nat \<Rightarrow> char" where
  "hex_digit n = (if n < 10 then char_of (48 + n) else char_of (87 + n))"

definition hex2 :: "char \<Rightarrow> string" where
  "hex2 c = [hex_digit (of_char c div 16), hex_digit (of_char c mod 16)]"

definition repr_char :: "char \<Rightarrow> char \<Rightarrow> string" where
  "repr_char q c = (let n = of_char c :: nat in
     if c = q \<or> c = CHR 0x5C then [CHR 0x5C, c]
     else if n = 9 then [CHR 0x5C, CHR ''t'']
     else if n = 10 then [CHR 0x5C, CHR ''n'']
     else if n = 13 then [CHR 0x5C, CHR ''r'']
     else if n < 32 \<or> (127 \<le> n \<and> n \<le> 160) \<or> n = 173 then [CHR 0x5C, CHR ''x''] @ hex2 c
     else [c])"

definition str_repr :: "string \<Rightarrow> string" where
  "str_repr s = (let q = (if CHR 0x27 \<in> set s \<and> CHR 0x22 \<notin> set s then CHR 0x22 else CHR 0x27)
     in [q] @ concat (map (repr_char q) s) @ [q])"

fun py_repr :: "pv \<Rightarrow> string" where
  "py_repr VNone = ''None''"
| "py_repr (VBool b) = (if b then ''True'' else ''False'')"
| "py_repr (VInt i) = str_int i"
| "py_repr (VFloat f) = flt_repr f"
| "py_repr (VStr s) = str_repr s"
| "py_repr (VList xs) = ''['' @ join_with '', '' (map py_repr xs) @ '']''"
| "py_repr (VDict d) = ''{'' @ join_with '', '' (map (\<lambda>(k, v). str_repr k @ '': '' @ py_repr v) d) @ ''}''"

fun py_str :: "pv \<Rightarrow> string" where
  "py_str (VStr s) = s"
| "py_str v = py_repr v"

text \<open>\<open>json.dumps\<close> of a string: ASCII only, short escapes where JSON has them.\<close>

definition json_char :: "char \<Rightarrow> string" where
  "json_char c = (let n = of_char c :: nat in
     if c = CHR 0x22 \<or> c = CHR 0x5C then [CHR 0x5C, c]
     else if n = 8 then [CHR 0x5C, CHR ''b'']
     else if n = 9 then [CHR 0x5C, CHR ''t'']
     else if n = 10 then [CHR 0x5C, CHR ''n'']
     else if n = 12 then [CHR 0x5C, CHR ''f'']
     else if n = 13 then [CHR 0x5C, CHR ''r'']
     else if n < 32 \<or> 126 < n then [CHR 0x5C] @ ''u00'' @ hex2 c
     else [c])"

definition json_str :: "string \<Rightarrow> string" where
  "json_str s = [CHR 0x22] @ concat (map json_char s) @ [CHR 0x22]"

subsection \<open>Lookups\<close>

definition vget :: "pv dict \<Rightarrow> string \<Rightarrow> pv" where
  "vget d k = dget_or d k VNone"

fun walk_keys :: "pv \<Rightarrow> string list \<Rightarrow> pv" where
  "walk_keys v [] = v"
| "walk_keys (VDict d) (k # ks) = (case dget d k of Some w \<Rightarrow> walk_keys w ks | None \<Rightarrow> VNone)"
| "walk_keys v (k # ks) = VNone"

lemma vget_simps [simp]:
  "vget [] k = VNone" "vget ((k', v) # d) k = (if k' = k then v else vget d k)"
  by (auto simp: vget_def dget_or_def)

lemma vget_dset: "vget (dset k v d) k' = (if k' = k then v else vget d k')"
  by (simp add: vget_def dget_or_def)

lemma vget_Some: "dget d k = Some v \<Longrightarrow> vget d k = v"
  by (simp add: vget_def dget_or_def)

text \<open>\<open>x or default\<close>\<close>

definition or_else :: "pv \<Rightarrow> pv \<Rightarrow> pv" where
  "or_else v w = (if truthy v then v else w)"

subsection \<open>Conversions: \<open>float(x)\<close> and \<open>int(x)\<close>\<close>

definition is_space :: "char \<Rightarrow> bool" where
  "is_space c \<longleftrightarrow> (let n = of_char c :: nat in (9 \<le> n \<and> n \<le> 13) \<or> (28 \<le> n \<and> n \<le> 32) \<or> n = 133 \<or> n = 160)"

definition strip_ws :: "string \<Rightarrow> string" where
  "strip_ws s = rev (dropWhile is_space (rev (dropWhile is_space s)))"

definition lower_char :: "char \<Rightarrow> char" where
  "lower_char c = (let n = of_char c :: nat in if 65 \<le> n \<and> n \<le> 90 then char_of (n + 32) else c)"

text \<open>Digits with single underscores between them; the digits without the underscores.\<close>

definition digit_run :: "string \<Rightarrow> string option" where
  "digit_run s = (let ps = split_on CHR ''_'' s in
     if list_all (\<lambda>p. p \<noteq> [] \<and> list_all is_digit p) ps then Some (concat ps) else None)"

definition split_sign :: "string \<Rightarrow> bool \<times> string" where
  "split_sign s = (case s of [] \<Rightarrow> (False, [])
     | c # cs \<Rightarrow> if c = CHR ''-'' then (True, cs) else if c = CHR ''+'' then (False, cs) else (False, s))"

definition int_text :: "string \<Rightarrow> int option" where
  "int_text s = (let (neg, t) = split_sign (strip_ws s) in
     map_option (\<lambda>ds. (if neg then - 1 else 1) * digits_val 0 ds) (digit_run t))"

definition flt_text :: "string \<Rightarrow> flt option" where
  "flt_text s = (let (neg, t) = split_sign (map lower_char (strip_ws s)) in
     if t = ''inf'' \<or> t = ''infinity'' then Some (finf neg)
     else if t = ''nan'' then Some NaN
     else (let mant = takeWhile (\<lambda>c. c \<noteq> CHR ''e'') t; ex = drop (length mant) t;
               ip = takeWhile (\<lambda>c. c \<noteq> CHR ''.'') mant; fp = drop (length ip) mant;
               opt_run = (\<lambda>x. if x = [] then Some [] else digit_run x) in
       case (opt_run ip, opt_run (drop 1 fp),
             if ex = [] then Some 0 else
               (let (en, et) = split_sign (drop 1 ex) in
                 map_option (\<lambda>ds. (if en then - 1 else 1) * digits_val 0 ds) (digit_run et))) of
         (Some i, Some f, Some e) \<Rightarrow>
           if i = [] \<and> f = [] then None
           else Some (let x = of_int (digits_val 0 (i @ f)) * pow10 (e - int (length f)) in
                  mk_flt neg (if neg then - x else x))
       | _ \<Rightarrow> None))"

fun py_float :: "pv \<Rightarrow> flt res" where
  "py_float (VStr s) = (case flt_text s of Some f \<Rightarrow> Inr f
     | None \<Rightarrow> raise ValueError (''could not convert string to float: '' @ str_repr s))"
| "py_float v = (case num_of v of Some n \<Rightarrow> num_flt n
     | None \<Rightarrow> raise TypeError (concat [''float() argument must be a string or a real number, not '',
         [CHR 0x27], type_name v, [CHR 0x27]]))"

fun flt_int :: "flt \<Rightarrow> int res" where
  "flt_int (Fin r) = Inr (if 0 \<le> r then \<lfloor>r\<rfloor> else \<lceil>r\<rceil>)"
| "flt_int NegZero = Inr 0"
| "flt_int NaN = raise ValueError ''cannot convert float NaN to integer''"
| "flt_int f = raise OverflowError ''cannot convert float infinity to integer''"

fun py_int :: "pv \<Rightarrow> int res" where
  "py_int (VStr s) = (case int_text s of Some i \<Rightarrow> Inr i
     | None \<Rightarrow> raise ValueError (''invalid literal for int() with base 10: '' @ str_repr s))"
| "py_int (VFloat f) = flt_int f"
| "py_int (VInt i) = Inr i"
| "py_int (VBool b) = Inr (if b then 1 else 0)"
| "py_int v = raise TypeError (concat [''int() argument must be a string, a bytes-like object or a real number, not '',
         [CHR 0x27], type_name v, [CHR 0x27]])"

text \<open>An arithmetic operator on two values: \<open>TypeError\<close> unless both are numbers.\<close>

definition arith_op :: "string \<Rightarrow> (pnum \<Rightarrow> pnum \<Rightarrow> pnum res) \<Rightarrow> pv \<Rightarrow> pv \<Rightarrow> pnum res" where
  "arith_op s f a b = (case (num_of a, num_of b) of
     (Some x, Some y) \<Rightarrow> f x y
   | _ \<Rightarrow> raise TypeError (concat [''unsupported operand type(s) for '', s, '': '',
         [CHR 0x27], type_name a, [CHR 0x27], '' and '', [CHR 0x27], type_name b, [CHR 0x27]]))"

end
