(* ===== verification/Models.thy ===== *)
theory Models
  imports PyValue
begin

section \<open>Domain models (core/models/common.py)\<close>

text \<open>
  The pydantic models as records, their enumerations and literals as datatypes.  Objects of
  these types have passed the constructor's validation, so a field has its declared type; a
  field \<open>Any\<close> is a value \<open>pv\<close>, with \<open>VNone\<close> for an absent one.
\<close>

datatype rule_type = THRESHOLD | RANGE | ENUM | FORBIDDEN_COMBINATION

datatype cmp_op = OpLt | OpLte | OpGt | OpGte | OpEq | OpNe

fun op_text :: "cmp_op \<Rightarrow> string" where
  "op_text OpLt = ''lt''"
| "op_text OpLte = ''lte''"
| "op_text OpGt = ''gt''"
| "op_text OpGte = ''gte''"
| "op_text OpEq = ''eq''"
| "op_text OpNe = ''ne''"

record rule_condition =
  rc_field :: string
  rc_operator :: cmp_op
  rc_value :: pv

record rule =
  r_rule_id :: string
  r_type :: rule_type
  r_target_field :: string
  r_operator :: "cmp_op option"
  r_value :: pv
  r_min :: "flt option"
  r_max :: "flt option"
  r_allowed_values :: "pv list option"
  r_forbidden_pairs :: "string list list option"
  r_conditions :: "rule_condition list option"
  r_unit :: "string option"
  r_aas_source :: "string option"

datatype verdict = SAFE | UNSAFE | INDETERMINATE

fun verdict_text :: "verdict \<Rightarrow> string" where
  "verdict_text SAFE = ''SAFE''"
| "verdict_text UNSAFE = ''UNSAFE''"
| "verdict_text INDETERMINATE = ''INDETERMINATE''"

record validator_verdict =
  vv_verdict :: verdict
  vv_details :: "pv dict"

datatype consensus_mode = AUTO | AND_MODE | WEIGHTED | WORST_CASE

fun mode_text :: "consensus_mode \<Rightarrow> string" where
  "mode_text AUTO = ''AUTO''"
| "mode_text AND_MODE = ''AND''"
| "mode_text WEIGHTED = ''WEIGHTED''"
| "mode_text WORST_CASE = ''WORST_CASE''"

datatype on_sim_indeterminate = FAIL_CLOSED | RENORMALIZE | TREAT_AS_UNSAFE | IGNORE

record consensus_config =
  cc_mode :: consensus_mode
  cc_weights :: "flt dict option"
  cc_threshold :: "flt option"
  cc_on_sim_indeterminate :: on_sim_indeterminate

record consensus_result =
  cr_final_verdict :: verdict
  cr_mode_used :: string
  cr_weights_used :: "flt dict option"
  cr_score :: "flt option"
  cr_threshold :: "flt option"
  cr_explanation :: string

datatype divergence_method = ABSOLUTE | PERCENTAGE

record divergence_threshold =
  dt_sensor_type :: string
  dt_method :: divergence_method
  dt_max_divergence :: flt

record integrity_config =
  ic_timestamp_max_age_ms :: int
  ic_sensor_divergence_thresholds :: "divergence_threshold list"

text \<open>The declared defaults.\<close>

definition default_rule :: "string \<Rightarrow> rule_type \<Rightarrow> string \<Rightarrow> rule" where
  "default_rule i t f = \<lparr> r_rule_id = i, r_type = t, r_target_field = f, r_operator = None,
     r_value = VNone, r_min = None, r_max = None, r_allowed_values = None,
     r_forbidden_pairs = None, r_conditions = None, r_unit = None, r_aas_source = None \<rparr>"

definition default_consensus_config :: consensus_config where
  "default_consensus_config = \<lparr> cc_mode = AUTO, cc_weights = None, cc_threshold = None,
     cc_on_sim_indeterminate = FAIL_CLOSED \<rparr>"

definition default_integrity_config :: integrity_config where
  "default_integrity_config = \<lparr> ic_timestamp_max_age_ms = 500, ic_sensor_divergence_thresholds = [] \<rparr>"

end
