(* ===== verification/Rules.thy ===== *)
theory Rules
  imports Models
begin

section \<open>The rules validator (core/services/rules_validator.py)\<close>

text \<open>
  Every rule is evaluated on the sensor snapshot, on each action's parameters and on each
  action itself.  The functions follow the source; \<open>TypeError\<close> is caught where the source
  catches it, so a reason (\<open>Some\<close>) or none (\<open>None\<close>) results.  The lemmas describe a SAFE
  verdict source by source and the fail-closed treatment of a missing field.
\<close>

definition get_nested_value :: "pv \<Rightarrow> string \<Rightarrow> pv" where
  "get_nested_value data path = walk_keys data (split_on CHR ''.'' path)"

definition str2 :: "string \<Rightarrow> pv \<Rightarrow> string \<Rightarrow> pv \<Rightarrow> string" where
  "str2 s a t b = s @ py_str a @ t @ py_str b"

text \<open>A test inside the \<open>try\<close>: the message when it fails, the mismatch text on \<open>TypeError\<close>.\<close>

definition unless_true :: "pv \<Rightarrow> pv \<Rightarrow> bool res \<Rightarrow> string \<Rightarrow> string option" where
  "unless_true actual expected t msg = (case t of
     Inl e \<Rightarrow> Some (str2 ''Type mismatch for comparison: '' actual '' vs '' expected)
   | Inr b \<Rightarrow> if b then None else Some msg)"

fun compare_values :: "pv \<Rightarrow> cmp_op \<Rightarrow> pv \<Rightarrow> string option" where
  "compare_values actual OpLt expected = unless_true actual expected (py_rel RLt actual expected)
     (str2 ''Value '' actual '' not < '' expected)"
| "compare_values actual OpLte expected = unless_true actual expected (py_rel RLe actual expected)
     (str2 ''Value '' actual '' not <= '' expected)"
| "compare_values actual OpGt expected = unless_true actual expected (py_rel RGt actual expected)
     (str2 ''Value '' actual '' not > '' expected)"
| "compare_values actual OpGte expected = unless_true actual expected (py_rel RGe actual expected)
     (str2 ''Value '' actual '' not >= '' expected)"
| "compare_values actual OpEq expected =
     (if py_eq actual expected then None else Some (str2 ''Value '' actual '' != '' expected))"
| "compare_values actual OpNe expected =
     (if \<not> py_eq actual expected then None else Some (str2 ''Value '' actual '' == '' expected))"

text \<open>The bounds of a range rule, tested in order; the result is the first failure.\<close>

definition range_check :: "pv \<Rightarrow> flt option \<Rightarrow> flt option \<Rightarrow> string option" where
  "range_check v lo hi =
     (case (case lo of None \<Rightarrow> Inr False | Some m \<Rightarrow> py_rel RLt v (VFloat m)) of
        Inl e \<Rightarrow> Some (''Type mismatch for range check: '' @ py_str v)
      | Inr True \<Rightarrow> Some (str2 ''Value '' v '' < min '' (VFloat (the lo)))
      | Inr False \<Rightarrow>
          (case (case hi of None \<Rightarrow> Inr False | Some m \<Rightarrow> py_rel RGt v (VFloat m)) of
             Inl e \<Rightarrow> Some (''Type mismatch for range check: '' @ py_str v)
           | Inr True \<Rightarrow> Some (str2 ''Value '' v '' > max '' (VFloat (the hi)))
           | Inr False \<Rightarrow> None))"

text \<open>The conditions of a combination: does one fail to hold in the source?\<close>

definition condition_fails :: "pv \<Rightarrow> rule_condition \<Rightarrow> bool" where
  "condition_fails src c = (let actual = get_nested_value src (rc_field c) in
     actual = VNone \<or> compare_values actual (rc_operator c) (rc_value c) \<noteq> None)"

definition condition_text :: "rule_condition \<Rightarrow> string" where
  "condition_text c = rc_field c @ '' '' @ op_text (rc_operator c) @ '' '' @ py_str (rc_value c)"

fun pair_reason :: "pv \<Rightarrow> string list list \<Rightarrow> string option" where
  "pair_reason v [] = None"
| "pair_reason v (p # ps) = (let pr = VList (map VStr p) in
     if py_eq v pr then Some (str2 ''Value '' v '' matches forbidden pair '' pr)
     else if (case v of VList xs \<Rightarrow> list_all (\<lambda>item. py_in (VStr item) xs) p | _ \<Rightarrow> False)
     then Some (str2 ''Value '' v '' contains forbidden pair '' pr)
     else pair_reason v ps)"

definition has_conditions :: "rule \<Rightarrow> bool" where
  "has_conditions r \<longleftrightarrow> (case r_conditions r of None \<Rightarrow> False | Some cs \<Rightarrow> cs \<noteq> [])"

definition check_rule_logic :: "pv \<Rightarrow> rule \<Rightarrow> pv option \<Rightarrow> string option" where
  "check_rule_logic v r source_data = (case r_type r of
     THRESHOLD \<Rightarrow> compare_values v (case r_operator r of None \<Rightarrow> OpEq | Some oper \<Rightarrow> oper) (r_value r)
   | RANGE \<Rightarrow> range_check v (r_min r) (r_max r)
   | ENUM \<Rightarrow> (let allowed = (case r_allowed_values r of None \<Rightarrow> [] | Some xs \<Rightarrow> xs) in
       if \<not> py_in v allowed then Some (str2 ''Value '' v '' not in '' (VList allowed)) else None)
   | FORBIDDEN_COMBINATION \<Rightarrow>
       (case source_data of
          Some src \<Rightarrow> if has_conditions r
            then (let cs = the (r_conditions r) in
              if list_ex (condition_fails src) cs then None
              else Some (''Forbidden combination matched: '' @ join_with '', '' (map condition_text cs)))
            else (case r_forbidden_pairs r of None \<Rightarrow> None | Some ps \<Rightarrow> pair_reason v ps)
        | None \<Rightarrow> (case r_forbidden_pairs r of None \<Rightarrow> None | Some ps \<Rightarrow> pair_reason v ps)))"

definition violation :: "rule \<Rightarrow> string \<Rightarrow> string \<Rightarrow> pv" where
  "violation r source_name reason = VDict [(''rule_id'', VStr (r_rule_id r)),
     (''reason'', VStr (''['' @ source_name @ ''] '' @ reason))]"

abbreviation is_combination :: "rule \<Rightarrow> bool" where
  "is_combination r \<equiv> r_type r = FORBIDDEN_COMBINATION \<and> has_conditions r"

definition evaluate_source :: "rule \<Rightarrow> string \<Rightarrow> pv \<Rightarrow> pv list" where
  "evaluate_source r source_name source_data =
     (if is_combination r
      then (case check_rule_logic VNone r (Some source_data) of
              None \<Rightarrow> [] | Some reason \<Rightarrow> [violation r source_name reason])
      else (let v = get_nested_value source_data (r_target_field r) in
        if v = VNone then []
        else (case check_rule_logic v r (Some source_data) of
                None \<Rightarrow> [] | Some reason \<Rightarrow> [violation r source_name reason])))"

text \<open>
  The body of the loop over the actions: the flag \<open>found_any_source\<close> and the violations so
  far are threaded through.
\<close>

definition check_action :: "rule \<Rightarrow> nat \<Rightarrow> pv \<Rightarrow> bool \<times> pv list \<Rightarrow> bool \<times> pv list" where
  "check_action r idx action st0 =
     (let tag = ''Action['' @ str_nat idx @ '']'';
          params = (case action of VDict d \<Rightarrow> vget d ''params'' | _ \<Rightarrow> VNone);
          st1 = (if is_dict params
                 then (let vs = evaluate_source r tag params in
                   if vs \<noteq> [] then (True, snd st0 @ vs)
                   else if get_nested_value params (r_target_field r) \<noteq> VNone \<or> is_combination r
                   then (True, snd st0) else st0)
                 else st0)
      in if is_dict action
         then (let vs = evaluate_source r (tag @ ''.Field'') action in
           if vs \<noteq> [] then (True, snd st1 @ vs)
           else if get_nested_value action (r_target_field r) \<noteq> VNone then (True, snd st1) else st1)
         else st1)"

fun check_actions :: "rule \<Rightarrow> nat \<Rightarrow> pv list \<Rightarrow> bool \<times> pv list \<Rightarrow> bool \<times> pv list" where
  "check_actions r idx [] st = st"
| "check_actions r idx (a # as) st = check_actions r (Suc idx) as (check_action r idx a st)"

definition check_rule :: "pv \<Rightarrow> pv list \<Rightarrow> rule \<Rightarrow> pv list" where
  "check_rule sensor_snapshot action_sequence r =
     (let sv = evaluate_source r ''Sensor'' sensor_snapshot;
          found0 = (sv \<noteq> [] \<or> get_nested_value sensor_snapshot (r_target_field r) \<noteq> VNone \<or> is_combination r);
          (found, vs) = check_actions r 0 action_sequence (found0, sv)
      in if \<not> found \<and> r_type r \<noteq> FORBIDDEN_COMBINATION
         then vs @ [VDict [(''rule_id'', VStr (r_rule_id r)),
                (''reason'', VStr (concat [''Field '', [CHR 0x27], r_target_field r, [CHR 0x27],
                   '' missing in sensor snapshot and action parameters'']))]]
         else vs)"

definition validate_rules :: "pv \<Rightarrow> pv list \<Rightarrow> rule list \<Rightarrow> validator_verdict" where
  "validate_rules sensor_snapshot action_sequence ruleset =
     (let violated_rules = concat (map (check_rule sensor_snapshot action_sequence) ruleset) in
      if violated_rules \<noteq> []
      then \<lparr> vv_verdict = UNSAFE, vv_details = [(''violated_rules'', VList violated_rules)] \<rparr>
      else \<lparr> vv_verdict = SAFE, vv_details = [] \<rparr>)"

subsection \<open>What the validator promises\<close>

text \<open>
  The specification: the dictionaries a rule is applied to, the reason found in one of them,
  and when a rule passes.  It has no order of evaluation, flags or message texts.
\<close>

fun action_sources :: "pv \<Rightarrow> pv list" where
  "action_sources (VDict d) = (if is_dict (vget d ''params'') then [vget d ''params''] else []) @ [VDict d]"
| "action_sources v = []"

definition sources :: "pv \<Rightarrow> pv list \<Rightarrow> pv list" where
  "sources sensor actions = sensor # concat (map action_sources actions)"

definition source_reason :: "rule \<Rightarrow> pv \<Rightarrow> string option" where
  "source_reason r src = (if is_combination r then check_rule_logic VNone r (Some src)
     else if get_nested_value src (r_target_field r) = VNone then None
     else check_rule_logic (get_nested_value src (r_target_field r)) r (Some src))"

definition mentions :: "rule \<Rightarrow> pv \<Rightarrow> bool" where
  "mentions r src \<longleftrightarrow> get_nested_value src (r_target_field r) \<noteq> VNone"

definition rule_passes :: "pv list \<Rightarrow> rule \<Rightarrow> bool" where
  "rule_passes srcs r \<longleftrightarrow> list_all (\<lambda>src. source_reason r src = None) srcs \<and>
     (r_type r = FORBIDDEN_COMBINATION \<or> list_ex (mentions r) srcs)"

lemma evaluate_source_Nil: "evaluate_source r n src = [] \<longleftrightarrow> source_reason r src = None"
  by (auto simp: evaluate_source_def source_reason_def Let_def split: option.splits)

lemma check_action_spec:
  "snd (check_action r i a st) = [] \<longleftrightarrow> snd st = [] \<and> (\<forall>src\<in>set (action_sources a). source_reason r src = None)"
  "snd (check_action r i a st) = [] \<Longrightarrow> r_type r \<noteq> FORBIDDEN_COMBINATION \<Longrightarrow>
     fst (check_action r i a st) \<longleftrightarrow> fst st \<or> (\<exists>src\<in>set (action_sources a). mentions r src)"
  by (cases a; auto simp: check_action_def Let_def evaluate_source_Nil mentions_def)+

lemma check_actions_Nil:
  "snd (check_actions r i as st) = [] \<longleftrightarrow>
     snd st = [] \<and> (\<forall>a\<in>set as. \<forall>src\<in>set (action_sources a). source_reason r src = None)"
  by (induction as arbitrary: i st) (auto simp: check_action_spec(1))

lemma check_actions_found:
  "snd (check_actions r i as st) = [] \<Longrightarrow> r_type r \<noteq> FORBIDDEN_COMBINATION \<Longrightarrow>
   fst (check_actions r i as st) \<longleftrightarrow> fst st \<or> (\<exists>a\<in>set as. \<exists>src\<in>set (action_sources a). mentions r src)"
proof (induction as arbitrary: i st)
  case Nil
  then show ?case by simp
next
  case (Cons a as)
  then have "snd (check_action r i a st) = []" by (simp add: check_actions_Nil)
  with Cons show ?case using check_action_spec(2) [of r i a st] by auto
qed

lemma check_rule_Nil: "check_rule sensor actions r = [] \<longleftrightarrow> rule_passes (sources sensor actions) r"
proof -
  let ?st = "(evaluate_source r ''Sensor'' sensor \<noteq> [] \<or> mentions r sensor \<or> is_combination r,
    evaluate_source r ''Sensor'' sensor)"
  have "check_rule sensor actions r = [] \<longleftrightarrow> snd (check_actions r 0 actions ?st) = [] \<and>
     (r_type r = FORBIDDEN_COMBINATION \<or> fst (check_actions r 0 actions ?st))"
    by (cases "check_actions r 0 actions ?st") (auto simp: check_rule_def Let_def mentions_def)
  then show ?thesis
    using check_actions_found [of r 0 actions ?st]
    by (auto simp: rule_passes_def sources_def check_actions_Nil evaluate_source_Nil
        list_all_iff list_ex_iff)
qed

lemma validate_rules_SAFE:
  "vv_verdict (validate_rules sensor actions rs) = SAFE \<longleftrightarrow>
   (\<forall>r\<in>set rs. rule_passes (sources sensor actions) r)"
  by (auto simp: validate_rules_def Let_def check_rule_Nil)

text \<open>The tests on a number.\<close>

fun op_rel :: "cmp_op \<Rightarrow> rel option" where
  "op_rel OpLt = Some RLt"
| "op_rel OpLte = Some RLe"
| "op_rel OpGt = Some RGt"
| "op_rel OpGte = Some RGe"
| "op_rel oper = None"

lemma compare_values_ordered:
  assumes "op_rel oper = Some r" "num_of l = Some y"
  shows "compare_values v oper l = None \<longleftrightarrow> (\<exists>x. num_of v = Some x \<and> num_rel r x y)"
  using assms
  by (cases oper) (auto simp: unless_true_def py_rel_number no_order_def split: sum.splits option.splits)

lemma range_check_None:
  "range_check v (Some lo) (Some hi) = None \<longleftrightarrow>
   (\<exists>x. num_of v = Some x \<and> \<not> num_rel RLt x (NF lo) \<and> \<not> num_rel RGt x (NF hi))"
  by (auto simp: range_check_def py_rel_number no_order_def split: option.splits bool.splits)

subsection \<open>Properties\<close>

text \<open>C12: A SAFE verdict of the rules validator means exactly that every rule passes: it is violated in no source, and its field occurs in one of them (fail closed) unless it is a forbidden combination.\<close>

theorem rules_safe_iff:
  "vv_verdict (validate_rules sensor actions rs) = SAFE \<longleftrightarrow>
   list_all (rule_passes (sources sensor actions)) rs"
  by (simp add: validate_rules_SAFE list_all_iff)

text \<open>After a SAFE verdict, a field limited by an ordered threshold rule is, in the snapshot and in every action that mentions it, a number in the stated relation to the limit; a value of another type is never accepted.\<close>

theorem rules_threshold_sound:
  assumes "vv_verdict (validate_rules sensor actions rs) = SAFE"
    and "r \<in> set rs" "r_type r = THRESHOLD" "r_operator r = Some oper" "op_rel oper = Some rl"
    and "num_of (r_value r) = Some limit"
    and "src \<in> set (sources sensor actions)" "get_nested_value src (r_target_field r) \<noteq> VNone"
  shows "\<exists>x. num_of (get_nested_value src (r_target_field r)) = Some x \<and> num_rel rl x limit"
proof -
  have "source_reason r src = None"
    using assms(1,2,7) by (auto simp: validate_rules_SAFE rule_passes_def list_all_iff)
  then have "compare_values (get_nested_value src (r_target_field r)) oper (r_value r) = None"
    using assms(3,4,8) by (simp add: source_reason_def check_rule_logic_def)
  then show ?thesis by (simp add: compare_values_ordered [OF assms(5,6)])
qed


theorem rules_threshold_sound_witness:
  "\<exists>x. num_of (get_nested_value (VDict [(''t'', VInt 3)]) ''t'') = Some x \<and> num_rel RLe x (NI 5)"
proof -
  let ?r = "(default_rule ''r1'' THRESHOLD ''t'')\<lparr> r_operator := Some OpLte, r_value := VInt 5 \<rparr>"
  let ?s = "VDict [(''t'', VInt 3)]"
  have "\<exists>x. num_of (get_nested_value ?s (r_target_field ?r)) = Some x \<and> num_rel RLe x (NI 5)"
    by (rule rules_threshold_sound [where sensor = ?s and actions = "[]" and rs = "[?r]" and oper = OpLte])
       (simp_all add: default_rule_def sources_def, code_simp+)
  then show ?thesis by (simp add: default_rule_def)
qed

text \<open>After a SAFE verdict, a field with a range rule is a number in every source that mentions it, and it is neither below the minimum nor above the maximum (NaN is neither).\<close>

theorem rules_range_sound:
  assumes "vv_verdict (validate_rules sensor actions rs) = SAFE"
    and "r \<in> set rs" "r_type r = RANGE" "r_min r = Some lo" "r_max r = Some hi"
    and "src \<in> set (sources sensor actions)" "get_nested_value src (r_target_field r) \<noteq> VNone"
  shows "\<exists>x. num_of (get_nested_value src (r_target_field r)) = Some x
    \<and> \<not> num_rel RLt x (NF lo) \<and> \<not> num_rel RGt x (NF hi)"
proof -
  have "source_reason r src = None"
    using assms(1,2,6) by (auto simp: validate_rules_SAFE rule_passes_def list_all_iff)
  then have "range_check (get_nested_value src (r_target_field r)) (Some lo) (Some hi) = None"
    using assms(3-5,7) by (simp add: source_reason_def check_rule_logic_def)
  then show ?thesis by (simp add: range_check_None)
qed

theorem rules_range_sound_witness:
  "\<exists>x. num_of (get_nested_value (VDict [(''t'', VInt 3)]) ''t'') = Some x
     \<and> \<not> num_rel RLt x (NF (Fin 0)) \<and> \<not> num_rel RGt x (NF (Fin 10))"
proof -
  let ?r = "(default_rule ''r1'' RANGE ''t'')\<lparr> r_min := Some (Fin 0), r_max := Some (Fin 10) \<rparr>"
  let ?s = "VDict [(''t'', VInt 3)]"
  have "\<exists>x. num_of (get_nested_value ?s (r_target_field ?r)) = Some x
      \<and> \<not> num_rel RLt x (NF (Fin 0)) \<and> \<not> num_rel RGt x (NF (Fin 10))"
    by (rule rules_range_sound [where sensor = ?s and actions = "[]" and rs = "[?r]"])
       (simp_all add: default_rule_def sources_def, code_simp+)
  then show ?thesis by (simp add: default_rule_def)
qed

end
