(* ===== verification/Consensus.thy ===== *)
theory Consensus
  imports Models
begin

section \<open>The consensus engine (core/services/consensus_engine.py)\<close>

text \<open>
  The verdicts of the three validators are combined by a mode that AUTO derives from the SIL
  level.  The weighted score is computed in binary64, in the order of the source.  The lemmas:
  the two conservative modes agree and accept nothing that is not SAFE; the weighted score
  grows with each verdict; the level-3 choice of AUTO is fail-closed.
\<close>

definition resolve_mode :: "int \<Rightarrow> consensus_mode \<Rightarrow> consensus_mode" where
  "resolve_mode sil_level mode =
     (if mode = AUTO then (if 3 \<le> sil_level then AND_MODE else if sil_level = 2 then WEIGHTED else WORST_CASE)
      else mode)"

definition get_score :: "verdict \<Rightarrow> flt" where
  "get_score v = (if v = SAFE then Fin 1 else Fin 0)"

definition default_weights :: "flt dict" where
  "default_weights = [(''rules'', mk_flt False (4/10)), (''cbf'', mk_flt False (35/100)), (''sim'', mk_flt False (1/4))]"

text \<open>\<open>sum\<close> of floats: Python 3.12 and later carry the rounding errors along and add them last.\<close>

fun comp_sum :: "flt \<Rightarrow> flt \<Rightarrow> flt list \<Rightarrow> flt" where
  "comp_sum f c [] = (if is_finite c \<and> fval c \<noteq> 0 then fadd f c else f)"
| "comp_sum f c (x # xs) = (let t = fadd f x in
     comp_sum t (fadd c (if num_rel RGe (NF (fabs f)) (NF (fabs x))
                         then fadd (fsub f t) x else fadd (fsub x t) f)) xs)"

fun flt_sum :: "flt list \<Rightarrow> flt" where
  "flt_sum [] = Fin 0"
| "flt_sum (x # xs) = comp_sum (fadd (Fin 0) x) (Fin 0) xs"

abbreviation flt_gt0 :: "flt \<Rightarrow> bool" where
  "flt_gt0 f \<equiv> num_rel RGt (NF f) (NI 0)"

text \<open>\<open>effective_weights\<close>: with RENORMALIZE the simulation's weight is spread over the others.\<close>

definition effective_weights :: "on_sim_indeterminate \<Rightarrow> verdict \<Rightarrow> flt dict \<Rightarrow> flt dict" where
  "effective_weights policy sim weights =
     (if sim = INDETERMINATE \<and> policy = RENORMALIZE
      then (let rest = ddel ''sim'' weights; total_remaining = flt_sum (dvals rest) in
        if flt_gt0 total_remaining then map (\<lambda>(k, w). (k, fdiv w total_remaining)) rest else rest)
      else weights)"

definition sim_score :: "verdict \<Rightarrow> flt" where
  "sim_score v = (if v = SAFE then Fin 1 else Fin 0)"

definition add_weighted :: "flt dict \<Rightarrow> string \<Rightarrow> flt \<Rightarrow> flt \<Rightarrow> flt" where
  "add_weighted ws k v score = (case dget ws k of None \<Rightarrow> score | Some w \<Rightarrow> fadd score (fmul w v))"

definition weighted_score :: "flt dict \<Rightarrow> verdict \<Rightarrow> verdict \<Rightarrow> verdict \<Rightarrow> flt" where
  "weighted_score ws rules cbf sim =
     add_weighted ws ''sim'' (sim_score sim)
       (add_weighted ws ''cbf'' (get_score cbf)
         (add_weighted ws ''rules'' (get_score rules) (Fin 0)))"

definition verdicts_text :: "string \<Rightarrow> verdict \<Rightarrow> verdict \<Rightarrow> verdict \<Rightarrow> string" where
  "verdicts_text m rules cbf sim = m @ '' mode: rules='' @ verdict_text rules @ '', cbf='' @ verdict_text cbf
     @ '', sim='' @ verdict_text sim"

definition evaluate_consensus ::
  "int \<Rightarrow> consensus_config \<Rightarrow> validator_verdict \<Rightarrow> validator_verdict \<Rightarrow> validator_verdict \<Rightarrow> consensus_result" where
  "evaluate_consensus sil_level config rules_verdict cbf_verdict sim_verdict =
     (let mode = resolve_mode sil_level (cc_mode config);
          r = vv_verdict rules_verdict; c = vv_verdict cbf_verdict; s = vv_verdict sim_verdict in
      case mode of
        AND_MODE \<Rightarrow>
          (let all_safe = (r = SAFE \<and> c = SAFE \<and> s = SAFE) in
           \<lparr> cr_final_verdict = (if all_safe then SAFE else UNSAFE), cr_mode_used = mode_text mode,
             cr_weights_used = None, cr_score = Some (if all_safe then Fin 1 else Fin 0),
             cr_threshold = None, cr_explanation = verdicts_text ''AND'' r c s \<rparr>)
      | WORST_CASE \<Rightarrow>
          (let any_unsafe = (r = UNSAFE \<or> c = UNSAFE \<or> s = UNSAFE);
               any_indeterminate = (r = INDETERMINATE \<or> c = INDETERMINATE \<or> s = INDETERMINATE) in
           \<lparr> cr_final_verdict = (if any_unsafe \<or> any_indeterminate then UNSAFE else SAFE),
             cr_mode_used = mode_text mode, cr_weights_used = None,
             cr_score = Some (if any_unsafe \<or> any_indeterminate then Fin 0 else Fin 1),
             cr_threshold = None, cr_explanation = verdicts_text ''WORST_CASE'' r c s \<rparr>)
      | WEIGHTED \<Rightarrow>
          (let weights = (case cc_weights config of None \<Rightarrow> default_weights
                          | Some ws \<Rightarrow> if ws = [] then default_weights else ws);
               threshold = (case cc_threshold config of None \<Rightarrow> Fin (1/2) | Some t \<Rightarrow> t);
               ws = effective_weights (cc_on_sim_indeterminate config) s weights;
               score = weighted_score ws r c s in
           \<lparr> cr_final_verdict = (if num_rel RGe (NF score) (NF threshold) then SAFE else UNSAFE),
             cr_mode_used = mode_text mode, cr_weights_used = Some ws, cr_score = Some score,
             cr_threshold = Some threshold,
             cr_explanation = ''WEIGHTED mode: score='' @ fmt_fixed 2 score @ '' (thresh='' @ flt_repr threshold @ '')'' \<rparr>)
      | AUTO \<Rightarrow>
          \<lparr> cr_final_verdict = UNSAFE, cr_mode_used = ''UNKNOWN'', cr_weights_used = None, cr_score = None,
            cr_threshold = None, cr_explanation = ''Unknown consensus mode'' \<rparr>)"

subsection \<open>The order of scores\<close>

lemma fmul_score:
  assumes "finite_nonneg w"
  shows "nonneg (fmul w (get_score v))" and "fx (fmul w (get_score v)) \<le> fx (fmul w (Fin 1))"
proof -
  have "fmul w (get_score v) = mk_flt (fneg_sign w) (fval w * (if v = SAFE then 1 else 0))" for v
    using assms by (cases w) (auto simp: fmul_def finite_nonneg_def get_score_def Let_def)
  moreover have "fmul w (Fin 1) = mk_flt (fneg_sign w) (fval w)"
    using assms by (cases w) (auto simp: fmul_def finite_nonneg_def Let_def)
  ultimately show "nonneg (fmul w (get_score v))" "fx (fmul w (get_score v)) \<le> fx (fmul w (Fin 1))"
    using assms by (auto simp: finite_nonneg_def intro!: nonneg_mk_flt fx_mk_flt_mono)
qed

definition verdict_le :: "verdict \<Rightarrow> verdict \<Rightarrow> bool" where
  "verdict_le v w \<longleftrightarrow> v = w \<or> w = SAFE"

lemma fmul_score_mono: "finite_nonneg w \<Longrightarrow> verdict_le u v \<Longrightarrow>
   fx (fmul w (get_score u)) \<le> fx (fmul w (get_score v))"
  using fmul_score(2) [of w u] by (auto simp: verdict_le_def get_score_def)

lemma sim_score_is_score: "sim_score = get_score"
  by (rule ext) (simp add: sim_score_def get_score_def)

lemma add_weighted_mono:
  assumes "list_all finite_nonneg (dvals ws)" "verdict_le u v" "nonneg a" "nonneg b" "fx a \<le> fx b"
  shows "nonneg (add_weighted ws k (get_score u) a) \<and> nonneg (add_weighted ws k (get_score v) b) \<and>
    fx (add_weighted ws k (get_score u) a) \<le> fx (add_weighted ws k (get_score v) b)"
proof (cases "dget ws k")
  case None
  with assms show ?thesis by (simp add: add_weighted_def)
next
  case (Some w)
  then have "w \<in> set (dvals ws)" by (force simp: dvals_def dest: map_of_SomeD)
  with assms(1) have w: "finite_nonneg w" by (simp add: list_all_iff)
  with Some assms fmul_score(1) [OF w] fmul_score_mono [OF w assms(2)] show ?thesis
    by (auto simp: add_weighted_def intro!: nonneg_fadd fadd_mono)
qed

lemma weighted_score_mono:
  assumes "list_all finite_nonneg (dvals ws)"
    and "verdict_le r r'" "verdict_le c c'" "verdict_le s s'"
  shows "nonneg (weighted_score ws r c s) \<and> nonneg (weighted_score ws r' c' s') \<and>
    fx (weighted_score ws r c s) \<le> fx (weighted_score ws r' c' s')"
proof -
  have z: "nonneg (Fin 0)" by (simp add: nonneg_def)
  from add_weighted_mono [OF assms(1,2) z z order_refl, of "''rules''"]
  have 1: "nonneg (add_weighted ws ''rules'' (get_score r) (Fin 0))"
    "nonneg (add_weighted ws ''rules'' (get_score r') (Fin 0))"
    "fx (add_weighted ws ''rules'' (get_score r) (Fin 0)) \<le> fx (add_weighted ws ''rules'' (get_score r') (Fin 0))"
    by auto
  from add_weighted_mono [OF assms(1,3) 1, of "''cbf''"] show ?thesis
    unfolding weighted_score_def sim_score_is_score
    by (intro add_weighted_mono [OF assms(1,4)]) auto
qed

lemma nonneg_flt_x: "nonneg f \<Longrightarrow> flt_x f = Some (fx f)"
  by (cases f) (auto simp: nonneg_def)

lemma num_rel_fx: "nonneg a \<Longrightarrow> nonneg b \<Longrightarrow> fx a \<le> fx b \<Longrightarrow>
   num_rel RGe (NF a) (NF t) \<Longrightarrow> num_rel RGe (NF b) (NF t)"
  using nonneg_flt_x [of a] nonneg_flt_x [of b]
  by (auto simp: num_rel_def split: option.splits intro: order_trans)


text \<open>The weighted branch, with the defaults filled in.\<close>

definition config_weights :: "consensus_config \<Rightarrow> flt dict" where
  "config_weights cfg = (case cc_weights cfg of None \<Rightarrow> default_weights
      | Some ws \<Rightarrow> if ws = [] then default_weights else ws)"

definition config_threshold :: "consensus_config \<Rightarrow> flt" where
  "config_threshold cfg = (case cc_threshold cfg of None \<Rightarrow> Fin (1/2) | Some t \<Rightarrow> t)"

lemma evaluate_weighted:
  assumes "resolve_mode sil (cc_mode cfg) = WEIGHTED"
  defines "ws s \<equiv> effective_weights (cc_on_sim_indeterminate cfg) (vv_verdict s) (config_weights cfg)"
  shows "cr_final_verdict (evaluate_consensus sil cfg r c s) =
      (if num_rel RGe (NF (weighted_score (ws s) (vv_verdict r) (vv_verdict c) (vv_verdict s)))
          (NF (config_threshold cfg)) then SAFE else UNSAFE)"
    and "cr_weights_used (evaluate_consensus sil cfg r c s) = Some (ws s)"
  unfolding evaluate_consensus_def config_weights_def config_threshold_def Let_def assms by simp_all

text \<open>The default weights as binary64 numbers, and what the weighted score makes of them.\<close>

lemma default_weights_val: "default_weights = [(''rules'', Fin (3602879701896397/9007199254740992)),
    (''cbf'', Fin (3152519739159347/9007199254740992)), (''sim'', Fin (1/4))]"
  by code_simp

lemma renormalized_val: "effective_weights RENORMALIZE INDETERMINATE default_weights =
   [(''rules'', Fin (4803839602528529/9007199254740992)), (''cbf'', Fin (8406719304424925/18014398509481984))]"
  unfolding default_weights_val by code_simp

lemma weighted_score_safe: "weighted_score ws r c s =
   weighted_score ws (if r = SAFE then SAFE else UNSAFE) (if c = SAFE then SAFE else UNSAFE)
     (if s = SAFE then SAFE else UNSAFE)"
  by (simp add: weighted_score_def get_score_def sim_score_def)

lemma default_scores:
  "num_rel RGe (NF (weighted_score default_weights (if a then SAFE else UNSAFE)
     (if b then SAFE else UNSAFE) UNSAFE)) (NF (Fin (1/2))) \<longleftrightarrow> a \<and> b"
  unfolding default_weights_val by (cases a; cases b; simp only: if_True if_False simp_thms; code_simp)

lemma renormalized_scores:
  "num_rel RGe (NF (weighted_score (effective_weights RENORMALIZE INDETERMINATE default_weights)
     (if a then SAFE else UNSAFE) (if b then SAFE else UNSAFE) UNSAFE)) (NF (Fin (1/2))) \<longleftrightarrow> a"
  unfolding renormalized_val by (cases a; cases b; simp only: if_True if_False simp_thms; code_simp)

subsection \<open>Properties\<close>

lemma conservative_safe:
  "resolve_mode sil (cc_mode cfg) \<in> {AND_MODE, WORST_CASE} \<Longrightarrow>
   cr_final_verdict (evaluate_consensus sil cfg r c s) = SAFE \<longleftrightarrow>
     vv_verdict r = SAFE \<and> vv_verdict c = SAFE \<and> vv_verdict s = SAFE"
  by (cases "vv_verdict r"; cases "vv_verdict c"; cases "vv_verdict s")
     (auto simp: evaluate_consensus_def Let_def)

text \<open>C13: In the conservative modes, AND and WORST_CASE, the final verdict is SAFE exactly when all three validators say SAFE; an INDETERMINATE validator blocks in both.\<close>

theorem consensus_conservative:
  assumes "resolve_mode sil (cc_mode cfg) \<in> {AND_MODE, WORST_CASE}"
  shows "cr_final_verdict (evaluate_consensus sil cfg r c s) = SAFE \<longleftrightarrow>
    vv_verdict r = SAFE \<and> vv_verdict c = SAFE \<and> vv_verdict s = SAFE"
  using assms by (rule conservative_safe)

theorem consensus_conservative_witness:
  "cr_final_verdict (evaluate_consensus 3 default_consensus_config
      \<lparr> vv_verdict = SAFE, vv_details = [] \<rparr> \<lparr> vv_verdict = INDETERMINATE, vv_details = [] \<rparr>
      \<lparr> vv_verdict = SAFE, vv_details = [] \<rparr>) \<noteq> SAFE"
  by (subst consensus_conservative) (simp_all add: resolve_mode_def default_consensus_config_def)

text \<open>C14: In the weighted mode with finite weights that are not negative, improving verdicts to SAFE never turns a SAFE consensus into UNSAFE, the binary64 score being monotone in every verdict, provided that the policy for an undecided simulation is not RENORMALIZE or that the verdict of the simulation stays what it is: under RENORMALIZE the weights depend on whether the simulation is undecided.\<close>

theorem consensus_weighted_mono:
  assumes "resolve_mode sil (cc_mode cfg) = WEIGHTED"
    and "cr_final_verdict (evaluate_consensus sil cfg r c s) = SAFE"
    and "cr_weights_used (evaluate_consensus sil cfg r c s) = Some ws" "list_all finite_nonneg (dvals ws)"
    and "verdict_le (vv_verdict r) (vv_verdict r')" "verdict_le (vv_verdict c) (vv_verdict c')"
    and "verdict_le (vv_verdict s) (vv_verdict s')"
    and "vv_verdict s = vv_verdict s' \<or> cc_on_sim_indeterminate cfg \<noteq> RENORMALIZE"
  shows "cr_final_verdict (evaluate_consensus sil cfg r' c' s') = SAFE"
proof -
  have ws: "effective_weights (cc_on_sim_indeterminate cfg) (vv_verdict s) (config_weights cfg) = ws"
    using assms(3) by (simp add: evaluate_weighted [OF assms(1)])
  then have ws': "effective_weights (cc_on_sim_indeterminate cfg) (vv_verdict s') (config_weights cfg) = ws"
    using assms(8) by (auto simp: effective_weights_def)
  note m = weighted_score_mono [OF assms(4-7)]
  have "num_rel RGe (NF (weighted_score ws (vv_verdict r) (vv_verdict c) (vv_verdict s))) (NF (config_threshold cfg))"
    using assms(2) by (simp add: evaluate_weighted [OF assms(1)] ws split: if_splits)
  then have "num_rel RGe (NF (weighted_score ws (vv_verdict r') (vv_verdict c') (vv_verdict s'))) (NF (config_threshold cfg))"
    using m by (blast intro: num_rel_fx)
  then show ?thesis by (simp add: evaluate_weighted [OF assms(1)] ws')
qed

theorem consensus_weighted_mono_witness:
  "cr_final_verdict (evaluate_consensus 2
      (default_consensus_config\<lparr> cc_weights := Some [(''rules'', Fin (1/2)), (''cbf'', Fin (1/4)), (''sim'', Fin (1/4))] \<rparr>)
      \<lparr> vv_verdict = SAFE, vv_details = [] \<rparr> \<lparr> vv_verdict = SAFE, vv_details = [] \<rparr>
      \<lparr> vv_verdict = UNSAFE, vv_details = [] \<rparr>) = SAFE"
proof -
  let ?cfg = "default_consensus_config\<lparr> cc_weights := Some [(''rules'', Fin (1/2)), (''cbf'', Fin (1/4)), (''sim'', Fin (1/4))] \<rparr>"
  show ?thesis
    by (rule consensus_weighted_mono [where r = "\<lparr> vv_verdict = SAFE, vv_details = [] \<rparr>"
          and c = "\<lparr> vv_verdict = UNSAFE, vv_details = [] \<rparr>" and s = "\<lparr> vv_verdict = UNSAFE, vv_details = [] \<rparr>"
          and ws = "[(''rules'', Fin (1/2)), (''cbf'', Fin (1/4)), (''sim'', Fin (1/4))]"])
       (code_simp+)
qed

text \<open>Under RENORMALIZE a simulation that comes to SAFE can make the consensus UNSAFE: undecided, it leaves three fifths of the weight to the rules; SAFE, it takes part and the sum stays below the threshold.\<close>

theorem consensus_renormalize_not_monotone:
  "map (\<lambda>s. cr_final_verdict (evaluate_consensus 2
      (default_consensus_config\<lparr> cc_on_sim_indeterminate := RENORMALIZE, cc_threshold := Some (Fin (1/2)),
         cc_weights := Some [(''rules'', Fin (3/8)), (''cbf'', Fin (1/4)), (''sim'', Fin (1/16))] \<rparr>)
      \<lparr> vv_verdict = SAFE, vv_details = [] \<rparr> \<lparr> vv_verdict = UNSAFE, vv_details = [] \<rparr>
      \<lparr> vv_verdict = s, vv_details = [] \<rparr>)) [INDETERMINATE, SAFE] = [SAFE, UNSAFE]"
  by code_simp

text \<open>With the default weights and threshold the simulation can be outvoted: when it does not say SAFE, SAFE from the rules and the CBF validator suffices; under RENORMALIZE with an undecided simulation the rules validator decides alone, even against an UNSAFE from the CBF validator.\<close>

theorem consensus_default_weights:
  "(cr_final_verdict (evaluate_consensus 2 default_consensus_config
      \<lparr> vv_verdict = r, vv_details = [] \<rparr> \<lparr> vv_verdict = c, vv_details = [] \<rparr> \<lparr> vv_verdict = UNSAFE, vv_details = [] \<rparr>) = SAFE
    \<longleftrightarrow> r = SAFE \<and> c = SAFE) \<and>
   (cr_final_verdict (evaluate_consensus 2 (default_consensus_config\<lparr> cc_on_sim_indeterminate := RENORMALIZE \<rparr>)
      \<lparr> vv_verdict = r, vv_details = [] \<rparr> \<lparr> vv_verdict = c, vv_details = [] \<rparr> \<lparr> vv_verdict = INDETERMINATE, vv_details = [] \<rparr>) = SAFE
    \<longleftrightarrow> r = SAFE)"
proof -
  have fw: "effective_weights FAIL_CLOSED UNSAFE w = w" for w by (simp add: effective_weights_def)
  note eq = weighted_score_safe [of _ r c UNSAFE] weighted_score_safe [of _ r c INDETERMINATE]
  show ?thesis
    by (simp add: evaluate_weighted resolve_mode_def default_consensus_config_def config_weights_def
        config_threshold_def fw eq default_scores renormalized_scores del: default_weights_val)
qed

end
