(* ===== verification/Integrity.thy ===== *)
theory Integrity
  imports Models
begin

section \<open>The integrity check (core/services/integrity_service.py)\<close>

text \<open>
  \<open>check_integrity\<close> compares a proof package with the current state: policy version, sensor
  hash, age, then the configured divergences in order.  It returns whether the check passed
  and the reason code; arithmetic on huge integers may raise.  The lemmas characterise a pass,
  the divergences by a specification over rational numbers, and give the order in which the failures
  are reported.
\<close>

definition get_val :: "pv \<Rightarrow> string \<Rightarrow> pv" where
  "get_val snap key = walk_keys snap (split_on CHR ''.'' key)"

text \<open>One threshold: \<open>Inr True\<close> when the loop goes on, \<open>Inr False\<close> on divergence.\<close>

definition divergence_ok :: "divergence_threshold \<Rightarrow> pv \<Rightarrow> pv \<Rightarrow> bool res" where
  "divergence_ok thresh proof_snapshot current_snapshot =
     (let proof_val = get_val proof_snapshot (dt_sensor_type thresh);
          curr_val = get_val current_snapshot (dt_sensor_type thresh);
          limit = NF (dt_max_divergence thresh) in
      if proof_val = VNone \<or> curr_val = VNone then Inr False
      else (case (num_of proof_val, num_of curr_val) of
        (Some p, Some c) \<Rightarrow> bindR (nsub c p) (\<lambda>d. let diff = nabs d in
           case dt_method thresh of
             ABSOLUTE \<Rightarrow> Inr (\<not> num_rel RGt diff limit)
           | PERCENTAGE \<Rightarrow>
               if num_eq p (NI 0) then Inr (\<not> num_rel RGt diff (NI 0))
               else bindR (ndiv diff (nabs p)) (\<lambda>q. bindR (nmul q (NF (Fin 100))) (\<lambda>pct.
                      Inr (\<not> num_rel RGt pct limit))))
      | _ \<Rightarrow> Inr (py_eq proof_val curr_val)))"

fun check_divergences :: "divergence_threshold list \<Rightarrow> pv \<Rightarrow> pv \<Rightarrow> (bool \<times> string option) res" where
  "check_divergences [] p c = Inr (True, None)"
| "check_divergences (t # ts) p c = bindR (divergence_ok t p c) (\<lambda>ok.
     if ok then check_divergences ts p c else Inr (False, Some ''INTEGRITY_SENSOR_DIVERGENCE''))"

definition check_integrity ::
  "string \<Rightarrow> string \<Rightarrow> int \<Rightarrow> int \<Rightarrow> int \<Rightarrow> pv \<Rightarrow> pv \<Rightarrow> divergence_threshold list
   \<Rightarrow> string option \<Rightarrow> string option \<Rightarrow> (bool \<times> string option) res" where
  "check_integrity proof_policy_version active_policy_version proof_timestamp_ms current_timestamp_ms
     timestamp_max_age_ms proof_sensor_snapshot current_sensor_snapshot divergence_thresholds
     proof_sensor_snapshot_hash current_sensor_snapshot_hash =
   (let age = current_timestamp_ms - proof_timestamp_ms in
    if proof_policy_version \<noteq> active_policy_version
    then Inr (False, Some ''INTEGRITY_POLICY_MISMATCH'')
    else if proof_sensor_snapshot_hash \<noteq> None \<and> current_sensor_snapshot_hash \<noteq> None
         \<and> proof_sensor_snapshot_hash \<noteq> current_sensor_snapshot_hash
    then Inr (False, Some ''INTEGRITY_SENSOR_HASH_MISMATCH'')
    else if age > timestamp_max_age_ms then Inr (False, Some ''INTEGRITY_TIMESTAMP_EXPIRED'')
    else if age < - 5000 then Inr (False, Some ''INTEGRITY_TIMESTAMP_FUTURE'')
    else check_divergences divergence_thresholds proof_sensor_snapshot current_sensor_snapshot)"

subsection \<open>When the check passes\<close>

definition hashes_agree :: "string option \<Rightarrow> string option \<Rightarrow> bool" where
  "hashes_agree h k \<longleftrightarrow> h = None \<or> k = None \<or> h = k"

definition fresh :: "int \<Rightarrow> int \<Rightarrow> int \<Rightarrow> bool" where
  "fresh t now max_age \<longleftrightarrow> now - t \<le> max_age \<and> t - now \<le> 5000"

lemma check_divergences_pass:
  "check_divergences ts p c = Inr (True, e) \<longleftrightarrow> e = None \<and> (\<forall>t\<in>set ts. divergence_ok t p c = Inr True)"
  by (induction ts) auto

lemma check_divergences_reason:
  "check_divergences ts p c = Inr (ok, e) \<Longrightarrow> e = (if ok then None else Some ''INTEGRITY_SENSOR_DIVERGENCE'')"
  by (induction ts) (auto split: if_splits)

lemma check_integrity_pass:
  "check_integrity pv av t now age ps cs ts ph ch = Inr (True, e) \<longleftrightarrow>
   e = None \<and> pv = av \<and> hashes_agree ph ch \<and> fresh t now age \<and> (\<forall>th\<in>set ts. divergence_ok th ps cs = Inr True)"
  by (auto simp: check_integrity_def Let_def check_divergences_pass hashes_agree_def fresh_def)

subsection \<open>When a sensor agrees\<close>

text \<open>
  What the thresholds ask for, over the rational values of the two readings \<open>p\<close> (of the proof) and \<open>c\<close>
  (current); every step is rounded to binary64 once, as the code's is.  A sensor that is not a number must
  be equal, and one that is missing on a side never agrees.
\<close>

definition close_readings :: "divergence_method \<Rightarrow> rat \<Rightarrow> rat \<Rightarrow> rat \<Rightarrow> bool" where
  "close_readings how m p c \<longleftrightarrow> (let d = rnd64 \<bar>c - p\<bar> in case how of
     ABSOLUTE \<Rightarrow> d \<le> m
   | PERCENTAGE \<Rightarrow> if p = 0 then c = 0 else rnd64 (rnd64 (d / \<bar>p\<bar>) * 100) \<le> m)"

fun reading_value :: "pv \<Rightarrow> rat option" where
  "reading_value (VBool b) = Some (if b then 1 else 0)"
| "reading_value (VInt i) = Some (of_int i)"
| "reading_value (VFloat f) = Some (fval f)"
| "reading_value v = None"

definition sensor_agrees :: "divergence_threshold \<Rightarrow> pv \<Rightarrow> pv \<Rightarrow> bool" where
  "sensor_agrees th p c \<longleftrightarrow> p \<noteq> VNone \<and> c \<noteq> VNone \<and>
     (case (reading_value p, reading_value c) of
        (Some x, Some y) \<Rightarrow> close_readings (dt_method th) (fval (dt_max_divergence th)) x y
      | _ \<Rightarrow> py_eq p c)"

text \<open>Readings binary64 represents, and not so large that a difference overflows; a limit that is finite.\<close>

fun plain_number :: "pnum \<Rightarrow> bool" where
  "plain_number (NI i) = (\<bar>i\<bar> \<le> 2 ^ 52)"
| "plain_number (NF f) = (is_finite f \<and> is64 (fval f) \<and> \<bar>fval f\<bar> \<le> 2 ^ 100)"

definition plain_reading :: "pv \<Rightarrow> bool" where
  "plain_reading v \<longleftrightarrow> (case num_of v of None \<Rightarrow> True | Some n \<Rightarrow> plain_number n)"

definition plain_limit :: "divergence_threshold \<Rightarrow> bool" where
  "plain_limit th \<longleftrightarrow> is_finite (dt_max_divergence th) \<and> is64 (fval (dt_max_divergence th))"

fun num_val :: "pnum \<Rightarrow> rat" where
  "num_val (NI i) = of_int i"
| "num_val (NF f) = fval f"

lemma reading_value_num: "reading_value v = map_option num_val (num_of v)"
  by (cases v) auto

lemma is64_abs: "is64 \<bar>x\<bar> \<longleftrightarrow> is64 x"
  by (auto simp: is64_def abs_if rnd64_minus)

lemma rnd64_abs: "rnd64 \<bar>x\<bar> = \<bar>rnd64 x\<bar>"
  using rnd64_nonneg [of x] rnd64_nonpos [of x] by (auto simp: abs_if rnd64_minus)

lemma fabs_finite: "is_finite f \<Longrightarrow> is_finite (fabs f) \<and> fval (fabs f) = \<bar>fval f\<bar> \<and> \<not> fneg_sign (fabs f)"
  by (cases f) (auto simp: fabs_def)

lemma num_x_finite: "is_finite f \<Longrightarrow> num_x (NF f) = Some (XRat (fval f))"
  by (cases f) auto

lemma plain_flt:
  assumes "plain_number n"
  shows "\<exists>f. num_flt n = Inr f \<and> is_finite f \<and> is64 (fval f) \<and> fval f = num_val n"
proof (cases n)
  case (NI i)
  then have "int_to_flt i = Fin (of_int i)" "is64 (of_int i)"
    using assms by (auto intro!: int_to_flt_exact is64_of_int)
  then show ?thesis using NI by simp
next
  case (NF f)
  then show ?thesis using assms by auto
qed

lemma plain_bound: "plain_number n \<Longrightarrow> \<bar>num_val n\<bar> \<le> 2 ^ 100"
proof (cases n)
  case (NI i)
  moreover assume "plain_number n"
  ultimately have "\<bar>of_int i :: rat\<bar> \<le> of_int (2 ^ 52)" by (simp only: plain_number.simps of_int_abs [symmetric] of_int_le_iff)
  also have "(of_int (2 ^ 52) :: rat) \<le> 2 ^ 100" by simp
  finally show ?thesis using NI by simp
qed simp

lemma rnd64_bound: "\<bar>x\<bar> \<le> 2 ^ 101 \<Longrightarrow> \<bar>rnd64 x\<bar> < max64"
proof -
  assume "\<bar>x\<bar> \<le> 2 ^ 101"
  then have "rnd64 \<bar>x\<bar> \<le> rnd64 (2 ^ 101)" by (rule rnd64_mono)
  also have "rnd64 (2 ^ 101) < max64" by code_simp
  finally show ?thesis by (simp only: rnd64_abs)
qed

lemma mk_flt_finite: "\<bar>x\<bar> \<le> 2 ^ 101 \<Longrightarrow> is_finite (mk_flt s x) \<and> fval (mk_flt s x) = rnd64 x"
  using rnd64_bound [of x] by (auto simp: mk_flt_def Let_def)

lemma fsub_finite:
  assumes "is_finite a" "is_finite b" "\<bar>fval a - fval b\<bar> \<le> 2 ^ 101"
  shows "is_finite (fsub a b) \<and> fval (fsub a b) = rnd64 (fval a - fval b)"
proof (cases "fval a - fval b = 0")
  case True
  then show ?thesis using assms(1,2) by (cases a; cases b) (auto simp: fsub_def fadd_def Let_def)
next
  case False
  then have "fsub a b = mk_flt (fval a - fval b < 0) (fval a - fval b)"
    using assms(1,2) by (cases a; cases b) (auto simp: fsub_def fadd_def Let_def)
  with mk_flt_finite [OF assms(3)] show ?thesis by simp
qed

text \<open>The absolute difference of two readings, and its quotient by the first.\<close>

lemma nabs_difference:
  assumes "plain_number p" "plain_number c"
  defines "D \<equiv> rnd64 \<bar>num_val c - num_val p\<bar>"
  shows "\<exists>d. nsub c p = Inr d \<and> num_x (nabs d) = Some (XRat D) \<and>
    (num_val p \<noteq> 0 \<longrightarrow> ndiv (nabs d) (nabs p) = Inr (NF (mk_flt False (D / \<bar>num_val p\<bar>))))"
proof (cases "\<exists>i j. p = NI i \<and> c = NI j")
  case True
  then obtain i j where ij: "p = NI i" "c = NI j" by blast
  have "\<bar>j - i\<bar> \<le> 2 ^ 53" using assms(1,2) ij by auto
  then have "is64 (of_int \<bar>j - i\<bar>)" by (intro is64_of_int) simp
  then have D: "D = of_int \<bar>j - i\<bar>" by (simp add: D_def ij is64_def)
  have "is_finite (mk_flt False (D / \<bar>of_int i\<bar>))" if "i \<noteq> 0"
  proof -
    have "D / \<bar>of_int i\<bar> \<le> D / 1" using that unfolding D by (intro divide_left_mono) auto
    moreover have "D \<le> of_int (2 ^ 53)" using \<open>\<bar>j - i\<bar> \<le> 2 ^ 53\<close> unfolding D of_int_le_iff .
    moreover have "(of_int (2 ^ 53) :: rat) \<le> 2 ^ 101" by simp
    moreover have "0 \<le> D / \<bar>of_int i\<bar>" by (simp add: D)
    ultimately show ?thesis by (intro mk_flt_finite [THEN conjunct1]) linarith
  qed
  then show ?thesis using ij D by (simp add: nsub_def num_op_def Let_def)
next
  case False
  obtain f where f: "num_flt p = Inr f" "is_finite f" "fval f = num_val p" using plain_flt [OF assms(1)] by blast
  obtain g where g: "num_flt c = Inr g" "is_finite g" "fval g = num_val c" using plain_flt [OF assms(2)] by blast
  have d: "nsub c p = Inr (NF (fsub g f))"
    using False f(1) g(1) by (cases p; cases c) (auto simp: nsub_def num_op_def)
  have "\<bar>fval g - fval f\<bar> \<le> 2 ^ 101"
    using plain_bound [OF assms(1)] plain_bound [OF assms(2)] unfolding f(3) g(3) by (auto simp: abs_if split: if_splits)
  from fsub_finite [OF g(2) f(2) this] have fin: "is_finite (fsub g f)" "fval (fsub g f) = rnd64 (fval g - fval f)" by auto
  note ab = fabs_finite [OF fin(1)]
  have D: "fval (fabs (fsub g f)) = D" using ab fin(2) by (simp add: D_def f(3) g(3) rnd64_abs)
  obtain h where h: "num_flt (nabs p) = Inr h" "is_finite h" "fval h = \<bar>num_val p\<bar>" "\<not> fneg_sign h"
  proof (cases p)
    case (NI i)
    then have "int_to_flt \<bar>i\<bar> = Fin (of_int \<bar>i\<bar>)" using assms(1) by (intro int_to_flt_exact) simp
    then show ?thesis using that NI by simp
  next
    case (NF u)
    then show ?thesis using that fabs_finite [of u] assms(1) by simp
  qed
  have "ndiv (NF (fabs (fsub g f))) (nabs p) = Inr (NF (mk_flt False (D / \<bar>num_val p\<bar>)))" if "num_val p \<noteq> 0"
  proof -
    have "ndiv (NF (fabs (fsub g f))) (nabs p) = Inr (NF (fdiv (fabs (fsub g f)) h))"
      using h that by (cases "nabs p") auto
    moreover have "fabs (fsub g f) \<noteq> NaN" "h \<noteq> NaN" using ab h(2) by (metis is_finite.simps(5))+
    then have "fdiv (fabs (fsub g f)) h = mk_flt False (D / \<bar>num_val p\<bar>)"
      using ab h(2-4) D by (simp add: fdiv_def Let_def)
    ultimately show ?thesis by simp
  qed
  then show ?thesis using d ab D num_x_finite [of "fabs (fsub g f)"] by auto
qed

text \<open>The percentage: the quotient times a hundred, compared with a limit.\<close>

lemma max64_pos: "0 < max64"
  by (simp add: max64_def)

lemma is64_less: "is64 r \<Longrightarrow> r < max64"
  unfolding is64_def by linarith

lemma rnd64_max64: "rnd64 max64 = max64"
proof (rule rnd64_exact [of _ 1 1024])
  have pow: "max64 = pow2 1024" using pow2_of_nat [of 1024] by (simp only: max64_def of_nat_numeral)
  then show "max64 = of_int 1 * pow2 1024" by (simp only: of_int_1 mult_1)
  have "max64 < pow2 (1024 + 1)" using pow2_Suc [of 1024] max64_pos pow by linarith
  then have "flog2 max64 \<le> 1024" by (rule flog2_le [OF max64_pos])
  then show "rnd_exp max64 \<le> 1024" by (simp only: rnd_exp_def abs_of_pos [OF max64_pos])
qed

lemma mk_flt_nonneg:
  assumes "0 \<le> x"
  shows "mk_flt False x = (if rnd64 x < max64 then Fin (rnd64 x) else PosInf)"
  using rnd64_nonneg [OF assms] max64_pos by (auto simp: mk_flt_def Let_def not_less)

lemma exceeds_limit:
  assumes "0 \<le> x" "is_finite m" "is64 (fval m)"
  shows "num_rel RGt (NF (mk_flt False x)) (NF m) \<longleftrightarrow> fval m < rnd64 x"
proof -
  have "fval m < max64" using assms(3) by (rule is64_less)
  then show ?thesis using num_x_finite [OF assms(2)] by (simp add: mk_flt_nonneg [OF assms(1)] num_rel_def)
qed

lemma percentage_exceeds:
  assumes "0 \<le> x" "is_finite m" "is64 (fval m)"
  shows "\<exists>n. nmul (NF (mk_flt False x)) (NF (Fin 100)) = Inr n \<and>
    (num_rel RGt n (NF m) \<longleftrightarrow> fval m < rnd64 (rnd64 x * 100))"
proof (cases "rnd64 x < max64")
  case True
  have x: "0 \<le> rnd64 x" using assms(1) by (rule rnd64_nonneg)
  then have "fmul (mk_flt False x) (Fin 100) = mk_flt False (rnd64 x * 100)"
    using True by (simp add: fmul_def Let_def mk_flt_nonneg [OF assms(1)])
  moreover have "num_rel RGt (NF (mk_flt False (rnd64 x * 100))) (NF m) \<longleftrightarrow> fval m < rnd64 (rnd64 x * 100)"
    using x assms(2,3) by (intro exceeds_limit) simp_all
  ultimately show ?thesis by (simp add: nmul_def num_op_def)
next
  case False
  then have "nmul (NF (mk_flt False x)) (NF (Fin 100)) = Inr (NF PosInf)"
    by (simp add: mk_flt_nonneg [OF assms(1)] nmul_def num_op_def fmul_def finf_def)
  moreover have "num_rel RGt (NF PosInf) (NF m)" using num_x_finite [OF assms(2)] by (simp add: num_rel_def)
  moreover have "fval m < rnd64 (rnd64 x * 100)"
  proof -
    have "max64 \<le> rnd64 x * 100" using False max64_pos by linarith
    then have "rnd64 max64 \<le> rnd64 (rnd64 x * 100)" by (rule rnd64_mono)
    with is64_less [OF assms(3)] show ?thesis unfolding rnd64_max64 by (rule less_le_trans)
  qed
  ultimately show ?thesis by simp
qed

lemma num_eq_zero_val: "plain_number n \<Longrightarrow> num_eq n (NI 0) \<longleftrightarrow> num_val n = 0"
proof (cases n)
  case (NF f)
  then show "plain_number n \<Longrightarrow> ?thesis" by (cases f) (auto simp: num_eq_def)
qed (simp add: num_eq_def)

lemma num_val_64: "plain_number n \<Longrightarrow> is64 (num_val n)"
  using plain_flt by force

lemma divergence_ok_close:
  assumes "num_of (get_val ps (dt_sensor_type th)) = Some p" "num_of (get_val cs (dt_sensor_type th)) = Some c"
    and "plain_number p" "plain_number c" "plain_limit th"
  shows "divergence_ok th ps cs = Inr (close_readings (dt_method th) (fval (dt_max_divergence th)) (num_val p) (num_val c))"
proof -
  let ?D = "rnd64 \<bar>num_val c - num_val p\<bar>" and ?m = "dt_max_divergence th"
  have m: "is_finite ?m" "is64 (fval ?m)" using assms(5) by (simp_all add: plain_limit_def)
  have ne: "get_val ps (dt_sensor_type th) \<noteq> VNone" "get_val cs (dt_sensor_type th) \<noteq> VNone" using assms(1,2) by auto
  obtain d where d: "nsub c p = Inr d" "num_x (nabs d) = Some (XRat ?D)"
    "num_val p \<noteq> 0 \<longrightarrow> ndiv (nabs d) (nabs p) = Inr (NF (mk_flt False (?D / \<bar>num_val p\<bar>)))"
    using nabs_difference [OF assms(3,4)] by blast
  have gt: "num_rel RGt (nabs d) (NF ?m) \<longleftrightarrow> fval ?m < ?D" "num_rel RGt (nabs d) (NI 0) \<longleftrightarrow> 0 < ?D"
    using d(2) num_x_finite [OF m(1)] by (simp_all add: num_rel_def)
  have D0: "0 \<le> ?D" by (rule rnd64_nonneg) simp
  have same: "?D = 0 \<longleftrightarrow> num_val c = num_val p"
    using rnd64_eq_0 [OF on_grid_diff [OF is64_on_grid is64_on_grid, OF num_val_64 num_val_64, OF assms(4,3)]]
    by (simp add: rnd64_abs)
  show ?thesis
  proof (cases "dt_method th")
    case ABSOLUTE
    then show ?thesis using assms(1,2) ne d(1) gt(1) by (simp add: divergence_ok_def close_readings_def Let_def not_less)
  next
    case PERCENTAGE
    show ?thesis
    proof (cases "num_val p = 0")
      case True
      then show ?thesis using PERCENTAGE assms(1,2) ne d(1) gt(2) D0 same num_eq_zero_val [OF assms(3)]
        by (auto simp: divergence_ok_def close_readings_def Let_def)
    next
      case False
      have "0 \<le> ?D / \<bar>num_val p\<bar>" using D0 by simp
      from percentage_exceeds [OF this m] show ?thesis
        using False PERCENTAGE assms(1,2) ne d num_eq_zero_val [OF assms(3)]
        by (auto simp: divergence_ok_def close_readings_def Let_def not_less)
    qed
  qed
qed

lemma divergence_ok_agrees:
  assumes "plain_reading (get_val ps (dt_sensor_type th))" "plain_reading (get_val cs (dt_sensor_type th))" "plain_limit th"
  shows "divergence_ok th ps cs = Inr (sensor_agrees th (get_val ps (dt_sensor_type th)) (get_val cs (dt_sensor_type th)))"
proof (cases "num_of (get_val ps (dt_sensor_type th)) = None \<or> num_of (get_val cs (dt_sensor_type th)) = None")
  case True
  then show ?thesis
    by (auto simp: divergence_ok_def sensor_agrees_def reading_value_num Let_def split: option.split)
next
  case False
  then obtain p c where "num_of (get_val ps (dt_sensor_type th)) = Some p" "num_of (get_val cs (dt_sensor_type th)) = Some c" by auto
  with assms divergence_ok_close show ?thesis by (auto simp: plain_reading_def sensor_agrees_def reading_value_num)
qed

lemma check_divergences_decides:
  "\<forall>th\<in>set ts. divergence_ok th p c = Inr (ok th) \<Longrightarrow>
   check_divergences ts p c = Inr (if list_all ok ts then (True, None) else (False, Some ''INTEGRITY_SENSOR_DIVERGENCE''))"
  by (induction ts) auto

subsection \<open>Properties\<close>

text \<open>C15: The integrity check comes to an answer and passes, with no reason, exactly when the policy versions agree, the two sensor hashes agree if both are given, the proof is neither older than the limit nor more than five seconds in the future, and every configured sensor agrees: it is there on both sides, and its values differ by at most the limit, or by at most the limit in percent of the proof's value (by nothing when that is zero), or, when they are not both numbers, are equal. Assumed are finite limits and readings that binary64 represents, up to 2 ^ 52 for integers and 2 ^ 100 for floats; differences and percentages are rounded as binary64 rounds them.\<close>

theorem integrity_pass_iff:
  assumes "\<forall>th\<in>set ts. plain_limit th \<and> plain_reading (get_val ps (dt_sensor_type th)) \<and> plain_reading (get_val cs (dt_sensor_type th))"
  shows "\<exists>ok e. check_integrity pv av t now age ps cs ts ph ch = Inr (ok, e) \<and> (ok \<longleftrightarrow> e = None) \<and>
    (ok \<longleftrightarrow> pv = av \<and> hashes_agree ph ch \<and> now - t \<le> age \<and> t - now \<le> 5000 \<and>
      (\<forall>th\<in>set ts. sensor_agrees th (get_val ps (dt_sensor_type th)) (get_val cs (dt_sensor_type th))))"
proof -
  have "check_divergences ts ps cs =
      Inr (if list_all (\<lambda>th. sensor_agrees th (get_val ps (dt_sensor_type th)) (get_val cs (dt_sensor_type th))) ts
           then (True, None) else (False, Some ''INTEGRITY_SENSOR_DIVERGENCE''))"
    using assms divergence_ok_agrees by (intro check_divergences_decides) auto
  then show ?thesis by (auto simp: check_integrity_def Let_def hashes_agree_def list_all_iff)
qed

theorem integrity_pass_iff_witness:
  "sensor_agrees \<lparr> dt_sensor_type = ''t'', dt_method = PERCENTAGE, dt_max_divergence = Fin 10 \<rparr> (VInt 200) (VFloat (Fin 210))"
proof -
  let ?ts = "[\<lparr> dt_sensor_type = ''t'', dt_method = PERCENTAGE, dt_max_divergence = Fin 10 \<rparr>]"
  let ?p = "VDict [(''t'', VInt 200)]" and ?c = "VDict [(''t'', VFloat (Fin 210))]"
  have g: "get_val ?p ''t'' = VInt 200" "get_val ?c ''t'' = VFloat (Fin 210)" by (simp_all add: get_val_def)
  have plain: "plain_limit (hd ?ts)" "plain_reading (VInt 200)" "plain_reading (VFloat (Fin 210))" by code_simp+
  then have all: "\<forall>th\<in>set ?ts. plain_limit th \<and> plain_reading (get_val ?p (dt_sensor_type th)) \<and> plain_reading (get_val ?c (dt_sensor_type th))"
    by (simp add: g)
  have "check_integrity ''v1'' ''v1'' 1000 1100 500 ?p ?c ?ts None None = Inr (True, None)" by code_simp
  with integrity_pass_iff [OF all, of "''v1''" "''v1''" 1000 1100 500 None None] show ?thesis by (simp add: g)
qed

text \<open>A failed check names the first failing stage: policy, then hash, then age, then divergence; the reason is INTEGRITY_SENSOR_DIVERGENCE only when the first three stages passed.\<close>

theorem integrity_reason:
  assumes "check_integrity pv av t now age ps cs ts ph ch = Inr (False, e)"
  shows "e = Some (if pv \<noteq> av then ''INTEGRITY_POLICY_MISMATCH''
    else if \<not> hashes_agree ph ch then ''INTEGRITY_SENSOR_HASH_MISMATCH''
    else if age < now - t then ''INTEGRITY_TIMESTAMP_EXPIRED''
    else if now - t < - 5000 then ''INTEGRITY_TIMESTAMP_FUTURE''
    else ''INTEGRITY_SENSOR_DIVERGENCE'')"
  using assms check_divergences_reason [of ts ps cs False e]
  by (auto simp: check_integrity_def Let_def hashes_agree_def split: if_splits)

theorem integrity_reason_witness:
  "check_integrity ''v1'' ''v1'' 1000 1900 500 VNone VNone [] None (Some ''h'')
    = Inr (False, Some ''INTEGRITY_TIMESTAMP_EXPIRED'')"
proof -
  let ?c = "check_integrity ''v1'' ''v1'' 1000 1900 500 VNone VNone [] None (Some ''h'')"
  have r: "?c = Inr (False, snd (projr ?c))" by code_simp
  show ?thesis using integrity_reason [OF r] r by (simp add: hashes_agree_def)
qed

text \<open>C16: After a pass, an absolute threshold on an integer sensor bounds the exact difference between the proof's value and the current one, and a sensor missing on either side is never accepted.\<close>

theorem integrity_divergence_sound:
  assumes "check_integrity pv av t now age ps cs ts ph ch = Inr (True, e)" and "th \<in> set ts"
  shows "get_val ps (dt_sensor_type th) \<noteq> VNone \<and> get_val cs (dt_sensor_type th) \<noteq> VNone \<and>
    (\<forall>a b x. get_val ps (dt_sensor_type th) = VInt a \<and> get_val cs (dt_sensor_type th) = VInt b \<and>
       dt_method th = ABSOLUTE \<and> flt_x (dt_max_divergence th) = Some x \<longrightarrow> XRat (of_int \<bar>b - a\<bar>) \<le> x)"
proof -
  have "divergence_ok th ps cs = Inr True"
    using assms by (simp add: check_integrity_pass)
  then show ?thesis
    by (auto simp: divergence_ok_def Let_def nsub_def num_op_def num_rel_def split: if_splits)
qed

theorem integrity_divergence_sound_witness:
  "XRat (of_int \<bar>7 - 4\<bar>) \<le> XRat 5"
proof -
  let ?th = "\<lparr> dt_sensor_type = ''p'', dt_method = ABSOLUTE, dt_max_divergence = Fin 5 \<rparr>"
  let ?p = "VDict [(''p'', VInt 4)]" and ?c = "VDict [(''p'', VInt 7)]"
  have "check_integrity ''v1'' ''v1'' 1000 1100 500 ?p ?c [?th] (Some ''h'') (Some ''h'') = Inr (True, None)"
    by code_simp
  from integrity_divergence_sound [OF this, of ?th] show ?thesis
    by (auto simp: get_val_def)
qed

text \<open>A reading without a hash is treated as one whose hash is the proof's.\<close>

theorem integrity_null_hash_passes:
  "check_integrity pv av t now age ps cs ts ph None = check_integrity pv av t now age ps cs ts ph ph"
  by (simp add: check_integrity_def Let_def)

text \<open>A NaN reading passes an absolute divergence check whatever the limit, and any proof value of that sensor with it.\<close>

theorem integrity_nan_passes:
  "divergence_ok \<lparr> dt_sensor_type = ''t'', dt_method = ABSOLUTE, dt_max_divergence = m \<rparr>
     (VDict [(''t'', VFloat x)]) (VDict [(''t'', VFloat NaN)]) = Inr True"
  by (simp add: divergence_ok_def get_val_def Let_def nsub_def num_op_def fsub_def fadd_def fabs_def num_rel_def)

end
