(* ===== verification/Cbf.thy ===== *)
theory Cbf
  imports Models
begin

section \<open>The CBF validator (core/services/cbf_validator.py)\<close>

text \<open>
  Every rule becomes a barrier value, the distance to its limit, in the current state and in
  the state projected by each action; the verdict looks at the least of them.  A rule is a
  \<open>Rule\<close> object or, as the code allows, any other value (a dictionary of the same fields; an
  object without the attributes raises).  The measured time is an argument.  The lemmas: a
  SAFE verdict means that along the projected trajectory every rule's field is a number and every
  range and every threshold but eq and ne holds, for numbers that binary64 represents and rule ids
  that differ.
\<close>

datatype cbf_rule = CObj rule | CVal pv

definition no_attr :: "pv \<Rightarrow> string \<Rightarrow> 'a res" where
  "no_attr v a = raise AttributeError (concat [[CHR 0x27], type_name v, [CHR 0x27],
     '' object has no attribute '', [CHR 0x27], a, [CHR 0x27]])"

text \<open>\<open>rule.get(key, default) if isinstance(rule, dict) else rule.attr\<close>\<close>

fun c_rule_id :: "cbf_rule \<Rightarrow> string res" where
  "c_rule_id (CObj r) = Inr (r_rule_id r)"
| "c_rule_id (CVal v) = (case v of VDict d \<Rightarrow> Inr (py_str (dget_or d ''rule_id'' (VStr ''unknown'')))
     | _ \<Rightarrow> no_attr v ''rule_id'')"

fun rule_type_text :: "rule_type \<Rightarrow> string" where
  "rule_type_text THRESHOLD = ''threshold''"
| "rule_type_text RANGE = ''range''"
| "rule_type_text ENUM = ''enum''"
| "rule_type_text FORBIDDEN_COMBINATION = ''forbidden_combination''"

fun c_rule_type :: "cbf_rule \<Rightarrow> pv" where
  "c_rule_type (CObj r) = VStr (rule_type_text (r_type r))"
| "c_rule_type (CVal v) = dget_or (as_dict v) ''type'' (VStr '''')"

fun c_target_field :: "cbf_rule \<Rightarrow> string" where
  "c_target_field (CObj r) = r_target_field r"
| "c_target_field (CVal v) = py_str (dget_or (as_dict v) ''target_field'' (VStr ''''))"

fun c_operator :: "cbf_rule \<Rightarrow> pv" where
  "c_operator (CObj r) = VStr (case r_operator r of None \<Rightarrow> ''lte'' | Some oper \<Rightarrow> op_text oper)"
| "c_operator (CVal v) = dget_or (as_dict v) ''operator'' (VStr ''lte'')"

fun c_value :: "cbf_rule \<Rightarrow> pv" where
  "c_value (CObj r) = r_value r"
| "c_value (CVal v) = vget (as_dict v) ''value''"

definition opt_flt :: "flt option \<Rightarrow> pv" where
  "opt_flt x = (case x of None \<Rightarrow> VNone | Some f \<Rightarrow> VFloat f)"

fun c_min :: "cbf_rule \<Rightarrow> pv" where
  "c_min (CObj r) = opt_flt (r_min r)"
| "c_min (CVal v) = vget (as_dict v) ''min''"

fun c_max :: "cbf_rule \<Rightarrow> pv" where
  "c_max (CObj r) = opt_flt (r_max r)"
| "c_max (CVal v) = vget (as_dict v) ''max''"

text \<open>The lookup here also steps into lists, by a numeric part of the path.\<close>

definition list_index :: "pv list \<Rightarrow> int \<Rightarrow> pv option" where
  "list_index xs i = (let n = int (length xs); j = (if i < 0 then i + n else i) in
     if 0 \<le> j \<and> j < n then Some (xs ! nat j) else None)"

fun cbf_walk :: "pv \<Rightarrow> string list \<Rightarrow> pv" where
  "cbf_walk v [] = v"
| "cbf_walk (VDict d) (k # ks) = (case dget d k of Some w \<Rightarrow> cbf_walk w ks | None \<Rightarrow> VNone)"
| "cbf_walk (VList xs) (k # ks) = (case int_text k of None \<Rightarrow> VNone
     | Some i \<Rightarrow> (case list_index xs i of None \<Rightarrow> VNone | Some w \<Rightarrow> cbf_walk w ks))"
| "cbf_walk v (k # ks) = VNone"

definition cbf_get_nested_value :: "pv dict \<Rightarrow> string \<Rightarrow> pv" where
  "cbf_get_nested_value state field = cbf_walk (VDict state) (split_on CHR ''.'' field)"

definition missing_value :: "string \<Rightarrow> string \<Rightarrow> string \<Rightarrow> 'a res" where
  "missing_value i t what = raise RuntimeError (''Rule '' @ i @ '' ('' @ t @ '') missing '' @ what)"

text \<open>The barrier of one rule; \<open>None\<close> when the rule sets no entry.\<close>

definition barrier :: "pv dict \<Rightarrow> string \<Rightarrow> cbf_rule \<Rightarrow> pnum option res" where
  "barrier state i r =
     (let v = cbf_get_nested_value state (c_target_field r) in
      if v = VNone \<or> \<not> is_number v then Inr (Some nneginf)
      else if c_rule_type r = VStr ''threshold'' then
        (let limit = c_value r; oper = c_operator r in
         if limit = VNone then missing_value i ''threshold'' [CHR 0x27, CHR ''v'', CHR ''a'', CHR ''l'', CHR ''u'', CHR ''e'', CHR 0x27]
         else if oper = VStr ''lte'' \<or> oper = VStr ''lt'' then bindR (arith_op ''-'' nsub limit v) (\<lambda>b. Inr (Some b))
         else if oper = VStr ''gte'' \<or> oper = VStr ''gt'' then bindR (arith_op ''-'' nsub v limit) (\<lambda>b. Inr (Some b))
         else Inr None)
      else if c_rule_type r = VStr ''range'' then
        (if c_min r = VNone \<or> c_max r = VNone
         then missing_value i ''range'' (concat [[CHR 0x27], ''min'', [CHR 0x27], '' or '', [CHR 0x27], ''max'', [CHR 0x27]])
         else bindR (arith_op ''-'' nsub v (c_min r)) (\<lambda>a. bindR (arith_op ''-'' nsub (c_max r) v) (\<lambda>b.
                Inr (Some (if num_rel RLt b a then b else a)))))
      else Inr None)"

type_synonym barriers = "(string \<times> pnum) list"

fun compute_barriers :: "pv dict \<Rightarrow> cbf_rule list \<Rightarrow> barriers \<Rightarrow> barriers res" where
  "compute_barriers state [] bs = Inr bs"
| "compute_barriers state (r # rs) bs =
     bindR (c_rule_id r) (\<lambda>i. bindR (barrier state i r) (\<lambda>b.
       compute_barriers state rs (case b of None \<Rightarrow> bs | Some x \<Rightarrow> AList.update i x bs)))"

fun set_nested_value :: "pv dict \<Rightarrow> string list \<Rightarrow> pv \<Rightarrow> pv dict" where
  "set_nested_value d [] v = d"
| "set_nested_value d [k] v = dset k v d"
| "set_nested_value d (k # l # ks) v =
     dset k (VDict (set_nested_value (case dget d k of Some (VDict e) \<Rightarrow> e | _ \<Rightarrow> []) (l # ks) v)) d"

text \<open>
  \<open>param_name in params\<close> and then, if it is \<open>used\<close>, \<open>params[param_name]\<close>, whatever \<open>params\<close>
  is; \<open>None\<close> when the parameter is absent.
\<close>

fun is_substr :: "string \<Rightarrow> string \<Rightarrow> bool" where
  "is_substr p [] = (p = [])"
| "is_substr p (c # s) = (starts_with p (c # s) \<or> is_substr p s)"

fun param_lookup :: "bool \<Rightarrow> pv \<Rightarrow> string \<Rightarrow> pv option res" where
  "param_lookup used (VDict d) p = Inr (dget d p)"
| "param_lookup used (VList xs) p = (if py_in (VStr p) xs \<and> used
     then raise TypeError ''list indices must be integers or slices, not str'' else Inr None)"
| "param_lookup used (VStr s) p = (if is_substr p s \<and> used
     then raise TypeError (concat [''string indices must be integers, not '', [CHR 0x27], ''str'', [CHR 0x27]]) else Inr None)"
| "param_lookup used v p = raise TypeError (concat [''argument of type '', [CHR 0x27], type_name v, [CHR 0x27], '' is not iterable''])"

record cbf_mapping =
  cm_action_type :: string
  cm_param :: string
  cm_maps_to_field :: string

definition apply_mapping :: "pv \<Rightarrow> pv \<Rightarrow> cbf_mapping \<Rightarrow> pv dict \<Rightarrow> pv dict res" where
  "apply_mapping action_type params m projected =
     (if action_type = VStr (cm_action_type m)
      then bindR (param_lookup (cm_maps_to_field m \<noteq> []) params (cm_param m)) (\<lambda>found. case found of
             None \<Rightarrow> Inr projected
           | Some v \<Rightarrow> if cm_maps_to_field m = [] then Inr projected
               else Inr (set_nested_value projected (split_on CHR ''.'' (cm_maps_to_field m)) v))
      else Inr projected)"

definition create_projected_state :: "pv dict \<Rightarrow> pv dict \<Rightarrow> cbf_mapping list \<Rightarrow> pv dict res" where
  "create_projected_state current_state action mappings =
     foldR (apply_mapping (dget_or action ''action_type'' (VStr '''')) (dget_or action ''params'' (VDict [])))
       mappings current_state"


subsection \<open>The validation\<close>

text \<open>The variables of the loop; \<open>observe\<close> records the barriers of one state.\<close>

record cbf_state =
  cs_current :: "pv dict"
  cs_min :: pnum
  cs_first :: "int option"
  cs_all :: "(string \<times> barriers) list"
  cs_projected :: "pv list"

definition barriers_min :: "barriers \<Rightarrow> pnum" where
  "barriers_min bs = (case map snd bs of [] \<Rightarrow> ninf | x # xs \<Rightarrow> nmin_list x xs)"

definition observe :: "string \<Rightarrow> int \<Rightarrow> barriers \<Rightarrow> cbf_state \<Rightarrow> cbf_state" where
  "observe label idx bs st = (let m = barriers_min bs in
     st\<lparr> cs_all := AList.update label bs (cs_all st),
        cs_min := (if num_rel RLt m (cs_min st) then m else cs_min st),
        cs_first := (if num_rel RLe m (NI 0) \<and> cs_first st = None then Some idx else cs_first st) \<rparr>)"

definition cbf_step :: "cbf_rule list \<Rightarrow> cbf_mapping list \<Rightarrow> nat \<Rightarrow> pv dict \<Rightarrow> cbf_state \<Rightarrow> cbf_state res" where
  "cbf_step ruleset mappings i action st =
     bindR (create_projected_state (cs_current st) action mappings) (\<lambda>projected.
     bindR (compute_barriers projected ruleset []) (\<lambda>bs.
       let st1 = st\<lparr> cs_projected := cs_projected st @ [VDict [(''step'', VInt (int i)),
                   (''action_type'', dget_or action ''action_type'' (VStr ''unknown'')),
                   (''projected_state'', VDict projected)]] \<rparr>;
           st2 = observe (''step_'' @ str_nat i) (int i) bs st1
       in Inr (st2\<lparr> cs_current := dmerge (cs_current st) projected \<rparr>)))"

fun cbf_loop :: "cbf_rule list \<Rightarrow> cbf_mapping list \<Rightarrow> nat \<Rightarrow> pv dict list \<Rightarrow> cbf_state \<Rightarrow> cbf_state res" where
  "cbf_loop ruleset mappings i [] st = Inr st"
| "cbf_loop ruleset mappings i (a # as) st =
     bindR (cbf_step ruleset mappings i a st) (cbf_loop ruleset mappings (Suc i) as)"

definition round3 :: "pnum \<Rightarrow> pv" where
  "round3 x = of_num (nround 3 x)"

definition validate_safety ::
  "pnum \<Rightarrow> pv dict \<Rightarrow> pv dict list \<Rightarrow> cbf_rule list \<Rightarrow> cbf_mapping list \<Rightarrow> validator_verdict res" where
  "validate_safety latency_ms current_state action_sequence ruleset cbf_state_mappings =
     (if ruleset = [] then Inr \<lparr> vv_verdict = INDETERMINATE,
        vv_details = [(''reason'', VStr ''No safety rules defined for CBF evaluation''),
                      (''computation_time_ms'', VInt 0)] \<rparr>
      else bindR (compute_barriers current_state ruleset []) (\<lambda>current_barriers.
        let st0 = observe ''current_state'' (- 1) current_barriers
              \<lparr> cs_current = current_state, cs_min = ninf, cs_first = None, cs_all = [], cs_projected = [] \<rparr>
        in bindR (cbf_loop ruleset cbf_state_mappings 0 action_sequence st0) (\<lambda>st.
          let min_barrier = (if num_eq (cs_min st) ninf then NF (Fin (- 1)) else cs_min st);
              barrier_vals = concat (map (\<lambda>(k, bs). map snd bs) (cs_all st));
              max_barrier = (case barrier_vals of [] \<Rightarrow> NF (Fin 1) | x # xs \<Rightarrow> nmax_list x xs)
          in bindR (if num_rel RGt max_barrier (NI 0) then ndiv min_barrier max_barrier else Inr (NF (Fin 0)))
               (\<lambda>safe_margin_ratio. Inr
            \<lparr> vv_verdict = (if num_rel RGe min_barrier (NI 0) then SAFE else UNSAFE),
              vv_details =
                [(''min_barrier_value'', round3 min_barrier),
                 (''barrier_values'', VDict (map (\<lambda>(k, bs). (k, VDict (map (\<lambda>(i, b). (i, round3 b)) bs))) (cs_all st))),
                 (''first_violation_step'', case cs_first st of None \<Rightarrow> VNone | Some i \<Rightarrow> VInt i),
                 (''safe_margin_ratio'', round3 safe_margin_ratio),
                 (''projected_states'', VList (cs_projected st)),
                 (''computation_time_ms'', round3 latency_ms)] \<rparr>))))"

subsection \<open>The least barrier\<close>

definition not_nan :: "pnum \<Rightarrow> bool" where
  "not_nan n \<longleftrightarrow> num_x n \<noteq> None"

definition barriers_defined :: "barriers \<Rightarrow> bool" where
  "barriers_defined bs \<longleftrightarrow> list_all not_nan (map snd bs)"

lemma num_le_refl: "not_nan a \<Longrightarrow> num_le a a"
  by (auto simp: not_nan_def num_rel_def)

lemma num_le_trans: "num_le a b \<Longrightarrow> num_le b c \<Longrightarrow> num_le a c"
  by (auto simp: num_rel_def split: option.splits)

lemma not_num_lt: "not_nan a \<Longrightarrow> not_nan b \<Longrightarrow> \<not> num_lt a b \<Longrightarrow> num_le b a"
  by (auto simp: not_nan_def num_rel_def split: option.splits)

lemma num_lt_le: "num_lt a b \<Longrightarrow> num_le a b"
  by (auto simp: num_rel_def split: option.splits)

lemma nmin_list_le:
  "not_nan m \<Longrightarrow> list_all not_nan xs \<Longrightarrow> not_nan (nmin_list m xs) \<and> num_le (nmin_list m xs) m
     \<and> (\<forall>x\<in>set xs. num_le (nmin_list m xs) x)"
proof (induction xs arbitrary: m)
  case Nil
  then show ?case by (simp add: num_le_refl)
next
  case (Cons y ys)
  define k where "k = (if num_lt y m then y else m)"
  have k: "not_nan k" "num_le k m" "num_le k y"
    using Cons.prems num_lt_le not_num_lt num_le_refl by (auto simp: k_def)
  have "not_nan (nmin_list k ys) \<and> num_le (nmin_list k ys) k \<and> (\<forall>x\<in>set ys. num_le (nmin_list k ys) x)"
    using Cons.prems(2) k(1) by (intro Cons.IH) auto
  then show ?case using k(2,3) num_le_trans unfolding nmin_list.simps k_def [symmetric] by auto
qed

lemma barriers_min_le:
  assumes "barriers_defined bs"
  shows "not_nan (barriers_min bs)" and "\<forall>b\<in>snd ` set bs. num_le (barriers_min bs) b"
proof -
  have "not_nan (barriers_min bs) \<and> (\<forall>b\<in>snd ` set bs. num_le (barriers_min bs) b)"
  proof (cases bs)
    case Nil
    then show ?thesis by (simp add: barriers_min_def not_nan_def ninf_def)
  next
    case (Cons p ps)
    then show ?thesis using assms nmin_list_le [of "snd p" "map snd ps"]
      by (simp add: barriers_min_def barriers_defined_def)
  qed
  then show "not_nan (barriers_min bs)" "\<forall>b\<in>snd ` set bs. num_le (barriers_min bs) b" by auto
qed

lemma observe_min:
  assumes "barriers_defined bs" "not_nan (cs_min st)"
  shows "not_nan (cs_min (observe l i bs st))" and "num_le (cs_min (observe l i bs st)) (cs_min st)"
    and "\<forall>b\<in>snd ` set bs. num_le (cs_min (observe l i bs st)) b"
proof -
  let ?m = "barriers_min bs" and ?n = "cs_min (observe l i bs st)"
  have n: "?n = (if num_lt ?m (cs_min st) then ?m else cs_min st)" by (simp add: observe_def Let_def)
  note m = barriers_min_le [OF assms(1)]
  show "not_nan ?n" using n m(1) assms(2) by simp
  show "num_le ?n (cs_min st)" using n assms(2) by (simp add: num_le_refl num_lt_le)
  have "num_le ?n ?m" using n m(1) assms(2) by (auto simp: num_le_refl intro: not_num_lt)
  with m(2) show "\<forall>b\<in>snd ` set bs. num_le ?n b" using num_le_trans by blast
qed

text \<open>The states whose barriers the loop computes.\<close>

fun trajectory :: "cbf_mapping list \<Rightarrow> pv dict \<Rightarrow> pv dict list \<Rightarrow> pv dict list res" where
  "trajectory ms cur [] = Inr []"
| "trajectory ms cur (a # as) = bindR (create_projected_state cur a ms) (\<lambda>p.
     bindR (trajectory ms (dmerge cur p) as) (\<lambda>ps. Inr (p # ps)))"

definition defined_at :: "cbf_rule list \<Rightarrow> pv dict \<Rightarrow> bool" where
  "defined_at rs s \<longleftrightarrow> (case compute_barriers s rs [] of Inl e \<Rightarrow> True | Inr bs \<Rightarrow> barriers_defined bs)"

lemma observe_current [simp]: "cs_current (observe l i bs st) = cs_current st"
  by (simp add: observe_def Let_def)

text \<open>All barriers of a state are at least \<open>k\<close>.\<close>

definition ok_at :: "cbf_rule list \<Rightarrow> pnum \<Rightarrow> pv dict \<Rightarrow> bool" where
  "ok_at rs k s \<longleftrightarrow> (case compute_barriers s rs [] of Inl e \<Rightarrow> False
     | Inr bs \<Rightarrow> list_all (num_le k) (map snd bs))"

lemma ok_atI: "compute_barriers s rs [] = Inr bs \<Longrightarrow> \<forall>b\<in>snd ` set bs. num_le k b \<Longrightarrow> ok_at rs k s"
  by (simp add: ok_at_def list_all_iff)

lemma ok_atD: "ok_at rs k s \<Longrightarrow> \<exists>bs. compute_barriers s rs [] = Inr bs \<and> (\<forall>b\<in>snd ` set bs. num_le k b)"
  by (auto simp: ok_at_def list_all_iff split: sum.splits)

lemma ok_at_mono: "num_le k l \<Longrightarrow> ok_at rs l s \<Longrightarrow> ok_at rs k s"
  using num_le_trans [of k l] by (auto simp: ok_at_def list_all_iff split: sum.splits)

lemma cbf_step_min:
  assumes "cbf_step rs ms i a st = Inr st1" "create_projected_state (cs_current st) a ms = Inr p"
  shows "\<exists>bs. compute_barriers p rs [] = Inr bs \<and> cs_current st1 = dmerge (cs_current st) p \<and>
    (\<exists>l st0. cs_min st1 = cs_min (observe l (int i) bs st0) \<and> cs_min st0 = cs_min st)"
proof -
  obtain bs where bs: "compute_barriers p rs [] = Inr bs"
    using assms by (auto simp: cbf_step_def)
  define st0 where "st0 = st\<lparr> cs_projected := cs_projected st @ [VDict [(''step'', VInt (int i)),
      (''action_type'', dget_or a ''action_type'' (VStr ''unknown'')), (''projected_state'', VDict p)]] \<rparr>"
  have "st1 = (observe (''step_'' @ str_nat i) (int i) bs st0)\<lparr> cs_current := dmerge (cs_current st) p \<rparr>"
    using assms bs by (simp add: cbf_step_def Let_def st0_def)
  then have "cs_current st1 = dmerge (cs_current st) p"
    "cs_min st1 = cs_min (observe (''step_'' @ str_nat i) (int i) bs st0)" "cs_min st0 = cs_min st"
    by (simp_all add: st0_def)
  with bs show ?thesis by blast
qed

lemma cbf_loop_min:
  assumes "cbf_loop rs ms i as st = Inr st'" "not_nan (cs_min st)"
    and "trajectory ms (cs_current st) as = Inr ps" "list_all (defined_at rs) ps"
  shows "not_nan (cs_min st') \<and> num_le (cs_min st') (cs_min st) \<and>
    list_all (ok_at rs (cs_min st')) ps"
  using assms
proof (induction as arbitrary: i st ps)
  case Nil
  then show ?case by (simp add: num_le_refl)
next
  case (Cons a as)
  then obtain p qs where p: "create_projected_state (cs_current st) a ms = Inr p"
    and qs: "trajectory ms (dmerge (cs_current st) p) as = Inr qs" and ps: "ps = p # qs"
    by auto
  from Cons.prems(1) obtain st1 where step: "cbf_step rs ms i a st = Inr st1"
    and loop: "cbf_loop rs ms (Suc i) as st1 = Inr st'" by auto
  obtain bs where bs: "compute_barriers p rs [] = Inr bs"
    and st1: "cs_current st1 = dmerge (cs_current st) p"
      "\<exists>l st0. cs_min st1 = cs_min (observe l (int i) bs st0) \<and> cs_min st0 = cs_min st"
    using cbf_step_min [OF step p] by blast
  have d: "barriers_defined bs" using Cons.prems(4) ps bs by (simp add: defined_at_def)
  have m: "not_nan (cs_min st1)" "num_le (cs_min st1) (cs_min st)" "\<forall>b\<in>snd ` set bs. num_le (cs_min st1) b"
    using observe_min [OF d] st1(2) Cons.prems(2) by metis+
  have IH: "not_nan (cs_min st') \<and> num_le (cs_min st') (cs_min st1) \<and>
    list_all (ok_at rs (cs_min st')) qs"
    using Cons.prems(4) ps qs st1(1) by (intro Cons.IH [OF loop m(1)]) auto
  have "ok_at rs (cs_min st1) p" by (rule ok_atI [OF bs m(3)])
  with IH have "ok_at rs (cs_min st') p" "num_le (cs_min st') (cs_min st)"
    using m(2) num_le_trans ok_at_mono by blast+
  with IH show ?case unfolding ps by simp
qed

subsection \<open>What a barrier that is not negative says\<close>

text \<open>Numbers whose differences have the right sign: floats of binary64, integers up to \<open>2 ^ 53\<close>.\<close>

fun proper :: "pnum \<Rightarrow> bool" where
  "proper (NI i) = (\<bar>i\<bar> \<le> 2 ^ 53)"
| "proper (NF f) = (is_finite f \<and> is64 (fval f))"

lemma proper_flt: "proper n \<Longrightarrow> \<exists>f. num_flt n = Inr f \<and> is_finite f \<and> is64 (fval f) \<and> num_x n = Some (XRat (fval f))"
proof (cases n)
  case (NI i)
  moreover assume "proper n"
  ultimately show ?thesis using is64_of_int [of i] int_to_flt_exact [of i] by simp
next
  case (NF f)
  moreover assume "proper n"
  ultimately show ?thesis by (cases f) auto
qed

lemma nsub_sign:
  assumes "proper a" "proper b" "nsub a b = Inr d"
  shows "num_le (NI 0) d \<longleftrightarrow> num_le b a"
proof (cases "\<exists>i j. a = NI i \<and> b = NI j")
  case True
  with assms(3) show ?thesis by (auto simp: nsub_def num_op_def num_rel_def)
next
  case False
  obtain f g where f: "num_flt a = Inr f" "is_finite f" "is64 (fval f)" "num_x a = Some (XRat (fval f))"
    and g: "num_flt b = Inr g" "is_finite g" "is64 (fval g)" "num_x b = Some (XRat (fval g))"
    using proper_flt [OF assms(1)] proper_flt [OF assms(2)] by blast
  have "d = NF (fsub f g)"
    using assms(3) False f(1) g(1) by (cases a; cases b) (auto simp: nsub_def num_op_def)
  then show ?thesis using fsub_sign [OF f(2) g(2) f(3) g(3)] f(4) g(4)
    by (auto simp: num_rel_def)
qed

lemma nsub_not_nan:
  assumes "proper a" "proper b" "nsub a b = Inr d"
  shows "not_nan d"
proof (cases "\<exists>i j. a = NI i \<and> b = NI j")
  case True
  with assms(3) show ?thesis by (auto simp: nsub_def num_op_def not_nan_def)
next
  case False
  obtain f g where f: "num_flt a = Inr f" "is_finite f" "is64 (fval f)"
    and g: "num_flt b = Inr g" "is_finite g" "is64 (fval g)"
    using proper_flt [OF assms(1)] proper_flt [OF assms(2)] by blast
  have "d = NF (fsub f g)"
    using assms(3) False f(1) g(1) by (cases a; cases b) (auto simp: nsub_def num_op_def)
  then show ?thesis using fsub_sign [OF f(2) g(2) f(3) g(3)] by (auto simp: not_nan_def)
qed

lemma num_eq_inf: "num_eq m ninf \<longleftrightarrow> m = NF PosInf"
proof (cases m)
  case (NF f)
  then show ?thesis by (cases f) (simp_all add: num_eq_def ninf_def)
qed (simp add: num_eq_def ninf_def)

lemma compute_barriers_keep:
  "compute_barriers s (map CObj rs) bs0 = Inr bs \<Longrightarrow> i \<notin> r_rule_id ` set rs \<Longrightarrow> dget bs i = dget bs0 i"
proof (induction rs arbitrary: bs0)
  case Nil
  then show ?case by simp
next
  case (Cons r rs)
  then show ?case by (auto split: option.splits)
qed

lemma compute_barriers_entry:
  "compute_barriers s (map CObj rs) bs0 = Inr bs \<Longrightarrow> distinct (map r_rule_id rs) \<Longrightarrow> r \<in> set rs \<Longrightarrow>
   \<exists>b. barrier s (r_rule_id r) (CObj r) = Inr b \<and> (\<forall>x. b = Some x \<longrightarrow> x \<in> snd ` set bs)"
proof (induction rs arbitrary: bs0)
  case Nil
  then show ?case by simp
next
  case (Cons q rs)
  then obtain b where b: "barrier s (r_rule_id q) (CObj q) = Inr b"
    and rest: "compute_barriers s (map CObj rs) (case b of None \<Rightarrow> bs0 | Some x \<Rightarrow> dset (r_rule_id q) x bs0) = Inr bs"
    by auto
  show ?case
  proof (cases "r = q")
    case True
    have "x \<in> snd ` set bs" if "b = Some x" for x
    proof -
      have "dget bs (r_rule_id q) = Some x"
        using compute_barriers_keep [OF rest, of "r_rule_id q"] Cons.prems(2) that by simp
      then show ?thesis by (force dest: map_of_SomeD)
    qed
    with b True show ?thesis by blast
  next
    case False
    then show ?thesis using Cons.prems by (intro Cons.IH [OF rest]) auto
  qed
qed

lemma barrier_not_number:
  "num_of (cbf_get_nested_value s (c_target_field r)) = None \<Longrightarrow> barrier s i r = Inr (Some nneginf)"
  by (simp add: barrier_def is_number_def Let_def)

lemma nneginf_negative: "\<not> num_le (NI 0) nneginf"
  by (simp add: nneginf_def num_rel_def)

lemma arith_op_numbers: "num_of v = Some x \<Longrightarrow> num_of w = Some y \<Longrightarrow> arith_op s f v w = f x y"
  by (simp add: arith_op_def)

lemma is_number_not_None: "num_of v = Some x \<Longrightarrow> v \<noteq> VNone \<and> is_number v"
  by (auto simp: is_number_def)

text \<open>
  The rules for which the validator sets a barrier from a limit, and what it is for a value to satisfy
  them: a strict limit counts as the barrier counts it, not strictly.  For a threshold with eq or ne the
  validator sets no barrier.
\<close>

definition limiting :: "rule \<Rightarrow> bool" where
  "limiting r \<longleftrightarrow> r_type r = RANGE \<or> r_type r = THRESHOLD \<and> r_operator r \<notin> {Some OpEq, Some OpNe}"

definition within_rule :: "rule \<Rightarrow> pnum \<Rightarrow> bool" where
  "within_rule r x \<longleftrightarrow> (case r_type r of
     THRESHOLD \<Rightarrow> (case num_of (r_value r) of None \<Rightarrow> False | Some l \<Rightarrow>
       (case r_operator r of
          Some OpLte \<Rightarrow> num_le x l | Some OpLt \<Rightarrow> num_le x l | None \<Rightarrow> num_le x l
        | Some OpGte \<Rightarrow> num_le l x | Some OpGt \<Rightarrow> num_le l x
        | Some OpEq \<Rightarrow> num_eq x l | Some OpNe \<Rightarrow> \<not> num_eq x l))
   | RANGE \<Rightarrow> (case (r_min r, r_max r) of
       (Some lo, Some hi) \<Rightarrow> num_le (NF lo) x \<and> num_le x (NF hi) | _ \<Rightarrow> False)
   | _ \<Rightarrow> False)"

definition proper_rule :: "rule \<Rightarrow> bool" where
  "proper_rule r \<longleftrightarrow> (case r_type r of
     THRESHOLD \<Rightarrow> (case num_of (r_value r) of None \<Rightarrow> False | Some l \<Rightarrow> proper l)
   | RANGE \<Rightarrow> (case (r_min r, r_max r) of
       (Some lo, Some hi) \<Rightarrow> proper (NF lo) \<and> proper (NF hi) | _ \<Rightarrow> False)
   | _ \<Rightarrow> True)"

lemma barrier_threshold:
  assumes "barrier s i (CObj r) = Inr b" "\<forall>y. b = Some y \<longrightarrow> num_le (NI 0) y"
    and "r_type r = THRESHOLD" "proper_rule r" "limiting r"
    and "num_of (cbf_get_nested_value s (r_target_field r)) = Some x" "proper x"
  shows "within_rule r x"
proof -
  obtain l where l: "num_of (r_value r) = Some l" "proper l"
    using assms(3,4) by (auto simp: proper_rule_def split: option.splits)
  note v = is_number_not_None [OF assms(6)] is_number_not_None [OF l(1)]
  note ar = arith_op_numbers [OF assms(6) l(1)] arith_op_numbers [OF l(1) assms(6)]
  show ?thesis
  proof (cases "r_operator r")
    case None
    then obtain d where "nsub l x = Inr d" "num_le (NI 0) d"
      using assms(1-3) v ar by (auto simp: barrier_def)
    then show ?thesis using None assms(3) l nsub_sign [OF l(2) assms(7)] by (simp add: within_rule_def)
  next
    case (Some oper)
    then show ?thesis using assms(1-3,5) v ar l nsub_sign [OF l(2) assms(7)] nsub_sign [OF assms(7) l(2)]
      by (cases oper) (auto simp: barrier_def within_rule_def limiting_def)
  qed
qed


lemma barrier_range:
  assumes "barrier s i (CObj r) = Inr b" "\<forall>y. b = Some y \<longrightarrow> num_le (NI 0) y"
    and "r_type r = RANGE" "proper_rule r"
    and "num_of (cbf_get_nested_value s (r_target_field r)) = Some x" "proper x"
  shows "within_rule r x"
proof -
  obtain lo hi where lh: "r_min r = Some lo" "r_max r = Some hi" "proper (NF lo)" "proper (NF hi)"
    using assms(3,4) by (auto simp: proper_rule_def split: option.splits)
  note v = is_number_not_None [OF assms(5)]
  have ar: "arith_op ''-'' nsub (cbf_get_nested_value s (r_target_field r)) (VFloat lo) = nsub x (NF lo)"
    "arith_op ''-'' nsub (VFloat hi) (cbf_get_nested_value s (r_target_field r)) = nsub (NF hi) x"
    using assms(5) by (simp_all add: arith_op_def)
  obtain p q where pq: "nsub x (NF lo) = Inr p" "nsub (NF hi) x = Inr q"
      and b: "b = Some (if num_lt q p then q else p)"
    using assms(1,3) v ar lh by (auto simp: barrier_def opt_flt_def)
  have def: "not_nan p" "not_nan q"
    using nsub_not_nan assms(6) lh(3,4) pq by blast+
  have "num_le (NI 0) p" "num_le (NI 0) q"
    using assms(2) b def not_num_lt [of q p] num_lt_le [of q p] num_le_trans by (auto split: if_splits)
  then show ?thesis
    using nsub_sign [OF assms(6) lh(3) pq(1)] nsub_sign [OF lh(4) assms(6) pq(2)] assms(3) lh(1,2)
    by (simp add: within_rule_def)
qed

lemma barrier_within:
  assumes "barrier s i (CObj r) = Inr b" "\<forall>y. b = Some y \<longrightarrow> num_le (NI 0) y" "proper_rule r" "limiting r"
    and "num_of (cbf_get_nested_value s (r_target_field r)) = Some x" "proper x"
  shows "within_rule r x"
  using assms barrier_threshold barrier_range by (auto simp: limiting_def)

lemma validate_safety_min:
  assumes "validate_safety t cur as rs ms = Inr v" "vv_verdict v = SAFE"
    and "trajectory ms cur as = Inr ps" "list_all (defined_at rs) (cur # ps)"
  shows "list_all (ok_at rs (NI 0)) (cur # ps)"
proof -
  have ne: "rs \<noteq> []" using assms(1,2) by (auto simp: validate_safety_def)
  obtain bs where bs: "compute_barriers cur rs [] = Inr bs"
    using assms(1) ne by (auto simp: validate_safety_def)
  define st0 where "st0 = observe ''current_state'' (- 1) bs
      \<lparr> cs_current = cur, cs_min = ninf, cs_first = None, cs_all = [], cs_projected = [] \<rparr>"
  obtain st where st: "cbf_loop rs ms 0 as st0 = Inr st"
    using assms(1) ne bs by (auto simp: validate_safety_def st0_def)
  have "num_rel RGe (if num_eq (cs_min st) ninf then NF (Fin (- 1)) else cs_min st) (NI 0)"
    using assms(1,2) ne bs st by (auto simp: validate_safety_def Let_def st0_def [symmetric] split: if_splits)
  then have pos: "num_le (NI 0) (cs_min st)"
    by (auto simp: num_rel_def split: if_splits option.splits)
  have d: "barriers_defined bs" using assms(4) bs by (simp add: defined_at_def)
  have m0: "not_nan (cs_min st0)" "\<forall>b\<in>snd ` set bs. num_le (cs_min st0) b"
    using observe_min [OF d, of _ "''current_state''" "- 1"] unfolding st0_def
    by (simp_all add: not_nan_def ninf_def)
  have "trajectory ms (cs_current st0) as = Inr ps" using assms(3) by (simp add: st0_def)
  with cbf_loop_min [OF st m0(1) this] assms(4)
  have l: "num_le (cs_min st) (cs_min st0)" "list_all (ok_at rs (cs_min st)) ps" by auto
  have "ok_at rs (NI 0) cur"
    by (rule ok_at_mono [OF num_le_trans [OF pos l(1)] ok_atI [OF bs m0(2)]])
  moreover have "list_all (ok_at rs (NI 0)) ps"
    using l(2) ok_at_mono [OF pos] by (simp add: list_all_iff)
  ultimately show ?thesis by simp
qed

text \<open>Along the trajectory of a SAFE verdict, the barrier of a rule is not negative.\<close>

lemma validate_safety_barrier:
  assumes "validate_safety t cur as (map CObj rs) ms = Inr v" "vv_verdict v = SAFE"
    and "trajectory ms cur as = Inr ps" "list_all (defined_at (map CObj rs)) (cur # ps)"
    and "distinct (map r_rule_id rs)" "r \<in> set rs" "s \<in> set (cur # ps)"
  shows "\<exists>b. barrier s (r_rule_id r) (CObj r) = Inr b \<and> (\<forall>y. b = Some y \<longrightarrow> num_le (NI 0) y)"
proof -
  obtain bs where bs: "compute_barriers s (map CObj rs) [] = Inr bs" "\<forall>b\<in>snd ` set bs. num_le (NI 0) b"
    using validate_safety_min [OF assms(1-4)] assms(7) ok_atD by (metis list_all_iff)
  show ?thesis using compute_barriers_entry [OF bs(1) assms(5,6)] bs(2) by blast
qed

lemma validate_safety_number:
  assumes "validate_safety t cur as (map CObj rs) ms = Inr v" "vv_verdict v = SAFE"
    and "trajectory ms cur as = Inr ps" "list_all (defined_at (map CObj rs)) (cur # ps)"
    and "distinct (map r_rule_id rs)" "r \<in> set rs" "s \<in> set (cur # ps)"
  shows "\<exists>x. num_of (cbf_get_nested_value s (r_target_field r)) = Some x"
  using validate_safety_barrier [OF assms] barrier_not_number [of s "CObj r" "r_rule_id r"] nneginf_negative
  by (cases "num_of (cbf_get_nested_value s (r_target_field r))") auto

subsection \<open>Properties\<close>

text \<open>C17: When the CBF validator says SAFE, the field of every rule is there and is a number in the current state and in every projected state; and where the rule is a range or a threshold that is not eq or ne, that number, if binary64 represents it exactly, is within the rule's limits, lt and gt counted as lte and gte. Assumed are rules whose ids differ and whose limits binary64 represents exactly, and that no barrier along the trajectory is NaN.\<close>

theorem cbf_safe_sound:
  assumes "validate_safety t cur as (map CObj rs) ms = Inr v" "vv_verdict v = SAFE"
    and "trajectory ms cur as = Inr ps" "list_all (defined_at (map CObj rs)) (cur # ps)"
    and "distinct (map r_rule_id rs)" "r \<in> set rs" "proper_rule r" "s \<in> set (cur # ps)"
  shows "\<exists>x. num_of (cbf_get_nested_value s (r_target_field r)) = Some x \<and>
    (limiting r \<and> proper x \<longrightarrow> within_rule r x)"
proof -
  obtain x where x: "num_of (cbf_get_nested_value s (r_target_field r)) = Some x"
    using validate_safety_number [OF assms(1-6,8)] by blast
  obtain b where b: "barrier s (r_rule_id r) (CObj r) = Inr b" "\<forall>y. b = Some y \<longrightarrow> num_le (NI 0) y"
    using validate_safety_barrier [OF assms(1-6,8)] by blast
  show ?thesis using barrier_within [OF b assms(7) _ x] x by blast
qed

theorem cbf_safe_sound_witness:
  "within_rule ((default_rule ''r1'' THRESHOLD ''t'')\<lparr> r_operator := Some OpLte, r_value := VInt 5 \<rparr>) (NI 4)"
proof -
  let ?r = "(default_rule ''r1'' THRESHOLD ''t'')\<lparr> r_operator := Some OpLte, r_value := VInt 5 \<rparr>"
  let ?cur = "[(''t'', VInt 3)]"
  let ?as = "[[(''action_type'', VStr ''set_t''), (''params'', VDict [(''value'', VInt 4)])]]"
  let ?ms = "[\<lparr> cm_action_type = ''set_t'', cm_param = ''value'', cm_maps_to_field = ''t'' \<rparr>]"
  let ?v = "validate_safety (NI 0) ?cur ?as (map CObj [?r]) ?ms"
  have v: "?v = Inr (projr ?v)" "vv_verdict (projr ?v) = SAFE" by code_simp+
  have t: "trajectory ?ms ?cur ?as = Inr [[(''t'', VInt 4)]]" by code_simp
  have d: "list_all (defined_at (map CObj [?r])) (?cur # [[(''t'', VInt 4)]])" by code_simp
  have r: "distinct (map r_rule_id [?r])" "?r \<in> set [?r]" "proper_rule ?r" "limiting ?r" "proper (NI 4)" by (simp_all, code_simp+)
  have s: "[(''t'', VInt 4)] \<in> set (?cur # [[(''t'', VInt 4)]])" by simp
  have "num_of (cbf_get_nested_value [(''t'', VInt 4)] (r_target_field ?r)) = Some (NI 4)" by code_simp
  with cbf_safe_sound [OF v t d r(1-3) s] r(4,5) show ?thesis by (metis option.inject)
qed

text \<open>A threshold with eq is not checked: another rule that holds makes the verdict SAFE, although the field differs from the value it must equal.\<close>

theorem cbf_equality_unchecked:
  "map_option vv_verdict (case validate_safety (NI 0) [(''t'', VInt 3), (''mode'', VInt 1)] []
     (map CObj [(default_rule ''r1'' THRESHOLD ''t'')\<lparr> r_operator := Some OpLte, r_value := VInt 5 \<rparr>,
                (default_rule ''r2'' THRESHOLD ''mode'')\<lparr> r_operator := Some OpEq, r_value := VInt 2 \<rparr>]) [] of
     Inl e \<Rightarrow> None | Inr v \<Rightarrow> Some v) = Some SAFE"
  by code_simp

text \<open>C18: A missing or non-numeric field of any rule, an enumeration or a combination included, in the current or in a projected state makes the validator say UNSAFE, when it comes to a verdict, the ids of the rules differ and no barrier along the trajectory is NaN.\<close>

theorem cbf_fail_closed:
  assumes "validate_safety t cur as (map CObj rs) ms = Inr v"
    and "trajectory ms cur as = Inr ps" "list_all (defined_at (map CObj rs)) (cur # ps)"
    and "distinct (map r_rule_id rs)" "r \<in> set rs" "s \<in> set (cur # ps)"
    and "num_of (cbf_get_nested_value s (r_target_field r)) = None"
  shows "vv_verdict v = UNSAFE"
proof -
  have "vv_verdict v \<noteq> SAFE" using validate_safety_number [OF assms(1) _ assms(2-6)] assms(7) by auto
  moreover have "vv_verdict v \<noteq> INDETERMINATE"
    using assms(1,5) by (auto simp: validate_safety_def Let_def split: if_splits)
  ultimately show ?thesis by (cases "vv_verdict v") auto
qed

theorem cbf_fail_closed_witness:
  "vv_verdict (projr (validate_safety (NI 0) [(''mode'', VStr ''auto'')] []
     (map CObj [(default_rule ''r1'' ENUM ''mode'')\<lparr> r_allowed_values := Some [VStr ''auto''] \<rparr>]) [])) = UNSAFE"
proof -
  let ?r = "(default_rule ''r1'' ENUM ''mode'')\<lparr> r_allowed_values := Some [VStr ''auto''] \<rparr>"
  let ?cur = "[(''mode'', VStr ''auto'')]"
  let ?v = "validate_safety (NI 0) ?cur [] (map CObj [?r]) []"
  have v: "?v = Inr (projr ?v)" by code_simp
  have d: "list_all (defined_at (map CObj [?r])) [?cur]" by code_simp
  show ?thesis
    by (rule cbf_fail_closed [OF v _ d, of ?r ?cur]) (simp_all, code_simp+)
qed

text \<open>Two rules with one id: the barrier of the second takes the place of the first, violated one.\<close>

theorem cbf_duplicate_id_hides:
  "map_option vv_verdict (case validate_safety (NI 0) [(''t'', VInt 3)] []
     (map CObj [(default_rule ''r1'' THRESHOLD ''pressure'')\<lparr> r_operator := Some OpLte, r_value := VInt 5 \<rparr>,
                (default_rule ''r1'' THRESHOLD ''t'')\<lparr> r_operator := Some OpLte, r_value := VInt 5 \<rparr>]) [] of
     Inl e \<Rightarrow> None | Inr v \<Rightarrow> Some v) = Some SAFE"
  by code_simp

text \<open>A NaN among the barriers of the current state hides that pressure exceeds its limit there.\<close>

theorem cbf_nan_hides:
  "map_option vv_verdict (case validate_safety (NI 0) [(''t'', VFloat NaN), (''pressure'', VInt 9)]
     [[(''action_type'', VStr ''set''), (''params'', VDict [(''t'', VInt 3), (''pressure'', VInt 4)])]]
     (map CObj [(default_rule ''r1'' THRESHOLD ''t'')\<lparr> r_operator := Some OpLte, r_value := VInt 5 \<rparr>,
                (default_rule ''r2'' THRESHOLD ''pressure'')\<lparr> r_operator := Some OpLte, r_value := VInt 5 \<rparr>])
     [\<lparr> cm_action_type = ''set'', cm_param = ''t'', cm_maps_to_field = ''t'' \<rparr>,
      \<lparr> cm_action_type = ''set'', cm_param = ''pressure'', cm_maps_to_field = ''pressure'' \<rparr>] of
     Inl e \<Rightarrow> None | Inr v \<Rightarrow> Some v) = Some SAFE"
  by code_simp

end
