(* ===== verification/Canonical.thy ===== *)
theory Canonical
  imports PyValue
begin

section \<open>Canonical text and hashes (core/utils/canonicalize.py, hash_utils.py)\<close>

text \<open>
  \<open>canonicalize\<close> prints a value with sorted keys, no blanks and floats at three decimals.
  The hash functions take SHA-256 (UTF-8 encoding and hex digest included) as the parameter
  \<open>sha\<close>.  The lemmas: the text does not depend on the order of dictionary entries,
  and on values without floats it determines the value.
\<close>

fun canonicalize :: "pv \<Rightarrow> string" where
  "canonicalize VNone = ''null''"
| "canonicalize (VBool b) = (if b then ''true'' else ''false'')"
| "canonicalize (VFloat f) = fmt_fixed 3 (fround 3 f)"
| "canonicalize (VInt i) = str_int i"
| "canonicalize (VStr s) = json_str s"
| "canonicalize (VList xs) = ''['' @ join_with '','' (map canonicalize xs) @ '']''"
| "canonicalize (VDict d) = ''{'' @ join_with '',''
     (map (\<lambda>k. json_str k @ '':'' @ (case dget d k of None \<Rightarrow> [] | Some v \<Rightarrow> canonicalize v))
        (sort (dkeys d))) @ ''}''"

definition compute_hash :: "(string \<Rightarrow> string) \<Rightarrow> string \<Rightarrow> string" where
  "compute_hash sha data = sha data"

definition genesis_hash :: "(string \<Rightarrow> string) \<Rightarrow> string" where
  "genesis_hash sha = sha []"

definition compute_event_hash :: "(string \<Rightarrow> string) \<Rightarrow> string \<Rightarrow> pv \<Rightarrow> string" where
  "compute_event_hash sha prev_hash payload =
     (let canonical_payload = canonicalize payload in compute_hash sha (prev_hash @ canonical_payload))"

definition compute_sensor_hash :: "(string \<Rightarrow> string) \<Rightarrow> pv \<Rightarrow> string" where
  "compute_sensor_hash sha sensor_snapshot = compute_hash sha (canonicalize sensor_snapshot)"

subsection \<open>What the text determines\<close>

text \<open>
  \<open>same_json\<close>: equal up to the order of dictionary entries, floats up to their printed three
  decimals.  \<open>wf_pv\<close>: no dictionary has a key twice, which holds of every Python value.
\<close>

fun same_json :: "pv \<Rightarrow> pv \<Rightarrow> bool" where
  "same_json VNone w = (w = VNone)"
| "same_json (VBool b) w = (w = VBool b)"
| "same_json (VInt i) w = (w = VInt i)"
| "same_json (VStr s) w = (w = VStr s)"
| "same_json (VFloat f) w = (case w of VFloat g \<Rightarrow>
     fmt_fixed 3 (fround 3 f) = fmt_fixed 3 (fround 3 g) | _ \<Rightarrow> False)"
| "same_json (VList xs) w = (case w of VList ys \<Rightarrow>
     length xs = length ys \<and> list_all (\<lambda>(x, y). same_json x y) (zip xs ys) | _ \<Rightarrow> False)"
| "same_json (VDict d) w = (case w of VDict e \<Rightarrow>
     length d = length e \<and> list_all (\<lambda>(k, v). case dget e k of None \<Rightarrow> False | Some u \<Rightarrow> same_json v u) d
   | _ \<Rightarrow> False)"

fun wf_pv :: "pv \<Rightarrow> bool" where
  "wf_pv (VList xs) = list_all wf_pv xs"
| "wf_pv (VDict d) = (distinct (map fst d) \<and> list_all (\<lambda>(k, v). wf_pv v) d)"
| "wf_pv v = True"

lemma wf_pv_dget: "wf_pv (VDict d) \<Longrightarrow> dget d k = Some v \<Longrightarrow> wf_pv v"
  by (auto simp: list_all_iff dest!: map_of_SomeD)

lemma dget_dkeys: "k \<in> set (dkeys d) \<Longrightarrow> \<exists>v. dget d k = Some v"
  by (metis dkeys_def dom_map_of_conv_image_fst list.set_map domD)

lemma length_dkeys [simp]: "length (dkeys d) = length d"
  by (simp add: dkeys_def)

lemma same_json_canonicalize:
  "wf_pv a \<Longrightarrow> wf_pv b \<Longrightarrow> same_json a b \<Longrightarrow> canonicalize a = canonicalize b"
proof (induction a arbitrary: b rule: canonicalize.induct)
  case (6 xs)
  from 6(4) obtain ys where b: "b = VList ys" and len: "length xs = length ys"
    and all: "list_all (\<lambda>(x, y). same_json x y) (zip xs ys)"
    by (cases b) auto
  have "map canonicalize xs = map canonicalize ys"
  proof (rule nth_equalityI)
    fix i assume i: "i < length (map canonicalize xs)"
    with len all have "same_json (xs ! i) (ys ! i)" by (auto simp: list_all_length)
    moreover have "wf_pv (xs ! i)" "wf_pv (ys ! i)"
      using 6(2,3) i len b by (auto simp: list_all_length)
    ultimately show "map canonicalize xs ! i = map canonicalize ys ! i"
      using 6(1) i len by simp
  qed (simp add: len)
  then show ?case by (simp add: b)
next
  case (7 d)
  from 7(4) obtain e where b: "b = VDict e" and len: "length d = length e"
    and all: "list_all (\<lambda>(k, v). case dget e k of None \<Rightarrow> False | Some u \<Rightarrow> same_json v u) d"
    by (cases b) auto
  have dist: "distinct (dkeys d)" "distinct (dkeys e)"
    using 7(2,3) b by (auto simp: dkeys_def)
  have val: "\<exists>u. dget e k = Some u \<and> same_json v u" if "dget d k = Some v" for k v
    using all map_of_SomeD [OF that] by (auto simp: list_all_iff split: option.splits)
  have "set (dkeys d) \<subseteq> set (dkeys e)"
    using val dget_dkeys [of _ d] by (force simp: dkeys_def dest: map_of_SomeD)
  then have "set (dkeys d) = set (dkeys e)"
    using dist len by (intro card_subset_eq) (auto simp: distinct_card)
  then have ks: "sort (dkeys e) = sort (dkeys d)"
    using dist by (intro sorted_distinct_set_unique) auto
  have "canonicalize v = canonicalize u" if "k \<in> set (dkeys d)" "dget d k = Some v" "dget e k = Some u"
    for k v u
    using that 7(1) [of k v] val [of k v] wf_pv_dget [OF 7(2)] wf_pv_dget [OF 7(3) [unfolded b]] by auto
  then show ?case
    using val dget_dkeys [of _ d] unfolding b canonicalize.simps ks
    by (intro arg_cong [where f = "\<lambda>x. ''{'' @ join_with '','' x @ ''}''"] map_cong refl)
       (fastforce split: option.splits)
qed (auto split: pv.splits)

text \<open>The other direction: the printed texts form a prefix code before a delimiter.\<close>

definition delims :: "string" where
  "delims = '',]}''"

definition stops :: "string \<Rightarrow> bool" where
  "stops s \<longleftrightarrow> s = [] \<or> hd s \<in> set delims"

lemma stops_simps [simp]:
  "stops []" "stops (CHR '','' # s)" "stops (CHR '']'' # s)" "stops (CHR ''}'' # s)"
  by (simp_all add: stops_def delims_def)

definition plain :: "string \<Rightarrow> bool" where
  "plain u \<longleftrightarrow> (\<forall>c\<in>set u. c \<notin> set delims)"

lemma plain_takeWhile: "plain u \<Longrightarrow> stops s \<Longrightarrow> takeWhile (\<lambda>c. c \<notin> set delims) (u @ s) = u"
  by (cases s) (auto simp: plain_def stops_def takeWhile_tail)

lemma plain_prefix:
  assumes "plain u" "plain v" "stops s" "stops t" "u @ s = v @ t"
  shows "u = v \<and> s = t"
proof -
  have "u = v" using assms plain_takeWhile by metis
  with assms(5) show ?thesis by simp
qed

lemma of_char_hex_digit: "n < 16 \<Longrightarrow> (of_char (hex_digit n) :: nat) = (if n < 10 then 48 + n else 87 + n)"
  by (simp add: hex_digit_def)

lemma hex_digit_inj:
  assumes "m < 16" "n < 16" "hex_digit m = hex_digit n"
  shows "m = n"
proof -
  have "(if m < 10 then 48 + m else 87 + m) = (if n < 10 then 48 + n else 87 + n)"
    using of_char_hex_digit [OF assms(1)] of_char_hex_digit [OF assms(2)] assms(3) by (simp only:)
  with assms(1,2) show ?thesis by (simp split: if_splits)
qed

lemma hex2_inj: "hex2 c = hex2 d \<Longrightarrow> c = d"
proof -
  assume h: "hex2 c = hex2 d"
  have lt: "(of_char x :: nat) div 16 < 16" for x using nat_of_char_less_256 [of x] by linarith
  have "(of_char c :: nat) div 16 = of_char d div 16" "(of_char c :: nat) mod 16 = of_char d mod 16"
    using h lt [of c] lt [of d] by (auto simp: hex2_def intro: hex_digit_inj)
  then have "(of_char c :: nat) = of_char d"
    by (metis div_mult_mod_eq)
  then show ?thesis by simp
qed

lemma hex2_length: "length (hex2 c) = 2"
  by (simp add: hex2_def)

lemma hex2_append: "hex2 c @ u = hex2 d @ v \<longleftrightarrow> c = d \<and> u = v"
  by (auto simp: append_eq_append_conv hex2_length dest: hex2_inj)

lemma char_eqI: "(of_char c :: nat) = n \<Longrightarrow> (of_char d :: nat) = n \<Longrightarrow> c = d"
  by (metis of_char_eq_iff)

lemma json_char_prefix: "json_char c @ u = json_char d @ v \<Longrightarrow> c = d \<and> u = v"
  by (auto simp: json_char_def Let_def hex2_append split: if_splits intro: char_eqI)

lemma json_char_no_quote:
  "json_char c @ u \<noteq> CHR 0x22 # v" "CHR 0x22 # v \<noteq> json_char c @ u"
  by (auto simp: json_char_def Let_def split: if_splits)

lemma json_body_prefix:
  "concat (map json_char x) @ CHR 0x22 # s = concat (map json_char y) @ CHR 0x22 # t \<Longrightarrow> x = y \<and> s = t"
proof (induction x arbitrary: y)
  case Nil
  then show ?case by (cases y) (simp_all add: json_char_no_quote)
next
  case (Cons c x)
  show ?case
  proof (cases y)
    case Nil
    with Cons.prems show ?thesis by (simp add: json_char_no_quote)
  next
    case (Cons d z)
    with Cons.prems have "json_char c @ (concat (map json_char x) @ CHR 0x22 # s)
        = json_char d @ (concat (map json_char z) @ CHR 0x22 # t)" by simp
    from json_char_prefix [OF this] Cons.IH Cons show ?thesis by simp
  qed
qed

lemma json_str_prefix: "json_str x @ s = json_str y @ t \<Longrightarrow> x = y \<and> s = t"
  by (auto simp: json_str_def dest: json_body_prefix)

text \<open>The texts of atoms contain no delimiter; numbers differ from names by their characters.\<close>

lemma digit_plain: "is_digit c \<Longrightarrow> c \<notin> set delims \<and> c \<noteq> CHR ''.'' \<and> c \<noteq> CHR ''n'' \<and> c \<noteq> CHR ''t''
    \<and> c \<noteq> CHR ''f'' \<and> c \<noteq> CHR ''i'' \<and> c \<noteq> CHR 0x22 \<and> c \<noteq> CHR ''['' \<and> c \<noteq> CHR ''{''"
  by (auto simp: is_digit_def delims_def)

lemma str_int_chars: "c \<in> set (str_int i) \<Longrightarrow> is_digit c \<or> c = CHR ''-''"
  by (auto simp: str_int_def dest: dec_digits split: if_splits)

lemma str_int_nonempty [simp]: "str_int i \<noteq> []"
  by (simp add: str_int_def)

definition flt_text3 :: "flt \<Rightarrow> string" where
  "flt_text3 f = fmt_fixed 3 (fround 3 f)"

lemma fmt_fixed_finite: "is_finite g \<Longrightarrow> fmt_fixed 3 g = (let m = rne (\<bar>fval g\<bar> * 10 ^ 3) in
        (if fneg_sign g then ''-'' else '''') @ dec (m div 10 ^ 3) @ ''.'' @ pad_zeros 3 (dec (m mod 10 ^ 3)))"
  by (cases g) (simp_all add: fmt_fixed_def)

lemma pad_zeros_digits: "c \<in> set (pad_zeros n s) \<Longrightarrow> c = CHR ''0'' \<or> c \<in> set s"
  by (auto simp: pad_zeros_def)

lemma flt_text3_chars:
  "c \<in> set (flt_text3 f) \<Longrightarrow> is_digit c \<or> c \<in> set ''-.infa''"
proof (cases "is_finite (fround 3 f)")
  case True
  have pz: "c = CHR ''0'' \<or> is_digit c" if "c \<in> set (pad_zeros n (dec m))" for n m
    using pad_zeros_digits [OF that] dec_digits [of c m] by blast
  have z: "is_digit CHR ''0''" by (simp add: is_digit_def)
  assume "c \<in> set (flt_text3 f)"
  then have "c \<in> set ''-'' \<union> set (dec (rne (\<bar>fval (fround 3 f)\<bar> * 10 ^ 3) div 10 ^ 3)) \<union> set ''.''
      \<union> set (pad_zeros 3 (dec (rne (\<bar>fval (fround 3 f)\<bar> * 10 ^ 3) mod 10 ^ 3)))"
    unfolding flt_text3_def fmt_fixed_finite [OF True] Let_def set_append by (simp split: if_splits) blast
  then show ?thesis using pz z dec_digits [of c] by (elim UnE) auto
next
  case False
  then show "c \<in> set (flt_text3 f) \<Longrightarrow> ?thesis"
    by (cases "fround 3 f") (auto simp: flt_text3_def fmt_fixed_def)
qed

lemma flt_text3_mark: "CHR ''.'' \<in> set (flt_text3 f) \<or> flt_text3 f \<in> {''inf'', ''-inf'', ''nan''}"
  by (cases "fround 3 f") (auto simp: flt_text3_def fmt_fixed_def Let_def)

lemma flt_text3_first: "flt_text3 f \<noteq> [] \<and> (is_digit (hd (flt_text3 f)) \<or> hd (flt_text3 f) = CHR ''-''
    \<or> flt_text3 f = ''inf'' \<or> flt_text3 f = ''nan'')"
proof (cases "is_finite (fround 3 f)")
  case True
  have "is_digit (hd (dec m))" for m by (rule dec_digits [of _ m]) simp
  then show ?thesis
    by (auto simp: flt_text3_def fmt_fixed_finite [OF True] Let_def hd_append)
next
  case False
  then show ?thesis by (cases "fround 3 f") (auto simp: flt_text3_def fmt_fixed_def)
qed

fun is_atom :: "pv \<Rightarrow> bool" where
  "is_atom VNone = True" | "is_atom (VBool b) = True" | "is_atom (VInt i) = True"
| "is_atom (VFloat f) = True" | "is_atom v = False"

lemma atom_plain: "is_atom a \<Longrightarrow> plain (canonicalize a)"
  by (cases a) (auto simp: plain_def delims_def flt_text3_def [symmetric] is_digit_def
      dest!: str_int_chars flt_text3_chars)

lemma atom_first:
  "is_atom a \<Longrightarrow> canonicalize a \<noteq> [] \<and> hd (canonicalize a) \<notin> {CHR 0x22, CHR ''['', CHR ''{''}"
proof (cases a)
  case (VInt i)
  then show ?thesis using str_int_chars [of "hd (str_int i)" i] digit_plain by (auto simp: hd_in_set)
next
  case (VFloat f)
  then show ?thesis using flt_text3_first [of f] digit_plain by (auto simp: flt_text3_def)
qed auto

lemma str_int_not_flt: "str_int i \<noteq> flt_text3 f"
proof
  assume eq: "str_int i = flt_text3 f"
  then have "is_digit c \<or> c = CHR ''-''" if "c \<in> set (flt_text3 f)" for c
    using that str_int_chars [of c i] by simp
  moreover have "CHR ''.'' \<in> set (flt_text3 f) \<or> CHR ''n'' \<in> set (flt_text3 f)"
    using flt_text3_mark [of f] by auto
  ultimately have "is_digit CHR ''.'' \<or> is_digit CHR ''n''" by fastforce
  then show False by (simp add: is_digit_def)
qed

lemma name_not_num:
  assumes "w \<in> {''null'', ''true'', ''false''}"
  shows "w \<noteq> str_int i" "w \<noteq> flt_text3 f"
proof -
  show "w \<noteq> str_int i"
    using assms str_int_chars [of "CHR ''u''" i] str_int_chars [of "CHR ''s''" i]
    by (auto simp: is_digit_def)
  show "w \<noteq> flt_text3 f"
    using assms flt_text3_chars [of "CHR ''u''" f] flt_text3_chars [of "CHR ''s''" f]
    by (auto simp: is_digit_def)
qed

lemma atom_inj: "is_atom a \<Longrightarrow> is_atom b \<Longrightarrow> canonicalize a = canonicalize b \<Longrightarrow> same_json a b"
  using name_not_num str_int_not_flt
  by (cases a; cases b)
     (auto simp: str_int_inj flt_text3_def [symmetric] split: if_splits dest: sym)

text \<open>Lists of texts, and the whole value.\<close>

lemma join_prefix:
  assumes "\<And>x y u v. x \<in> set xs \<Longrightarrow> y \<in> set ys \<Longrightarrow> stops u \<Longrightarrow> stops v \<Longrightarrow> f x @ u = g y @ v \<Longrightarrow> R x y \<and> u = v"
    and "\<And>x. x \<in> set xs \<Longrightarrow> f x \<noteq> [] \<and> hd (f x) \<noteq> q"
    and "\<And>y. y \<in> set ys \<Longrightarrow> g y \<noteq> [] \<and> hd (g y) \<noteq> q"
    and "q \<in> set '']}''"
    and "join_with '','' (map f xs) @ q # s = join_with '','' (map g ys) @ q # t"
  shows "list_all2 R xs ys \<and> s = t"
  using assms
proof (induction xs arbitrary: ys)
  case Nil
  show ?case
  proof (cases ys)
    case Nil then show ?thesis using Nil.prems(5) by simp
  next
    case (Cons y zs)
    then show ?thesis using Nil.prems(3) [of y] Nil.prems(5)
      by (cases zs; cases "g y") auto
  qed
next
  case (Cons x xs)
  let ?rest = "\<lambda>h zs s. (if zs = [] then q # s else CHR '','' # join_with '','' (map h zs) @ q # s)"
  have cons: "join_with '','' (map h (z # zs)) @ q # s = h z @ ?rest h zs s" for h z zs s
    by (cases zs) auto
  have st: "stops (?rest h zs s)" for h zs s using Cons.prems(4) by (auto simp: stops_def delims_def)
  show ?case
  proof (cases ys)
    case Nil
    then show ?thesis using Cons.prems(2) [of x] Cons.prems(5) unfolding cons
      by (cases "f x") auto
  next
    case (Cons y zs)
    have eq: "f x @ ?rest f xs s = g y @ ?rest g zs t"
      using Cons.prems(5) unfolding Cons cons .
    have "R x y \<and> ?rest f xs s = ?rest g zs t"
      using Cons by (intro Cons.prems(1) [OF _ _ st st eq]) auto
    then have R: "R x y" and rest: "?rest f xs s = ?rest g zs t" by auto
    have "list_all2 R xs zs \<and> s = t"
    proof (cases "xs = []")
      case True
      with rest Cons.prems(4) show ?thesis by (auto split: if_splits)
    next
      case False
      with rest Cons.prems(4) have "join_with '','' (map f xs) @ q # s = join_with '','' (map g zs) @ q # t"
        by (auto split: if_splits)
      then show ?thesis using Cons.prems(1-4) Cons by (intro Cons.IH) auto
    qed
    with R Cons show ?thesis by simp
  qed
qed

lemma canonicalize_first: "canonicalize a \<noteq> [] \<and> hd (canonicalize a) \<notin> set '']}''"
proof (cases "is_atom a")
  case True
  then show ?thesis using atom_plain [OF True] atom_first [OF True]
    by (auto simp: plain_def delims_def dest: hd_in_set)
next
  case False
  then show ?thesis by (cases a) (auto simp: json_str_def)
qed

lemma hd_append_eq: "a \<noteq> [] \<Longrightarrow> b \<noteq> [] \<Longrightarrow> a @ s = b @ t \<Longrightarrow> hd a = hd b"
  by (cases a; cases b) auto

lemma atom_case:
  assumes "is_atom a" "stops s" "stops t" "canonicalize a @ s = canonicalize b @ t"
  shows "same_json a b \<and> s = t"
proof -
  have "hd (canonicalize b) = hd (canonicalize a)"
    using assms(4) canonicalize_first [of a] canonicalize_first [of b] hd_append_eq by metis
  with atom_first [OF assms(1)] have "is_atom b" by (cases b) (auto simp: json_str_def)
  with assms show ?thesis using plain_prefix [OF atom_plain atom_plain] atom_inj by blast
qed

text \<open>Whatever delimited text follows, the value before it can be told.\<close>

lemma canonicalize_prefix:
  "wf_pv a \<Longrightarrow> wf_pv b \<Longrightarrow> stops s \<Longrightarrow> stops t \<Longrightarrow>
   canonicalize a @ s = canonicalize b @ t \<Longrightarrow> same_json a b \<and> s = t"
proof (induction a arbitrary: b s t rule: canonicalize.induct)
  case (5 x)
  then have "hd (canonicalize b) = CHR 0x22" using canonicalize_first [of b]
    by (cases "canonicalize b") (auto simp: json_str_def)
  then obtain y where "b = VStr y"
    using atom_first [of b] by (cases b) auto
  with 5(5) show ?case by (auto dest: json_str_prefix)
next
  case (6 xs)
  then have "hd (canonicalize b) = CHR ''[''" using canonicalize_first [of b]
    by (cases "canonicalize b") auto
  then obtain ys where b: "b = VList ys"
    using atom_first [of b] by (cases b) (auto simp: json_str_def)
  have "list_all2 same_json xs ys \<and> s = t"
  proof (rule join_prefix [where f = canonicalize and g = canonicalize and q = "CHR '']''"])
    fix x y u v
    assume "x \<in> set xs" "y \<in> set ys" "stops u" "stops v" "canonicalize x @ u = canonicalize y @ v"
    then show "same_json x y \<and> u = v"
      using 6(1) [of x y u v] 6(2,3) b by (auto simp: list_all_iff)
  qed (use 6(6) b canonicalize_first in auto)
  then show ?case by (auto simp: b list_all2_iff list_all_iff)
next
  case (7 d)
  then have "hd (canonicalize b) = CHR ''{''" using canonicalize_first [of b]
    by (cases "canonicalize b") auto
  then obtain e where b: "b = VDict e"
    using atom_first [of b] by (cases b) (auto simp: json_str_def)
  let ?entry = "\<lambda>d k. json_str k @ '':'' @ (case dget d k of None \<Rightarrow> [] | Some v \<Rightarrow> canonicalize v)"
  let ?R = "\<lambda>k l. k = l \<and> (\<exists>v u. dget d k = Some v \<and> dget e k = Some u \<and> same_json v u)"
  have all2: "list_all2 ?R (sort (dkeys d)) (sort (dkeys e)) \<and> s = t"
  proof (rule join_prefix [where f = "?entry d" and g = "?entry e" and q = "CHR ''}''"])
    fix k l u v
    assume kl: "k \<in> set (sort (dkeys d))" "l \<in> set (sort (dkeys e))" and uv: "stops u" "stops v"
      and eq: "?entry d k @ u = ?entry e l @ v"
    obtain x y where x: "dget d k = Some x" and y: "dget e l = Some y"
      using kl dget_dkeys by force
    have "k = l \<and> '':'' @ canonicalize x @ u = '':'' @ canonicalize y @ v"
      using eq x y by (intro json_str_prefix) simp
    then show "?R k l \<and> u = v"
      using 7(1) [of k x y u v] kl x y uv wf_pv_dget [OF 7(2) x] wf_pv_dget [OF 7(3) [unfolded b] y] by auto
  qed (use 7(6) b in \<open>auto simp: json_str_def\<close>)
  then have "list_all2 (=) (sort (dkeys d)) (sort (dkeys e))" by (auto elim: list_all2_mono)
  then have "length d = length e"
    by (auto dest!: list_all2_lengthD)
  moreover have "\<exists>u. dget e k = Some u \<and> same_json v u" if "(k, v) \<in> set d" for k v
  proof -
    have dv: "dget d k = Some v" using that 7(2) by simp
    have "k \<in> set (sort (dkeys d))" using that by (force simp: dkeys_def)
    then obtain i where "i < length (sort (dkeys d))" "sort (dkeys d) ! i = k"
      by (metis in_set_conv_nth)
    then show ?thesis using list_all2_nthD [of ?R _ _ i] all2 dv by fastforce
  qed
  ultimately show ?case using all2 by (fastforce simp: b list_all_iff split: option.splits)
qed (rule atom_case; simp)+


subsection \<open>Properties\<close>

text \<open>C19: Two values have the same canonical text exactly when they are the same JSON value up to the order of dictionary entries, floats compared by their text at three decimals; strings, integers, booleans and the nesting are never confused.\<close>

theorem canonicalize_eq_iff:
  assumes "wf_pv a" "wf_pv b"
  shows "canonicalize a = canonicalize b \<longleftrightarrow> same_json a b"
  using same_json_canonicalize [OF assms] canonicalize_prefix [OF assms, of "[]" "[]"] by auto

theorem canonicalize_eq_iff_witness:
  "canonicalize (VDict [(''b'', VInt 1), (''a'', VList [VNone])]) = canonicalize (VDict [(''a'', VList [VNone]), (''b'', VInt 1)])"
  by (subst canonicalize_eq_iff) simp_all

text \<open>Equal sensor hashes mean the same snapshot (up to key order and the fourth decimal of floats), or else the two canonical texts are an explicit SHA-256 collision.\<close>

theorem sensor_hash_eq:
  assumes "wf_pv a" "wf_pv b" and "compute_sensor_hash sha a = compute_sensor_hash sha b"
  shows "same_json a b \<or> (canonicalize a \<noteq> canonicalize b \<and> sha (canonicalize a) = sha (canonicalize b))"
  using assms(3) canonicalize_prefix [OF assms(1,2), of "[]" "[]"]
  by (auto simp: compute_sensor_hash_def compute_hash_def)


theorem sensor_hash_eq_witness:
  "same_json (VDict [(''t'', VInt 1)]) (VDict [(''t'', VInt 1)])"
  using sensor_hash_eq [of "VDict [(''t'', VInt 1)]" "VDict [(''t'', VInt 1)]" "\<lambda>s. s"] by auto

end
