(* ===== verification/LockContract.thy ===== *)
theory LockContract
  imports Prelude
begin

section \<open>The contract of an asset lock manager\<close>

text \<open>
  What the in-memory state machine (\<open>TxMachine\<close>) and the database-backed one (\<open>OtStore\<close>)
  both promise to the commit protocol.  \<open>holder t a s\<close> is the transaction whose lock on the
  asset \<open>a\<close> is in force at time \<open>t\<close>; \<open>prepare\<close> and \<open>release\<close> return whether they succeeded.
  The clients' lemmas follow from the laws alone: while a lock is in force no sequence of other
  transactions' requests takes it away, and a stopped asset is free.
\<close>

locale lock_manager =
  fixes ok_time :: "'t \<Rightarrow> bool"
    and inv :: "'t \<Rightarrow> 's \<Rightarrow> bool"
    and holder :: "'t \<Rightarrow> string \<Rightarrow> 's \<Rightarrow> string option"
    and prepare :: "'t \<Rightarrow> string \<Rightarrow> string \<Rightarrow> int \<Rightarrow> 's \<Rightarrow> bool \<times> 's"
    and release :: "string \<Rightarrow> string \<Rightarrow> 's \<Rightarrow> bool \<times> 's"
    and stop :: "string \<Rightarrow> 's \<Rightarrow> 's"
  assumes prepare_exclusive:
      "inv t s \<Longrightarrow> holder t a s = Some x \<Longrightarrow> x \<noteq> tx \<Longrightarrow> prepare t tx a ttl s = (False, s)"
    and prepare_keeps: "inv t s \<Longrightarrow> b \<noteq> a \<Longrightarrow> holder t b s = Some x \<Longrightarrow>
         holder t b (snd (prepare t tx a ttl s)) = Some x"
    and prepare_grants:
      "ok_time t \<Longrightarrow> inv t s \<Longrightarrow> 0 < ttl \<Longrightarrow> fst (prepare t tx a ttl s) \<Longrightarrow>
         holder t a (snd (prepare t tx a ttl s)) = Some tx"
    and prepare_inv: "inv t s \<Longrightarrow> inv t (snd (prepare t tx a ttl s))"
    and release_frees:
      "inv t s \<Longrightarrow> fst (release tx a s) \<Longrightarrow> holder t a (snd (release tx a s)) \<noteq> Some tx"
    and stop_frees: "holder t a (stop a s) = None"
begin

text \<open>Requests of several transactions, at one time, in the order they arrive.\<close>

fun requests :: "'t \<Rightarrow> (string \<times> string \<times> int) list \<Rightarrow> 's \<Rightarrow> bool list \<times> 's" where
  "requests t [] s = ([], s)"
| "requests t ((tx, a, ttl) # rs) s =
     (let (g, s1) = prepare t tx a ttl s; (gs, s2) = requests t rs s1 in (g # gs, s2))"

lemma held_against_others:
  assumes "inv t s" "holder t a s = Some x"
    and "\<forall>(tx, b, ttl)\<in>set rs. b = a \<longrightarrow> tx \<noteq> x"
  shows "holder t a (snd (requests t rs s)) = Some x \<and>
    (\<forall>i<length rs. fst (snd (rs ! i)) = a \<longrightarrow> \<not> fst (requests t rs s) ! i)"
  using assms
proof (induction rs arbitrary: s)
  case Nil
  then show ?case by simp
next
  case (Cons r rs)
  obtain tx b ttl where r: "r = (tx, b, ttl)" by (cases r)
  obtain g s1 where p: "prepare t tx b ttl s = (g, s1)" by (cases "prepare t tx b ttl s")
  obtain gs s2 where q: "requests t rs s1 = (gs, s2)" by (cases "requests t rs s1")
  have h: "inv t s1 \<and> holder t a s1 = Some x \<and> (b = a \<longrightarrow> \<not> g)"
  proof (cases "b = a")
    case True
    with Cons.prems r have "prepare t tx b ttl s = (False, s)"
      by (intro prepare_exclusive) auto
    with p Cons.prems show ?thesis by auto
  next
    case False
    with Cons.prems(1,2) prepare_keeps [of t s a b x tx ttl] prepare_inv [of t s tx b ttl] p
    show ?thesis by auto
  qed
  with Cons.IH [of s1] Cons.prems(3) q
  have "holder t a s2 = Some x \<and> (\<forall>i<length rs. fst (snd (rs ! i)) = a \<longrightarrow> \<not> gs ! i)" by auto
  with h show ?case by (auto simp: r p q nth_Cons split: nat.splits)
qed

text \<open>A granted request keeps the others out until it is released or stopped.\<close>

lemma granted_excludes:
  assumes "ok_time t" "inv t s" "0 < ttl" "fst (prepare t tx a ttl s)" "ty \<noteq> tx"
  shows "prepare t ty a ttl' (snd (prepare t tx a ttl s)) = (False, snd (prepare t tx a ttl s))"
  using prepare_grants [OF assms(1-4)] prepare_inv [OF assms(2)] assms(5)
  by (intro prepare_exclusive) auto

lemma released_not_held:
  assumes "inv t s" "holder t a s = Some tx" "fst (release tx a s)"
  shows "holder t a (snd (release tx a s)) \<noteq> Some tx"
  using release_frees assms by blast

end

end
