(* ===== verification/TxMachine.thy ===== *)
theory TxMachine
  imports PyValue LockContract
begin

section \<open>The in-memory transaction machine (core/services/tx_state_machine.py)\<close>

text \<open>
  Two dictionaries: the locks by asset, with owner and expiry, and the transactions with their
  status.  Times are floats, in milliseconds, as the default clock gives them; each operation
  reads the clock once for the expiry test and once for the new expiry.  Every operation
  returns its reply and the new state.  The lemmas: terminal states stay except for the
  resurrection that \<open>prepare\<close> allows, a commit needs the lock, and the lock contract.
\<close>

datatype tx_status = IDLE | LOCKED | COMMITTED | ABORTED

record mem_lock =
  ml_tx_id :: string
  ml_expiry :: flt

record mem_tx =
  mt_status :: tx_status
  mt_asset_id :: string

record tx_machine =
  tm_locks :: "mem_lock dict"
  tm_transactions :: "mem_tx dict"

record tx_reply =
  rp_status :: string
  rp_reason :: "string option"
  rp_expires :: "int option"

definition reply :: "string \<Rightarrow> tx_reply" where
  "reply st = \<lparr> rp_status = st, rp_reason = None, rp_expires = None \<rparr>"

definition reply_because :: "string \<Rightarrow> string \<Rightarrow> tx_reply" where
  "reply_because st why = \<lparr> rp_status = st, rp_reason = Some why, rp_expires = None \<rparr>"

definition flt_gt :: "flt \<Rightarrow> flt \<Rightarrow> bool" where
  "flt_gt a b = num_rel RGt (NF a) (NF b)"

definition check_lock_expired :: "flt \<Rightarrow> string \<Rightarrow> tx_machine \<Rightarrow> tx_machine" where
  "check_lock_expired now asset_id s = (case dget (tm_locks s) asset_id of
     None \<Rightarrow> s
   | Some l \<Rightarrow> if flt_gt now (ml_expiry l) then s\<lparr> tm_locks := ddel asset_id (tm_locks s) \<rparr> else s)"

definition mem_prepare :: "flt \<Rightarrow> flt \<Rightarrow> string \<Rightarrow> string \<Rightarrow> int \<Rightarrow> tx_machine \<Rightarrow> tx_reply \<times> tx_machine" where
  "mem_prepare t0 current_time transaction_id asset_id lock_ttl_ms s0 =
     (let s = check_lock_expired t0 asset_id s0;
          expiry = fadd current_time (int_to_flt lock_ttl_ms) in
      case dget (tm_locks s) asset_id of
        Some l \<Rightarrow>
          if ml_tx_id l \<noteq> transaction_id
          then (reply_because ''LOCK_DENIED'' (''Asset '' @ asset_id @ '' locked by '' @ ml_tx_id l), s)
          else (reply ''LOCK_GRANTED'',
                s\<lparr> tm_locks := dset asset_id (l\<lparr> ml_expiry := expiry \<rparr>) (tm_locks s) \<rparr>)
      | None \<Rightarrow>
          (reply ''LOCK_GRANTED'',
           s\<lparr> tm_locks := dset asset_id \<lparr> ml_tx_id = transaction_id, ml_expiry = expiry \<rparr> (tm_locks s),
              tm_transactions := dset transaction_id \<lparr> mt_status = LOCKED, mt_asset_id = asset_id \<rparr>
                (tm_transactions s) \<rparr>))"

definition set_tx_status :: "string \<Rightarrow> tx_status \<Rightarrow> tx_machine \<Rightarrow> tx_machine" where
  "set_tx_status tx st s = (case dget (tm_transactions s) tx of None \<Rightarrow> s
     | Some r \<Rightarrow> s\<lparr> tm_transactions := dset tx (r\<lparr> mt_status := st \<rparr>) (tm_transactions s) \<rparr>)"

definition mem_commit :: "flt \<Rightarrow> string \<Rightarrow> string \<Rightarrow> tx_machine \<Rightarrow> tx_reply \<times> tx_machine" where
  "mem_commit now transaction_id asset_id s0 =
     (let s = check_lock_expired now asset_id s0 in
      case dget (tm_transactions s) transaction_id of
        None \<Rightarrow> (reply_because ''ERROR'' ''Transaction not found'', s)
      | Some tx \<Rightarrow>
          if mt_status tx = COMMITTED then (reply ''ALREADY_COMMITTED'', s)
          else if mt_status tx = ABORTED then (reply_because ''ERROR'' ''Transaction already aborted'', s)
          else if mt_status tx \<noteq> LOCKED then (reply_because ''ERROR'' ''Transaction not in LOCKED state'', s)
          else (case dget (tm_locks s) asset_id of
                  None \<Rightarrow> (reply_because ''ERROR'' ''Lock expired or lost'', s)
                | Some l \<Rightarrow>
                    if ml_tx_id l \<noteq> transaction_id
                    then (reply_because ''ERROR'' ''Lock stolen by another transaction'', s)
                    else (reply ''COMMITTED'',
                          (set_tx_status transaction_id COMMITTED s)\<lparr> tm_locks := ddel asset_id (tm_locks s) \<rparr>)))"

definition mem_abort :: "string \<Rightarrow> string \<Rightarrow> tx_machine \<Rightarrow> tx_reply \<times> tx_machine" where
  "mem_abort transaction_id asset_id s =
     (case dget (tm_transactions s) transaction_id of
        None \<Rightarrow> (reply_because ''ERROR'' ''Transaction not found'', s)
      | Some tx \<Rightarrow>
          if mt_status tx = ABORTED then (reply ''ALREADY_ABORTED'', s)
          else if mt_status tx = COMMITTED
          then (reply_because ''ERROR'' ''Cannot abort committed transaction'', s)
          else (let s1 = set_tx_status transaction_id ABORTED s in
            (reply ''ABORTED'',
             case dget (tm_locks s1) asset_id of
               Some l \<Rightarrow> if ml_tx_id l = transaction_id
                         then s1\<lparr> tm_locks := ddel asset_id (tm_locks s1) \<rparr> else s1
             | None \<Rightarrow> s1)))"

definition mem_estop :: "string \<Rightarrow> tx_machine \<Rightarrow> tx_reply \<times> tx_machine" where
  "mem_estop asset_id s = (reply ''ESTOP_EXECUTED'',
     if dhas (tm_locks s) asset_id then s\<lparr> tm_locks := ddel asset_id (tm_locks s) \<rparr> else s)"


subsection \<open>The lock contract\<close>

definition mem_ok_time :: "flt \<Rightarrow> bool" where
  "mem_ok_time t \<longleftrightarrow> is_finite t \<and> is64 (fval t)"

definition mem_holder :: "flt \<Rightarrow> string \<Rightarrow> tx_machine \<Rightarrow> string option" where
  "mem_holder t a s = (case dget (tm_locks s) a of None \<Rightarrow> None
     | Some l \<Rightarrow> if flt_gt t (ml_expiry l) then None else Some (ml_tx_id l))"

definition granted :: "tx_reply \<times> 's \<Rightarrow> bool \<times> 's" where
  "granted r = (rp_status (fst r) = ''LOCK_GRANTED'', snd r)"

definition released :: "tx_reply \<times> 's \<Rightarrow> bool \<times> 's" where
  "released r = (rp_status (fst r) = ''ABORTED'', snd r)"

lemma reply_simps [simp]:
  "rp_status (reply st) = st" "rp_status (reply_because st w) = st"
  "rp_expires (reply st) = None" "rp_reason (reply_because st w) = Some w"
  by (simp_all add: reply_def reply_because_def)

lemma set_tx_status_locks [simp]: "tm_locks (set_tx_status tx st s) = tm_locks s"
  by (simp add: set_tx_status_def split: option.splits)

lemma not_expired_at_grant:
  "mem_ok_time t \<Longrightarrow> 0 < ttl \<Longrightarrow> \<not> flt_gt t (fadd t (int_to_flt ttl))"
proof -
  assume "mem_ok_time t" "0 < ttl"
  then have "fx t \<le> fx (fadd t (int_to_flt ttl))"
    by (intro fadd_ge) (auto simp: mem_ok_time_def intro: nonneg_int_to_flt)
  then show ?thesis by (auto simp: flt_gt_def num_rel_def fx_def split: option.splits)
qed

interpretation mem: lock_manager mem_ok_time "\<lambda>t s. True" mem_holder
  "\<lambda>t tx a ttl s. granted (mem_prepare t t tx a ttl s)"
  "\<lambda>tx a s. released (mem_abort tx a s)"
  "\<lambda>a s. snd (mem_estop a s)"
proof
  fix t tx a ttl s x
  show "mem_holder t a s = Some x \<Longrightarrow> x \<noteq> tx \<Longrightarrow> granted (mem_prepare t t tx a ttl s) = (False, s)"
    by (auto simp: mem_holder_def mem_prepare_def check_lock_expired_def granted_def Let_def
        split: option.splits if_splits)
next
  fix b a t s x tx ttl
  show "b \<noteq> a \<Longrightarrow> mem_holder t b s = Some x \<Longrightarrow>
      mem_holder t b (snd (granted (mem_prepare t t tx a ttl s))) = Some x"
    by (auto simp: mem_holder_def mem_prepare_def check_lock_expired_def granted_def Let_def
        split: option.splits if_splits)
next
  fix t ttl tx a s
  show "mem_ok_time t \<Longrightarrow> 0 < ttl \<Longrightarrow> fst (granted (mem_prepare t t tx a ttl s)) \<Longrightarrow>
      mem_holder t a (snd (granted (mem_prepare t t tx a ttl s))) = Some tx"
    using not_expired_at_grant [of t ttl]
    by (auto simp: mem_holder_def mem_prepare_def check_lock_expired_def granted_def Let_def
        split: option.splits if_splits)
next
  fix tx a s t
  show "fst (released (mem_abort tx a s)) \<Longrightarrow> mem_holder t a (snd (released (mem_abort tx a s))) \<noteq> Some tx"
    by (auto simp: mem_holder_def mem_abort_def released_def Let_def split: option.splits if_splits)
next
  fix t a s
  show "mem_holder t a (snd (mem_estop a s)) = None"
    by (auto simp: mem_holder_def mem_estop_def)
qed auto

subsection \<open>Properties\<close>

lemma mem_commit_cases:
  assumes "mem_commit now tx a s = (r, s')" "rp_status r = ''COMMITTED''"
  shows "mem_holder now a s = Some tx" "\<exists>q. dget (tm_transactions s) tx = Some q \<and> mt_status q = LOCKED"
    "dget (tm_locks s') a = None" "\<exists>q. dget (tm_transactions s') tx = Some q \<and> mt_status q = COMMITTED"
    "\<And>b. b \<noteq> a \<Longrightarrow> dget (tm_locks s') b = dget (tm_locks s) b"
    "\<And>ty. ty \<noteq> tx \<Longrightarrow> dget (tm_transactions s') ty = dget (tm_transactions s) ty"
proof -
  let ?s = "check_lock_expired now a s"
  have tx: "tm_transactions ?s = tm_transactions s"
    by (simp add: check_lock_expired_def split: option.splits)
  obtain q where q: "dget (tm_transactions s) tx = Some q" "mt_status q = LOCKED"
    using assms tx by (auto simp: mem_commit_def Let_def split: option.splits if_splits)
  obtain l where l: "dget (tm_locks ?s) a = Some l" "ml_tx_id l = tx"
    using assms q tx by (auto simp: mem_commit_def Let_def split: option.splits if_splits)
  have s': "s' = (set_tx_status tx COMMITTED ?s)\<lparr> tm_locks := ddel a (tm_locks ?s) \<rparr>"
    using assms(1) q l tx by (simp add: mem_commit_def Let_def)
  have live: "dget (tm_locks s) a = Some l \<and> \<not> flt_gt now (ml_expiry l)"
    using l(1) by (auto simp: check_lock_expired_def split: option.splits if_splits)
  with l(2) show "mem_holder now a s = Some tx" by (simp add: mem_holder_def)
  show "\<exists>q. dget (tm_transactions s) tx = Some q \<and> mt_status q = LOCKED" using q by blast
  show "dget (tm_locks s') a = None" by (simp add: s')
  show "\<exists>q. dget (tm_transactions s') tx = Some q \<and> mt_status q = COMMITTED"
    using q by (simp add: s' set_tx_status_def tx)
  show "dget (tm_locks s') b = dget (tm_locks s) b" if "b \<noteq> a" for b
    using that live by (simp add: s' check_lock_expired_def)
  show "dget (tm_transactions s') ty = dget (tm_transactions s) ty" if "ty \<noteq> tx" for ty
    using that q by (simp add: s' set_tx_status_def tx)
qed

text \<open>The in-memory machine commits a transaction only while it is LOCKED and its lock on the asset is in force; the commit makes it COMMITTED, releases exactly that lock and touches no other transaction.\<close>

theorem mem_commit_needs_lock:
  assumes "mem_commit now tx a s = (r, s')" "rp_status r = ''COMMITTED''"
  shows "mem_holder now a s = Some tx \<and> map_option mt_status (dget (tm_transactions s) tx) = Some LOCKED
    \<and> map_option mt_status (dget (tm_transactions s') tx) = Some COMMITTED
    \<and> (\<forall>b. dget (tm_locks s') b = (if b = a then None else dget (tm_locks s) b))
    \<and> (\<forall>ty. ty \<noteq> tx \<longrightarrow> dget (tm_transactions s') ty = dget (tm_transactions s) ty)"
  using mem_commit_cases [OF assms] by auto

theorem mem_commit_needs_lock_witness:
  "map_option mt_status (dget (tm_transactions (snd (mem_commit (Fin 10) ''t1'' ''a1''
     (snd (mem_prepare (Fin 0) (Fin 0) ''t1'' ''a1'' 50 \<lparr> tm_locks = [], tm_transactions = [] \<rparr>))))) ''t1'')
   = Some COMMITTED"
proof -
  let ?c = "mem_commit (Fin 10) ''t1'' ''a1''
     (snd (mem_prepare (Fin 0) (Fin 0) ''t1'' ''a1'' 50 \<lparr> tm_locks = [], tm_transactions = [] \<rparr>))"
  have "?c = (fst ?c, snd ?c)" "rp_status (fst ?c) = ''COMMITTED''" by (simp, code_simp)
  from mem_commit_needs_lock [OF this] show ?thesis by simp
qed

text \<open>Between a grant and its release or expiry the in-memory machine denies the asset to every other transaction and keeps its state (mutual exclusion), and a granted lock is in force at the time of the grant.\<close>

theorem mem_mutual_exclusion:
  assumes "mem_ok_time t" "0 < ttl" "fst (granted (mem_prepare t t tx a ttl s))" "ty \<noteq> tx"
  shows "mem_holder t a (snd (mem_prepare t t tx a ttl s)) = Some tx \<and>
    granted (mem_prepare t t ty a ttl' (snd (mem_prepare t t tx a ttl s)))
      = (False, snd (mem_prepare t t tx a ttl s))"
  using mem.granted_excludes [OF assms(1) _ assms(2,3,4), of ttl'] mem.prepare_grants [OF assms(1) _ assms(2,3)]
  by (simp add: granted_def)

theorem mem_mutual_exclusion_witness:
  "granted (mem_prepare (Fin 5) (Fin 5) ''t2'' ''a1'' 100
     (snd (mem_prepare (Fin 5) (Fin 5) ''t1'' ''a1'' 50 \<lparr> tm_locks = [], tm_transactions = [] \<rparr>)))
   = (False, snd (mem_prepare (Fin 5) (Fin 5) ''t1'' ''a1'' 50 \<lparr> tm_locks = [], tm_transactions = [] \<rparr>))"
proof -
  have "mem_ok_time (Fin 5)" by code_simp
  moreover have "fst (granted (mem_prepare (Fin 5) (Fin 5) ''t1'' ''a1'' 50 \<lparr> tm_locks = [], tm_transactions = [] \<rparr>))"
    by (simp add: granted_def mem_prepare_def check_lock_expired_def)
  ultimately show ?thesis using mem_mutual_exclusion [of "Fin 5" 50 "''t1''" "''a1''" _ "''t2''" 100] by simp
qed

text \<open>The in-memory machine does not make COMMITTED terminal: right after a commit the same transaction can be prepared again on the freed asset and is then committed a second time, not answered with ALREADY_COMMITTED.\<close>

theorem mem_commit_twice:
  assumes "mem_commit now tx a s = (r, s')" "rp_status r = ''COMMITTED''" "mem_ok_time t" "0 < ttl"
  shows "rp_status (fst (mem_commit t tx a (snd (mem_prepare t t tx a ttl s')))) = ''COMMITTED''"
proof -
  have free: "dget (tm_locks s') a = None" using mem_commit_cases [OF assms(1,2)] by blast
  have "snd (mem_prepare t t tx a ttl s') =
     s'\<lparr> tm_locks := dset a \<lparr> ml_tx_id = tx, ml_expiry = fadd t (int_to_flt ttl) \<rparr> (tm_locks s'),
        tm_transactions := dset tx \<lparr> mt_status = LOCKED, mt_asset_id = a \<rparr> (tm_transactions s') \<rparr>"
    using free by (simp add: mem_prepare_def check_lock_expired_def)
  then show ?thesis using not_expired_at_grant [OF assms(3,4)]
    by (simp add: mem_commit_def check_lock_expired_def)
qed

theorem mem_commit_twice_witness:
  "rp_status (fst (mem_commit (Fin 20) ''t1'' ''a1'' (snd (mem_prepare (Fin 20) (Fin 20) ''t1'' ''a1'' 50
     (snd (mem_commit (Fin 10) ''t1'' ''a1''
       \<lparr> tm_locks = [(''a1'', \<lparr> ml_tx_id = ''t1'', ml_expiry = Fin 50 \<rparr>)],
         tm_transactions = [(''t1'', \<lparr> mt_status = LOCKED, mt_asset_id = ''a1'' \<rparr>)] \<rparr>)))))) = ''COMMITTED''"
proof -
  let ?c = "mem_commit (Fin 10) ''t1'' ''a1''
       \<lparr> tm_locks = [(''a1'', \<lparr> ml_tx_id = ''t1'', ml_expiry = Fin 50 \<rparr>)],
         tm_transactions = [(''t1'', \<lparr> mt_status = LOCKED, mt_asset_id = ''a1'' \<rparr>)] \<rparr>"
  have "?c = (fst ?c, snd ?c)" "rp_status (fst ?c) = ''COMMITTED''" by (simp, code_simp)
  moreover have "mem_ok_time (Fin 20)" by code_simp
  ultimately show ?thesis using mem_commit_twice [of "Fin 10" "''t1''" "''a1''" _ "fst ?c" "snd ?c" "Fin 20" 50]
    by simp
qed

end
