(* ===== verification/OtStore.thy ===== *)
theory OtStore
  imports TxMachine
begin

section \<open>The persistent transaction machine (apps/ot_interface/repository.py, service.py)\<close>

text \<open>
  The table \<open>transactions\<close> is a list of rows; \<open>scalars().first()\<close> gives the first matching
  row.  Every service method opens a session, reads, and writes and commits at most once; a
  database error (\<open>fault\<close>, its text) rolls the session back.  \<open>prepare\<close> is split at the
  point between its reads and its write, where other sessions can come in.  The lemmas: the
  table invariant, mutual exclusion of sequential requests, terminal states, the lock contract,
  the refinement of an abstract life cycle, and the race of two interleaved requests.
\<close>

subsection \<open>The repository\<close>

record tx_row =
  tr_transaction_id :: string
  tr_asset_id :: string
  tr_status :: string
  tr_lock_expires :: "int option"

type_synonym tx_table = "tx_row list"

text \<open>A comparison with a NULL expiry selects nothing.\<close>

definition row_active :: "string \<Rightarrow> int \<Rightarrow> tx_row \<Rightarrow> bool" where
  "row_active asset_id now r \<longleftrightarrow> tr_asset_id r = asset_id \<and> tr_status r = ''LOCKED'' \<and>
     (case tr_lock_expires r of None \<Rightarrow> False | Some e \<Rightarrow> e > now)"

definition get_active_lock :: "string \<Rightarrow> int \<Rightarrow> tx_table \<Rightarrow> tx_row option" where
  "get_active_lock asset_id current_time_ms rows = find (row_active asset_id current_time_ms) rows"

definition get_transaction :: "string \<Rightarrow> tx_table \<Rightarrow> tx_row option" where
  "get_transaction transaction_id rows = find (\<lambda>r. tr_transaction_id r = transaction_id) rows"

definition create_lock :: "string \<Rightarrow> string \<Rightarrow> int \<Rightarrow> tx_table \<Rightarrow> tx_table" where
  "create_lock transaction_id asset_id lock_expires_at_ms rows = rows @
     [\<lparr> tr_transaction_id = transaction_id, tr_asset_id = asset_id, tr_status = ''LOCKED'',
        tr_lock_expires = Some lock_expires_at_ms \<rparr>]"

definition extend_lock :: "string \<Rightarrow> int \<Rightarrow> tx_table \<Rightarrow> tx_table" where
  "extend_lock transaction_id lock_expires_at_ms rows =
     map (\<lambda>r. if tr_transaction_id r = transaction_id
              then r\<lparr> tr_lock_expires := Some lock_expires_at_ms \<rparr> else r) rows"

definition update_status :: "string \<Rightarrow> string \<Rightarrow> bool \<Rightarrow> tx_table \<Rightarrow> tx_table" where
  "update_status transaction_id status clear_lock rows =
     map (\<lambda>r. if tr_transaction_id r = transaction_id
              then (if clear_lock then r\<lparr> tr_status := status, tr_lock_expires := Some 0 \<rparr>
                    else r\<lparr> tr_status := status \<rparr>) else r) rows"

definition abort_active_locks_for_asset :: "string \<Rightarrow> tx_table \<Rightarrow> tx_table" where
  "abort_active_locks_for_asset asset_id rows =
     map (\<lambda>r. if tr_asset_id r = asset_id \<and> tr_status r = ''LOCKED''
              then r\<lparr> tr_status := ''ABORTED'', tr_lock_expires := Some 0 \<rparr> else r) rows"

subsection \<open>The service\<close>

datatype prepare_write = Extend int | Create int

definition prepare_existing :: "string \<Rightarrow> string \<Rightarrow> int \<Rightarrow> tx_table \<Rightarrow> tx_reply + prepare_write" where
  "prepare_existing transaction_id asset_id expires_at rows =
     (case get_transaction transaction_id rows of
        Some existing_tx \<Rightarrow>
          if tr_asset_id existing_tx \<noteq> asset_id
          then Inl (reply_because ''PREPARE_REJECTED'' (''Transaction '' @ transaction_id @ '' is for asset ''
                 @ tr_asset_id existing_tx @ '', not '' @ asset_id))
          else if tr_status existing_tx = ''LOCKED'' then Inr (Extend expires_at)
          else Inl (reply_because ''PREPARE_REJECTED''
                 (''Transaction already finished with status '' @ tr_status existing_tx))
      | None \<Rightarrow> Inr (Create expires_at))"

definition prepare_read :: "int \<Rightarrow> string \<Rightarrow> string \<Rightarrow> int \<Rightarrow> tx_table \<Rightarrow> tx_reply + prepare_write" where
  "prepare_read current_time transaction_id asset_id lock_ttl_ms rows =
     (let expires_at = current_time + lock_ttl_ms in
      case get_active_lock asset_id current_time rows of
        Some active_lock \<Rightarrow>
          if tr_transaction_id active_lock \<noteq> transaction_id
          then Inl \<lparr> rp_status = ''LOCK_DENIED'',
                 rp_reason = Some (''Asset '' @ asset_id @ '' locked by '' @ tr_transaction_id active_lock),
                 rp_expires = tr_lock_expires active_lock \<rparr>
          else prepare_existing transaction_id asset_id expires_at rows
      | None \<Rightarrow> prepare_existing transaction_id asset_id expires_at rows)"


text \<open>The write; inserting a transaction id twice is an error of the database (text \<open>dup\<close>).\<close>

definition prepare_finish :: "string \<Rightarrow> string \<Rightarrow> string \<Rightarrow> prepare_write \<Rightarrow> tx_table \<Rightarrow> tx_reply \<times> tx_table" where
  "prepare_finish dup transaction_id asset_id w rows =
     (let done = (\<lambda>e. \<lparr> rp_status = ''LOCK_GRANTED'', rp_reason = None, rp_expires = Some e \<rparr>) in
      case w of
        Extend e \<Rightarrow> (done e, extend_lock transaction_id e rows)
      | Create e \<Rightarrow>
          if get_transaction transaction_id rows \<noteq> None
          then (reply_because ''PREPARE_REJECTED'' dup, rows)
          else (done e, create_lock transaction_id asset_id e rows))"

definition ot_prepare ::
  "string option \<Rightarrow> string \<Rightarrow> int \<Rightarrow> string \<Rightarrow> string \<Rightarrow> int \<Rightarrow> tx_table \<Rightarrow> tx_reply \<times> tx_table" where
  "ot_prepare fault dup now transaction_id asset_id lock_ttl_ms rows = (case fault of
     Some m \<Rightarrow> (reply_because ''PREPARE_REJECTED'' m, rows)
   | None \<Rightarrow> (case prepare_read now transaction_id asset_id lock_ttl_ms rows of
       Inl r \<Rightarrow> (r, rows)
     | Inr w \<Rightarrow> prepare_finish dup transaction_id asset_id w rows))"

definition check_commit_ready :: "string option \<Rightarrow> int \<Rightarrow> string \<Rightarrow> string \<Rightarrow> tx_table \<Rightarrow> tx_reply" where
  "check_commit_ready fault current_time transaction_id asset_id rows = (case fault of
     Some m \<Rightarrow> reply_because ''REJECTED'' m
   | None \<Rightarrow> (case get_transaction transaction_id rows of
       None \<Rightarrow> reply_because ''REJECTED'' ''Transaction not found''
     | Some tx \<Rightarrow>
         if tr_asset_id tx \<noteq> asset_id then reply_because ''REJECTED'' ''Asset mismatch''
         else if tr_status tx = ''COMMITTED''
         then reply_because ''ALREADY_COMMITTED'' ''Transaction already committed''
         else if tr_status tx = ''ABORTED'' then reply_because ''REJECTED'' ''Transaction already aborted''
         else if tr_status tx \<noteq> ''LOCKED'' then reply_because ''REJECTED'' (''Invalid status: '' @ tr_status tx)
         else (case get_active_lock asset_id current_time rows of
           Some active_lock \<Rightarrow>
             if tr_transaction_id active_lock \<noteq> transaction_id
             then reply_because ''TIMEOUT'' ''Lock stolen or expired'' else reply ''READY''
         | None \<Rightarrow>
             (case tr_lock_expires tx of
                Some e \<Rightarrow> if e < current_time then reply_because ''TIMEOUT'' ''Lock expired'' else reply ''READY''
              | None \<Rightarrow> reply ''READY''))))"

definition finalize_commit :: "string option \<Rightarrow> string \<Rightarrow> string \<Rightarrow> tx_table \<Rightarrow> tx_reply \<times> tx_table" where
  "finalize_commit fault transaction_id asset_id rows = (case fault of
     Some m \<Rightarrow> (reply_because ''REJECTED'' m, rows)
   | None \<Rightarrow> (case get_transaction transaction_id rows of
       None \<Rightarrow> (reply_because ''REJECTED'' ''Transaction not found'', rows)
     | Some tx \<Rightarrow>
         if tr_asset_id tx \<noteq> asset_id then (reply_because ''REJECTED'' ''Asset mismatch'', rows)
         else if tr_status tx = ''COMMITTED''
         then (reply_because ''ALREADY_COMMITTED'' ''Transaction already committed'', rows)
         else if tr_status tx \<noteq> ''LOCKED''
         then (reply_because ''REJECTED'' (''Invalid status: '' @ tr_status tx), rows)
         else (reply ''COMMITTED'', update_status transaction_id ''COMMITTED'' True rows)))"

definition ot_abort :: "string option \<Rightarrow> string \<Rightarrow> string \<Rightarrow> tx_table \<Rightarrow> tx_reply \<times> tx_table" where
  "ot_abort fault transaction_id asset_id rows = (case fault of
     Some m \<Rightarrow> (reply_because ''ABORT_REJECTED'' m, rows)
   | None \<Rightarrow> (case get_transaction transaction_id rows of
       None \<Rightarrow> (reply_because ''ABORT_REJECTED'' ''Transaction not found'', rows)
     | Some tx \<Rightarrow>
         if tr_asset_id tx \<noteq> asset_id then (reply_because ''ABORT_REJECTED'' ''Asset mismatch'', rows)
         else if tr_status tx = ''ABORTED''
         then (reply_because ''ALREADY_ABORTED'' ''Transaction already aborted'', rows)
         else if tr_status tx = ''COMMITTED''
         then (reply_because ''ABORT_REJECTED'' ''Cannot abort committed transaction'', rows)
         else (reply ''ABORTED'', update_status transaction_id ''ABORTED'' True rows)))"

definition ot_estop :: "string option \<Rightarrow> string \<Rightarrow> tx_table \<Rightarrow> tx_reply \<times> tx_table" where
  "ot_estop fault asset_id rows = (case fault of
     Some m \<Rightarrow> (reply_because ''ERROR'' m, rows)
   | None \<Rightarrow> (reply ''ESTOP_EXECUTED'', abort_active_locks_for_asset asset_id rows))"

subsection \<open>The table invariant\<close>

text \<open>
  Ids are unique, only LOCKED rows have an expiry ahead, and an asset has at most one lock in
  force.  The clock only advances, so the invariant survives it.
\<close>

definition row_ok :: "tx_row \<Rightarrow> bool" where
  "row_ok r \<longleftrightarrow> tr_status r \<in> {''LOCKED'', ''COMMITTED'', ''ABORTED''} \<and> tr_lock_expires r \<noteq> None \<and>
     (tr_status r \<noteq> ''LOCKED'' \<longrightarrow> tr_lock_expires r = Some 0)"

definition one_lock :: "int \<Rightarrow> tx_table \<Rightarrow> bool" where
  "one_lock t rows \<longleftrightarrow> (\<forall>r\<in>set rows. \<forall>q\<in>set rows. row_active (tr_asset_id r) t r \<longrightarrow>
     row_active (tr_asset_id r) t q \<longrightarrow> tr_transaction_id r = tr_transaction_id q)"

definition table_inv :: "int \<Rightarrow> tx_table \<Rightarrow> bool" where
  "table_inv t rows \<longleftrightarrow> distinct (map tr_transaction_id rows) \<and> list_all row_ok rows \<and> one_lock t rows"

lemma table_invI: "distinct (map tr_transaction_id rows) \<Longrightarrow> list_all row_ok rows \<Longrightarrow> one_lock t rows \<Longrightarrow> table_inv t rows"
  by (simp add: table_inv_def)

lemma table_invD: "table_inv t rows \<Longrightarrow> distinct (map tr_transaction_id rows)"
    "table_inv t rows \<Longrightarrow> list_all row_ok rows" "table_inv t rows \<Longrightarrow> one_lock t rows"
  by (simp_all add: table_inv_def)

lemma get_transaction_Some:
  "distinct (map tr_transaction_id rows) \<Longrightarrow>
   get_transaction tx rows = Some r \<longleftrightarrow> r \<in> set rows \<and> tr_transaction_id r = tx"
  by (induction rows) (auto simp: get_transaction_def)

lemma get_transaction_None: "get_transaction tx rows = None \<longleftrightarrow> (\<forall>r\<in>set rows. tr_transaction_id r \<noteq> tx)"
  by (induction rows) (auto simp: get_transaction_def)

lemma get_active_lock_Some:
  "get_active_lock a t rows = Some r \<Longrightarrow> r \<in> set rows \<and> row_active a t r"
  by (induction rows) (auto simp: get_active_lock_def split: if_splits)

lemma get_active_lock_None: "get_active_lock a t rows = None \<longleftrightarrow> (\<forall>r\<in>set rows. \<not> row_active a t r)"
  by (induction rows) (auto simp: get_active_lock_def)

lemma row_active_later: "row_active a u r \<Longrightarrow> t \<le> u \<Longrightarrow> row_active a t r"
  by (auto simp: row_active_def split: option.splits)

lemma row_active_asset: "row_active a t r \<Longrightarrow> tr_asset_id r = a"
  by (simp add: row_active_def)

lemma one_lockD:
  assumes "one_lock t rows" "r \<in> set rows" "q \<in> set rows" "row_active a t r" "row_active a t q"
  shows "tr_transaction_id r = tr_transaction_id q"
proof -
  have "tr_asset_id r = a" using assms(4) by (rule row_active_asset)
  then show ?thesis using assms unfolding one_lock_def by blast
qed

lemma one_lockI:
  assumes "\<And>r q a. r \<in> set rows \<Longrightarrow> q \<in> set rows \<Longrightarrow> row_active a t r \<Longrightarrow> row_active a t q \<Longrightarrow>
    tr_transaction_id r = tr_transaction_id q"
  shows "one_lock t rows"
  unfolding one_lock_def using assms by blast

lemma one_lock_later: "one_lock t rows \<Longrightarrow> t \<le> u \<Longrightarrow> one_lock u rows"
  by (rule one_lockI) (meson one_lockD row_active_later)

lemma table_inv_later: "table_inv t rows \<Longrightarrow> t \<le> u \<Longrightarrow> table_inv u rows"
  using one_lock_later by (auto simp: table_inv_def)

text \<open>An update that keeps ids and assets and activates nothing preserves the invariant.\<close>

lemma table_inv_map:
  assumes "table_inv t rows"
    and "\<And>r. tr_transaction_id (f r) = tr_transaction_id r" "\<And>r. tr_asset_id (f r) = tr_asset_id r"
    and "\<And>r. r \<in> set rows \<Longrightarrow> row_ok r \<Longrightarrow> row_ok (f r)"
    and "\<And>r a. r \<in> set rows \<Longrightarrow> row_active a t (f r) \<Longrightarrow> row_active a t r"
  shows "table_inv t (map f rows)"
proof (rule table_invI)
  show "distinct (map tr_transaction_id (map f rows))"
    using table_invD(1) [OF assms(1)] by (simp add: comp_def assms(2))
  show "list_all row_ok (map f rows)"
    using table_invD(2) [OF assms(1)] assms(4) by (simp add: list_all_iff)
  show "one_lock t (map f rows)"
  proof (rule one_lockI)
    fix r' q' a assume "r' \<in> set (map f rows)" "q' \<in> set (map f rows)"
      and act: "row_active a t r'" "row_active a t q'"
    then obtain r q where rq: "r \<in> set rows" "q \<in> set rows" "r' = f r" "q' = f q" by auto
    with act assms(5) have "row_active a t r" "row_active a t q" by blast+
    with rq(1,2) have "tr_transaction_id r = tr_transaction_id q"
      by (rule one_lockD [OF table_invD(3) [OF assms(1)]])
    with rq(3,4) show "tr_transaction_id r' = tr_transaction_id q'" by (simp add: assms(2))
  qed
qed

lemma update_status_inv:
  assumes "table_inv t rows" "st \<in> {''COMMITTED'', ''ABORTED''}"
  shows "table_inv t (update_status tx st True rows)"
  unfolding update_status_def
  by (rule table_inv_map [OF assms(1)]) (use assms(2) in \<open>auto simp: row_ok_def row_active_def split: if_splits\<close>)

lemma abort_active_inv: "table_inv t rows \<Longrightarrow> table_inv t (abort_active_locks_for_asset a rows)"
  unfolding abort_active_locks_for_asset_def
  by (rule table_inv_map) (auto simp: row_ok_def row_active_def split: if_splits)

lemma no_other_active:
  assumes "prepare_read t tx a ttl rows = Inr w" "r \<in> set rows" "row_active a t r" "table_inv t rows"
  shows "tr_transaction_id r = tx"
proof -
  obtain q where q: "get_active_lock a t rows = Some q"
    using assms(2,3) get_active_lock_None [of a t rows] by (cases "get_active_lock a t rows") auto
  with assms(1) have "tr_transaction_id q = tx" by (auto simp: prepare_read_def Let_def split: if_splits)
  moreover have "tr_transaction_id r = tr_transaction_id q"
    using get_active_lock_Some [OF q] one_lockD [OF table_invD(3) [OF assms(4)] assms(2) _ assms(3)] by blast
  ultimately show ?thesis by simp
qed

lemma prepare_read_cases:
  assumes "prepare_read t tx a ttl rows = Inr w"
  shows "(w = Extend (t + ttl) \<and> (\<exists>r. get_transaction tx rows = Some r \<and> tr_asset_id r = a \<and> tr_status r = ''LOCKED''))
    \<or> (w = Create (t + ttl) \<and> get_transaction tx rows = None)"
  using assms
  by (auto simp: prepare_read_def prepare_existing_def Let_def split: option.splits if_splits)

lemma create_lock_inv:
  assumes "table_inv t rows" "get_transaction tx rows = None" "\<forall>r\<in>set rows. \<not> row_active a t r"
  shows "table_inv t (create_lock tx a e rows)"
proof (rule table_invI)
  show "distinct (map tr_transaction_id (create_lock tx a e rows))"
    using table_invD(1) [OF assms(1)] assms(2) by (auto simp: create_lock_def get_transaction_None)
  show "list_all row_ok (create_lock tx a e rows)"
    using table_invD(2) [OF assms(1)] by (simp add: create_lock_def row_ok_def)
  show "one_lock t (create_lock tx a e rows)"
  proof (rule one_lockI)
    fix r q b assume rq: "r \<in> set (create_lock tx a e rows)" "q \<in> set (create_lock tx a e rows)"
      and act: "row_active b t r" "row_active b t q"
    let ?n = "\<lparr> tr_transaction_id = tx, tr_asset_id = a, tr_status = ''LOCKED'', tr_lock_expires = Some e \<rparr>"
    have new: "x = ?n \<or> x \<in> set rows" if "x \<in> set (create_lock tx a e rows)" for x
      using that by (auto simp: create_lock_def)
    show "tr_transaction_id r = tr_transaction_id q"
    proof (cases "b = a")
      case True
      with act assms(3) new rq have "r = ?n" "q = ?n" by blast+
      then show ?thesis by simp
    next
      case False
      then have "r \<in> set rows" "q \<in> set rows"
        using new [OF rq(1)] new [OF rq(2)] act by (auto simp: row_active_def)
      then show ?thesis using one_lockD [OF table_invD(3) [OF assms(1)]] act by blast
    qed
  qed
qed

lemma extend_lock_inv:
  assumes "table_inv t rows" "get_transaction tx rows = Some x" "tr_status x = ''LOCKED''"
    and "\<forall>r\<in>set rows. row_active (tr_asset_id x) t r \<longrightarrow> tr_transaction_id r = tx"
  shows "table_inv t (extend_lock tx e rows)"
proof (rule table_invI)
  let ?f = "\<lambda>r. if tr_transaction_id r = tx then r\<lparr> tr_lock_expires := Some e \<rparr> else r"
  have x: "r = x" if "r \<in> set rows" "tr_transaction_id r = tx" for r
    using that assms(2) get_transaction_Some [OF table_invD(1) [OF assms(1)]]
    by (metis option.inject)
  show "distinct (map tr_transaction_id (extend_lock tx e rows))"
    using table_invD(1) [OF assms(1)] by (simp add: extend_lock_def comp_def if_distrib cong: if_cong)
  have "row_ok (?f r)" if "r \<in> set rows" for r
  proof (cases "tr_transaction_id r = tx")
    case True
    with x [OF that True] assms(3) show ?thesis by (simp add: row_ok_def)
  next
    case False
    with table_invD(2) [OF assms(1)] that show ?thesis by (simp add: list_all_iff)
  qed
  then show "list_all row_ok (extend_lock tx e rows)" 
    unfolding extend_lock_def list_all_iff set_map by blast
  show "one_lock t (extend_lock tx e rows)"
  proof (rule one_lockI)
    fix r' q' b assume rq: "r' \<in> set (extend_lock tx e rows)" "q' \<in> set (extend_lock tx e rows)"
      and act: "row_active b t r'" "row_active b t q'"
    have tagged: "\<exists>r\<in>set rows. r' = ?f r \<and> (tr_transaction_id r = tx \<or> row_active b t r)"
      if "r' \<in> set (extend_lock tx e rows)" "row_active b t r'" for r'
      using that by (auto simp: extend_lock_def split: if_splits)
    obtain r q where r: "r \<in> set rows" "r' = ?f r" "tr_transaction_id r = tx \<or> row_active b t r"
      and q: "q \<in> set rows" "q' = ?f q" "tr_transaction_id q = tx \<or> row_active b t q"
      using tagged [OF rq(1) act(1)] tagged [OF rq(2) act(2)] by blast
    have asset: "b = tr_asset_id x" if "tr_transaction_id r = tx \<or> tr_transaction_id q = tx"
      using that x r(1,2) q(1,2) act by (auto simp: row_active_def)
    have "tr_transaction_id r = tr_transaction_id q"
    proof (cases "tr_transaction_id r = tx \<or> tr_transaction_id q = tx")
      case True
      with asset r(1,3) q(1,3) assms(4) have "tr_transaction_id r = tx" "tr_transaction_id q = tx" by metis+
      then show ?thesis by simp
    next
      case False
      with r(3) q(3) have "row_active b t r" "row_active b t q" by blast+
      then show ?thesis by (rule one_lockD [OF table_invD(3) [OF assms(1)] r(1) q(1)])
    qed
    then show "tr_transaction_id r' = tr_transaction_id q'" using r(2) q(2) by simp
  qed
qed

lemma prepare_finish_inv:
  assumes "table_inv t rows" "prepare_read t tx a ttl rows = Inr w"
  shows "table_inv t (snd (prepare_finish dup tx a w rows))"
proof -
  have own: "\<forall>r\<in>set rows. row_active a t r \<longrightarrow> tr_transaction_id r = tx"
    using no_other_active [OF assms(2) _ _ assms(1)] by blast
  from prepare_read_cases [OF assms(2)] show ?thesis
  proof (elim disjE conjE exE)
    fix r assume "w = Extend (t + ttl)" "get_transaction tx rows = Some r" "tr_asset_id r = a" "tr_status r = ''LOCKED''"
    then show ?thesis using extend_lock_inv [OF assms(1)] own by (simp add: prepare_finish_def)
  next
    assume c: "w = Create (t + ttl)" "get_transaction tx rows = None"
    then have "\<forall>r\<in>set rows. \<not> row_active a t r" using own by (auto simp: get_transaction_None)
    then show ?thesis using c create_lock_inv [OF assms(1)] by (simp add: prepare_finish_def)
  qed
qed

lemma ot_prepare_inv: "table_inv t rows \<Longrightarrow> table_inv t (snd (ot_prepare f dup t tx a ttl rows))"
  using prepare_finish_inv by (auto simp: ot_prepare_def split: option.splits sum.splits)

lemma estop_frees: "get_active_lock a t (abort_active_locks_for_asset a rows) = None"
proof -
  have "\<not> row_active a t (if tr_asset_id q = a \<and> tr_status q = ''LOCKED''
      then q\<lparr> tr_status := ''ABORTED'', tr_lock_expires := Some 0 \<rparr> else q)" for q
    by (auto simp: row_active_def)
  then show ?thesis unfolding get_active_lock_None abort_active_locks_for_asset_def set_map by blast
qed

lemma finalize_commit_inv: "table_inv t rows \<Longrightarrow> table_inv t (snd (finalize_commit f tx a rows))"
  by (auto simp: finalize_commit_def intro: update_status_inv split: option.splits)

lemma ot_abort_inv: "table_inv t rows \<Longrightarrow> table_inv t (snd (ot_abort f tx a rows))"
  by (auto simp: ot_abort_def intro: update_status_inv split: option.splits)

lemma ot_estop_inv: "table_inv t rows \<Longrightarrow> table_inv t (snd (ot_estop f a rows))"
  by (auto simp: ot_estop_def intro: abort_active_inv split: option.splits)

lemmas table_ops_inv = ot_prepare_inv finalize_commit_inv ot_abort_inv ot_estop_inv table_inv_later

subsection \<open>The lock contract\<close>

definition ot_holder :: "int \<Rightarrow> string \<Rightarrow> tx_table \<Rightarrow> string option" where
  "ot_holder t a rows = map_option tr_transaction_id (get_active_lock a t rows)"

lemma ot_holder_Some:
  assumes "table_inv t rows"
  shows "ot_holder t a rows = Some x \<longleftrightarrow> (\<exists>r\<in>set rows. row_active a t r \<and> tr_transaction_id r = x)"
proof
  assume "ot_holder t a rows = Some x"
  then show "\<exists>r\<in>set rows. row_active a t r \<and> tr_transaction_id r = x"
    using get_active_lock_Some [of a t rows] by (auto simp: ot_holder_def)
next
  assume "\<exists>r\<in>set rows. row_active a t r \<and> tr_transaction_id r = x"
  then obtain r where r: "r \<in> set rows" "row_active a t r" "tr_transaction_id r = x" by blast
  then obtain q where q: "get_active_lock a t rows = Some q"
    using get_active_lock_None [of a t rows] by (cases "get_active_lock a t rows") auto
  then have "tr_transaction_id q = x"
    using get_active_lock_Some [OF q] one_lockD [OF table_invD(3) [OF assms] r(1) _ r(2)] r(3) by metis
  with q show "ot_holder t a rows = Some x" by (simp add: ot_holder_def)
qed

lemma ot_prepare_denied:
  "ot_holder t a rows = Some x \<Longrightarrow> x \<noteq> tx \<Longrightarrow>
   rp_status (fst (ot_prepare f dup t tx a ttl rows)) \<noteq> ''LOCK_GRANTED'' \<and> snd (ot_prepare f dup t tx a ttl rows) = rows"
  by (auto simp: ot_holder_def ot_prepare_def prepare_read_def split: option.splits)

text \<open>What a granted request leaves: its row is there, LOCKED, with the new expiry.\<close>

lemma ot_prepare_granted:
  assumes "rp_status (fst (ot_prepare f dup t tx a ttl rows)) = ''LOCK_GRANTED''" "table_inv t rows"
  shows "\<exists>r\<in>set (snd (ot_prepare f dup t tx a ttl rows)). tr_transaction_id r = tx \<and> tr_asset_id r = a
    \<and> tr_status r = ''LOCKED'' \<and> tr_lock_expires r = Some (t + ttl)"
proof (cases f)
  case None
  show ?thesis
  proof (cases "prepare_read t tx a ttl rows")
    case (Inl r)
    then have "rp_status r \<noteq> ''LOCK_GRANTED''"
      by (auto simp: prepare_read_def prepare_existing_def Let_def split: option.splits if_splits)
    with assms(1) None Inl show ?thesis by (simp add: ot_prepare_def)
  next
    case (Inr w)
    from prepare_read_cases [OF Inr] show ?thesis
    proof (elim disjE conjE exE)
      fix r assume "w = Extend (t + ttl)" "get_transaction tx rows = Some r" "tr_asset_id r = a" "tr_status r = ''LOCKED''"
      then have e: "snd (ot_prepare f dup t tx a ttl rows) = extend_lock tx (t + ttl) rows"
          and r: "r \<in> set rows" "tr_transaction_id r = tx" "tr_asset_id r = a" "tr_status r = ''LOCKED''"
        using None Inr get_transaction_Some [OF table_invD(1) [OF assms(2)], of tx r]
        by (simp_all add: ot_prepare_def prepare_finish_def)
      then have "r\<lparr> tr_lock_expires := Some (t + ttl) \<rparr> \<in> set (extend_lock tx (t + ttl) rows)"
        by (auto simp: extend_lock_def image_iff intro!: bexI [of _ r])
      with e r(2-4) show ?thesis by (intro bexI [of _ "r\<lparr> tr_lock_expires := Some (t + ttl) \<rparr>"]) simp_all
    next
      assume "w = Create (t + ttl)" "get_transaction tx rows = None"
      then show ?thesis using None Inr by (simp add: ot_prepare_def prepare_finish_def create_lock_def)
    qed
  qed
next
  case (Some m)
  with assms(1) show ?thesis by (simp add: ot_prepare_def)
qed


lemma update_status_row:
  assumes "r \<in> set (update_status tx st c rows)" "tr_transaction_id r = tx"
  shows "tr_status r = st"
proof -
  obtain q where q: "q \<in> set rows" "r = (if tr_transaction_id q = tx then (if c then
      q\<lparr> tr_status := st, tr_lock_expires := Some 0 \<rparr> else q\<lparr> tr_status := st \<rparr>) else q)"
    using assms(1) by (auto simp only: update_status_def set_map)
  then show ?thesis using assms(2) by (cases "tr_transaction_id q = tx"; cases c) simp_all
qed

interpretation ot: lock_manager "\<lambda>t. True" table_inv ot_holder
  "\<lambda>t tx a ttl s. granted (ot_prepare None [] t tx a ttl s)"
  "\<lambda>tx a s. released (ot_abort None tx a s)"
  "\<lambda>a s. snd (ot_estop None a s)"
proof
  fix t rows a x tx ttl
  show "ot_holder t a rows = Some x \<Longrightarrow> x \<noteq> tx \<Longrightarrow> granted (ot_prepare None [] t tx a ttl rows) = (False, rows)"
    using ot_prepare_denied [of t a rows x tx None "[]" ttl] by (simp add: granted_def)
next
  fix t rows b a x tx ttl
  assume inv: "table_inv t rows" and ne: "b \<noteq> a" and h: "ot_holder t b rows = Some x"
  obtain r where r: "r \<in> set rows" "row_active b t r" "tr_transaction_id r = x"
    using h ot_holder_Some [OF inv] by blast
  have "r \<in> set (snd (ot_prepare None [] t tx a ttl rows))"
  proof (cases "prepare_read t tx a ttl rows")
    case (Inl y)
    with r show ?thesis by (simp add: ot_prepare_def)
  next
    case (Inr w)
    from prepare_read_cases [OF Inr] show ?thesis
    proof (elim disjE conjE exE)
      fix q assume q: "w = Extend (t + ttl)" "get_transaction tx rows = Some q" "tr_asset_id q = a"
      have "tr_transaction_id r \<noteq> tx"
      proof
        assume "tr_transaction_id r = tx"
        then have "get_transaction tx rows = Some r"
          using r(1) by (simp add: get_transaction_Some [OF table_invD(1) [OF inv]])
        with q(2) have "r = q" by simp
        with q(3) row_active_asset [OF r(2)] ne show False by simp
      qed
      then show ?thesis using r(1) q Inr
        by (auto simp: ot_prepare_def prepare_finish_def extend_lock_def image_iff intro!: bexI [of _ r])
    next
      assume "w = Create (t + ttl)" "get_transaction tx rows = None"
      then show ?thesis using r Inr by (simp add: ot_prepare_def prepare_finish_def create_lock_def)
    qed
  qed
  then have "ot_holder t b (snd (ot_prepare None [] t tx a ttl rows)) = Some x"
    using r ot_holder_Some [OF ot_prepare_inv [OF inv]] by blast
  then show "ot_holder t b (snd (granted (ot_prepare None [] t tx a ttl rows))) = Some x"
    by (simp add: granted_def)
next
  fix t rows ttl tx a
  assume inv: "table_inv t rows" and ttl: "(0::int) < ttl"
    and g: "fst (granted (ot_prepare None [] t tx a ttl rows))"
  have "rp_status (fst (ot_prepare None [] t tx a ttl rows)) = ''LOCK_GRANTED''" using g by (simp add: granted_def)
  from ot_prepare_granted [OF this inv] obtain r
    where "r \<in> set (snd (ot_prepare None [] t tx a ttl rows))" "tr_transaction_id r = tx" "row_active a t r"
    using ttl by (auto simp: row_active_def)
  then show "ot_holder t a (snd (granted (ot_prepare None [] t tx a ttl rows))) = Some tx"
    using ot_holder_Some [OF ot_prepare_inv [OF inv]] by (auto simp: granted_def)
next
  fix t rows tx a ttl
  show "table_inv t rows \<Longrightarrow> table_inv t (snd (granted (ot_prepare None [] t tx a ttl rows)))"
    by (simp add: granted_def ot_prepare_inv)
next
  fix t rows tx a
  assume inv: "table_inv t rows" and rel: "fst (released (ot_abort None tx a rows))"
  have upd: "snd (ot_abort None tx a rows) = update_status tx ''ABORTED'' True rows"
    using rel by (auto simp: released_def ot_abort_def split: option.splits if_splits)
  have "get_active_lock a t (update_status tx ''ABORTED'' True rows) = Some r \<Longrightarrow> tr_transaction_id r \<noteq> tx" for r
  proof
    assume r: "get_active_lock a t (update_status tx ''ABORTED'' True rows) = Some r" "tr_transaction_id r = tx"
    then have "tr_status r = ''ABORTED''" using get_active_lock_Some [OF r(1)] update_status_row by blast
    moreover have "tr_status r = ''LOCKED''" using get_active_lock_Some [OF r(1)] by (simp add: row_active_def)
    ultimately show False by simp
  qed
  then show "ot_holder t a (snd (released (ot_abort None tx a rows))) \<noteq> Some tx"
    by (auto simp: released_def upd ot_holder_def)
next
  fix t a rows
  show "ot_holder t a (snd (ot_estop None a rows)) = None"
    by (simp add: ot_estop_def ot_holder_def estop_frees)
qed


subsection \<open>Sequential histories\<close>

text \<open>
  The clock advances and the service methods run one after the other, with or without a
  database error.  \<open>ot_history\<close> holds of the clock and tables that can be reached.
\<close>

inductive ot_step :: "int \<times> tx_table \<Rightarrow> int \<times> tx_table \<Rightarrow> bool" where
  Clock: "t \<le> u \<Longrightarrow> ot_step (t, rows) (u, rows)"
| Prepare: "ot_step (t, rows) (t, snd (ot_prepare f dup t tx a ttl rows))"
| Finalize: "ot_step (t, rows) (t, snd (finalize_commit f tx a rows))"
| Abort: "ot_step (t, rows) (t, snd (ot_abort f tx a rows))"
| Estop: "ot_step (t, rows) (t, snd (ot_estop f a rows))"

inductive_cases ot_stepE: "ot_step s s'"

abbreviation ot_history :: "int \<times> tx_table \<Rightarrow> int \<times> tx_table \<Rightarrow> bool" where
  "ot_history \<equiv> ot_step\<^sup>*\<^sup>*"

lemma ot_step_inv: "ot_step s s' \<Longrightarrow> table_inv (fst s) (snd s) \<Longrightarrow> table_inv (fst s') (snd s')"
  by (induction rule: ot_step.induct) (simp_all add: table_ops_inv)

lemma ot_history_inv:
  "ot_history s s' \<Longrightarrow> table_inv (fst s) (snd s) \<Longrightarrow> table_inv (fst s') (snd s')"
  by (induction rule: rtranclp_induct) (auto intro: ot_step_inv)

lemma empty_table_inv: "table_inv t []"
  by (simp add: table_inv_def one_lock_def)

text \<open>How an operation changes one transaction's row.\<close>

lemma get_transaction_map:
  "(\<And>r. tr_transaction_id (f r) = tr_transaction_id r) \<Longrightarrow>
   get_transaction tx (map f rows) = map_option f (get_transaction tx rows)"
  by (induction rows) (auto simp: get_transaction_def)

lemma get_transaction_update:
  "get_transaction tx (update_status ty st c rows) = map_option
     (\<lambda>r. if tx = ty then (if c then r\<lparr> tr_status := st, tr_lock_expires := Some 0 \<rparr> else r\<lparr> tr_status := st \<rparr>) else r)
     (get_transaction tx rows)"
  by (induction rows) (auto simp: get_transaction_def update_status_def)

lemma get_transaction_extend:
  "get_transaction tx (extend_lock ty e rows) = map_option
     (\<lambda>r. if tx = ty then r\<lparr> tr_lock_expires := Some e \<rparr> else r) (get_transaction tx rows)"
  by (induction rows) (auto simp: get_transaction_def extend_lock_def)

lemma get_transaction_estop:
  "get_transaction tx (abort_active_locks_for_asset a rows) = map_option
     (\<lambda>r. if tr_asset_id r = a \<and> tr_status r = ''LOCKED''
          then r\<lparr> tr_status := ''ABORTED'', tr_lock_expires := Some 0 \<rparr> else r) (get_transaction tx rows)"
  unfolding abort_active_locks_for_asset_def by (rule get_transaction_map) simp

lemma get_transaction_create:
  "get_transaction ty rows = None \<Longrightarrow> get_transaction tx (create_lock ty a e rows) =
     (if tx = ty then Some \<lparr> tr_transaction_id = ty, tr_asset_id = a, tr_status = ''LOCKED'',
        tr_lock_expires = Some e \<rparr> else get_transaction tx rows)"
  by (induction rows) (auto simp: get_transaction_def create_lock_def)


subsection \<open>The abstract life cycle\<close>

text \<open>
  What a transaction's client sees: its asset and status, no expiry and no order of rows.  The
  specification of each operation works on this map alone.
\<close>

type_synonym life = "string \<Rightarrow> (string \<times> string) option"

definition life_of :: "tx_table \<Rightarrow> life" where
  "life_of rows tx = map_option (\<lambda>r. (tr_asset_id r, tr_status r)) (get_transaction tx rows)"

definition spec_end :: "string \<Rightarrow> string list \<Rightarrow> string \<Rightarrow> string \<Rightarrow> life \<Rightarrow> life" where
  "spec_end st from tx a m = (case m tx of
     Some (b, s) \<Rightarrow> if b = a \<and> s \<in> set from then m(tx \<mapsto> (a, st)) else m | None \<Rightarrow> m)"

definition spec_estop :: "string \<Rightarrow> life \<Rightarrow> life" where
  "spec_estop a m = (\<lambda>tx. case m tx of
     Some (b, s) \<Rightarrow> if b = a \<and> s = ''LOCKED'' then Some (b, ''ABORTED'') else Some (b, s) | None \<Rightarrow> None)"

definition spec_prepare :: "bool \<Rightarrow> string \<Rightarrow> string \<Rightarrow> life \<Rightarrow> life" where
  "spec_prepare g tx a m = (if g then m(tx \<mapsto> (a, ''LOCKED'')) else m)"

lemma get_transaction_ok:
  "list_all row_ok rows \<Longrightarrow> get_transaction tx rows = Some r \<Longrightarrow> row_ok r"
  by (induction rows) (auto simp: get_transaction_def split: if_splits)

lemma finalize_refines: "life_of (snd (finalize_commit None tx a rows)) =
    spec_end ''COMMITTED'' [''LOCKED''] tx a (life_of rows)"
  by (rule ext) (auto simp: finalize_commit_def life_of_def spec_end_def get_transaction_update option.map_ident split: option.splits)

lemma abort_refines: "list_all row_ok rows \<Longrightarrow> life_of (snd (ot_abort None tx a rows)) =
    spec_end ''ABORTED'' [''LOCKED''] tx a (life_of rows)"
  using get_transaction_ok [of rows tx]
  by (intro ext) (auto simp: ot_abort_def life_of_def spec_end_def get_transaction_update row_ok_def option.map_ident split: option.splits)

lemma estop_refines: "life_of (snd (ot_estop None a rows)) = spec_estop a (life_of rows)"
  by (rule ext) (auto simp: ot_estop_def life_of_def spec_estop_def get_transaction_estop split: option.splits)

lemma prepare_early_not_granted:
  "prepare_read t tx a ttl rows = Inl r \<Longrightarrow> rp_status r \<noteq> ''LOCK_GRANTED''"
  by (auto simp: prepare_read_def prepare_existing_def Let_def split: option.splits if_splits)

lemma prepare_refines: "life_of (snd (ot_prepare None dup t tx a ttl rows)) =
    spec_prepare (rp_status (fst (ot_prepare None dup t tx a ttl rows)) = ''LOCK_GRANTED'') tx a (life_of rows)"
proof (cases "prepare_read t tx a ttl rows")
  case (Inl r)
  then show ?thesis using prepare_early_not_granted [OF Inl] by (simp add: ot_prepare_def spec_prepare_def)
next
  case (Inr w)
  from prepare_read_cases [OF Inr] show ?thesis
    by (elim disjE conjE exE; intro ext)
       (use Inr in \<open>auto simp: ot_prepare_def prepare_finish_def spec_prepare_def life_of_def
         get_transaction_extend get_transaction_create option.map_ident\<close>)
qed

lemma fault_unchanged:
  "snd (ot_prepare (Some m) dup t tx a ttl rows) = rows" "snd (finalize_commit (Some m) tx a rows) = rows"
  "snd (ot_abort (Some m) tx a rows) = rows" "snd (ot_estop (Some m) a rows) = rows"
  by (simp_all add: ot_prepare_def finalize_commit_def ot_abort_def ot_estop_def)

definition finished :: "string \<Rightarrow> bool" where
  "finished st \<longleftrightarrow> st = ''COMMITTED'' \<or> st = ''ABORTED''"

lemma ot_prepare_finished:
  assumes "life_of rows tx = Some (b, st)" "finished st"
  shows "rp_status (fst (ot_prepare None dup t tx a ttl rows)) \<noteq> ''LOCK_GRANTED''"
proof (cases "prepare_read t tx a ttl rows")
  case (Inl r)
  then show ?thesis using prepare_early_not_granted [OF Inl] by (simp add: ot_prepare_def)
next
  case (Inr w)
  from prepare_read_cases [OF Inr] assms show ?thesis by (auto simp: life_of_def finished_def)
qed

lemma ot_step_finished:
  assumes "ot_step s s'" "table_inv (fst s) (snd s)" "life_of (snd s) tx = Some (b, st)" "finished st"
  shows "life_of (snd s') tx = Some (b, st)"
  using assms
proof (induction rule: ot_step.induct)
  case (Prepare t rows f dup ty a ttl)
  then show ?case using ot_prepare_finished [of rows tx b st dup t a ttl]
    by (cases f) (auto simp: prepare_refines spec_prepare_def fault_unchanged)
next
  case (Finalize t rows f ty a)
  then show ?case
    by (cases f) (auto simp: finalize_refines spec_end_def fault_unchanged finished_def split: option.splits)
next
  case (Abort t rows f ty a)
  then show ?case
    by (cases f) (auto simp: abort_refines table_invD spec_end_def fault_unchanged finished_def split: option.splits)
next
  case (Estop t rows f a)
  then show ?case by (cases f) (auto simp: estop_refines spec_estop_def fault_unchanged finished_def)
qed simp


lemma ot_history_finished:
  "ot_history s s' \<Longrightarrow> table_inv (fst s) (snd s) \<Longrightarrow> life_of (snd s) tx = Some (b, st) \<Longrightarrow> finished st \<Longrightarrow>
   life_of (snd s') tx = Some (b, st)"
proof (induction rule: rtranclp_induct)
  case (step y z)
  then show ?case using ot_history_inv [OF step.hyps(1)] ot_step_finished [OF step.hyps(2)] by blast
qed

subsection \<open>Properties\<close>

text \<open>C20: In every history of sequential requests, with clock progress and database errors, at most one transaction's lock on an asset is in force at a time.\<close>

theorem ot_mutual_exclusion:
  assumes "ot_history (t0, []) (t, rows)"
    and "r \<in> set rows" "q \<in> set rows" "row_active a t r" "row_active a t q"
  shows "r = q"
proof -
  have inv: "table_inv t rows" using ot_history_inv [OF assms(1)] empty_table_inv by simp
  have "tr_transaction_id r = tr_transaction_id q"
    using one_lockD [OF table_invD(3) [OF inv]] assms(2-5) by blast
  then show ?thesis
    using get_transaction_Some [OF table_invD(1) [OF inv]] assms(2,3) by (metis option.inject)
qed

theorem ot_mutual_exclusion_witness:
  "\<lparr> tr_transaction_id = ''t1'', tr_asset_id = ''a'', tr_status = ''LOCKED'', tr_lock_expires = Some 50 \<rparr>
   = hd (snd (ot_prepare None [] 0 ''t1'' ''a'' 50 []))"
proof -
  let ?r = "\<lparr> tr_transaction_id = ''t1'', tr_asset_id = ''a'', tr_status = ''LOCKED'', tr_lock_expires = Some 50 \<rparr>"
  have rows: "snd (ot_prepare None [] 0 ''t1'' ''a'' 50 []) = [?r]" by code_simp
  have "ot_step (0, []) (0, [?r])" using Prepare [of 0 "[]" None "[]" "''t1''" "''a''" 50] by (simp add: rows)
  then have h: "ot_history (0, []) (0, [?r])" by blast
  show ?thesis unfolding rows list.sel by (rule ot_mutual_exclusion [OF h]) (simp_all add: row_active_def)
qed

text \<open>C21: Once COMMITTED or ABORTED, a transaction keeps its status and its asset in every later history; no request, abort, emergency stop or error revives it.\<close>

theorem ot_terminal:
  assumes "ot_history (t0, []) (t, rows)" "ot_history (t, rows) (u, rows')"
    and "life_of rows tx = Some (a, st)" "finished st"
  shows "life_of rows' tx = Some (a, st)"
  using ot_history_finished [OF assms(2) _ _ assms(4)] ot_history_inv [OF assms(1)] empty_table_inv assms(3)
  by simp

theorem ot_terminal_witness:
  "life_of (snd (ot_prepare None [] 9 ''t1'' ''a'' 50
     (snd (finalize_commit None ''t1'' ''a'' (snd (ot_prepare None [] 0 ''t1'' ''a'' 50 [])))))) ''t1''
   = Some (''a'', ''COMMITTED'')"
proof -
  let ?r1 = "snd (ot_prepare None [] 0 ''t1'' ''a'' 50 [])"
  let ?r2 = "snd (finalize_commit None ''t1'' ''a'' ?r1)"
  have "ot_history (0, []) (0, ?r1)" "ot_history (0, ?r1) (0, ?r2)" "ot_history (0, ?r2) (9, ?r2)"
    by (rule r_into_rtranclp, rule Prepare, rule r_into_rtranclp, rule Finalize, rule r_into_rtranclp, rule Clock) simp
  then have "ot_history (0, []) (9, ?r2)" by (meson rtranclp_trans)
  moreover have "ot_history (9, ?r2) (9, snd (ot_prepare None [] 9 ''t1'' ''a'' 50 ?r2))"
    by (rule r_into_rtranclp, rule Prepare)
  moreover have "life_of ?r2 ''t1'' = Some (''a'', ''COMMITTED'')" by code_simp
  ultimately show ?thesis by (rule ot_terminal) (simp add: finished_def)
qed

text \<open>C22: The four writing methods implement the abstract life cycle of a transaction: each acts on the map from ids to asset and status exactly as its specification, whatever the rows' order and expiries.\<close>

theorem ot_refines_life_cycle:
  assumes "list_all row_ok rows"
  shows "life_of (snd (ot_prepare None dup t tx a ttl rows)) =
      spec_prepare (rp_status (fst (ot_prepare None dup t tx a ttl rows)) = ''LOCK_GRANTED'') tx a (life_of rows)
    \<and> life_of (snd (finalize_commit None tx a rows)) = spec_end ''COMMITTED'' [''LOCKED''] tx a (life_of rows)
    \<and> life_of (snd (ot_abort None tx a rows)) = spec_end ''ABORTED'' [''LOCKED''] tx a (life_of rows)
    \<and> life_of (snd (ot_estop None a rows)) = spec_estop a (life_of rows)"
  using prepare_refines finalize_refines abort_refines [OF assms] estop_refines by blast

theorem ot_refines_life_cycle_witness:
  "life_of (snd (ot_abort None ''t1'' ''a'' (snd (ot_prepare None [] 0 ''t1'' ''a'' 50 [])))) ''t1'' = Some (''a'', ''ABORTED'')"
proof -
  have "list_all row_ok (snd (ot_prepare None [] 0 ''t1'' ''a'' 50 []))" by code_simp
  moreover have "life_of (snd (ot_prepare None [] 0 ''t1'' ''a'' 50 [])) ''t1'' = Some (''a'', ''LOCKED'')" by code_simp
  ultimately show ?thesis using ot_refines_life_cycle [of _ "[]" 0 "''t1''" "''a''" 0] by (simp add: spec_end_def)
qed

text \<open>The database-backed machine has a check-then-act race: two requests for a free asset whose reads both come before either write are both granted, and two locks on the asset are then in force.\<close>

theorem ot_prepare_race:
  assumes "get_active_lock a t rows = None" "get_transaction tx rows = None" "get_transaction ty rows = None"
    and "tx \<noteq> ty" "0 < ttl"
  shows "\<exists>v w. prepare_read t tx a ttl rows = Inr v \<and> prepare_read t ty a ttl rows = Inr w \<and>
    (let (g, rows1) = prepare_finish dup tx a v rows; (h, rows2) = prepare_finish dup ty a w rows1
     in rp_status g = ''LOCK_GRANTED'' \<and> rp_status h = ''LOCK_GRANTED'' \<and> \<not> one_lock t rows2)"
proof -
  let ?x = "\<lparr> tr_transaction_id = tx, tr_asset_id = a, tr_status = ''LOCKED'', tr_lock_expires = Some (t + ttl) \<rparr>"
  let ?y = "\<lparr> tr_transaction_id = ty, tr_asset_id = a, tr_status = ''LOCKED'', tr_lock_expires = Some (t + ttl) \<rparr>"
  have "\<not> one_lock t (rows @ [?x, ?y])"
    using one_lockD [of t "rows @ [?x, ?y]" ?x ?y a] assms(4,5) by (auto simp: row_active_def)
  moreover have "get_transaction ty (create_lock tx a (t + ttl) rows) = None"
    using assms by (simp add: get_transaction_create)
  ultimately show ?thesis using assms
    by (simp add: prepare_read_def prepare_existing_def prepare_finish_def create_lock_def)
qed

theorem ot_prepare_race_witness:
  "\<not> one_lock 0 (snd (prepare_finish [] ''t2'' ''a'' (Create 50) (snd (prepare_finish [] ''t1'' ''a'' (Create 50) []))))"
  using ot_prepare_race [of "''a''" 0 "[]" "''t1''" "''t2''" 50 "[]"]
  by (auto simp: get_active_lock_def get_transaction_def prepare_read_def prepare_existing_def Let_def case_prod_beta)

lemma estop_inv: "table_inv t rows \<Longrightarrow> ot_estop None a rows = (answer, rows') \<Longrightarrow> table_inv t rows'"
  using ot_estop_inv [of t rows None a] by simp

lemma aborted_not_ready:
  "life_of rows tx = Some (a, ''ABORTED'') \<Longrightarrow> rp_status (check_commit_ready None v tx a rows) = ''REJECTED''"
  by (cases "get_transaction tx rows") (simp_all add: life_of_def check_commit_ready_def reply_because_def)

definition stopped_row :: "string \<Rightarrow> tx_row \<Rightarrow> tx_row \<Rightarrow> bool" where
  "stopped_row a r r' \<longleftrightarrow> (if tr_asset_id r = a \<and> tr_status r = ''LOCKED''
     then r' = r\<lparr> tr_status := ''ABORTED'', tr_lock_expires := Some 0 \<rparr> else r' = r)"

lemma estop_rows: "list_all2 (stopped_row a) rows (abort_active_locks_for_asset a rows)"
  by (induction rows) (simp_all add: abort_active_locks_for_asset_def stopped_row_def)

text \<open>C23: On a table that keeps the invariant of the store (different ids, rows that are LOCKED, COMMITTED or ABORTED, the expiry zero in the last two, at most one lock in force on an asset), a successful emergency stop of an asset aborts what was under way: each row LOCKED on the asset is ABORTED and its expiry cleared, every other row is as it was, in its place, and at no time is a lock on the asset in force; in every later history of sequential requests a transaction stopped this way is still ABORTED and is not ready to commit.\<close>

theorem ot_estop_clears:
  assumes "table_inv t rows" "ot_estop None a rows = (answer, rows')"
  shows "rp_status answer = ''ESTOP_EXECUTED'' \<and>
    list_all2 (stopped_row a) rows rows' \<and>
    get_active_lock a u rows' = None \<and>
    (\<forall>tx r s'. get_transaction tx rows = Some r \<and> tr_asset_id r = a \<and> tr_status r = ''LOCKED'' \<and> ot_history (t, rows') s' \<longrightarrow>
       life_of (snd s') tx = Some (a, ''ABORTED'') \<and> rp_status (check_commit_ready None v tx a (snd s')) = ''REJECTED'')"
proof (intro conjI allI impI)
  have rows': "rows' = abort_active_locks_for_asset a rows" and "answer = reply ''ESTOP_EXECUTED''"
    using assms(2) by (simp_all add: ot_estop_def)
  then show "rp_status answer = ''ESTOP_EXECUTED''" by (simp add: reply_def)
  show "list_all2 (stopped_row a) rows rows'" unfolding rows' by (rule estop_rows)
  show "get_active_lock a u rows' = None" unfolding rows' by (rule estop_frees)
  fix tx r s'
  assume a: "get_transaction tx rows = Some r \<and> tr_asset_id r = a \<and> tr_status r = ''LOCKED'' \<and> ot_history (t, rows') s'"
  then have "life_of rows' tx = Some (a, ''ABORTED'')" by (simp add: rows' life_of_def get_transaction_estop)
  then show "life_of (snd s') tx = Some (a, ''ABORTED'')"
    using ot_history_finished [of "(t, rows')" s'] estop_inv [OF assms] a by (simp add: finished_def)
  then show "rp_status (check_commit_ready None v tx a (snd s')) = ''REJECTED''" by (rule aborted_not_ready)
qed

theorem ot_estop_clears_witness:
  "life_of (snd (ot_prepare None [] 9 ''t1'' ''a'' 50
     (snd (ot_estop None ''a'' (snd (ot_prepare None [] 0 ''t1'' ''a'' 50 [])))))) ''t1'' = Some (''a'', ''ABORTED'')"
proof -
  let ?r1 = "snd (ot_prepare None [] 0 ''t1'' ''a'' 50 [])"
  let ?r2 = "snd (ot_estop None ''a'' ?r1)"
  have inv: "table_inv 0 ?r1" using ot_prepare_inv [OF empty_table_inv] by simp
  have stop: "ot_estop None ''a'' ?r1 = (fst (ot_estop None ''a'' ?r1), ?r2)" by simp
  have locked: "map_option (\<lambda>r. (tr_asset_id r, tr_status r)) (get_transaction ''t1'' ?r1) = Some (''a'', ''LOCKED'')" by code_simp
  have "ot_history (0, ?r2) (9, ?r2)" by (rule r_into_rtranclp, rule Clock) simp
  moreover have "ot_history (9, ?r2) (9, snd (ot_prepare None [] 9 ''t1'' ''a'' 50 ?r2))"
    by (rule r_into_rtranclp, rule Prepare)
  ultimately have later: "ot_history (0, ?r2) (9, snd (ot_prepare None [] 9 ''t1'' ''a'' 50 ?r2))" by (rule rtranclp_trans)
  obtain r where "get_transaction ''t1'' ?r1 = Some r" "tr_asset_id r = ''a''" "tr_status r = ''LOCKED''"
    using locked by (auto simp only: option.map_sel map_option_eq_Some prod.inject)
  then show ?thesis using ot_estop_clears [OF inv stop, THEN conjunct2, THEN conjunct2, THEN conjunct2] later by (metis snd_conv)
qed

end
