(* ===== verification/OtRoutes.thy ===== *)
theory OtRoutes
  imports OtStore
begin

section \<open>The OT interface service (apps/ot_interface/routes.py, executor_manager.py)\<close>

text \<open>
  The four request handlers over the transaction table, and the executor registry they use.
  An executor is reached through the operations of its interface (\<open>core/ports/executor.py\<close>),
  the record \<open>executor_ops\<close> over a device state \<open>'d\<close>; each may raise.  The clock readings and
  the database errors of the calls a handler makes are arguments, in their order.  The lemmas:
  equipment is touched only for a ready transaction, an ACK means an execution that succeeded
  and a COMMITTED row, and a failed execution aborts and tries the safe state.
\<close>

subsection \<open>Executors\<close>

datatype exec_kind = MockExec | PlcAdapterExec | ModbusExec

record 'd executor_ops =
  xo_initialize :: "exec_kind \<Rightarrow> pv \<Rightarrow> 'd \<Rightarrow> unit res \<times> 'd"
  xo_execute :: "string \<Rightarrow> string \<Rightarrow> string \<Rightarrow> pv list \<Rightarrow> 'd \<Rightarrow> bool res \<times> 'd"
  xo_safe_state :: "string \<Rightarrow> string \<Rightarrow> 'd \<Rightarrow> bool res \<times> 'd"
  xo_last_error :: "string \<Rightarrow> 'd \<Rightarrow> string option"

record 'd ot_state =
  os_rows :: tx_table
  os_instances :: "(string \<times> exec_kind) list"
  os_dev :: 'd

record ot_config =
  oc_registry :: "pv dict"
  oc_production :: bool

definition executor_kind :: "ot_config \<Rightarrow> string \<Rightarrow> pv \<Rightarrow> exec_kind res" where
  "executor_kind cfg name etype =
     (if etype = VStr ''plc_adapter'' then Inr PlcAdapterExec
      else if etype = VStr ''modbus'' then Inr ModbusExec
      else if etype = VStr ''mock'' then
        (if oc_production cfg
         then raise RuntimeError (''Executor '' @ quoted name @ '' uses MOCK type, forbidden in PRODUCTION.'')
         else Inr MockExec)
      else raise ValueError (''Unknown executor type '' @ quoted (py_str etype)))"

definition get_executor ::
  "'d executor_ops \<Rightarrow> ot_config \<Rightarrow> string \<Rightarrow> 'd ot_state \<Rightarrow> string res \<times> 'd ot_state" where
  "get_executor ops cfg asset_id st =
     (let config = oc_registry cfg;
          executor_name = vget (as_dict (vget config ''asset_map'')) asset_id;
          name = py_str executor_name in
      if \<not> truthy executor_name then (raise RuntimeError (''No executor mapped for asset '' @ asset_id), st)
      else if dhas (os_instances st) name then (Inr name, st)
      else (let executor_conf = vget (as_dict (vget config ''executors'')) name in
        if \<not> truthy executor_conf
        then (raise ValueError (''No configuration found for executor '' @ quoted name), st)
        else (case executor_kind cfg name (dget_or (as_dict executor_conf) ''type'' (VStr ''mock'')) of
            Inl e \<Rightarrow> (Inl e, st)
          | Inr k \<Rightarrow>
              (case xo_initialize ops k (dget_or (as_dict executor_conf) ''config'' (VDict [])) (os_dev st) of
                 (Inl e, d) \<Rightarrow> (raise RuntimeError (''Failed to initialize executor '' @ quoted name @ '': '' @ exc_msg e),
                                 st\<lparr> os_dev := d \<rparr>)
               | (Inr u, d) \<Rightarrow> (Inr name, st\<lparr> os_instances := dset name k (os_instances st), os_dev := d \<rparr>)))))"

definition execute_safe_state :: "'d executor_ops \<Rightarrow> ot_config \<Rightarrow> string \<Rightarrow> 'd ot_state \<Rightarrow> bool \<times> 'd ot_state" where
  "execute_safe_state ops cfg asset_id st =
     (case get_executor ops cfg asset_id st of
        (Inl e, st1) \<Rightarrow> (False, st1)
      | (Inr name, st1) \<Rightarrow>
          (case xo_safe_state ops name asset_id (os_dev st1) of
             (Inl e, d) \<Rightarrow> (False, st1\<lparr> os_dev := d \<rparr>)
           | (Inr ok, d) \<Rightarrow> (ok, st1\<lparr> os_dev := d \<rparr>)))"

subsection \<open>PREPARE\<close>

record prepare_response =
  pr_transaction_id :: string
  pr_status :: string
  pr_lock_expires_at_ms :: "int option"
  pr_reason :: "string option"

definition prepare_route ::
  "string option \<Rightarrow> string \<Rightarrow> int \<Rightarrow> string \<Rightarrow> string \<Rightarrow> int \<Rightarrow> 'd ot_state \<Rightarrow> prepare_response \<times> 'd ot_state" where
  "prepare_route fault dup now transaction_id asset_id lock_ttl_ms st =
     (let (result, rows) = ot_prepare fault dup now transaction_id asset_id lock_ttl_ms (os_rows st);
          status = (if rp_status result = ''LOCK_GRANTED'' then ''LOCK_GRANTED'' else ''LOCK_DENIED'')
      in (\<lparr> pr_transaction_id = transaction_id, pr_status = status,
            pr_lock_expires_at_ms = rp_expires result, pr_reason = rp_reason result \<rparr>,
          st\<lparr> os_rows := rows \<rparr>))"

subsection \<open>COMMIT\<close>

record commit_response =
  co_transaction_id :: string
  co_status :: string
  co_executed_at_ms :: "int option"
  co_reason :: "string option"
  co_safe_state_executed :: "bool option"

definition commit_response :: "string \<Rightarrow> string \<Rightarrow> string option \<Rightarrow> commit_response" where
  "commit_response tx st why = \<lparr> co_transaction_id = tx, co_status = st, co_executed_at_ms = None,
     co_reason = why, co_safe_state_executed = None \<rparr>"

definition or_text :: "string option \<Rightarrow> string \<Rightarrow> string" where
  "or_text x d = (case x of None \<Rightarrow> d | Some s \<Rightarrow> s)"

text \<open>After a failed execution, with its reason: abort the transaction, then the safe state.\<close>

definition commit_failed ::
  "'d executor_ops \<Rightarrow> ot_config \<Rightarrow> string option \<Rightarrow> string \<Rightarrow> string \<Rightarrow> string \<Rightarrow> 'd ot_state
   \<Rightarrow> commit_response res \<times> 'd ot_state" where
  "commit_failed ops cfg fault transaction_id asset_id why st =
     (let (abort_result, rows) = ot_abort fault transaction_id asset_id (os_rows st);
          st1 = st\<lparr> os_rows := rows \<rparr> in
      if rp_status abort_result \<noteq> ''ABORTED'' \<and> rp_status abort_result \<noteq> ''ALREADY_ABORTED''
      then (http_error 500 (''Execution failed and transaction could not be aborted: ''
              @ or_text (rp_reason abort_result) ''unknown''), st1)
      else (let (safe, st2) = execute_safe_state ops cfg asset_id st1 in
        (Inr ((commit_response transaction_id ''EXECUTION_FAILED'' (Some why))
               \<lparr> co_safe_state_executed := Some safe \<rparr>), st2)))"

text \<open>\<open>ExecutorManager.get_executor\<close> and \<open>executor.execute\<close>, inside the handler's \<open>try\<close>.\<close>

definition run_executor ::
  "'d executor_ops \<Rightarrow> ot_config \<Rightarrow> string \<Rightarrow> string \<Rightarrow> pv list \<Rightarrow> 'd ot_state \<Rightarrow> (string \<times> bool) res \<times> 'd ot_state" where
  "run_executor ops cfg transaction_id asset_id action_sequence st =
     (case get_executor ops cfg asset_id st of
        (Inl e, st1) \<Rightarrow> (Inl e, st1)
      | (Inr name, st1) \<Rightarrow>
          (case xo_execute ops name transaction_id asset_id action_sequence (os_dev st1) of
             (Inl e, d) \<Rightarrow> (Inl e, st1\<lparr> os_dev := d \<rparr>)
           | (Inr ok, d) \<Rightarrow> (Inr (name, ok), st1\<lparr> os_dev := d \<rparr>)))"

definition failure_reason :: "'d executor_ops \<Rightarrow> string \<Rightarrow> 'd \<Rightarrow> string" where
  "failure_reason ops name d = (case xo_last_error ops name d of
     Some m \<Rightarrow> if m = [] then ''Executor returned unsuccessful result'' else m
   | None \<Rightarrow> ''Executor returned unsuccessful result'')"

definition commit_route ::
  "'d executor_ops \<Rightarrow> ot_config \<Rightarrow> string option \<Rightarrow> string option \<Rightarrow> int \<Rightarrow> int \<Rightarrow> string \<Rightarrow> string \<Rightarrow> pv list
   \<Rightarrow> 'd ot_state \<Rightarrow> commit_response res \<times> 'd ot_state" where
  "commit_route ops cfg fault1 fault2 now done_at transaction_id asset_id action_sequence st =
     (let readiness = check_commit_ready fault1 now transaction_id asset_id (os_rows st);
          status = rp_status readiness in
      if status = ''ALREADY_COMMITTED''
      then (Inr (commit_response transaction_id ''ALREADY_COMMITTED'' (rp_reason readiness)), st)
      else if status = ''TIMEOUT''
      then (Inr (commit_response transaction_id ''TIMEOUT'' (rp_reason readiness)), st)
      else if status \<noteq> ''READY''
      then (http_error 409 (or_text (rp_reason readiness) ''Commit rejected''), st)
      else (case run_executor ops cfg transaction_id asset_id action_sequence st of
          (Inl e, st1) \<Rightarrow> commit_failed ops cfg fault2 transaction_id asset_id (exc_msg e) st1
        | (Inr (name, exec_success), st1) \<Rightarrow>
            if \<not> exec_success
            then commit_failed ops cfg fault2 transaction_id asset_id (failure_reason ops name (os_dev st1)) st1
            else (let (result, rows) = finalize_commit fault2 transaction_id asset_id (os_rows st1);
                      st2 = st1\<lparr> os_rows := rows \<rparr> in
              if rp_status result = ''COMMITTED''
              then (Inr ((commit_response transaction_id ''ACK'' None)\<lparr> co_executed_at_ms := Some done_at \<rparr>), st2)
              else if rp_status result = ''ALREADY_COMMITTED''
              then (Inr (commit_response transaction_id ''ALREADY_COMMITTED'' (rp_reason result)), st2)
              else (http_error 409 (or_text (rp_reason result) ''Finalize commit rejected''), st2))))"

subsection \<open>ABORT and E-STOP\<close>

record abort_response =
  ab_transaction_id :: string
  ab_status :: string
  ab_safe_state_executed :: bool
  ab_reason :: "string option"

definition abort_route ::
  "'d executor_ops \<Rightarrow> ot_config \<Rightarrow> string option \<Rightarrow> string \<Rightarrow> string \<Rightarrow> 'd ot_state \<Rightarrow> abort_response \<times> 'd ot_state" where
  "abort_route ops cfg fault transaction_id asset_id st =
     (let (result, rows) = ot_abort fault transaction_id asset_id (os_rows st);
          st1 = st\<lparr> os_rows := rows \<rparr>; status = rp_status result;
          (safe, st2) = (if status = ''ABORTED'' \<or> status = ''ALREADY_ABORTED''
                         then execute_safe_state ops cfg asset_id st1 else (False, st1))
      in (\<lparr> ab_transaction_id = transaction_id, ab_status = status, ab_safe_state_executed = safe,
            ab_reason = rp_reason result \<rparr>, st2))"

record estop_response =
  es_asset_id :: string
  es_status :: string
  es_timestamp_ms :: int

definition estop_route ::
  "'d executor_ops \<Rightarrow> ot_config \<Rightarrow> string option \<Rightarrow> int \<Rightarrow> string \<Rightarrow> 'd ot_state \<Rightarrow> estop_response \<times> 'd ot_state" where
  "estop_route ops cfg fault now asset_id st =
     (let (result, rows) = ot_estop fault asset_id (os_rows st);
          (safe, st1) = execute_safe_state ops cfg asset_id (st\<lparr> os_rows := rows \<rparr>)
      in (\<lparr> es_asset_id = asset_id, es_status = ''ESTOP_EXECUTED'', es_timestamp_ms = now \<rparr>, st1))"

subsection \<open>Facts about the handlers\<close>

lemma get_executor_rows: "get_executor ops cfg a st = (r, st') \<Longrightarrow> os_rows st' = os_rows st"
  by (auto simp: get_executor_def Let_def split: if_splits sum.splits prod.splits)

lemma run_executor_rows: "run_executor ops cfg tx a acts st = (r, st') \<Longrightarrow> os_rows st' = os_rows st"
  using get_executor_rows by (fastforce simp: run_executor_def split: sum.splits prod.splits)

lemma execute_safe_state_rows: "execute_safe_state ops cfg a st = (r, st') \<Longrightarrow> os_rows st' = os_rows st"
  using get_executor_rows by (fastforce simp: execute_safe_state_def split: sum.splits prod.splits)

text \<open>A ready transaction is LOCKED for this asset and no other lock is in force.\<close>

lemma check_commit_ready_READY:
  assumes "rp_status (check_commit_ready f now tx a rows) = ''READY''"
  shows "\<exists>r. get_transaction tx rows = Some r \<and> tr_asset_id r = a \<and> tr_status r = ''LOCKED'' \<and>
    (ot_holder now a rows = Some tx \<or>
      (ot_holder now a rows = None \<and> (case tr_lock_expires r of None \<Rightarrow> True | Some e \<Rightarrow> now \<le> e)))"
  using assms
  by (auto simp: check_commit_ready_def ot_holder_def split: option.splits if_splits)

lemma check_commit_ready_life:
  "rp_status (check_commit_ready None now tx a rows) = ''ALREADY_COMMITTED'' \<longleftrightarrow> life_of rows tx = Some (a, ''COMMITTED'')"
  by (auto simp: check_commit_ready_def life_of_def split: option.splits if_splits)

lemma finalize_COMMITTED:
  "rp_status (fst (finalize_commit f tx a rows)) = ''COMMITTED'' \<Longrightarrow>
   life_of (snd (finalize_commit f tx a rows)) tx = Some (a, ''COMMITTED'') \<and> f = None"
  by (auto simp: finalize_commit_def life_of_def get_transaction_update split: option.splits if_splits)

lemma abort_ABORTED:
  "rp_status (fst (ot_abort f tx a rows)) \<in> {''ABORTED'', ''ALREADY_ABORTED''} \<Longrightarrow>
   life_of (snd (ot_abort f tx a rows)) tx = Some (a, ''ABORTED'')"
  by (auto simp: ot_abort_def life_of_def get_transaction_update split: option.splits if_splits)

lemma commit_failed_result:
  assumes "commit_failed ops cfg f tx a why st = (Inr r, st')"
  shows "co_status r = ''EXECUTION_FAILED''" "life_of (os_rows st') tx = Some (a, ''ABORTED'')"
    "co_reason r = Some why"
    "\<exists>st1. os_rows st1 = os_rows st' \<and> co_safe_state_executed r = Some (fst (execute_safe_state ops cfg a st1))
       \<and> st' = snd (execute_safe_state ops cfg a st1)"
proof -
  obtain ar rows where ab: "ot_abort f tx a (os_rows st) = (ar, rows)" by force
  let ?st1 = "st\<lparr> os_rows := rows \<rparr>"
  obtain safe st2 where ex: "execute_safe_state ops cfg a ?st1 = (safe, st2)" by force
  have ok: "rp_status ar \<in> {''ABORTED'', ''ALREADY_ABORTED''}"
    using assms ab by (auto simp: commit_failed_def http_error_def Let_def split: if_splits)
  then have r: "r = (commit_response tx ''EXECUTION_FAILED'' (Some why))\<lparr> co_safe_state_executed := Some safe \<rparr>"
    and st': "st' = st2" using assms ab ex by (auto simp: commit_failed_def Let_def)
  have rows: "os_rows st2 = rows" using execute_safe_state_rows [OF ex] by simp
  show "co_status r = ''EXECUTION_FAILED''" "co_reason r = Some why" by (simp_all add: r commit_response_def)
  show "life_of (os_rows st') tx = Some (a, ''ABORTED'')"
    using abort_ABORTED [of f tx a "os_rows st"] ok ab by (simp add: st' rows)
  show "\<exists>st1. os_rows st1 = os_rows st' \<and> co_safe_state_executed r = Some (fst (execute_safe_state ops cfg a st1))
       \<and> st' = snd (execute_safe_state ops cfg a st1)"
    using ex rows r st' by (intro exI [of _ ?st1]) (simp add: commit_response_def)
qed

lemma commit_failed_not_ack: "commit_failed ops cfg f tx a why st = (Inr r, st') \<Longrightarrow> co_status r \<noteq> ''ACK''"
  using commit_failed_result(1) by fastforce

subsection \<open>Properties\<close>

text \<open>C24: A COMMIT answered with ACK has run the actions: the transaction was LOCKED for the asset with no other lock in force, the executor was reached and returned success, and only then the row became COMMITTED.\<close>

theorem commit_ack_executed:
  assumes "commit_route ops cfg f1 f2 now done_at tx a acts st = (Inr r, st')" "co_status r = ''ACK''"
  shows "life_of (os_rows st) tx = Some (a, ''LOCKED'') \<and> ot_holder now a (os_rows st) \<in> {Some tx, None}
    \<and> (\<exists>name. fst (run_executor ops cfg tx a acts st) = Inr (name, True))
    \<and> os_dev st' = os_dev (snd (run_executor ops cfg tx a acts st))
    \<and> life_of (os_rows st') tx = Some (a, ''COMMITTED'')"
proof -
  obtain x st1 where run: "run_executor ops cfg tx a acts st = (x, st1)" by force
  obtain fr rows where fin: "finalize_commit f2 tx a (os_rows st1) = (fr, rows)" by force
  have ready: "rp_status (check_commit_ready f1 now tx a (os_rows st)) = ''READY''"
    using assms by (auto simp: commit_route_def commit_response_def http_error_def Let_def split: if_splits)
  have step: "(case x of Inl e \<Rightarrow> commit_failed ops cfg f2 tx a (exc_msg e) st1
        | Inr (name, ok) \<Rightarrow> if \<not> ok then commit_failed ops cfg f2 tx a (failure_reason ops name (os_dev st1)) st1
            else (if rp_status fr = ''COMMITTED''
              then (Inr ((commit_response tx ''ACK'' None)\<lparr> co_executed_at_ms := Some done_at \<rparr>), st1\<lparr> os_rows := rows \<rparr>)
              else if rp_status fr = ''ALREADY_COMMITTED''
              then (Inr (commit_response tx ''ALREADY_COMMITTED'' (rp_reason fr)), st1\<lparr> os_rows := rows \<rparr>)
              else (http_error 409 (or_text (rp_reason fr) ''Finalize commit rejected''), st1\<lparr> os_rows := rows \<rparr>))) = (Inr r, st')"
    using assms(1) ready run fin by (cases x) (auto simp: commit_route_def Let_def)
  then obtain name where x: "x = Inr (name, True)"
    using assms(2) by (cases x) (auto dest: commit_failed_not_ack split: if_splits)
  then have c: "rp_status fr = ''COMMITTED''" and st': "st' = st1\<lparr> os_rows := rows \<rparr>"
    using step assms(2) by (auto simp: commit_response_def http_error_def split: if_splits)
  have "life_of rows tx = Some (a, ''COMMITTED'')"
    using finalize_COMMITTED [of f2 tx a "os_rows st1"] fin c by simp
  then show ?thesis using check_commit_ready_READY [OF ready] run x st' by (auto simp: life_of_def)
qed

text \<open>A COMMIT leaves equipment and table alone unless the transaction is ready; in particular a repeated COMMIT of a committed transaction answers ALREADY_COMMITTED and does not execute again.\<close>

theorem commit_not_ready_inert:
  "(rp_status (check_commit_ready f1 now tx a (os_rows st)) \<noteq> ''READY'' \<longrightarrow>
      snd (commit_route ops cfg f1 f2 now done_at tx a acts st) = st) \<and>
   (life_of (os_rows st) tx = Some (a, ''COMMITTED'') \<longrightarrow>
      commit_route ops cfg None f2 now done_at tx a acts st =
        (Inr (commit_response tx ''ALREADY_COMMITTED'' (Some ''Transaction already committed'')), st))"
  by (auto simp: commit_route_def check_commit_ready_def life_of_def Let_def split: option.splits)

text \<open>C25: A COMMIT answered with EXECUTION_FAILED has aborted the transaction and tried the safe state last; its flag reports the result of that attempt.\<close>

theorem commit_failed_aborts:
  assumes "commit_route ops cfg f1 f2 now done_at tx a acts st = (Inr r, st')" "co_status r = ''EXECUTION_FAILED''"
  shows "life_of (os_rows st') tx = Some (a, ''ABORTED'') \<and>
    (\<exists>st1. co_safe_state_executed r = Some (fst (execute_safe_state ops cfg a st1)) \<and>
       st' = snd (execute_safe_state ops cfg a st1))"
proof -
  obtain x st1 where run: "run_executor ops cfg tx a acts st = (x, st1)" by force
  have ready: "rp_status (check_commit_ready f1 now tx a (os_rows st)) = ''READY''"
    using assms by (auto simp: commit_route_def commit_response_def http_error_def Let_def split: if_splits)
  obtain why where "commit_failed ops cfg f2 tx a why st1 = (Inr r, st')"
    using assms ready run
    by (auto simp: commit_route_def commit_response_def http_error_def Let_def
        split: sum.splits prod.splits if_splits)
  from commit_failed_result(2,4) [OF this] show ?thesis by blast
qed


text \<open>The witnesses use a device that counts executions and refuses an empty list of actions.\<close>

definition counting_ops :: "nat executor_ops" where
  "counting_ops = \<lparr> xo_initialize = (\<lambda>k c d. (Inr (), d)),
     xo_execute = (\<lambda>n tx a acts d. (Inr (acts \<noteq> []), Suc d)),
     xo_safe_state = (\<lambda>n a d. (Inr True, d)), xo_last_error = (\<lambda>n d. None) \<rparr>"

definition mock_config :: ot_config where
  "mock_config = \<lparr> oc_registry = [(''asset_map'', VDict [(''a1'', VStr ''m'')]),
     (''executors'', VDict [(''m'', VDict [(''type'', VStr ''mock'')])])], oc_production = False \<rparr>"

definition locked_state :: "nat ot_state" where
  "locked_state = \<lparr> os_rows = [\<lparr> tr_transaction_id = ''t1'', tr_asset_id = ''a1'', tr_status = ''LOCKED'',
     tr_lock_expires = Some 50 \<rparr>], os_instances = [], os_dev = 0 \<rparr>"

theorem commit_ack_executed_witness:
  "os_dev (snd (commit_route counting_ops mock_config None None 10 11 ''t1'' ''a1'' [VNone] locked_state)) = 1"
proof -
  let ?c = "commit_route counting_ops mock_config None None 10 11 ''t1'' ''a1'' [VNone] locked_state"
  have c: "?c = (Inr (projr (fst ?c)), snd ?c)" "co_status (projr (fst ?c)) = ''ACK''" by code_simp+
  have "os_dev (snd (run_executor counting_ops mock_config ''t1'' ''a1'' [VNone] locked_state)) = 1" by code_simp
  with commit_ack_executed [OF c] show ?thesis by simp
qed

theorem commit_not_ready_inert_witness:
  "snd (commit_route counting_ops mock_config None None 60 61 ''t1'' ''a1'' [VNone] locked_state) = locked_state"
proof -
  have "rp_status (check_commit_ready None 60 ''t1'' ''a1'' (os_rows locked_state)) \<noteq> ''READY''" by code_simp
  then show ?thesis using commit_not_ready_inert by blast
qed

theorem commit_failed_aborts_witness:
  "life_of (os_rows (snd (commit_route counting_ops mock_config None None 10 11 ''t1'' ''a1'' [] locked_state))) ''t1''
   = Some (''a1'', ''ABORTED'')"
proof -
  let ?c = "commit_route counting_ops mock_config None None 10 11 ''t1'' ''a1'' [] locked_state"
  have c: "?c = (Inr (projr (fst ?c)), snd ?c)" "co_status (projr (fst ?c)) = ''EXECUTION_FAILED''" by code_simp+
  from commit_failed_aborts [OF c] show ?thesis by blast
qed

text \<open>An emergency stop always answers ESTOP_EXECUTED; with a database error it does so with every lock of the asset still in the table, and when the table is reachable no lock is left.\<close>

theorem estop_route_reply:
  "es_status (fst (estop_route ops cfg fault now a st)) = ''ESTOP_EXECUTED'' \<and>
   os_rows (snd (estop_route ops cfg fault now a st)) =
     (if fault = None then abort_active_locks_for_asset a (os_rows st) else os_rows st)"
  using execute_safe_state_rows
  by (auto simp: estop_route_def ot_estop_def Let_def split: option.splits prod.splits) fastforce+

end
