(* ===== verification/Ledger.thy ===== *)
theory Ledger
  imports Canonical
begin

section \<open>The evidence ledger (apps/evidence_ledger/repository.py, routes.py)\<close>

text \<open>
  The table \<open>evidence_events\<close> as the list of its rows in order of insertion, without the
  surrogate key and the database's own timestamp.  The pair of transaction and sequence number
  is unique; any other database error is \<open>fault\<close>.  A payload column that comes back as text
  is decoded by \<open>loads\<close> (\<open>json.loads\<close>, \<open>None\<close> on a decode error).  The lemmas: the
  table only grows, the verification is the recursive definition of a hash chain, two valid
  chains with one end hash have the same payloads or exhibit a hash collision, and what the
  chain does not cover.
\<close>

record event =
  ev_transaction_id :: string
  ev_sequence_no :: int
  ev_stage :: string
  ev_timestamp_ms :: int
  ev_payload :: pv
  ev_input_hash :: string
  ev_prev_hash :: string
  ev_event_hash :: string

definition evidence_stages :: "string list" where
  "evidence_stages = [''RECEIVED'', ''SCHEMA_VALIDATED'', ''INTEGRITY_PASSED'', ''INTEGRITY_REJECTED'',
     ''SAFETY_PASSED'', ''SAFETY_UNSAFE'', ''PREPARE_LOCK_GRANTED'', ''PREPARE_LOCK_DENIED'',
     ''REVERIFY_PASSED'', ''REVERIFY_FAILED'', ''COMMIT_ACK'', ''COMMIT_TIMEOUT'', ''COMMIT_FAILED'',
     ''COMMIT_ERROR'', ''ABORTED'', ''ESTOP_TRIGGERED'']"

text \<open>What the request model accepts.\<close>

definition valid_append_request :: "event \<Rightarrow> bool" where
  "valid_append_request e \<longleftrightarrow> 0 \<le> ev_sequence_no e \<and> ev_stage e \<in> set evidence_stages \<and> is_dict (ev_payload e)"

definition has_event :: "event list \<Rightarrow> string \<Rightarrow> int \<Rightarrow> bool" where
  "has_event table tx seq \<longleftrightarrow> list_ex (\<lambda>e. ev_transaction_id e = tx \<and> ev_sequence_no e = seq) table"

definition repo_append_event :: "string option \<Rightarrow> string \<Rightarrow> event \<Rightarrow> event list \<Rightarrow> event res \<times> event list" where
  "repo_append_event fault dup e table = (case fault of
     Some m \<Rightarrow> (raise RuntimeError m, table)
   | None \<Rightarrow> if has_event table (ev_transaction_id e) (ev_sequence_no e)
             then (raise RuntimeError dup, table) else (Inr e, table @ [e]))"

definition get_transaction_events :: "string \<Rightarrow> event list \<Rightarrow> event list" where
  "get_transaction_events tx table = sort_key ev_sequence_no (filter (\<lambda>e. ev_transaction_id e = tx) table)"

fun links_ok :: "event list \<Rightarrow> bool" where
  "links_ok (d # e # es) = (ev_prev_hash e = ev_event_hash d \<and> links_ok (e # es))"
| "links_ok es = True"

definition decoded_payload :: "(string \<Rightarrow> pv option) \<Rightarrow> pv \<Rightarrow> pv" where
  "decoded_payload loads p = (case p of
     VStr s \<Rightarrow> (case loads s of Some v \<Rightarrow> v | None \<Rightarrow> p) | _ \<Rightarrow> p)"

definition hash_ok :: "(string \<Rightarrow> string) \<Rightarrow> (string \<Rightarrow> pv option) \<Rightarrow> event \<Rightarrow> bool" where
  "hash_ok sha loads e \<longleftrightarrow>
     ev_event_hash e = compute_event_hash sha (ev_prev_hash e) (decoded_payload loads (ev_payload e))"

definition verify_chain :: "(string \<Rightarrow> string) \<Rightarrow> (string \<Rightarrow> pv option) \<Rightarrow> string \<Rightarrow> event list \<Rightarrow> bool" where
  "verify_chain sha loads tx table = (case get_transaction_events tx table of
     [] \<Rightarrow> True
   | e # es \<Rightarrow> if ev_prev_hash e \<noteq> genesis_hash sha then False
       else if \<not> links_ok (e # es) then False
       else list_all (hash_ok sha loads) (e # es))"

text \<open>The two handlers: append answers 409 on any failure, the query adds the verdict on the chain.\<close>

definition append_event_route :: "string option \<Rightarrow> string \<Rightarrow> event \<Rightarrow> event list \<Rightarrow> event res \<times> event list" where
  "append_event_route fault dup request table =
     (case repo_append_event fault dup request table of
        (Inl e, t) \<Rightarrow> (raise (HTTPException 409) (''Duplicate event: '' @ exc_msg e), t)
      | (Inr r, t) \<Rightarrow> (Inr r, t))"

definition get_transaction_route ::
  "(string \<Rightarrow> string) \<Rightarrow> (string \<Rightarrow> pv option) \<Rightarrow> string \<Rightarrow> event list \<Rightarrow> event list \<times> bool" where
  "get_transaction_route sha loads tx table =
     (get_transaction_events tx table, verify_chain sha loads tx table)"

subsection \<open>The chain as a recursion\<close>

fun chain_from :: "(string \<Rightarrow> string) \<Rightarrow> (string \<Rightarrow> pv option) \<Rightarrow> string \<Rightarrow> event list \<Rightarrow> bool" where
  "chain_from sha loads h [] = True"
| "chain_from sha loads h (e # es) \<longleftrightarrow> ev_prev_hash e = h \<and> hash_ok sha loads e \<and>
     chain_from sha loads (ev_event_hash e) es"

definition end_hash :: "string \<Rightarrow> event list \<Rightarrow> string" where
  "end_hash h es = (if es = [] then h else ev_event_hash (last es))"

lemma chain_from_links:
  "chain_from sha loads h (e # es) \<longleftrightarrow> ev_prev_hash e = h \<and> links_ok (e # es) \<and> list_all (hash_ok sha loads) (e # es)"
  by (induction es arbitrary: e h) auto

lemma verify_chain_iff:
  "verify_chain sha loads tx table \<longleftrightarrow> chain_from sha loads (genesis_hash sha) (get_transaction_events tx table)"
proof (cases "get_transaction_events tx table")
  case (Cons e es)
  show ?thesis unfolding verify_chain_def Cons chain_from_links by (simp del: links_ok.simps)
qed (simp add: verify_chain_def)

lemma chain_from_append:
  "chain_from sha loads h (es @ fs) \<longleftrightarrow> chain_from sha loads h es \<and> chain_from sha loads (end_hash h es) fs"
  by (induction es arbitrary: h) (auto simp: end_hash_def)

lemma chain_from_take: "chain_from sha loads h es \<Longrightarrow> chain_from sha loads h (take n es)"
  by (metis append_take_drop_id chain_from_append)

subsection \<open>Collisions\<close>

text \<open>The text whose digest is an event's hash, and the first place, from the end, where two chains differ.\<close>

definition event_input :: "(string \<Rightarrow> pv option) \<Rightarrow> event \<Rightarrow> string" where
  "event_input loads e = ev_prev_hash e @ canonicalize (decoded_payload loads (ev_payload e))"

fun rev_collision :: "(string \<Rightarrow> pv option) \<Rightarrow> event list \<Rightarrow> event list \<Rightarrow> (string \<times> string) option" where
  "rev_collision loads [] [] = None"
| "rev_collision loads [] (f # fs) = Some ([], event_input loads f)"
| "rev_collision loads (e # es) [] = Some (event_input loads e, [])"
| "rev_collision loads (e # es) (f # fs) =
     (if event_input loads e \<noteq> event_input loads f then Some (event_input loads e, event_input loads f)
      else rev_collision loads es fs)"

definition chain_collision :: "(string \<Rightarrow> pv option) \<Rightarrow> event list \<Rightarrow> event list \<Rightarrow> (string \<times> string) option" where
  "chain_collision loads es fs = rev_collision loads (rev es) (rev fs)"

definition same_payload :: "(string \<Rightarrow> pv option) \<Rightarrow> event \<Rightarrow> event \<Rightarrow> bool" where
  "same_payload loads e f \<longleftrightarrow> same_json (decoded_payload loads (ev_payload e)) (decoded_payload loads (ev_payload f))"

lemma hash_ok_input: "hash_ok sha loads e \<longleftrightarrow> ev_event_hash e = sha (event_input loads e)"
  by (simp add: hash_ok_def compute_event_hash_def compute_hash_def event_input_def)

lemma event_input_nonempty: "event_input loads e \<noteq> []"
  using canonicalize_first by (simp add: event_input_def)

lemma end_hash_length:
  "\<forall>s. length (sha s) = 64 \<Longrightarrow> chain_from sha loads (genesis_hash sha) es \<Longrightarrow> length (end_hash (genesis_hash sha) es) = 64"
  by (cases es rule: rev_cases) (auto simp: end_hash_def genesis_hash_def chain_from_append hash_ok_input)

lemma event_input_split:
  assumes "length (ev_prev_hash e) = length (ev_prev_hash f)" "event_input loads e = event_input loads f"
    and "wf_pv (decoded_payload loads (ev_payload e))" "wf_pv (decoded_payload loads (ev_payload f))"
  shows "ev_prev_hash e = ev_prev_hash f \<and> same_payload loads e f"
  using assms canonicalize_prefix [OF assms(3,4), of "[]" "[]"]
  by (auto simp: event_input_def same_payload_def)

lemma chains_agree:
  assumes "\<forall>s. length (sha s) = 64"
    and "chain_from sha loads (genesis_hash sha) es" "chain_from sha loads (genesis_hash sha) fs"
    and "end_hash (genesis_hash sha) es = end_hash (genesis_hash sha) fs"
    and "list_all (\<lambda>e. wf_pv (decoded_payload loads (ev_payload e))) (es @ fs)"
  shows "case chain_collision loads es fs of None \<Rightarrow> list_all2 (same_payload loads) es fs
    | Some (x, y) \<Rightarrow> x \<noteq> y \<and> sha x = sha y"
  using assms(2-)
proof (induction es arbitrary: fs rule: rev_induct)
  case Nil
  then show ?case
    using event_input_nonempty event_input_nonempty [symmetric]
    by (cases fs rule: rev_cases)
       (auto simp: chain_collision_def end_hash_def genesis_hash_def chain_from_append hash_ok_input)
next
  case (snoc e es)
  let ?g = "genesis_hash sha"
  have e: "hash_ok sha loads e" "ev_prev_hash e = end_hash ?g es" "chain_from sha loads ?g es"
    using snoc.prems(1) by (auto simp: chain_from_append)
  show ?case
  proof (cases fs rule: rev_cases)
    case Nil
    then show ?thesis using snoc.prems(3) e event_input_nonempty
      by (auto simp: chain_collision_def end_hash_def genesis_hash_def hash_ok_input)
  next
    case (snoc gs f)
    have f: "hash_ok sha loads f" "ev_prev_hash f = end_hash ?g gs" "chain_from sha loads ?g gs"
      using snoc.prems(2) snoc by (auto simp: chain_from_append)
    have eq: "sha (event_input loads e) = sha (event_input loads f)"
      using snoc.prems(3) snoc e(1) f(1) by (simp add: end_hash_def hash_ok_input)
    show ?thesis
    proof (cases "event_input loads e = event_input loads f")
      case False
      with eq snoc show ?thesis by (simp add: chain_collision_def)
    next
      case True
      have "length (ev_prev_hash e) = length (ev_prev_hash f)"
        using end_hash_length [OF assms(1) e(3)] end_hash_length [OF assms(1) f(3)] e(2) f(2) by simp
      then have same: "ev_prev_hash e = ev_prev_hash f" "same_payload loads e f"
        using event_input_split [OF _ True] snoc.prems(4) snoc by auto
      have "case chain_collision loads es gs of None \<Rightarrow> list_all2 (same_payload loads) es gs
          | Some (x, y) \<Rightarrow> x \<noteq> y \<and> sha x = sha y"
        using snoc.prems(4) snoc e f same(1) by (intro snoc.IH) auto
      then show ?thesis using True same(2) snoc
        by (auto simp: chain_collision_def intro: list_all2_appendI split: option.splits)
    qed
  qed
qed


subsection \<open>Properties\<close>

text \<open>The ledger is append-only: an append keeps every stored event in place and adds at most the request at the end, and it is refused with 409, the table unchanged, when the transaction already has that sequence number.\<close>

theorem ledger_append_only:
  "(append_event_route fault dup e table = (Inr e, table @ [e]) \<or>
     (\<exists>m. append_event_route fault dup e table = (raise (HTTPException 409) m, table))) \<and>
   (has_event table (ev_transaction_id e) (ev_sequence_no e) \<longrightarrow> snd (append_event_route fault dup e table) = table)"
  by (auto simp: append_event_route_def repo_append_event_def split: option.splits)

definition sample_event :: "int \<Rightarrow> event" where
  "sample_event n = \<lparr> ev_transaction_id = ''t1'', ev_sequence_no = n, ev_stage = ''RECEIVED'', ev_timestamp_ms = 5,
     ev_payload = VDict [], ev_input_hash = [], ev_prev_hash = [], ev_event_hash = [] \<rparr>"

theorem ledger_append_only_witness:
  "snd (append_event_route None ''dup'' (sample_event 0) [sample_event 0]) = [sample_event 0]"
proof -
  have "has_event [sample_event 0] (ev_transaction_id (sample_event 0)) (ev_sequence_no (sample_event 0))"
    by (simp add: has_event_def)
  then show ?thesis using ledger_append_only [of None "''dup''" "sample_event 0" "[sample_event 0]"] by blast
qed

text \<open>The three passes of the verification (first link, links, recomputed hashes) accept exactly the hash chains from the genesis hash, in the order of the sequence numbers.\<close>

theorem ledger_verify_is_chain:
  "verify_chain sha loads tx table \<longleftrightarrow> chain_from sha loads (genesis_hash sha) (get_transaction_events tx table)"
  by (rule verify_chain_iff)

text \<open>C26: Tamper evidence: two verified ledgers of a transaction that end in one hash hold the same number of events with the same payloads in order, or the function \<open>chain_collision\<close> returns two different texts with the same digest.\<close>

theorem ledger_tamper_evident:
  assumes "\<forall>s. length (sha s) = 64"
    and "verify_chain sha loads tx table" "verify_chain sha loads tx table'"
    and "es = get_transaction_events tx table" "fs = get_transaction_events tx table'"
    and "end_hash (genesis_hash sha) es = end_hash (genesis_hash sha) fs"
    and "list_all (\<lambda>e. wf_pv (decoded_payload loads (ev_payload e))) (es @ fs)"
  shows "case chain_collision loads es fs of None \<Rightarrow> list_all2 (same_payload loads) es fs
    | Some (x, y) \<Rightarrow> x \<noteq> y \<and> sha x = sha y"
proof (rule chains_agree [OF assms(1) _ _ assms(6,7)])
  show "chain_from sha loads (genesis_hash sha) es" using assms(2,4) by (simp add: verify_chain_iff)
  show "chain_from sha loads (genesis_hash sha) fs" using assms(3,5) by (simp add: verify_chain_iff)
qed

theorem ledger_tamper_evident_witness:
  "\<exists>sha. verify_chain sha (\<lambda>s. None) ''t1'' [(sample_event 0)\<lparr> ev_prev_hash := sha [], ev_event_hash := sha (sha [] @ ''{}'') \<rparr>]
     \<and> list_all2 (same_payload (\<lambda>s. None)) [sample_event 0] [sample_event 0]"
proof -
  define sha :: "string \<Rightarrow> string" where "sha s = take 64 (s @ replicate 64 CHR ''0'')" for s
  let ?e = "(sample_event 0)\<lparr> ev_prev_hash := sha [], ev_event_hash := sha (sha [] @ ''{}'') \<rparr>"
  have len: "\<forall>s. length (sha s) = 64" by (simp add: sha_def min_def)
  have v: "verify_chain sha (\<lambda>s. None) ''t1'' [?e]"
    by (simp add: verify_chain_def get_transaction_events_def sample_event_def genesis_hash_def hash_ok_def
        compute_event_hash_def compute_hash_def decoded_payload_def dkeys_def)
  have g: "get_transaction_events ''t1'' [?e] = [?e]" by (simp add: get_transaction_events_def sample_event_def)
  have "case chain_collision (\<lambda>s. None) [?e] [?e] of None \<Rightarrow> list_all2 (same_payload (\<lambda>s. None)) [?e] [?e]
    | Some (x, y) \<Rightarrow> x \<noteq> y \<and> sha x = sha y"
    by (rule ledger_tamper_evident [OF len v v]) (simp_all only: g, simp_all add: decoded_payload_def sample_event_def)
  then have "list_all2 (same_payload (\<lambda>s. None)) [?e] [?e]" by (simp add: chain_collision_def)
  then show ?thesis using v by (auto simp: same_payload_def)
qed

subsection \<open>What the chain does not cover\<close>

definition relabel :: "(event \<Rightarrow> string) \<Rightarrow> (event \<Rightarrow> int) \<Rightarrow> (event \<Rightarrow> string) \<Rightarrow> event \<Rightarrow> event" where
  "relabel st ts ih e = e\<lparr> ev_stage := st e, ev_timestamp_ms := ts e, ev_input_hash := ih e \<rparr>"

lemma relabel_simps [simp]:
  "ev_transaction_id (relabel st ts ih e) = ev_transaction_id e" "ev_sequence_no (relabel st ts ih e) = ev_sequence_no e"
  "ev_prev_hash (relabel st ts ih e) = ev_prev_hash e" "ev_event_hash (relabel st ts ih e) = ev_event_hash e"
  "hash_ok sha loads (relabel st ts ih e) = hash_ok sha loads e"
  by (simp_all add: relabel_def hash_ok_def)

lemma insort_key_map: "(\<And>x. f (g x) = f x) \<Longrightarrow> insort_key f (g x) (map g xs) = map g (insort_key f x xs)"
  by (induction xs) auto

lemma sort_key_map: "(\<And>x. f (g x) = f x) \<Longrightarrow> sort_key f (map g xs) = map g (sort_key f xs)"
  by (induction xs) (auto simp: insort_key_map)

lemma chain_from_relabel: "chain_from sha loads h (map (relabel st ts ih) es) = chain_from sha loads h es"
  by (induction es arbitrary: h) auto

lemma sorted_filter_take:
  "sorted (map f xs) \<Longrightarrow> filter (\<lambda>x. f x < n) xs = takeWhile (\<lambda>x. f x < n) xs"
proof (induction xs)
  case Nil
  then show ?case by simp
next
  case (Cons x xs)
  show ?case
  proof (cases "f x < n")
    case True
    with Cons show ?thesis by simp
  next
    case False
    with Cons.prems have "filter (\<lambda>x. f x < n) xs = []" by (auto simp: filter_empty_conv)
    with False show ?thesis by simp
  qed
qed

lemma events_before:
  "get_transaction_events tx (filter (\<lambda>e. ev_sequence_no e < n) table) =
   takeWhile (\<lambda>e. ev_sequence_no e < n) (get_transaction_events tx table)"
proof -
  have "get_transaction_events tx (filter (\<lambda>e. ev_sequence_no e < n) table) =
      filter (\<lambda>e. ev_sequence_no e < n) (get_transaction_events tx table)"
    by (simp add: get_transaction_events_def filter_sort conj_commute)
  then show ?thesis using sorted_filter_take [of ev_sequence_no "get_transaction_events tx table"]
    by (simp add: get_transaction_events_def)
qed

text \<open>Blind spots: dropping the events from some sequence number on, or rewriting the stages, timestamps and input hashes in any way, leaves a verified chain verified.\<close>

theorem ledger_blind_spots:
  assumes "verify_chain sha loads tx table"
  shows "verify_chain sha loads tx (filter (\<lambda>e. ev_sequence_no e < n) table) \<and>
    verify_chain sha loads tx (map (relabel st ts ih) table)"
proof -
  have c: "chain_from sha loads (genesis_hash sha) (get_transaction_events tx table)"
    using assms by (simp add: verify_chain_iff)
  have "get_transaction_events tx (map (relabel st ts ih) table) =
      map (relabel st ts ih) (get_transaction_events tx table)"
    by (simp add: get_transaction_events_def filter_map comp_def sort_key_map)
  with c have "verify_chain sha loads tx (map (relabel st ts ih) table)"
    by (simp add: verify_chain_iff chain_from_relabel)
  moreover have "chain_from sha loads (genesis_hash sha)
      (takeWhile (\<lambda>e. ev_sequence_no e < n) (get_transaction_events tx table))"
    using chain_from_take [OF c] by (subst takeWhile_eq_take) blast
  then have "verify_chain sha loads tx (filter (\<lambda>e. ev_sequence_no e < n) table)"
    by (simp only: verify_chain_iff events_before)
  ultimately show ?thesis by blast
qed

theorem ledger_blind_spots_witness:
  "verify_chain (\<lambda>s. s) (\<lambda>s. None) ''t1'' (map (relabel (\<lambda>e. ''COMMIT_ACK'') (\<lambda>e. 0) (\<lambda>e. []))
     [(sample_event 0)\<lparr> ev_event_hash := ''{}'' \<rparr>])"
proof -
  have "verify_chain (\<lambda>s. s) (\<lambda>s. None) ''t1'' [(sample_event 0)\<lparr> ev_event_hash := ''{}'' \<rparr>]" by code_simp
  from ledger_blind_spots [OF this] show ?thesis by blast
qed

end
