(* ===== verification/PyObj.thy ===== *)
theory PyObj
  imports Models
begin

section \<open>Method calls on values of unknown kind\<close>

text \<open>
  What a call on a value does when the value is not the dictionary the code expects: the
  attribute and type errors of \<open>v.get(k, d)\<close>, \<open>v[k]\<close>, \<open>v[k] = w\<close>, \<open>v.setdefault(k, d)\<close>,
  \<open>x in v\<close> and of iterating over \<open>v\<close>.
\<close>

definition no_attr :: "pv \<Rightarrow> string \<Rightarrow> 'a res" where
  "no_attr v a = raise AttributeError (quoted (type_name v) @ '' object has no attribute '' @ quoted a)"

definition py_get :: "pv \<Rightarrow> string \<Rightarrow> pv \<Rightarrow> pv res" where
  "py_get v k d = (case v of VDict m \<Rightarrow> Inr (dget_or m k d) | _ \<Rightarrow> no_attr v ''get'')"

definition bad_index :: "pv \<Rightarrow> string \<Rightarrow> 'a res" where
  "bad_index v otherwise = (case v of
     VList xs \<Rightarrow> raise TypeError ''list indices must be integers or slices, not str''
   | _ \<Rightarrow> raise TypeError (quoted (type_name v) @ '' object '' @ otherwise))"

definition py_getitem :: "pv \<Rightarrow> string \<Rightarrow> pv res" where
  "py_getitem v k = (case v of
     VDict m \<Rightarrow> (case dget m k of Some w \<Rightarrow> Inr w | None \<Rightarrow> raise KeyError (str_repr k))
   | VStr s \<Rightarrow> raise TypeError (''string indices must be integers, not '' @ quoted ''str'')
   | _ \<Rightarrow> bad_index v ''is not subscriptable'')"

definition py_setitem :: "pv \<Rightarrow> string \<Rightarrow> pv \<Rightarrow> pv res" where
  "py_setitem v k w = (case v of VDict m \<Rightarrow> Inr (VDict (dset k w m))
     | _ \<Rightarrow> bad_index v ''does not support item assignment'')"

text \<open>The value found or set, and the dictionary after the call.\<close>

definition py_setdefault :: "pv \<Rightarrow> string \<Rightarrow> pv \<Rightarrow> (pv \<times> pv) res" where
  "py_setdefault v k d = (case v of
     VDict m \<Rightarrow> (case dget m k of Some w \<Rightarrow> Inr (w, v) | None \<Rightarrow> Inr (d, VDict (dset k d m)))
   | _ \<Rightarrow> no_attr v ''setdefault'')"

fun has_substring :: "string \<Rightarrow> string \<Rightarrow> bool" where
  "has_substring s [] \<longleftrightarrow> s = []"
| "has_substring s (c # cs) \<longleftrightarrow> starts_with s (c # cs) \<or> has_substring s cs"

definition str_in :: "string \<Rightarrow> pv \<Rightarrow> bool res" where
  "str_in s v = (case v of
     VList xs \<Rightarrow> Inr (py_in (VStr s) xs)
   | VDict m \<Rightarrow> Inr (dhas m s)
   | VStr t \<Rightarrow> Inr (has_substring s t)
   | _ \<Rightarrow> raise TypeError (''argument of type '' @ quoted (type_name v) @ '' is not iterable''))"

definition py_iter :: "pv \<Rightarrow> pv list res" where
  "py_iter v = (case v of
     VList xs \<Rightarrow> Inr xs
   | VDict m \<Rightarrow> Inr (map VStr (dkeys m))
   | VStr s \<Rightarrow> Inr (map (\<lambda>c. VStr [c]) s)
   | _ \<Rightarrow> raise TypeError (quoted (type_name v) @ '' object is not iterable''))"

text \<open>
  The same calls with a key that is itself a value.  Keys of the model's dictionaries are texts,
  so a key of another kind is absent, and a list or a dictionary is no key at all.
\<close>

definition unhashable :: "pv \<Rightarrow> bool" where
  "unhashable v = (case v of VList xs \<Rightarrow> True | VDict d \<Rightarrow> True | _ \<Rightarrow> False)"

definition unhashable_error :: "pv \<Rightarrow> 'a res" where
  "unhashable_error v = raise TypeError (''unhashable type: '' @ quoted (type_name v))"

definition py_getv :: "pv \<Rightarrow> pv \<Rightarrow> pv \<Rightarrow> pv res" where
  "py_getv v k d = (case v of
     VDict m \<Rightarrow> (case k of VStr s \<Rightarrow> Inr (dget_or m s d) | _ \<Rightarrow> if unhashable k then unhashable_error k else Inr d)
   | _ \<Rightarrow> no_attr v ''get'')"

definition pv_in :: "pv \<Rightarrow> pv \<Rightarrow> bool res" where
  "pv_in x v = (case v of
     VList xs \<Rightarrow> Inr (py_in x xs)
   | VDict m \<Rightarrow> (case x of VStr s \<Rightarrow> Inr (dhas m s) | _ \<Rightarrow> if unhashable x then unhashable_error x else Inr False)
   | VStr t \<Rightarrow> (case x of VStr s \<Rightarrow> Inr (has_substring s t)
       | _ \<Rightarrow> raise TypeError (quoted ''in <string>'' @ '' requires string as left operand, not '' @ type_name x))
   | _ \<Rightarrow> raise TypeError (''argument of type '' @ quoted (type_name v) @ '' is not iterable''))"

definition py_items :: "pv \<Rightarrow> pv dict res" where
  "py_items v = (case v of VDict m \<Rightarrow> Inr m | _ \<Rightarrow> no_attr v ''items'')"

definition py_keys :: "pv \<Rightarrow> pv list res" where
  "py_keys v = (case v of VDict m \<Rightarrow> Inr (map VStr (dkeys m)) | _ \<Rightarrow> no_attr v ''keys'')"

text \<open>\<open>range(n)\<close>\<close>

definition py_range :: "pv \<Rightarrow> int list res" where
  "py_range v = (case v of
     VInt n \<Rightarrow> Inr (map int [0..<nat n])
   | VBool b \<Rightarrow> Inr (if b then [0] else [])
   | _ \<Rightarrow> raise TypeError (quoted (type_name v) @ '' object cannot be interpreted as an integer''))"

definition py_len :: "pv \<Rightarrow> int res" where
  "py_len v = (case v of VList xs \<Rightarrow> Inr (int (length xs)) | VDict d \<Rightarrow> Inr (int (length d)) | VStr s \<Rightarrow> Inr (int (length s))
     | _ \<Rightarrow> raise TypeError (''object of type '' @ quoted (type_name v) @ '' has no len()''))"

text \<open>
  The error a request or response model raises on a value of the wrong shape; its text is
  pydantic's, of which the name of the model is kept.
\<close>

definition validation_error :: "string \<Rightarrow> 'a res" where
  "validation_error model = raise ValueError (''validation error for '' @ model)"

lemma py_get_dict [simp]: "py_get (VDict m) k d = Inr (dget_or m k d)"
  by (simp add: py_get_def)

lemma py_setitem_dict [simp]: "py_setitem (VDict m) k w = Inr (VDict (dset k w m))"
  by (simp add: py_setitem_def)

lemma py_get_Inr: "py_get v k d = Inr w \<longleftrightarrow> (\<exists>m. v = VDict m \<and> w = dget_or m k d)"
  by (cases v) (auto simp: py_get_def no_attr_def)

lemma py_setitem_Inr: "py_setitem v k w = Inr u \<longleftrightarrow> (\<exists>m. v = VDict m \<and> u = VDict (dset k w m))"
  by (cases v) (auto simp: py_setitem_def bad_index_def)

lemma py_setdefault_Inr:
  "py_setdefault v k d = Inr (w, u) \<longleftrightarrow>
   (\<exists>m. v = VDict m \<and> (case dget m k of Some x \<Rightarrow> w = x \<and> u = v | None \<Rightarrow> w = d \<and> u = VDict (dset k d m)))"
  by (cases v) (auto simp: py_setdefault_def no_attr_def split: option.splits)

lemma py_iter_list [simp]: "py_iter (VList xs) = Inr xs"
  by (simp add: py_iter_def)

end
