(* ===== verification/PolicyStore.thy ===== *)
theory PolicyStore
  imports PyObj
begin

section \<open>Policies (apps/policy_store, apps/policy_admin)\<close>

text \<open>
  The table \<open>policies\<close> as the list of its rows in order of insertion; the version is the
  primary key.  A document is JSON; one that comes back as text goes through \<open>loads\<close>
  (\<open>json.loads\<close>).  What a session has not committed when the handler ends is rolled back, so a
  refused activation leaves the table as it was.  The clock and the random suffixes of derived
  versions are arguments.  The lemmas: stored versions never change, at most one is active, and
  what a derived version holds.
\<close>

record policy_row =
  po_version :: string
  po_issued_at_ms :: int
  po_document :: pv
  po_is_active :: bool
  po_created_by :: "string option"

type_synonym policy_table = "policy_row list"

definition get_document :: "(string \<Rightarrow> pv res) \<Rightarrow> policy_row \<Rightarrow> pv res" where
  "get_document loads r = (case po_document r of VStr s \<Rightarrow> loads s | d \<Rightarrow> Inr d)"

definition get_assets :: "(string \<Rightarrow> pv res) \<Rightarrow> policy_row \<Rightarrow> pv res" where
  "get_assets loads r = bindR (get_document loads r) (\<lambda>doc. py_get doc ''assets'' (VDict []))"

definition get_asset_profile :: "(string \<Rightarrow> pv res) \<Rightarrow> string \<Rightarrow> policy_row \<Rightarrow> pv res" where
  "get_asset_profile loads asset_id r = bindR (get_assets loads r) (\<lambda>assets. py_get assets asset_id VNone)"

subsection \<open>The repository\<close>

definition get_active_version :: "policy_table \<Rightarrow> string option" where
  "get_active_version table = map_option po_version (List.find po_is_active table)"

definition get_policy :: "string \<Rightarrow> policy_table \<Rightarrow> policy_row option" where
  "get_policy version table = List.find (\<lambda>r. po_version r = version) table"

definition create_policy ::
  "string \<Rightarrow> string \<Rightarrow> int \<Rightarrow> pv \<Rightarrow> string option \<Rightarrow> policy_table \<Rightarrow> policy_row res \<times> policy_table" where
  "create_policy dup version issued_at_ms document created_by table =
     (let record = \<lparr> po_version = version, po_issued_at_ms = issued_at_ms, po_document = document,
                     po_is_active = False, po_created_by = created_by \<rparr> in
      if get_policy version table \<noteq> None then (raise RuntimeError dup, table)
      else (Inr record, table @ [record]))"

definition activate_policy :: "string \<Rightarrow> policy_table \<Rightarrow> policy_row option \<times> policy_table" where
  "activate_policy version table =
     (let lowered = map (\<lambda>r. if po_is_active r then r\<lparr> po_is_active := False \<rparr> else r) table in
      case get_policy version lowered of
        None \<Rightarrow> (None, table)
      | Some record \<Rightarrow>
          (Some (record\<lparr> po_is_active := True \<rparr>),
           map (\<lambda>r. if po_version r = version then r\<lparr> po_is_active := True \<rparr> else r) lowered))"

text \<open>The clone of a document with one profile replaced and the derivation recorded.\<close>

definition derive_document ::
  "(string \<Rightarrow> pv res) \<Rightarrow> string \<Rightarrow> string \<Rightarrow> pv \<Rightarrow> string option \<Rightarrow> policy_row \<Rightarrow> pv res" where
  "derive_document loads version asset_id profile change_reason record =
     bindR (get_document loads record) (\<lambda>doc0.
     bindR (py_setdefault doc0 ''assets'' (VDict [])) (\<lambda>(assets, doc1).
     bindR (py_setitem assets asset_id profile) (\<lambda>assets1.
     bindR (py_setitem doc1 ''assets'' assets1) (\<lambda>doc2.
     bindR (py_setdefault doc2 ''metadata'' (VDict [])) (\<lambda>(metadata, doc3).
     bindR (py_setitem metadata ''derived_from_version'' (VStr version)) (\<lambda>metadata1.
     bindR (py_setitem metadata1 ''updated_asset_id'' (VStr asset_id)) (\<lambda>metadata2.
     bindR (case change_reason of
              Some (c # cs) \<Rightarrow> py_setitem metadata2 ''change_reason'' (VStr (c # cs))
            | _ \<Rightarrow> Inr metadata2) (\<lambda>metadata3.
     py_setitem doc3 ''metadata'' metadata3))))))))"

definition rev_name :: "string \<Rightarrow> int \<Rightarrow> string \<Rightarrow> string" where
  "rev_name version issued_at_ms uuid_hex =
     version @ ''-rev-'' @ str_int issued_at_ms @ ''-'' @ take 8 uuid_hex"

text \<open>The \<open>while\<close> over candidate names; \<open>None\<close> when the given draws are used up.\<close>

fun fresh_version :: "(string \<Rightarrow> string) \<Rightarrow> policy_table \<Rightarrow> string list \<Rightarrow> string \<Rightarrow> string option" where
  "fresh_version name table draws candidate =
     (if get_policy candidate table = None then Some candidate
      else (case draws of [] \<Rightarrow> None | u # us \<Rightarrow> fresh_version name table us (name u)))"

declare fresh_version.simps [simp del]

definition first_candidate :: "(string \<Rightarrow> string) \<Rightarrow> string option \<Rightarrow> string list \<Rightarrow> (string \<times> string list) option" where
  "first_candidate name given draws = (case given of
     Some (c # cs) \<Rightarrow> Some (c # cs, draws)
   | _ \<Rightarrow> (case draws of [] \<Rightarrow> None | u # us \<Rightarrow> Some (name u, us)))"

text \<open>The outer \<open>None\<close>: not finished within the draws.\<close>

definition update_asset_profile ::
  "(string \<Rightarrow> pv res) \<Rightarrow> string \<Rightarrow> int \<Rightarrow> string list \<Rightarrow> string \<Rightarrow> string \<Rightarrow> pv \<Rightarrow> string option \<Rightarrow> string option
   \<Rightarrow> string option \<Rightarrow> policy_table \<Rightarrow> (policy_row option res \<times> policy_table) option" where
  "update_asset_profile loads dup now draws version asset_id profile given created_by change_reason table =
     (case get_policy version table of
        None \<Rightarrow> Some (Inr None, table)
      | Some record \<Rightarrow>
          (case derive_document loads version asset_id profile change_reason record of
             Inl e \<Rightarrow> Some (Inl e, table)
           | Inr doc \<Rightarrow>
               (case first_candidate (rev_name version now) given draws of
                  None \<Rightarrow> None
                | Some (candidate, rest) \<Rightarrow>
                    (case fresh_version (rev_name version now) table rest candidate of
                       None \<Rightarrow> None
                     | Some candidate_version \<Rightarrow>
                         (case py_setitem doc ''policy_version_id'' (VStr candidate_version) of
                            Inl e \<Rightarrow> Some (Inl e, table)
                          | Inr doc1 \<Rightarrow>
                              (case create_policy dup candidate_version now doc1 created_by table of
                                 (Inl e, t) \<Rightarrow> Some (Inl e, t)
                               | (Inr r, t) \<Rightarrow> Some (Inr (Some r), t)))))))"

subsection \<open>The store's handlers\<close>

definition get_active_policy_route :: "policy_table \<Rightarrow> string res" where
  "get_active_policy_route table = (case get_active_version table of
     Some (c # cs) \<Rightarrow> Inr (c # cs)
   | _ \<Rightarrow> http_error 404 ''No active policy found'')"

definition version_not_found :: "string \<Rightarrow> 'a res" where
  "version_not_found version = http_error 404 (''Policy version '' @ quoted version @ '' not found'')"

record policy_document_response =
  pd_version :: string
  pd_issued_at_ms :: int
  pd_global_policy :: pv
  pd_assets :: pv

definition get_policy_route :: "(string \<Rightarrow> pv res) \<Rightarrow> string \<Rightarrow> policy_table \<Rightarrow> policy_document_response res" where
  "get_policy_route loads version table = (case get_policy version table of
     None \<Rightarrow> version_not_found version
   | Some record \<Rightarrow>
       bindR (get_document loads record) (\<lambda>doc.
       bindR (py_get doc ''global_policy'' (VDict [])) (\<lambda>global_policy.
       bindR (py_get doc ''assets'' (VDict [])) (\<lambda>assets.
         if is_dict global_policy \<and> is_dict assets \<and> list_all is_dict (dvals (as_dict assets))
         then Inr \<lparr> pd_version = po_version record, pd_issued_at_ms = po_issued_at_ms record,
                    pd_global_policy = global_policy, pd_assets = assets \<rparr>
         else validation_error ''PolicyDocumentResponse''))))"

record asset_policy_response =
  ap_version :: string
  ap_asset_id :: string
  ap_profile :: pv

definition get_asset_policy_route :: "(string \<Rightarrow> pv res) \<Rightarrow> string \<Rightarrow> string \<Rightarrow> policy_table \<Rightarrow> asset_policy_response res" where
  "get_asset_policy_route loads version asset_id table = (case get_policy version table of
     None \<Rightarrow> version_not_found version
   | Some record \<Rightarrow>
       bindR (get_asset_profile loads asset_id record) (\<lambda>profile.
         if \<not> truthy profile
         then http_error 404 (''Asset '' @ quoted asset_id @ '' not found in policy '' @ quoted version)
         else if is_dict profile
         then Inr \<lparr> ap_version = version, ap_asset_id = asset_id, ap_profile = profile \<rparr>
         else validation_error ''AssetPolicyProfileResponse''))"

subsection \<open>The admin handlers (after the key check)\<close>

record create_policy_request =
  cp_policy_version_id :: string
  cp_global_policy :: "pv dict"
  cp_assets :: "pv dict"

definition create_policy_route ::
  "string \<Rightarrow> int \<Rightarrow> create_policy_request \<Rightarrow> policy_table \<Rightarrow> (string \<times> int) res \<times> policy_table" where
  "create_policy_route dup now request table =
     (if get_policy (cp_policy_version_id request) table \<noteq> None
      then (http_error 409 (''Policy version '' @ quoted (cp_policy_version_id request) @ '' already exists''), table)
      else (let document = VDict [(''policy_version_id'', VStr (cp_policy_version_id request)),
                  (''global_policy'', VDict (cp_global_policy request)), (''assets'', VDict (cp_assets request))];
                (record, t) = create_policy dup (cp_policy_version_id request) now document None table
            in (bindR record (\<lambda>r. Inr (po_version r, po_issued_at_ms r)), t)))"

record activate_policy_response =
  ac_policy_version_id :: string
  ac_activated_at_ms :: int
  ac_previous_active_version :: "string option"

definition activate_policy_route ::
  "int \<Rightarrow> string \<Rightarrow> policy_table \<Rightarrow> activate_policy_response res \<times> policy_table" where
  "activate_policy_route now version table =
     (let previous = get_active_version table in
      case activate_policy version table of
        (None, t) \<Rightarrow> (version_not_found version, t)
      | (Some r, t) \<Rightarrow> (Inr \<lparr> ac_policy_version_id = version, ac_activated_at_ms = now,
                              ac_previous_active_version = previous \<rparr>, t))"

record update_asset_policy_request =
  ua_profile :: "pv dict"
  ua_new_policy_version_id :: "string option"
  ua_change_reason :: "string option"

record update_asset_policy_response =
  uq_policy_version_id :: string
  uq_asset_id :: string
  uq_updated_at_ms :: int
  uq_previous_policy_version_id :: string

definition update_asset_policy_route ::
  "(string \<Rightarrow> pv res) \<Rightarrow> string \<Rightarrow> int \<Rightarrow> string list \<Rightarrow> string \<Rightarrow> string \<Rightarrow> update_asset_policy_request \<Rightarrow> policy_table
   \<Rightarrow> (update_asset_policy_response res \<times> policy_table) option" where
  "update_asset_policy_route loads dup now draws version asset_id request table =
     map_option (\<lambda>(new_record, t).
        (bindR new_record (\<lambda>r. case r of
           None \<Rightarrow> version_not_found version
         | Some rec \<Rightarrow> Inr \<lparr> uq_policy_version_id = po_version rec, uq_asset_id = asset_id,
             uq_updated_at_ms = po_issued_at_ms rec, uq_previous_policy_version_id = version \<rparr>), t))
       (update_asset_profile loads dup now draws version asset_id (VDict (ua_profile request))
          (ua_new_policy_version_id request) (Some ''admin'') (ua_change_reason request) table)"

definition generate_from_aas_route :: "'a res" where
  "generate_from_aas_route = http_error 501 ''AAS integration not yet implemented (Phase 2)''"

subsection \<open>Stored versions do not change\<close>

inductive policy_step :: "policy_table \<Rightarrow> policy_table \<Rightarrow> bool" where
  step_create: "policy_step t (snd (create_policy_route dup now request t))"
| step_activate: "policy_step t (snd (activate_policy_route now version t))"
| step_update: "update_asset_policy_route loads dup now draws version asset_id request t = Some (r, t') \<Longrightarrow> policy_step t t'"

definition policy_history :: "policy_table \<Rightarrow> policy_table \<Rightarrow> bool" where
  "policy_history = policy_step\<^sup>*\<^sup>*"

definition policy_inv :: "policy_table \<Rightarrow> bool" where
  "policy_inv t \<longleftrightarrow> distinct (map po_version t) \<and> length (filter po_is_active t) \<le> 1"

text \<open>The abstract store: what is recorded under a version.\<close>

definition archive_of :: "policy_table \<Rightarrow> string \<Rightarrow> (int \<times> pv \<times> string option) option" where
  "archive_of t v = map_option (\<lambda>r. (po_issued_at_ms r, po_document r, po_created_by r)) (get_policy v t)"

lemma get_policy_None: "get_policy v t = None \<longleftrightarrow> v \<notin> po_version ` set t"
  by (auto simp: get_policy_def find_None_iff)

lemma get_policy_Some: "get_policy v t = Some r \<Longrightarrow> r \<in> set t \<and> po_version r = v"
  by (auto simp: get_policy_def find_Some_iff)

lemma get_policy_append:
  "get_policy v (t @ [r]) = (case get_policy v t of Some q \<Rightarrow> Some q | None \<Rightarrow> if po_version r = v then Some r else None)"
  by (induction t) (auto simp: get_policy_def)

lemma get_policy_map:
  "(\<And>r. po_version (f r) = po_version r) \<Longrightarrow> get_policy v (map f t) = map_option f (get_policy v t)"
  by (induction t) (auto simp: get_policy_def)

lemma archive_map:
  assumes "\<And>r. po_version (f r) = po_version r" "\<And>r. po_issued_at_ms (f r) = po_issued_at_ms r"
    "\<And>r. po_document (f r) = po_document r" "\<And>r. po_created_by (f r) = po_created_by r"
  shows "archive_of (map f t) = archive_of t"
  using assms by (auto simp: archive_of_def get_policy_map fun_eq_iff option.map_comp comp_def)

text \<open>An operation either leaves the table, adds an inactive row of a new version, or moves the flag.\<close>

definition lower :: "policy_row \<Rightarrow> policy_row" where
  "lower r = (if po_is_active r then r\<lparr> po_is_active := False \<rparr> else r)"

definition mark :: "string \<Rightarrow> policy_row \<Rightarrow> policy_row" where
  "mark v r = (if po_version r = v then r\<lparr> po_is_active := True \<rparr> else r)"

lemma lower_fields [simp]: "po_version (lower r) = po_version r" "po_issued_at_ms (lower r) = po_issued_at_ms r"
    "po_document (lower r) = po_document r" "po_created_by (lower r) = po_created_by r" "\<not> po_is_active (lower r)"
  by (simp_all add: lower_def)

lemma mark_fields [simp]: "po_version (mark v r) = po_version r" "po_issued_at_ms (mark v r) = po_issued_at_ms r"
    "po_document (mark v r) = po_document r" "po_created_by (mark v r) = po_created_by r"
  by (simp_all add: mark_def)

lemma activate_policy_eq:
  "activate_policy v t = (case get_policy v t of None \<Rightarrow> (None, t)
     | Some r \<Rightarrow> (Some (mark v (lower r)), map (mark v) (map lower t)))"
proof -
  have l: "(\<lambda>r. if po_is_active r then r\<lparr> po_is_active := False \<rparr> else r) = lower"
    and m: "(\<lambda>r. if po_version r = v then r\<lparr> po_is_active := True \<rparr> else r) = mark v"
    by (simp_all add: lower_def mark_def fun_eq_iff)
  have "(lower r)\<lparr> po_is_active := True \<rparr> = mark v (lower r)" if "get_policy v t = Some r" for r
    using get_policy_Some [OF that] by (simp add: mark_def)
  then show ?thesis unfolding activate_policy_def Let_def l m by (cases "get_policy v t") (simp_all add: get_policy_map)
qed

lemma create_policy_cases:
  "snd (create_policy dup v n d c t) = t \<or>
   (get_policy v t = None \<and> snd (create_policy dup v n d c t) =
      t @ [\<lparr> po_version = v, po_issued_at_ms = n, po_document = d, po_is_active = False, po_created_by = c \<rparr>])"
  by (simp add: create_policy_def Let_def)

lemma update_cases:
  assumes "update_asset_profile loads dup now draws v a p g c w t = Some (r, t')"
  shows "t' = t \<or> (\<exists>q. t' = t @ [q] \<and> get_policy (po_version q) t = None \<and> \<not> po_is_active q)"
proof -
  have "t' = t \<or> (\<exists>v n d c. t' = snd (create_policy dup v n d c t))"
    using assms by (auto simp: update_asset_profile_def split: option.splits sum.splits prod.splits) (metis snd_conv)+
  then show ?thesis using create_policy_cases by fastforce
qed

lemma policy_step_cases:
  assumes "policy_step t t'"
  obtains "t' = t"
    | q where "t' = t @ [q]" "get_policy (po_version q) t = None" "\<not> po_is_active q"
    | v where "t' = map (mark v) (map lower t)"
  using assms
proof (cases rule: policy_step.cases)
  case (step_create dup now request)
  then show ?thesis
    using that(1,2) create_policy_cases [of dup "cp_policy_version_id request"]
    by (auto simp: create_policy_route_def Let_def split: if_splits prod.splits) (metis policy_row.select_convs(1,4) snd_conv)+
next
  case (step_activate now v)
  then show ?thesis using that(1,3)
    by (auto simp: activate_policy_route_def activate_policy_eq split: option.splits)
next
  case (step_update loads dup now draws v a request r)
  then show ?thesis using that(1,2) by (auto simp: update_asset_policy_route_def dest!: update_cases)
qed

lemma active_after_mark:
  "distinct (map po_version t) \<Longrightarrow> length (filter po_is_active (map (mark v) (map lower t))) \<le> 1"
proof (induction t)
  case (Cons r t)
  have none: "filter po_is_active (map (mark v) (map lower t)) = []" if "po_version r = v"
    using that Cons.prems by (auto simp: filter_empty_conv mark_def image_iff)
  show ?case
  proof (cases "po_version r = v")
    case True
    with none show ?thesis by simp
  next
    case False
    then have "\<not> po_is_active (mark v (lower r))" by (simp add: mark_def)
    with Cons show ?thesis by simp
  qed
qed simp

lemma policy_step_inv:
  assumes "policy_step t t'" "policy_inv t"
  shows "policy_inv t'" "archive_of t \<subseteq>\<^sub>m archive_of t'"
proof -
  from assms(1) have "policy_inv t' \<and> archive_of t \<subseteq>\<^sub>m archive_of t'"
  proof (cases rule: policy_step_cases)
    case 1
    with assms(2) show ?thesis by simp
  next
    case (2 q)
    then have "archive_of t \<subseteq>\<^sub>m archive_of t'"
      by (auto simp: archive_of_def map_le_def get_policy_append)
    moreover have "policy_inv t'" using assms(2) 2 by (auto simp: policy_inv_def get_policy_None)
    ultimately show ?thesis by simp
  next
    case (3 v)
    have "archive_of t' = archive_of t" unfolding 3 by (simp only: archive_map mark_fields lower_fields)
    moreover have "map po_version t' = map po_version t" by (simp add: 3)
    moreover have "length (filter po_is_active t') \<le> 1"
      using assms(2) active_after_mark [of t v] unfolding 3 policy_inv_def by blast
    ultimately show ?thesis using assms(2) by (simp add: policy_inv_def)
  qed
  then show "policy_inv t'" "archive_of t \<subseteq>\<^sub>m archive_of t'" by auto
qed

lemma policy_history_inv:
  "policy_history t t' \<Longrightarrow> policy_inv t \<Longrightarrow> policy_inv t' \<and> archive_of t \<subseteq>\<^sub>m archive_of t'"
  unfolding policy_history_def
  by (induction rule: rtranclp_induct) (auto intro: policy_step_inv map_le_trans)

subsection \<open>The derived version\<close>

lemma map_of_setdefault:
  assumes "py_setdefault (VDict m) k d = Inr (w, u)"
  shows "\<exists>m'. u = VDict m' \<and> (\<forall>x. dget_or m' x VNone = (if x = k then w else dget_or m x VNone))
     \<and> w = dget_or m k d"
  using assms by (auto simp: py_setdefault_Inr dget_or_def split: option.splits)

lemma dget_or_dset: "dget_or (dset k v m) x d = (if x = k then v else dget_or m x d)"
  by (simp add: dget_or_def)

lemma derive_document_assets:
  assumes "derive_document loads v a p w q = Inr doc"
  shows "\<exists>m assets. doc = VDict m \<and> get_assets loads q = Inr (VDict assets) \<and> dget m ''assets'' = Some (VDict (dset a p assets))"
proof -
  obtain doc0 assets doc1 assets1 doc2 md doc3 md1 md2 md3 where
    d: "get_document loads q = Inr doc0" "py_setdefault doc0 ''assets'' (VDict []) = Inr (assets, doc1)"
      "py_setitem assets a p = Inr assets1" "py_setitem doc1 ''assets'' assets1 = Inr doc2"
      "py_setdefault doc2 ''metadata'' (VDict []) = Inr (md, doc3)"
      "py_setitem doc3 ''metadata'' md3 = Inr doc"
    using assms by (auto simp: derive_document_def split: prod.splits)
  obtain m0 where m0: "doc0 = VDict m0" "assets = dget_or m0 ''assets'' (VDict [])"
    using d(2) by (auto simp: py_setdefault_Inr dget_or_def split: option.splits)
  obtain as where as: "assets = VDict as" "assets1 = VDict (dset a p as)" using d(3) by (auto simp: py_setitem_Inr)
  obtain m1 where m1: "doc1 = VDict m1" "doc2 = VDict (dset ''assets'' assets1 m1)" using d(4) by (auto simp: py_setitem_Inr)
  obtain m3 where m3: "doc3 = VDict m3" "dget m3 ''assets'' = Some assets1"
    using d(5) m1(2) by (auto simp: py_setdefault_Inr split: option.splits)
  have "doc = VDict (dset ''metadata'' md3 m3)" using d(6) m3(1) by (auto simp: py_setitem_Inr)
  moreover have "get_assets loads q = Inr (VDict as)" using d(1) m0 as(1) by (auto simp: get_assets_def)
  ultimately show ?thesis using m3(2) as(2) by auto
qed

lemma fresh_version_new: "fresh_version name t us c = Some v \<Longrightarrow> get_policy v t = None"
proof (induction us arbitrary: c)
  case Nil
  then show ?case by (simp add: fresh_version.simps [of _ _ _ c] split: if_splits)
next
  case (Cons u us)
  then show ?case by (simp add: fresh_version.simps [of _ _ _ c] split: if_splits)
qed

lemma fresh_version_None:
  "fresh_version name t us c = None \<Longrightarrow> set (c # map name us) \<subseteq> po_version ` set t"
proof (induction us arbitrary: c)
  case Nil
  then show ?case by (simp add: fresh_version.simps [of _ _ _ c] get_policy_None split: if_splits)
next
  case (Cons u us)
  have c: "get_policy c t \<noteq> None" and n: "fresh_version name t us (name u) = None"
    using Cons.prems fresh_version.simps [of name t "u # us" c] by (simp_all split: if_splits)
  from c have "c \<in> po_version ` set t" unfolding get_policy_None by simp
  with Cons.IH [OF n] show ?case by simp
qed

lemma fresh_version_returns:
  assumes "distinct (map name draws)" "length t < length draws" "first_candidate name g draws = Some (c, rest)"
  shows "fresh_version name t rest c \<noteq> None"
proof
  assume "fresh_version name t rest c = None"
  then have "set (c # map name rest) \<subseteq> po_version ` set t" by (rule fresh_version_None)
  moreover have "set (map name draws) \<subseteq> set (c # map name rest)"
    using assms(3) by (auto simp: first_candidate_def split: option.splits list.splits)
  ultimately have "card (set (map name draws)) \<le> card (po_version ` set t)" by (intro card_mono) auto
  also have "\<dots> \<le> card (set t)" by (intro card_image_le) simp
  also have "\<dots> \<le> length t" by (rule card_length)
  finally show False using assms(1,2) distinct_card [OF assms(1)] by simp
qed

lemma rev_name_distinct: "distinct (map (rev_name v n) draws) \<longleftrightarrow> distinct (map (take 8) draws)"
  by (simp add: distinct_map inj_on_def rev_name_def)

lemma update_asset_profile_returns:
  assumes "distinct (map (take 8) draws)" and "length t < length draws"
  shows "update_asset_profile loads dup now draws v a p g c w t \<noteq> None"
proof -
  have "first_candidate (rev_name v now) g draws \<noteq> None"
    using assms(2) by (auto simp: first_candidate_def split: option.splits list.splits)
  then show ?thesis
    using fresh_version_returns [of "rev_name v now" draws t g] assms rev_name_distinct [of v now draws]
    by (fastforce simp: update_asset_profile_def split: option.splits sum.splits prod.splits)
qed

lemma update_asset_profile_Some:
  assumes "update_asset_profile loads dup now draws v a p g c w t = Some (Inr (Some q), t')"
  obtains old doc m where "get_policy v t = Some old" "derive_document loads v a p w old = Inr (VDict m)"
    "get_policy (po_version q) t = None" "t' = t @ [q]" "po_issued_at_ms q = now" "\<not> po_is_active q"
    "po_document q = VDict (dset ''policy_version_id'' (VStr (po_version q)) m)"
  using assms
  by (auto simp: update_asset_profile_def create_policy_def Let_def py_setitem_Inr
      split: option.splits sum.splits prod.splits if_splits dest!: fresh_version_new)

lemma find_append: "List.find P (xs @ ys) = (case List.find P xs of None \<Rightarrow> List.find P ys | Some x \<Rightarrow> Some x)"
  by (induction xs) auto

text \<open>C28: Updating one asset's profile derives a new version and touches nothing else: the table gains exactly one row under an unused version, which the store then serves with the new profile for that asset and the old version's profile for every other; the old rows and the active version stay.\<close>

theorem policy_update_derives:
  assumes "update_asset_policy_route loads dup now draws version asset_id request t = Some (Inr resp, t')"
  shows "get_policy (uq_policy_version_id resp) t = None \<and> get_active_version t' = get_active_version t \<and>
    (\<exists>old new. get_policy version t = Some old \<and> t' = t @ [new] \<and> po_version new = uq_policy_version_id resp \<and>
       get_policy (uq_policy_version_id resp) t' = Some new \<and>
       get_asset_profile loads asset_id new = Inr (VDict (ua_profile request)) \<and>
       (\<forall>other. other \<noteq> asset_id \<longrightarrow> get_asset_profile loads other new = get_asset_profile loads other old))"
proof -
  obtain q where q: "update_asset_profile loads dup now draws version asset_id (VDict (ua_profile request))
      (ua_new_policy_version_id request) (Some ''admin'') (ua_change_reason request) t = Some (Inr (Some q), t')"
    and r: "uq_policy_version_id resp = po_version q"
    using assms by (auto simp: update_asset_policy_route_def version_not_found_def http_error_def split: option.splits)
  obtain old m where u: "get_policy version t = Some old"
      "derive_document loads version asset_id (VDict (ua_profile request)) (ua_change_reason request) old = Inr (VDict m)"
      "get_policy (po_version q) t = None" "t' = t @ [q]" "\<not> po_is_active q"
      "po_document q = VDict (dset ''policy_version_id'' (VStr (po_version q)) m)"
    using update_asset_profile_Some [OF q] by metis
  obtain assets where a: "get_assets loads old = Inr (VDict assets)"
      "dget m ''assets'' = Some (VDict (dset asset_id (VDict (ua_profile request)) assets))"
    using derive_document_assets [OF u(2)] by auto
  have "get_assets loads q = Inr (VDict (dset asset_id (VDict (ua_profile request)) assets))"
    using a(2) by (simp add: get_assets_def get_document_def u(6) dget_or_def)
  then show ?thesis using u a(1) r
    by (auto simp: get_asset_profile_def dget_or_dset get_policy_append get_active_version_def find_append split: option.splits)
qed

definition small_table :: policy_table where
  "small_table = [\<lparr> po_version = ''v1'', po_issued_at_ms = 0, po_document = VDict [(''assets'', VDict [])],
     po_is_active = True, po_created_by = None \<rparr>]"

definition small_update :: update_asset_policy_request where
  "small_update = \<lparr> ua_profile = [(''sil_level'', VInt 2)], ua_new_policy_version_id = Some ''v2'', ua_change_reason = None \<rparr>"

theorem policy_update_derives_witness:
  "get_active_version (snd (the (update_asset_policy_route (\<lambda>s. Inr VNone) ''dup'' 7 [] ''v1'' ''a'' small_update small_table))) = Some ''v1''"
proof -
  let ?u = "update_asset_policy_route (\<lambda>s. Inr VNone) ''dup'' 7 [] ''v1'' ''a'' small_update small_table"
  have "case ?u of Some (Inr r, t') \<Rightarrow> True | _ \<Rightarrow> False" by code_simp
  then obtain r t' where u: "?u = Some (Inr r, t')" by (auto split: option.splits sum.splits)
  have "get_active_version t' = get_active_version small_table" using policy_update_derives [OF u] by blast
  moreover have "get_active_version small_table = Some ''v1''" by code_simp
  ultimately show ?thesis by (simp add: u)
qed

text \<open>C27: Policies are immutable: however the admin operations follow each other, every version keeps its issue time, its document and its author, versions stay unique and at most one is active.\<close>

theorem policy_versions_immutable:
  assumes "policy_history t t'" and "policy_inv t"
  shows "policy_inv t' \<and> archive_of t \<subseteq>\<^sub>m archive_of t'"
  by (rule policy_history_inv [OF assms])

theorem policy_versions_immutable_witness:
  "archive_of small_table \<subseteq>\<^sub>m archive_of (snd (activate_policy_route 5 ''v1'' small_table))"
proof -
  have "policy_history small_table (snd (activate_policy_route 5 ''v1'' small_table))"
    unfolding policy_history_def by (rule r_into_rtranclp, rule step_activate)
  moreover have "policy_inv small_table" by (simp add: policy_inv_def small_table_def)
  ultimately show ?thesis using policy_versions_immutable by blast
qed

text \<open>The search for an unused name ends: when the draws start differently and are more than the stored versions, an update returns.\<close>

theorem policy_update_returns:
  assumes "distinct (map (take 8) draws)" and "length t < length draws"
  shows "update_asset_policy_route loads dup now draws version asset_id request t \<noteq> None"
  using update_asset_profile_returns [OF assms] by (simp add: update_asset_policy_route_def)

theorem policy_update_returns_witness:
  "update_asset_policy_route (\<lambda>s. Inr VNone) ''dup'' 7 [''00000001ab'', ''00000002ab''] ''v1'' ''a'' small_update small_table \<noteq> None"
  by (rule policy_update_returns) (simp_all add: small_table_def)

end
