(* ===== verification/Auth.thy ===== *)
theory Auth
  imports PyObj
begin

section \<open>API keys (core/middleware/auth.py)\<close>

text \<open>
  The two dependencies that guard the gateway and the admin service.  The loaded
  \<open>services.yaml\<close> (or the error of loading it) is an argument; an absent header is
  \<open>None\<close>.  Both refuse with 401.
\<close>

definition get_auth_config :: "pv res \<Rightarrow> pv res" where
  "get_auth_config config = bindR config (\<lambda>c. py_get c ''auth'' (VDict []))"

definition is_auth_enabled :: "pv res \<Rightarrow> bool res" where
  "is_auth_enabled config = bindR (get_auth_config config) (\<lambda>a.
     bindR (py_get a ''enabled'' (VBool True)) (\<lambda>v. Inr (truthy v)))"

definition verify_api_key :: "pv res \<Rightarrow> string option \<Rightarrow> string res" where
  "verify_api_key config api_key = bindR (is_auth_enabled config) (\<lambda>enabled.
     if \<not> enabled then Inr ''auth-disabled''
     else if api_key = None \<or> api_key = Some [] then http_error 401 ''API Key required. Set X-API-Key header.''
     else bindR (get_auth_config config) (\<lambda>a. bindR (py_get a ''api_keys'' (VList [])) (\<lambda>valid_keys.
       bindR (str_in (the api_key) valid_keys) (\<lambda>known.
         if \<not> known then http_error 401 ''Invalid API Key'' else Inr (the api_key)))))"

definition verify_admin_key :: "pv res \<Rightarrow> string option \<Rightarrow> string res" where
  "verify_admin_key config admin_key = bindR (is_auth_enabled config) (\<lambda>enabled.
     if \<not> enabled then Inr ''auth-disabled''
     else if admin_key = None \<or> admin_key = Some [] then http_error 401 ''Admin Key required. Set X-Admin-Key header.''
     else bindR (get_auth_config config) (\<lambda>a. bindR (py_get a ''admin_keys'' (VList [])) (\<lambda>valid_keys.
       bindR (str_in (the admin_key) valid_keys) (\<lambda>known.
         if \<not> known then http_error 401 ''Invalid Admin Key'' else Inr (the admin_key)))))"

lemma verify_api_key_ok:
  "verify_api_key config k = Inr r \<Longrightarrow> is_auth_enabled config = Inr False \<or>
     (\<exists>s a ks. k = Some s \<and> s \<noteq> [] \<and> get_auth_config config = Inr a \<and>
        py_get a ''api_keys'' (VList []) = Inr ks \<and> str_in s ks = Inr True)"
  by (cases k) (auto simp: verify_api_key_def http_error_def split: if_splits)

lemma verify_admin_key_ok:
  "verify_admin_key config k = Inr r \<Longrightarrow> is_auth_enabled config = Inr False \<or>
     (\<exists>s a ks. k = Some s \<and> s \<noteq> [] \<and> get_auth_config config = Inr a \<and>
        py_get a ''admin_keys'' (VList []) = Inr ks \<and> str_in s ks = Inr True)"
  by (cases k) (auto simp: verify_admin_key_def http_error_def split: if_splits)

end
