(* ===== verification/Effects.thy ===== *)
theory Effects
  imports PyObj
begin

section \<open>Effects: state passing with exceptions\<close>

text \<open>
  Handlers that change state and may raise: a function from the state to the result and the
  state after it; an exception keeps the changes made before it.  \<open>wp\<close> is the weakest
  precondition with one postcondition for a result and one for an exception; \<open>wp_simps\<close> runs a
  handler through it.
\<close>

type_synonym ('s, 'a) eff = "'s \<Rightarrow> 'a res \<times> 's"

definition retE :: "'a \<Rightarrow> ('s, 'a) eff" where
  "retE x s = (Inr x, s)"

definition throwE :: "exc_kind \<Rightarrow> string \<Rightarrow> ('s, 'a) eff" where
  "throwE k m s = (raise k m, s)"

definition rethrowE :: "exc \<Rightarrow> ('s, 'a) eff" where
  "rethrowE e s = (Inl e, s)"

definition bindE :: "('s, 'a) eff \<Rightarrow> ('a \<Rightarrow> ('s, 'b) eff) \<Rightarrow> ('s, 'b) eff" where
  "bindE m f s = (case m s of (Inl e, t) \<Rightarrow> (Inl e, t) | (Inr x, t) \<Rightarrow> f x t)"

text \<open>\<open>try: m except Exception as e: h(e)\<close>\<close>

definition tryE :: "('s, 'a) eff \<Rightarrow> (exc \<Rightarrow> ('s, 'a) eff) \<Rightarrow> ('s, 'a) eff" where
  "tryE m h s = (case m s of (Inl e, t) \<Rightarrow> h e t | (Inr x, t) \<Rightarrow> (Inr x, t))"

text \<open>The outcome of a computation, its exception included, as a value.\<close>

definition caught :: "('s, 'a) eff \<Rightarrow> ('s, 'a res) eff" where
  "caught m = tryE (bindE m (\<lambda>x. retE (Inr x))) (\<lambda>e. retE (Inl e))"

definition liftE :: "'a res \<Rightarrow> ('s, 'a) eff" where
  "liftE r s = (r, s)"

definition getE :: "('s \<Rightarrow> 'a) \<Rightarrow> ('s, 'a) eff" where
  "getE f s = (Inr (f s), s)"

definition modE :: "('s \<Rightarrow> 's) \<Rightarrow> ('s, unit) eff" where
  "modE f s = (Inr (), f s)"

fun eachE :: "('a \<Rightarrow> ('s, unit) eff) \<Rightarrow> 'a list \<Rightarrow> ('s, unit) eff" where
  "eachE f [] = retE ()"
| "eachE f (x # xs) = bindE (f x) (\<lambda>_. eachE f xs)"

fun foldE :: "('a \<Rightarrow> 'b \<Rightarrow> ('s, 'b) eff) \<Rightarrow> 'a list \<Rightarrow> 'b \<Rightarrow> ('s, 'b) eff" where
  "foldE f [] b = retE b"
| "foldE f (x # xs) b = bindE (f x b) (foldE f xs)"

definition wp :: "('s, 'a) eff \<Rightarrow> ('a \<Rightarrow> 's \<Rightarrow> bool) \<Rightarrow> (exc \<Rightarrow> 's \<Rightarrow> bool) \<Rightarrow> 's \<Rightarrow> bool" where
  "wp m Q E s = (case m s of (Inl e, t) \<Rightarrow> E e t | (Inr x, t) \<Rightarrow> Q x t)"

lemma wp_retE [wp_simps]: "wp (retE x) Q E = Q x"
  by (simp add: fun_eq_iff wp_def retE_def)

lemma wp_throwE [wp_simps]: "wp (throwE k m) Q E = E (Exc k m)"
  by (simp add: fun_eq_iff wp_def throwE_def)

lemma wp_rethrowE [wp_simps]: "wp (rethrowE e) Q E = E e"
  by (simp add: fun_eq_iff wp_def rethrowE_def)

lemma wp_bindE [wp_simps]: "wp (bindE m f) Q E = wp m (\<lambda>x. wp (f x) Q E) E"
  by (auto simp: fun_eq_iff wp_def bindE_def split: prod.splits sum.splits)

lemma wp_tryE [wp_simps]: "wp (tryE m h) Q E = wp m Q (\<lambda>e. wp (h e) Q E)"
  by (auto simp: fun_eq_iff wp_def tryE_def split: prod.splits sum.splits)

lemma wp_liftE [wp_simps]: "wp (liftE r) Q E = (case r of Inl e \<Rightarrow> E e | Inr x \<Rightarrow> Q x)"
  by (simp add: fun_eq_iff wp_def liftE_def split: sum.split)

lemma wp_getE [wp_simps]: "wp (getE f) Q E = (\<lambda>s. Q (f s) s)"
  by (simp add: fun_eq_iff wp_def getE_def)

lemma wp_modE [wp_simps]: "wp (modE f) Q E = (\<lambda>s. Q () (f s))"
  by (simp add: fun_eq_iff wp_def modE_def)

lemma wp_if [wp_simps]: "wp (if b then m else n) Q E = (if b then wp m Q E else wp n Q E)"
  by simp

lemma wp_case_option [wp_simps]:
  "wp (case x of None \<Rightarrow> m | Some y \<Rightarrow> f y) Q E = (case x of None \<Rightarrow> wp m Q E | Some y \<Rightarrow> wp (f y) Q E)"
  by (cases x) auto

lemma bindE_unit [simp]: "bindE (retE x) f = f x" "bindE (liftE (Inr x)) f = f x" "bindE (liftE (Inl e)) f = liftE (Inl e)"
  by (simp_all add: fun_eq_iff bindE_def retE_def liftE_def)

lemma bindE_state [simp]: "bindE (getE g) f s = f (g s) s" "bindE (modE h) k s = k () (h s)"
  by (simp_all add: bindE_def getE_def modE_def)

lemma bindE_if: "bindE (if b then m else n) f = (if b then bindE m f else bindE n f)"
  by simp

lemma wp_mono:
  "wp m Q E s \<Longrightarrow> (\<And>x t. Q x t \<Longrightarrow> Q' x t) \<Longrightarrow> (\<And>e t. E e t \<Longrightarrow> E' e t) \<Longrightarrow> wp m Q' E' s"
  by (auto simp: wp_def split: prod.splits sum.splits)

lemma caught_Inr: "caught m s = (Inr r, s1) \<longleftrightarrow> m s = (r, s1)"
  by (cases "m s"; cases "fst (m s)") (auto simp: caught_def tryE_def bindE_def retE_def)

text \<open>A loop keeps what its body keeps, whether it ends or raises.\<close>

lemma wp_eachE:
  assumes "I s" and "\<And>x t. x \<in> set xs \<Longrightarrow> I t \<Longrightarrow> wp (f x) (\<lambda>_. I) E t"
  shows "wp (eachE f xs) (\<lambda>_. I) E s"
  using assms
proof (induction xs arbitrary: s)
  case (Cons x xs)
  have step: "wp (eachE f xs) (\<lambda>_. I) E t" if "I t" for t
    by (rule Cons.IH [OF that]) (simp add: Cons.prems(2))
  have "wp (f x) (\<lambda>_. I) E s" using Cons.prems by simp
  then have "wp (f x) (\<lambda>_. wp (eachE f xs) (\<lambda>_. I) E) E s"
    by (rule wp_mono) (simp_all add: step)
  then show ?case by (simp add: wp_bindE)
qed (simp add: wp_retE)

text \<open>\<open>keeps I m\<close>: whatever \<open>m\<close> does, it keeps \<open>I\<close>, also when it raises.\<close>

definition keeps :: "('s \<Rightarrow> bool) \<Rightarrow> ('s, 'a) eff \<Rightarrow> bool" where
  "keeps I m \<longleftrightarrow> (\<forall>s. I s \<longrightarrow> wp m (\<lambda>_. I) (\<lambda>_. I) s)"

named_theorems keeps_intros \<open>how an invariant passes through the combinators\<close>

lemma keepsI: "(\<And>s. I s \<Longrightarrow> wp m (\<lambda>_. I) (\<lambda>_. I) s) \<Longrightarrow> keeps I m"
  by (simp add: keeps_def)

lemma keepsD: "keeps I m \<Longrightarrow> I s \<Longrightarrow> wp m (\<lambda>_. I) (\<lambda>_. I) s"
  by (simp add: keeps_def)

lemma keeps_result: "keeps I m \<Longrightarrow> I s \<Longrightarrow> m s = (r, t) \<Longrightarrow> I t"
  by (cases r) (auto simp: keeps_def wp_def)

lemma keeps_bindE [keeps_intros]: "keeps I m \<Longrightarrow> (\<And>x. keeps I (f x)) \<Longrightarrow> keeps I (bindE m f)"
  by (rule keepsI, unfold wp_bindE, rule wp_mono, erule (1) keepsD) (simp_all add: keepsD)

lemma keeps_tryE [keeps_intros]: "keeps I m \<Longrightarrow> (\<And>e. keeps I (h e)) \<Longrightarrow> keeps I (tryE m h)"
  by (rule keepsI, unfold wp_tryE, rule wp_mono, erule (1) keepsD) (simp_all add: keepsD)

lemma keeps_caught [keeps_intros]: "keeps I m \<Longrightarrow> keeps I (caught m)"
  unfolding caught_def by (intro keeps_tryE keeps_bindE) (simp_all add: keeps_def wp_retE)

lemma keeps_pure [keeps_intros]:
  "keeps I (retE x)" "keeps I (throwE k t)" "keeps I (rethrowE e)" "keeps I (liftE r)" "keeps I (getE g)"
  by (auto simp: keeps_def wp_simps split: sum.split)

lemma keeps_modE: "(\<And>s. I s \<Longrightarrow> I (f s)) \<Longrightarrow> keeps I (modE f)"
  by (auto simp: keeps_def wp_simps)

lemma keeps_if [keeps_intros]: "(b \<Longrightarrow> keeps I m) \<Longrightarrow> (\<not> b \<Longrightarrow> keeps I n) \<Longrightarrow> keeps I (if b then m else n)"
  by simp

lemma keeps_option [keeps_intros]:
  "keeps I m \<Longrightarrow> (\<And>y. x = Some y \<Longrightarrow> keeps I (f y)) \<Longrightarrow> keeps I (case x of None \<Rightarrow> m | Some y \<Rightarrow> f y)"
  by (cases x) auto

lemma keeps_sum [keeps_intros]:
  "(\<And>e. x = Inl e \<Longrightarrow> keeps I (m e)) \<Longrightarrow> (\<And>y. x = Inr y \<Longrightarrow> keeps I (f y)) \<Longrightarrow> keeps I (case x of Inl e \<Rightarrow> m e | Inr y \<Rightarrow> f y)"
  by (cases x) auto

lemma keeps_prod [keeps_intros]: "(\<And>a b. x = (a, b) \<Longrightarrow> keeps I (f a b)) \<Longrightarrow> keeps I (case x of (a, b) \<Rightarrow> f a b)"
  by (cases x) auto

lemma keeps_eachE: "(\<And>x. x \<in> set xs \<Longrightarrow> keeps I (f x)) \<Longrightarrow> keeps I (eachE f xs)"
  by (induction xs) (auto intro!: keeps_intros)

lemma eachE_append: "eachE f (xs @ ys) = bindE (eachE f xs) (\<lambda>_. eachE f ys)"
  by (induction xs) (auto simp: fun_eq_iff bindE_def retE_def split: prod.splits sum.splits)

lemma wp_result: "wp m Q E s \<longleftrightarrow> (\<forall>x t. m s = (Inr x, t) \<longrightarrow> Q x t) \<and> (\<forall>e t. m s = (Inl e, t) \<longrightarrow> E e t)"
  by (cases "m s"; cases "fst (m s)") (auto simp: wp_def)

lemma bindE_Inr: "bindE m f s = (Inr y, t) \<longleftrightarrow> (\<exists>x u. m s = (Inr x, u) \<and> f x u = (Inr y, t))"
  by (auto simp: bindE_def split: prod.splits sum.splits)

lemma bindE_Inl: "bindE m f s = (Inl e, t) \<longleftrightarrow> m s = (Inl e, t) \<or> (\<exists>x u. m s = (Inr x, u) \<and> f x u = (Inl e, t))"
  by (auto simp: bindE_def split: prod.splits sum.splits)

end
