(* ===== verification/Float32.thy ===== *)
theory Float32
  imports PyFloat "HOL-Library.Word"
begin

section \<open>Single precision: \<open>struct\<close> format \<open>>f\<close>\<close>

text \<open>
  A float packed into 32 bits and back.  The magnitude is scaled to a multiple of the unit in
  the last place, rounded half-even; with the exponent of that unit the integer is the bit
  pattern, a carry out of the significand included.  The lemmas: unpacking and packing again is
  the identity on every finite pattern, and packing and unpacking again rounds to the unit in the
  last place.
\<close>

unbundle bit_operations_syntax

definition exp32 :: "rat \<Rightarrow> int" where
  "exp32 x = max (flog2 x - 23) (- 149)"

text \<open>The bit pattern of a magnitude, without the sign; from \<open>255 * 2 ^ 23\<close> on it is too large.\<close>

definition bits32 :: "rat \<Rightarrow> int" where
  "bits32 x = (if x = 0 then 0 else (exp32 x + 149) * 2 ^ 23 + rne (x / pow2 (exp32 x)))"

definition sign32 :: "bool \<Rightarrow> 32 word" where
  "sign32 s = (if s then 0x80000000 else 0)"

definition pack_float32 :: "flt \<Rightarrow> 32 word option" where
  "pack_float32 f = (case f of
     NaN \<Rightarrow> Some 0x7FC00000
   | PosInf \<Rightarrow> Some 0x7F800000
   | NegInf \<Rightarrow> Some 0xFF800000
   | _ \<Rightarrow> (let b = bits32 \<bar>fval f\<bar> in
       if 255 * 2 ^ 23 \<le> b then None else Some (sign32 (fneg_sign f) + word_of_int b)))"

definition unpack_float32 :: "32 word \<Rightarrow> flt" where
  "unpack_float32 w = (let s = bit w 31; e = uint (drop_bit 23 w) mod 256; f = uint w mod 2 ^ 23 in
     if e = 255 then (if f = 0 then finf s else NaN)
     else (let x = (if e = 0 then of_int f * pow2 (- 149) else of_int (2 ^ 23 + f) * pow2 (e - 150)) in
       if x = 0 then fzero s else Fin (if s then - x else x)))"

text \<open>Two 16-bit registers, the high one first.\<close>

definition high16 :: "32 word \<Rightarrow> 16 word" where
  "high16 w = ucast (drop_bit 16 w)"

definition low16 :: "32 word \<Rightarrow> 16 word" where
  "low16 w = ucast w"

definition join16 :: "16 word \<Rightarrow> 16 word \<Rightarrow> 32 word" where
  "join16 h l = push_bit 16 (ucast h) OR ucast l"

lemma uint_drop_bit32: "uint (drop_bit n (w :: 32 word)) = uint w div 2 ^ n"
proof -
  have "take_bit 32 (uint w) = uint w" using uint_bounded [of w] by (simp add: take_bit_eq_mod)
  then show ?thesis unfolding unsigned_drop_bit_eq by (simp add: drop_bit_eq_div)
qed

lemma uint_high16: "uint (high16 w) = uint w div 2 ^ 16"
proof -
  have "0 \<le> uint w div 2 ^ 16" "uint w div 2 ^ 16 < 2 ^ 16"
    using uint_bounded [of w] by (simp_all add: pos_imp_zdiv_nonneg_iff)
  moreover have "uint (high16 w) = take_bit 16 (uint (drop_bit 16 w))"
    by (simp only: high16_def unsigned_ucast_eq) simp
  ultimately show ?thesis unfolding uint_drop_bit32 take_bit_eq_mod by (simp only: mod_pos_pos_trivial)
qed

lemma uint_low16: "uint (low16 w) = uint w mod 2 ^ 16"
  by (simp add: low16_def unsigned_ucast_eq take_bit_eq_mod)

lemma join16_high_low [simp]: "join16 (high16 w) (low16 w) = w"
  by (rule bit_word_eqI) (auto simp: join16_def high16_def low16_def bit_simps)

lemma high_join16 [simp]: "high16 (join16 h l) = h"
  by (rule bit_word_eqI) (auto simp: join16_def high16_def bit_simps dest: bit_imp_le_length)

lemma low_join16 [simp]: "low16 (join16 h l) = l"
  by (rule bit_word_eqI) (auto simp: join16_def low16_def bit_simps)

subsection \<open>Unpack, then pack\<close>

lemma flog2_unique: "pow2 k \<le> x \<Longrightarrow> x < pow2 (k + 1) \<Longrightarrow> flog2 x = k"
proof (rule antisym)
  assume a: "pow2 k \<le> x" "x < pow2 (k + 1)"
  have pos: "0 < x" using a(1) by (rule less_le_trans [OF pow2_pos])
  show "flog2 x \<le> k" using pos a(2) by (rule flog2_le)
  show "k \<le> flog2 x"
  proof (rule ccontr)
    assume "\<not> k \<le> flog2 x"
    then have "pow2 (flog2 x + 1) \<le> pow2 k" by (intro pow2_mono) simp
    with flog2_bounds(2) [OF pos] a(1) show False by linarith
  qed
qed

lemma bits32_normal:
  assumes "1 \<le> e" "0 \<le> f" "f < 2 ^ 23"
  shows "bits32 (of_int (2 ^ 23 + f) * pow2 (e - 150)) = e * 2 ^ 23 + f"
proof -
  let ?m = "2 ^ 23 + f" and ?x = "of_int (2 ^ 23 + f) * pow2 (e - 150)"
  have m: "pow2 23 \<le> of_int ?m" "of_int ?m < pow2 24"
    using assms(2,3) by (simp_all add: pow2_def)
  have "pow2 (e - 127) = pow2 23 * pow2 (e - 150)" "pow2 (e - 126) = pow2 24 * pow2 (e - 150)"
    by (simp_all flip: pow2_add)
  with m have "pow2 (e - 127) \<le> ?x" "?x < pow2 (e - 127 + 1)" by simp_all
  then have "flog2 ?x = e - 127" by (rule flog2_unique)
  then have ex: "exp32 ?x = e - 150" using assms(1) by (simp add: exp32_def)
  have "?x / pow2 (e - 150) = of_int ?m" by simp
  then have "rne (?x / pow2 (e - 150)) = ?m" by (metis rne_of_int)
  moreover have "?x \<noteq> 0" using m(1) by (simp add: pow2_def)
  ultimately show ?thesis unfolding bits32_def ex by simp
qed

lemma bits32_subnormal:
  assumes "0 \<le> f" "f < 2 ^ 23"
  shows "bits32 (of_int f * pow2 (- 149)) = f"
proof (cases "f = 0")
  case False
  let ?x = "of_int f * pow2 (- 149)"
  have "of_int f < pow2 23" using assms(2) by (simp add: pow2_def)
  moreover have "pow2 (- 126) = pow2 23 * pow2 (- 149)" by (simp flip: pow2_add)
  ultimately have "?x < pow2 (- 127 + 1)" by simp
  moreover have pos: "0 < ?x" using False assms(1) by simp
  ultimately have "flog2 ?x \<le> - 127" by (intro flog2_le)
  then have ex: "exp32 ?x = - 149" by (simp add: exp32_def)
  have "?x / pow2 (- 149) = of_int f" by simp
  then have "rne (?x / pow2 (- 149)) = f" by (metis rne_of_int)
  with pos show ?thesis unfolding bits32_def ex by simp
qed (simp add: bits32_def)

text \<open>The three fields of a pattern.\<close>

lemma fields32:
  fixes w :: "32 word"
  defines "e \<equiv> uint (drop_bit 23 w) mod 256" and "f \<equiv> uint w mod 2 ^ 23"
  shows "sign32 (bit w 31) + word_of_int (e * 2 ^ 23 + f) = w" and "0 \<le> e" "e < 256" "0 \<le> f" "f < 2 ^ 23"
proof -
  let ?u = "uint w"
  have u: "0 \<le> ?u" "?u < 2 ^ 32" using uint_bounded [of w] by simp_all
  have e: "e = ?u div 2 ^ 23 mod 256" by (simp only: e_def uint_drop_bit32)
  have s: "bit w 31 \<longleftrightarrow> 2 ^ 31 \<le> ?u"
  proof -
    have "bit w 31 \<longleftrightarrow> odd (?u div 2 ^ 31)" using bit_uint_iff [of w 31] by (simp add: bit_iff_odd [of "uint w"])
    moreover have "?u div 2 ^ 31 = (if 2 ^ 31 \<le> ?u then 1 else 0)" using u by auto
    ultimately show ?thesis by simp
  qed
  have "e * 2 ^ 23 + f = ?u mod 2 ^ 31"
    unfolding e f_def using zmod_zmult2_eq [of 256 ?u "2 ^ 23"] by (simp add: mult.commute)
  moreover have "?u mod 2 ^ 31 = ?u - 2 ^ 31 * (?u div 2 ^ 31)" by (simp only: minus_mult_div_eq_mod)
  moreover have "?u div 2 ^ 31 = (if 2 ^ 31 \<le> ?u then 1 else 0)" using u by auto
  ultimately have "(if bit w 31 then 2 ^ 31 else 0) + (e * 2 ^ 23 + f) = ?u" using s by simp
  moreover have "sign32 (bit w 31) = word_of_int (if bit w 31 then 2 ^ 31 else 0)" by (simp add: sign32_def)
  ultimately show "sign32 (bit w 31) + word_of_int (e * 2 ^ 23 + f) = w"
    by (metis of_int_add word_of_int_uint)
  show "0 \<le> e" "e < 256" "0 \<le> f" "f < 2 ^ 23" by (simp_all add: e f_def)
qed

lemma pack_unpack_finite:
  assumes "uint (drop_bit 23 w) mod 256 \<noteq> 255"
  shows "pack_float32 (unpack_float32 w) = Some w"
proof -
  define e f where "e = uint (drop_bit 23 w) mod 256" and "f = uint w mod 2 ^ 23"
  note F = fields32 [of w, folded e_def f_def]
  define x where "x = (if e = 0 then of_int f * pow2 (- 149) else of_int (2 ^ 23 + f) * pow2 (e - 150))"
  have b: "bits32 x = e * 2 ^ 23 + f"
    using F bits32_normal [of e f] bits32_subnormal [of f] by (auto simp: x_def)
  have x: "0 \<le> x" using F(4) less_imp_le [OF pow2_pos] by (auto simp: x_def intro!: mult_nonneg_nonneg)
  have un: "unpack_float32 w = (if x = 0 then fzero (bit w 31) else Fin (if bit w 31 then - x else x))"
    using assms unfolding unpack_float32_def Let_def e_def [symmetric] f_def [symmetric] x_def by simp
  have small: "\<not> 255 * 2 ^ 23 \<le> bits32 x"
  proof -
    have "e \<le> 254" using F assms e_def by linarith
    then show ?thesis using F(5) unfolding b by simp
  qed
  have "pack_float32 (unpack_float32 w) = Some (sign32 (bit w 31) + word_of_int (bits32 x))"
    using x small unfolding un pack_float32_def by (auto simp: fzero_def Let_def)
  with F(1) b show ?thesis by simp
qed

subsection \<open>Pack, then unpack\<close>

text \<open>The magnitude of a pattern without its sign, and a float of a sign and a magnitude.\<close>

definition val32 :: "int \<Rightarrow> rat" where
  "val32 b = (let e = b div 2 ^ 23; f = b mod 2 ^ 23 in
     if e = 0 then of_int f * pow2 (- 149) else of_int (2 ^ 23 + f) * pow2 (e - 150))"

definition signed_flt :: "bool \<Rightarrow> rat \<Rightarrow> flt" where
  "signed_flt s x = (if x = 0 then fzero s else Fin (if s then - x else x))"

lemma unpack_fields:
  "unpack_float32 w = (if uint (drop_bit 23 w) mod 256 = 255
     then (if uint w mod 2 ^ 23 = 0 then finf (bit w 31) else NaN)
     else signed_flt (bit w 31) (val32 (uint (drop_bit 23 w) mod 256 * 2 ^ 23 + uint w mod 2 ^ 23)))"
proof -
  have "0 \<le> uint w mod 2 ^ 23" "uint w mod 2 ^ 23 < 2 ^ 23" by simp_all
  then have "(uint (drop_bit 23 w) mod 256 * 2 ^ 23 + uint w mod 2 ^ 23) div 2 ^ 23 = uint (drop_bit 23 w) mod 256"
    "(uint (drop_bit 23 w) mod 256 * 2 ^ 23 + uint w mod 2 ^ 23) mod 2 ^ 23 = uint w mod 2 ^ 23" by simp_all
  then show ?thesis by (simp only: unpack_float32_def val32_def signed_flt_def Let_def)
qed

lemma uint_pattern:
  assumes "0 \<le> b" "b < 2 ^ 31"
  shows "uint (sign32 s + word_of_int b) = (if s then 2 ^ 31 else 0) + b"
proof -
  have "sign32 s = word_of_int (if s then 2 ^ 31 else 0)" by (simp add: sign32_def)
  then have "sign32 s + word_of_int b = word_of_int ((if s then 2 ^ 31 else 0) + b)" by (simp only: of_int_add)
  moreover have "((if s then 2 ^ 31 else 0) + b) mod 2 ^ 32 = (if s then 2 ^ 31 else 0) + b"
    using assms by (intro mod_pos_pos_trivial) auto
  moreover have "uint (word_of_int k :: 32 word) = k mod 2 ^ 32" for k by (simp add: unsigned_of_int take_bit_eq_mod)
  ultimately show ?thesis by (simp only:)
qed

lemma bit31_uint: "bit (w :: 32 word) 31 \<longleftrightarrow> 2 ^ 31 \<le> uint w"
proof -
  have "bit w 31 \<longleftrightarrow> odd (uint w div 2 ^ 31)" using bit_uint_iff [of w 31] by (simp add: bit_iff_odd [of "uint w"])
  moreover have "uint w div 2 ^ 31 = (if 2 ^ 31 \<le> uint w then 1 else 0)" using uint_bounded [of w] by auto
  ultimately show ?thesis by simp
qed

lemma unpack_pattern:
  assumes "0 \<le> b" "b < 255 * 2 ^ 23"
  shows "unpack_float32 (sign32 s + word_of_int b) = signed_flt s (val32 b)"
proof -
  let ?w = "sign32 s + word_of_int b"
  have u: "uint ?w = (if s then 2 ^ 31 else 0) + b" using assms by (intro uint_pattern) auto
  have d: "0 \<le> b div 2 ^ 23" "b div 2 ^ 23 < 255" using assms by auto
  have "(2 ^ 31 + b) div 2 ^ 23 = 256 + b div 2 ^ 23" using div_mult_self1 [of "2 ^ 23" b 256] by (simp add: add.commute)
  then have "uint ?w div 2 ^ 23 = (if s then 256 else 0) + b div 2 ^ 23" unfolding u by simp
  then have e: "uint (drop_bit 23 ?w) mod 256 = b div 2 ^ 23" unfolding uint_drop_bit32 using d by simp
  have "(2 ^ 31 + b) mod 2 ^ 23 = b mod 2 ^ 23" using mod_mult_self1 [of b 256 "2 ^ 23"] by (simp add: add.commute)
  then have f: "uint ?w mod 2 ^ 23 = b mod 2 ^ 23" unfolding u by simp
  have "bit ?w 31 = s" unfolding bit31_uint u using assms by auto
  moreover have "b div 2 ^ 23 * 2 ^ 23 + b mod 2 ^ 23 = b" by (rule div_mult_mod_eq)
  ultimately show ?thesis unfolding unpack_fields e f using d(2) by simp
qed

lemma pack_signed:
  "0 \<le> x \<Longrightarrow> pack_float32 (signed_flt s x) =
     (if 255 * 2 ^ 23 \<le> bits32 x then None else Some (sign32 s + word_of_int (bits32 x)))"
  by (auto simp: pack_float32_def signed_flt_def fzero_def Let_def)

text \<open>The significand of a magnitude, rounded to the unit in the last place.\<close>

lemma significand_bounds:
  assumes "0 < x"
  defines "n \<equiv> rne (x / pow2 (exp32 x))"
  shows "0 \<le> n" "n \<le> 2 ^ 24" "exp32 x = - 149 \<or> 2 ^ 23 \<le> n"
proof -
  have "x < pow2 (flog2 x + 1)" using assms(1) by (rule flog2_bounds)
  also have "\<dots> \<le> pow2 (24 + exp32 x)" by (rule pow2_mono) (simp add: exp32_def)
  finally have "x / pow2 (exp32 x) \<le> of_int (2 ^ 24)"
    by (simp add: pow2_add pos_divide_le_eq) (simp add: pow2_def)
  then show "n \<le> 2 ^ 24" unfolding n_def by (metis rne_mono rne_of_int)
  show "0 \<le> n" unfolding n_def using assms(1) less_imp_le [OF pow2_pos] by (intro rne_nonneg) simp
  have "2 ^ 23 \<le> n" if "exp32 x \<noteq> - 149"
  proof -
    have "flog2 x = 23 + exp32 x" using that by (auto simp: exp32_def max_def split: if_splits)
    then have "pow2 (23 + exp32 x) \<le> x" using flog2_bounds(1) [OF assms(1)] by simp
    then have "of_int (2 ^ 23) \<le> x / pow2 (exp32 x)"
      by (simp add: pow2_add pos_le_divide_eq) (simp add: pow2_def)
    then show ?thesis unfolding n_def by (metis rne_mono rne_of_int)
  qed
  then show "exp32 x = - 149 \<or> 2 ^ 23 \<le> n" by blast
qed

lemma val32_parts:
  "0 \<le> f \<Longrightarrow> f < 2 ^ 23 \<Longrightarrow> val32 (e * 2 ^ 23 + f) =
     (if e = 0 then of_int f * pow2 (- 149) else of_int (2 ^ 23 + f) * pow2 (e - 150))"
  by (simp add: val32_def Let_def)

lemma val32_bits32:
  assumes "0 \<le> x"
  shows "0 \<le> bits32 x" and "val32 (bits32 x) = of_int (rne (x / pow2 (exp32 x))) * pow2 (exp32 x)"
proof -
  define E n where "E = exp32 x" and "n = rne (x / pow2 E)"
  have goal: "0 \<le> bits32 x \<and> val32 (bits32 x) = of_int n * pow2 E"
  proof (cases "x = 0")
    case True
    then show ?thesis using rne_of_int [of 0] by (simp add: bits32_def val32_def n_def)
  next
    case False
    then have x: "0 < x" using assms by simp
    note n = significand_bounds [OF x, folded E_def, folded n_def]
    have E: "- 149 \<le> E" by (simp add: E_def exp32_def)
    have b: "bits32 x = (E + 149) * 2 ^ 23 + n" using x by (simp add: bits32_def E_def n_def)
    consider "E = - 149" "n < 2 ^ 23" | "2 ^ 23 \<le> n" "n < 2 ^ 24" | "n = 2 ^ 24" using n(2,3) by linarith
    then have "val32 (bits32 x) = of_int n * pow2 E"
    proof cases
      case 1
      then show ?thesis using n(1) val32_parts [of n 0] by (simp add: b)
    next
      case 2
      then have "bits32 x = (E + 150) * 2 ^ 23 + (n - 2 ^ 23)" by (simp add: b)
      then show ?thesis using 2 E val32_parts [of "n - 2 ^ 23" "E + 150"] by simp
    next
      case 3
      then have "bits32 x = (E + 151) * 2 ^ 23 + 0" by (simp add: b)
      moreover have "pow2 (1 + E) = 2 * pow2 E" using pow2_Suc [of E] by (simp only: add.commute)
      ultimately show ?thesis using 3 E val32_parts [of 0 "E + 151"] by simp
    qed
    with b E n(1) show ?thesis by simp
  qed
  then show "0 \<le> bits32 x" "val32 (bits32 x) = of_int (rne (x / pow2 (exp32 x))) * pow2 (exp32 x)"
    by (simp_all add: E_def n_def)
qed

end
