(* ===== verification/PlcCodec.thy ===== *)
theory PlcCodec
  imports Effects Float32
begin

section \<open>Register values of the PLC adapter (apps/plc_adapter/service.py)\<close>

text \<open>
  How a field of a snapshot becomes holding registers and back, under a mapping of
  \<open>sensor_mappings.yaml\<close> (data type, number of registers, scale).  Registers are the unbounded
  integers the code keeps; only \<open>struct\<close> checks their range.  The lemmas: a register read and
  written back keeps its value, for the scales from 0.01 to 1; a float32 field written back reads the same.
\<close>

fun flt_round :: "flt \<Rightarrow> int res" where
  "flt_round (Fin r) = Inr (rne r)"
| "flt_round NegZero = Inr 0"
| "flt_round NaN = raise ValueError ''cannot convert float NaN to integer''"
| "flt_round f = raise OverflowError ''cannot convert float infinity to integer''"

fun num_round :: "pnum \<Rightarrow> int res" where
  "num_round (NI i) = Inr i"
| "num_round (NF f) = flt_round f"

definition map_dtype :: "pv dict \<Rightarrow> pv" where
  "map_dtype mapping = dget_or mapping ''data_type'' (VStr ''uint16'')"

definition map_count :: "pv dict \<Rightarrow> pv" where
  "map_count mapping = dget_or mapping ''register_count'' (VInt 1)"

definition is_float32_pair :: "pv dict \<Rightarrow> bool" where
  "is_float32_pair mapping \<longleftrightarrow> py_eq (map_dtype mapping) (VStr ''float32'') \<and> py_eq (map_count mapping) (VInt 2)"

definition encode_value_to_registers :: "pv \<Rightarrow> pv dict \<Rightarrow> int list res" where
  "encode_value_to_registers value mapping =
     (let scale = dget_or mapping ''scale'' (VFloat (Fin 1)) in
      if is_float32_pair mapping
      then bindR (py_float value) (\<lambda>f. case pack_float32 f of
             None \<Rightarrow> raise OverflowError ''float too large to pack with f format''
           | Some w \<Rightarrow> Inr [uint (high16 w), uint (low16 w)])
      else if unhashable scale then unhashable_error scale
      else bindR (py_float value) (\<lambda>f.
           bindR (if py_eq scale (VInt 0) then Inr (NF f) else arith_op ''/'' ndiv (VFloat f) scale) (\<lambda>x.
           bindR (num_round x) (\<lambda>scaled.
             Inr [if py_eq (map_dtype mapping) (VStr ''int16'') \<and> scaled < 0 then 2 ^ 16 + scaled else scaled]))))"

definition reg_at :: "int list \<Rightarrow> nat \<Rightarrow> int res" where
  "reg_at registers i = (if i < length registers then Inr (registers ! i) else raise IndexError ''list index out of range'')"

definition ushort :: "int \<Rightarrow> 16 word res" where
  "ushort i = (if 0 \<le> i \<and> i \<le> 65535 then Inr (word_of_int i)
     else raise StructError (quoted ''H'' @ '' format requires 0 <= number <= 65535''))"

definition decode_registers :: "int list \<Rightarrow> pv dict \<Rightarrow> pv res" where
  "decode_registers registers mapping =
     (if is_float32_pair mapping
      then bindR (reg_at registers 0) (\<lambda>r0. bindR (reg_at registers 1) (\<lambda>r1.
           bindR (ushort r0) (\<lambda>h. bindR (ushort r1) (\<lambda>l.
             Inr (VFloat (fround 3 (unpack_float32 (join16 h l))))))))
      else bindR (reg_at registers 0) (\<lambda>r0.
           let value = (if py_eq (map_dtype mapping) (VStr ''int16'') \<and> 32767 < r0 then r0 - 65536 else r0) in
           case dget mapping ''scale'' of
             None \<Rightarrow> Inr (VInt value)
           | Some scale \<Rightarrow> bindR (arith_op ''*'' nmul (VInt value) scale) (\<lambda>n. Inr (of_num (nround 3 n)))))"

subsection \<open>The error of scaling and rounding\<close>

lemma rne_unique: "\<bar>x - of_int k\<bar> < 1/2 \<Longrightarrow> rne x = k"
proof -
  assume a: "\<bar>x - of_int k\<bar> < 1/2"
  then have "of_int (rne x) < (of_int (k + 1) :: rat)" "of_int (k - 1) < (of_int (rne x) :: rat)"
    using rne_bounds [of x] by (auto simp: abs_if split: if_splits)
  then show ?thesis unfolding of_int_less_iff by linarith
qed

lemma abs_near: "\<bar>a - b\<bar> \<le> d \<Longrightarrow> \<bar>b\<bar> \<le> B \<Longrightarrow> d + B < C \<Longrightarrow> \<bar>a :: rat\<bar> < C"
  by linarith

lemma abs_tri: "\<bar>a - b\<bar> \<le> d \<Longrightarrow> \<bar>b - c\<bar> \<le> e \<Longrightarrow> d + e < f \<Longrightarrow> \<bar>a - c :: rat\<bar> < f"
  by linarith

lemma rnd64_near:
  assumes "\<bar>t\<bar> < 2 ^ 24"
  shows "\<bar>rnd64 t - t\<bar> \<le> 1 / 2 ^ 20"
proof (cases "t = 0")
  case False
  have "flog2 \<bar>t\<bar> \<le> 24" using False assms by (intro flog2_le) (auto simp: pow2_def)
  then have e: "rnd_exp t \<le> - 28" by (simp add: rnd_exp_def)
  let ?p = "pow2 (rnd_exp t)"
  have p: "?p \<le> 1 / 2 ^ 20" "0 < ?p" using pow2_mono [OF e] by (auto simp: pow2_def)
  have "\<bar>of_int (rne (t / ?p)) - t / ?p\<bar> \<le> 1" using rne_bounds [of "t / ?p"] by (auto simp: abs_if)
  then have "\<bar>of_int (rne (t / ?p)) - t / ?p\<bar> * ?p \<le> 1 * ?p" using less_imp_le [OF p(2)] by (intro mult_right_mono)
  moreover have "rnd64 t - t = (of_int (rne (t / ?p)) - t / ?p) * ?p"
    using False p(2) by (simp add: rnd64_def left_diff_distrib)
  ultimately have "\<bar>rnd64 t - t\<bar> \<le> ?p" by (simp only: abs_mult abs_of_pos [OF p(2)] mult_1)
  with p show ?thesis by linarith
qed simp

lemma mk_flt_small:
  assumes "\<bar>t\<bar> < 2 ^ 24"
  shows "is_finite (mk_flt s t) \<and> fval (mk_flt s t) = rnd64 t"
proof -
  have "\<bar>rnd64 t\<bar> \<le> 2 ^ 25" using rnd64_near [OF assms] assms by (auto simp: abs_if split: if_splits)
  moreover have "(2 :: rat) ^ 25 < max64" by (simp add: max64_def)
  ultimately have "\<bar>rnd64 t\<bar> < max64" by linarith
  then show ?thesis by (auto simp: mk_flt_def Let_def)
qed

lemma finite_flt_round: "is_finite f \<Longrightarrow> flt_round f = Inr (rne (fval f))"
  using rne_of_int [of 0] by (cases f) auto

lemma num_eq_zero: "is_finite f \<Longrightarrow> py_eq (VFloat f) (VInt 0) \<longleftrightarrow> fval f = 0"
  by (cases f) (auto simp: num_eq_def)

lemma ndiv_finite: "is_finite f \<Longrightarrow> fval f \<noteq> 0 \<Longrightarrow> ndiv (NF a) (NF f) = Inr (NF (fdiv a f))"
  by (cases f) auto

text \<open>One register: scaled, rounded to three decimals, divided by the scale again.\<close>

lemma scale_roundtrip:
  assumes s: "is_finite s" "1/100 \<le> fval s" "fval s \<le> 1" and k: "\<bar>k\<bar> \<le> 65536"
  shows "\<exists>z. nmul (NI k) (NF s) = Inr (NF z) \<and> is_finite (fround 3 z) \<and>
    flt_round (fdiv (fround 3 z) s) = Inr k"
proof -
  let ?x = "of_int k * fval s"
  have k': "\<bar>of_int k :: rat\<bar> \<le> 65536" using k by (metis of_int_abs of_int_le_iff of_int_numeral)
  have sp: "0 < fval s" using s(2) by linarith
  have x: "\<bar>?x\<bar> \<le> 65536"
    using mult_mono [OF k' s(3)] sp by (simp add: abs_mult)
  have ik: "int_to_flt k = Fin (of_int k)" using k by (intro int_to_flt_exact) simp
  define z where "z = fmul (Fin (of_int k)) s"
  have m: "nmul (NI k) (NF s) = Inr (NF z)"
    using ik by (simp add: nmul_def num_op_def z_def)
  have z: "is_finite z" "fval z = rnd64 ?x" "\<bar>fval z - ?x\<bar> \<le> 1 / 2 ^ 20"
    using mk_flt_small [of ?x] rnd64_near [of ?x] x s(1) by (cases s; auto simp: z_def fmul_def Let_def)+
  let ?r = "of_int (rne (fval z * 10 ^ 3)) / 10 ^ 3 :: rat"
  have r: "\<bar>?r - fval z\<bar> \<le> 1 / 2000"
    using rne_bounds [of "fval z * 10 ^ 3"] by (simp add: abs_if field_simps)
  have r': "\<bar>?r\<bar> < 2 ^ 24" using r z(3) x by (auto simp: abs_if split: if_splits)
  let ?w = "fround 3 z"
  have w: "is_finite ?w" "\<bar>fval ?w - ?r\<bar> \<le> 1 / 2 ^ 20"
    using mk_flt_small [OF r'] rnd64_near [OF r'] z(1) by (simp_all add: fround_def)
  have "\<bar>fval ?w - ?x\<bar> \<le> 1 / 1000" using w(2) r z(3) by (auto simp: abs_if split: if_splits)
  then have "\<bar>fval ?w - ?x\<bar> / fval s \<le> (1 / 1000) / (1 / 100)"
    using s(2) sp by (intro frac_le) auto
  moreover have "\<bar>fval ?w - ?x\<bar> / fval s = \<bar>fval ?w / fval s - of_int k\<bar>"
  proof -
    have "fval ?w / fval s - of_int k = (fval ?w - ?x) / fval s" using sp by (simp add: diff_divide_distrib)
    then show ?thesis by (simp only: abs_divide abs_of_pos [OF sp])
  qed
  ultimately have d: "\<bar>fval ?w / fval s - of_int k\<bar> \<le> 1 / 10" by simp
  have d': "\<bar>fval ?w / fval s\<bar> < 2 ^ 24" by (rule abs_near [OF d k']) simp
  let ?q = "fdiv ?w s"
  have q: "is_finite ?q" "\<bar>fval ?q - fval ?w / fval s\<bar> \<le> 1 / 2 ^ 20"
    using mk_flt_small [OF d'] rnd64_near [OF d'] w(1) s(1) by (cases s; cases ?w; auto simp: fdiv_def Let_def)+
  have "rne (fval ?q) = k" by (rule rne_unique, rule abs_tri [OF q(2) d]) simp
  with q(1) have "flt_round ?q = Inr k" by (simp add: finite_flt_round)
  with m w(1) show ?thesis by blast
qed

subsection \<open>Three decimals in single precision\<close>

definition dec3 :: "rat \<Rightarrow> rat" where
  "dec3 x = rnd64 (of_int (rne (x * 1000)) / 1000)"

lemma dec3_0 [simp]: "dec3 0 = 0"
  using rne_of_int [of 0] by (simp add: dec3_def)

lemma dec3_minus: "dec3 (- x) = - dec3 x"
  by (simp add: dec3_def rne_minus rnd64_minus)

lemma dec3_mono: "x \<le> y \<Longrightarrow> dec3 x \<le> dec3 y"
  unfolding dec3_def by (intro rnd64_mono divide_right_mono) (simp_all add: rne_mono)

lemma dec3_nonneg: "0 \<le> x \<Longrightarrow> 0 \<le> dec3 x"
  using dec3_mono [of 0 x] by simp

lemma dec3_of_int: "\<bar>i\<bar> \<le> 2 ^ 53 \<Longrightarrow> dec3 (of_int i) = of_int i"
  using rne_of_int [of "i * 1000"] by (simp add: dec3_def rnd64_of_int)

lemma fround_signed:
  assumes "0 \<le> x" "dec3 x < max64"
  shows "fround 3 (signed_flt s x) = signed_flt s (dec3 x)"
proof (cases "x = 0")
  case True
  then show ?thesis using rne_of_int [of 0] by (simp add: signed_flt_def fzero_def fround_def mk_flt_def Let_def)
next
  case False
  let ?r = "if s then - x else x"
  have "fround 3 (signed_flt s x) = mk_flt s (of_int (rne (?r * 1000)) / 1000)"
    using False assms(1) by (simp add: signed_flt_def fround_def)
  moreover have "rnd64 (of_int (rne (?r * 1000)) / 1000) = (if s then - dec3 x else dec3 x)"
    using dec3_minus [of x] by (simp add: dec3_def)
  moreover have "- max64 < - dec3 x" "0 \<le> dec3 x" "0 < max64"
    using assms dec3_nonneg [of x] by linarith+
  ultimately show ?thesis using assms(2) by (auto simp: mk_flt_def Let_def signed_flt_def fzero_def)
qed

text \<open>Below 16384 the unit in the last place is so small that the third decimal survives.\<close>

lemma dec3_small:
  assumes "0 \<le> x" "x < 2 ^ 14"
  defines "V \<equiv> dec3 x"
  shows "bits32 V < 255 * 2 ^ 23 \<and> dec3 (val32 (bits32 V)) = V"
proof -
  define k where "k = rne (x * 1000)"
  have V: "V = rnd64 (of_int k / 1000)" by (simp add: V_def dec3_def k_def)
  have "x * 1000 \<le> of_int (2 ^ 14 * 1000)" using assms(2) by simp
  then have "k \<le> 2 ^ 14 * 1000" unfolding k_def by (metis rne_mono rne_of_int)
  moreover have "0 \<le> k" using assms(1) by (simp add: k_def rne_nonneg)
  ultimately have k: "0 \<le> of_int k / (1000 :: rat)" "of_int k / 1000 < (2 ^ 24 :: rat)" by simp_all
  have near: "\<bar>V - of_int k / 1000\<bar> \<le> 1 / 2 ^ 20" unfolding V using k by (intro rnd64_near) simp
  have "V \<le> of_int (2 ^ 14)" using dec3_mono [of x "of_int (2 ^ 14)"] dec3_of_int [of "2 ^ 14"] assms(2) by (simp add: V_def)
  moreover have "0 \<le> V" unfolding V_def using assms(1) by (rule dec3_nonneg)
  ultimately consider "V = 0" | "V = 16384" | "0 < V" "V < 16384" by fastforce
  then show ?thesis
  proof cases
    case 1
    then show ?thesis by (simp add: bits32_def val32_def)
  next
    case 2
    have "bits32 16384 < 255 * 2 ^ 23 \<and> dec3 (val32 (bits32 16384)) = 16384" by code_simp
    with 2 show ?thesis by simp
  next
    case 3
    define E n where "E = exp32 V" and "n = rne (V / pow2 E)"
    note n = significand_bounds [OF 3(1), folded E_def, folded n_def]
    have "flog2 V \<le> 13" using 3 by (intro flog2_le) (auto simp: pow2_def)
    then have E: "E \<le> - 10" by (simp add: E_def exp32_def)
    have "bits32 V = (E + 149) * 2 ^ 23 + n" using 3(1) by (simp add: bits32_def E_def n_def)
    then have "bits32 V < 255 * 2 ^ 23" using E n(2) by simp
    moreover have "\<bar>of_int n * pow2 E - V\<bar> \<le> 1 / 2048"
    proof -
      have "\<bar>of_int n - V / pow2 E\<bar> \<le> 1 / 2" unfolding n_def using rne_bounds [of "V / pow2 E"] by (intro abs_leI) linarith+
      then have "\<bar>of_int n - V / pow2 E\<bar> * pow2 E \<le> 1 / 2 * pow2 E" by (rule mult_right_mono) (simp add: less_imp_le)
      moreover have "of_int n * pow2 E - V = (of_int n - V / pow2 E) * pow2 E" by (simp add: left_diff_distrib)
      then have "\<bar>of_int n * pow2 E - V\<bar> = \<bar>of_int n - V / pow2 E\<bar> * pow2 E" by (simp only: abs_mult abs_of_pos [OF pow2_pos])
      moreover have "pow2 E \<le> 1 / 1024" using pow2_mono [OF E] by (simp add: pow2_def)
      ultimately show ?thesis by linarith
    qed
    then have "\<bar>of_int n * pow2 E * 1000 - of_int k\<bar> < 1 / 2" using near by (auto simp: abs_if split: if_splits)
    then have "rne (of_int n * pow2 E * 1000) = k" by (rule rne_unique)
    then have "dec3 (of_int n * pow2 E) = V" by (simp add: dec3_def V)
    ultimately show ?thesis using val32_bits32(2) [of V] 3(1) by (simp add: E_def n_def)
  qed
qed

text \<open>From 16384 on three decimals are finer than the unit in the last place, and the pattern survives.\<close>

lemma dec3_large:
  assumes "141 \<le> e" "e < 255" "0 \<le> f" "f < 2 ^ 23"
  shows "bits32 (dec3 (of_int (2 ^ 23 + f) * pow2 (e - 150))) = e * 2 ^ 23 + f"
proof -
  define m q where "m = 2 ^ 23 + f" and "q = e - 150"
  have m: "2 ^ 23 \<le> m" "m < 2 ^ 24" using assms(3,4) by (simp_all add: m_def)
  let ?X = "of_int m * pow2 q"
  have b: "bits32 ?X = e * 2 ^ 23 + f"
    using bits32_normal [of e f] assms by (simp add: m_def q_def)
  have fl: "pow2 (q + 23) \<le> ?X" "?X < pow2 (q + 24)"
  proof -
    have "of_int (2 ^ 23) \<le> (of_int m :: rat)" "of_int m < (of_int (2 ^ 24) :: rat)"
      using m by (simp_all only: of_int_le_iff of_int_less_iff)
    then have "pow2 23 * pow2 q \<le> ?X" "?X < pow2 24 * pow2 q"
      by (simp_all add: pow2_def [of 23] pow2_def [of 24])
    then show "pow2 (q + 23) \<le> ?X" "?X < pow2 (q + 24)" by (simp_all add: pow2_add mult.commute)
  qed
  show ?thesis
  proof (cases "0 \<le> q")
    case True
    then have X: "?X = of_int (m * 2 ^ nat q)" by (simp add: pow2_def)
    have "dec3 ?X = rnd64 ?X" unfolding dec3_def X using rne_of_int [of "m * 2 ^ nat q * 1000"] by simp
    also have "\<dots> = ?X"
    proof (rule rnd64_exact [OF refl])
      have "flog2 ?X = q + 23" by (rule flog2_unique) (use fl in \<open>simp_all add: add.commute\<close>)
      moreover have "\<bar>?X\<bar> = ?X" using less_le_trans [OF pow2_pos fl(1)] by (rule abs_of_pos)
      ultimately show "rnd_exp ?X \<le> q" using True by (simp add: rnd_exp_def)
    qed
    finally show ?thesis using b by (simp add: m_def q_def)
  next
    case False
    define V where "V = dec3 ?X"
    have q: "- 9 \<le> q" "q \<le> - 1" using False assms(1) by (simp_all add: q_def)
    have "pow2 q \<le> 1 / 2" using pow2_mono [OF q(2)] by (simp add: pow2_def)
    have small: "1 / 512 \<le> pow2 q" using pow2_mono [OF q(1)] by (simp add: pow2_def)
    have "pow2 (q + 24) \<le> 2 ^ 23" using pow2_mono [of "q + 24" 23] q(2) by (simp add: pow2_def [of 23])
    then have X: "0 \<le> ?X" "?X \<le> 2 ^ 23" using fl pow2_pos [of "q + 23"] by linarith+
    let ?t = "of_int (rne (?X * 1000)) / 1000 :: rat"
    have t: "\<bar>?t - ?X\<bar> \<le> 1 / 2000" using rne_bounds [of "?X * 1000"] by (simp add: abs_if field_simps)
    then have "\<bar>?t\<bar> < 2 ^ 24" using X by (auto simp: abs_if split: if_splits)
    from rnd64_near [OF this] have "\<bar>V - ?t\<bar> \<le> 1 / 2 ^ 20" by (simp add: V_def dec3_def)
    then have near: "\<bar>V - ?X\<bar> < 1 / 1536" using t by (rule abs_tri) simp
    have "V / pow2 q - of_int m = (V - ?X) / pow2 q" by (simp add: diff_divide_distrib)
    then have "\<bar>V / pow2 q - of_int m\<bar> = \<bar>V - ?X\<bar> / pow2 q" by (simp only: abs_divide abs_of_pos [OF pow2_pos])
    also have "\<dots> < 1 / 2" using near small by (simp add: pos_divide_less_eq)
    finally have n: "rne (V / pow2 q) = m" by (rule rne_unique)
    have lo: "pow2 (q + 23) \<le> V"
    proof -
      have p: "pow2 (q + 23) = of_int (2 ^ nat (q + 23))" using q(1) by (intro pow2_is_int) simp
      have "(2 :: int) ^ nat (q + 23) \<le> 2 ^ 23" using q(2) by (intro power_increasing) simp_all
      then have "dec3 (pow2 (q + 23)) = pow2 (q + 23)" unfolding p by (intro dec3_of_int) simp
      with dec3_mono [OF fl(1)] show ?thesis by (simp add: V_def)
    qed
    have hi: "V < pow2 (q + 24)"
    proof -
      have "of_int (m + 1) \<le> (of_int (2 ^ 24) :: rat)" using m(2) unfolding of_int_le_iff by linarith
      then have "of_int (m + 1) * pow2 q \<le> of_int (2 ^ 24) * pow2 q" by (intro mult_right_mono) (simp_all add: less_imp_le)
      moreover have "of_int (2 ^ 24) * pow2 q = pow2 (q + 24)" by (simp add: pow2_add pow2_def [of 24])
      moreover have "of_int (m + 1) * pow2 q = ?X + pow2 q" by (simp add: distrib_right)
      ultimately have "?X + pow2 q \<le> pow2 (q + 24)" by (simp only:)
      with near small show ?thesis by (auto simp: abs_if split: if_splits)
    qed
    have "flog2 V = q + 23" by (rule flog2_unique) (use lo hi in \<open>simp_all add: add.commute\<close>)
    then have "exp32 V = q" using q(1) by (simp add: exp32_def)
    moreover have "V \<noteq> 0" using less_le_trans [OF pow2_pos lo] by simp
    ultimately have "bits32 V = (q + 149) * 2 ^ 23 + m" using n by (simp add: bits32_def)
    then show ?thesis by (simp add: V_def m_def q_def)
  qed
qed

text \<open>The exponent and the fraction of a finite pattern.\<close>

lemma val32_bounds:
  assumes "0 \<le> e" "e < 255" "0 \<le> f" "f < 2 ^ 23"
  shows "0 \<le> val32 (e * 2 ^ 23 + f)" "val32 (e * 2 ^ 23 + f) \<le> 2 ^ 128"
    and "val32 (e * 2 ^ 23 + f) < 2 ^ 14 \<longleftrightarrow> e < 141"
proof -
  have f: "0 \<le> (of_int f :: rat)" "of_int (2 ^ 23 + f) \<le> (of_int (2 ^ 24) :: rat)" "(of_int f :: rat) < of_int (2 ^ 23)"
    using assms(3,4) unfolding of_int_0_le_iff of_int_le_iff of_int_less_iff by simp_all
  have v: "val32 (e * 2 ^ 23 + f) = (if e = 0 then of_int f * pow2 (- 149) else of_int (2 ^ 23 + f) * pow2 (e - 150))"
    using assms(3,4) by (rule val32_parts)
  show "0 \<le> val32 (e * 2 ^ 23 + f)" unfolding v using f(1) assms(3) by (simp add: less_imp_le)
  have zero: "of_int f * pow2 (- 149) \<le> 1 * 1" if "e = 0"
  proof -
    have "of_int f * pow2 (- 149) \<le> of_int (2 ^ 23) * pow2 (- 149)"
      using less_imp_le [OF f(3)] by (rule mult_right_mono) (simp add: less_imp_le)
    also have "\<dots> \<le> 1 * 1" by (simp add: pow2_def)
    finally show ?thesis .
  qed
  have top: "of_int (2 ^ 23 + f) * pow2 (e - 150) \<le> pow2 (24 + (e - 150))"
  proof -
    have "pow2 (24 + (e - 150)) = of_int (2 ^ 24) * pow2 (e - 150)" unfolding pow2_add by (simp add: pow2_def [of 24])
    with mult_right_mono [OF f(2) less_imp_le [OF pow2_pos], of "e - 150"] show ?thesis by (simp only:)
  qed
  have "pow2 (24 + (e - 150)) \<le> pow2 128" using assms(2) by (intro pow2_mono) simp
  with top zero show "val32 (e * 2 ^ 23 + f) \<le> 2 ^ 128" unfolding v by (auto simp: pow2_def [of 128])
  have "val32 (e * 2 ^ 23 + f) < 2 ^ 14" if "e < 141"
  proof (cases "e = 0")
    case False
    have "of_int (2 ^ 23 + f) < (of_int (2 ^ 24) :: rat)" using assms(4) unfolding of_int_less_iff by simp
    then have "of_int (2 ^ 23 + f) * pow2 (e - 150) < of_int (2 ^ 24) * pow2 (e - 150)" by (rule mult_strict_right_mono) simp
    also have "\<dots> \<le> of_int (2 ^ 24) * pow2 (- 10)" using that by (intro mult_left_mono pow2_mono) simp_all
    finally show ?thesis using False unfolding v by (simp add: pow2_def [of "- 10"])
  next
    case True
    then show ?thesis using zero unfolding v by simp
  qed
  moreover have "\<not> val32 (e * 2 ^ 23 + f) < 2 ^ 14" if "141 \<le> e"
  proof -
    have "of_int (2 ^ 23) * pow2 (- 9) \<le> of_int (2 ^ 23 + f) * pow2 (e - 150)"
      using assms(3) that by (intro mult_mono pow2_mono) (simp_all only: of_int_le_iff, simp_all add: less_imp_le)
    then show ?thesis using that unfolding v by (simp add: pow2_def [of "- 9"])
  qed
  ultimately show "val32 (e * 2 ^ 23 + f) < 2 ^ 14 \<longleftrightarrow> e < 141" by linarith
qed

lemma dec3_finite: "x \<le> 2 ^ 128 \<Longrightarrow> dec3 x < max64"
proof -
  assume "x \<le> 2 ^ 128"
  then have "dec3 x \<le> dec3 (2 ^ 128)" by (rule dec3_mono)
  also have "dec3 (2 ^ 128) < max64" by code_simp
  finally show ?thesis .
qed

text \<open>A pattern rounded to three decimals, packed, unpacked and rounded again.\<close>

lemma pattern_roundtrip:
  fixes w :: "32 word"
  defines "e \<equiv> uint (drop_bit 23 w) mod 256"
  shows "\<exists>w'. pack_float32 (fround 3 (unpack_float32 w)) = Some w' \<and>
    fround 3 (unpack_float32 w') = fround 3 (unpack_float32 w) \<and> (141 \<le> e \<and> e < 255 \<longrightarrow> w' = w)"
proof (cases "e = 255")
  case True
  have "unpack_float32 0x7FC00000 = NaN" "unpack_float32 0x7F800000 = PosInf" "unpack_float32 0xFF800000 = NegInf" by code_simp+
  then show ?thesis using True unfolding unpack_fields e_def [symmetric]
    by (auto simp: finf_def fround_def pack_float32_def)
next
  case False
  define s f where "s = bit w 31" and "f = uint w mod 2 ^ 23"
  note F = fields32 [of w, folded e_def s_def f_def]
  have e: "e < 255" using F(3) False by linarith
  define X V where "X = val32 (e * 2 ^ 23 + f)" and "V = dec3 X"
  note B = val32_bounds [OF F(2) e F(4,5), folded X_def]
  have un: "unpack_float32 w = signed_flt s X"
    using False unfolding unpack_fields e_def [symmetric] f_def [symmetric] s_def [symmetric] X_def by simp
  have V: "fround 3 (signed_flt s X) = signed_flt s V" "0 \<le> V" "V < max64"
    using fround_signed [OF B(1) dec3_finite [OF B(2)]] dec3_nonneg [OF B(1)] dec3_finite [OF B(2)] by (simp_all add: V_def)
  let ?w = "sign32 s + word_of_int (bits32 V)"
  have pack: "pack_float32 (signed_flt s V) = Some ?w" if "bits32 V < 255 * 2 ^ 23" using that pack_signed [OF V(2)] by simp
  show ?thesis
  proof (cases "e < 141")
    case True
    then have D: "bits32 V < 255 * 2 ^ 23" "dec3 (val32 (bits32 V)) = V"
      using dec3_small [OF B(1)] B(3) by (simp_all add: V_def)
    have "0 \<le> val32 (bits32 V)"
      using val32_bits32(2) [OF V(2)] V(2) rne_nonneg [of "V / pow2 (exp32 V)"] by (simp add: less_imp_le)
    then have "fround 3 (unpack_float32 ?w) = signed_flt s V"
      using unpack_pattern [OF val32_bits32(1) [OF V(2)] D(1)] fround_signed [of "val32 (bits32 V)" s] D(2) V(3) by simp
    then show ?thesis using pack [OF D(1)] True un V(1) by simp
  next
    case False
    then have "bits32 V = e * 2 ^ 23 + f"
      using dec3_large [of e f] e F val32_parts [OF F(4,5), of e] by (simp add: V_def X_def)
    moreover have "e * 2 ^ 23 + f < 255 * 2 ^ 23" using e F(5) by simp
    ultimately have "pack_float32 (signed_flt s V) = Some w" using pack F(1) by simp
    then show ?thesis using un V(1) by simp
  qed
qed

lemma ushort_uint: "ushort (uint h) = Inr h"
  using uint_bounded [of h] by (simp add: ushort_def)

lemma exponent_join16: "uint (drop_bit 23 (join16 h l)) = uint (drop_bit 7 h)"
proof -
  have "drop_bit 23 (join16 h l) = ucast (drop_bit 7 h)"
    by (rule bit_word_eqI) (auto simp: join16_def bit_simps dest: bit_imp_le_length)
  moreover have "take_bit 32 (uint (drop_bit 7 h)) = uint (drop_bit 7 h)"
    using uint_bounded [of "drop_bit 7 h"] by (intro take_bit_int_eq_self) auto
  then have "uint (ucast (drop_bit 7 h) :: 32 word) = uint (drop_bit 7 h)" by (simp only: unsigned_ucast_eq) simp
  ultimately show ?thesis by simp
qed

lemma decode_float32: "is_float32_pair mapping \<Longrightarrow>
   decode_registers [uint h, uint l] mapping = Inr (VFloat (fround 3 (unpack_float32 (join16 h l))))"
  by (simp add: decode_registers_def reg_at_def ushort_uint)

lemma encode_float32: "is_float32_pair mapping \<Longrightarrow> pack_float32 f = Some w \<Longrightarrow>
   encode_value_to_registers (VFloat f) mapping = Inr [uint (high16 w), uint (low16 w)]"
  by (simp add: encode_value_to_registers_def Let_def)

subsection \<open>Properties\<close>

text \<open>C30: A register that is read and written back keeps its value: for an unsigned or signed 16-bit mapping whose scale lies between 0.01 and 1, decoding a register and encoding the snapshot value again returns the register.\<close>

theorem register_roundtrip:
  assumes "0 \<le> k" "k < 2 ^ 16"
    and "map_dtype mapping \<in> {VStr ''uint16'', VStr ''int16''}"
    and "dget mapping ''scale'' = Some (VFloat s)" "is_finite s" "1/100 \<le> fval s" "fval s \<le> 1"
  shows "\<exists>v. decode_registers [k] mapping = Inr v \<and> encode_value_to_registers v mapping = Inr [k]"
proof -
  have nf: "\<not> is_float32_pair mapping" using assms(3) by (auto simp: is_float32_pair_def)
  define x where "x = (if py_eq (map_dtype mapping) (VStr ''int16'') \<and> 32767 < k then k - 65536 else k)"
  have "\<bar>x\<bar> \<le> 65536" using assms(1,2) by (simp add: x_def)
  then obtain z where z: "nmul (NI x) (NF s) = Inr (NF z)" "is_finite (fround 3 z)"
      "flt_round (fdiv (fround 3 z) s) = Inr x"
    using scale_roundtrip [OF assms(5-7)] by blast
  have d: "decode_registers [k] mapping = Inr (VFloat (fround 3 z))"
    using nf assms(4) z(1) by (simp add: decode_registers_def reg_at_def arith_op_def Let_def flip: x_def)
  have s0: "fval s \<noteq> 0" using assms(6) by auto
  have "ndiv (NF (fround 3 z)) (NF s) = Inr (NF (fdiv (fround 3 z) s))"
    using assms(5) s0 by (rule ndiv_finite)
  moreover have "py_float (VFloat (fround 3 z)) = Inr (fround 3 z)" by simp
  ultimately have "encode_value_to_registers (VFloat (fround 3 z)) mapping =
      Inr [if py_eq (map_dtype mapping) (VStr ''int16'') \<and> x < 0 then 2 ^ 16 + x else x]"
    using nf assms(4,5) s0 z(3) num_eq_zero [OF assms(5)]
    by (simp add: encode_value_to_registers_def dget_or_def Let_def arith_op_def unhashable_def)
  moreover have "(if py_eq (map_dtype mapping) (VStr ''int16'') \<and> x < 0 then 2 ^ 16 + x else x) = k"
    using assms(1,2) by (auto simp: x_def)
  ultimately show ?thesis using d by simp
qed

definition pressure_mapping :: "pv dict" where
  "pressure_mapping = [(''field'', VStr ''pressure''), (''register'', VInt 1), (''scale'', VFloat (mk_flt False (1/100)))]"

theorem register_roundtrip_witness:
  "\<exists>v. decode_registers [150] pressure_mapping = Inr v \<and> encode_value_to_registers v pressure_mapping = Inr [150]"
proof (rule register_roundtrip)
  show "map_dtype pressure_mapping \<in> {VStr ''uint16'', VStr ''int16''}"
    by (simp add: map_dtype_def pressure_mapping_def dget_or_def)
  show "dget pressure_mapping ''scale'' = Some (VFloat (mk_flt False (1/100)))"
    by (simp add: pressure_mapping_def)
  show "is_finite (mk_flt False (1/100))" by code_simp
  show "1/100 \<le> fval (mk_flt False (1/100))" by code_simp
  show "fval (mk_flt False (1/100)) \<le> 1" by code_simp
qed simp_all

text \<open>C31: A float32 field of two registers that is read, written back and read again has the same value: whatever the two registers hold, infinities and NaN included, the value decoded from them, rounded to three decimals as it is, is encoded without error, and the registers it is encoded to are decoded to that value; the registers themselves are the same when the value is finite and its magnitude is 16384 or more (an exponent of 141 to 254), where three decimals lose nothing.\<close>

theorem float_field_roundtrip:
  fixes h l :: "16 word"
  assumes "is_float32_pair mapping"
  shows "\<exists>v registers. decode_registers [uint h, uint l] mapping = Inr v \<and>
    encode_value_to_registers v mapping = Inr registers \<and> decode_registers registers mapping = Inr v \<and>
    (141 \<le> uint (drop_bit 7 h) mod 256 \<and> uint (drop_bit 7 h) mod 256 < 255 \<longrightarrow> registers = [uint h, uint l])"
proof -
  let ?v = "fround 3 (unpack_float32 (join16 h l))"
  obtain w' where w': "pack_float32 ?v = Some w'" "fround 3 (unpack_float32 w') = ?v"
    "141 \<le> uint (drop_bit 7 h) mod 256 \<and> uint (drop_bit 7 h) mod 256 < 255 \<longrightarrow> w' = join16 h l"
    using pattern_roundtrip [of "join16 h l", unfolded exponent_join16] by blast
  have "decode_registers [uint (high16 w'), uint (low16 w')] mapping = Inr (VFloat ?v)"
    using decode_float32 [OF assms] w'(2) by simp
  then show ?thesis using decode_float32 [OF assms, of h l] encode_float32 [OF assms w'(1)] w'(3) by auto
qed

definition level_mapping :: "pv dict" where
  "level_mapping = [(''field'', VStr ''level''), (''data_type'', VStr ''float32''), (''register_count'', VInt 2)]"

theorem float_field_roundtrip_witness:
  "\<exists>v registers. decode_registers [0x4049, 0x0FDB] level_mapping = Inr v \<and>
    encode_value_to_registers v level_mapping = Inr registers \<and> decode_registers registers level_mapping = Inr v"
proof -
  have "is_float32_pair level_mapping" by code_simp
  from float_field_roundtrip [OF this, of "0x4049" "0x0FDB"] show ?thesis by auto
qed

text \<open>Below 16384 the registers may change: those of pi come back as those of 3.142.\<close>

theorem float_field_rounded:
  "bindR (decode_registers [0x4049, 0x0FDB] level_mapping) (\<lambda>v. encode_value_to_registers v level_mapping) = Inr [0x4049, 0x1687]"
  by code_simp

end
