(* ===== verification/PlcAdapter.thy ===== *)
theory PlcAdapter
  imports PlcCodec
begin

section \<open>The PLC adapter (apps/plc_adapter/service.py)\<close>

text \<open>
  The one owner of the PLC connections: its state is the record \<open>plc\<close>, with the registry of
  connections, the two asset maps of the configuration, the virtual assets and, as \<open>pl_dev\<close>,
  what lies behind pymodbus.  The client calls of pymodbus are the operations \<open>modbus_ops\<close>;
  each may raise.  A connection's lock makes each operation on it atomic, so operations are
  functions of the state.  Register numbers and counts are integers.  The lemmas: an action
  list is executed at most twice, absolute writes make the second time harmless, and the
  virtual asset is a register file.
\<close>

record mconn =
  mc_host :: pv
  mc_port :: pv
  mc_client :: bool
  mc_connected :: bool
  mc_last_error :: "string option"

record virtual_asset =
  va_register_image :: "(int \<times> int) list"
  va_runtime_context :: "pv dict"
  va_last_preload_ms :: int

record exec_asset =
  ea_executor_name :: string
  ea_connection_key :: string
  ea_action_mappings :: pv
  ea_safe_state_actions :: pv

record 'd plc =
  pl_connections :: "mconn dict"
  pl_sensor_assets :: "pv dict"
  pl_sensor_asset_connections :: "string dict"
  pl_executor_assets :: "exec_asset dict"
  pl_virtual_assets :: "virtual_asset dict"
  pl_initialized :: bool
  pl_dev :: 'd

datatype modbus_reply = MbError string | MbRegisters "int list"

record 'd modbus_ops =
  mb_connect :: "pv \<Rightarrow> pv \<Rightarrow> ('d, bool) eff"
  mb_close :: "string \<Rightarrow> ('d, unit) eff"
  mb_read :: "string \<Rightarrow> pv \<Rightarrow> pv \<Rightarrow> ('d, modbus_reply) eff"
  mb_write_register :: "string \<Rightarrow> pv \<Rightarrow> int \<Rightarrow> ('d, modbus_reply) eff"
  mb_write_registers :: "string \<Rightarrow> pv \<Rightarrow> pv \<Rightarrow> ('d, modbus_reply) eff"

text \<open>Whether pymodbus can be imported, and the two configuration files as they load.\<close>

record plc_env =
  pe_pymodbus :: bool
  pe_sensor_config :: "pv res"
  pe_executor_config :: "pv res"

definition plc0 :: "'d \<Rightarrow> 'd plc" where
  "plc0 d = \<lparr> pl_connections = [], pl_sensor_assets = [], pl_sensor_asset_connections = [],
     pl_executor_assets = [], pl_virtual_assets = [], pl_initialized = False, pl_dev = d \<rparr>"

definition devE :: "('d, 'a) eff \<Rightarrow> ('d plc, 'a) eff" where
  "devE op s = (let (r, d) = op (pl_dev s) in (r, s\<lparr> pl_dev := d \<rparr>))"

definition virtual_key :: "string \<Rightarrow> string" where
  "virtual_key asset_id = ''virtual:'' @ asset_id"

definition key_error :: "string \<Rightarrow> ('s, 'a) eff" where
  "key_error m = throwE KeyError (str_repr m)"

subsection \<open>Loading the configuration\<close>

definition ensure_connection :: "pv \<Rightarrow> pv \<Rightarrow> ('d plc, string) eff" where
  "ensure_connection host port =
     (let key = py_str host @ '':'' @ py_str port in
      bindE (modE (\<lambda>s. if dhas (pl_connections s) key then s
              else s\<lparr> pl_connections := dset key \<lparr> mc_host = host, mc_port = port, mc_client = False,
                        mc_connected = False, mc_last_error = None \<rparr> (pl_connections s) \<rparr>))
        (\<lambda>_. retE key))"

definition load_sensor_assets :: "pv \<Rightarrow> ('d plc, unit) eff" where
  "load_sensor_assets sensor_config =
     bindE (liftE (py_get sensor_config ''modbus'' (VDict []))) (\<lambda>modbus_config.
     bindE (liftE (py_get modbus_config ''host'' VNone)) (\<lambda>default_host.
     bindE (liftE (py_get modbus_config ''port'' VNone)) (\<lambda>default_port.
       if \<not> truthy default_host \<or> \<not> truthy default_port
       then throwE RuntimeError ''sensor_mappings.yaml must define modbus.host and modbus.port''
       else bindE (liftE (bindR (py_get sensor_config ''assets'' (VDict [])) py_items)) (\<lambda>assets.
         eachE (\<lambda>(asset_id, asset_config).
           bindE (liftE (py_get asset_config ''source'' VNone)) (\<lambda>source.
             if \<not> py_eq source (VStr ''modbus'') then retE ()
             else bindE (ensure_connection default_host default_port) (\<lambda>connection_key.
               modE (\<lambda>s. s\<lparr> pl_sensor_assets := dset asset_id asset_config (pl_sensor_assets s),
                 pl_sensor_asset_connections := dset asset_id connection_key (pl_sensor_asset_connections s) \<rparr>)))) assets))))"

definition load_executor_asset :: "pv \<Rightarrow> string \<Rightarrow> pv \<Rightarrow> ('d plc, unit) eff" where
  "load_executor_asset executors asset_id executor_name =
     bindE (liftE (py_getv executors executor_name (VDict []))) (\<lambda>executor_conf.
     bindE (liftE (py_get executor_conf ''type'' VNone)) (\<lambda>etype.
       if unhashable etype then liftE (unhashable_error etype)
       else if \<not> py_eq etype (VStr ''modbus'') \<and> \<not> py_eq etype (VStr ''plc_adapter'') then retE ()
       else
     bindE (liftE (py_get executor_conf ''config'' (VDict []))) (\<lambda>runtime_config.
     bindE (liftE (py_get runtime_config ''host'' VNone)) (\<lambda>host.
     bindE (liftE (py_get runtime_config ''port'' VNone)) (\<lambda>port.
       if \<not> truthy host \<or> \<not> truthy port
       then throwE RuntimeError (''executor_mappings.yaml executor '' @ quoted (py_str executor_name)
              @ '' must define host and port'')
       else
     bindE (ensure_connection host port) (\<lambda>connection_key.
     bindE (liftE (bindR (py_get runtime_config ''action_mappings'' (VDict [])) (\<lambda>m. py_get m asset_id (VDict [])))) (\<lambda>maps.
     bindE (liftE (bindR (py_get runtime_config ''safe_state_actions'' (VDict [])) (\<lambda>m. py_get m asset_id (VList [])))) (\<lambda>safe.
       modE (\<lambda>s. s\<lparr> pl_executor_assets := dset asset_id
         \<lparr> ea_executor_name = py_str executor_name, ea_connection_key = connection_key,
           ea_action_mappings = maps, ea_safe_state_actions = safe \<rparr> (pl_executor_assets s) \<rparr>)))))))))"

definition load_executor_assets :: "pv \<Rightarrow> ('d plc, unit) eff" where
  "load_executor_assets executor_config =
     bindE (liftE (py_get executor_config ''executors'' (VDict []))) (\<lambda>executors.
     bindE (liftE (bindR (py_get executor_config ''asset_map'' (VDict [])) py_items)) (\<lambda>asset_map.
       eachE (\<lambda>(asset_id, executor_name). load_executor_asset executors asset_id executor_name) asset_map))"

definition plc_initialize :: "plc_env \<Rightarrow> ('d plc, unit) eff" where
  "plc_initialize env = bindE (getE pl_initialized) (\<lambda>ready.
     if ready then retE ()
     else if \<not> pe_pymodbus env then throwE RuntimeError ''pymodbus not installed''
     else bindE (liftE (pe_sensor_config env)) (\<lambda>sensor_config.
          bindE (liftE (pe_executor_config env)) (\<lambda>executor_config.
          bindE (load_sensor_assets sensor_config) (\<lambda>_.
          bindE (load_executor_assets executor_config) (\<lambda>_.
          modE (\<lambda>s. s\<lparr> pl_initialized := True \<rparr>))))))"

definition ensure_initialized :: "plc_env \<Rightarrow> ('d plc, unit) eff" where
  "ensure_initialized env = bindE (getE pl_initialized) (\<lambda>ready. if ready then retE () else plc_initialize env)"

subsection \<open>Connections\<close>

definition set_conn :: "string \<Rightarrow> (mconn \<Rightarrow> mconn) \<Rightarrow> ('d plc, unit) eff" where
  "set_conn key f = modE (\<lambda>s. case dget (pl_connections s) key of None \<Rightarrow> s
     | Some c \<Rightarrow> s\<lparr> pl_connections := dset key (f c) (pl_connections s) \<rparr>)"

definition get_connection :: "string \<Rightarrow> ('d plc, mconn) eff" where
  "get_connection key = bindE (getE (\<lambda>s. dget (pl_connections s) key)) (\<lambda>c. case c of
     None \<Rightarrow> throwE RuntimeError (''Unknown PLC connection '' @ quoted key)
   | Some c \<Rightarrow> retE c)"

text \<open>\<open>client.close()\<close>, its errors ignored.\<close>

definition close_client :: "'d modbus_ops \<Rightarrow> string \<Rightarrow> ('d plc, unit) eff" where
  "close_client ops key = bindE (get_connection key) (\<lambda>c.
     if mc_client c then tryE (devE (mb_close ops key)) (\<lambda>e. retE ()) else retE ())"

definition connect :: "'d modbus_ops \<Rightarrow> string \<Rightarrow> ('d plc, unit) eff" where
  "connect ops key =
     bindE (close_client ops key) (\<lambda>_.
     bindE (set_conn key (\<lambda>c. c\<lparr> mc_client := True \<rparr>)) (\<lambda>_.
     bindE (get_connection key) (\<lambda>c.
     bindE (devE (mb_connect ops (mc_host c) (mc_port c))) (\<lambda>connected.
       if \<not> connected
       then bindE (set_conn key (\<lambda>c. c\<lparr> mc_connected := False, mc_last_error := Some (''Failed to connect to '' @ key) \<rparr>)) (\<lambda>_.
            throwE ConnectionError (''Failed to connect to '' @ key))
       else set_conn key (\<lambda>c. c\<lparr> mc_connected := True, mc_last_error := None \<rparr>)))))"

definition mark_connection_failed :: "'d modbus_ops \<Rightarrow> string \<Rightarrow> exc \<Rightarrow> ('d plc, unit) eff" where
  "mark_connection_failed ops key error =
     bindE (set_conn key (\<lambda>c. c\<lparr> mc_connected := False, mc_last_error := Some (exc_msg error) \<rparr>)) (\<lambda>_.
     bindE (close_client ops key) (\<lambda>_.
     set_conn key (\<lambda>c. c\<lparr> mc_client := False \<rparr>)))"

definition run_with_recovery :: "'d modbus_ops \<Rightarrow> string \<Rightarrow> ('d plc, 'a) eff \<Rightarrow> ('d plc, 'a) eff" where
  "run_with_recovery ops key fn =
     bindE (get_connection key) (\<lambda>c.
     bindE (if \<not> mc_connected c \<or> \<not> mc_client c then connect ops key else retE ()) (\<lambda>_.
     tryE fn (\<lambda>first_error.
       bindE (mark_connection_failed ops key first_error) (\<lambda>_.
       bindE (connect ops key) (\<lambda>_.
       tryE fn (\<lambda>second_error.
         bindE (mark_connection_failed ops key second_error) (\<lambda>_. rethrowE second_error)))))))"

subsection \<open>Snapshots\<close>

text \<open>\<open>mapping["register"] + offset\<close>\<close>

definition reg_plus :: "pv \<Rightarrow> int \<Rightarrow> int res" where
  "reg_plus v offset = (case num_of v of
     Some (NI i) \<Rightarrow> Inr (i + offset)
   | Some (NF (Fin r)) \<Rightarrow> if of_int \<lfloor>r\<rfloor> = r then Inr (\<lfloor>r\<rfloor> + offset) else raise TypeError ''register number is not an integer''
   | _ \<Rightarrow> raise TypeError (''unsupported operand type(s) for +: '' @ quoted (type_name v) @ '' and '' @ quoted ''int''))"

function merge_dicts :: "pv dict \<Rightarrow> pv dict \<Rightarrow> pv dict" where
  "merge_dicts merged [] = merged"
| "merge_dicts merged ((key, value) # rest) =
     merge_dicts (dset key (case (dget merged key, value) of
        (Some (VDict b), VDict c) \<Rightarrow> VDict (merge_dicts b c) | _ \<Rightarrow> value) merged) rest"
  by pat_completeness auto
termination by (relation "measure (\<lambda>(b, c). size_list (size_prod (\<lambda>x. 0) size) c)") auto

definition overlay_snapshot :: "virtual_asset \<Rightarrow> pv dict \<Rightarrow> pv dict" where
  "overlay_snapshot runtime snapshot0 =
     (let snapshot = (if dhas snapshot0 ''position_x'' \<and> dhas snapshot0 ''position_y'' \<and> \<not> dhas snapshot0 ''agv_01''
            then dset ''agv_01'' (VDict [(''x'', dget_or snapshot0 ''position_x'' (VInt 0)),
                                         (''y'', dget_or snapshot0 ''position_y'' (VInt 0))]) snapshot0
            else snapshot0) in
      case dget (va_runtime_context runtime) ''sensor_state_overlay'' of
        Some (VDict overlay) \<Rightarrow> merge_dicts snapshot overlay
      | _ \<Rightarrow> snapshot)"

definition read_field :: "virtual_asset \<Rightarrow> pv \<Rightarrow> pv dict \<Rightarrow> pv dict res" where
  "read_field runtime mapping snapshot =
     bindR (py_get mapping ''register_count'' (VInt 1)) (\<lambda>count.
     bindR (py_range count) (\<lambda>offsets.
     bindR (mapR (\<lambda>offset. bindR (py_getitem mapping ''register'') (\<lambda>r. bindR (reg_plus r offset) (\<lambda>i.
              Inr (case map_of (va_register_image runtime) i of None \<Rightarrow> 0 | Some x \<Rightarrow> x)))) offsets) (\<lambda>registers.
     bindR (decode_registers registers (as_dict mapping)) (\<lambda>v.
     bindR (py_getitem mapping ''field'') (\<lambda>f. Inr (dset (py_str f) v snapshot))))))"

definition read_virtual_snapshot :: "string \<Rightarrow> ('d plc, pv dict) eff" where
  "read_virtual_snapshot asset_id =
     bindE (getE (\<lambda>s. (dget (pl_virtual_assets s) asset_id, dget (pl_sensor_assets s) asset_id))) (\<lambda>p. case p of
       (Some runtime, Some sensor_asset) \<Rightarrow>
         if sensor_asset = VNone then key_error (''No virtual PLC runtime configured for asset '' @ asset_id)
         else liftE (bindR (bindR (py_get sensor_asset ''mappings'' (VList [])) py_iter) (\<lambda>mappings.
           bindR (foldR (read_field runtime) mappings []) (\<lambda>snapshot. Inr (overlay_snapshot runtime snapshot))))
     | _ \<Rightarrow> key_error (''No virtual PLC runtime configured for asset '' @ asset_id))"

definition encode_fields :: "pv dict \<Rightarrow> pv \<Rightarrow> (int \<times> int) list \<Rightarrow> (int \<times> int) list res" where
  "encode_fields initial_state mapping image0 =
     bindR (py_getitem mapping ''field'') (\<lambda>f.
     bindR (py_getv (VDict initial_state) f (VFloat (Fin 0))) (\<lambda>value.
     bindR (encode_value_to_registers value (as_dict mapping)) (\<lambda>encoded.
     foldR (\<lambda>(offset, raw) img. bindR (py_getitem mapping ''register'') (\<lambda>r. bindR (reg_plus r offset) (\<lambda>i.
              Inr (AList.update i raw img)))) (zip (map int [0..<length encoded]) encoded) image0)))"

record preload_result =
  pp_asset_id :: string
  pp_runtime_id :: pv
  pp_connection_key :: string
  pp_current_state :: "pv dict"

definition plc_preload_runtime ::
  "plc_env \<Rightarrow> int \<Rightarrow> string \<Rightarrow> pv dict option \<Rightarrow> pv dict option \<Rightarrow> ('d plc, preload_result) eff" where
  "plc_preload_runtime env now asset_id runtime_context initial_state =
     bindE (ensure_initialized env) (\<lambda>_.
     bindE (getE (\<lambda>s. (dget (pl_sensor_assets s) asset_id, dget (pl_executor_assets s) asset_id))) (\<lambda>p. case p of
       (Some sensor_asset, Some executor_asset) \<Rightarrow>
         if \<not> truthy sensor_asset then key_error (''No PLC mapping configured for asset '' @ asset_id)
         else
         bindE (liftE (bindR (py_get sensor_asset ''mappings'' (VList [])) py_iter)) (\<lambda>mappings.
         bindE (liftE (foldR (encode_fields (case initial_state of None \<Rightarrow> [] | Some d \<Rightarrow> d)) mappings [])) (\<lambda>image0.
         bindE (modE (\<lambda>s. s\<lparr> pl_virtual_assets := dset asset_id
           \<lparr> va_register_image = image0, va_runtime_context = (case runtime_context of None \<Rightarrow> [] | Some c \<Rightarrow> c),
             va_last_preload_ms = now \<rparr> (pl_virtual_assets s) \<rparr>)) (\<lambda>_.
         bindE (read_virtual_snapshot asset_id) (\<lambda>snapshot.
         retE \<lparr> pp_asset_id = asset_id,
                pp_runtime_id = vget (case runtime_context of None \<Rightarrow> [] | Some c \<Rightarrow> c) ''runtime_id'',
                pp_connection_key = virtual_key asset_id, pp_current_state = snapshot \<rparr>))))
     | _ \<Rightarrow> key_error (''No PLC mapping configured for asset '' @ asset_id)))"

text \<open>The reads of one snapshot over a connection; the error text of a mapping is \<open>f\<close> and \<open>r\<close> as they print.\<close>

definition read_device_field :: "'d modbus_ops \<Rightarrow> string \<Rightarrow> string \<Rightarrow> pv \<Rightarrow> pv dict \<Rightarrow> ('d plc, pv dict) eff" where
  "read_device_field ops key asset_id mapping snapshot =
     bindE (liftE (py_getitem mapping ''register'')) (\<lambda>register.
     bindE (liftE (py_get mapping ''register_count'' (VInt 1))) (\<lambda>count.
     bindE (devE (mb_read ops key register count)) (\<lambda>result. case result of
         MbError m \<Rightarrow> bindE (liftE (py_getitem mapping ''field'')) (\<lambda>f.
           throwE RuntimeError (''Modbus read error for asset='' @ asset_id @ '' field='' @ py_str f
             @ '' register='' @ py_str register @ '': '' @ m))
       | MbRegisters registers \<Rightarrow>
           bindE (liftE (decode_registers registers (as_dict mapping))) (\<lambda>v.
           bindE (liftE (py_getitem mapping ''field'')) (\<lambda>f. retE (dset (py_str f) v snapshot))))))"

definition plc_read_snapshot :: "plc_env \<Rightarrow> 'd modbus_ops \<Rightarrow> string \<Rightarrow> ('d plc, pv dict \<times> string) eff" where
  "plc_read_snapshot env ops asset_id =
     bindE (ensure_initialized env) (\<lambda>_.
     bindE (getE (\<lambda>s. dget_or (pl_sensor_assets s) asset_id VNone)) (\<lambda>asset_config.
       if \<not> truthy asset_config then key_error (''No PLC sensor mapping configured for asset '' @ asset_id)
       else
     bindE (getE (\<lambda>s. dhas (pl_virtual_assets s) asset_id)) (\<lambda>virtual.
       if virtual then bindE (read_virtual_snapshot asset_id) (\<lambda>snapshot. retE (snapshot, virtual_key asset_id))
       else
     bindE (getE (\<lambda>s. dget (pl_sensor_asset_connections s) asset_id)) (\<lambda>k. case k of
         None \<Rightarrow> key_error asset_id
       | Some key \<Rightarrow>
     bindE (get_connection key) (\<lambda>_.
     bindE (liftE (py_get asset_config ''mappings'' (VList []))) (\<lambda>mappings.
     bindE (run_with_recovery ops key (bindE (liftE (py_iter mappings)) (\<lambda>ms.
              foldE (read_device_field ops key asset_id) ms []))) (\<lambda>snapshot.
     retE (snapshot, key))))))))"

subsection \<open>Actions\<close>

definition normalize_actions :: "string \<Rightarrow> pv dict \<Rightarrow> pv \<Rightarrow> pv list res" where
  "normalize_actions asset_id action action_mappings =
     (if dhas action ''type'' \<and> dhas action ''register'' then Inr [VDict action]
      else (let action_type = dget_or action ''action_type'' (VStr []); params = dget_or action ''params'' (VDict []) in
        bindR (py_getv action_mappings action_type (VList [])) (\<lambda>mappings.
          if \<not> truthy mappings
          then bindR (py_keys action_mappings) (\<lambda>ks.
            raise ValueError (''No action_mapping found for asset='' @ asset_id @ '', action_type='' @ py_str action_type
              @ ''. Available='' @ py_str (VList ks)))
          else bindR (py_iter mappings) (\<lambda>ms.
            mapR (\<lambda>mapping.
              bindR (py_getitem mapping ''param'') (\<lambda>param_name.
              bindR (pv_in param_name params) (\<lambda>present.
                if \<not> present
                then bindR (py_keys params) (\<lambda>ks.
                  raise ValueError (''Action param '' @ quoted (py_str param_name) @ '' not found for asset='' @ asset_id
                    @ '', action_type='' @ py_str action_type @ ''. Params='' @ py_str (VList ks)))
                else
                  bindR (py_getitem mapping ''register'') (\<lambda>register.
                  bindR (py_getitem params (py_str param_name)) (\<lambda>p.
                  bindR (py_float p) (\<lambda>f.
                  bindR (py_get mapping ''scale'' (VFloat (Fin 1))) (\<lambda>scale.
                  bindR (arith_op ''*'' nmul (VFloat f) scale) (\<lambda>x.
                  bindR (py_int (of_num x)) (\<lambda>value.
                  Inr (VDict [(''type'', VStr ''write_register''), (''register'', register), (''value'', VInt value)])))))))))) ms))))"

definition missing_register :: "pv \<Rightarrow> ('s, 'a) eff" where
  "missing_register action = throwE ValueError (''Missing register in action: '' @ py_str action)"

definition execute_low_level_action :: "'d modbus_ops \<Rightarrow> string \<Rightarrow> string \<Rightarrow> pv \<Rightarrow> ('d plc, unit) eff" where
  "execute_low_level_action ops key asset_id action =
     bindE (liftE (py_get action ''type'' VNone)) (\<lambda>action_type.
     bindE (liftE (py_get action ''register'' VNone)) (\<lambda>register.
       if register = VNone then missing_register action
       else
     bindE (if py_eq action_type (VStr ''write_register'') then
              bindE (liftE (py_get action ''value'' VNone)) (\<lambda>value.
                if value = VNone then throwE ValueError (''Missing value in action: '' @ py_str action)
                else bindE (liftE (py_int value)) (\<lambda>i. devE (mb_write_register ops key register i)))
            else if py_eq action_type (VStr ''write_registers'') then
              bindE (liftE (py_get action ''values'' VNone)) (\<lambda>values.
                if values = VNone then throwE ValueError (''Missing values in action: '' @ py_str action)
                else devE (mb_write_registers ops key register values))
            else throwE ValueError (''Unsupported action type: '' @ py_str action_type)) (\<lambda>result. case result of
         MbError m \<Rightarrow> throwE RuntimeError (''Modbus write error for asset='' @ asset_id @ '' register=''
                        @ py_str register @ '': '' @ m)
       | MbRegisters rs \<Rightarrow> retE ())))"

definition write_image :: "string \<Rightarrow> int \<Rightarrow> int \<Rightarrow> ('d plc, unit) eff" where
  "write_image asset_id register value = modE (\<lambda>s. case dget (pl_virtual_assets s) asset_id of None \<Rightarrow> s
     | Some v \<Rightarrow> s\<lparr> pl_virtual_assets := dset asset_id
         (v\<lparr> va_register_image := AList.update register value (va_register_image v) \<rparr>) (pl_virtual_assets s) \<rparr>)"

definition apply_low_level_action_to_virtual :: "string \<Rightarrow> pv \<Rightarrow> ('d plc, unit) eff" where
  "apply_low_level_action_to_virtual asset_id action =
     bindE (getE (\<lambda>s. dhas (pl_virtual_assets s) asset_id)) (\<lambda>virtual.
       if \<not> virtual then key_error (''No virtual PLC runtime configured for asset '' @ asset_id)
       else
     bindE (liftE (py_get action ''register'' VNone)) (\<lambda>register.
       if register = VNone then missing_register action
       else
     bindE (liftE (py_get action ''type'' VNone)) (\<lambda>action_type.
       if py_eq action_type (VStr ''write_register'') then
         bindE (liftE (py_get action ''value'' VNone)) (\<lambda>value.
           if value = VNone then throwE ValueError (''Missing value in action: '' @ py_str action)
           else bindE (liftE (py_int value)) (\<lambda>v. bindE (liftE (py_int register)) (\<lambda>r. write_image asset_id r v)))
       else if py_eq action_type (VStr ''write_registers'') then
         bindE (liftE (py_get action ''values'' VNone)) (\<lambda>values.
           if values = VNone then throwE ValueError (''Missing values in action: '' @ py_str action)
           else bindE (liftE (py_iter values)) (\<lambda>vs.
             eachE (\<lambda>(offset, raw_value). bindE (liftE (py_int raw_value)) (\<lambda>v.
                      bindE (liftE (py_int register)) (\<lambda>r. write_image asset_id (r + offset) v)))
               (zip (map int [0..<length vs]) vs)))
       else throwE ValueError (''Unsupported action type: '' @ py_str action_type))))"

text \<open>An attempt with its outcome: success, the text of the failure, the connection.\<close>

definition attempt :: "string \<Rightarrow> ('d plc, unit) eff \<Rightarrow> ('d plc, bool \<times> string option \<times> string) eff" where
  "attempt key m = tryE (bindE m (\<lambda>_. retE (True, None, key))) (\<lambda>e. retE (False, Some (exc_msg e), key))"

definition plc_execute_actions ::
  "plc_env \<Rightarrow> 'd modbus_ops \<Rightarrow> string \<Rightarrow> pv dict list \<Rightarrow> ('d plc, bool \<times> string option \<times> string) eff" where
  "plc_execute_actions env ops asset_id action_sequence =
     bindE (ensure_initialized env) (\<lambda>_.
     bindE (getE (\<lambda>s. dget (pl_executor_assets s) asset_id)) (\<lambda>conf. case conf of
         None \<Rightarrow> key_error (''No PLC executor mapping configured for asset '' @ asset_id)
       | Some asset_config \<Rightarrow>
     bindE (get_connection (ea_connection_key asset_config)) (\<lambda>_.
     bindE (getE (\<lambda>s. dhas (pl_virtual_assets s) asset_id)) (\<lambda>virtual.
       (let key = ea_connection_key asset_config;
            each = (\<lambda>perform. eachE (\<lambda>action.
              bindE (liftE (normalize_actions asset_id action (ea_action_mappings asset_config))) (eachE perform))
                action_sequence) in
        if virtual then attempt (virtual_key asset_id) (each (apply_low_level_action_to_virtual asset_id))
        else attempt key (run_with_recovery ops key (each (execute_low_level_action ops key asset_id))))))))"

definition plc_safe_state :: "plc_env \<Rightarrow> 'd modbus_ops \<Rightarrow> string \<Rightarrow> ('d plc, bool \<times> string option \<times> string) eff" where
  "plc_safe_state env ops asset_id =
     bindE (ensure_initialized env) (\<lambda>_.
     bindE (getE (\<lambda>s. dget (pl_executor_assets s) asset_id)) (\<lambda>conf. case conf of
         None \<Rightarrow> key_error (''No PLC executor mapping configured for asset '' @ asset_id)
       | Some asset_config \<Rightarrow>
         if \<not> truthy (ea_safe_state_actions asset_config)
         then throwE RuntimeError (''No safe state actions configured for asset '' @ asset_id)
         else
     bindE (getE (\<lambda>s. dhas (pl_virtual_assets s) asset_id)) (\<lambda>virtual.
       (let key = ea_connection_key asset_config;
            each = (\<lambda>perform. bindE (liftE (py_iter (ea_safe_state_actions asset_config))) (eachE perform)) in
        if virtual then attempt (virtual_key asset_id) (each (apply_low_level_action_to_virtual asset_id))
        else bindE (get_connection key) (\<lambda>_.
          attempt key (run_with_recovery ops key (each (execute_low_level_action ops key asset_id))))))))"

subsection \<open>Health and shutdown\<close>

record connection_health =
  ch_connection_key :: string
  ch_connected :: bool
  ch_last_error :: "string option"
  ch_virtual :: "string option"

definition plc_get_health :: "plc_env \<Rightarrow> ('d plc, string \<times> connection_health list) eff" where
  "plc_get_health env = bindE (ensure_initialized env) (\<lambda>_. getE (\<lambda>s.
     (let connections = map (\<lambda>(key, c). \<lparr> ch_connection_key = key, ch_connected = mc_connected c,
            ch_last_error = mc_last_error c, ch_virtual = None \<rparr>) (pl_connections s);
          virtual_assets = map (\<lambda>(a, v). \<lparr> ch_connection_key = virtual_key a, ch_connected = True,
            ch_last_error = None, ch_virtual = Some a \<rparr>) (pl_virtual_assets s);
          everything = connections @ virtual_assets;
          status = (if everything = [] then ''ERROR''
                    else if list_ex (\<lambda>c. ch_last_error c \<noteq> None \<and> ch_last_error c \<noteq> Some []) everything
                    then ''DEGRADED'' else ''OK'')
      in (status, everything))))"

definition plc_shutdown :: "'d modbus_ops \<Rightarrow> ('d plc, unit) eff" where
  "plc_shutdown ops = bindE (getE (\<lambda>s. dkeys (pl_connections s))) (\<lambda>keys.
     bindE (eachE (\<lambda>key. bindE (close_client ops key) (\<lambda>_.
        set_conn key (\<lambda>c. c\<lparr> mc_client := False, mc_connected := False \<rparr>))) keys) (\<lambda>_.
     modE (\<lambda>s. s\<lparr> pl_virtual_assets := [], pl_initialized := False \<rparr>)))"

end
