(* ===== verification/PlcWrites.thy ===== *)
theory PlcWrites
  imports PlcAdapter
begin

section \<open>What the writes of the PLC adapter do\<close>

text \<open>
  The contract of a register file, with the virtual asset as the instance the code provides,
  and the effect of an action list on the registers: on a real connection, where the recovery
  may run a list twice, and on a virtual asset.
\<close>

subsection \<open>A register file\<close>

fun apply_writes :: "(int \<times> int) list \<Rightarrow> (int \<Rightarrow> int) \<Rightarrow> int \<Rightarrow> int" where
  "apply_writes [] m = m"
| "apply_writes ((r, v) # ws) m = apply_writes ws (m(r := v))"

lemma apply_writes_agree:
  "(\<And>q. q \<notin> fst ` set ws \<Longrightarrow> m q = n q) \<Longrightarrow> apply_writes ws m = apply_writes ws n"
proof (induction ws arbitrary: m n)
  case (Cons w ws)
  obtain r v where w: "w = (r, v)" by (cases w)
  show ?case unfolding w apply_writes.simps
    by (rule Cons.IH) (use Cons.prems w in auto)
qed auto

lemma apply_writes_other: "q \<notin> fst ` set ws \<Longrightarrow> apply_writes ws m q = m q"
proof (induction ws arbitrary: m)
  case (Cons w ws)
  then show ?case by (cases w) auto
qed simp

locale register_file =
  fixes regs :: "'s \<Rightarrow> int \<Rightarrow> int"
    and wr :: "int \<Rightarrow> int \<Rightarrow> 's \<Rightarrow> 's"
  assumes regs_wr: "regs (wr r v s) = (regs s)(r := v)"
begin

definition wr_all :: "(int \<times> int) list \<Rightarrow> 's \<Rightarrow> 's" where
  "wr_all ws s = fold (\<lambda>(r, v). wr r v) ws s"

lemma regs_wr_all: "regs (wr_all ws s) = apply_writes ws (regs s)"
  unfolding wr_all_def
proof (induction ws arbitrary: s)
  case (Cons w ws)
  then show ?case by (cases w) (simp add: regs_wr fun_upd_def)
qed simp

text \<open>Running a part of a list of absolute writes before the whole list makes no difference.\<close>

lemma rerun: "regs (wr_all ws (wr_all (take n ws) s)) = regs (wr_all ws s)"
proof -
  have "apply_writes (take n ws) (regs s) q = regs s q" if "q \<notin> fst ` set ws" for q
    using that by (intro apply_writes_other) (auto dest: in_set_takeD)
  then show ?thesis unfolding regs_wr_all by (rule apply_writes_agree)
qed

end

definition image_regs :: "virtual_asset \<Rightarrow> int \<Rightarrow> int" where
  "image_regs v r = (case map_of (va_register_image v) r of None \<Rightarrow> 0 | Some x \<Rightarrow> x)"

definition image_write :: "int \<Rightarrow> int \<Rightarrow> virtual_asset \<Rightarrow> virtual_asset" where
  "image_write r x v = v\<lparr> va_register_image := AList.update r x (va_register_image v) \<rparr>"

interpretation virt: register_file image_regs image_write
  by unfold_locales (auto simp: image_regs_def image_write_def fun_eq_iff update_conv')

subsection \<open>The writes of an action list\<close>

text \<open>The write that a low-level action stands for, when it writes one register.\<close>

definition low_write :: "pv \<Rightarrow> (int \<times> int) option" where
  "low_write action = (case action of
     VDict d \<Rightarrow> (case (dget d ''type'', dget d ''register'', dget d ''value'') of
         (Some (VStr t), Some (VInt r), Some (VInt v)) \<Rightarrow> if t = ''write_register'' then Some (r, v) else None
       | _ \<Rightarrow> None)
   | _ \<Rightarrow> None)"

lemma low_write_Some:
  "low_write action = Some (r, v) \<longleftrightarrow> (\<exists>d. action = VDict d \<and> dget d ''type'' = Some (VStr ''write_register'') \<and>
     dget d ''register'' = Some (VInt r) \<and> dget d ''value'' = Some (VInt v))"
  by (auto simp: low_write_def split: pv.splits option.splits if_splits)

definition planned_writes :: "string \<Rightarrow> pv dict list \<Rightarrow> pv \<Rightarrow> (int \<times> int) list option" where
  "planned_writes asset_id action_sequence action_mappings =
     (case mapR (\<lambda>a. normalize_actions asset_id a action_mappings) action_sequence of
        Inl e \<Rightarrow> None
      | Inr lss \<Rightarrow> those (map low_write (concat lss)))"

lemma those_Cons: "those (x # xs) = Some ys \<longleftrightarrow> (\<exists>z zs. x = Some z \<and> those xs = Some zs \<and> ys = z # zs)"
  by (auto split: option.splits)

lemma each_normalized:
  assumes "mapR (\<lambda>a. normalize_actions asset_id a maps) seq = Inr lss"
  shows "eachE (\<lambda>action. bindE (liftE (normalize_actions asset_id action maps)) (eachE perform)) seq = eachE perform (concat lss)"
  using assms
proof (induction seq arbitrary: lss)
  case (Cons a seq)
  then obtain l ls where "normalize_actions asset_id a maps = Inr l" "lss = l # ls"
      "mapR (\<lambda>a. normalize_actions asset_id a maps) seq = Inr ls" by auto
  with Cons.IH show ?case
    by (auto simp: fun_eq_iff bindE_def liftE_def eachE_append split: prod.splits sum.splits)
qed simp

subsection \<open>A connection to a register device\<close>

text \<open>
  What pymodbus and the device behind it are relied on for: connecting and closing touch no
  register, an acknowledged write changes its register only, and a failed one at most that.
\<close>

definition register_device :: "'d modbus_ops \<Rightarrow> ('d \<Rightarrow> int \<Rightarrow> int) \<Rightarrow> bool" where
  "register_device ops regs \<longleftrightarrow>
     (\<forall>h p d. regs (snd (mb_connect ops h p d)) = regs d) \<and>
     (\<forall>k d. regs (snd (mb_close ops k d)) = regs d) \<and>
     (\<forall>k r v d. case mb_write_register ops k (VInt r) v d of
         (Inr (MbRegisters rs), d') \<Rightarrow> regs d' = (regs d)(r := v)
       | (_, d') \<Rightarrow> \<forall>q. q \<noteq> r \<longrightarrow> regs d' q = regs d q)"

lemma wp_devE [wp_simps]:
  "wp (devE op) Q E = (\<lambda>s. wp op (\<lambda>x d. Q x (s\<lparr> pl_dev := d \<rparr>)) (\<lambda>e d. E e (s\<lparr> pl_dev := d \<rparr>)) (pl_dev s))"
  by (auto simp: fun_eq_iff wp_def devE_def split: sum.splits prod.splits)

lemma keeps_set_conn: "(\<And>s c. I s \<Longrightarrow> I (s\<lparr> pl_connections := c \<rparr>)) \<Longrightarrow> keeps I (set_conn key f)"
  unfolding set_conn_def by (rule keeps_modE) (auto split: option.splits)

lemma keeps_get_connection: "keeps I (get_connection key)"
  unfolding get_connection_def by (intro keeps_intros)

text \<open>An invariant of the device's registers alone.\<close>

lemma keeps_connecting:
  fixes ops :: "'d modbus_ops"
  assumes "register_device ops regs"
  shows "keeps (\<lambda>s. P (regs (pl_dev s))) (connect ops key)"
    and "keeps (\<lambda>s. P (regs (pl_dev s))) (mark_connection_failed ops key e)"
proof -
  have dev: "keeps (\<lambda>s. P (regs (pl_dev s))) (devE op)" if "\<And>d. regs (snd (op d)) = regs d" for op :: "('d, 'x) eff"
  proof (rule keepsI)
    fix s :: "'d plc" assume "P (regs (pl_dev s))"
    with that [of "pl_dev s"] show "wp (devE op) (\<lambda>_ s. P (regs (pl_dev s))) (\<lambda>_ s. P (regs (pl_dev s))) s"
      by (cases "op (pl_dev s)") (auto simp: wp_def devE_def split: sum.splits)
  qed
  have ops: "regs (snd (mb_connect ops h p d)) = regs d" "regs (snd (mb_close ops k d)) = regs d" for h p k d
    using assms by (auto simp: register_device_def)
  have close: "keeps (\<lambda>s. P (regs (pl_dev s))) (close_client ops key)" for key
    unfolding close_client_def by (intro keeps_intros keeps_get_connection dev ops)
  show "keeps (\<lambda>s. P (regs (pl_dev s))) (connect ops key)"
    unfolding connect_def by (intro keeps_intros keeps_get_connection keeps_set_conn dev ops close) simp_all
  show "keeps (\<lambda>s. P (regs (pl_dev s))) (mark_connection_failed ops key e)"
    unfolding mark_connection_failed_def by (intro keeps_intros keeps_set_conn close) simp_all
qed

lemma execute_low_level_write:
  assumes "low_write action = Some (r, v)"
  shows "execute_low_level_action ops key asset_id action =
    bindE (devE (mb_write_register ops key (VInt r) v)) (\<lambda>result. case result of
         MbError m \<Rightarrow> throwE RuntimeError (''Modbus write error for asset='' @ asset_id @ '' register=''
                        @ py_str (VInt r) @ '': '' @ m)
       | MbRegisters rs \<Rightarrow> retE ())"
  using assms by (auto simp: execute_low_level_action_def low_write_Some dget_or_def cong: modbus_reply.case_cong)

lemma wp_low_level_write:
  assumes "register_device ops regs" "low_write action = Some (r, v)"
  shows "wp (execute_low_level_action ops key asset_id action)
    (\<lambda>_ t. regs (pl_dev t) = (regs (pl_dev s))(r := v))
    (\<lambda>_ t. \<forall>q. q \<noteq> r \<longrightarrow> regs (pl_dev t) q = regs (pl_dev s) q) s"
proof -
  have "case mb_write_register ops key (VInt r) v (pl_dev s) of
         (Inr (MbRegisters rs), d') \<Rightarrow> regs d' = (regs (pl_dev s))(r := v)
       | (_, d') \<Rightarrow> \<forall>q. q \<noteq> r \<longrightarrow> regs d' q = regs (pl_dev s) q"
    using assms(1) by (simp add: register_device_def)
  then show ?thesis
    unfolding execute_low_level_write [OF assms(2)]
    by (auto simp: wp_def bindE_def devE_def throwE_def retE_def split: prod.splits sum.splits modbus_reply.splits)
qed

lemma wp_low_level_writes:
  fixes ops :: "'d modbus_ops"
  assumes "register_device ops regs" "those (map low_write actions) = Some ws"
  shows "wp (eachE (execute_low_level_action ops key asset_id) actions)
    (\<lambda>_ t. regs (pl_dev t) = apply_writes ws (regs (pl_dev s)))
    (\<lambda>_ t. \<forall>q. q \<notin> fst ` set ws \<longrightarrow> regs (pl_dev t) q = regs (pl_dev s) q) s"
  using assms(2)
proof (induction actions arbitrary: ws s)
  case Nil
  then show ?case by (simp add: wp_retE)
next
  case (Cons a actions)
  then obtain r v ws' where w: "low_write a = Some (r, v)" "those (map low_write actions) = Some ws'" "ws = (r, v) # ws'"
    by (auto simp: those_Cons simp del: those.simps)
  let ?E = "\<lambda>_ t. \<forall>q. q \<notin> fst ` set ws \<longrightarrow> regs (pl_dev t) q = regs (pl_dev s) q"
  have "wp (execute_low_level_action ops key asset_id a)
      (\<lambda>_. wp (eachE (execute_low_level_action ops key asset_id) actions)
         (\<lambda>_ t. regs (pl_dev t) = apply_writes ws (regs (pl_dev s))) ?E) ?E s"
  proof (rule wp_mono [OF wp_low_level_write [OF assms(1) w(1)]])
    fix t :: "'d plc" assume t: "regs (pl_dev t) = (regs (pl_dev s))(r := v)"
    show "wp (eachE (execute_low_level_action ops key asset_id) actions)
         (\<lambda>_ t. regs (pl_dev t) = apply_writes ws (regs (pl_dev s))) ?E t"
      by (rule wp_mono [OF Cons.IH [OF w(2)]]) (use t w(3) in \<open>auto simp: fun_upd_def\<close>)
  qed (use w(3) in auto)
  then show ?case by (simp add: wp_bindE)
qed

text \<open>The recovery: an invariant that a failed attempt keeps holds at the start of the second one.\<close>

lemma wp_run_with_recovery:
  assumes "I s" and fn: "\<And>t. I t \<Longrightarrow> wp fn Q (\<lambda>_. I) t"
    and k: "keeps I (connect ops key)" "\<And>e. keeps I (mark_connection_failed ops key e)"
  shows "wp (run_with_recovery ops key fn) Q (\<lambda>_. I) s"
proof -
  have second: "wp (tryE fn (\<lambda>e. bindE (mark_connection_failed ops key e) (\<lambda>_. rethrowE e))) Q (\<lambda>_. I) t" if "I t" for t
    unfolding wp_tryE wp_bindE wp_rethrowE by (rule wp_mono [OF fn [OF that]]) (auto dest: keepsD [OF k(2)])
  have retry: "wp (bindE (mark_connection_failed ops key e) (\<lambda>_. bindE (connect ops key) (\<lambda>_.
       tryE fn (\<lambda>e. bindE (mark_connection_failed ops key e) (\<lambda>_. rethrowE e))))) Q (\<lambda>_. I) t" if "I t" for e t
    unfolding wp_bindE
  proof (rule wp_mono [OF keepsD [OF k(2) that]])
    fix x u assume "I u"
    then show "wp (connect ops key) (\<lambda>_. wp (tryE fn (\<lambda>e. bindE (mark_connection_failed ops key e) (\<lambda>_. rethrowE e))) Q (\<lambda>_. I)) (\<lambda>_. I) u"
      by (rule wp_mono [OF keepsD [OF k(1)]]) (auto intro: second)
  qed
  have first: "wp (tryE fn (\<lambda>e. bindE (mark_connection_failed ops key e) (\<lambda>_. bindE (connect ops key) (\<lambda>_.
       tryE fn (\<lambda>e. bindE (mark_connection_failed ops key e) (\<lambda>_. rethrowE e)))))) Q (\<lambda>_. I) t" if "I t" for t
    unfolding wp_tryE [of fn "\<lambda>e. bindE (mark_connection_failed ops key e) (\<lambda>_. bindE (connect ops key) _)"]
    by (rule wp_mono [OF fn [OF that]]) (auto intro: retry)
  have ready: "keeps I (if b then connect ops key else retE ())" for b
    by (intro keeps_intros k)
  show ?thesis unfolding run_with_recovery_def wp_bindE
  proof (rule wp_mono [OF keepsD [of I, OF keeps_get_connection assms(1)]])
    fix c t assume "I t"
    then show "wp (if \<not> mc_connected c \<or> \<not> mc_client c then connect ops key else retE ())
      (\<lambda>_. wp (tryE fn (\<lambda>e. bindE (mark_connection_failed ops key e) (\<lambda>_. bindE (connect ops key) (\<lambda>_.
       tryE fn (\<lambda>e. bindE (mark_connection_failed ops key e) (\<lambda>_. rethrowE e)))))) Q (\<lambda>_. I)) (\<lambda>_. I) t"
      by (rule wp_mono [OF keepsD [OF ready]]) (auto intro: first)
  qed
qed

lemma wp_attempt: "wp m (\<lambda>_. Q (True, None, key)) (\<lambda>e. Q (False, Some (exc_msg e), key)) s \<Longrightarrow> wp (attempt key m) Q E s"
  by (simp add: attempt_def wp_simps)

lemma wp_device_execute:
  fixes s :: "'d plc"
  assumes dev: "register_device ops regs"
    and s: "pl_initialized s" "dget (pl_executor_assets s) asset_id = Some conf" "dget (pl_virtual_assets s) asset_id = None"
    and ws: "planned_writes asset_id action_sequence (ea_action_mappings conf) = Some ws"
  shows "wp (plc_execute_actions env ops asset_id action_sequence)
     (\<lambda>(ok, _) t. if ok then regs (pl_dev t) = apply_writes ws (regs (pl_dev s))
        else (\<forall>q. q \<notin> fst ` set ws \<longrightarrow> regs (pl_dev t) q = regs (pl_dev s) q))
     (\<lambda>_ t. \<forall>q. q \<notin> fst ` set ws \<longrightarrow> regs (pl_dev t) q = regs (pl_dev s) q) s"
proof -
  let ?I = "\<lambda>t :: 'd plc. \<forall>q. q \<notin> fst ` set ws \<longrightarrow> regs (pl_dev t) q = regs (pl_dev s) q"
  obtain lss where lss: "mapR (\<lambda>a. normalize_actions asset_id a (ea_action_mappings conf)) action_sequence = Inr lss"
      "those (map low_write (concat lss)) = Some ws"
    using ws by (auto simp: planned_writes_def split: sum.splits)
  let ?key = "ea_connection_key conf"
  let ?fn = "eachE (execute_low_level_action ops ?key asset_id) (concat lss)"
  have fn: "wp ?fn (\<lambda>_ u. regs (pl_dev u) = apply_writes ws (regs (pl_dev s))) (\<lambda>_. ?I) t" if "?I t" for t
  proof (rule wp_mono [OF wp_low_level_writes [OF dev lss(2)]])
    fix u assume "regs (pl_dev u) = apply_writes ws (regs (pl_dev t))"
    then show "regs (pl_dev u) = apply_writes ws (regs (pl_dev s))"
      using apply_writes_agree [of ws "regs (pl_dev t)" "regs (pl_dev s)"] that by auto
  qed (use that in auto)
  have "wp (run_with_recovery ops ?key ?fn) (\<lambda>_ u. regs (pl_dev u) = apply_writes ws (regs (pl_dev s))) (\<lambda>_. ?I) s"
    using keeps_connecting [OF dev, of "\<lambda>m. \<forall>q. q \<notin> fst ` set ws \<longrightarrow> m q = regs (pl_dev s) q"]
    by (intro wp_run_with_recovery fn) auto
  then have go: "wp (attempt ?key (run_with_recovery ops ?key ?fn))
     (\<lambda>(ok, _) t. if ok then regs (pl_dev t) = apply_writes ws (regs (pl_dev s)) else ?I t) (\<lambda>_. ?I) s"
    by (intro wp_attempt) (auto elim: wp_mono)
  show ?thesis
    unfolding plc_execute_actions_def ensure_initialized_def get_connection_def
    by (cases "dget (pl_connections s) ?key")
       (use go in \<open>simp_all add: wp_simps s each_normalized [OF lss(1)] Let_def\<close>)
qed

text \<open>C29: The recovery's second run is harmless: whether a list of register writes runs once or twice, a success leaves the device as one clean run does, and in every case only the registers of the list have changed.\<close>

theorem plc_retry_harmless:
  assumes "register_device ops regs" and "pl_initialized s"
    and "dget (pl_executor_assets s) asset_id = Some conf" and "dget (pl_virtual_assets s) asset_id = None"
    and "planned_writes asset_id action_sequence (ea_action_mappings conf) = Some ws"
    and "plc_execute_actions env ops asset_id action_sequence s = (r, s')"
  shows "(\<forall>why key. r = Inr (True, why, key) \<longrightarrow> regs (pl_dev s') = apply_writes ws (regs (pl_dev s))) \<and>
    (\<forall>q. q \<notin> fst ` set ws \<longrightarrow> regs (pl_dev s') q = regs (pl_dev s) q)"
proof -
  have "wp (plc_execute_actions env ops asset_id action_sequence)
     (\<lambda>(ok, _) t. if ok then regs (pl_dev t) = apply_writes ws (regs (pl_dev s))
        else (\<forall>q. q \<notin> fst ` set ws \<longrightarrow> regs (pl_dev t) q = regs (pl_dev s) q))
     (\<lambda>_ t. \<forall>q. q \<notin> fst ` set ws \<longrightarrow> regs (pl_dev t) q = regs (pl_dev s) q) s"
    by (rule wp_device_execute [OF assms(1-5)])
  with assms(6) show ?thesis
    using apply_writes_other [of _ ws "regs (pl_dev s)"]
    by (cases r) (auto simp: wp_def split: prod.splits if_splits)
qed

text \<open>A device whose second write fails, and an asset with two actions.\<close>

definition flaky_ops :: "((int \<Rightarrow> int) \<times> nat) modbus_ops" where
  "flaky_ops = \<lparr> mb_connect = (\<lambda>h p. retE True), mb_close = (\<lambda>k. retE ()),
     mb_read = (\<lambda>k r c d. (Inr (MbRegisters []), d)),
     mb_write_register = (\<lambda>k r v (m, n). if n = 1 then (Inr (MbError ''timeout''), (m, 0))
        else case r of VInt i \<Rightarrow> (Inr (MbRegisters []), (m(i := v), n - 1)) | _ \<Rightarrow> (raise TypeError [], (m, n))),
     mb_write_registers = (\<lambda>k r vs d. (Inr (MbError ''unused''), d)) \<rparr>"

definition heater_mapping :: "string \<Rightarrow> int \<Rightarrow> string \<times> pv" where
  "heater_mapping action register = (action,
     VList [VDict [(''param'', VStr ''value''), (''register'', VInt register), (''scale'', VFloat (Fin 1))]])"

definition reactor_asset :: exec_asset where
  "reactor_asset = \<lparr> ea_executor_name = ''modbus_local'', ea_connection_key = ''127.0.0.1:503'',
     ea_action_mappings = VDict [heater_mapping ''set_heater_output'' 2, heater_mapping ''set_cooling_valve'' 3],
     ea_safe_state_actions = VList [] \<rparr>"

definition set_action :: "string \<Rightarrow> int \<Rightarrow> pv dict" where
  "set_action t v = [(''action_type'', VStr t), (''params'', VDict [(''value'', VInt v)])]"

definition reactor_plc :: "'d \<Rightarrow> 'd plc" where
  "reactor_plc d = (plc0 d)\<lparr> pl_initialized := True, pl_executor_assets := [(''reactor_01'', reactor_asset)],
     pl_connections := [(''127.0.0.1:503'', \<lparr> mc_host = VStr ''127.0.0.1'', mc_port = VInt 503, mc_client = False,
        mc_connected = False, mc_last_error = None \<rparr>)] \<rparr>"

definition no_env :: plc_env where
  "no_env = \<lparr> pe_pymodbus = True, pe_sensor_config = Inr (VDict []), pe_executor_config = Inr (VDict []) \<rparr>"

definition heat_and_cool :: "pv dict list" where
  "heat_and_cool = [set_action ''set_heater_output'' 50, set_action ''set_cooling_valve'' 100]"

theorem plc_retry_harmless_witness:
  "\<exists>why key s'. plc_execute_actions no_env flaky_ops ''reactor_01'' heat_and_cool (reactor_plc (\<lambda>_. 7, 2)) = (Inr (True, why, key), s')
     \<and> fst (pl_dev s') = apply_writes [(2, 50), (3, 100)] (\<lambda>_. 7)"
proof -
  let ?s = "reactor_plc (\<lambda>_ :: int. 7 :: int, 2 :: nat)"
  let ?run = "plc_execute_actions no_env flaky_ops ''reactor_01'' heat_and_cool ?s"
  have "case ?run of (Inr (True, _), _) \<Rightarrow> True | _ \<Rightarrow> False" by code_simp
  then obtain why key s' where run: "?run = (Inr (True, why, key), s')"
    by (auto split: prod.splits sum.splits bool.splits)
  have "register_device flaky_ops fst"
    by (auto simp: register_device_def flaky_ops_def retE_def)
  moreover have "planned_writes ''reactor_01'' heat_and_cool (ea_action_mappings reactor_asset) = Some [(2, 50), (3, 100)]"
    by code_simp
  moreover have "pl_initialized ?s" "dget (pl_executor_assets ?s) ''reactor_01'' = Some reactor_asset"
      "dget (pl_virtual_assets ?s) ''reactor_01'' = None" "pl_dev ?s = (\<lambda>_. 7, 2)"
    by (simp_all add: reactor_plc_def plc0_def)
  ultimately have "fst (pl_dev s') = apply_writes [(2, 50), (3, 100)] (fst (pl_dev ?s))"
    using plc_retry_harmless [OF _ _ _ _ _ run, of fst reactor_asset "[(2, 50), (3, 100)]"] by blast
  with run show ?thesis using \<open>pl_dev ?s = (\<lambda>_. 7, 2)\<close> by auto
qed

subsection \<open>A virtual asset\<close>

lemma apply_virtual:
  assumes "low_write action = Some (r, v)" "dget (pl_virtual_assets s) asset_id = Some va"
  shows "apply_low_level_action_to_virtual asset_id action s =
    (Inr (), s\<lparr> pl_virtual_assets := dset asset_id (image_write r v va) (pl_virtual_assets s) \<rparr>)"
  using assms
  by (auto simp: apply_low_level_action_to_virtual_def low_write_Some write_image_def image_write_def dget_or_def
      modE_def)

lemma dset_dset [simp]: "dset k v (dset k w d) = dset k v d"
  by (induction d) auto

lemma apply_virtual_all:
  assumes "those (map low_write actions) = Some ws" "dget (pl_virtual_assets s) asset_id = Some va" "ws \<noteq> []"
  shows "eachE (apply_low_level_action_to_virtual asset_id) actions s =
    (Inr (), s\<lparr> pl_virtual_assets := dset asset_id (virt.wr_all ws va) (pl_virtual_assets s) \<rparr>)"
  using assms
proof (induction actions arbitrary: ws s va)
  case (Cons a actions)
  then obtain r v ws' where w: "low_write a = Some (r, v)" "those (map low_write actions) = Some ws'" "ws = (r, v) # ws'"
    by (auto simp: those_Cons simp del: those.simps)
  let ?s = "s\<lparr> pl_virtual_assets := dset asset_id (image_write r v va) (pl_virtual_assets s) \<rparr>"
  have 1: "apply_low_level_action_to_virtual asset_id a s = (Inr (), ?s)"
    by (rule apply_virtual [OF w(1) Cons.prems(2)])
  show ?case
  proof (cases "ws' = []")
    case True
    then have "actions = []" using w(2) by (cases actions) (auto simp: those_Cons simp del: those.simps)
    with 1 True show ?thesis by (simp add: bindE_def w(3) virt.wr_all_def retE_def)
  next
    case False
    then show ?thesis using Cons.IH [OF w(2), of ?s "image_write r v va"] 1
      by (simp add: bindE_def w(3) virt.wr_all_def)
  qed
qed simp

text \<open>On a virtual asset an action list with a plan of writes always succeeds, and what it leaves is the register image with exactly those writes made in order, nothing else of the service touched.\<close>

theorem plc_virtual_execute:
  assumes "pl_initialized s" and "dget (pl_executor_assets s) asset_id = Some conf"
    and "dget (pl_virtual_assets s) asset_id = Some va" and "dhas (pl_connections s) (ea_connection_key conf)"
    and "planned_writes asset_id action_sequence (ea_action_mappings conf) = Some ws" and "ws \<noteq> []"
  shows "\<exists>va'. plc_execute_actions env ops asset_id action_sequence s =
      (Inr (True, None, virtual_key asset_id), s\<lparr> pl_virtual_assets := dset asset_id va' (pl_virtual_assets s) \<rparr>)
    \<and> image_regs va' = apply_writes ws (image_regs va)"
proof -
  obtain lss where lss: "mapR (\<lambda>a. normalize_actions asset_id a (ea_action_mappings conf)) action_sequence = Inr lss"
      "those (map low_write (concat lss)) = Some ws"
    using assms(5) by (auto simp: planned_writes_def split: sum.splits)
  obtain c where c: "dget (pl_connections s) (ea_connection_key conf) = Some c" using assms(4) by auto
  have "plc_execute_actions env ops asset_id action_sequence s =
      (Inr (True, None, virtual_key asset_id), s\<lparr> pl_virtual_assets := dset asset_id (virt.wr_all ws va) (pl_virtual_assets s) \<rparr>)"
    using apply_virtual_all [OF lss(2) assms(3,6)]
    by (simp add: plc_execute_actions_def ensure_initialized_def get_connection_def attempt_def assms(1-3) c
        each_normalized [OF lss(1)] bindE_def getE_def retE_def tryE_def)
  then show ?thesis using virt.regs_wr_all [of ws va] by blast
qed

definition virtual_reactor :: virtual_asset where
  "virtual_reactor = \<lparr> va_register_image = [(2, 0), (3, 100)], va_runtime_context = [], va_last_preload_ms = 0 \<rparr>"

theorem plc_virtual_execute_witness:
  "\<exists>s'. plc_execute_actions no_env flaky_ops ''reactor_01'' heat_and_cool
      ((reactor_plc (\<lambda>_. 7, 2))\<lparr> pl_virtual_assets := [(''reactor_01'', virtual_reactor)] \<rparr>) = (Inr (True, None, ''virtual:reactor_01''), s')"
proof -
  have "planned_writes ''reactor_01'' heat_and_cool (ea_action_mappings reactor_asset) = Some [(2, 50), (3, 100)]"
    by code_simp
  from plc_virtual_execute [OF _ _ _ _ this, of "(reactor_plc (\<lambda>_. 7, 2))\<lparr> pl_virtual_assets := [(''reactor_01'', virtual_reactor)] \<rparr>"
      virtual_reactor no_env flaky_ops]
  show ?thesis by (auto simp: reactor_plc_def plc0_def reactor_asset_def virtual_key_def)
qed

end
