(* ===== verification/Http.thy ===== *)
theory Http
  imports Effects
begin

section \<open>Calls between services\<close>

text \<open>
  What travels between two services: a status code and a JSON body, \<open>None\<close> for a body that is
  not JSON.  A transport failure is an exception of kind \<open>TransportError\<close>.  \<open>answer\<close> is what
  FastAPI makes of the outcome of a handler: the result, an \<open>HTTPException\<close> with its detail,
  and 500 with a plain text for any other exception.  The service URLs come from
  \<open>services.yaml\<close> (core/utils/config_loader.py).
\<close>

datatype http_reply = Reply (rp_code: int) (rp_body: "pv option")

text \<open>A client: from the method, the URL and the body to the reply.\<close>

type_synonym 'w http_client = "string \<Rightarrow> string \<Rightarrow> pv \<Rightarrow> ('w, http_reply) eff"

definition resp_json :: "http_reply \<Rightarrow> pv res" where
  "resp_json r = (case rp_body r of Some v \<Rightarrow> Inr v
     | None \<Rightarrow> raise ValueError ''Expecting value: line 1 column 1 (char 0)'')"

definition error_body :: "string \<Rightarrow> pv" where
  "error_body m = VDict [(''detail'', VStr m)]"

definition answer :: "pv res \<Rightarrow> http_reply" where
  "answer r = (case r of
     Inr v \<Rightarrow> Reply 200 (Some v)
   | Inl e \<Rightarrow> (case exc_kind e of HTTPException c \<Rightarrow> Reply c (Some (error_body (exc_msg e))) | _ \<Rightarrow> Reply 500 None))"

text \<open>The detail of an error reply, with the status as the fallback when the body gives none.\<close>

definition http_code_text :: "http_reply \<Rightarrow> string" where
  "http_code_text r = ''HTTP '' @ str_int (rp_code r)"

definition error_detail :: "http_reply \<Rightarrow> pv" where
  "error_detail r = (case bindR (resp_json r) (\<lambda>v. py_get v ''detail'' (VStr (http_code_text r))) of
     Inr d \<Rightarrow> d | Inl e \<Rightarrow> VStr (http_code_text r))"

definition get_service_urls :: "pv res \<Rightarrow> pv dict res" where
  "get_service_urls config = bindR config (\<lambda>c. bindR (py_get c ''services'' (VDict [])) (\<lambda>services.
     bindR (py_items services) (mapR (\<lambda>(name, svc). bindR (py_get svc ''url'' (VStr [])) (\<lambda>u. Inr (name, u))))))"

definition get_cbf_mappings :: "pv res \<Rightarrow> pv res" where
  "get_cbf_mappings config = bindR config (\<lambda>c. py_get c ''mappings'' (VList []))"

text \<open>\<open>s.rstrip('/')\<close>\<close>

definition rstrip_slash :: "string \<Rightarrow> string" where
  "rstrip_slash s = rev (dropWhile (\<lambda>c. c = CHR ''/'') (rev s))"

definition opt_pv :: "string option \<Rightarrow> pv" where
  "opt_pv x = (case x of None \<Rightarrow> VNone | Some s \<Rightarrow> VStr s)"

definition opt_int :: "int option \<Rightarrow> pv" where
  "opt_int x = (case x of None \<Rightarrow> VNone | Some i \<Rightarrow> VInt i)"

lemma error_detail_body [simp]: "error_detail (Reply c (Some (error_body m))) = VStr m"
  by (simp add: error_detail_def resp_json_def error_body_def dget_or_def)

end
