(* ===== verification/PlcRoutes.thy ===== *)
theory PlcRoutes
  imports PlcWrites Http
begin

section \<open>The PLC adapter's handlers and its two clients\<close>

text \<open>
  apps/plc_adapter/routes.py over the service, and the plugins that reach it over HTTP:
  the executor of the OT interface (plugins/executor/plc_adapter_executor.py), the sensor source
  of the sensor gateway (plugins/sensor/plc_adapter_sensor.py), and the mock executor.  The HTTP
  client is an argument, from the method, the URL and the body to the reply.
\<close>

definition route_errors :: "string \<Rightarrow> ('s, 'a) eff \<Rightarrow> ('s, 'a) eff" where
  "route_errors prefix m = tryE m (\<lambda>e.
     if exc_kind e = KeyError then throwE (HTTPException 404) (exc_msg e)
     else throwE (HTTPException 500) (prefix @ exc_msg e))"

definition plc_health_route :: "plc_env \<Rightarrow> ('d plc, pv) eff" where
  "plc_health_route env = bindE (plc_get_health env) (\<lambda>(status, connections).
     retE (VDict [(''status'', VStr status), (''connections'', VList (map (\<lambda>c. VDict (
       [(''connection_key'', VStr (ch_connection_key c)), (''connected'', VBool (ch_connected c)),
        (''last_error'', opt_pv (ch_last_error c))] @
       (case ch_virtual c of None \<Rightarrow> [] | Some a \<Rightarrow> [(''mode'', VStr ''virtual''), (''asset_id'', VStr a)]))) connections))]))"

definition plc_snapshot_route :: "plc_env \<Rightarrow> 'd modbus_ops \<Rightarrow> int \<Rightarrow> string \<Rightarrow> ('d plc, pv) eff" where
  "plc_snapshot_route env ops now asset_id =
     bindE (route_errors ''PLC snapshot failed: '' (plc_read_snapshot env ops asset_id)) (\<lambda>(snapshot, connection_key).
     retE (VDict [(''asset_id'', VStr asset_id), (''timestamp_ms'', VInt now), (''sensor_snapshot'', VDict snapshot),
       (''source'', VStr ''modbus''), (''connection_key'', VStr connection_key)]))"

definition plc_preload_route ::
  "plc_env \<Rightarrow> int \<Rightarrow> string \<Rightarrow> pv dict option \<Rightarrow> pv dict option \<Rightarrow> ('d plc, pv) eff" where
  "plc_preload_route env now asset_id runtime_context initial_state =
     bindE (route_errors ''PLC runtime preload failed: '' (plc_preload_runtime env now asset_id runtime_context initial_state)) (\<lambda>p.
       case pp_runtime_id p of
         VNone \<Rightarrow> retE (VDict [(''asset_id'', VStr asset_id), (''status'', VStr ''READY''), (''runtime_id'', VNone),
           (''source'', VStr ''virtual_plc''), (''connection_key'', VStr (pp_connection_key p)), (''current_state'', VDict (pp_current_state p))])
       | VStr i \<Rightarrow> retE (VDict [(''asset_id'', VStr asset_id), (''status'', VStr ''READY''), (''runtime_id'', VStr i),
           (''source'', VStr ''virtual_plc''), (''connection_key'', VStr (pp_connection_key p)), (''current_state'', VDict (pp_current_state p))])
       | _ \<Rightarrow> liftE (validation_error ''PlcRuntimePreloadResponse''))"

definition plc_execute_route ::
  "plc_env \<Rightarrow> 'd modbus_ops \<Rightarrow> int \<Rightarrow> string \<Rightarrow> string \<Rightarrow> pv dict list \<Rightarrow> ('d plc, pv) eff" where
  "plc_execute_route env ops now transaction_id asset_id action_sequence =
     bindE (route_errors ''PLC execute failed: '' (plc_execute_actions env ops asset_id action_sequence)) (\<lambda>(success, reason, connection_key).
     retE (VDict [(''transaction_id'', VStr transaction_id), (''asset_id'', VStr asset_id), (''success'', VBool success),
       (''executed_at_ms'', if success then VInt now else VNone), (''reason'', opt_pv reason),
       (''connection_key'', VStr connection_key)]))"

definition plc_safe_state_route :: "plc_env \<Rightarrow> 'd modbus_ops \<Rightarrow> int \<Rightarrow> string \<Rightarrow> ('d plc, pv) eff" where
  "plc_safe_state_route env ops now asset_id =
     bindE (route_errors ''PLC safe state failed: '' (plc_safe_state env ops asset_id)) (\<lambda>(success, reason, connection_key).
     retE (VDict [(''asset_id'', VStr asset_id), (''success'', VBool success),
       (''executed_at_ms'', if success then VInt now else VNone), (''reason'', opt_pv reason),
       (''connection_key'', VStr connection_key)]))"

subsection \<open>The executor plugin\<close>

record plc_executor =
  px_url :: string
  px_timeout :: flt
  px_last_error :: pv

definition adapter_url :: "pv \<Rightarrow> pv dict res \<Rightarrow> (string \<times> flt) res" where
  "adapter_url config urls =
     bindR (py_get config ''plc_adapter_url'' VNone) (\<lambda>given.
     bindR (if truthy given then Inr given else bindR urls (\<lambda>u. Inr (vget u ''plc_adapter''))) (\<lambda>service_url.
       if \<not> truthy service_url then raise RuntimeError ''PLC adapter URL not configured in services.yaml''
       else bindR (case service_url of VStr s \<Rightarrow> Inr (rstrip_slash s) | _ \<Rightarrow> no_attr service_url ''rstrip'') (\<lambda>url.
         bindR (py_get config ''timeout_s'' (VFloat (Fin 10))) (\<lambda>t. bindR (py_float t) (\<lambda>f. Inr (url, f))))))"

definition plc_executor_initialize :: "pv \<Rightarrow> pv dict res \<Rightarrow> plc_executor res" where
  "plc_executor_initialize config urls = bindR (adapter_url config urls) (\<lambda>(url, timeout).
     Inr \<lparr> px_url = url, px_timeout = timeout, px_last_error = VNone \<rparr>)"

text \<open>The reply to a POST: success, or the error that \<open>last_error\<close> keeps.\<close>

definition executor_reply :: "string \<Rightarrow> http_reply \<Rightarrow> (bool \<times> pv) res" where
  "executor_reply fallback r =
     (if rp_code r \<noteq> 200 then Inr (False, error_detail r)
      else bindR (resp_json r) (\<lambda>payload. bindR (py_get payload ''success'' VNone) (\<lambda>ok.
        if truthy ok then Inr (True, VNone)
        else bindR (py_get payload ''reason'' VNone) (\<lambda>why. Inr (False, or_else why (VStr fallback))))))"

definition plc_executor_call ::
  "'w http_client \<Rightarrow> string \<Rightarrow> string \<Rightarrow> pv \<Rightarrow> (plc_executor \<times> 'w, bool) eff" where
  "plc_executor_call http path fallback body =
     bindE (modE (\<lambda>(x, w). (x\<lparr> px_last_error := VNone \<rparr>, w))) (\<lambda>_.
     bindE (\<lambda>(x, w). let (r, w') = http ''POST'' (px_url x @ path) body w in (r, (x, w'))) (\<lambda>reply.
     bindE (liftE (executor_reply fallback reply)) (\<lambda>(ok, err).
     bindE (modE (\<lambda>(x, w). (x\<lparr> px_last_error := err \<rparr>, w))) (\<lambda>_. retE ok))))"

definition plc_executor_execute ::
  "'w http_client \<Rightarrow> string \<Rightarrow> string \<Rightarrow> pv list \<Rightarrow> (plc_executor \<times> 'w, bool) eff" where
  "plc_executor_execute http transaction_id asset_id action_sequence =
     plc_executor_call http ''/v1/execute'' ''PLC adapter execution failed''
       (VDict [(''transaction_id'', VStr transaction_id), (''asset_id'', VStr asset_id), (''action_sequence'', VList action_sequence)])"

definition plc_executor_safe_state :: "'w http_client \<Rightarrow> string \<Rightarrow> (plc_executor \<times> 'w, bool) eff" where
  "plc_executor_safe_state http asset_id =
     plc_executor_call http ''/v1/safe-state'' ''PLC adapter safe state failed'' (VDict [(''asset_id'', VStr asset_id)])"

subsection \<open>The sensor plugin\<close>

definition plc_sensor_read :: "'w http_client \<Rightarrow> string \<Rightarrow> string \<Rightarrow> ('w, pv) eff" where
  "plc_sensor_read http url asset_id =
     bindE (http ''GET'' (url @ ''/v1/assets/'' @ asset_id @ ''/snapshots/latest'') VNone) (\<lambda>response.
       if rp_code response \<noteq> 200 then throwE RuntimeError (py_str (error_detail response))
       else bindE (liftE (resp_json response)) (\<lambda>v. liftE (py_getitem v ''sensor_snapshot'')))"

subsection \<open>The mock executor\<close>

definition mock_execute :: "bool \<Rightarrow> bool res \<times> string option" where
  "mock_execute production = (if production
     then (raise RuntimeError ''MockExecutor cannot be used in PRODUCTION environment'',
           Some ''MockExecutor cannot be used in PRODUCTION environment'')
     else (Inr True, None))"

definition mock_safe_state :: "bool res \<times> string option" where
  "mock_safe_state = (Inr True, None)"

end
