(* ===== verification/RuntimeShell.thy ===== *)
theory RuntimeShell
  imports PlcAdapter
begin

section \<open>Runtime shells (plugins/simulation/isaac_runtime_shell.py)\<close>

text \<open>
  A benchmark run may name a shell: a JSON file beside a scene, a map or a process profile, that
  patches the simulation section of the policy.  The file system is an argument: \<open>sf_path base
  ref\<close> is \<open>str(Path(ref))\<close> for an absolute \<open>ref\<close> and \<open>str((base / ref).resolve())\<close> otherwise.
  The functions that drive Isaac Sim itself are not modelled.
\<close>

record shell_fs =
  sf_root :: string
  sf_path :: "string \<Rightarrow> string \<Rightarrow> string"
  sf_parent :: "string \<Rightarrow> string"
  sf_exists :: "string \<Rightarrow> bool"
  sf_json :: "string \<Rightarrow> pv res"

definition deep_merge :: "pv \<Rightarrow> pv \<Rightarrow> pv" where
  "deep_merge base override = (case (base, override) of
     (VDict b, VDict c) \<Rightarrow> VDict (merge_dicts b c) | _ \<Rightarrow> override)"

definition resolve_ref :: "shell_fs \<Rightarrow> string \<Rightarrow> pv \<Rightarrow> string option res" where
  "resolve_ref fs base ref =
     (if \<not> truthy ref then Inr None
      else (case ref of VStr s \<Rightarrow> Inr (Some (sf_path fs base s))
        | _ \<Rightarrow> raise TypeError (''expected str, bytes or os.PathLike object, not '' @ type_name ref)))"

definition resolve_project_ref :: "shell_fs \<Rightarrow> pv \<Rightarrow> string option res" where
  "resolve_project_ref fs ref = resolve_ref fs (sf_root fs) ref"

definition existing :: "shell_fs \<Rightarrow> string \<Rightarrow> string option \<Rightarrow> string res" where
  "existing fs message path = (case path of
     Some p \<Rightarrow> if sf_exists fs p then Inr p else raise FileNotFoundError message
   | None \<Rightarrow> raise FileNotFoundError message)"

record shell_bundle =
  sb_shell_config :: pv
  sb_runtime_type :: pv
  sb_scene_path :: "string option"
  sb_runtime_asset_path :: "string option"

text \<open>The map or the profile: the context's reference, or the shell's own file.\<close>

definition runtime_asset :: "shell_fs \<Rightarrow> string \<Rightarrow> pv \<Rightarrow> pv \<Rightarrow> pv dict \<Rightarrow> string \<Rightarrow> string \<Rightarrow> string option res" where
  "runtime_asset fs shell_dir shell_config given ctx key what =
     bindR (if truthy given then resolve_project_ref fs given
            else bindR (py_get shell_config key VNone) (resolve_ref fs shell_dir)) (\<lambda>path.
     bindR (existing fs (what @ '' file not found for runtime_context='' @ py_str (VDict ctx)) path) (\<lambda>p. Inr (Some p)))"

definition load_runtime_shell_bundle :: "shell_fs \<Rightarrow> pv dict \<Rightarrow> shell_bundle res" where
  "load_runtime_shell_bundle fs ctx =
     (let shell_ref = vget ctx ''shell_config_ref''; scene_ref = vget ctx ''scene_ref'' in
      if \<not> truthy shell_ref then raise ValueError ''runtime_context.shell_config_ref is required''
      else
      bindR (resolve_project_ref fs shell_ref) (\<lambda>resolved.
      bindR (existing fs (''Shell config not found: '' @ py_str shell_ref) resolved) (\<lambda>shell_path.
      bindR (sf_json fs shell_path) (\<lambda>shell_config.
      bindR (if truthy (vget ctx ''runtime_type'') then Inr (vget ctx ''runtime_type'')
             else py_get shell_config ''runtime_type'' VNone) (\<lambda>runtime_type.
      bindR (bindR (py_get shell_config ''simulation_patch'' VNone) (\<lambda>p.
               py_get (or_else p (VDict [])) ''world_ref'' VNone)) (\<lambda>patch_world_ref.
      bindR (if truthy scene_ref \<or> truthy patch_world_ref then Inr VNone
             else py_get shell_config ''scene_file'' VNone) (\<lambda>scene_file.
      (let shell_dir = sf_parent fs shell_path in
       if truthy scene_ref \<or> truthy patch_world_ref \<or> truthy scene_file then
         bindR (if truthy scene_ref then resolve_project_ref fs scene_ref
                else resolve_ref fs shell_dir (or_else patch_world_ref scene_file)) (\<lambda>path.
         bindR (existing fs (''Scene file not found for runtime_context='' @ py_str (VDict ctx)) path) (\<lambda>p.
           Inr \<lparr> sb_shell_config = shell_config, sb_runtime_type = runtime_type, sb_scene_path = Some p,
                 sb_runtime_asset_path = None \<rparr>))
       else
       bindR (if py_eq runtime_type (VStr ''map_config'')
              then runtime_asset fs shell_dir shell_config (vget ctx ''map_ref'') ctx ''map_file'' ''Map''
              else if unhashable runtime_type then unhashable_error runtime_type
              else if py_eq runtime_type (VStr ''process_profile'') \<or> py_eq runtime_type (VStr ''parameter_profile'')
              then runtime_asset fs shell_dir shell_config (vget ctx ''profile_ref'') ctx ''profile_file'' ''Profile''
              else Inr None) (\<lambda>asset_path.
         Inr \<lparr> sb_shell_config = shell_config, sb_runtime_type = runtime_type, sb_scene_path = None,
               sb_runtime_asset_path = asset_path \<rparr>)))))))))"

subsection \<open>The patched simulation section\<close>

text \<open>The fixtures of the shell by id, ids being values; a later object replaces an earlier one.\<close>

definition index_objects :: "pv list \<Rightarrow> (pv \<times> pv) list res" where
  "index_objects objects = foldR (\<lambda>obj idx. case obj of
       VDict d \<Rightarrow> (let i = vget d ''id'' in
         if \<not> truthy i then Inr idx else if unhashable i then unhashable_error i
         else Inr ((i, obj) # filter (\<lambda>p. \<not> py_eq (fst p) i) idx))
     | _ \<Rightarrow> Inr idx) objects []"

definition forbidden_objects :: "(pv \<times> pv) list \<Rightarrow> pv list \<Rightarrow> pv list res" where
  "forbidden_objects idx ids = bindR (mapR (\<lambda>i. if unhashable i then unhashable_error i
       else Inr (case find (\<lambda>p. py_eq (fst p) i) idx of None \<Rightarrow> []
         | Some (j, obj) \<Rightarrow> [VDict [(''object_id'', i), (''center'', vget (as_dict obj) ''center''),
                                  (''scale'', vget (as_dict obj) ''scale'')]])) ids) (\<lambda>xss. Inr (concat xss))"

definition apply_safety_probe :: "pv \<Rightarrow> pv \<Rightarrow> pv \<Rightarrow> pv res" where
  "apply_safety_probe shell_config probe collision0 =
     bindR (py_get collision0 ''enabled'' VNone) (\<lambda>enabled.
     bindR (py_setitem collision0 ''enabled'' (if enabled = VNone then VBool True else enabled)) (\<lambda>collision1.
     bindR (py_get collision1 ''mode'' VNone) (\<lambda>mode.
     bindR (py_setitem collision1 ''mode'' (or_else mode (VStr ''end_effector_sphere''))) (\<lambda>collision2.
     bindR (py_get probe ''end_effector_probe_radius'' VNone) (\<lambda>radius.
     bindR (if radius = VNone then Inr collision2
            else bindR (py_float radius) (\<lambda>r. py_setitem collision2 ''probe_radius_m'' (VFloat r))) (\<lambda>collision3.
     bindR (py_get probe ''forbidden_fixture_ids'' VNone) (\<lambda>ids.
       if ids = VNone then Inr collision3
       else
     bindR (py_get shell_config ''runtime_physics_objects'' VNone) (\<lambda>objects.
     bindR (py_iter (or_else objects (VList []))) (\<lambda>objs.
     bindR (index_objects objs) (\<lambda>idx.
     bindR (py_iter ids) (\<lambda>is.
     bindR (forbidden_objects idx is) (\<lambda>found.
       py_setitem collision3 ''forbidden_objects'' (VList found)))))))))))))"

definition build_runtime_sim_config :: "shell_fs \<Rightarrow> pv \<Rightarrow> pv dict option \<Rightarrow> pv res" where
  "build_runtime_sim_config fs base_sim_config runtime_context = (case runtime_context of
     None \<Rightarrow> Inr base_sim_config
   | Some [] \<Rightarrow> Inr base_sim_config
   | Some ctx \<Rightarrow>
     bindR (load_runtime_shell_bundle fs ctx) (\<lambda>bundle.
     (let shell_config = sb_shell_config bundle in
     bindR (py_get shell_config ''simulation_patch'' VNone) (\<lambda>patch.
     (let effective_patch = deep_merge (or_else patch (VDict [])) (or_else (vget ctx ''simulation_override'') (VDict []));
          merged0 = deep_merge base_sim_config effective_patch in
     bindR (case sb_scene_path bundle of
              Some p \<Rightarrow> py_setitem merged0 ''world_ref'' (VStr p)
            | None \<Rightarrow> (case sb_runtime_asset_path bundle of
                Some p \<Rightarrow> py_setitem merged0 ''runtime_artifact_ref'' (VStr p)
              | None \<Rightarrow> Inr merged0)) (\<lambda>merged1.
     bindR (py_get merged1 ''collision'' VNone) (\<lambda>c.
     bindR (py_get shell_config ''safety_probe'' VNone) (\<lambda>safety_probe.
     bindR (if truthy safety_probe then apply_safety_probe shell_config safety_probe (or_else c (VDict []))
            else Inr (or_else c (VDict []))) (\<lambda>collision.
     bindR (if truthy collision then py_setitem merged1 ''collision'' collision else Inr merged1) (\<lambda>merged2.
       py_setitem merged2 ''runtime_context'' (VDict ctx)))))))))))"

end
