(* ===== verification/SafetyCluster.thy ===== *)
theory SafetyCluster
  imports Rules Cbf Consensus Http RuntimeShell
begin

section \<open>The safety cluster (apps/safety_cluster)\<close>

text \<open>
  The service reads the asset's profile from the policy store, refuses actions that are not on
  the whitelist, runs the three validators and combines their verdicts.  The state is that of
  the HTTP client and of the simulation backends, \<open>'w\<close>; the threads that run the rules and the
  barrier validator share nothing, so only the simulation acts on it.  pydantic's coercion to
  \<open>float\<close>, the configuration, the clock and the backends' \<open>validate_trajectory\<close> are arguments.
  The lemmas: a SAFE verdict at SIL 3 rests on three SAFE verdicts, an action outside the
  whitelist is refused whatever the validators would say, and a rule the parser refuses is not
  checked at all.
\<close>

subsection \<open>The models' constructors\<close>

definition parse_str :: "string \<Rightarrow> pv option \<Rightarrow> string res" where
  "parse_str model v = (case v of Some (VStr s) \<Rightarrow> Inr s | _ \<Rightarrow> validation_error model)"

definition parse_opt :: "(pv \<Rightarrow> 'a res) \<Rightarrow> pv \<Rightarrow> 'a option res" where
  "parse_opt f v = (if v = VNone then Inr None else bindR (f v) (\<lambda>x. Inr (Some x)))"

definition parse_list :: "string \<Rightarrow> (pv \<Rightarrow> 'a res) \<Rightarrow> pv \<Rightarrow> 'a list res" where
  "parse_list model f v = (case v of VList xs \<Rightarrow> mapR f xs | _ \<Rightarrow> validation_error model)"

definition parse_literal :: "string \<Rightarrow> (string \<times> 'a) list \<Rightarrow> pv \<Rightarrow> 'a res" where
  "parse_literal model texts v = (case v of
     VStr s \<Rightarrow> (case map_of texts s of Some x \<Rightarrow> Inr x | None \<Rightarrow> validation_error model)
   | _ \<Rightarrow> validation_error model)"

definition operators :: "(string \<times> cmp_op) list" where
  "operators = map (\<lambda>oper. (op_text oper, oper)) [OpLt, OpLte, OpGt, OpGte, OpEq, OpNe]"

definition rule_types :: "(string \<times> rule_type) list" where
  "rule_types = map (\<lambda>t. (rule_type_text t, t)) [THRESHOLD, RANGE, ENUM, FORBIDDEN_COMBINATION]"

definition verdicts :: "(string \<times> verdict) list" where
  "verdicts = map (\<lambda>v. (verdict_text v, v)) [SAFE, UNSAFE, INDETERMINATE]"

definition parse_condition :: "pv \<Rightarrow> rule_condition res" where
  "parse_condition v = (case v of
     VDict d \<Rightarrow> bindR (parse_str ''RuleCondition'' (dget d ''field'')) (\<lambda>f.
       bindR (parse_literal ''RuleCondition'' operators (vget d ''operator'')) (\<lambda>oper.
       case dget d ''value'' of None \<Rightarrow> validation_error ''RuleCondition''
       | Some w \<Rightarrow> Inr \<lparr> rc_field = f, rc_operator = oper, rc_value = w \<rparr>))
   | _ \<Rightarrow> validation_error ''RuleCondition'')"

definition parse_rule :: "(pv \<Rightarrow> flt res) \<Rightarrow> pv dict \<Rightarrow> rule res" where
  "parse_rule as_float d =
     (let str = (\<lambda>v. parse_str ''Rule'' (Some v)) in
     bindR (parse_str ''Rule'' (dget d ''rule_id'')) (\<lambda>i.
     bindR (parse_literal ''Rule'' rule_types (vget d ''type'')) (\<lambda>t.
     bindR (parse_str ''Rule'' (dget d ''target_field'')) (\<lambda>f.
     bindR (parse_opt (parse_literal ''Rule'' operators) (vget d ''operator'')) (\<lambda>oper.
     bindR (parse_opt as_float (vget d ''min'')) (\<lambda>lo.
     bindR (parse_opt as_float (vget d ''max'')) (\<lambda>hi.
     bindR (parse_opt (parse_list ''Rule'' Inr) (vget d ''allowed_values'')) (\<lambda>allowed.
     bindR (parse_opt (parse_list ''Rule'' (parse_list ''Rule'' str)) (vget d ''forbidden_pairs'')) (\<lambda>pairs.
     bindR (parse_opt (parse_list ''Rule'' parse_condition) (vget d ''conditions'')) (\<lambda>conds.
     bindR (parse_opt str (vget d ''unit'')) (\<lambda>unit.
     bindR (parse_opt str (vget d ''aas_source'')) (\<lambda>aas.
       Inr \<lparr> r_rule_id = i, r_type = t, r_target_field = f, r_operator = oper, r_value = vget d ''value'',
             r_min = lo, r_max = hi, r_allowed_values = allowed, r_forbidden_pairs = pairs,
             r_conditions = conds, r_unit = unit, r_aas_source = aas \<rparr>))))))))))))"

definition parse_verdict :: "pv \<Rightarrow> pv \<Rightarrow> validator_verdict res" where
  "parse_verdict v details = bindR (parse_literal ''ValidatorVerdict'' verdicts v) (\<lambda>w. case details of
     VDict d \<Rightarrow> Inr \<lparr> vv_verdict = w, vv_details = d \<rparr> | _ \<Rightarrow> validation_error ''ValidatorVerdict'')"

definition sim_policies :: "(string \<times> on_sim_indeterminate) list" where
  "sim_policies = [(''FAIL_CLOSED'', FAIL_CLOSED), (''RENORMALIZE'', RENORMALIZE),
     (''TREAT_AS_UNSAFE'', TREAT_AS_UNSAFE), (''IGNORE'', IGNORE)]"

definition consensus_modes :: "(string \<times> consensus_mode) list" where
  "consensus_modes = map (\<lambda>m. (mode_text m, m)) [AUTO, AND_MODE, WEIGHTED, WORST_CASE]"

definition parse_config :: "(pv \<Rightarrow> flt res) \<Rightarrow> consensus_mode \<Rightarrow> pv \<Rightarrow> pv \<Rightarrow> pv \<Rightarrow> consensus_config res" where
  "parse_config as_float mode weights threshold on_sim =
     bindR (parse_opt (\<lambda>v. case v of VDict d \<Rightarrow> mapR (\<lambda>(k, w). bindR (as_float w) (\<lambda>x. Inr (k, x))) d
              | _ \<Rightarrow> validation_error ''ConsensusConfig'') weights) (\<lambda>ws.
     bindR (parse_opt as_float threshold) (\<lambda>t.
     bindR (parse_literal ''ConsensusConfig'' sim_policies on_sim) (\<lambda>p.
       Inr \<lparr> cc_mode = mode, cc_weights = ws, cc_threshold = t, cc_on_sim_indeterminate = p \<rparr>)))"

subsection \<open>The environment of the service\<close>

type_synonym 'w backend = "pv \<Rightarrow> pv dict \<Rightarrow> pv dict list \<Rightarrow> pv dict \<Rightarrow> ('w, pv) eff"

text \<open>
  A backend is its \<open>initialize\<close> with a configuration followed by \<open>validate_trajectory\<close> on the
  state, the actions and the constraints; the Isaac backend is initialised beforehand.  The
  mappings are those of config/cbf_mappings.yaml, three texts each.
\<close>

record 'w cluster_env =
  ce_urls :: "pv dict res"
  ce_cbf_mappings :: "cbf_mapping list res"
  ce_as_float :: "pv \<Rightarrow> flt res"
  ce_latency :: pnum
  ce_fs :: shell_fs
  ce_ode_solver :: "'w backend"
  ce_discrete_event :: "'w backend"
  ce_isaac_ready :: "'w \<Rightarrow> bool"
  ce_isaac :: "pv dict \<Rightarrow> pv dict list \<Rightarrow> pv dict \<Rightarrow> ('w, pv) eff"

definition get_policy_store_url :: "pv dict res \<Rightarrow> string res" where
  "get_policy_store_url urls = bindR urls (\<lambda>u. let url = vget u ''policy_store'' in
     if \<not> truthy url then raise RuntimeError ''Policy Store URL not configured in services.yaml''
     else Inr (py_str url))"


definition fetch_asset_profile :: "'w http_client \<Rightarrow> pv dict res \<Rightarrow> string \<Rightarrow> string \<Rightarrow> ('w, pv) eff" where
  "fetch_asset_profile http urls policy_version_id asset_id =
     bindE (liftE (get_policy_store_url urls)) (\<lambda>url.
     bindE (http ''GET'' (url @ ''/v1/policies/'' @ policy_version_id @ ''/assets/'' @ asset_id) VNone) (\<lambda>reply.
       if rp_code reply \<noteq> 200 then throwE RuntimeError (''Policy Store returned '' @ str_int (rp_code reply))
       else liftE (bindR (resp_json reply) (\<lambda>v. py_get v ''profile'' (VDict [])))))"

subsection \<open>The ruleset\<close>

definition build_ruleset :: "(pv \<Rightarrow> flt res) \<Rightarrow> pv \<Rightarrow> cbf_rule list res" where
  "build_ruleset as_float ruleset_raw = bindR (py_iter (or_else ruleset_raw (VList []))) (\<lambda>items.
     Inr (concat (map (\<lambda>item. case item of
       VDict d \<Rightarrow> (case parse_rule as_float d of Inr r \<Rightarrow> [CObj r] | Inl e \<Rightarrow> [])
     | _ \<Rightarrow> [CVal item]) items)))"

definition opt_list :: "('a \<Rightarrow> pv) \<Rightarrow> 'a list option \<Rightarrow> pv" where
  "opt_list f x = (case x of None \<Rightarrow> VNone | Some xs \<Rightarrow> VList (map f xs))"

definition serialize_rule :: "rule \<Rightarrow> pv" where
  "serialize_rule r = VDict [(''rule_id'', VStr (r_rule_id r)), (''type'', VStr (rule_type_text (r_type r))),
     (''target_field'', VStr (r_target_field r)), (''operator'', opt_pv (map_option op_text (r_operator r))),
     (''value'', r_value r), (''min'', opt_flt (r_min r)), (''max'', opt_flt (r_max r)),
     (''allowed_values'', opt_list id (r_allowed_values r)),
     (''forbidden_pairs'', opt_list (\<lambda>p. VList (map VStr p)) (r_forbidden_pairs r)),
     (''conditions'', opt_list (\<lambda>c. VDict [(''field'', VStr (rc_field c)), (''operator'', VStr (op_text (rc_operator c))),
        (''value'', rc_value c)]) (r_conditions r)),
     (''unit'', opt_pv (r_unit r)), (''aas_source'', opt_pv (r_aas_source r))]"

definition serialize_ruleset :: "cbf_rule list \<Rightarrow> pv" where
  "serialize_ruleset ruleset = VList (map (\<lambda>r. case r of CObj r \<Rightarrow> serialize_rule r | CVal v \<Rightarrow> v) ruleset)"

subsection \<open>The validators\<close>

text \<open>\<open>rule.type\<close> of an item that is no \<open>Rule\<close> raises; the items before it are checked in vain.\<close>

definition as_rules :: "cbf_rule list \<Rightarrow> rule list res" where
  "as_rules ruleset = mapR (\<lambda>r. case r of CObj r \<Rightarrow> Inr r | CVal v \<Rightarrow> PyObj.no_attr v ''type'') ruleset"

definition run_rules_validator :: "pv dict \<Rightarrow> pv dict list \<Rightarrow> cbf_rule list \<Rightarrow> validator_verdict res" where
  "run_rules_validator snapshot actions ruleset =
     bindR (as_rules ruleset) (\<lambda>rs. Inr (validate_rules (VDict snapshot) (map VDict actions) rs))"

definition run_cbf_validator ::
  "pnum \<Rightarrow> pv dict \<Rightarrow> pv dict list \<Rightarrow> cbf_rule list \<Rightarrow> cbf_mapping list \<Rightarrow> validator_verdict res" where
  "run_cbf_validator latency snapshot actions ruleset mappings =
     validate_safety latency snapshot actions ruleset mappings"

definition none_backend :: pv where
  "none_backend = VDict [(''verdict'', VStr ''INDETERMINATE''), (''engine'', VStr ''none''),
     (''common'', VDict [(''first_violation_step'', VNone), (''violated_constraint'', VNone),
        (''latency_ms'', VFloat (Fin 0)), (''steps_completed'', VInt 0)]),
     (''details'', VDict [(''reason'', VStr ''simulation_disabled'')])]"

definition resolve_simulation_backend ::
  "'w cluster_env \<Rightarrow> pv \<Rightarrow> ('w, pv dict \<Rightarrow> pv dict list \<Rightarrow> pv dict \<Rightarrow> ('w, pv) eff) eff" where
  "resolve_simulation_backend env sim_config =
     bindE (liftE (py_get sim_config ''engine'' (VStr ''none''))) (\<lambda>sim_engine.
       if py_eq sim_engine (VStr ''ode_solver'') then retE (ce_ode_solver env sim_config)
       else if py_eq sim_engine (VStr ''isaac_sim'') then
         bindE (getE (ce_isaac_ready env)) (\<lambda>ready. if ready then retE (ce_isaac env)
           else throwE RuntimeError (''Simulation engine '' @ quoted ''isaac_sim'' @ '' requested but backend not connected''))
       else if py_eq sim_engine (VStr ''discrete_event'') then retE (ce_discrete_event env sim_config)
       else if py_eq sim_engine (VStr ''none'') then retE (\<lambda>s a c. retE none_backend)
       else throwE RuntimeError (''Simulation engine '' @ quoted (py_str sim_engine) @ '' is not supported. Use ''
         @ quoted ''ode_solver'' @ '', '' @ quoted ''isaac_sim'' @ '', '' @ quoted ''discrete_event'' @ '', or ''
         @ quoted ''none'' @ ''.''))"

definition run_simulation_validator ::
  "'w cluster_env \<Rightarrow> pv dict \<Rightarrow> pv dict list \<Rightarrow> cbf_rule list \<Rightarrow> pv \<Rightarrow> pv dict option \<Rightarrow> ('w, pv \<times> pv) eff" where
  "run_simulation_validator env snapshot actions ruleset sim_config runtime_context =
     bindE (liftE (build_runtime_sim_config (ce_fs env) sim_config runtime_context)) (\<lambda>config.
     bindE (resolve_simulation_backend env config) (\<lambda>backend.
     (let get = (\<lambda>k. vget (as_dict config) k);
          sim_constraints = [(''ruleset'', serialize_ruleset ruleset), (''world_ref'', get ''world_ref''),
            (''workspace_limits'', get ''workspace_limits''), (''torque_limits'', get ''torque_limits''),
            (''joint_limits'', get ''joint_limits''), (''collision'', get ''collision''),
            (''runtime_context'', case runtime_context of None \<Rightarrow> VNone | Some c \<Rightarrow> VDict c)] in
     bindE (backend snapshot actions sim_constraints) (\<lambda>result.
     bindE (liftE (py_getitem result ''verdict'')) (\<lambda>verdict.
     bindE (liftE (py_get result ''common'' (VDict []))) (\<lambda>common.
     bindE (liftE (py_get result ''details'' common)) (\<lambda>details.
       retE (verdict, details))))))))"

text \<open>The three results; of several failures the first in the order rules, CBF, simulation is raised.\<close>

definition run_validators_parallel ::
  "'w cluster_env \<Rightarrow> pv dict \<Rightarrow> pv dict list \<Rightarrow> cbf_rule list \<Rightarrow> cbf_mapping list \<Rightarrow> pv \<Rightarrow> pv dict option
    \<Rightarrow> ('w, validator_verdict \<times> validator_verdict \<times> (pv \<times> pv)) eff" where
  "run_validators_parallel env snapshot actions ruleset mappings sim_config runtime_context w =
     (let rules = run_rules_validator snapshot actions ruleset;
          cbf = run_cbf_validator (ce_latency env) snapshot actions ruleset mappings;
          (simulation, w') = run_simulation_validator env snapshot actions ruleset sim_config runtime_context w
      in (bindR rules (\<lambda>r. bindR cbf (\<lambda>c. bindR simulation (\<lambda>s. Inr (r, c, s)))), w'))"

subsection \<open>The consensus\<close>

definition build_consensus_config :: "(pv \<Rightarrow> flt res) \<Rightarrow> pv \<Rightarrow> consensus_config res" where
  "build_consensus_config as_float d =
     bindR (py_get d ''mode'' (VStr ''AUTO'')) (\<lambda>mode_str.
     bindR (py_get d ''weights'' (VDict (map (\<lambda>(k, w). (k, VFloat w)) default_weights))) (\<lambda>weights.
     bindR (py_get d ''threshold'' (VFloat (Fin (1/2)))) (\<lambda>threshold.
     bindR (py_get d ''on_sim_indeterminate'' (VStr ''RENORMALIZE'')) (\<lambda>on_sim.
       parse_config as_float (case parse_literal ''ConsensusMode'' consensus_modes mode_str of Inr m \<Rightarrow> m | Inl e \<Rightarrow> AUTO)
         weights threshold on_sim))))"

text \<open>The level that AUTO reads off the profile's value: only its comparison with 2 and 3 matters.\<close>

definition sil_of :: "consensus_mode \<Rightarrow> pv \<Rightarrow> int res" where
  "sil_of mode v = (if mode \<noteq> AUTO then Inr 0
     else bindR (py_rel RGe v (VInt 3)) (\<lambda>high. Inr (if high then 3 else if py_eq v (VInt 2) then 2 else 1)))"

record consensus_details =
  cd_mode :: string
  cd_weights_used :: "flt dict option"
  cd_score :: "flt option"
  cd_threshold :: "flt option"
  cd_explanation :: string

record safety_result =
  sr_transaction_id :: string
  sr_final_verdict :: verdict
  sr_validators :: "validator_verdict dict"
  sr_consensus_details :: consensus_details

text \<open>\<open>None\<close> when the whitelist is empty or every action is on it.\<close>

fun first_refused :: "pv \<Rightarrow> pv dict list \<Rightarrow> pv option res" where
  "first_refused allowed [] = Inr None"
| "first_refused allowed (action # rest) = (let action_type = dget_or action ''action_type'' (VStr []) in
     bindR (pv_in action_type allowed) (\<lambda>ok. if ok then first_refused allowed rest else Inr (Some action_type)))"

definition refusal :: "string \<Rightarrow> pv \<Rightarrow> pv \<Rightarrow> safety_result" where
  "refusal transaction_id action_type allowed =
     \<lparr> sr_transaction_id = transaction_id, sr_final_verdict = UNSAFE, sr_validators = [],
       sr_consensus_details = \<lparr> cd_mode = ''FAIL_CLOSED'', cd_weights_used = None, cd_score = None, cd_threshold = None,
         cd_explanation = ''Invalid action_type '' @ quoted (py_str action_type) @ ''. Allowed: '' @ py_str allowed \<rparr> \<rparr>"

definition combine :: "(pv \<Rightarrow> flt res) \<Rightarrow> string \<Rightarrow> pv \<Rightarrow> pv \<Rightarrow> validator_verdict \<Rightarrow> validator_verdict \<Rightarrow> pv \<times> pv \<Rightarrow> safety_result res" where
  "combine as_float transaction_id sil_level consensus_config_dict rules cbf simulation =
     bindR (parse_verdict (fst simulation) (snd simulation)) (\<lambda>sim.
     bindR (build_consensus_config as_float consensus_config_dict) (\<lambda>config.
     bindR (sil_of (cc_mode config) sil_level) (\<lambda>level.
     (let result = evaluate_consensus level config rules cbf sim in Inr
       \<lparr> sr_transaction_id = transaction_id, sr_final_verdict = cr_final_verdict result,
         sr_validators = [(''rules'', rules), (''cbf'', cbf), (''simulation'', sim)],
         sr_consensus_details = \<lparr> cd_mode = cr_mode_used result, cd_weights_used = cr_weights_used result,
           cd_score = cr_score result, cd_threshold = cr_threshold result, cd_explanation = cr_explanation result \<rparr> \<rparr>))))"

definition run_safety_validation ::
  "'w http_client \<Rightarrow> 'w cluster_env \<Rightarrow> string \<Rightarrow> string \<Rightarrow> string \<Rightarrow> pv dict list \<Rightarrow> pv dict \<Rightarrow> pv dict option
    \<Rightarrow> ('w, safety_result) eff" where
  "run_safety_validation http env transaction_id asset_id policy_version_id action_sequence snapshot runtime_context =
     bindE (fetch_asset_profile http (ce_urls env) policy_version_id asset_id) (\<lambda>profile.
     bindE (liftE (py_get profile ''allowed_action_types'' (VList []))) (\<lambda>allowed.
     bindE (liftE (if truthy allowed then first_refused allowed action_sequence else Inr None)) (\<lambda>refused. case refused of
         Some action_type \<Rightarrow> retE (refusal transaction_id action_type allowed)
       | None \<Rightarrow>
     bindE (liftE (py_get profile ''sil_level'' (VInt 2))) (\<lambda>sil_level.
     bindE (liftE (py_get profile ''consensus'' (VDict []))) (\<lambda>consensus_config_dict.
     bindE (liftE (bindR (py_get profile ''ruleset'' (VList [])) (build_ruleset (ce_as_float env)))) (\<lambda>ruleset.
     bindE (liftE (py_get profile ''simulation'' (VDict []))) (\<lambda>sim_config.
     bindE (liftE (ce_cbf_mappings env)) (\<lambda>mappings.
       if mappings = [] then throwE RuntimeError ''CBF mappings configuration missing''
       else
     bindE (run_validators_parallel env snapshot action_sequence ruleset mappings sim_config runtime_context)
       (\<lambda>(rules, cbf, simulation).
     liftE (combine (ce_as_float env) transaction_id sil_level consensus_config_dict rules cbf simulation))))))))))"

subsection \<open>The handlers\<close>

definition verdict_pv :: "validator_verdict \<Rightarrow> pv" where
  "verdict_pv v = VDict [(''verdict'', VStr (verdict_text (vv_verdict v))), (''details'', VDict (vv_details v))]"

definition safety_response :: "safety_result \<Rightarrow> pv" where
  "safety_response r = (let d = sr_consensus_details r in VDict
     [(''transaction_id'', VStr (sr_transaction_id r)), (''final_verdict'', VStr (verdict_text (sr_final_verdict r))),
      (''validators'', VDict (map (\<lambda>(name, v). (name, verdict_pv v)) (sr_validators r))),
      (''consensus_details'', VDict [(''mode'', VStr (cd_mode d)),
         (''weights_used'', case cd_weights_used d of None \<Rightarrow> VNone | Some ws \<Rightarrow> VDict (map (\<lambda>(k, w). (k, VFloat w)) ws)),
         (''score'', opt_flt (cd_score d)), (''threshold'', opt_flt (cd_threshold d)),
         (''explanation'', VStr (cd_explanation d))])])"

definition validate_route ::
  "'w http_client \<Rightarrow> 'w cluster_env \<Rightarrow> string \<Rightarrow> string \<Rightarrow> string \<Rightarrow> pv dict list \<Rightarrow> pv dict \<Rightarrow> pv dict option
    \<Rightarrow> ('w, pv) eff" where
  "validate_route http env transaction_id asset_id policy_version_id action_sequence snapshot runtime_context =
     bindE (run_safety_validation http env transaction_id asset_id policy_version_id action_sequence snapshot runtime_context)
       (\<lambda>r. retE (safety_response r))"

subsection \<open>Fallback proposals (core/services/alternative_action.py)\<close>

definition proposal :: "pv \<Rightarrow> nat \<times> pv \<Rightarrow> pv list" where
  "proposal reason_code p = (case p of
     (idx, VDict action) \<Rightarrow> [VDict [(''proposal_id'', VStr (''safe-state-'' @ str_nat idx)),
        (''action_type'', dget_or action ''action_type'' (VStr ''unknown'')),
        (''params'', dget_or action ''params'' (VDict [])),
        (''rationale'', VStr (''Derived from policy execution.safe_state for '' @ py_str (or_else reason_code (VStr ''fallback'')))),
        (''source'', VStr ''policy.safe_state'')]]
   | _ \<Rightarrow> [])"

definition generate_alternative_actions :: "pv \<Rightarrow> pv \<Rightarrow> pv list res" where
  "generate_alternative_actions asset_profile reason_code =
     (if \<not> truthy asset_profile then Inr []
      else bindR (py_get asset_profile ''execution'' (VDict [])) (\<lambda>execution.
        bindR (py_get (or_else execution (VDict [])) ''safe_state'' (VList [])) (\<lambda>safe_state.
        bindR (py_iter (or_else safe_state (VList []))) (\<lambda>actions.
          Inr (concat (map (proposal reason_code) (zip [0..<length actions] actions)))))))"

end
