(* ===== verification/SafetyFacts.thy ===== *)
theory SafetyFacts
  imports SafetyCluster
begin

section \<open>What a verdict of the safety cluster means\<close>

text \<open>
  The pipeline from the policy document to the verdict, composed: the profile fetched over HTTP,
  the parsed ruleset, the validators and the consensus.
\<close>

lemma build_ruleset_parsed:
  assumes "build_ruleset as_float (VList items) = Inr rs" "VDict d \<in> set items" "parse_rule as_float d = Inr r"
  shows "CObj r \<in> set rs"
proof (cases items)
  case Nil
  with assms show ?thesis by simp
next
  case (Cons x xs)
  then have "rs = concat (map (\<lambda>item. case item of VDict d \<Rightarrow> (case parse_rule as_float d of Inr r \<Rightarrow> [CObj r] | Inl e \<Rightarrow> [])
     | _ \<Rightarrow> [CVal item]) items)"
    using assms(1) by (simp add: build_ruleset_def or_else_def py_iter_def)
  with assms(2,3) show ?thesis by force
qed

lemma as_rules_mem: "as_rules ruleset = Inr rs \<Longrightarrow> CObj r \<in> set ruleset \<Longrightarrow> r \<in> set rs"
  by (induction ruleset arbitrary: rs) (auto simp: as_rules_def split: cbf_rule.splits)

lemma rules_validator_safe:
  "run_rules_validator snapshot actions ruleset = Inr v \<Longrightarrow> vv_verdict v = SAFE \<Longrightarrow> CObj r \<in> set ruleset \<Longrightarrow>
   rule_passes (sources (VDict snapshot) (map VDict actions)) r"
  by (auto simp: run_rules_validator_def validate_rules_SAFE dest: as_rules_mem)

lemma run_validators_results:
  "run_validators_parallel env snapshot actions ruleset mappings sim_config ctx w = (Inr (rules, cbf, simulation), w') \<Longrightarrow>
   run_rules_validator snapshot actions ruleset = Inr rules \<and>
   run_cbf_validator (ce_latency env) snapshot actions ruleset mappings = Inr cbf \<and>
   run_simulation_validator env snapshot actions ruleset sim_config ctx w = (Inr simulation, w')"
  by (auto simp: run_validators_parallel_def Let_def split: prod.splits)

text \<open>A verdict is either a refusal or the consensus of three results.\<close>

lemma run_safety_cases:
  assumes "run_safety_validation http env tx asset v actions snapshot ctx w = (Inr r, w')"
    and "fetch_asset_profile http (ce_urls env) v asset w = (Inr (VDict profile), w1)"
  obtains (refused) t where "r = refusal tx t (dget_or profile ''allowed_action_types'' (VList []))"
  | (decided) ruleset mappings rules cbf simulation where
      "build_ruleset (ce_as_float env) (dget_or profile ''ruleset'' (VList [])) = Inr ruleset"
      "run_validators_parallel env snapshot actions ruleset mappings (dget_or profile ''simulation'' (VDict [])) ctx w1
         = (Inr (rules, cbf, simulation), w')"
      "combine (ce_as_float env) tx (dget_or profile ''sil_level'' (VInt 2)) (dget_or profile ''consensus'' (VDict []))
         rules cbf simulation = Inr r" "ce_cbf_mappings env = Inr mappings"
  using assms
  by (auto simp: run_safety_validation_def bindE_Inr liftE_def retE_def throwE_def split: option.splits if_splits)

text \<open>A profile of SIL 3 or 4 that leaves the mode to AUTO.\<close>

definition demands_all :: "pv dict \<Rightarrow> bool" where
  "demands_all profile \<longleftrightarrow>
     (case vget profile ''sil_level'' of VInt n \<Rightarrow> 3 \<le> n | _ \<Rightarrow> False) \<and>
     (case dget_or profile ''consensus'' (VDict []) of
        VDict c \<Rightarrow> dget_or c ''mode'' (VStr ''AUTO'') = VStr ''AUTO'' | _ \<Rightarrow> False)"

lemma parse_verdict_safe: "parse_verdict v d = Inr x \<Longrightarrow> vv_verdict x = SAFE \<Longrightarrow> v = VStr ''SAFE''"
  by (cases d) (auto simp: parse_verdict_def parse_literal_def verdicts_def validation_error_def
      split: pv.splits option.splits if_splits)

lemma config_mode:
  "build_consensus_config as_float (VDict c) = Inr config \<Longrightarrow> dget_or c ''mode'' (VStr ''AUTO'') = VStr ''AUTO'' \<Longrightarrow>
   cc_mode config = AUTO"
  by (auto simp: build_consensus_config_def parse_config_def parse_literal_def consensus_modes_def)

lemma combine_demands_all:
  assumes "combine as_float tx (dget_or profile ''sil_level'' (VInt 2)) (dget_or profile ''consensus'' (VDict []))
      rules cbf simulation = Inr r" "demands_all profile" "sr_final_verdict r = SAFE"
  shows "vv_verdict rules = SAFE \<and> vv_verdict cbf = SAFE \<and> fst simulation = VStr ''SAFE''"
proof -
  obtain sim config level where c: "parse_verdict (fst simulation) (snd simulation) = Inr sim"
      "build_consensus_config as_float (dget_or profile ''consensus'' (VDict [])) = Inr config"
      "sil_of (cc_mode config) (dget_or profile ''sil_level'' (VInt 2)) = Inr level"
      "cr_final_verdict (evaluate_consensus level config rules cbf sim) = SAFE"
    using assms(1,3) by (auto simp: combine_def Let_def)
  obtain n where n: "dget profile ''sil_level'' = Some (VInt n)" "3 \<le> n"
    using assms(2) by (auto simp: demands_all_def vget_def dget_or_def split: pv.splits option.splits)
  have mode: "cc_mode config = AUTO"
    using assms(2) c(2) by (auto simp: demands_all_def config_mode split: pv.splits)
  then have "level = 3"
    using c(3) n by (auto simp: sil_of_def dget_or_def py_rel_number num_rel_def)
  with mode have "resolve_mode level (cc_mode config) \<in> {AND_MODE, WORST_CASE}"
    by (simp add: resolve_mode_def)
  from conservative_safe [OF this] c(4) show ?thesis
    using parse_verdict_safe [OF c(1)] by simp
qed

lemma sil3_sound:
  assumes "run_safety_validation http env tx asset v actions snapshot ctx w = (Inr r, w')"
    and "fetch_asset_profile http (ce_urls env) v asset w = (Inr (VDict profile), w1)"
    and "demands_all profile" "vget profile ''ruleset'' = VList items" "sr_final_verdict r = SAFE"
  shows "(\<forall>d rl. VDict d \<in> set items \<and> parse_rule (ce_as_float env) d = Inr rl \<longrightarrow>
            rule_passes (sources (VDict snapshot) (map VDict actions)) rl) \<and>
     (\<exists>ruleset mappings cbf simulation.
        build_ruleset (ce_as_float env) (VList items) = Inr ruleset \<and> ce_cbf_mappings env = Inr mappings \<and>
        run_cbf_validator (ce_latency env) snapshot actions ruleset mappings = Inr cbf \<and> vv_verdict cbf = SAFE \<and>
        run_simulation_validator env snapshot actions ruleset (dget_or profile ''simulation'' (VDict [])) ctx w1
          = (Inr simulation, w') \<and> fst simulation = VStr ''SAFE'')"
  using assms(1,2)
proof (cases rule: run_safety_cases)
  case (refused t)
  with assms(5) show ?thesis by (simp add: refusal_def)
next
  case (decided ruleset mappings rules cbf simulation)
  have items: "dget_or profile ''ruleset'' (VList []) = VList items"
    using assms(4) by (auto simp: vget_def dget_or_def split: option.splits)
  note res = run_validators_results [OF decided(2)]
  note safe = combine_demands_all [OF decided(3) assms(3,5)]
  have "rule_passes (sources (VDict snapshot) (map VDict actions)) rl"
    if "VDict d \<in> set items" "parse_rule (ce_as_float env) d = Inr rl" for d rl
    using rules_validator_safe build_ruleset_parsed [OF _ that] decided(1) items res safe by metis
  with res safe decided(1,4) items show ?thesis
    by (intro conjI allI impI exI [of _ ruleset] exI [of _ mappings] exI [of _ cbf] exI [of _ simulation]) auto
qed

text \<open>C5: At SIL 3 or 4 with the mode left to AUTO, a SAFE answer of the safety cluster means that the rules validator found every parsed rule of the policy satisfied by the snapshot and by every action, that the barrier validator said SAFE on the same ruleset, and that the simulation backend returned SAFE.\<close>

theorem safety_sil3_sound:
  assumes "run_safety_validation http env tx asset v actions snapshot ctx w = (Inr r, w')"
    and "fetch_asset_profile http (ce_urls env) v asset w = (Inr (VDict profile), w1)"
    and "demands_all profile" "vget profile ''ruleset'' = VList items" "sr_final_verdict r = SAFE"
  shows "(\<forall>d rl. VDict d \<in> set items \<and> parse_rule (ce_as_float env) d = Inr rl \<longrightarrow>
            rule_passes (sources (VDict snapshot) (map VDict actions)) rl) \<and>
     (\<exists>ruleset mappings cbf simulation.
        build_ruleset (ce_as_float env) (VList items) = Inr ruleset \<and> ce_cbf_mappings env = Inr mappings \<and>
        run_cbf_validator (ce_latency env) snapshot actions ruleset mappings = Inr cbf \<and> vv_verdict cbf = SAFE \<and>
        run_simulation_validator env snapshot actions ruleset (dget_or profile ''simulation'' (VDict [])) ctx w1
          = (Inr simulation, w') \<and> fst simulation = VStr ''SAFE'')"
  by (rule sil3_sound [OF assms])

definition calm_backend :: "'w backend" where
  "calm_backend config state actions constraints = retE (VDict [(''verdict'', VStr ''SAFE''), (''details'', VDict [])])"

definition heater_map :: "cbf_mapping list" where
  "heater_map = [\<lparr> cm_action_type = ''set_heater_output'', cm_param = ''value'', cm_maps_to_field = ''heater_output'' \<rparr>]"

definition no_files :: shell_fs where
  "no_files = \<lparr> sf_root = ''/'', sf_path = (\<lambda>b r. r), sf_parent = id, sf_exists = (\<lambda>p. False), sf_json = (\<lambda>p. Inr VNone) \<rparr>"

definition demo_env :: "unit cluster_env" where
  "demo_env = \<lparr> ce_urls = Inr [(''policy_store'', VStr ''http://ps'')], ce_cbf_mappings = Inr heater_map, ce_as_float = py_float,
     ce_latency = NI 0, ce_fs = no_files, ce_ode_solver = calm_backend, ce_discrete_event = calm_backend,
     ce_isaac_ready = (\<lambda>w. False), ce_isaac = calm_backend VNone \<rparr>"

text \<open>A policy store that holds one profile.\<close>

definition serving :: "pv dict \<Rightarrow> 'w http_client" where
  "serving profile meth url body = retE (Reply 200 (Some (VDict [(''profile'', VDict profile)])))"

definition temperature_rule :: "string \<Rightarrow> pv" where
  "temperature_rule oper = VDict [(''rule_id'', VStr ''max_temperature''), (''type'', VStr ''threshold''),
     (''target_field'', VStr ''temperature''), (''operator'', VStr oper), (''value'', VInt 180)]"

definition sil3_profile :: "pv dict" where
  "sil3_profile = [(''sil_level'', VInt 3), (''allowed_action_types'', VList [VStr ''set_heater_output'']),
     (''ruleset'', VList [temperature_rule ''lte'']), (''simulation'', VDict [(''engine'', VStr ''ode_solver'')])]"

theorem safety_sil3_sound_witness:
  "\<exists>r rl. fst (run_safety_validation (serving sil3_profile) demo_env ''tx'' ''reactor'' ''v1''
        [[(''action_type'', VStr ''set_heater_output''), (''params'', VDict [(''value'', VInt 40)])]]
        [(''temperature'', VInt 150)] None ()) = Inr r \<and> sr_final_verdict r = SAFE \<and>
     parse_rule py_float (as_dict (temperature_rule ''lte'')) = Inr rl \<and>
     rule_passes (sources (VDict [(''temperature'', VInt 150)])
        [VDict [(''action_type'', VStr ''set_heater_output''), (''params'', VDict [(''value'', VInt 40)])]]) rl"
proof -
  let ?acts = "[[(''action_type'', VStr ''set_heater_output''), (''params'', VDict [(''value'', VInt 40)])]]"
  let ?snap = "[(''temperature'', VInt 150)]"
  let ?rl = "(default_rule ''max_temperature'' THRESHOLD ''temperature'')\<lparr> r_operator := Some OpLte, r_value := VInt 180 \<rparr>"
  let ?run = "run_safety_validation (serving sil3_profile) demo_env ''tx'' ''reactor'' ''v1'' ?acts ?snap None ()"
  have run: "\<not> isl (fst ?run) \<and> sr_final_verdict (projr (fst ?run)) = SAFE" by code_simp
  then obtain r where r: "?run = (Inr r, ())" "sr_final_verdict r = SAFE"
    by (cases "fst ?run"; cases ?run) auto
  have fetch: "fetch_asset_profile (serving sil3_profile) (ce_urls demo_env) ''v1'' ''reactor'' () = (Inr (VDict sil3_profile), ())"
    by code_simp
  have rl: "parse_rule py_float (as_dict (temperature_rule ''lte'')) = Inr ?rl" by code_simp
  have "rule_passes (sources (VDict ?snap) (map VDict ?acts)) ?rl"
  proof -
    have "demands_all sil3_profile" "vget sil3_profile ''ruleset'' = VList [temperature_rule ''lte'']"
      by code_simp+
    from safety_sil3_sound [OF r(1) fetch this r(2)] rl show ?thesis
      by (simp add: demo_env_def temperature_rule_def)
  qed
  with r rl show ?thesis by auto
qed

lemma first_refused_unlisted:
  assumes "action \<in> set actions" "dget_or action ''action_type'' (VStr []) = VStr t" "t \<notin> set allowed"
  shows "\<exists>u. first_refused (VList (map VStr allowed)) actions = Inr (Some u)"
  using assms
proof (induction actions)
  case Nil
  then show ?case by simp
next
  case (Cons a as)
  have "pv_in (VStr t) (VList (map VStr allowed)) = Inr False"
    using assms(3) by (auto simp: pv_in_def py_in_def list_ex_iff)
  moreover have "pv_in x (VList xs) = Inr (py_in x xs)" for x xs by (simp add: pv_in_def)
  ultimately show ?case using Cons by (cases "action = a") (auto simp: Let_def)
qed

text \<open>One action type outside a non-empty whitelist is enough: the answer is UNSAFE with the mode FAIL_CLOSED, no validator is asked and no simulation runs, whatever the rest of the request and of the policy say.\<close>

theorem safety_refuses_unlisted:
  assumes "fetch_asset_profile http (ce_urls env) v asset w = (Inr (VDict profile), w1)"
    and "dget profile ''allowed_action_types'' = Some (VList (map VStr allowed))" "allowed \<noteq> []"
    and "action \<in> set actions" "dget_or action ''action_type'' (VStr []) = VStr t" "t \<notin> set allowed"
  shows "\<exists>r. run_safety_validation http env tx asset v actions snapshot ctx w = (Inr r, w1) \<and>
     sr_final_verdict r = UNSAFE \<and> sr_validators r = [] \<and> cd_mode (sr_consensus_details r) = ''FAIL_CLOSED''"
proof -
  obtain u where "first_refused (VList (map VStr allowed)) actions = Inr (Some u)"
    using first_refused_unlisted [OF assms(4-6)] by blast
  with assms(1-3) show ?thesis
    by (cases allowed) (simp_all add: run_safety_validation_def bindE_def liftE_def retE_def dget_or_def refusal_def)
qed

theorem safety_refuses_unlisted_witness:
  "\<exists>r. run_safety_validation (serving sil3_profile) demo_env ''tx'' ''reactor'' ''v1''
      [[(''action_type'', VStr ''open_valve'')]] [] None () = (Inr r, ()) \<and> sr_final_verdict r = UNSAFE"
proof -
  have "fetch_asset_profile (serving sil3_profile) (ce_urls demo_env) ''v1'' ''reactor'' () = (Inr (VDict sil3_profile), ())"
    by code_simp
  moreover have "dget sil3_profile ''allowed_action_types'' = Some (VList (map VStr [''set_heater_output'']))"
    by code_simp
  ultimately show ?thesis
    using safety_refuses_unlisted [where actions = "[[(''action_type'', VStr ''open_valve'')]]" and t = "''open_valve''"
      and action = "[(''action_type'', VStr ''open_valve'')]" and allowed = "[''set_heater_output'']"
      and tx = "''tx''" and snapshot = "[]" and ctx = None]
    by (fastforce simp: dget_or_def)
qed

lemma build_ruleset_invalid:
  assumes "\<And>d. d \<in> set ds \<Longrightarrow> isl (parse_rule as_float d)"
  shows "build_ruleset as_float (VList (map VDict ds)) = Inr []"
proof (cases ds)
  case Nil
  then show ?thesis by (simp add: build_ruleset_def or_else_def py_iter_def)
next
  case (Cons d ds')
  have "concat (map (\<lambda>item. case item of VDict d \<Rightarrow> (case parse_rule as_float d of Inr r \<Rightarrow> [CObj r] | Inl e \<Rightarrow> [])
     | _ \<Rightarrow> [CVal item]) (map VDict ds)) = []"
    using assms by (force split: sum.splits)
  with Cons show ?thesis by (simp add: build_ruleset_def or_else_def py_iter_def)
qed

text \<open>The consensus of the defaults: 0.4 of 0.75 reaches the threshold.\<close>

lemma default_combine:
  assumes "\<And>f. as_float (VFloat f) = Inr f"
  shows "\<exists>r. combine as_float tx (VInt 2) (VDict [])
      \<lparr> vv_verdict = SAFE, vv_details = [] \<rparr> \<lparr> vv_verdict = INDETERMINATE, vv_details = cd \<rparr>
      (VStr ''INDETERMINATE'', VDict sd) = Inr r \<and> sr_final_verdict r = SAFE"
proof -
  have config: "build_consensus_config as_float (VDict []) =
      Inr \<lparr> cc_mode = AUTO, cc_weights = Some default_weights, cc_threshold = Some (Fin (1/2)), cc_on_sim_indeterminate = RENORMALIZE \<rparr>"
    by (simp add: build_consensus_config_def dget_or_def parse_config_def parse_opt_def default_weights_def assms
        parse_literal_def consensus_modes_def sim_policies_def)
  have verdict: "parse_verdict (VStr ''INDETERMINATE'') (VDict sd) = Inr \<lparr> vv_verdict = INDETERMINATE, vv_details = sd \<rparr>"
    by (simp add: parse_verdict_def parse_literal_def verdicts_def)
  have "sil_of AUTO (VInt 2) = Inr 2" by code_simp
  moreover have "cr_final_verdict (evaluate_consensus 2
      \<lparr> cc_mode = AUTO, cc_weights = Some default_weights, cc_threshold = Some (Fin (1/2)), cc_on_sim_indeterminate = RENORMALIZE \<rparr>
      \<lparr> vv_verdict = SAFE, vv_details = [] \<rparr> \<lparr> vv_verdict = INDETERMINATE, vv_details = cd \<rparr>
      \<lparr> vv_verdict = INDETERMINATE, vv_details = sd \<rparr>) = SAFE"
    using renormalized_scores [of True False]
    by (simp add: evaluate_weighted resolve_mode_def config_weights_def config_threshold_def default_weights_def
        weighted_score_def get_score_def sim_score_def)
  ultimately show ?thesis by (simp add: combine_def config verdict Let_def)
qed

text \<open>A rule the model cannot parse is dropped without a trace in the verdict: with the default level, consensus and simulation, a policy all of whose rules are malformed lets every action pass from every state.\<close>

theorem safety_invalid_rules_pass:
  assumes "fetch_asset_profile http (ce_urls env) v asset w = (Inr (VDict profile), w1)"
    and "dget profile ''allowed_action_types'' = None" "dget profile ''sil_level'' = None"
    and "dget profile ''consensus'' = None" "dget profile ''simulation'' = None"
    and "dget profile ''ruleset'' = Some (VList (map VDict ds))"
    and "\<And>d. d \<in> set ds \<Longrightarrow> isl (parse_rule (ce_as_float env) d)"
    and "ce_cbf_mappings env = Inr (m # ms)" "\<And>f. ce_as_float env (VFloat f) = Inr f"
  shows "\<exists>r. run_safety_validation http env tx asset v actions snapshot None w = (Inr r, w1) \<and> sr_final_verdict r = SAFE"
proof -
  have "run_validators_parallel env snapshot actions [] (m # ms) (VDict []) None w1 =
     (Inr (\<lparr> vv_verdict = SAFE, vv_details = [] \<rparr>,
           \<lparr> vv_verdict = INDETERMINATE, vv_details = [(''reason'', VStr ''No safety rules defined for CBF evaluation''),
                      (''computation_time_ms'', VInt 0)] \<rparr>,
           (VStr ''INDETERMINATE'', VDict [(''reason'', VStr ''simulation_disabled'')])), w1)"
    by (simp add: run_validators_parallel_def run_rules_validator_def as_rules_def validate_rules_def
        run_cbf_validator_def validate_safety_def run_simulation_validator_def build_runtime_sim_config_def
        resolve_simulation_backend_def none_backend_def bindE_def liftE_def retE_def dget_or_def py_getitem_def)
  moreover obtain r where "combine (ce_as_float env) tx (VInt 2) (VDict []) \<lparr> vv_verdict = SAFE, vv_details = [] \<rparr>
       \<lparr> vv_verdict = INDETERMINATE, vv_details = [(''reason'', VStr ''No safety rules defined for CBF evaluation''),
          (''computation_time_ms'', VInt 0)] \<rparr>
       (VStr ''INDETERMINATE'', VDict [(''reason'', VStr ''simulation_disabled'')]) = Inr r" "sr_final_verdict r = SAFE"
    using default_combine [OF assms(9)] by blast
  ultimately show ?thesis
    using assms build_ruleset_invalid [OF assms(7)]
    by (simp add: run_safety_validation_def bindE_def liftE_def retE_def dget_or_def)
qed

definition misspelled_profile :: "pv dict" where
  "misspelled_profile = [(''ruleset'', VList [temperature_rule ''<='' ])]"

theorem safety_invalid_rules_pass_witness:
  "\<exists>r. run_safety_validation (serving misspelled_profile) demo_env ''tx'' ''reactor'' ''v1''
      [[(''action_type'', VStr ''set_heater_output''), (''params'', VDict [(''value'', VInt 100)])]]
      [(''temperature'', VInt 900)] None () = (Inr r, ()) \<and> sr_final_verdict r = SAFE"
proof -
  have "fetch_asset_profile (serving misspelled_profile) (ce_urls demo_env) ''v1'' ''reactor'' () = (Inr (VDict misspelled_profile), ())"
    by code_simp
  moreover have "isl (parse_rule (ce_as_float demo_env) (as_dict (temperature_rule ''<='')))" by code_simp
  moreover have "temperature_rule ''<='' = VDict (as_dict (temperature_rule ''<=''))" by (simp add: temperature_rule_def)
  ultimately show ?thesis
    by (intro safety_invalid_rules_pass [where ds = "[as_dict (temperature_rule ''<='')]" and ms = "[]"
          and m = "hd heater_map" and profile = misspelled_profile])
       (simp_all add: misspelled_profile_def demo_env_def heater_map_def)
qed

end
