(* ===== verification/Gateway.thy ===== *)
theory Gateway
  imports Integrity Canonical SafetyCluster Auth
begin

section \<open>The gateway (apps/gateway/routes.py)\<close>

text \<open>
  One handler drives a control request through its stages: evidence of the request, integrity,
  safety, PREPARE, the second look at the sensors, COMMIT.  It owns no state but the running
  number and hash of its evidence; everything else happens in the services it calls.  The HTTP
  client acts on a state \<open>'w\<close>; the clock is read off it.  A stage either answers the agent
  (\<open>Inl\<close>) or hands its results to the next (\<open>Inr\<close>); an exception that leaves the handler is an
  answer 500.  SHA-256, the service URLs and pydantic's coercion to \<open>float\<close> are arguments.
\<close>

subsection \<open>Requests and answers\<close>

record proof_package =
  pk_schema_version :: string
  pk_policy_version_id :: string
  pk_timestamp_ms :: int
  pk_sensor_snapshot_hash :: string
  pk_sensor_reliability_index :: flt
  pk_action_sequence :: "pv dict list"
  pk_safety_verification_summary :: "pv dict"
  pk_sensor_snapshot :: "pv dict option"
  pk_agent_id :: "string option"
  pk_intent_id :: "string option"
  pk_proof_generated_at_ms :: "int option"
  pk_proof_origin :: "string option"
  pk_extra :: "pv dict"

definition is_hex :: "char \<Rightarrow> bool" where
  "is_hex c \<longleftrightarrow> c \<in> set ''0123456789abcdefABCDEF''"

definition valid_proof_package :: "proof_package \<Rightarrow> bool" where
  "valid_proof_package p \<longleftrightarrow> pk_schema_version p \<noteq> [] \<and> pk_policy_version_id p \<noteq> []
     \<and> length (pk_sensor_snapshot_hash p) = 64 \<and> list_all is_hex (pk_sensor_snapshot_hash p)
     \<and> num_rel RGe (NF (pk_sensor_reliability_index p)) (NI 0) \<and> num_rel RLe (NF (pk_sensor_reliability_index p)) (NI 1)"

text \<open>\<open>model_dump(exclude_none=True)\<close>\<close>

definition dump_proof :: "proof_package \<Rightarrow> pv dict" where
  "dump_proof p = filter (\<lambda>(k, v). v \<noteq> VNone)
     ([(''schema_version'', VStr (pk_schema_version p)), (''policy_version_id'', VStr (pk_policy_version_id p)),
       (''timestamp_ms'', VInt (pk_timestamp_ms p)), (''sensor_snapshot_hash'', VStr (pk_sensor_snapshot_hash p)),
       (''sensor_reliability_index'', VFloat (pk_sensor_reliability_index p)),
       (''action_sequence'', VList (map VDict (pk_action_sequence p))),
       (''safety_verification_summary'', VDict (pk_safety_verification_summary p)),
       (''sensor_snapshot'', case pk_sensor_snapshot p of None \<Rightarrow> VNone | Some s \<Rightarrow> VDict s),
       (''agent_id'', opt_pv (pk_agent_id p)), (''intent_id'', opt_pv (pk_intent_id p)),
       (''proof_generated_at_ms'', opt_int (pk_proof_generated_at_ms p)), (''proof_origin'', opt_pv (pk_proof_origin p))]
      @ pk_extra p)"

record control_request =
  rq_transaction_id :: string
  rq_asset_id :: string
  rq_proof_package :: proof_package

record control_response =
  gr_transaction_id :: string
  gr_status :: string
  gr_reason :: "string option"
  gr_reason_code :: "string option"
  gr_evidence_ref :: "string option"
  gr_alternative_action :: "pv option"
  gr_alternative_actions :: "pv list option"

text \<open>The shape the response model requires of a proposal.\<close>

definition valid_proposal :: "pv \<Rightarrow> bool" where
  "valid_proposal v \<longleftrightarrow> (case v of
     VDict d \<Rightarrow> (case vget d ''action_type'' of VStr s \<Rightarrow> True | _ \<Rightarrow> False) \<and> is_dict (vget d ''params'')
   | _ \<Rightarrow> False)"

definition response :: "string \<Rightarrow> string \<Rightarrow> string option \<Rightarrow> string option \<Rightarrow> string option \<Rightarrow> pv list \<Rightarrow> control_response res" where
  "response tx status reason reason_code evidence_ref alternative_actions =
     (if \<not> list_all valid_proposal alternative_actions then validation_error ''ControlResponse''
      else Inr \<lparr> gr_transaction_id = tx, gr_status = status, gr_reason = reason, gr_reason_code = reason_code,
        gr_evidence_ref = evidence_ref,
        gr_alternative_action = (case alternative_actions of [] \<Rightarrow> None | a # as \<Rightarrow> Some a),
        gr_alternative_actions = (if alternative_actions = [] then None else Some alternative_actions) \<rparr>)"

subsection \<open>The environment\<close>

record 'w gw_env =
  ge_http :: "'w http_client"
  ge_clock :: "'w \<Rightarrow> int"
  ge_urls :: "pv dict res"
  ge_sha :: "string \<Rightarrow> string"
  ge_as_float :: "pv \<Rightarrow> flt res"

definition get_service_url :: "pv dict res \<Rightarrow> string \<Rightarrow> string res" where
  "get_service_url urls service_name = bindR urls (\<lambda>u. let url = vget u service_name in
     if \<not> truthy url then raise ValueError (''Service URL for '' @ quoted service_name @ '' not configured'')
     else Inr (py_str url))"

definition call_service :: "'w gw_env \<Rightarrow> string \<Rightarrow> string \<Rightarrow> string \<Rightarrow> pv \<Rightarrow> ('w, http_reply) eff" where
  "call_service env meth service path body =
     bindE (liftE (get_service_url (ge_urls env) service)) (\<lambda>base. ge_http env meth (base @ path) body)"

subsection \<open>Helpers\<close>

definition parse_divergence_threshold :: "(pv \<Rightarrow> flt res) \<Rightarrow> pv \<Rightarrow> divergence_threshold res" where
  "parse_divergence_threshold as_float item = (case item of
     VDict d \<Rightarrow> bindR (parse_str ''DivergenceThreshold'' (dget d ''sensor_type'')) (\<lambda>s.
       bindR (parse_literal ''DivergenceThreshold'' [(''absolute'', ABSOLUTE), (''percentage'', PERCENTAGE)] (vget d ''method'')) (\<lambda>m.
       bindR (case dget d ''max_divergence'' of None \<Rightarrow> validation_error ''DivergenceThreshold'' | Some x \<Rightarrow> as_float x) (\<lambda>x.
         Inr \<lparr> dt_sensor_type = s, dt_method = m, dt_max_divergence = x \<rparr>)))
   | _ \<Rightarrow> raise TypeError ''argument after ** must be a mapping'')"

definition build_divergence_thresholds :: "(pv \<Rightarrow> flt res) \<Rightarrow> pv \<Rightarrow> divergence_threshold list res" where
  "build_divergence_thresholds as_float raw = bindR (py_iter (or_else raw (VList []))) (\<lambda>items.
     Inr (concat (map (\<lambda>item. case parse_divergence_threshold as_float item of Inr t \<Rightarrow> [t] | Inl e \<Rightarrow> []) items)))"

definition extract_runtime_context :: "pv dict \<Rightarrow> pv dict option" where
  "extract_runtime_context proof = (case vget proof ''runtime_context'' of VDict d \<Rightarrow> Some d | _ \<Rightarrow> None)"

definition extract_fault_injection :: "pv dict \<Rightarrow> pv dict option" where
  "extract_fault_injection proof = (case vget proof ''fault_injection'' of VDict d \<Rightarrow> Some d | _ \<Rightarrow> None)"

definition fault_enabled :: "pv dict option \<Rightarrow> string \<Rightarrow> bool" where
  "fault_enabled fault_injection family = (case fault_injection of
     None \<Rightarrow> False | Some d \<Rightarrow> d \<noteq> [] \<and> py_eq (vget d ''fault_family'') (VStr family))"

text \<open>Called with the hash that passed the integrity check: a text, or \<open>None\<close> if the gateway sent none.\<close>

definition force_hash_mismatch :: "pv \<Rightarrow> pv res" where
  "force_hash_mismatch h = (case h of
     VStr s \<Rightarrow> Inr (VStr (if length s \<noteq> 64 then replicate 64 CHR ''f''
                  else butlast s @ (if lower_char (last s) \<noteq> CHR ''0'' then ''0'' else ''1'')))
   | _ \<Rightarrow> raise TypeError (''object of type '' @ quoted (type_name h) @ '' has no len()''))"

definition gw_fetch_asset_profile :: "'w gw_env \<Rightarrow> pv \<Rightarrow> string \<Rightarrow> ('w, pv) eff" where
  "gw_fetch_asset_profile env policy_version asset_id =
     bindE (call_service env ''GET'' ''policy_store''
              (''/v1/policies/'' @ py_str policy_version @ ''/assets/'' @ asset_id) VNone) (\<lambda>reply.
       if rp_code reply \<noteq> 200
       then throwE RuntimeError (''Policy Store asset profile error: '' @ py_str (error_detail reply))
       else liftE (bindR (resp_json reply) (\<lambda>v. py_get v ''profile'' (VDict []))))"

definition abort_transaction :: "'w gw_env \<Rightarrow> string \<Rightarrow> string \<Rightarrow> string \<Rightarrow> ('w, pv) eff" where
  "abort_transaction env tx asset_id reason =
     bindE (call_service env ''POST'' ''ot_interface'' ''/v1/abort''
              (VDict [(''transaction_id'', VStr tx), (''asset_id'', VStr asset_id), (''reason'', VStr reason)])) (\<lambda>reply.
       if rp_code reply \<noteq> 200 then throwE RuntimeError (''OT abort failed: '' @ py_str (error_detail reply))
       else
     bindE (liftE (resp_json reply)) (\<lambda>payload.
     bindE (liftE (py_get payload ''status'' VNone)) (\<lambda>status.
       if unhashable status then liftE (unhashable_error status)
       else if py_eq status (VStr ''ABORTED'') \<or> py_eq status (VStr ''ALREADY_ABORTED'') then retE payload
       else bindE (liftE (py_get payload ''reason'' VNone)) (\<lambda>why.
         throwE RuntimeError (py_str (or_else why (VStr (''Unexpected OT abort status: '' @ py_str status))))))))"

subsection \<open>Evidence\<close>

text \<open>The running number and the hash of the last event.\<close>

type_synonym chain = "int \<times> string"

definition log_evidence ::
  "'w gw_env \<Rightarrow> string \<Rightarrow> int \<Rightarrow> string \<Rightarrow> pv \<Rightarrow> string \<Rightarrow> ('w, string) eff" where
  "log_evidence env tx seq stage payload prev_hash =
     (let input_hash = compute_sensor_hash (ge_sha env) payload;
          event_hash = compute_event_hash (ge_sha env) prev_hash payload in
      bindE (getE (ge_clock env)) (\<lambda>now.
      bindE (call_service env ''POST'' ''evidence_ledger'' ''/v1/events/append'' (VDict
        [(''transaction_id'', VStr tx), (''sequence_no'', VInt seq), (''stage'', VStr stage), (''timestamp_ms'', VInt now),
         (''payload'', payload), (''input_hash'', VStr input_hash), (''prev_hash'', VStr prev_hash),
         (''event_hash'', VStr event_hash)])) (\<lambda>reply.
      if rp_code reply < 200 \<or> 300 \<le> rp_code reply
      then throwE RuntimeError (''Evidence Ledger append failed: '' @ py_str (error_detail reply))
      else retE event_hash)))"

text \<open>The call and \<open>evidence_seq += 1\<close>.\<close>

definition record_event ::
  "'w gw_env \<Rightarrow> string \<Rightarrow> string \<Rightarrow> pv dict \<Rightarrow> chain \<Rightarrow> ('w, chain) eff" where
  "record_event env tx stage payload ch =
     bindE (log_evidence env tx (fst ch) stage (VDict payload) (snd ch)) (\<lambda>h. retE (fst ch + 1, h))"

subsection \<open>The stages\<close>

text \<open>A stage's outcome: an answer to the agent, or what the next stage needs.\<close>

type_synonym ('w, 'a) stage = "('w, control_response + 'a) eff"

definition next_stage :: "('w, 'a) stage \<Rightarrow> ('a \<Rightarrow> ('w, 'b) stage) \<Rightarrow> ('w, 'b) stage" where
  "next_stage m f = bindE m (\<lambda>r. case r of Inl resp \<Rightarrow> retE (Inl resp) | Inr x \<Rightarrow> f x)"

definition reply_with :: "string \<Rightarrow> string \<Rightarrow> string \<Rightarrow> string \<Rightarrow> pv list \<Rightarrow> ('w, 'a) stage" where
  "reply_with tx status reason reason_code alternatives =
     bindE (liftE (response tx status (Some reason) (Some reason_code) None alternatives)) (\<lambda>r. retE (Inl r))"

text \<open>The field names the schema evidence lists.\<close>

definition required_fields :: "string list" where
  "required_fields = [''schema_version'', ''policy_version_id'', ''timestamp_ms'', ''sensor_snapshot_hash'',
     ''sensor_reliability_index'', ''action_sequence'', ''safety_verification_summary'']"

definition received_stage :: "'w gw_env \<Rightarrow> string \<Rightarrow> pv dict \<Rightarrow> ('w, chain) stage" where
  "received_stage env tx proof =
     bindE (liftE (py_getitem (VDict proof) ''schema_version'')) (\<lambda>schema_version.
     bindE (liftE (py_getitem (VDict proof) ''policy_version_id'')) (\<lambda>policy_version.
     bindE (record_event env tx ''RECEIVED''
       [(''proof_package_hash'', VStr (compute_sensor_hash (ge_sha env) (VDict proof))),
        (''schema_version'', schema_version), (''policy_version_id'', policy_version)] (0, genesis_hash (ge_sha env))) (\<lambda>ch1.
     bindE (record_event env tx ''SCHEMA_VALIDATED''
       [(''fields_checked'', VList (map VStr required_fields))] ch1) (\<lambda>ch2. retE (Inr ch2)))))"

definition policy_stage :: "'w gw_env \<Rightarrow> string \<Rightarrow> ('w, pv) stage" where
  "policy_stage env tx =
     tryE (bindE (call_service env ''GET'' ''policy_store'' ''/v1/policies/active'' VNone) (\<lambda>reply.
        if rp_code reply \<noteq> 200
        then reply_with tx ''ERROR'' (''Policy Store returned HTTP '' @ str_int (rp_code reply)) ''POLICY_STORE_ERROR'' []
        else bindE (liftE (bindR (resp_json reply) (\<lambda>v. py_getitem v ''policy_version_id''))) (\<lambda>v. retE (Inr v))))
       (\<lambda>e. reply_with tx ''ERROR'' (''Policy Store error: '' @ exc_msg e) ''POLICY_STORE_UNREACHABLE'' [])"

definition latest_snapshot :: "'w gw_env \<Rightarrow> string \<Rightarrow> ('w, http_reply) eff" where
  "latest_snapshot env asset_id =
     call_service env ''GET'' ''sensor_gateway'' (''/v1/assets/'' @ asset_id @ ''/snapshots/latest'') VNone"

definition sensor_stage :: "'w gw_env \<Rightarrow> string \<Rightarrow> string \<Rightarrow> ('w, pv \<times> pv) stage" where
  "sensor_stage env tx asset_id =
     tryE (bindE (latest_snapshot env asset_id) (\<lambda>reply.
        if rp_code reply \<noteq> 200
        then reply_with tx ''ERROR'' (''Sensor Gateway error: '' @ py_str (error_detail reply)) ''SENSOR_GATEWAY_ERROR'' []
        else bindE (liftE (resp_json reply)) (\<lambda>sensor_data.
             bindE (liftE (py_getitem sensor_data ''sensor_snapshot'')) (\<lambda>current_snapshot.
             bindE (liftE (py_getitem sensor_data ''sensor_snapshot_hash'')) (\<lambda>current_hash.
             retE (Inr (current_snapshot, current_hash)))))))
       (\<lambda>e. reply_with tx ''ERROR'' (''Sensor Gateway error: '' @ exc_msg e) ''SENSOR_GATEWAY_ERROR'' [])"

definition profile_stage :: "'w gw_env \<Rightarrow> string \<Rightarrow> string \<Rightarrow> pv \<Rightarrow> ('w, pv) stage" where
  "profile_stage env tx asset_id active_version =
     tryE (bindE (gw_fetch_asset_profile env active_version asset_id) (\<lambda>p. retE (Inr p)))
       (\<lambda>e. reply_with tx ''ERROR'' (exc_msg e) ''POLICY_STORE_ERROR'' [])"

text \<open>
  The integrity check on the values as they came.  An active version that is no text differs from
  the proof's, a hash that is neither a text nor null differs from the proof's; the age is compared
  with any number, and \<open>limit\<close> is the age or one less, whichever the comparison gives.
\<close>

definition integrity_of ::
  "string \<Rightarrow> pv \<Rightarrow> int \<Rightarrow> int \<Rightarrow> pv \<Rightarrow> pv dict \<Rightarrow> pv \<Rightarrow> divergence_threshold list \<Rightarrow> string \<Rightarrow> pv \<Rightarrow> (bool \<times> string option) res" where
  "integrity_of proof_version active_version proof_ts now max_age proof_snapshot current_snapshot thresholds proof_hash current_hash =
     (if active_version \<noteq> VStr proof_version then Inr (False, Some ''INTEGRITY_POLICY_MISMATCH'')
      else if current_hash \<noteq> VNone \<and> current_hash \<noteq> VStr proof_hash then Inr (False, Some ''INTEGRITY_SENSOR_HASH_MISMATCH'')
      else (case num_of max_age of
        None \<Rightarrow> no_order RGt (VInt (now - proof_ts)) max_age
      | Some n \<Rightarrow> (let age = now - proof_ts; limit = (if num_rel RGt (NI age) n then age - 1 else age) in
          check_integrity proof_version proof_version proof_ts now limit (VDict proof_snapshot) current_snapshot thresholds
            (Some proof_hash) (if current_hash = VNone then None else Some proof_hash))))"

record integrity_facts =
  if_active_version :: pv
  if_snapshot :: pv
  if_hash :: pv
  if_profile :: pv
  if_execution :: pv
  if_chain :: chain

definition integrity_stage :: "'w gw_env \<Rightarrow> string \<Rightarrow> string \<Rightarrow> proof_package \<Rightarrow> chain \<Rightarrow> ('w, integrity_facts) stage" where
  "integrity_stage env tx asset_id p ch =
     next_stage (policy_stage env tx) (\<lambda>active_version.
     next_stage (sensor_stage env tx asset_id) (\<lambda>(current_snapshot, current_hash).
     next_stage (profile_stage env tx asset_id active_version) (\<lambda>profile.
     bindE (liftE (py_get profile ''integrity'' (VDict []))) (\<lambda>i0.
     bindE (liftE (py_get profile ''execution'' (VDict []))) (\<lambda>x0.
     (let integrity_config = or_else i0 (VDict []); execution_config = or_else x0 (VDict []);
          proof_snapshot = (case pk_sensor_snapshot p of None \<Rightarrow> [] | Some s \<Rightarrow> s);
          proof_hash = pk_sensor_snapshot_hash p;
          sensor_match = VBool (py_eq (VStr proof_hash) current_hash) in
     bindE (liftE (py_get integrity_config ''timestamp_max_age_ms'' (VInt 5000))) (\<lambda>max_age.
     bindE (liftE (bindR (py_get integrity_config ''sensor_divergence_thresholds'' VNone)
                     (build_divergence_thresholds (ge_as_float env)))) (\<lambda>thresholds.
     bindE (getE (ge_clock env)) (\<lambda>now.
     bindE (liftE (integrity_of (pk_policy_version_id p) active_version (pk_timestamp_ms p) now max_age proof_snapshot
              current_snapshot (if proof_snapshot \<noteq> [] then thresholds else []) proof_hash current_hash)) (\<lambda>(ok, reason).
       if \<not> ok then
         bindE (record_event env tx ''INTEGRITY_REJECTED''
           [(''reason'', opt_pv reason), (''policy_version'', active_version), (''sensor_hash'', current_hash),
            (''sensor_hash_match'', sensor_match)] ch) (\<lambda>_.
         bindE (liftE (response tx ''REJECTED'' (Some (''Integrity verification failed: '' @ py_str (opt_pv reason))) reason None []))
           (\<lambda>r. retE (Inl r)))
       else
         bindE (record_event env tx ''INTEGRITY_PASSED''
           [(''policy_version'', active_version), (''sensor_hash'', current_hash), (''sensor_hash_match'', sensor_match),
            (''sensor_reliability_index'', VFloat (pk_sensor_reliability_index p)), (''timestamp_max_age_ms'', max_age)] ch) (\<lambda>ch1.
         retE (Inr \<lparr> if_active_version = active_version, if_snapshot = current_snapshot, if_hash = current_hash,
                     if_profile = profile, if_execution = execution_config, if_chain = ch1 \<rparr>))))))))))))"

subsection \<open>Safety\<close>

definition proposals :: "pv \<Rightarrow> string \<Rightarrow> ('w, pv list) eff" where
  "proposals profile reason_code = liftE (generate_alternative_actions profile (VStr reason_code))"

text \<open>\<open>a.get("validators", {}).get(name, {})\<close> and the reasons collected from its verdict.\<close>

definition validator_detail :: "pv \<Rightarrow> string \<Rightarrow> pv res" where
  "validator_detail safety_result name = bindR (py_get safety_result ''validators'' (VDict [])) (\<lambda>v. py_get v name (VDict []))"

definition says_unsafe :: "pv \<Rightarrow> bool res" where
  "says_unsafe detail = bindR (py_get detail ''verdict'' VNone) (\<lambda>v. Inr (py_eq v (VStr ''UNSAFE'')))"

definition reason_parts :: "pv \<Rightarrow> string list res" where
  "reason_parts safety_result =
     bindR (validator_detail safety_result ''rules'') (\<lambda>rules.
     bindR (bindR (says_unsafe rules) (\<lambda>b. if \<not> b then Inr []
        else bindR (py_get rules ''details'' (VDict [])) (\<lambda>d. bindR (py_get d ''violated_rules'' (VList [])) (\<lambda>vs.
          bindR (py_iter vs) (mapR (\<lambda>v. bindR (py_get v ''rule_id'' VNone) (\<lambda>i. bindR (py_get v ''reason'' VNone) (\<lambda>why.
            Inr (''Rule '' @ quoted (py_str i) @ '': '' @ py_str why)))))))))
     (\<lambda>rule_parts.
     bindR (validator_detail safety_result ''cbf'') (\<lambda>cbf.
     bindR (bindR (says_unsafe cbf) (\<lambda>b. if \<not> b then Inr []
        else bindR (py_get cbf ''details'' (VDict [])) (\<lambda>d. bindR (py_get d ''min_barrier_value'' (VStr ''N/A'')) (\<lambda>m.
          Inr [''CBF barrier h='' @ py_str m @ '' < 0'']))))
     (\<lambda>cbf_parts.
     bindR (validator_detail safety_result ''simulation'') (\<lambda>sim.
     bindR (bindR (says_unsafe sim) (\<lambda>b. if \<not> b then Inr []
        else bindR (py_get sim ''details'' (VDict [])) (\<lambda>d. bindR (py_get d ''violations'' (VList [])) (\<lambda>vs.
          bindR (py_len vs) (\<lambda>n. Inr [''Simulation: '' @ str_int n @ '' violations detected'']))))) 
     (\<lambda>sim_parts. Inr (rule_parts @ cbf_parts @ sim_parts)))))))"

definition detailed_reason :: "string list \<Rightarrow> string" where
  "detailed_reason parts =
     (if parts = [] then ''Safety validation failed (consensus threshold not met)''
      else ''Safety validation failed: '' @ join_with ''; '' (take 5 parts))
     @ (if length parts > 5 then '' (+'' @ str_nat (length parts - 5) @ '' more)'' else [])"

definition ask_safety :: "'w gw_env \<Rightarrow> string \<Rightarrow> string \<Rightarrow> proof_package \<Rightarrow> integrity_facts \<Rightarrow> ('w, pv) stage" where
  "ask_safety env tx asset_id p facts =
     tryE (bindE (call_service env ''POST'' ''safety_cluster'' ''/v1/validate'' (VDict
             [(''transaction_id'', VStr tx), (''asset_id'', VStr asset_id), (''policy_version_id'', if_active_version facts),
              (''action_sequence'', VList (map VDict (pk_action_sequence p))),
              (''current_sensor_snapshot'', if_snapshot facts),
              (''runtime_context'', case extract_runtime_context (dump_proof p) of None \<Rightarrow> VNone | Some c \<Rightarrow> VDict c)])) (\<lambda>reply.
        if rp_code reply \<noteq> 200
        then reply_with tx ''ERROR'' (''Safety Cluster error: '' @ py_str (error_detail reply)) ''SAFETY_CLUSTER_ERROR'' []
        else bindE (liftE (resp_json reply)) (\<lambda>v. retE (Inr v))))
       (\<lambda>e. reply_with tx ''ERROR'' (''Safety Cluster error: '' @ exc_msg e) ''SAFETY_CLUSTER_UNREACHABLE'' [])"

definition safety_stage :: "'w gw_env \<Rightarrow> string \<Rightarrow> string \<Rightarrow> proof_package \<Rightarrow> integrity_facts \<Rightarrow> ('w, chain) stage" where
  "safety_stage env tx asset_id p facts =
     next_stage (ask_safety env tx asset_id p facts) (\<lambda>safety_result.
     bindE (liftE (py_getitem safety_result ''final_verdict'')) (\<lambda>final_verdict.
       if \<not> py_eq final_verdict (VStr ''SAFE'') then
         bindE (proposals (if_profile facts) ''SAFETY_UNSAFE'') (\<lambda>alternatives.
         bindE (record_event env tx ''SAFETY_UNSAFE''
           [(''verdict'', final_verdict), (''details'', safety_result), (''alternative_actions'', VList alternatives)]
           (if_chain facts)) (\<lambda>_.
         bindE (liftE (reason_parts safety_result)) (\<lambda>parts.
         reply_with tx ''UNSAFE'' (detailed_reason parts) ''SAFETY_UNSAFE'' alternatives)))
       else
         bindE (liftE (py_get safety_result ''consensus_details'' (VDict []))) (\<lambda>consensus.
         bindE (record_event env tx ''SAFETY_PASSED'' [(''verdict'', VStr ''SAFE''), (''consensus'', consensus)] (if_chain facts)) (\<lambda>ch.
         bindE (liftE (py_get consensus ''score'' (VFloat (Fin 0)))) (\<lambda>_. retE (Inr ch))))))"

subsection \<open>Two-phase commit\<close>

definition ask_prepare :: "'w gw_env \<Rightarrow> string \<Rightarrow> string \<Rightarrow> pv dict option \<Rightarrow> pv \<Rightarrow> ('w, pv) stage" where
  "ask_prepare env tx asset_id faults lock_ttl_ms =
     (if fault_enabled faults ''lock_denied''
      then retE (Inr (VDict [(''status'', VStr ''LOCK_DENIED''), (''reason'', VStr ''Injected benchmark lock denial'')]))
      else tryE (bindE (call_service env ''POST'' ''ot_interface'' ''/v1/prepare'' (VDict
               [(''transaction_id'', VStr tx), (''asset_id'', VStr asset_id), (''lock_ttl_ms'', lock_ttl_ms)])) (\<lambda>reply.
             bindE (liftE (resp_json reply)) (\<lambda>v. retE (Inr v))))
           (\<lambda>e. reply_with tx ''ERROR'' (''OT Interface error: '' @ exc_msg e) ''OT_INTERFACE_UNREACHABLE'' []))"

definition prepare_stage ::
  "'w gw_env \<Rightarrow> string \<Rightarrow> string \<Rightarrow> pv dict option \<Rightarrow> integrity_facts \<Rightarrow> chain \<Rightarrow> ('w, chain) stage" where
  "prepare_stage env tx asset_id faults facts ch =
     bindE (liftE (py_get (if_execution facts) ''lock_ttl_ms'' (VInt 5000))) (\<lambda>lock_ttl_ms.
     next_stage (ask_prepare env tx asset_id faults lock_ttl_ms) (\<lambda>prepare_result.
     bindE (liftE (py_getitem prepare_result ''status'')) (\<lambda>status.
       if \<not> py_eq status (VStr ''LOCK_GRANTED'') then
         bindE (proposals (if_profile facts) ''LOCK_DENIED'') (\<lambda>alternatives.
         bindE (liftE (py_get prepare_result ''reason'' (VStr ''unknown''))) (\<lambda>why.
         bindE (record_event env tx ''PREPARE_LOCK_DENIED''
           [(''reason'', why), (''alternative_actions'', VList alternatives)] ch) (\<lambda>_.
         reply_with tx ''ABORTED'' ''Lock denied'' ''LOCK_DENIED'' alternatives)))
       else
         bindE (liftE (py_get prepare_result ''lock_expires_at_ms'' VNone)) (\<lambda>expires.
         bindE (record_event env tx ''PREPARE_LOCK_GRANTED''
           [(''lock_expires_at_ms'', expires), (''lock_ttl_ms'', lock_ttl_ms)] ch) (\<lambda>ch1. retE (Inr ch1))))))"

text \<open>
  An abort with its answer: when it cannot be confirmed the agent gets ERROR with OT_ABORT_FAILED.
\<close>

definition confirm_abort ::
  "'w gw_env \<Rightarrow> string \<Rightarrow> string \<Rightarrow> string \<Rightarrow> string \<Rightarrow> pv list \<Rightarrow> ('w, pv) stage" where
  "confirm_abort env tx asset_id reason failure alternatives =
     bindE (tryE (bindE (abort_transaction env tx asset_id reason) (\<lambda>v. retE (Inr v))) (\<lambda>e. retE (Inl e))) (\<lambda>r. case r of
       Inl e \<Rightarrow> reply_with tx ''ERROR'' (failure @ exc_msg e) ''OT_ABORT_FAILED'' alternatives
     | Inr payload \<Rightarrow> retE (Inr payload))"

text \<open>The hash read after PREPARE, or the exception of the attempt.\<close>

definition reread_hash :: "'w gw_env \<Rightarrow> string \<Rightarrow> ('w, exc + pv) eff" where
  "reread_hash env asset_id = tryE (bindE (latest_snapshot env asset_id) (\<lambda>reply.
       if rp_code reply \<noteq> 200
       then throwE RuntimeError (''Sensor Gateway returned '' @ str_int (rp_code reply) @ '': '' @ py_str (error_detail reply))
       else bindE (liftE (resp_json reply)) (\<lambda>v.
            bindE (liftE (py_get v ''sensor_snapshot_hash'' (VStr []))) (\<lambda>h. retE (Inr h)))))
     (\<lambda>e. retE (Inl e))"

definition reverify_stage ::
  "'w gw_env \<Rightarrow> string \<Rightarrow> string \<Rightarrow> pv dict option \<Rightarrow> integrity_facts \<Rightarrow> chain \<Rightarrow> ('w, chain) stage" where
  "reverify_stage env tx asset_id faults facts ch =
     bindE (reread_hash env asset_id) (\<lambda>reread. case reread of
       Inl e \<Rightarrow>
         bindE (proposals (if_profile facts) ''TOCTOU_REVERIFY_FAILED'') (\<lambda>alternatives.
         next_stage (confirm_abort env tx asset_id (''TOCTOU reverify failed: '' @ exc_msg e)
             ''Sensor re-verification failed and abort failed: '' alternatives) (\<lambda>abort_result.
         bindE (record_event env tx ''REVERIFY_FAILED''
           [(''error'', VStr (exc_msg e)), (''abort_status'', vget (as_dict abort_result) ''status''),
            (''alternative_actions'', VList alternatives)] ch) (\<lambda>_.
         reply_with tx ''ABORTED'' (''Sensor re-verification failed: '' @ exc_msg e) ''TOCTOU_REVERIFY_FAILED'' alternatives)))
     | Inr hash0 \<Rightarrow>
         bindE (liftE (if fault_enabled faults ''reverify_hash_mismatch'' then force_hash_mismatch (if_hash facts)
                       else Inr hash0)) (\<lambda>reverify_hash.
         if \<not> py_eq reverify_hash (if_hash facts) then
           bindE (proposals (if_profile facts) ''REVERIFY_HASH_MISMATCH'') (\<lambda>alternatives.
           next_stage (confirm_abort env tx asset_id (''TOCTOU reverify hash mismatch: original='' @ py_str (if_hash facts)
               @ '', reverify='' @ py_str reverify_hash) ''TOCTOU mismatch detected but abort failed: '' alternatives)
             (\<lambda>abort_result.
           bindE (record_event env tx ''REVERIFY_FAILED''
             [(''reason'', VStr ''REVERIFY_HASH_MISMATCH''), (''original_hash'', if_hash facts),
              (''reverify_hash'', reverify_hash), (''abort_status'', vget (as_dict abort_result) ''status''),
              (''alternative_actions'', VList alternatives)] ch) (\<lambda>_.
           reply_with tx ''ABORTED'' ''Sensor state changed after PREPARE; commit aborted'' ''REVERIFY_HASH_MISMATCH'' alternatives)))
         else
           bindE (record_event env tx ''REVERIFY_PASSED''
             [(''original_hash'', if_hash facts), (''reverify_hash'', reverify_hash)] ch) (\<lambda>ch1. retE (Inr ch1))))"

text \<open>The result of COMMIT, injected or asked for, or the exception of the attempt.\<close>

definition ask_commit ::
  "'w gw_env \<Rightarrow> string \<Rightarrow> string \<Rightarrow> pv dict option \<Rightarrow> proof_package \<Rightarrow> ('w, exc + pv) eff" where
  "ask_commit env tx asset_id faults p = tryE
     (if fault_enabled faults ''commit_timeout''
      then retE (Inr (VDict [(''status'', VStr ''TIMEOUT''), (''reason'', VStr ''Injected benchmark commit timeout'')]))
      else if fault_enabled faults ''commit_failed_recovered''
      then retE (Inr (VDict [(''status'', VStr ''EXECUTION_FAILED''),
             (''reason'', VStr ''Injected benchmark recovered commit failure''), (''safe_state_executed'', VBool True)]))
      else if fault_enabled faults ''ot_interface_error''
      then throwE RuntimeError ''Injected benchmark OT interface error''
      else bindE (call_service env ''POST'' ''ot_interface'' ''/v1/commit'' (VDict
             [(''transaction_id'', VStr tx), (''asset_id'', VStr asset_id),
              (''action_sequence'', VList (map VDict (pk_action_sequence p)))])) (\<lambda>reply.
           if rp_code reply \<noteq> 200
           then throwE RuntimeError (''OT Interface COMMIT returned '' @ str_int (rp_code reply) @ '': '' @ py_str (error_detail reply))
           else bindE (liftE (resp_json reply)) (\<lambda>v. retE (Inr v))))
     (\<lambda>e. retE (Inl e))"

definition commit_error ::
  "'w gw_env \<Rightarrow> string \<Rightarrow> string \<Rightarrow> pv dict option \<Rightarrow> integrity_facts \<Rightarrow> chain \<Rightarrow> exc \<Rightarrow> ('w, 'a) stage" where
  "commit_error env tx asset_id faults facts ch e =
     (let code = (if fault_enabled faults ''ot_interface_error'' then ''OT_INTERFACE_ERROR'' else ''COMMIT_ERROR'') in
     bindE (proposals (if_profile facts) ''COMMIT_ERROR'') (\<lambda>alternatives.
     next_stage (confirm_abort env tx asset_id (exc_msg e) ''Commit failed and abort failed: '' alternatives) (\<lambda>abort_result.
     bindE (record_event env tx ''COMMIT_ERROR''
       [(''reason'', VStr (exc_msg e)), (''reason_code'', VStr code), (''abort_status'', vget (as_dict abort_result) ''status''),
        (''alternative_actions'', VList alternatives)] ch) (\<lambda>_.
     reply_with tx ''ERROR'' (''Commit failed: '' @ exc_msg e) code alternatives))))"

definition commit_execution_failed ::
  "'w gw_env \<Rightarrow> string \<Rightarrow> integrity_facts \<Rightarrow> chain \<Rightarrow> pv \<Rightarrow> pv \<Rightarrow> ('w, 'a) stage" where
  "commit_execution_failed env tx facts ch commit_result commit_status =
     bindE (proposals (if_profile facts) ''COMMIT_FAILED'') (\<lambda>alternatives.
     bindE (liftE (py_get commit_result ''reason'' VNone)) (\<lambda>why.
     bindE (liftE (py_get commit_result ''safe_state_executed'' VNone)) (\<lambda>safe.
     bindE (record_event env tx ''COMMIT_FAILED''
       [(''status'', commit_status), (''reason'', why), (''safe_state_executed'', safe),
        (''alternative_actions'', VList alternatives)] ch) (\<lambda>_.
     bindE (liftE (py_get commit_result ''reason'' (VStr ''unknown''))) (\<lambda>why_text.
     reply_with tx (if truthy safe then ''ABORTED'' else ''ERROR'') (''Commit execution failed: '' @ py_str why_text)
       ''COMMIT_FAILED'' alternatives)))))"

definition commit_not_acknowledged ::
  "'w gw_env \<Rightarrow> string \<Rightarrow> integrity_facts \<Rightarrow> chain \<Rightarrow> pv \<Rightarrow> pv \<Rightarrow> ('w, 'a) stage" where
  "commit_not_acknowledged env tx facts ch commit_result commit_status =
     bindE (proposals (if_profile facts) ''COMMIT_TIMEOUT'') (\<lambda>alternatives.
     bindE (liftE (py_get commit_result ''reason'' VNone)) (\<lambda>why.
     bindE (record_event env tx ''COMMIT_TIMEOUT''
       [(''status'', commit_status), (''reason'', why), (''alternative_actions'', VList alternatives)] ch) (\<lambda>_.
     reply_with tx ''ABORTED'' (''Commit status: '' @ py_str commit_status) ''COMMIT_TIMEOUT'' alternatives)))"

definition commit_stage ::
  "'w gw_env \<Rightarrow> string \<Rightarrow> string \<Rightarrow> pv dict option \<Rightarrow> proof_package \<Rightarrow> integrity_facts \<Rightarrow> chain
    \<Rightarrow> ('w, control_response) stage" where
  "commit_stage env tx asset_id faults p facts ch =
     bindE (ask_commit env tx asset_id faults p) (\<lambda>r. case r of
       Inl e \<Rightarrow> commit_error env tx asset_id faults facts ch e
     | Inr commit_result \<Rightarrow>
     bindE (liftE (py_getitem commit_result ''status'')) (\<lambda>commit_status.
       if py_eq commit_status (VStr ''EXECUTION_FAILED'')
       then commit_execution_failed env tx facts ch commit_result commit_status
       else if \<not> py_eq commit_status (VStr ''ALREADY_COMMITTED'') \<and> \<not> py_eq commit_status (VStr ''ACK'')
       then commit_not_acknowledged env tx facts ch commit_result commit_status
       else
     bindE (liftE (py_get commit_result ''executed_at_ms'' VNone)) (\<lambda>executed_at.
     bindE (record_event env tx ''COMMIT_ACK'' [(''executed_at_ms'', executed_at), (''status'', commit_status)] ch) (\<lambda>_.
     bindE (liftE (response tx ''COMMITTED'' None None (Some (''/v1/transactions/'' @ tx)) [])) (\<lambda>resp. retE (Inr resp))))))"

subsection \<open>The handler\<close>

definition pipeline :: "'w gw_env \<Rightarrow> control_request \<Rightarrow> ('w, control_response) stage" where
  "pipeline env request =
     (let tx = rq_transaction_id request; asset_id = rq_asset_id request; p = rq_proof_package request;
          proof = dump_proof p; faults = extract_fault_injection proof in
      next_stage (received_stage env tx proof) (\<lambda>ch0.
      next_stage (integrity_stage env tx asset_id p ch0) (\<lambda>facts.
      next_stage (safety_stage env tx asset_id p facts) (\<lambda>ch1.
      next_stage (prepare_stage env tx asset_id faults facts ch1) (\<lambda>ch2.
      next_stage (reverify_stage env tx asset_id faults facts ch2) (\<lambda>ch3.
      commit_stage env tx asset_id faults p facts ch3))))))"

definition submit_control_request :: "'w gw_env \<Rightarrow> control_request \<Rightarrow> ('w, control_response) eff" where
  "submit_control_request env request = bindE (pipeline env request) (\<lambda>r. case r of
     Inl resp \<Rightarrow> retE resp | Inr resp \<Rightarrow> retE resp)"

text \<open>The endpoint: the API key first, then the validation of the body.\<close>

definition control_route :: "pv res \<Rightarrow> 'w gw_env \<Rightarrow> string option \<Rightarrow> control_request \<Rightarrow> ('w, control_response) eff" where
  "control_route config env api_key request =
     bindE (liftE (verify_api_key config api_key)) (\<lambda>_.
       if \<not> valid_proof_package (rq_proof_package request) then liftE (http_error 422 ''validation error'')
       else submit_control_request env request)"

end
