(* ===== verification/GatewayTrace.thy ===== *)
theory GatewayTrace
  imports Gateway
begin

section \<open>The calls of the gateway\<close>

text \<open>
  The gateway run with a client that writes down every call: \<open>traced env\<close>.  What the services
  answer is left open, so a fact about the trace holds whatever they do, exceptions included.
  \<open>in_order ps calls\<close>: calls that satisfy the predicates occur in that order.
\<close>

type_synonym call = "string \<times> string \<times> pv \<times> http_reply res"

definition traced :: "'w gw_env \<Rightarrow> ('w \<times> call list) gw_env" where
  "traced env = \<lparr> ge_http = (\<lambda>meth url body (w, lg).
       let (r, w') = ge_http env meth url body w in (r, (w', lg @ [(meth, url, body, r)]))),
     ge_clock = (\<lambda>(w, lg). ge_clock env w), ge_urls = ge_urls env, ge_sha = ge_sha env, ge_as_float = ge_as_float env \<rparr>"

lemma traced_simps [simp]:
  "ge_urls (traced env) = ge_urls env" "ge_sha (traced env) = ge_sha env" "ge_as_float (traced env) = ge_as_float env"
  by (simp_all add: traced_def)

fun in_order :: "('c \<Rightarrow> bool) list \<Rightarrow> 'c list \<Rightarrow> bool" where
  "in_order [] cs = True"
| "in_order (p # ps) [] = False"
| "in_order (p # ps) (c # cs) = (if p c then in_order ps cs else in_order (p # ps) cs)"

lemma in_order_drop: "in_order (p # ps) cs \<Longrightarrow> in_order ps cs"
proof (induction cs arbitrary: p ps)
  case Nil
  then show ?case by simp
next
  case (Cons c cs)
  then show ?case by (cases ps) (auto split: if_splits)
qed

lemma in_order_Cons: "in_order ps cs \<Longrightarrow> in_order ps (c # cs)"
  by (cases ps) (auto dest: in_order_drop)

lemma in_order_append: "in_order ps cs \<Longrightarrow> in_order ps (cs @ ds)"
  by (induction ps cs rule: in_order.induct) (auto split: if_splits)

lemma in_order_snoc: "in_order ps cs \<Longrightarrow> p c \<Longrightarrow> in_order (ps @ [p]) (cs @ [c])"
proof (induction ps cs rule: in_order.induct)
  case (1 cs)
  then show ?case by (induction cs) auto
qed (auto split: if_splits)

subsection \<open>What a computation may call\<close>

text \<open>Every call satisfies \<open>ok\<close>: whatever such calls preserve of the lg is preserved.\<close>

definition calls_only :: "(call \<Rightarrow> bool) \<Rightarrow> ('w \<times> call list, 'a) eff \<Rightarrow> bool" where
  "calls_only ok m \<longleftrightarrow> (\<forall>J. (\<forall>l c. J l \<longrightarrow> ok c \<longrightarrow> J (l @ [c])) \<longrightarrow> keeps (\<lambda>(w, l). J l) m)"

lemma calls_onlyI: "(\<And>J. (\<And>l c. J l \<Longrightarrow> ok c \<Longrightarrow> J (l @ [c])) \<Longrightarrow> keeps (\<lambda>(w, l). J l) m) \<Longrightarrow> calls_only ok m"
  by (auto simp: calls_only_def)

lemma calls_onlyD:
  "calls_only ok m \<Longrightarrow> (\<And>l c. J l \<Longrightarrow> ok c \<Longrightarrow> J (l @ [c])) \<Longrightarrow> J lg \<Longrightarrow> wp m (\<lambda>_ (w, l). J l) (\<lambda>_ (w, l). J l) (w, lg)"
  unfolding calls_only_def by (drule spec [of _ J], drule mp, blast, drule keepsD [where s = "(w, lg)"]) auto

named_theorems calls_intros \<open>what the combinators may call\<close>

lemma calls_bindE [calls_intros]: "calls_only ok m \<Longrightarrow> (\<And>x. calls_only ok (f x)) \<Longrightarrow> calls_only ok (bindE m f)"
  unfolding calls_only_def by (blast intro: keeps_bindE)

lemma calls_tryE [calls_intros]: "calls_only ok m \<Longrightarrow> (\<And>e. calls_only ok (h e)) \<Longrightarrow> calls_only ok (tryE m h)"
  unfolding calls_only_def by (blast intro: keeps_tryE)

lemma calls_pure [calls_intros]:
  "calls_only ok (retE x)" "calls_only ok (throwE k t)" "calls_only ok (liftE r)" "calls_only ok (getE g)"
  unfolding calls_only_def by (auto intro: keeps_pure)

lemma calls_if [calls_intros]: "calls_only ok m \<Longrightarrow> calls_only ok n \<Longrightarrow> calls_only ok (if b then m else n)"
  by simp

lemma calls_sum [calls_intros]:
  "(\<And>e. calls_only ok (m e)) \<Longrightarrow> (\<And>y. calls_only ok (f y)) \<Longrightarrow> calls_only ok (case x of Inl e \<Rightarrow> m e | Inr y \<Rightarrow> f y)"
  by (cases x) auto

lemma calls_prod [calls_intros]: "(\<And>a b. calls_only ok (f a b)) \<Longrightarrow> calls_only ok (case x of (a, b) \<Rightarrow> f a b)"
  by (cases x) auto

lemma calls_next_stage [calls_intros]:
  "calls_only ok m \<Longrightarrow> (\<And>x. calls_only ok (f x)) \<Longrightarrow> calls_only ok (next_stage m f)"
  unfolding next_stage_def by (intro calls_intros)

text \<open>The one rule that meets the client.\<close>

lemma call_service_traced:
  "call_service (traced env) meth svc path body (w, lg) = (case get_service_url (ge_urls env) svc of
     Inl e \<Rightarrow> (Inl e, (w, lg))
   | Inr base \<Rightarrow> (let (r, w') = ge_http env meth (base @ path) body w in (r, (w', lg @ [(meth, base @ path, body, r)]))))"
  by (simp add: call_service_def bindE_def liftE_def traced_def split: sum.splits)

lemma calls_call_service:
  assumes "\<And>base r. get_service_url (ge_urls env) svc = Inr base \<Longrightarrow> ok (meth, base @ path, body, r)"
  shows "calls_only ok (call_service (traced env) meth svc path body)"
proof (rule calls_onlyI, rule keepsI)
  fix J and s :: "'a \<times> call list"
  assume J: "\<And>l c. J l \<Longrightarrow> ok c \<Longrightarrow> J (l @ [c])" "(\<lambda>(w, l). J l) s"
  obtain w lg where s: "s = (w, lg)" by (cases s)
  show "wp (call_service (traced env) meth svc path body) (\<lambda>_ (w, l). J l) (\<lambda>_ (w, l). J l) s"
    using J assms unfolding s by (auto simp: wp_def call_service_traced split: sum.splits prod.splits)
qed

lemma wp_call_service:
  assumes "\<And>base r w'. get_service_url (ge_urls env) svc = Inr base \<Longrightarrow>
      (case r of Inr reply \<Rightarrow> Q reply (w', lg @ [(meth, base @ path, body, r)])
       | Inl e \<Rightarrow> E e (w', lg @ [(meth, base @ path, body, r)]))"
    and "\<And>e. E e (w, lg)"
  shows "wp (call_service (traced env) meth svc path body) Q E (w, lg)"
  using assms(1) assms(2) by (force simp: wp_def call_service_traced split: sum.splits prod.splits)

end
