(* ===== verification/GatewayDemo.thy ===== *)
theory GatewayDemo
  imports GatewayTrace
begin

section \<open>A plant to run the gateway on\<close>

text \<open>
  Canned services for the concrete runs: a policy store with an active version, a sensor gateway
  whose second reading may state another hash, a cluster that says SAFE, an OT interface that grants
  the lock and answers a COMMIT as told, a ledger that stores everything.  The client's state counts
  the sensor readings.
\<close>

definition hash_a :: string where
  "hash_a = replicate 64 CHR ''a''"

definition hash_b :: string where
  "hash_b = replicate 64 CHR ''b''"

definition ok_reply :: "pv dict \<Rightarrow> http_reply" where
  "ok_reply d = Reply 200 (Some (VDict d))"

definition plant :: "string \<Rightarrow> string \<Rightarrow> nat http_client" where
  "plant second_hash commit_status meth url body reads =
     (if url = ''http://ps/v1/policies/active'' then (Inr (ok_reply [(''policy_version_id'', VStr ''v1'')]), reads)
      else if url = ''http://ps/v1/policies/v1/assets/reactor'' then (Inr (ok_reply [(''profile'', VDict [])]), reads)
      else if url = ''http://sg/v1/assets/reactor/snapshots/latest'' then
        (Inr (ok_reply [(''sensor_snapshot'', VDict [(''temperature'', VInt 150)]),
           (''sensor_snapshot_hash'', VStr (if reads = 0 then hash_a else second_hash))]), Suc reads)
      else if url = ''http://sc/v1/validate'' then (Inr (ok_reply [(''final_verdict'', VStr ''SAFE'')]), reads)
      else if url = ''http://ot/v1/prepare'' then (Inr (ok_reply [(''status'', VStr ''LOCK_GRANTED'')]), reads)
      else if url = ''http://ot/v1/commit'' then (Inr (ok_reply [(''status'', VStr commit_status)]), reads)
      else if url = ''http://ot/v1/abort'' then (Inr (ok_reply [(''status'', VStr ''ABORTED'')]), reads)
      else (Inr (ok_reply []), reads))"

definition plant_services :: "pv dict" where
  "plant_services = [(''policy_store'', VStr ''http://ps''), (''sensor_gateway'', VStr ''http://sg''),
     (''safety_cluster'', VStr ''http://sc''), (''ot_interface'', VStr ''http://ot''), (''evidence_ledger'', VStr ''http://el'')]"

definition plant_env :: "string \<Rightarrow> string \<Rightarrow> nat gw_env" where
  "plant_env second_hash commit_status = \<lparr> ge_http = plant second_hash commit_status, ge_clock = (\<lambda>w. 1000),
     ge_urls = Inr plant_services, ge_sha = (\<lambda>s. hash_a), ge_as_float = py_float \<rparr>"

definition plant_request :: control_request where
  "plant_request = \<lparr> rq_transaction_id = ''tx'', rq_asset_id = ''reactor'', rq_proof_package =
     \<lparr> pk_schema_version = ''1'', pk_policy_version_id = ''v1'', pk_timestamp_ms = 1000,
       pk_sensor_snapshot_hash = hash_a, pk_sensor_reliability_index = Fin 1,
       pk_action_sequence = [[(''action_type'', VStr ''set_heater_output''), (''params'', VDict [(''value'', VInt 40)])]],
       pk_safety_verification_summary = [], pk_sensor_snapshot = Some [(''temperature'', VInt 150)], pk_agent_id = None,
       pk_intent_id = None, pk_proof_generated_at_ms = None, pk_proof_origin = None, pk_extra = [] \<rparr> \<rparr>"

subsection \<open>Running it\<close>

lemma run_simps:
  "bindE m f s = (case m s of (r, t) \<Rightarrow> (case r of Inl e \<Rightarrow> (Inl e, t) | Inr x \<Rightarrow> f x t))"
  "tryE m g s = (case m s of (r, t) \<Rightarrow> (case r of Inl e \<Rightarrow> g e t | Inr x \<Rightarrow> (Inr x, t)))"
  "next_stage n h s = (case n s of (r, t) \<Rightarrow> (case r of Inl e \<Rightarrow> (Inl e, t)
     | Inr y \<Rightarrow> (case y of Inl resp \<Rightarrow> (Inr (Inl resp), t) | Inr x \<Rightarrow> h x t)))"
  "liftE q s = (q, s)" "retE x s = (Inr x, s)" "getE c s = (Inr (c s), s)"
  by (auto simp: bindE_def tryE_def next_stage_def liftE_def retE_def getE_def split: prod.splits sum.splits)

lemma run_congs:
  "bindE m f s = bindE m f s" "tryE m g s = tryE m g s" "next_stage n h s = next_stage n h s"
  by (rule refl)+

lemma plant_env_simps [simp]:
  "ge_sha (plant_env h st) = (\<lambda>s. hash_a)" "ge_as_float (plant_env h st) = py_float"
  "ge_clock (traced (plant_env h st)) s = 1000"
  "ge_http (traced (plant_env h st)) meth url body (w, l) =
     (let (r, w') = plant h st meth url body w in (r, (w', l @ [(meth, url, body, r)])))"
  by (auto simp: plant_env_def traced_def split: prod.splits)

lemma plant_url: "ge_urls (plant_env h st) = Inr plant_services"
  by (simp add: plant_env_def)

lemma plant_urls [simp]:
  "get_service_url (ge_urls (plant_env h st)) ''policy_store'' = Inr ''http://ps''"
  "get_service_url (ge_urls (plant_env h st)) ''sensor_gateway'' = Inr ''http://sg''"
  "get_service_url (ge_urls (plant_env h st)) ''safety_cluster'' = Inr ''http://sc''"
  "get_service_url (ge_urls (plant_env h st)) ''ot_interface'' = Inr ''http://ot''"
  "get_service_url (ge_urls (plant_env h st)) ''evidence_ledger'' = Inr ''http://el''"
  unfolding plant_url by code_simp+

lemma plant_calls_service:
  "get_service_url (ge_urls (plant_env h st)) svc = Inr base \<Longrightarrow> plant h st meth (base @ path) body w = (r, w') \<Longrightarrow>
   call_service (traced (plant_env h st)) meth svc path body (w, l) = (r, (w', l @ [(meth, base @ path, body, r)]))"
  by (simp add: call_service_def run_simps)

definition event_call :: "string \<Rightarrow> string \<Rightarrow> pv dict \<Rightarrow> chain \<Rightarrow> call" where
  "event_call tx stage payload ch = (''POST'', ''http://el/v1/events/append'', VDict
     [(''transaction_id'', VStr tx), (''sequence_no'', VInt (fst ch)), (''stage'', VStr stage), (''timestamp_ms'', VInt 1000),
      (''payload'', VDict payload), (''input_hash'', VStr hash_a), (''prev_hash'', VStr (snd ch)),
      (''event_hash'', VStr hash_a)], Inr (ok_reply []))"

lemma plant_records:
  "record_event (traced (plant_env h st)) tx stage payload ch (w, l) = (Inr (fst ch + 1, hash_a), (w, l @ [event_call tx stage payload ch]))"
  by (simp add: record_event_def log_evidence_def run_simps plant_calls_service Let_def plant_def ok_reply_def event_call_def
      compute_event_hash_def compute_sensor_hash_def compute_hash_def)

definition plant_proof :: "pv dict" where
  "plant_proof = dump_proof (rq_proof_package plant_request)"

lemma plant_proof_items:
  "py_getitem (VDict plant_proof) ''schema_version'' = Inr (VStr ''1'')"
  "py_getitem (VDict plant_proof) ''policy_version_id'' = Inr (VStr ''v1'')"
  "extract_fault_injection plant_proof = None" "extract_runtime_context plant_proof = None"
  by code_simp+

lemma getitem_dict: "py_getitem (VDict m) k = (case dget m k of Some w \<Rightarrow> Inr w | None \<Rightarrow> raise KeyError (str_repr k))"
  by (simp add: py_getitem_def)

lemma plant_proposals: "proposals (VDict []) code s = (Inr [], s)"
  by (simp add: proposals_def generate_alternative_actions_def liftE_def)

lemma hash_a_b: "hash_b \<noteq> hash_a" "hash_a \<noteq> hash_b"
  by (simp_all add: hash_a_def hash_b_def)

lemmas plant_eval = plant_proposals run_simps plant_records plant_calls_service plant_def ok_reply_def resp_json_def dget_or_def getitem_dict

lemma plant_received:
  "\<exists>es. received_stage (traced (plant_env h st)) tx plant_proof (w, l) = (Inr (Inr (2, hash_a)), (w, l @ es))"
  by (simp add: received_stage_def run_simps plant_records plant_proof_items compute_sensor_hash_def compute_hash_def
      genesis_hash_def cong: run_congs)

definition plant_facts :: integrity_facts where
  "plant_facts = \<lparr> if_active_version = VStr ''v1'', if_snapshot = VDict [(''temperature'', VInt 150)], if_hash = VStr hash_a,
     if_profile = VDict [], if_execution = VDict [], if_chain = (3, hash_a) \<rparr>"

abbreviation "plant_package \<equiv> rq_proof_package plant_request"

lemma plant_checks:
  "integrity_of (pk_policy_version_id plant_package) (VStr ''v1'') (pk_timestamp_ms plant_package) 1000 (VInt 5000)
     [(''temperature'', VInt 150)] (VDict [(''temperature'', VInt 150)]) [] hash_a (VStr hash_a)
     = Inr (True, None)"
  "pk_sensor_snapshot plant_package = Some [(''temperature'', VInt 150)]"
  "build_divergence_thresholds py_float VNone = Inr []"
  "pk_sensor_snapshot_hash plant_package = hash_a"
  by code_simp+

lemma plant_integrity:
  "\<exists>es. integrity_stage (traced (plant_env h st)) tx ''reactor'' plant_package (2, hash_a) (0, l) =
     (Inr (Inr plant_facts), (1, l @ es))"
  by (simp add: integrity_stage_def policy_stage_def sensor_stage_def profile_stage_def latest_snapshot_def gw_fetch_asset_profile_def
      plant_eval or_else_def Let_def plant_checks plant_facts_def cong: run_congs)

lemma plant_safety:
  "\<exists>es. safety_stage (traced (plant_env h st)) tx ''reactor'' plant_package plant_facts (w, l) = (Inr (Inr (4, hash_a)), (w, l @ es))"
  by (simp add: safety_stage_def ask_safety_def plant_eval plant_facts_def cong: run_congs)

lemma plant_prepare:
  "\<exists>es. prepare_stage (traced (plant_env h st)) tx ''reactor'' None plant_facts ch (w, l) = (Inr (Inr (fst ch + 1, hash_a)), (w, l @ es))"
  by (simp add: prepare_stage_def ask_prepare_def fault_enabled_def plant_eval plant_facts_def cong: run_congs)

lemma plant_reverify:
  "\<exists>es. reverify_stage (traced (plant_env hash_a st)) tx ''reactor'' None plant_facts ch (1, l) =
     (Inr (Inr (fst ch + 1, hash_a)), (2, l @ es))"
  by (simp add: reverify_stage_def reread_hash_def latest_snapshot_def force_hash_mismatch_def fault_enabled_def plant_eval
    plant_facts_def cong: run_congs)

lemma plant_reverify_changed:
  "\<exists>es resp. reverify_stage (traced (plant_env hash_b st)) tx ''reactor'' None plant_facts ch (1, l) =
     (Inr (Inl resp), (2, l @ es)) \<and> gr_status resp = ''ABORTED'' \<and> gr_reason_code resp = Some ''REVERIFY_HASH_MISMATCH''"
  by (simp add: reverify_stage_def reread_hash_def latest_snapshot_def force_hash_mismatch_def fault_enabled_def plant_eval
    plant_facts_def hash_a_b confirm_abort_def abort_transaction_def unhashable_def reply_with_def response_def
    cong: run_congs)

lemma plant_commit:
  "\<exists>es resp. commit_stage (traced (plant_env h ''ACK'')) tx ''reactor'' None plant_package plant_facts ch (w, l) =
     (Inr (Inr resp), (w, l @ es)) \<and> gr_status resp = ''COMMITTED''
     \<and> (\<exists>body r. (''POST'', ''http://ot/v1/commit'', body, r) \<in> set es)"
  by (simp add: commit_stage_def ask_commit_def commit_not_acknowledged_def reply_with_def response_def fault_enabled_def plant_eval plant_facts_def cong: run_congs)
     blast

lemma plant_commit_timeout:
  "\<exists>es resp. commit_stage (traced (plant_env h ''TIMEOUT'')) tx ''reactor'' None plant_package plant_facts ch (w, l) =
     (Inr (Inl resp), (w, l @ es)) \<and> gr_status resp = ''ABORTED'' \<and> gr_reason_code resp = Some ''COMMIT_TIMEOUT''"
  by (simp add: commit_stage_def ask_commit_def commit_not_acknowledged_def reply_with_def response_def fault_enabled_def plant_eval plant_facts_def cong: run_congs)

definition plant_run :: "string \<Rightarrow> string \<Rightarrow> (nat \<times> call list, control_response) eff" where
  "plant_run h st = submit_control_request (traced (plant_env h st)) plant_request"

definition plant_commit_run :: "string \<Rightarrow> string \<Rightarrow> chain \<Rightarrow> (nat \<times> call list, control_response) stage" where
  "plant_commit_run h st = commit_stage (traced (plant_env h st)) ''tx'' ''reactor'' None plant_package plant_facts"

abbreviation "plant_end \<equiv> (\<lambda>r. case r of Inl resp \<Rightarrow> retE resp | Inr resp \<Rightarrow> retE resp)"

lemma plant_run_to_lock:
  "\<exists>l. plant_run h st (0, []) = bindE (next_stage (reverify_stage (traced (plant_env h st)) ''tx'' ''reactor'' None plant_facts (5, hash_a))
      (plant_commit_run h st)) plant_end (1, l)"
proof -
  obtain l1 where 1: "received_stage (traced (plant_env h st)) ''tx'' plant_proof (0, []) = (Inr (Inr (2, hash_a)), (0, l1))"
    using plant_received [of h st "''tx''" 0 "[]"] by auto
  obtain l2 where 2: "integrity_stage (traced (plant_env h st)) ''tx'' ''reactor'' plant_package (2, hash_a) (0, l1) =
      (Inr (Inr plant_facts), (1, l2))"
    using plant_integrity [of h st "''tx''" l1] by auto
  obtain l3 where 3: "safety_stage (traced (plant_env h st)) ''tx'' ''reactor'' plant_package plant_facts (1, l2) =
      (Inr (Inr (4, hash_a)), (1, l3))"
    using plant_safety [of h st "''tx''" 1 l2] by auto
  obtain l4 where 4: "prepare_stage (traced (plant_env h st)) ''tx'' ''reactor'' None plant_facts (4, hash_a) (1, l3) =
      (Inr (Inr (5, hash_a)), (1, l4))"
    using plant_prepare [of h st "''tx''" "(4, hash_a)" 1 l3] by auto
  have "rq_transaction_id plant_request = ''tx''" "rq_asset_id plant_request = ''reactor''"
    by (simp_all add: plant_request_def)
  then show ?thesis
    unfolding plant_commit_run_def
    by (intro exI [of _ l4]) (simp add: plant_run_def submit_control_request_def pipeline_def Let_def run_simps 1 2 3 4
      plant_proof_def [symmetric] plant_proof_items del: One_nat_def cong: run_congs)
qed

lemma plant_run_to_commit: "\<exists>l. plant_run hash_a st (0, []) = bindE (plant_commit_run hash_a st (6, hash_a)) plant_end (2, l)"
proof -
  obtain l where l: "plant_run hash_a st (0, []) = bindE (next_stage (reverify_stage (traced (plant_env hash_a st)) ''tx'' ''reactor'' None
      plant_facts (5, hash_a)) (plant_commit_run hash_a st)) plant_end (1, l)"
    using plant_run_to_lock by blast
  obtain es where "reverify_stage (traced (plant_env hash_a st)) ''tx'' ''reactor'' None plant_facts (5, hash_a) (1, l) =
     (Inr (Inr (6, hash_a)), (2, l @ es))"
    using plant_reverify [of st "''tx''" "(5, hash_a)" l] by auto
  with l show ?thesis by (intro exI [of _ "l @ es"]) (simp add: run_simps del: One_nat_def)
qed

lemma plant_run_commits:
  "\<exists>calls resp body r. plant_run hash_a ''ACK'' (0, []) = (Inr resp, (2, calls)) \<and> gr_status resp = ''COMMITTED''
     \<and> (''POST'', ''http://ot/v1/commit'', body, r) \<in> set calls"
proof -
  obtain l where "plant_run hash_a ''ACK'' (0, []) = bindE (plant_commit_run hash_a ''ACK'' (6, hash_a)) plant_end (2, l)"
    using plant_run_to_commit by blast
  moreover obtain es resp body r where "plant_commit_run hash_a ''ACK'' (6, hash_a) (2, l) = (Inr (Inr resp), (2, l @ es))"
    "gr_status resp = ''COMMITTED''" "(''POST'', ''http://ot/v1/commit'', body, r) \<in> set es"
    using plant_commit [of hash_a "''tx''" "(6, hash_a)" 2 l] by (auto simp: plant_commit_run_def)
  ultimately show ?thesis
    by (intro exI [of _ "l @ es"] exI [of _ resp] exI [of _ body] exI [of _ r]) (simp add: run_simps)
qed

lemma plant_run_timeout:
  "\<exists>calls resp. plant_run hash_a ''TIMEOUT'' (0, []) = (Inr resp, (2, calls)) \<and> gr_status resp = ''ABORTED''
     \<and> gr_reason_code resp = Some ''COMMIT_TIMEOUT''"
proof -
  obtain l where "plant_run hash_a ''TIMEOUT'' (0, []) = bindE (plant_commit_run hash_a ''TIMEOUT'' (6, hash_a)) plant_end (2, l)"
    using plant_run_to_commit by blast
  moreover obtain es resp where "plant_commit_run hash_a ''TIMEOUT'' (6, hash_a) (2, l) = (Inr (Inl resp), (2, l @ es))"
    "gr_status resp = ''ABORTED''" "gr_reason_code resp = Some ''COMMIT_TIMEOUT''"
    using plant_commit_timeout [of hash_a "''tx''" "(6, hash_a)" 2 l] by (auto simp: plant_commit_run_def)
  ultimately show ?thesis by (intro exI [of _ "l @ es"] exI [of _ resp]) (simp add: run_simps)
qed

lemma plant_run_changed:
  "\<exists>calls resp. plant_run hash_b ''ACK'' (0, []) = (Inr resp, (2, calls)) \<and> gr_status resp = ''ABORTED''
     \<and> gr_reason_code resp = Some ''REVERIFY_HASH_MISMATCH''"
proof -
  obtain l where "plant_run hash_b ''ACK'' (0, []) = bindE (next_stage (reverify_stage (traced (plant_env hash_b ''ACK'')) ''tx'' ''reactor''
      None plant_facts (5, hash_a)) (plant_commit_run hash_b ''ACK'')) plant_end (1, l)"
    using plant_run_to_lock by blast
  moreover obtain es resp where "reverify_stage (traced (plant_env hash_b ''ACK'')) ''tx'' ''reactor'' None plant_facts (5, hash_a) (1, l) =
      (Inr (Inl resp), (2, l @ es))" "gr_status resp = ''ABORTED''" "gr_reason_code resp = Some ''REVERIFY_HASH_MISMATCH''"
    using plant_reverify_changed [of "''ACK''" "''tx''" "(5, hash_a)" l] by auto
  ultimately show ?thesis by (intro exI [of _ "l @ es"] exI [of _ resp]) (simp add: run_simps del: One_nat_def)
qed

end
