(* ===== verification/GatewayFacts.thy ===== *)
theory GatewayFacts
  imports GatewayDemo
begin

section \<open>What must have happened before a command reaches the equipment\<close>

text \<open>
  The gate: a COMMIT is sent only after the policy, both readings of the sensors, the safety
  verdict, the lock and the evidence of every stage, in this order, and for the actions that were
  judged.
\<close>

subsection \<open>Kinds of calls\<close>

definition posts :: "string \<Rightarrow> call \<Rightarrow> bool" where
  "posts path c = (case c of (meth, url, body, r) \<Rightarrow> meth = ''POST'' \<and> take (length path) (rev url) = rev path)"

abbreviation is_commit :: "call \<Rightarrow> bool" where
  "is_commit \<equiv> posts ''/v1/commit''"

abbreviation is_evidence :: "call \<Rightarrow> bool" where
  "is_evidence \<equiv> posts ''/v1/events/append''"

text \<open>The stages before COMMIT, and the abort, send none.\<close>

lemmas gateway_defs = received_stage_def policy_stage_def latest_snapshot_def sensor_stage_def profile_stage_def
  gw_fetch_asset_profile_def abort_transaction_def log_evidence_def record_event_def reply_with_def integrity_stage_def
  proposals_def ask_safety_def safety_stage_def ask_prepare_def prepare_stage_def confirm_abort_def reread_hash_def
  reverify_stage_def commit_error_def commit_execution_failed_def commit_not_acknowledged_def Let_def

definition not_commit :: "call \<Rightarrow> bool" where
  "not_commit c \<longleftrightarrow> \<not> is_commit c"

lemma not_commit_call [simp]:
  "meth \<noteq> ''POST'' \<Longrightarrow> not_commit (meth, url, body, r)"
  "not_commit (''POST'', base @ ''/v1/events/append'', body, r)"
  "not_commit (''POST'', base @ ''/v1/validate'', body, r)"
  "not_commit (''POST'', base @ ''/v1/prepare'', body, r)"
  "not_commit (''POST'', base @ ''/v1/abort'', body, r)"
  by (simp_all add: not_commit_def posts_def)

lemma stages_not_commit [calls_intros]:
  "calls_only not_commit (received_stage (traced env) tx proof)"
  "calls_only not_commit (integrity_stage (traced env) tx asset p ch)"
  "calls_only not_commit (safety_stage (traced env) tx asset p facts)"
  "calls_only not_commit (prepare_stage (traced env) tx asset faults facts ch)"
  "calls_only not_commit (reverify_stage (traced env) tx asset faults facts ch)"
  "calls_only not_commit (commit_error (traced env) tx asset faults facts ch e)"
  "calls_only not_commit (commit_execution_failed (traced env) tx facts ch v w)"
  "calls_only not_commit (commit_not_acknowledged (traced env) tx facts ch v w)"
  "calls_only not_commit (record_event (traced env) tx stage payload ch)"
  unfolding gateway_defs by ((intro calls_intros calls_call_service; simp)+)

definition gets :: "'w gw_env \<Rightarrow> string \<Rightarrow> string \<Rightarrow> call \<Rightarrow> bool" where
  "gets env svc path c = (case c of (meth, url, body, r) \<Rightarrow>
     meth = ''GET'' \<and> (case get_service_url (ge_urls env) svc of Inr base \<Rightarrow> url = base @ path | Inl e \<Rightarrow> False))"

definition sends :: "'w gw_env \<Rightarrow> string \<Rightarrow> string \<Rightarrow> call \<Rightarrow> bool" where
  "sends env svc path c = (case c of (meth, url, body, r) \<Rightarrow>
     meth = ''POST'' \<and> (case get_service_url (ge_urls env) svc of Inr base \<Rightarrow> url = base @ path | Inl e \<Rightarrow> False))"

definition body_has :: "string \<Rightarrow> pv \<Rightarrow> call \<Rightarrow> bool" where
  "body_has k v c = (case c of (meth, url, body, r) \<Rightarrow> dget (as_dict body) k = Some v)"

text \<open>The JSON of the reply, whatever its status code, and the code.\<close>

definition answers :: "(pv \<Rightarrow> bool) \<Rightarrow> call \<Rightarrow> bool" where
  "answers P c = (case c of (meth, url, body, r) \<Rightarrow>
     (case bindR r resp_json of Inr v \<Rightarrow> P v | Inl e \<Rightarrow> False))"

definition answered_with :: "(int \<Rightarrow> bool) \<Rightarrow> call \<Rightarrow> bool" where
  "answered_with P c = (case c of (meth, url, body, r) \<Rightarrow> (case r of Inr reply \<Rightarrow> P (rp_code reply) | Inl e \<Rightarrow> False))"

definition has_item :: "string \<Rightarrow> pv \<Rightarrow> pv \<Rightarrow> bool" where
  "has_item k v j \<longleftrightarrow> dget (as_dict j) k = Some v"

definition recorded :: "'w gw_env \<Rightarrow> string \<Rightarrow> string \<Rightarrow> call \<Rightarrow> bool" where
  "recorded env tx stage c \<longleftrightarrow> sends env ''evidence_ledger'' ''/v1/events/append'' c \<and> body_has ''transaction_id'' (VStr tx) c
     \<and> body_has ''stage'' (VStr stage) c \<and> answered_with (\<lambda>n. 200 \<le> n \<and> n < 300) c"

definition reads_version :: "'w gw_env \<Rightarrow> pv \<Rightarrow> call \<Rightarrow> bool" where
  "reads_version env v c \<longleftrightarrow> gets env ''policy_store'' ''/v1/policies/active'' c \<and> answered_with (\<lambda>n. n = 200) c
     \<and> answers (has_item ''policy_version_id'' v) c"

definition reads_sensors :: "'w gw_env \<Rightarrow> string \<Rightarrow> pv \<Rightarrow> pv \<Rightarrow> call \<Rightarrow> bool" where
  "reads_sensors env asset snapshot h c \<longleftrightarrow> gets env ''sensor_gateway'' (''/v1/assets/'' @ asset @ ''/snapshots/latest'') c
     \<and> answered_with (\<lambda>n. n = 200) c \<and> answers (has_item ''sensor_snapshot'' snapshot) c
     \<and> answers (has_item ''sensor_snapshot_hash'' h) c"

definition rereads_hash :: "'w gw_env \<Rightarrow> string \<Rightarrow> pv \<Rightarrow> call \<Rightarrow> bool" where
  "rereads_hash env asset h c \<longleftrightarrow> gets env ''sensor_gateway'' (''/v1/assets/'' @ asset @ ''/snapshots/latest'') c
     \<and> answered_with (\<lambda>n. n = 200) c \<and> answers (\<lambda>j. dget_or (as_dict j) ''sensor_snapshot_hash'' (VStr []) = h) c"

definition judged_safe :: "'w gw_env \<Rightarrow> proof_package \<Rightarrow> pv \<Rightarrow> call \<Rightarrow> bool" where
  "judged_safe env p snapshot c \<longleftrightarrow> sends env ''safety_cluster'' ''/v1/validate'' c
     \<and> body_has ''policy_version_id'' (VStr (pk_policy_version_id p)) c
     \<and> body_has ''action_sequence'' (VList (map VDict (pk_action_sequence p))) c
     \<and> body_has ''current_sensor_snapshot'' snapshot c
     \<and> answered_with (\<lambda>n. n = 200) c \<and> answers (has_item ''final_verdict'' (VStr ''SAFE'')) c"

definition locked :: "'w gw_env \<Rightarrow> string \<Rightarrow> string \<Rightarrow> call \<Rightarrow> bool" where
  "locked env tx asset c \<longleftrightarrow> sends env ''ot_interface'' ''/v1/prepare'' c \<and> body_has ''transaction_id'' (VStr tx) c
     \<and> body_has ''asset_id'' (VStr asset) c \<and> answers (has_item ''status'' (VStr ''LOCK_GRANTED'')) c"

definition gate :: "'w gw_env \<Rightarrow> control_request \<Rightarrow> pv \<Rightarrow> pv \<Rightarrow> (call \<Rightarrow> bool) list" where
  "gate env rq snapshot h =
     (let tx = rq_transaction_id rq; asset = rq_asset_id rq; p = rq_proof_package rq in
      [recorded env tx ''RECEIVED'', recorded env tx ''SCHEMA_VALIDATED'',
       reads_version env (VStr (pk_policy_version_id p)), reads_sensors env asset snapshot h,
       recorded env tx ''INTEGRITY_PASSED'', judged_safe env p snapshot, recorded env tx ''SAFETY_PASSED'',
       locked env tx asset, recorded env tx ''PREPARE_LOCK_GRANTED'',
       rereads_hash env asset h, recorded env tx ''REVERIFY_PASSED''])"

subsection \<open>Progress through the gate\<close>

abbreviation anyhow :: "exc \<Rightarrow> 's \<Rightarrow> bool" where
  "anyhow \<equiv> \<lambda>e s. True"

definition hands :: "('a \<Rightarrow> call list \<Rightarrow> bool) \<Rightarrow> 'r + 'a \<Rightarrow> 'w \<times> call list \<Rightarrow> bool" where
  "hands R r s = (case r of Inl resp \<Rightarrow> True | Inr x \<Rightarrow> R x (snd s))"

lemma hands_simps [simp]: "hands R (Inl resp) s" "hands R (Inr x) (w, l) = R x l"
  by (simp_all add: hands_def)

lemma wp_bind_log:
  "wp m (\<lambda>x s. R x (snd s)) anyhow s \<Longrightarrow> (\<And>x w l. R x l \<Longrightarrow> wp (f x) Q anyhow (w, l)) \<Longrightarrow> wp (bindE m f) Q anyhow s"
  unfolding wp_bindE by (erule wp_mono) auto

lemma wp_next_stage:
  "wp m (hands R) anyhow s \<Longrightarrow> (\<And>x w l. R x l \<Longrightarrow> wp (f x) (hands S) anyhow (w, l)) \<Longrightarrow>
   wp (next_stage m f) (hands S) anyhow s"
  unfolding next_stage_def wp_bindE by (erule wp_mono) (auto simp: wp_simps hands_def split: sum.splits)

lemma py_eq_str [simp]: "py_eq v (VStr s) \<longleftrightarrow> v = VStr s"
  by (cases v) auto

lemma py_getitem_Inr: "py_getitem j k = Inr v \<longleftrightarrow> has_item k v j \<and> is_dict j"
  by (cases j) (auto simp: py_getitem_def has_item_def bad_index_def split: option.splits)

lemma wp_reply_with [simp]: "(\<And>e. E e s) \<Longrightarrow> wp (reply_with tx st a b alts) (hands R) E s"
  by (auto simp: reply_with_def wp_simps split: sum.splits)

text \<open>Step by step through a stage; an exception ends it.\<close>

lemma wp_bind_lift: "(\<And>x. r = Inr x \<Longrightarrow> wp (f x) Q anyhow s) \<Longrightarrow> wp (bindE (liftE r) f) Q anyhow s"
  by (auto simp: wp_simps split: sum.splits)

lemma wp_bind_get: "wp (f (g s)) Q anyhow s \<Longrightarrow> wp (bindE (getE g) f) Q anyhow s"
  by (simp add: wp_simps)

lemma wp_branch: "(b \<Longrightarrow> wp m Q E s) \<Longrightarrow> (\<not> b \<Longrightarrow> wp n Q E s) \<Longrightarrow> wp (if b then m else n) Q E s"
  by simp

lemma wp_pair: "(\<And>a b. x = (a, b) \<Longrightarrow> wp (f a b) Q E s) \<Longrightarrow> wp (case x of (a, b) \<Rightarrow> f a b) Q E s"
  by (cases x) auto

lemma wp_record_event:
  assumes "in_order ps l"
  shows "wp (record_event (traced env) tx stage payload ch) (\<lambda>_ s. in_order (ps @ [recorded env tx stage]) (snd s)) anyhow (w, l)"
  unfolding record_event_def log_evidence_def Let_def wp_simps
  by (rule wp_call_service)
     (auto intro!: in_order_snoc [OF assms] simp: wp_simps recorded_def sends_def body_has_def answered_with_def split: sum.splits)

lemma wp_bind_record:
  assumes "in_order ps l"
    and "\<And>ch' w' l'. in_order (ps @ [recorded env tx stage]) l' \<Longrightarrow> wp (f ch') Q anyhow (w', l')"
  shows "wp (bindE (record_event (traced env) tx stage payload ch) f) Q anyhow (w, l)"
  using assms by (rule wp_bind_log [OF wp_record_event])

lemma wp_hand_on: "R x l \<Longrightarrow> wp (retE (Inr x)) (hands R) anyhow (w, l)"
  by (simp add: wp_simps)

lemmas call_kinds = gets_def sends_def body_has_def answers_def answered_with_def

lemma wp_received:
  "wp (received_stage (traced env) tx proof)
     (hands (\<lambda>ch. in_order [recorded env tx ''RECEIVED'', recorded env tx ''SCHEMA_VALIDATED''])) anyhow (w, l)"
  unfolding received_stage_def
  by (intro wp_bind_lift wp_bind_record [where ps = "[]"] wp_bind_record [where ps = "[recorded env tx ''RECEIVED'']"] wp_hand_on)
     simp_all

lemma wp_policy:
  assumes "in_order ps l"
  shows "wp (policy_stage (traced env) tx) (hands (\<lambda>v. in_order (ps @ [reads_version env v]))) anyhow (w, l)"
  unfolding policy_stage_def wp_simps
  by (rule wp_call_service)
     (auto intro!: in_order_snoc [OF assms] simp: wp_simps reads_version_def call_kinds py_getitem_Inr split: sum.splits)

lemma wp_sensor:
  assumes "in_order ps l"
  shows "wp (sensor_stage (traced env) tx asset)
    (hands (\<lambda>(snapshot, h). in_order (ps @ [reads_sensors env asset snapshot h]))) anyhow (w, l)"
  unfolding sensor_stage_def latest_snapshot_def wp_simps
  by (rule wp_call_service)
     (auto intro!: in_order_snoc [OF assms] simp: wp_simps reads_sensors_def call_kinds py_getitem_Inr split: sum.splits)

lemma wp_calls_only:
  "calls_only (\<lambda>c. True) m \<Longrightarrow> in_order ps l \<Longrightarrow> wp m (\<lambda>_ s. in_order ps (snd s)) anyhow (w, l)"
  by (rule wp_mono [OF calls_onlyD [where ok = "\<lambda>c. True" and J = "in_order ps"]]) (auto intro: in_order_append)

lemma wp_profile:
  assumes "in_order ps l"
  shows "wp (profile_stage (traced env) tx asset v) (hands (\<lambda>p. in_order ps)) anyhow (w, l)"
proof -
  have "calls_only (\<lambda>c. True) (profile_stage (traced env) tx asset v)"
    unfolding gateway_defs by ((intro calls_intros calls_call_service; simp)+)
  from wp_calls_only [OF this assms] show ?thesis
    by (rule wp_mono) (auto simp: hands_def split: sum.splits)
qed

text \<open>What a passed integrity check says of the values compared.\<close>

lemma integrity_of_passed:
  "integrity_of pv av t now age ps cs ths ph ch = Inr (True, e) \<Longrightarrow> av = VStr pv \<and> (ch = VNone \<or> ch = VStr ph)"
  by (auto simp: integrity_of_def split: if_splits)

definition agrees :: "proof_package \<Rightarrow> pv \<Rightarrow> bool" where
  "agrees p h \<longleftrightarrow> h = VNone \<or> h = VStr (pk_sensor_snapshot_hash p)"

lemma wp_integrity:
  assumes "in_order ps l"
  shows "wp (integrity_stage (traced env) tx asset p ch)
    (hands (\<lambda>f l. agrees p (if_hash f) \<and> if_active_version f = VStr (pk_policy_version_id p) \<and>
       in_order (ps @ [reads_version env (VStr (pk_policy_version_id p)), reads_sensors env asset (if_snapshot f) (if_hash f),
                       recorded env tx ''INTEGRITY_PASSED'']) l)) anyhow (w, l)"
  unfolding integrity_stage_def Let_def
  apply (rule wp_next_stage [OF wp_policy [OF assms]])
  apply (rule wp_next_stage [OF wp_sensor], assumption)
  apply (simp only: split_beta)
  apply (rule wp_next_stage [OF wp_profile], assumption)
  apply (intro wp_bind_lift wp_bind_get wp_pair wp_branch)
   apply (erule wp_bind_record, rule wp_bind_lift, simp add: wp_simps)
  apply (erule wp_bind_record, rule wp_hand_on)
  apply (auto dest!: integrity_of_passed simp: agrees_def)
  done

lemma wp_ask_safety:
  assumes "in_order ps l" "if_active_version facts = VStr (pk_policy_version_id p)"
  shows "wp (ask_safety (traced env) tx asset p facts)
    (hands (\<lambda>r l. has_item ''final_verdict'' (VStr ''SAFE'') r \<longrightarrow> in_order (ps @ [judged_safe env p (if_snapshot facts)]) l))
    anyhow (w, l)"
  unfolding ask_safety_def wp_simps
  by (rule wp_call_service)
     (auto intro!: in_order_snoc [OF assms(1)] simp: assms(2) wp_simps judged_safe_def call_kinds split: sum.splits)

lemma wp_safety:
  assumes "in_order ps l" "if_active_version facts = VStr (pk_policy_version_id p)"
  shows "wp (safety_stage (traced env) tx asset p facts)
    (hands (\<lambda>ch. in_order (ps @ [judged_safe env p (if_snapshot facts), recorded env tx ''SAFETY_PASSED'']))) anyhow (w, l)"
  unfolding safety_stage_def proposals_def
  apply (rule wp_next_stage [OF wp_ask_safety [OF assms]])
  apply (intro wp_bind_lift wp_branch)
   apply (rule wp_bind_record [where ps = "[]"], simp)
   apply (rule wp_bind_lift, simp)
  apply (simp add: py_getitem_Inr)
  apply (erule wp_bind_record)
  apply (intro wp_bind_lift wp_hand_on, simp)
  done

lemma wp_ask_prepare:
  assumes "in_order ps l"
  shows "wp (ask_prepare (traced env) tx asset faults ttl)
    (hands (\<lambda>r l. has_item ''status'' (VStr ''LOCK_GRANTED'') r \<longrightarrow> in_order (ps @ [locked env tx asset]) l)) anyhow (w, l)"
  unfolding ask_prepare_def
  apply (rule wp_branch)
   apply (simp add: wp_simps has_item_def)
  apply (simp only: wp_simps)
  by (rule wp_call_service)
     (auto intro!: in_order_snoc [OF assms(1)] simp: wp_simps locked_def call_kinds split: sum.splits)

lemma wp_prepare:
  assumes "in_order ps l"
  shows "wp (prepare_stage (traced env) tx asset faults facts ch)
    (hands (\<lambda>ch. in_order (ps @ [locked env tx asset, recorded env tx ''PREPARE_LOCK_GRANTED'']))) anyhow (w, l)"
  unfolding prepare_stage_def proposals_def
  apply (rule wp_bind_lift)
  apply (rule wp_next_stage [OF wp_ask_prepare [OF assms]])
  apply (intro wp_bind_lift wp_branch)
   apply (rule wp_bind_record [where ps = "[]"], simp, simp)
  apply (simp add: py_getitem_Inr)
  apply (erule wp_bind_record)
  apply (intro wp_hand_on, simp)
  done

lemma other_digit: "(if lower_char c \<noteq> CHR ''0'' then ''0'' else ''1'') \<noteq> [c]"
proof (cases "c = CHR ''0''")
  case True
  have "lower_char CHR ''0'' = CHR ''0''" by code_simp
  then show ?thesis unfolding True by simp
next
  case False
  moreover have "lower_char CHR ''1'' \<noteq> CHR ''0''" by code_simp
  ultimately show ?thesis by auto
qed

lemma force_hash_differs: "force_hash_mismatch h = Inr k \<Longrightarrow> k \<noteq> h"
proof (cases h)
  case (VStr s)
  assume k: "force_hash_mismatch h = Inr k"
  show ?thesis
  proof (cases "length s = 64")
    case True
    define b x where "b = butlast s" and "x = last s"
    have s: "s = b @ [x]" using True by (cases s rule: rev_cases) (auto simp: b_def x_def)
    have "k = VStr (b @ (if lower_char x \<noteq> CHR ''0'' then ''0'' else ''1''))"
      using k True VStr unfolding b_def x_def by (simp add: force_hash_mismatch_def)
    with other_digit [of x] show ?thesis unfolding VStr s by (simp only: pv.inject same_append_eq not_False_eq_True)
  next
    case False
    then have "k = VStr (replicate 64 CHR ''f'')" using k VStr by (simp add: force_hash_mismatch_def)
    with False show ?thesis unfolding VStr by (auto simp del: replicate.simps)
  qed
qed (auto simp: force_hash_mismatch_def)

lemma wp_reread:
  assumes "in_order ps l"
  shows "wp (reread_hash (traced env) asset) (hands (\<lambda>h. in_order (ps @ [rereads_hash env asset h]))) anyhow (w, l)"
  unfolding reread_hash_def latest_snapshot_def wp_simps
  by (rule wp_call_service)
     (auto intro!: in_order_snoc [OF assms] simp: wp_simps rereads_hash_def call_kinds py_get_Inr split: sum.splits)

lemma py_eq_none [simp]: "py_eq v VNone \<longleftrightarrow> v = VNone"
  by (cases v) auto

lemma py_eq_agrees: "agrees p h \<Longrightarrow> py_eq v h \<longleftrightarrow> v = h"
  by (auto simp: agrees_def)

text \<open>The branches that end in an answer or an exception hand nothing on.\<close>

lemma wp_ends:
  assumes "\<And>s. wp m (\<lambda>r s. \<exists>resp. r = Inl resp) anyhow s"
  shows "wp m (hands R) anyhow s"
  by (rule wp_mono [OF assms]) auto

lemma ends_intros:
  "wp (reply_with tx st a b alts) (\<lambda>r s. \<exists>resp. r = Inl resp) anyhow s"
  "(\<And>x t. wp (f x) (\<lambda>r s. \<exists>resp. r = Inl resp) anyhow t) \<Longrightarrow> wp (bindE m f) (\<lambda>r s. \<exists>resp. r = Inl resp) anyhow s"
  "(\<And>x t. wp (g x) (\<lambda>r s. \<exists>resp. r = Inl resp) anyhow t) \<Longrightarrow> wp (next_stage n g) (\<lambda>r s. \<exists>resp. r = Inl resp) anyhow s"
  by (auto simp: reply_with_def next_stage_def wp_simps wp_result retE_def split: sum.splits)

lemma wp_bind_sum:
  "wp m (hands R) anyhow s \<Longrightarrow> (\<And>e t. wp (g e) Q anyhow t) \<Longrightarrow> (\<And>x w l. R x l \<Longrightarrow> wp (f x) Q anyhow (w, l)) \<Longrightarrow>
   wp (bindE m (\<lambda>r. case r of Inl e \<Rightarrow> g e | Inr x \<Rightarrow> f x)) Q anyhow s"
  unfolding wp_bindE by (erule wp_mono) (auto simp: hands_def split: sum.splits)

lemma wp_reverify:
  assumes "in_order ps l" "agrees p (if_hash facts)"
  shows "wp (reverify_stage (traced env) tx asset faults facts ch)
    (hands (\<lambda>ch. in_order (ps @ [rereads_hash env asset (if_hash facts), recorded env tx ''REVERIFY_PASSED'']))) anyhow (w, l)"
  unfolding reverify_stage_def
  apply (rule wp_bind_sum [OF wp_reread [OF assms(1)]])
   apply (intro wp_ends ends_intros)
  apply (rule wp_bind_lift)
  apply (rule wp_branch)
   apply (intro wp_ends ends_intros)
  apply (auto simp: py_eq_agrees [OF assms(2)] split: if_splits dest: force_hash_differs intro!: wp_bind_record wp_hand_on)
  done

subsection \<open>The guard\<close>

text \<open>Every COMMIT of the log comes after the gate and carries the judged actions, and none comes before it.\<close>

definition guarded :: "'w gw_env \<Rightarrow> control_request \<Rightarrow> pv \<Rightarrow> pv \<Rightarrow> call list \<Rightarrow> bool" where
  "guarded env rq s h l \<longleftrightarrow> (\<forall>before c after. l = before @ c # after \<longrightarrow> is_commit c \<longrightarrow>
     in_order (gate env rq s h) before \<and> list_all not_commit before \<and>
     body_has ''action_sequence'' (VList (map VDict (pk_action_sequence (rq_proof_package rq)))) c)"

lemma guarded_snoc: "guarded env rq s h l \<Longrightarrow> not_commit c \<Longrightarrow> guarded env rq s h (l @ [c])"
proof (unfold guarded_def, intro allI impI)
  fix before d after
  assume l: "l @ [c] = before @ d # after" "is_commit d"
    and g: "\<forall>before c after. l = before @ c # after \<longrightarrow> is_commit c \<longrightarrow>
     in_order (gate env rq s h) before \<and> list_all not_commit before \<and>
     body_has ''action_sequence'' (VList (map VDict (pk_action_sequence (rq_proof_package rq)))) c" and "not_commit c"
  then obtain rest where "l = before @ d # rest" by (cases after rule: rev_cases) (auto simp: not_commit_def)
  with g l(2) show "in_order (gate env rq s h) before \<and> list_all not_commit before \<and>
     body_has ''action_sequence'' (VList (map VDict (pk_action_sequence (rq_proof_package rq)))) d" by blast
qed

lemma quiet_guarded: "list_all not_commit l \<Longrightarrow> guarded env rq s h l"
  by (auto simp: guarded_def not_commit_def list_all_iff)

lemma guarded_commit:
  assumes "list_all not_commit l" "in_order (gate env rq s h) l"
    and "body_has ''action_sequence'' (VList (map VDict (pk_action_sequence (rq_proof_package rq)))) c"
  shows "guarded env rq s h (l @ [c])"
  unfolding guarded_def
proof (intro allI impI)
  fix before d after
  assume l: "l @ [c] = before @ d # after" "is_commit d"
  then have "after = []"
    using assms(1) by (cases after rule: rev_cases) (auto simp: not_commit_def)
  with l have "before = l" "d = c" by auto
  with assms show "in_order (gate env rq s h) before \<and> list_all not_commit before \<and>
     body_has ''action_sequence'' (VList (map VDict (pk_action_sequence (rq_proof_package rq)))) d" by simp
qed

definition opened :: "'w gw_env \<Rightarrow> control_request \<Rightarrow> call list \<Rightarrow> bool" where
  "opened env rq l \<longleftrightarrow> (\<exists>s h. agrees (rq_proof_package rq) h \<and> guarded env rq s h l)"

lemma opened_quiet: "list_all not_commit l \<Longrightarrow> opened env rq l"
  by (auto simp: opened_def agrees_def intro: quiet_guarded)

lemma wp_conj:
  "wp m Q E s \<Longrightarrow> wp m Q' E' s \<Longrightarrow> wp m (\<lambda>x t. Q x t \<and> Q' x t) (\<lambda>e t. E e t \<and> E' e t) s"
  by (auto simp: wp_result)

text \<open>A stage before COMMIT: its progress, and no COMMIT so far.\<close>

lemma wp_pass_stage:
  assumes "wp m (hands R) anyhow (w, l)" "calls_only not_commit m" "list_all not_commit l"
    and "\<And>x w l. R x l \<Longrightarrow> list_all not_commit l \<Longrightarrow>
       wp (f x) (\<lambda>_ t. opened env rq (snd t)) (\<lambda>_ t. opened env rq (snd t)) (w, l)"
  shows "wp (next_stage m f) (\<lambda>_ t. opened env rq (snd t)) (\<lambda>_ t. opened env rq (snd t)) (w, l)"
  unfolding next_stage_def wp_bindE
  by (rule wp_mono [OF wp_conj [OF assms(1) calls_onlyD [OF assms(2), of "list_all not_commit"]]])
     (use assms(3,4) in \<open>auto simp: hands_def wp_simps opened_quiet split: sum.splits prod.splits\<close>)

lemma wp_commit:
  assumes "list_all not_commit l" "in_order (gate env rq s h) l" "agrees (rq_proof_package rq) h"
  shows "wp (commit_stage (traced env) tx asset faults (rq_proof_package rq) facts ch)
      (\<lambda>_ t. opened env rq (snd t)) (\<lambda>_ t. opened env rq (snd t)) (w, l)"
proof -
  have quiet: "guarded env rq s h l" using assms(1) by (rule quiet_guarded)
  have ask: "wp (ask_commit (traced env) tx asset faults (rq_proof_package rq))
      (\<lambda>_ t. guarded env rq s h (snd t)) (\<lambda>_ t. guarded env rq s h (snd t)) (w, l)"
    unfolding ask_commit_def wp_simps
    apply (auto simp: quiet wp_simps intro!: wp_call_service split: sum.splits)
    apply (auto intro!: guarded_commit [OF assms(1,2)] simp: body_has_def)
    done
  have rest: "calls_only not_commit (case r of
       Inl e \<Rightarrow> commit_error (traced env) tx asset faults facts ch e
     | Inr commit_result \<Rightarrow>
     bindE (liftE (py_getitem commit_result ''status'')) (\<lambda>commit_status.
       if py_eq commit_status (VStr ''EXECUTION_FAILED'')
       then commit_execution_failed (traced env) tx facts ch commit_result commit_status
       else if \<not> py_eq commit_status (VStr ''ALREADY_COMMITTED'') \<and> \<not> py_eq commit_status (VStr ''ACK'')
       then commit_not_acknowledged (traced env) tx facts ch commit_result commit_status
       else
     bindE (liftE (py_get commit_result ''executed_at_ms'' VNone)) (\<lambda>executed_at.
     bindE (record_event (traced env) tx ''COMMIT_ACK'' [(''executed_at_ms'', executed_at), (''status'', commit_status)] ch) (\<lambda>_.
     bindE (liftE (response tx ''COMMITTED'' None None (Some (''/v1/transactions/'' @ tx)) [])) (\<lambda>resp. retE (Inr resp))))))" for r
    by (intro calls_intros)
  have "wp m (\<lambda>_ t. guarded env rq s h (snd t)) (\<lambda>_ t. guarded env rq s h (snd t)) t"
    if "calls_only not_commit m" "guarded env rq s h (snd t)" for m :: "('a \<times> call list, control_response + control_response) eff" and t
    using calls_onlyD [OF that(1) guarded_snoc that(2), of "fst t"] by (simp add: split_beta')
  then have "wp (commit_stage (traced env) tx asset faults (rq_proof_package rq) facts ch)
      (\<lambda>_ t. guarded env rq s h (snd t)) (\<lambda>_ t. guarded env rq s h (snd t)) (w, l)"
    unfolding commit_stage_def wp_bindE [of "ask_commit (traced env) tx asset faults (rq_proof_package rq)"]
    using rest by (blast intro: wp_mono [OF ask])
  then show ?thesis by (rule wp_mono) (use assms(3) in \<open>auto simp: opened_def\<close>)
qed

lemma wp_pipeline:
  "wp (pipeline (traced env) rq) (\<lambda>_ t. opened env rq (snd t)) (\<lambda>_ t. opened env rq (snd t)) (w, [])"
  unfolding pipeline_def Let_def
  apply (rule wp_pass_stage [OF wp_received stages_not_commit(1)], simp)
  apply (rule wp_pass_stage [OF wp_integrity stages_not_commit(2)], assumption, assumption, elim conjE)
  apply (rule wp_pass_stage [OF wp_safety stages_not_commit(3)], assumption, assumption, assumption)
  apply (rule wp_pass_stage [OF wp_prepare stages_not_commit(4)], assumption, assumption)
  apply (rule wp_pass_stage [OF wp_reverify stages_not_commit(5)], assumption, assumption, assumption)
  apply (simp only: append.simps)
  apply (erule (2) wp_commit [unfolded gate_def Let_def])
  done

subsection \<open>What COMMITTED means\<close>

text \<open>What every answer of a stage satisfies, and that only the last stage says COMMITTED.\<close>

definition replies :: "(control_response \<Rightarrow> bool) \<Rightarrow> ('w, 'a) stage \<Rightarrow> bool" where
  "replies P m \<longleftrightarrow> (\<forall>s. wp m (\<lambda>r s. case r of Inl resp \<Rightarrow> P resp | Inr x \<Rightarrow> True) anyhow s)"

abbreviation refuses :: "('w, 'a) stage \<Rightarrow> bool" where
  "refuses \<equiv> replies (\<lambda>resp. gr_status resp \<noteq> ''COMMITTED'')"

lemma response_fields:
  "response tx st a b c d = Inr r \<Longrightarrow> gr_status r = st \<and> gr_reason_code r = b \<and> gr_transaction_id r = tx"
  by (auto simp: response_def validation_error_def split: if_splits)

lemma replies_reply:
  "(\<And>r. gr_status r = st \<Longrightarrow> gr_reason_code r = b \<Longrightarrow> P r) \<Longrightarrow>
   replies P (bindE (liftE (response tx st a b c d)) (\<lambda>r. retE (Inl r)))"
  by (auto simp: replies_def wp_simps dest: response_fields split: sum.splits)

lemma replies_hand_on: "replies P (retE (Inr x))"
  by (simp add: replies_def wp_simps)

lemma replies_bindE: "(\<And>x. replies P (f x)) \<Longrightarrow> replies P (bindE m f)"
  by (simp add: replies_def wp_bindE) (simp add: wp_result)

lemma replies_tryE: "replies P m \<Longrightarrow> (\<And>e. replies P (h e)) \<Longrightarrow> replies P (tryE m h)"
  unfolding replies_def wp_tryE by (intro allI, rule wp_mono, erule spec) simp_all

lemma replies_next_stage: "replies P m \<Longrightarrow> (\<And>x. replies P (f x)) \<Longrightarrow> replies P (next_stage m f)"
  unfolding replies_def next_stage_def wp_bindE
  by (intro allI, rule wp_mono, erule spec) (auto simp: wp_simps split: sum.splits)

lemma replies_cases:
  "replies P m \<Longrightarrow> replies P n \<Longrightarrow> replies P (if b then m else n)"
  "(\<And>e. replies P (g e)) \<Longrightarrow> (\<And>x. replies P (f x)) \<Longrightarrow> replies P (case r of Inl e \<Rightarrow> g e | Inr x \<Rightarrow> f x)"
  "(\<And>a b. replies P (k a b)) \<Longrightarrow> replies P (case q of (a, b) \<Rightarrow> k a b)"
  by (auto split: sum.splits prod.splits)

lemma stages_refuse:
  "refuses (received_stage env tx proof)"
  "refuses (integrity_stage env tx asset p ch)"
  "refuses (safety_stage env tx asset p facts)"
  "refuses (prepare_stage env tx asset faults facts ch)"
  "refuses (reverify_stage env tx asset faults facts ch)"
  "refuses (commit_error env tx asset faults facts ch e)"
  "refuses (commit_execution_failed env tx facts ch v w)"
  "refuses (commit_not_acknowledged env tx facts ch v w)"
  unfolding gateway_defs
  by (((rule replies_reply; simp; fail) | rule replies_hand_on replies_next_stage replies_tryE replies_cases replies_bindE)+)

definition says_done :: "pv \<Rightarrow> bool" where
  "says_done j \<longleftrightarrow> has_item ''status'' (VStr ''ACK'') j \<or> has_item ''status'' (VStr ''ALREADY_COMMITTED'') j"

definition acknowledged :: "'w gw_env \<Rightarrow> control_request \<Rightarrow> call \<Rightarrow> bool" where
  "acknowledged env rq c \<longleftrightarrow> sends env ''ot_interface'' ''/v1/commit'' c
     \<and> body_has ''transaction_id'' (VStr (rq_transaction_id rq)) c \<and> body_has ''asset_id'' (VStr (rq_asset_id rq)) c
     \<and> body_has ''action_sequence'' (VList (map VDict (pk_action_sequence (rq_proof_package rq)))) c
     \<and> answered_with (\<lambda>n. n = 200) c \<and> answers says_done c"

lemma wp_ask_commit:
  assumes "in_order ps l"
  shows "wp (ask_commit (traced env) (rq_transaction_id rq) (rq_asset_id rq) faults (rq_proof_package rq))
    (hands (\<lambda>r l. says_done r \<longrightarrow> in_order (ps @ [acknowledged env rq]) l)) anyhow (w, l)"
  unfolding ask_commit_def wp_simps
  apply (auto simp: wp_simps says_done_def has_item_def intro!: wp_call_service split: sum.splits)
  apply (auto intro!: in_order_snoc [OF assms] simp: acknowledged_def says_done_def has_item_def call_kinds)
  done

lemma commit_ends:
  "wp (commit_error env' tx asset faults facts ch e) (hands R) anyhow s"
  "wp (commit_execution_failed env' tx facts ch x y) (hands R) anyhow s"
  "wp (commit_not_acknowledged env' tx facts ch x y) (hands R) anyhow s"
  unfolding commit_error_def commit_execution_failed_def commit_not_acknowledged_def Let_def
  by (intro wp_ends ends_intros)+

lemma wp_commit_done:
  assumes "in_order ps l"
  shows "wp (commit_stage (traced env) (rq_transaction_id rq) (rq_asset_id rq) faults (rq_proof_package rq) facts ch)
    (hands (\<lambda>_. in_order (ps @ [acknowledged env rq, recorded env (rq_transaction_id rq) ''COMMIT_ACK'']))) anyhow (w, l)"
  unfolding commit_stage_def
  apply (rule wp_bind_sum [OF wp_ask_commit [OF assms]])
   apply (rule commit_ends)
  apply (intro wp_bind_lift wp_branch commit_ends)
  apply (rule wp_bind_record [where ps = "ps @ [acknowledged env rq]"])
   apply (auto simp: says_done_def py_getitem_Inr intro!: wp_bind_lift wp_hand_on)
  done

definition settles :: "('a \<Rightarrow> call list \<Rightarrow> bool) \<Rightarrow> control_response + 'a \<Rightarrow> 'w \<times> call list \<Rightarrow> bool" where
  "settles R r s = (case r of Inl resp \<Rightarrow> gr_status resp \<noteq> ''COMMITTED'' | Inr x \<Rightarrow> R x (snd s))"

lemma wp_settle_stage:
  assumes "wp m (hands R) anyhow s" "refuses m"
    and "\<And>x w l. R x l \<Longrightarrow> wp (f x) (settles S) anyhow (w, l)"
  shows "wp (next_stage m f) (settles S) anyhow s"
  unfolding next_stage_def wp_bindE
  by (rule wp_mono [OF wp_conj [OF assms(1) spec [OF assms(2) [unfolded replies_def]]]])
     (use assms(3) in \<open>auto simp: hands_def settles_def wp_simps split: sum.splits\<close>)

lemma commit_refuses: "refuses (commit_stage env tx asset faults p facts ch)"
  unfolding commit_stage_def
  by (intro replies_bindE replies_cases stages_refuse replies_hand_on)

definition fulfilled :: "'w gw_env \<Rightarrow> control_request \<Rightarrow> call list \<Rightarrow> bool" where
  "fulfilled env rq l \<longleftrightarrow> (\<exists>s h. agrees (rq_proof_package rq) h \<and>
     in_order (gate env rq s h @ [acknowledged env rq, recorded env (rq_transaction_id rq) ''COMMIT_ACK'']) l)"

lemma wp_pipeline_done: "wp (pipeline (traced env) rq) (settles (\<lambda>_. fulfilled env rq)) anyhow (w, [])"
  unfolding pipeline_def Let_def
  apply (rule wp_settle_stage [OF wp_received stages_refuse(1)])
  apply (rule wp_settle_stage [OF wp_integrity stages_refuse(2)], assumption, elim conjE)
  apply (rule wp_settle_stage [OF wp_safety stages_refuse(3)], assumption, assumption)
  apply (rule wp_settle_stage [OF wp_prepare stages_refuse(4)], assumption)
  apply (rule wp_settle_stage [OF wp_reverify stages_refuse(5)], assumption, assumption)
  apply (rule wp_mono [OF wp_conj [OF wp_commit_done spec [OF commit_refuses [unfolded replies_def]]]], assumption)
   apply (auto simp: hands_def settles_def fulfilled_def gate_def Let_def split: sum.splits)
  done

subsection \<open>Properties\<close>

text \<open>C1: Whatever the services answer, and also when the handler ends in an error or an exception, a COMMIT is sent to the OT interface only after, in this order and each acknowledged: the evidence of the request, the active policy version being the proof's, a reading of the sensors whose hash is the one the proof states or is null, which the code lets pass unmatched, the evidence of integrity, a SAFE verdict on exactly that snapshot and these actions, its evidence, the lock, its evidence, a second reading with the same hash as the first (null again if that was null), and its evidence; the COMMIT carries the judged actions and is the first one sent.\<close>

theorem gateway_commit_guarded:
  assumes "submit_control_request (traced env) rq (w, []) = (r, (w', calls))"
    and "calls = before @ c # after" "is_commit c"
  shows "\<exists>snapshot h. (h = VNone \<or> h = VStr (pk_sensor_snapshot_hash (rq_proof_package rq))) \<and>
    in_order (gate env rq snapshot h) before \<and> list_all not_commit before \<and>
    body_has ''action_sequence'' (VList (map VDict (pk_action_sequence (rq_proof_package rq)))) c"
proof -
  have "wp (submit_control_request (traced env) rq) (\<lambda>_ t. opened env rq (snd t)) (\<lambda>_ t. opened env rq (snd t)) (w, [])"
    unfolding submit_control_request_def wp_bindE
    by (rule wp_mono [OF wp_pipeline]) (auto simp: wp_simps split: sum.splits)
  with assms(1) have "opened env rq calls" by (cases r) (auto simp: wp_def)
  then obtain s h where "agrees (rq_proof_package rq) h" "guarded env rq s h calls" by (auto simp: opened_def)
  with assms(2,3) show ?thesis unfolding guarded_def agrees_def by blast
qed

theorem gateway_commit_guarded_witness:
  "\<exists>calls before c after snapshot h. snd (plant_run hash_a ''ACK'' (0, [])) = (2, calls) \<and> calls = before @ c # after \<and>
    is_commit c \<and> (h = VNone \<or> h = VStr (pk_sensor_snapshot_hash (rq_proof_package plant_request))) \<and>
    in_order (gate (plant_env hash_a ''ACK'') plant_request snapshot h) before \<and> list_all not_commit before"
proof -
  obtain calls resp body r where run: "plant_run hash_a ''ACK'' (0, []) = (Inr resp, (2, calls))"
    and c: "(''POST'', ''http://ot/v1/commit'', body, r) \<in> set calls"
    using plant_run_commits by blast
  obtain before after where split: "calls = before @ (''POST'', ''http://ot/v1/commit'', body, r) # after"
    using split_list [OF c] by blast
  have c: "is_commit (''POST'', ''http://ot/v1/commit'', body, r)" by (simp add: posts_def)
  have "snd (plant_run hash_a ''ACK'' (0, [])) = (2, calls)" by (simp add: run)
  with gateway_commit_guarded [OF run [unfolded plant_run_def] split c] split c show ?thesis by blast
qed

text \<open>C2: An agent that is told COMMITTED can rely on it: every step of the gate took place, the OT interface then acknowledged a COMMIT of this transaction with these actions, as executed now or before, and the evidence of the acknowledgement was stored.\<close>

theorem gateway_committed_sound:
  assumes "submit_control_request (traced env) rq (w, []) = (Inr resp, (w', calls))" "gr_status resp = ''COMMITTED''"
  shows "\<exists>snapshot h. (h = VNone \<or> h = VStr (pk_sensor_snapshot_hash (rq_proof_package rq))) \<and>
    in_order (gate env rq snapshot h @ [acknowledged env rq, recorded env (rq_transaction_id rq) ''COMMIT_ACK'']) calls"
proof -
  have "wp (submit_control_request (traced env) rq)
      (\<lambda>resp t. gr_status resp = ''COMMITTED'' \<longrightarrow> fulfilled env rq (snd t)) anyhow (w, [])"
    unfolding submit_control_request_def wp_bindE
    by (rule wp_mono [OF wp_pipeline_done]) (auto simp: wp_simps settles_def split: sum.splits)
  with assms show ?thesis by (auto simp: wp_def fulfilled_def agrees_def)
qed

theorem gateway_committed_sound_witness:
  "\<exists>calls snapshot h. snd (plant_run hash_a ''ACK'' (0, [])) = (2, calls) \<and>
    (h = VNone \<or> h = VStr (pk_sensor_snapshot_hash (rq_proof_package plant_request))) \<and>
    in_order (gate (plant_env hash_a ''ACK'') plant_request snapshot h @
      [acknowledged (plant_env hash_a ''ACK'') plant_request, recorded (plant_env hash_a ''ACK'') (rq_transaction_id plant_request) ''COMMIT_ACK'']) calls"
proof -
  obtain calls resp where run: "plant_run hash_a ''ACK'' (0, []) = (Inr resp, (2, calls))" "gr_status resp = ''COMMITTED''"
    using plant_run_commits by blast
  show ?thesis using gateway_committed_sound [OF run(1) [unfolded plant_run_def] run(2)] run(1) by auto
qed

end
