(* ===== verification/GatewayEvidence.thy ===== *)
theory GatewayEvidence
  imports GatewayFacts Ledger
begin

section \<open>The evidence of a control request\<close>

text \<open>
  The events a request posts, read back from its calls, against the ledger's own definitions: the
  chain the gateway builds is one the ledger accepts and verifies, at every moment.
\<close>

definition text_item :: "pv dict \<Rightarrow> string \<Rightarrow> string" where
  "text_item d k = (case vget d k of VStr s \<Rightarrow> s | _ \<Rightarrow> [])"

definition int_item :: "pv dict \<Rightarrow> string \<Rightarrow> int" where
  "int_item d k = (case vget d k of VInt i \<Rightarrow> i | _ \<Rightarrow> 0)"

definition posted_event :: "call \<Rightarrow> event option" where
  "posted_event c = (if is_evidence c then
     (case c of (meth, url, body, r) \<Rightarrow> let d = as_dict body in Some
        \<lparr> ev_transaction_id = text_item d ''transaction_id'', ev_sequence_no = int_item d ''sequence_no'',
          ev_stage = text_item d ''stage'', ev_timestamp_ms = int_item d ''timestamp_ms'', ev_payload = vget d ''payload'',
          ev_input_hash = text_item d ''input_hash'', ev_prev_hash = text_item d ''prev_hash'',
          ev_event_hash = text_item d ''event_hash'' \<rparr>)
     else None)"

definition posted_events :: "call list \<Rightarrow> event list" where
  "posted_events calls = List.map_filter posted_event calls"

lemma posted_events_snoc:
  "posted_events (l @ [c]) = posted_events l @ (case posted_event c of None \<Rightarrow> [] | Some e \<Rightarrow> [e])"
  by (simp add: posted_events_def List.map_filter_def split: option.splits)

text \<open>The events so far are a chain, and one that ends in the gateway's variables.\<close>

definition sound_chain :: "'w gw_env \<Rightarrow> (string \<Rightarrow> pv option) \<Rightarrow> string \<Rightarrow> call list \<Rightarrow> bool" where
  "sound_chain env loads tx l \<longleftrightarrow> (let es = posted_events l in
     chain_from (ge_sha env) loads (genesis_hash (ge_sha env)) es \<and> map ev_sequence_no es = map int [0..<length es]
     \<and> list_all (\<lambda>e. ev_transaction_id e = tx \<and> valid_append_request e) es)"

definition chained :: "'w gw_env \<Rightarrow> (string \<Rightarrow> pv option) \<Rightarrow> string \<Rightarrow> chain \<Rightarrow> call list \<Rightarrow> bool" where
  "chained env loads tx ch l \<longleftrightarrow> sound_chain env loads tx l \<and> fst ch = int (length (posted_events l))
     \<and> snd ch = end_hash (genesis_hash (ge_sha env)) (posted_events l)"

lemma chained_sound: "chained env loads tx ch l \<Longrightarrow> sound_chain env loads tx l"
  by (simp add: chained_def)

definition not_evidence :: "call \<Rightarrow> bool" where
  "not_evidence c \<longleftrightarrow> \<not> is_evidence c"

lemma not_evidence_call [simp]:
  "meth \<noteq> ''POST'' \<Longrightarrow> not_evidence (meth, url, body, r)"
  "not_evidence (''POST'', base @ ''/v1/validate'', body, r)"
  "not_evidence (''POST'', base @ ''/v1/prepare'', body, r)"
  "not_evidence (''POST'', base @ ''/v1/abort'', body, r)"
  "not_evidence (''POST'', base @ ''/v1/commit'', body, r)"
  by (simp_all add: not_evidence_def posts_def)

lemma chained_other: "chained env loads tx ch l \<Longrightarrow> not_evidence c \<Longrightarrow> chained env loads tx ch (l @ [c])"
  by (simp add: chained_def sound_chain_def posted_events_snoc posted_event_def not_evidence_def)

lemma chained_record:
  assumes "chained env loads tx (n, h) l" "stage \<in> set evidence_stages"
  shows "chained env loads tx (n + 1, compute_event_hash (ge_sha env) h (VDict payload)) (l @ [(''POST'', base @ ''/v1/events/append'',
    VDict [(''transaction_id'', VStr tx), (''sequence_no'', VInt n), (''stage'', VStr stage), (''timestamp_ms'', VInt now),
         (''payload'', VDict payload), (''input_hash'', VStr ih), (''prev_hash'', VStr h),
         (''event_hash'', VStr (compute_event_hash (ge_sha env) h (VDict payload)))], r)])"
proof -
  let ?e = "\<lparr> ev_transaction_id = tx, ev_sequence_no = n, ev_stage = stage, ev_timestamp_ms = now, ev_payload = VDict payload,
    ev_input_hash = ih, ev_prev_hash = h, ev_event_hash = compute_event_hash (ge_sha env) h (VDict payload) \<rparr>"
  have "is_evidence (''POST'', base @ ''/v1/events/append'', b, r)" for b
    by (simp add: posts_def)
  then have "posted_event (''POST'', base @ ''/v1/events/append'',
    VDict [(''transaction_id'', VStr tx), (''sequence_no'', VInt n), (''stage'', VStr stage), (''timestamp_ms'', VInt now),
         (''payload'', VDict payload), (''input_hash'', VStr ih), (''prev_hash'', VStr h),
         (''event_hash'', VStr (compute_event_hash (ge_sha env) h (VDict payload)))], r) = Some ?e"
    by (simp add: posted_event_def text_item_def int_item_def)
  moreover have "hash_ok (ge_sha env) loads ?e" by (simp add: hash_ok_def decoded_payload_def)
  ultimately show ?thesis
    using assms by (auto simp: chained_def sound_chain_def posted_events_snoc Let_def chain_from_append valid_append_request_def end_hash_def)
qed

subsection \<open>Stage by stage\<close>

definition evid :: "'w gw_env \<Rightarrow> (string \<Rightarrow> pv option) \<Rightarrow> string \<Rightarrow> chain \<Rightarrow> ('a \<Rightarrow> chain) \<Rightarrow> ('w \<times> call list, 'a) stage \<Rightarrow> bool" where
  "evid env loads tx ch g m \<longleftrightarrow> (\<forall>w l. chained env loads tx ch l \<longrightarrow>
     wp m (\<lambda>r t. case r of Inl resp \<Rightarrow> sound_chain env loads tx (snd t) | Inr x \<Rightarrow> chained env loads tx (g x) (snd t))
       (\<lambda>e t. sound_chain env loads tx (snd t)) (w, l))"

lemma calls_keep_chain:
  "calls_only not_evidence m \<Longrightarrow> chained env loads tx ch l \<Longrightarrow>
   wp m (\<lambda>_ t. chained env loads tx ch (snd t)) (\<lambda>_ t. chained env loads tx ch (snd t)) (w, l)"
  by (drule calls_onlyD [where J = "chained env loads tx ch", OF _ chained_other]) (auto simp: split_beta')

lemma evid_quiet: "calls_only not_evidence m \<Longrightarrow> evid env loads tx ch (\<lambda>_. ch) m"
  unfolding evid_def
  by (intro allI impI, rule wp_mono [OF calls_keep_chain], assumption, assumption) (auto simp: chained_sound split: sum.splits)

lemma evid_bind_quiet:
  "calls_only not_evidence m \<Longrightarrow> (\<And>x. evid env loads tx ch g (f x)) \<Longrightarrow> evid env loads tx ch g (bindE m f)"
  unfolding evid_def wp_bindE
  by (intro allI impI, rule wp_mono [OF calls_keep_chain], assumption, assumption) (auto simp: chained_sound)

lemma wp_record_chain:
  assumes "chained env loads tx ch l" "stage \<in> set evidence_stages"
  shows "wp (record_event (traced env) tx stage payload ch) (\<lambda>ch' t. chained env loads tx ch' (snd t))
      (\<lambda>e t. sound_chain env loads tx (snd t)) (w, l)"
proof -
  have rec: "chained env loads tx (fst ch, snd ch) l" using assms(1) by simp
  note rec = chained_record [OF rec assms(2)]
  show ?thesis
    unfolding record_event_def log_evidence_def Let_def wp_simps
    by (rule wp_call_service) (auto simp: wp_simps rec chained_sound [OF assms(1)] chained_sound [OF rec] split: sum.splits)
qed

lemma evid_bind_record:
  assumes "stage \<in> set evidence_stages" "\<And>ch'. evid env loads tx ch' g (f ch')"
  shows "evid env loads tx ch g (bindE (record_event (traced env) tx stage payload ch) f)"
  unfolding evid_def wp_bindE
  by (intro allI impI, rule wp_mono [OF wp_record_chain [OF _ assms(1)]], assumption)
     (use assms(2) in \<open>auto simp: evid_def\<close>)

lemma evid_reply: "evid env loads tx ch g (reply_with tx st a b alts)"
  by (auto simp: evid_def reply_with_def wp_simps chained_sound split: sum.splits)

lemma evid_response: "evid env loads tx ch g (bindE (liftE (response tx st a b c d)) (\<lambda>r. retE (Inl r)))"
  by (auto simp: evid_def wp_simps chained_sound split: sum.splits)

lemma evid_response': "evid env loads tx ch (\<lambda>_. ch) (bindE (liftE (response tx st a b c d)) (\<lambda>r. retE (Inr r)))"
  by (auto simp: evid_def wp_simps chained_sound split: sum.splits)

lemma evid_hand_on: "g x = ch \<Longrightarrow> evid env loads tx ch g (retE (Inr x))"
  by (simp add: evid_def wp_simps)

lemma evid_lift: "(\<And>x. evid env loads tx ch g (f x)) \<Longrightarrow> evid env loads tx ch g (bindE (liftE r) f)"
  by (rule evid_bind_quiet [OF calls_pure(3)])

lemma evid_get: "(\<And>x. evid env loads tx ch g (f x)) \<Longrightarrow> evid env loads tx ch g (bindE (getE h) f)"
  by (rule evid_bind_quiet [OF calls_pure(4)])

lemma evid_next_stage:
  "evid env loads tx ch g m \<Longrightarrow> (\<And>x. evid env loads tx (g x) k (f x)) \<Longrightarrow> evid env loads tx ch k (next_stage m f)"
  unfolding evid_def next_stage_def wp_bindE
  by (intro allI impI, rule wp_mono, blast) (auto simp: wp_simps split: sum.split_asm)

lemma evid_cases:
  "evid env loads tx ch g m \<Longrightarrow> evid env loads tx ch g n \<Longrightarrow> evid env loads tx ch g (if b then m else n)"
  "(\<And>e. evid env loads tx ch g (h e)) \<Longrightarrow> (\<And>x. evid env loads tx ch g (f x)) \<Longrightarrow>
   evid env loads tx ch g (case r of Inl e \<Rightarrow> h e | Inr x \<Rightarrow> f x)"
  "(\<And>a b. evid env loads tx ch g (k a b)) \<Longrightarrow> evid env loads tx ch g (case q of (a, b) \<Rightarrow> k a b)"
  by (auto split: sum.splits prod.splits)

lemma asks_quiet:
  "calls_only not_evidence (policy_stage (traced env) tx)"
  "calls_only not_evidence (sensor_stage (traced env) tx asset)"
  "calls_only not_evidence (profile_stage (traced env) tx asset v)"
  "calls_only not_evidence (ask_safety (traced env) tx asset p facts)"
  "calls_only not_evidence (ask_prepare (traced env) tx asset faults ttl)"
  "calls_only not_evidence (reread_hash (traced env) asset)"
  "calls_only not_evidence (confirm_abort (traced env) tx asset a b alts)"
  "calls_only not_evidence (ask_commit (traced env) tx asset faults p)"
  unfolding policy_stage_def sensor_stage_def latest_snapshot_def profile_stage_def gw_fetch_asset_profile_def ask_safety_def
    ask_prepare_def reread_hash_def confirm_abort_def abort_transaction_def ask_commit_def reply_with_def
  by ((intro calls_intros calls_call_service; simp)+)

lemma evid_received: "evid env loads tx (0, genesis_hash (ge_sha env)) (\<lambda>c. c) (received_stage (traced env) tx proof)"
  unfolding received_stage_def traced_simps
  by (intro evid_lift evid_bind_record evid_hand_on) (simp_all add: evidence_stages_def)

lemmas evid_asks = asks_quiet(1-5,7) [THEN evid_quiet]

lemma evid_integrity: "evid env loads tx ch if_chain (integrity_stage (traced env) tx asset p ch)"
  unfolding integrity_stage_def Let_def
  by (intro evid_next_stage [OF evid_asks(1)] evid_next_stage [OF evid_asks(2)] evid_next_stage [OF evid_asks(3)]
        evid_lift evid_get evid_bind_record evid_cases evid_response evid_hand_on)
     (simp_all add: evidence_stages_def)

lemma evid_safety: "evid env loads tx (if_chain facts) (\<lambda>c. c) (safety_stage (traced env) tx asset p facts)"
  unfolding safety_stage_def proposals_def
  by (intro evid_next_stage [OF evid_asks(4)] evid_lift evid_bind_record evid_cases evid_reply evid_hand_on)
     (simp_all add: evidence_stages_def)

lemma evid_prepare: "evid env loads tx ch (\<lambda>c. c) (prepare_stage (traced env) tx asset faults facts ch)"
  unfolding prepare_stage_def proposals_def
  by (intro evid_lift evid_next_stage [OF evid_asks(5)] evid_bind_record evid_cases evid_reply evid_hand_on)
     (simp_all add: evidence_stages_def)

lemma evid_reverify: "evid env loads tx ch (\<lambda>c. c) (reverify_stage (traced env) tx asset faults facts ch)"
  unfolding reverify_stage_def proposals_def
  by (intro evid_bind_quiet [OF asks_quiet(6)] evid_cases evid_lift evid_next_stage [OF evid_asks(6)]
        evid_bind_record evid_reply evid_hand_on)
     (simp_all add: evidence_stages_def)

text \<open>The last stage only has to leave a chain behind.\<close>

definition sealed :: "'w gw_env \<Rightarrow> (string \<Rightarrow> pv option) \<Rightarrow> string \<Rightarrow> chain \<Rightarrow> ('w \<times> call list, 'a) eff \<Rightarrow> bool" where
  "sealed env loads tx ch m \<longleftrightarrow> (\<forall>w l. chained env loads tx ch l \<longrightarrow>
     wp m (\<lambda>_ t. sound_chain env loads tx (snd t)) (\<lambda>_ t. sound_chain env loads tx (snd t)) (w, l))"

lemma sealed_quiet: "calls_only not_evidence m \<Longrightarrow> sealed env loads tx ch m"
  unfolding sealed_def by (intro allI impI, rule wp_mono [OF calls_keep_chain]) (auto simp: chained_sound)

lemma sealed_bind_quiet:
  "calls_only not_evidence m \<Longrightarrow> (\<And>x. sealed env loads tx ch (f x)) \<Longrightarrow> sealed env loads tx ch (bindE m f)"
  unfolding sealed_def wp_bindE
  by (intro allI impI, rule wp_mono [OF calls_keep_chain], assumption, assumption) (auto simp: chained_sound)

lemma sealed_bind_record:
  assumes "stage \<in> set evidence_stages" "\<And>ch'. sealed env loads tx ch' (f ch')"
  shows "sealed env loads tx ch (bindE (record_event (traced env) tx stage payload ch) f)"
  unfolding sealed_def wp_bindE
  by (intro allI impI, rule wp_mono [OF wp_record_chain [OF _ assms(1)]], assumption)
     (use assms(2) in \<open>auto simp: sealed_def\<close>)

lemma sealed_cases:
  "sealed env loads tx ch m \<Longrightarrow> sealed env loads tx ch n \<Longrightarrow> sealed env loads tx ch (if b then m else n)"
  "(\<And>e. sealed env loads tx ch (h e)) \<Longrightarrow> (\<And>x. sealed env loads tx ch (f x)) \<Longrightarrow>
   sealed env loads tx ch (case r of Inl e \<Rightarrow> h e | Inr x \<Rightarrow> f x)"
  by (auto split: sum.splits)

lemma evid_sealed: "evid env loads tx ch g m \<Longrightarrow> sealed env loads tx ch m"
  unfolding evid_def sealed_def
  by (intro allI impI, rule wp_mono, blast) (auto simp: chained_sound split: sum.split_asm)

lemma sealed_next_stage:
  "evid env loads tx ch g m \<Longrightarrow> (\<And>x. sealed env loads tx (g x) (f x)) \<Longrightarrow> sealed env loads tx ch (next_stage m f)"
  unfolding evid_def sealed_def next_stage_def wp_bindE
  by (intro allI impI, rule wp_mono, blast) (auto simp: wp_simps split: sum.split_asm)

lemma sealed_commit: "sealed env loads tx ch (commit_stage (traced env) tx asset faults p facts ch)"
proof -
  have error: "evid env loads tx ch (\<lambda>_. ch) (commit_error (traced env) tx asset faults facts ch e)" for e
    unfolding commit_error_def proposals_def Let_def
    by (intro evid_lift evid_next_stage [OF evid_asks(6)] evid_bind_record evid_reply) (simp add: evidence_stages_def)
  have failed: "evid env loads tx ch (\<lambda>_. ch) (commit_execution_failed (traced env) tx facts ch v x)" for v x
    unfolding commit_execution_failed_def proposals_def
    by (intro evid_lift evid_bind_record evid_reply) (simp add: evidence_stages_def)
  have timeout: "evid env loads tx ch (\<lambda>_. ch) (commit_not_acknowledged (traced env) tx facts ch v x)" for v x
    unfolding commit_not_acknowledged_def proposals_def
    by (intro evid_lift evid_bind_record evid_reply) (simp add: evidence_stages_def)
  show ?thesis
    unfolding commit_stage_def
    by (intro sealed_bind_quiet [OF asks_quiet(8)] sealed_cases sealed_bind_quiet [OF calls_pure(3)] sealed_bind_record
          error [THEN evid_sealed] failed [THEN evid_sealed] timeout [THEN evid_sealed] sealed_quiet calls_intros)
       (simp add: evidence_stages_def)
qed

lemma pipeline_chain:
  "wp (pipeline (traced env) rq) (\<lambda>_ t. sound_chain env loads (rq_transaction_id rq) (snd t))
     (\<lambda>_ t. sound_chain env loads (rq_transaction_id rq) (snd t)) (w, [])"
proof -
  have "sealed env loads (rq_transaction_id rq) (0, genesis_hash (ge_sha env)) (pipeline (traced env) rq)"
    unfolding pipeline_def Let_def
    by (intro sealed_next_stage [OF evid_received] sealed_next_stage [OF evid_integrity] sealed_next_stage [OF evid_safety]
          sealed_next_stage [OF evid_prepare] sealed_next_stage [OF evid_reverify] sealed_commit) 
  then show ?thesis
    by (auto simp: sealed_def chained_def sound_chain_def posted_events_def List.map_filter_def end_hash_def Let_def)
qed

lemma submitted_chain:
  assumes "submit_control_request (traced env) rq (w, []) = (r, (w', calls))"
  shows "sound_chain env loads (rq_transaction_id rq) calls"
proof -
  have "wp (submit_control_request (traced env) rq) (\<lambda>_ t. sound_chain env loads (rq_transaction_id rq) (snd t))
      (\<lambda>_ t. sound_chain env loads (rq_transaction_id rq) (snd t)) (w, [])"
    unfolding submit_control_request_def wp_bindE
    by (rule wp_mono [OF pipeline_chain]) (auto simp: wp_simps split: sum.splits)
  with assms show ?thesis by (cases r) (auto simp: wp_def)
qed

subsection \<open>Against the ledger\<close>

lemma numbered_nth: "map f es = map int [0..<length es] \<Longrightarrow> n < length es \<Longrightarrow> f (es ! n) = int n"
  by (metis add.left_neutral diff_zero length_map length_upt nth_map nth_upt)

lemma stored_events:
  assumes "sound_chain env loads tx calls" "list_all (\<lambda>e. ev_transaction_id e \<noteq> tx) table"
  shows "get_transaction_events tx (table @ take n (posted_events calls)) = take n (posted_events calls)"
proof -
  let ?es = "posted_events calls"
  have "filter (\<lambda>e. ev_transaction_id e = tx) table = []" using assms(2) by (simp add: filter_empty_conv list_all_iff)
  moreover have "filter (\<lambda>e. ev_transaction_id e = tx) (take n ?es) = take n ?es"
    using assms(1) by (auto simp: sound_chain_def Let_def list_all_iff filter_id_conv dest: in_set_takeD)
  moreover have "map ev_sequence_no (take n ?es) = take n (map int [0..<length ?es])"
    using assms(1) by (simp add: sound_chain_def Let_def take_map [symmetric])
  then have "sorted (map ev_sequence_no (take n ?es))"
    by (simp add: take_map sorted_map sorted_wrt_take)
  ultimately show ?thesis by (simp add: get_transaction_events_def sort_key_id_if_sorted)
qed

lemma posted_events_stored:
  assumes "submit_control_request (traced env) rq (w, []) = (r, (w', calls))"
    and "list_all (\<lambda>e. ev_transaction_id e \<noteq> rq_transaction_id rq) table"
  shows "list_all valid_append_request (posted_events calls)"
    and "n < length (posted_events calls) \<Longrightarrow>
      append_event_route None dup (posted_events calls ! n) (table @ take n (posted_events calls))
        = (Inr (posted_events calls ! n), table @ take (Suc n) (posted_events calls))"
    and "verify_chain (ge_sha env) loads (rq_transaction_id rq) (table @ take n (posted_events calls))"
proof -
  let ?es = "posted_events calls"
  have sound: "sound_chain env loads (rq_transaction_id rq) calls" by (rule submitted_chain [OF assms(1)])
  then show "list_all valid_append_request ?es" by (auto simp: sound_chain_def Let_def list_all_iff)
  show "verify_chain (ge_sha env) loads (rq_transaction_id rq) (table @ take n ?es)"
    using sound unfolding verify_chain_iff stored_events [OF sound assms(2)]
    by (auto simp: sound_chain_def Let_def intro: chain_from_take)
  assume n: "n < length ?es"
  have seq: "ev_sequence_no (?es ! k) = int k" "ev_transaction_id (?es ! k) = rq_transaction_id rq" if "k < length ?es" for k
    using sound that numbered_nth [of ev_sequence_no ?es k] by (auto simp: sound_chain_def Let_def list_all_iff)
  have "\<not> has_event (table @ take n ?es) (ev_transaction_id (?es ! n)) (ev_sequence_no (?es ! n))"
    using assms(2) seq n by (auto simp: has_event_def list_ex_iff list_all_iff in_set_conv_nth)
  with n show "append_event_route None dup (?es ! n) (table @ take n ?es) = (Inr (?es ! n), table @ take (Suc n) ?es)"
    by (simp add: append_event_route_def repo_append_event_def take_Suc_conv_app_nth)
qed

text \<open>C3: Whatever happens to a request, an exception included, the events it posted are numbered from 0 without a gap, satisfy the ledger's request model, are accepted one after another by a ledger that knows no event of this transaction, and leave at every moment a chain that the ledger verifies.\<close>

theorem gateway_evidence_verifies:
  assumes "submit_control_request (traced env) rq (w, []) = (r, (w', calls))"
    and "list_all (\<lambda>e. ev_transaction_id e \<noteq> rq_transaction_id rq) table"
  shows "let es = posted_events calls in
    list_all valid_append_request es \<and> map ev_sequence_no es = map int [0..<length es] \<and>
    (\<forall>n<length es. append_event_route None dup (es ! n) (table @ take n es) = (Inr (es ! n), table @ take (Suc n) es)) \<and>
    (\<forall>n. verify_chain (ge_sha env) loads (rq_transaction_id rq) (table @ take n es))"
  using posted_events_stored [OF assms] submitted_chain [OF assms(1)] by (simp add: sound_chain_def Let_def)

theorem gateway_evidence_verifies_witness:
  "\<exists>calls. snd (plant_run hash_a ''ACK'' (0, [])) = (2, calls) \<and>
     map ev_sequence_no (posted_events calls) = map int [0..<length (posted_events calls)] \<and>
     verify_chain (\<lambda>s. hash_a) (\<lambda>s. Some VNone) ''tx'' ([] @ take 3 (posted_events calls))"
proof -
  obtain calls resp where run: "plant_run hash_a ''ACK'' (0, []) = (Inr resp, (2, calls))"
    using plant_run_commits by blast
  have "rq_transaction_id plant_request = ''tx''" by (simp add: plant_request_def)
  then show ?thesis
    using gateway_evidence_verifies [OF run [unfolded plant_run_def], of "[]"] run by (simp add: Let_def)
qed

end
