(* ===== verification/GatewayAborts.thy ===== *)
theory GatewayAborts
  imports GatewayFacts
begin

section \<open>Answers that say ABORTED\<close>

text \<open>
  When the second look at the sensors fails, the lock is given back before the agent hears of it.
  An unacknowledged COMMIT is answered ABORTED too, and there nothing is given back.
\<close>

definition says_aborted :: "pv \<Rightarrow> bool" where
  "says_aborted j \<longleftrightarrow> has_item ''status'' (VStr ''ABORTED'') j \<or> has_item ''status'' (VStr ''ALREADY_ABORTED'') j"

definition aborted :: "'w gw_env \<Rightarrow> string \<Rightarrow> string \<Rightarrow> call \<Rightarrow> bool" where
  "aborted env tx asset c \<longleftrightarrow> sends env ''ot_interface'' ''/v1/abort'' c \<and> body_has ''transaction_id'' (VStr tx) c
     \<and> body_has ''asset_id'' (VStr asset) c \<and> answered_with (\<lambda>n. n = 200) c \<and> answers says_aborted c"

definition reverify_codes :: "string option set" where
  "reverify_codes = {Some ''TOCTOU_REVERIFY_FAILED'', Some ''REVERIFY_HASH_MISMATCH''}"

definition reverify_answer :: "control_response \<Rightarrow> bool" where
  "reverify_answer resp \<longleftrightarrow> gr_status resp = ''ABORTED'' \<and> gr_reason_code resp \<in> reverify_codes"

lemma unhashable_error_raises [simp]: "unhashable_error v \<noteq> Inr x"
  by (simp add: unhashable_error_def)

lemma wp_any: "wp m (\<lambda>r t. True) anyhow s"
  by (simp add: wp_result)

lemma wp_hands_any: "wp m (hands (\<lambda>_ _. True)) anyhow s"
  by (rule wp_mono [OF wp_any]) (auto simp: hands_def split: sum.splits)

lemma wp_abort_transaction:
  "wp (abort_transaction (traced env) tx asset reason) (\<lambda>_ t. list_ex (aborted env tx asset) (snd t)) anyhow (w, l)"
  unfolding abort_transaction_def wp_simps
  by (rule wp_call_service)
     (auto simp: wp_simps aborted_def says_aborted_def has_item_def call_kinds py_get_Inr dget_or_def
        split: sum.splits option.splits)

lemma wp_confirm_abort:
  "wp (confirm_abort (traced env) tx asset reason failure alts)
     (\<lambda>r t. case r of Inl resp \<Rightarrow> gr_status resp = ''ERROR'' | Inr p \<Rightarrow> list_ex (aborted env tx asset) (snd t)) anyhow (w, l)"
  unfolding confirm_abort_def wp_bindE wp_tryE
  by (rule wp_mono [OF wp_abort_transaction])
     (auto simp: wp_simps reply_with_def dest: response_fields split: sum.splits)

text \<open>After the abort, the answer.\<close>

lemma wp_then_reply:
  assumes "list_ex (aborted env tx asset) l"
  shows "wp (bindE (record_event (traced env) tx stage payload ch) (\<lambda>_. reply_with tx st a b alts))
     (\<lambda>r t. case r of Inl resp \<Rightarrow> reverify_answer resp \<longrightarrow> list_ex (aborted env tx asset) (snd t) | Inr x \<Rightarrow> True) anyhow (w, l)"
proof -
  have calls: "calls_only (\<lambda>c. True) (bindE (record_event (traced env) tx stage payload ch) (\<lambda>_. reply_with tx st a b alts))"
    unfolding gateway_defs by ((intro calls_intros calls_call_service; simp)+)
  have "wp (bindE (record_event (traced env) tx stage payload ch) (\<lambda>_. reply_with tx st a b alts))
     (\<lambda>_ (w, l). list_ex (aborted env tx asset) l) (\<lambda>_ (w, l). list_ex (aborted env tx asset) l) (w, l)"
    by (rule calls_onlyD [OF calls, where J = "list_ex (aborted env tx asset)"]) (use assms in auto)
  then show ?thesis by (rule wp_mono) (auto split: sum.splits)
qed

lemma wp_reverify_aborts:
  "wp (reverify_stage (traced env) tx asset faults facts ch)
     (\<lambda>r t. case r of Inl resp \<Rightarrow> reverify_answer resp \<longrightarrow> list_ex (aborted env tx asset) (snd t) | Inr x \<Rightarrow> True) anyhow (w, l)"
proof -
  have "wp (next_stage (confirm_abort (traced env) tx asset reason failure alts) (\<lambda>r.
      bindE (record_event (traced env) tx stage (pl r) ch) (\<lambda>_. reply_with tx st a b alts)))
     (\<lambda>r t. case r of Inl resp \<Rightarrow> reverify_answer resp \<longrightarrow> list_ex (aborted env tx asset) (snd t) | Inr x \<Rightarrow> True) anyhow s"
    for reason failure alts stage pl st a b s
    unfolding next_stage_def wp_bindE [of "confirm_abort (traced env) tx asset reason failure alts"]
    by (cases s, simp only:, rule wp_mono [OF wp_confirm_abort])
       (auto simp: wp_simps reverify_answer_def intro: wp_then_reply [unfolded wp_simps] split: sum.split_asm)
  note abort = this
  show ?thesis
    unfolding reverify_stage_def proposals_def
    by (rule wp_bind_sum [OF wp_hands_any])
       (intro wp_bind_lift wp_branch abort; (unfold wp_bindE, rule wp_mono [OF wp_any])?; simp add: wp_simps)+
qed

lemma stages_no_reverify_answer:
  "replies (\<lambda>r. \<not> reverify_answer r) (received_stage env tx proof)"
  "replies (\<lambda>r. \<not> reverify_answer r) (integrity_stage env tx asset p ch)"
  "replies (\<lambda>r. \<not> reverify_answer r) (safety_stage env tx asset p facts)"
  "replies (\<lambda>r. \<not> reverify_answer r) (prepare_stage env tx asset faults facts ch)"
  "replies (\<lambda>r. \<not> reverify_answer r) (commit_stage env tx asset faults p facts ch)"
  unfolding gateway_defs commit_stage_def
  by (((rule replies_reply; simp add: reverify_answer_def reverify_codes_def; fail)
       | rule replies_hand_on replies_next_stage replies_tryE replies_cases replies_bindE)+)

definition given_back :: "'w gw_env \<Rightarrow> control_request \<Rightarrow> control_response + 'a \<Rightarrow> 'v \<times> call list \<Rightarrow> bool" where
  "given_back env rq r t \<longleftrightarrow> (case r of Inr x \<Rightarrow> True | Inl resp \<Rightarrow> reverify_answer resp \<longrightarrow>
     list_ex (aborted env (rq_transaction_id rq) (rq_asset_id rq)) (snd t) \<and> list_all not_commit (snd t))"

lemma wp_given_back_stage:
  assumes "replies (\<lambda>r. \<not> reverify_answer r) m" "calls_only not_commit m" "list_all not_commit l"
    and "\<And>x w l. list_all not_commit l \<Longrightarrow> wp (f x) (given_back env rq) anyhow (w, l)"
  shows "wp (next_stage m f) (given_back env rq) anyhow (w, l)"
  unfolding next_stage_def wp_bindE
  by (rule wp_mono [OF wp_conj [OF spec [OF assms(1) [unfolded replies_def]] calls_onlyD [OF assms(2), of "list_all not_commit"]]])
     (use assms(3,4) in \<open>auto simp: wp_simps given_back_def split: sum.splits\<close>)

lemma wp_pipeline_given_back: "wp (pipeline (traced env) rq) (given_back env rq) anyhow (w, [])"
proof -
  have commit: "wp (commit_stage (traced env) tx asset faults p facts ch) (given_back env rq) anyhow s"
    for tx asset faults p facts ch s
    by (rule wp_mono [OF spec [OF stages_no_reverify_answer(5) [unfolded replies_def]]])
       (auto simp: given_back_def split: sum.splits)
  have reverify: "wp (next_stage (reverify_stage (traced env) (rq_transaction_id rq) (rq_asset_id rq) faults facts ch) f)
      (given_back env rq) anyhow (w, l)"
    if "list_all not_commit l" "\<And>x s. wp (f x) (given_back env rq) anyhow s" for faults facts ch f w l
    unfolding next_stage_def wp_bindE
    by (rule wp_mono [OF wp_conj [OF wp_reverify_aborts calls_onlyD [OF stages_not_commit(5), of "list_all not_commit"]]])
       (use that in \<open>auto simp: wp_simps given_back_def split: sum.splits\<close>)
  show ?thesis
    unfolding pipeline_def Let_def
    by (intro wp_given_back_stage [OF stages_no_reverify_answer(1) stages_not_commit(1)]
          wp_given_back_stage [OF stages_no_reverify_answer(2) stages_not_commit(2)]
          wp_given_back_stage [OF stages_no_reverify_answer(3) stages_not_commit(3)]
          wp_given_back_stage [OF stages_no_reverify_answer(4) stages_not_commit(4)] reverify commit) simp
qed

text \<open>What the last stage hands on is COMMITTED.\<close>

lemma pipeline_committed: "wp (pipeline (traced env) rq) (hands (\<lambda>resp l. gr_status resp = ''COMMITTED'')) anyhow s"
proof -
  have "wp (commit_stage (traced env) tx asset faults p facts ch) (hands (\<lambda>resp l. gr_status resp = ''COMMITTED'')) anyhow s"
    for tx asset faults p facts ch s
    unfolding commit_stage_def
    apply (intro wp_bind_sum [OF wp_hands_any] commit_ends wp_bind_lift wp_branch wp_bind_log [OF wp_any])
    apply (drule response_fields, rule wp_hand_on, simp)
    done
  then show ?thesis
    unfolding pipeline_def Let_def by (intro wp_next_stage [OF wp_hands_any])
qed

subsection \<open>Properties\<close>

text \<open>C4: When the gateway answers ABORTED because the second look at the sensors failed or found another state, the OT interface has confirmed the abort of this transaction and no COMMIT was ever sent.\<close>

theorem gateway_reverify_aborts:
  assumes "submit_control_request (traced env) rq (w, []) = (Inr resp, (w', calls))"
    and "gr_status resp = ''ABORTED''"
    and "gr_reason_code resp = Some ''TOCTOU_REVERIFY_FAILED'' \<or> gr_reason_code resp = Some ''REVERIFY_HASH_MISMATCH''"
  shows "list_ex (aborted env (rq_transaction_id rq) (rq_asset_id rq)) calls \<and> list_all not_commit calls"
proof -
  have "wp (submit_control_request (traced env) rq) (\<lambda>resp. given_back env rq (Inl resp)) anyhow (w, [])"
    unfolding submit_control_request_def wp_bindE
    by (rule wp_mono [OF wp_conj [OF wp_pipeline_given_back pipeline_committed]])
       (auto simp: wp_simps given_back_def hands_def reverify_answer_def split: sum.splits)
  moreover have "reverify_answer resp" using assms(2,3) by (auto simp: reverify_answer_def reverify_codes_def)
  ultimately show ?thesis using assms(1) by (auto simp: wp_def given_back_def)
qed

theorem gateway_reverify_aborts_witness:
  "\<exists>calls. snd (plant_run hash_b ''ACK'' (0, [])) = (2, calls) \<and>
     list_ex (aborted (plant_env hash_b ''ACK'') (rq_transaction_id plant_request) (rq_asset_id plant_request)) calls \<and> list_all not_commit calls"
proof -
  obtain calls resp where run: "plant_run hash_b ''ACK'' (0, []) = (Inr resp, (2, calls))" "gr_status resp = ''ABORTED''"
    "gr_reason_code resp = Some ''REVERIFY_HASH_MISMATCH''"
    using plant_run_changed by blast
  show ?thesis using gateway_reverify_aborts [OF run(1) [unfolded plant_run_def] run(2)] run(1,3) by auto
qed

subsection \<open>The unacknowledged COMMIT\<close>

definition not_abort :: "call \<Rightarrow> bool" where
  "not_abort c \<longleftrightarrow> \<not> posts ''/v1/abort'' c"

lemma not_abort_call [simp]:
  "meth \<noteq> ''POST'' \<Longrightarrow> not_abort (meth, url, body, r)"
  "not_abort (''POST'', base @ ''/v1/events/append'', body, r)"
  "not_abort (''POST'', base @ ''/v1/validate'', body, r)"
  "not_abort (''POST'', base @ ''/v1/prepare'', body, r)"
  "not_abort (''POST'', base @ ''/v1/commit'', body, r)"
  by (simp_all add: not_abort_def posts_def)

lemma stages_not_abort:
  "calls_only not_abort (received_stage (traced env) tx proof)"
  "calls_only not_abort (integrity_stage (traced env) tx asset p ch)"
  "calls_only not_abort (safety_stage (traced env) tx asset p facts)"
  "calls_only not_abort (prepare_stage (traced env) tx asset faults facts ch)"
  "calls_only not_abort (reread_hash (traced env) asset)"
  "calls_only not_abort (ask_commit (traced env) tx asset faults p)"
  "calls_only not_abort (commit_not_acknowledged (traced env) tx facts ch v x)"
  "calls_only not_abort (record_event (traced env) tx stage payload ch)"
  unfolding gateway_defs ask_commit_def by ((intro calls_intros calls_call_service; simp)+)

definition timeout_answer :: "control_response \<Rightarrow> bool" where
  "timeout_answer resp \<longleftrightarrow> gr_status resp = ''ABORTED'' \<and> gr_reason_code resp = Some ''COMMIT_TIMEOUT''"

lemma stages_no_timeout:
  "replies (\<lambda>r. \<not> timeout_answer r) (received_stage env tx proof)"
  "replies (\<lambda>r. \<not> timeout_answer r) (integrity_stage env tx asset p ch)"
  "replies (\<lambda>r. \<not> timeout_answer r) (safety_stage env tx asset p facts)"
  "replies (\<lambda>r. \<not> timeout_answer r) (prepare_stage env tx asset faults facts ch)"
  "replies (\<lambda>r. \<not> timeout_answer r) (reverify_stage env tx asset faults facts ch)"
  "replies (\<lambda>r. \<not> timeout_answer r) (commit_error env tx asset faults facts ch e)"
  "replies (\<lambda>r. \<not> timeout_answer r) (commit_execution_failed env tx facts ch v x)"
  unfolding gateway_defs
  by (((rule replies_reply; simp add: timeout_answer_def split: if_splits; fail)
       | rule replies_hand_on replies_next_stage replies_tryE replies_cases replies_bindE)+)

definition still_locked :: "'w gw_env \<Rightarrow> control_request \<Rightarrow> call list \<Rightarrow> bool" where
  "still_locked env rq l \<longleftrightarrow> list_ex (locked env (rq_transaction_id rq) (rq_asset_id rq)) l \<and> list_all not_abort l"

lemma still_locked_snoc: "still_locked env rq l \<Longrightarrow> not_abort c \<Longrightarrow> still_locked env rq (l @ [c])"
  by (simp add: still_locked_def)

lemma calls_still_locked:
  "calls_only not_abort m \<Longrightarrow> still_locked env rq l \<Longrightarrow>
   wp m (\<lambda>_ t. still_locked env rq (snd t)) anyhow (w, l)"
  by (rule wp_mono [OF calls_onlyD [where ok = not_abort and J = "still_locked env rq"]])
     (auto intro: still_locked_snoc)

definition kept_lock :: "'w gw_env \<Rightarrow> control_request \<Rightarrow> control_response + 'a \<Rightarrow> 'v \<times> call list \<Rightarrow> bool" where
  "kept_lock env rq r t \<longleftrightarrow> (case r of Inr x \<Rightarrow> True | Inl resp \<Rightarrow> timeout_answer resp \<longrightarrow> still_locked env rq (snd t))"

lemma kept_lock_no_timeout: "replies (\<lambda>r. \<not> timeout_answer r) m \<Longrightarrow> wp m (kept_lock env rq) anyhow s"
  unfolding replies_def by (rule wp_mono, erule spec) (auto simp: kept_lock_def split: sum.splits)

lemma wp_kept_lock_stage:
  assumes "wp m (hands R) anyhow s" "replies (\<lambda>r. \<not> timeout_answer r) m"
    and "\<And>x w l. R x l \<Longrightarrow> wp (f x) (kept_lock env rq) anyhow (w, l)"
  shows "wp (next_stage m f) (kept_lock env rq) anyhow s"
  unfolding next_stage_def wp_bindE
  by (rule wp_mono [OF wp_conj [OF assms(1) spec [OF assms(2) [unfolded replies_def]]]])
     (use assms(3) in \<open>auto simp: wp_simps hands_def kept_lock_def split: sum.splits\<close>)

lemma wp_quiet_stage:
  "calls_only ok m \<Longrightarrow> list_all ok l \<Longrightarrow> wp m (hands (\<lambda>_. list_all ok)) anyhow (w, l)"
  by (rule wp_mono [OF calls_onlyD [where J = "list_all ok"]]) (auto simp: hands_def split: sum.splits)

lemma in_order_ex: "in_order (p # ps) l \<Longrightarrow> list_ex p l"
  by (induction l) (auto split: if_splits)

lemma wp_prepare_locked:
  assumes "list_all not_abort l"
  shows "wp (prepare_stage (traced env) (rq_transaction_id rq) (rq_asset_id rq) faults facts ch)
     (hands (\<lambda>_. still_locked env rq)) anyhow (w, l)"
  by (rule wp_mono [OF wp_conj [OF wp_prepare [where ps = "[]"] wp_quiet_stage [OF stages_not_abort(4) assms]]])
     (auto simp: hands_def still_locked_def dest: in_order_ex split: sum.splits)

lemma wp_reverify_locked:
  assumes "still_locked env rq l"
  shows "wp (reverify_stage (traced env) tx asset faults facts ch) (hands (\<lambda>_. still_locked env rq)) anyhow (w, l)"
proof -
  have "wp (reread_hash (traced env) asset) (hands (\<lambda>_. still_locked env rq)) anyhow (w, l)"
    by (rule wp_mono [OF calls_still_locked [OF stages_not_abort(5) assms]]) (auto simp: hands_def split: sum.splits)
  then show ?thesis
    unfolding reverify_stage_def
    apply (rule wp_bind_sum)
     apply (intro wp_ends ends_intros)
    apply (intro wp_bind_lift wp_branch)
     apply (intro wp_ends ends_intros)
    apply (rule wp_bind_log [OF calls_still_locked [OF stages_not_abort(8)]], assumption)
    apply (erule wp_hand_on)
    done
qed

lemma wp_commit_locked:
  assumes "still_locked env rq l"
  shows "wp (commit_stage (traced env) tx asset faults p facts ch) (kept_lock env rq) anyhow (w, l)"
proof -
  have ask: "wp (ask_commit (traced env) tx asset faults p) (hands (\<lambda>_. still_locked env rq)) anyhow (w, l)"
    by (rule wp_mono [OF calls_still_locked [OF stages_not_abort(6) assms]]) (auto simp: hands_def split: sum.splits)
  have acked: "wp (bindE m (\<lambda>_. bindE (liftE r) (\<lambda>resp. retE (Inr resp)))) (kept_lock env rq) anyhow s" for m r s
    by (auto simp: wp_result bindE_Inr retE_def kept_lock_def)
  show ?thesis
    unfolding commit_stage_def
    apply (rule wp_bind_sum [OF ask])
     apply (rule kept_lock_no_timeout [OF stages_no_timeout(6)])
    apply (intro wp_bind_lift wp_branch acked kept_lock_no_timeout [OF stages_no_timeout(7)])
    apply (rule wp_mono [OF calls_still_locked [OF stages_not_abort(7)]], assumption)
     apply (auto simp: kept_lock_def split: sum.splits)
    done
qed

lemma wp_pipeline_kept_lock: "wp (pipeline (traced env) rq) (kept_lock env rq) anyhow (w, [])"
  unfolding pipeline_def Let_def
  apply (rule wp_kept_lock_stage [OF wp_quiet_stage [OF stages_not_abort(1)] stages_no_timeout(1)], simp)
  apply (rule wp_kept_lock_stage [OF wp_quiet_stage [OF stages_not_abort(2)] stages_no_timeout(2)], assumption)
  apply (rule wp_kept_lock_stage [OF wp_quiet_stage [OF stages_not_abort(3)] stages_no_timeout(3)], assumption)
  apply (rule wp_kept_lock_stage [OF wp_prepare_locked stages_no_timeout(4)], assumption)
  apply (rule wp_kept_lock_stage [OF wp_reverify_locked stages_no_timeout(5)], assumption)
  apply (erule wp_commit_locked)
  done

text \<open>When the OT interface does not acknowledge a COMMIT (its answer is a timeout or an unknown status), the gateway tells the agent ABORTED, but the lock was granted and no abort has been sent: the transaction stays open at the OT interface until its lock expires.\<close>

theorem gateway_timeout_keeps_lock:
  assumes "submit_control_request (traced env) rq (w, []) = (Inr resp, (w', calls))"
    and "gr_status resp = ''ABORTED''" "gr_reason_code resp = Some ''COMMIT_TIMEOUT''"
  shows "list_ex (locked env (rq_transaction_id rq) (rq_asset_id rq)) calls \<and> list_all not_abort calls"
proof -
  have "wp (submit_control_request (traced env) rq) (\<lambda>resp. kept_lock env rq (Inl resp)) anyhow (w, [])"
    unfolding submit_control_request_def wp_bindE
    by (rule wp_mono [OF wp_conj [OF wp_pipeline_kept_lock pipeline_committed]])
       (auto simp: wp_simps kept_lock_def hands_def timeout_answer_def split: sum.splits)
  with assms show ?thesis by (auto simp: wp_def kept_lock_def timeout_answer_def still_locked_def)
qed

theorem gateway_timeout_keeps_lock_witness:
  "\<exists>calls. snd (plant_run hash_a ''TIMEOUT'' (0, [])) = (2, calls) \<and>
     list_ex (locked (plant_env hash_a ''TIMEOUT'') (rq_transaction_id plant_request) (rq_asset_id plant_request)) calls \<and> list_all not_abort calls"
proof -
  obtain calls resp where run: "plant_run hash_a ''TIMEOUT'' (0, []) = (Inr resp, (2, calls))" "gr_status resp = ''ABORTED''"
    "gr_reason_code resp = Some ''COMMIT_TIMEOUT''"
    using plant_run_timeout by blast
  show ?thesis using gateway_timeout_keeps_lock [OF run(1) [unfolded plant_run_def] run(2,3)] run(1) by auto
qed

end
