(* ===== verification/SimBackend.thy ===== *)
theory SimBackend
  imports PyObj
begin

section \<open>What the simulation backends share\<close>

text \<open>
  The environment of a backend: the environment variables, the project's root, \<open>str(Path(p).resolve())\<close>, the C library's
  \<open>pow\<close> with the error Python makes of its range error, the latency measured, and the viewer, of which
  only the outcome matters (\<open>plugins/simulation\<close>, the two \<open>_render_visualization\<close>).  A run that may not
  return has the type \<open>'a res option\<close>, with \<open>None\<close> for not returning.
\<close>

record sim_env =
  se_getenv :: "string \<Rightarrow> string option"
  se_root :: string
  se_resolve :: "string \<Rightarrow> string"
  se_pow :: "flt \<Rightarrow> flt \<Rightarrow> flt res"
  se_latency :: pnum
  se_viewer :: "pv dict \<Rightarrow> string \<Rightarrow> pv dict list \<Rightarrow> bool res"

definition bindO :: "'a res option \<Rightarrow> ('a \<Rightarrow> 'b res option) \<Rightarrow> 'b res option" where
  "bindO m f = (case m of None \<Rightarrow> None | Some (Inl e) \<Rightarrow> Some (Inl e) | Some (Inr x) \<Rightarrow> f x)"

lemma bindO_Some_Inr [simp]: "bindO m f = Some (Inr y) \<longleftrightarrow> (\<exists>x. m = Some (Inr x) \<and> f x = Some (Inr y))"
  by (auto simp: bindO_def split: option.splits sum.splits)

lemma bindO_simps [simp]: "bindO None f = None" "bindO (Some (Inl e)) f = Some (Inl e)" "bindO (Some (Inr x)) f = f x"
  by (simp_all add: bindO_def)

fun foldO :: "('a \<Rightarrow> 's \<Rightarrow> 's res option) \<Rightarrow> 'a list \<Rightarrow> 's \<Rightarrow> 's res option" where
  "foldO f [] s = Some (Inr s)"
| "foldO f (x # xs) s = bindO (f x s) (foldO f xs)"

definition lower_text :: "string \<Rightarrow> string" where
  "lower_text s = map lower_char s"

definition getenv_or :: "sim_env \<Rightarrow> string \<Rightarrow> string \<Rightarrow> string" where
  "getenv_or env name d = (case se_getenv env name of None \<Rightarrow> d | Some s \<Rightarrow> s)"

definition truthy_env :: "sim_env \<Rightarrow> string list \<Rightarrow> bool" where
  "truthy_env env names = list_ex (\<lambda>n. lower_text (strip_ws (getenv_or env n [])) \<in> {''1'', ''true'', ''yes'', ''on''}) names"

subsection \<open>The viewer's configuration\<close>

text \<open>\<open>d.update(v)\<close> for a dictionary or a list of pairs; keys that are no texts are never looked up.\<close>

definition py_update :: "pv dict \<Rightarrow> pv \<Rightarrow> pv dict res" where
  "py_update d v = (case v of
     VDict m \<Rightarrow> Inr (dmerge d m)
   | _ \<Rightarrow> bindR (py_iter v) (\<lambda>items. foldR (\<lambda>p m. bindR (py_iter p) (\<lambda>q. case q of
         [k, w] \<Rightarrow> (case k of VStr s \<Rightarrow> Inr (dset s w m) | _ \<Rightarrow> if unhashable k then unhashable_error k else Inr m)
       | _ \<Rightarrow> raise ValueError ''dictionary update sequence element has the wrong length; 2 is required'')) items d))"

definition vis_int :: "string \<Rightarrow> int \<Rightarrow> pv dict \<Rightarrow> pv dict res" where
  "vis_int k d m = bindR (py_int (dget_or m k (VInt d))) (\<lambda>i. Inr (dset k (VInt i) m))"

definition vis_bool :: "string \<Rightarrow> pv dict \<Rightarrow> pv dict res" where
  "vis_bool k m = Inr (dset k (VBool (truthy (dget_or m k (VBool True)))) m)"

definition vis_mode :: "sim_env \<Rightarrow> string \<Rightarrow> pv dict \<Rightarrow> pv dict res" where
  "vis_mode env name m = Inr (dset ''mode''
     (VStr (lower_text (strip_ws (py_str (or_else (vget m ''mode'') (VStr (getenv_or env name ''persistent''))))))) m)"

definition vis_path :: "sim_env \<Rightarrow> string \<Rightarrow> string \<Rightarrow> string \<Rightarrow> pv dict \<Rightarrow> pv dict res" where
  "vis_path env k name d m = (case or_else (vget m k) (VStr (getenv_or env name d)) of
     VStr p \<Rightarrow> Inr (dset k (VStr (se_resolve env p)) m)
   | v \<Rightarrow> raise TypeError (''expected str, bytes or os.PathLike object, not '' @ type_name v))"

definition vis_enabled :: "sim_env \<Rightarrow> string list \<Rightarrow> pv dict \<Rightarrow> pv dict res" where
  "vis_enabled env names m = Inr (dset ''enabled'' (VBool (truthy (vget m ''enabled'') \<or> truthy_env env names)) m)"

definition vis_title :: "string \<Rightarrow> pv dict \<Rightarrow> pv dict res" where
  "vis_title d m = Inr (dset ''window_title'' (or_else (vget m ''window_title'') (VStr d)) m)"

fun in_turn :: "('s \<Rightarrow> 's res) list \<Rightarrow> 's \<Rightarrow> 's res" where
  "in_turn [] s = Inr s"
| "in_turn (f # fs) s = bindR (f s) (in_turn fs)"

text \<open>\<open>render\<close> is asked when the viewer is enabled.\<close>

definition ask_viewer :: "sim_env \<Rightarrow> pv dict \<Rightarrow> string \<Rightarrow> pv dict list \<Rightarrow> bool res" where
  "ask_viewer env vis verdict violations =
     (if truthy (vget vis ''enabled'') then se_viewer env vis verdict violations else Inr False)"

end
