(* ===== verification/DiscreteEvent.thy ===== *)
theory DiscreteEvent
  imports SimBackend
begin

section \<open>The discrete event backend (plugins/simulation/discrete_event.py)\<close>

text \<open>
  The grid simulation of the vehicles.  A position is the tuple of whatever values configuration,
  state and actions hold; distances, comparisons and unpacking raise as Python does.  Two tuples are
  equal when their elements are.  The deep copies through \<open>json\<close> change nothing here.
\<close>

type_synonym cell = "pv list"

record des =
  ds_width :: int
  ds_height :: int
  ds_obstacles :: "cell list"
  ds_intersections :: "cell list"
  ds_agv_config :: pv
  ds_min_distance :: flt
  ds_visualization :: "pv dict"

subsection \<open>Configuration\<close>

definition des_default_visualization :: "pv dict" where
  "des_default_visualization = [(''enabled'', VBool False), (''mode'', VStr ''persistent''), (''cell_px'', VInt 56),
     (''step_delay_ms'', VInt 250), (''hold_final_ms'', VInt 1500), (''show_paths'', VBool True), (''show_coordinates'', VBool True)]"

definition des_default_agvs :: pv where
  "des_default_agvs = VDict
     [(''agv_01'', VDict [(''position'', VList [VInt 0, VInt 0]), (''speed'', VFloat (Fin 1))]),
      (''agv_02'', VDict [(''position'', VList [VInt 9, VInt 9]), (''speed'', VFloat (Fin 1))])]"

definition des_resolve_visualization :: "sim_env \<Rightarrow> pv \<Rightarrow> pv dict res" where
  "des_resolve_visualization env config =
     bindR (if truthy config then py_update des_default_visualization config else Inr des_default_visualization) (in_turn
       [vis_enabled env [''PCAG_AGV_GUI'', ''PCAG_ENABLE_AGV_GUI''], vis_mode env ''PCAG_AGV_GUI_MODE'',
        vis_int ''cell_px'' 56, vis_int ''step_delay_ms'' 250, vis_int ''hold_final_ms'' 1500,
        vis_bool ''show_paths'', vis_bool ''show_coordinates'', vis_title ''PCAG AGV Grid Viewer'', vis_int ''poll_interval_ms'' 250,
        vis_path env ''state_file'' ''PCAG_AGV_GUI_STATE_FILE''
          (se_root env @ ''/tests/benchmarks/pcag_ijamt_benchmark/results/agv_gui_state_latest.json''),
        vis_path env ''pid_file'' ''PCAG_AGV_GUI_PID_FILE''
          (se_root env @ ''/tests/benchmarks/pcag_ijamt_benchmark/results/agv_gui_viewer.pid'')])"

text \<open>\<open>hash(cell)\<close>, which a list or a dictionary inside makes impossible.\<close>

definition hash_cell :: "cell \<Rightarrow> cell res" where
  "hash_cell c = (case find unhashable c of Some v \<Rightarrow> unhashable_error v | None \<Rightarrow> Inr c)"

definition cell_set :: "pv \<Rightarrow> cell list res" where
  "cell_set v = bindR (py_iter v) (mapR (\<lambda>item. bindR (py_iter item) hash_cell))"

definition des_initialize :: "sim_env \<Rightarrow> pv \<Rightarrow> des res" where
  "des_initialize env config =
     bindR (py_get config ''grid'' (VDict [])) (\<lambda>grid.
     bindR (bindR (py_get grid ''width'' (VInt 10)) py_int) (\<lambda>width.
     bindR (bindR (py_get grid ''height'' (VInt 10)) py_int) (\<lambda>height.
     bindR (bindR (py_get grid ''obstacles'' (VList [])) cell_set) (\<lambda>obstacles.
     bindR (bindR (py_get grid ''intersections'' (VList [])) cell_set) (\<lambda>intersections.
     bindR (py_get config ''agvs'' des_default_agvs) (\<lambda>agvs.
     bindR (bindR (py_get config ''min_distance'' (VFloat (Fin 1))) py_float) (\<lambda>min_distance.
     bindR (bindR (py_get config ''visualization'' (VDict [])) (des_resolve_visualization env)) (\<lambda>visualization.
     bindR (py_len agvs) (\<lambda>_. Inr
       \<lparr> ds_width = width, ds_height = height, ds_obstacles = obstacles, ds_intersections = intersections,
         ds_agv_config = agvs, ds_min_distance = min_distance, ds_visualization = visualization \<rparr>)))))))))"

subsection \<open>Positions and paths\<close>

definition extract_agv_positions :: "des \<Rightarrow> pv dict \<Rightarrow> cell dict res" where
  "extract_agv_positions ds current_state =
     bindR (py_items (ds_agv_config ds)) (\<lambda>agvs.
     bindR (mapR (\<lambda>(agv_id, conf). bindR (py_get conf ''position'' (VList [VInt 0, VInt 0])) (\<lambda>p.
              bindR (py_iter p) (\<lambda>c. Inr (agv_id, c)))) agvs) (\<lambda>configured.
     (let reported = foldl (\<lambda>ps (key, value). case value of
              VDict d \<Rightarrow> if starts_with ''agv_'' key then dset key [dget_or d ''x'' (VInt 0), dget_or d ''y'' (VInt 0)] ps else ps
            | _ \<Rightarrow> ps) configured current_state in
      Inr (if dhas current_state ''position_x''
           then dset ''agv_01'' [vget current_state ''position_x'', dget_or current_state ''position_y'' (VInt 0)] reported
           else reported))))"

text \<open>The paths by the id of the vehicle, which an action may give as any hashable value.\<close>

type_synonym paths = "(pv \<times> cell list) list"

definition path_of :: "paths \<Rightarrow> string \<Rightarrow> cell list" where
  "path_of paths agv_id = (case find (\<lambda>p. py_eq (fst p) (VStr agv_id)) paths of Some (k, path) \<Rightarrow> path | None \<Rightarrow> [])"

definition set_path :: "pv \<Rightarrow> cell list \<Rightarrow> paths \<Rightarrow> paths res" where
  "set_path k path paths =
     (if unhashable k then unhashable_error k
      else Inr (if list_ex (\<lambda>p. py_eq (fst p) k) paths
                then map (\<lambda>(j, old). (j, if py_eq j k then path else old)) paths
                else paths @ [(k, path)]))"

definition cells :: "pv \<Rightarrow> cell list res" where
  "cells v = bindR (py_iter v) (mapR py_iter)"

text \<open>
  \<open>while x != target: x += 1 if target > x else -1\<close>: the values taken.  On a start that is no whole
  number of steps away it does not return.
\<close>

partial_function (option) walk_to :: "pv \<Rightarrow> pv \<Rightarrow> pv list \<Rightarrow> pv list res option" where
  "walk_to target x taken =
     (if py_eq x target then Some (Inr taken)
      else (case py_rel RGt target x of
        Inl e \<Rightarrow> Some (Inl e)
      | Inr up \<Rightarrow> (case arith_op ''+='' nadd x (VInt (if up then 1 else - 1)) of
          Inl e \<Rightarrow> Some (Inl e)
        | Inr n \<Rightarrow> walk_to target (of_num n) (taken @ [of_num n]))))"

definition unpack_cell :: "cell \<Rightarrow> (pv \<times> pv) res" where
  "unpack_cell c = (case c of
     [x, y] \<Rightarrow> Inr (x, y)
   | [] \<Rightarrow> raise ValueError ''not enough values to unpack (expected 2, got 0)''
   | [x] \<Rightarrow> raise ValueError ''not enough values to unpack (expected 2, got 1)''
   | _ \<Rightarrow> raise ValueError ''too many values to unpack (expected 2)'')"

definition generate_simple_path :: "cell \<Rightarrow> pv \<times> pv \<Rightarrow> cell list res option" where
  "generate_simple_path start target =
     bindO (Some (unpack_cell start)) (\<lambda>(x, y).
     bindO (walk_to (fst target) x []) (\<lambda>xs. let x' = last (x # xs) in
     bindO (walk_to (snd target) y []) (\<lambda>ys.
       Some (Inr (map (\<lambda>a. [a, y]) xs @ map (\<lambda>b. [x', b]) ys)))))"

definition numeric_target :: "string \<Rightarrow> pv \<Rightarrow> unit res" where
  "numeric_target name v = (if v \<noteq> VNone \<and> \<not> is_number v
     then raise ValueError (name @ '' must be numeric, got '' @ type_name v @ '': '' @ py_str v) else Inr ())"

definition action_path :: "cell dict \<Rightarrow> pv dict \<Rightarrow> paths \<Rightarrow> paths res option" where
  "action_path positions action paths =
     (if \<not> py_eq (vget action ''action_type'') (VStr ''move_to'') then Some (Inr paths)
      else (let params = dget_or action ''params'' (VDict []) in
      bindO (Some (py_get params ''agv_id'' (VStr ''agv_01''))) (\<lambda>agv_id.
      (let d = as_dict params in
       if dhas d ''path'' then Some (bindR (cells (vget d ''path'')) (\<lambda>path. set_path agv_id path paths))
       else if \<not> dhas d ''target_x'' \<or> \<not> dhas d ''target_y'' then Some (Inr paths)
       else (let tx = vget d ''target_x''; ty = vget d ''target_y'' in
         bindO (Some (numeric_target ''target_x'' tx)) (\<lambda>_.
         bindO (Some (numeric_target ''target_y'' ty)) (\<lambda>_.
         bindO (Some (if unhashable agv_id then unhashable_error agv_id
                      else Inr (case agv_id of VStr s \<Rightarrow> dget_or positions s [VInt 0, VInt 0] | _ \<Rightarrow> [VInt 0, VInt 0]))) (\<lambda>current.
         bindO (generate_simple_path current (tx, ty)) (\<lambda>path.
           Some (set_path agv_id path paths))))))))))"

definition extract_agv_paths :: "des \<Rightarrow> pv dict list \<Rightarrow> cell dict \<Rightarrow> paths res option" where
  "extract_agv_paths ds action_sequence positions =
     bindO (Some (bindR (py_items (ds_agv_config ds)) (\<lambda>agvs. foldR (\<lambda>(agv_id, conf) paths.
        bindR (py_get conf ''path'' VNone) (\<lambda>p. if truthy p then bindR (cells p) (\<lambda>path. set_path (VStr agv_id) path paths)
          else Inr paths)) agvs []))) (\<lambda>configured.
     foldO (action_path positions) action_sequence configured)"

definition position_at :: "nat \<Rightarrow> cell \<Rightarrow> cell list \<Rightarrow> cell" where
  "position_at step start path =
     (if step = 0 then start else if step \<le> length path then path ! (step - 1)
      else if path = [] then start else last path)"

definition positions_for_step :: "nat \<Rightarrow> cell dict \<Rightarrow> paths \<Rightarrow> cell dict" where
  "positions_for_step step initial_positions paths =
     map (\<lambda>(agv_id, start). (agv_id, position_at step start (path_of paths agv_id))) initial_positions"

subsection \<open>Violations of one step\<close>

definition at_index :: "cell \<Rightarrow> nat \<Rightarrow> pv res" where
  "at_index c i = (if i < length c then Inr (c ! i) else raise IndexError ''tuple index out of range'')"

text \<open>\<open>[pos[0], pos[1]]\<close>\<close>

definition cell_pv :: "cell \<Rightarrow> pv res" where
  "cell_pv c = bindR (at_index c 0) (\<lambda>x. bindR (at_index c 1) (\<lambda>y. Inr (VList [x, y])))"

definition cell_eq :: "cell \<Rightarrow> cell \<Rightarrow> bool" where
  "cell_eq a b = py_eq (VList a) (VList b)"

fun square :: "sim_env \<Rightarrow> pnum \<Rightarrow> pnum res" where
  "square env (NI i) = Inr (NI (i * i))"
| "square env (NF f) = bindR (se_pow env f (Fin 2)) (\<lambda>g. Inr (NF g))"

definition offset_squared :: "sim_env \<Rightarrow> cell \<Rightarrow> cell \<Rightarrow> nat \<Rightarrow> pnum res" where
  "offset_squared env a b i = bindR (at_index a i) (\<lambda>x. bindR (at_index b i) (\<lambda>y.
     bindR (arith_op ''-'' nsub x y) (square env)))"

definition cell_distance :: "sim_env \<Rightarrow> cell \<Rightarrow> cell \<Rightarrow> flt res" where
  "cell_distance env a b =
     bindR (offset_squared env a b 0) (\<lambda>dx. bindR (offset_squared env a b 1) (\<lambda>dy.
     bindR (nadd dx dy) (\<lambda>s. bindR (num_flt s) (\<lambda>f. se_pow env f (Fin (1 / 2))))))"

fun pairs_of :: "'a list \<Rightarrow> ('a \<times> 'a) list" where
  "pairs_of [] = []"
| "pairs_of (x # xs) = map (Pair x) xs @ pairs_of xs"

definition id_list :: "string list \<Rightarrow> pv" where
  "id_list ids = VList (map VStr ids)"

text \<open>A pair in conflict, as it goes to the collision pairs, and its violation.\<close>

type_synonym conflict = "(string \<times> string) \<times> pv dict"

definition too_close :: "sim_env \<Rightarrow> des \<Rightarrow> nat \<Rightarrow> (string \<times> cell) \<times> (string \<times> cell) \<Rightarrow> conflict list res" where
  "too_close env ds step p = (case p of ((agv_a, pos_a), (agv_b, pos_b)) \<Rightarrow>
     bindR (cell_distance env pos_a pos_b) (\<lambda>distance.
       if num_rel RLt (NF distance) (NF (ds_min_distance ds)) then
         bindR (cell_pv pos_a) (\<lambda>a. bindR (cell_pv pos_b) (\<lambda>b. Inr
           [((agv_a, agv_b), [(''step'', VInt (int step)), (''constraint'', VStr ''min_distance''), (''agv_pair'', id_list [agv_a, agv_b]),
             (''positions'', VDict [(agv_a, a), (agv_b, b)]), (''distance'', VFloat (fround 3 distance)),
             (''min_required'', VFloat (ds_min_distance ds))])]))
       else Inr []))"

definition is_swap :: "cell dict \<Rightarrow> (string \<times> cell) \<times> (string \<times> cell) \<Rightarrow> bool" where
  "is_swap next_positions p = (case p of ((agv_a, current_a), (agv_b, current_b)) \<Rightarrow>
     cell_eq (dget_or next_positions agv_a current_a) current_b \<and> cell_eq (dget_or next_positions agv_b current_b) current_a
     \<and> \<not> cell_eq current_a current_b)"

definition swap_violation :: "nat \<Rightarrow> cell dict \<Rightarrow> (string \<times> cell) \<times> (string \<times> cell) \<Rightarrow> conflict list res" where
  "swap_violation step next_positions p = (case p of ((agv_a, current_a), (agv_b, current_b)) \<Rightarrow>
     if is_swap next_positions p then
       bindR (cell_pv current_a) (\<lambda>ca. bindR (cell_pv (dget_or next_positions agv_a current_a)) (\<lambda>na.
       bindR (cell_pv current_b) (\<lambda>cb. bindR (cell_pv (dget_or next_positions agv_b current_b)) (\<lambda>nb. Inr
         [((agv_a, agv_b), [(''step'', VInt (int step)), (''constraint'', VStr ''edge_swap_conflict''), (''agv_pair'', id_list [agv_a, agv_b]),
           (''positions'', VDict [(agv_a, VDict [(''current'', ca), (''next'', na)]),
                                (agv_b, VDict [(''current'', cb), (''next'', nb)])])])]))))
     else Inr [])"

definition detect_edge_swap_conflicts :: "nat \<Rightarrow> cell dict \<Rightarrow> cell dict \<Rightarrow> conflict list res" where
  "detect_edge_swap_conflicts step positions next_positions =
     bindR (mapR (swap_violation step next_positions) (pairs_of positions)) (\<lambda>vs. Inr (concat vs))"

subsection \<open>Deadlocks\<close>

definition occupancy :: "cell dict \<Rightarrow> (cell \<times> string) list res" where
  "occupancy positions = bindR (mapR (\<lambda>(agv_id, c). bindR (hash_cell c) (\<lambda>h. Inr (h, agv_id))) positions) (\<lambda>cs. Inr (rev cs))"

definition occupant :: "(cell \<times> string) list \<Rightarrow> cell \<Rightarrow> string" where
  "occupant occ c = (case find (\<lambda>p. cell_eq (fst p) c) occ of Some (d, agv_id) \<Rightarrow> agv_id | None \<Rightarrow> [])"

text \<open>Who waits for whom, with the cell wanted.\<close>

definition waiting :: "(cell \<times> string) list \<Rightarrow> cell dict \<Rightarrow> string \<times> cell \<Rightarrow> (string \<times> string \<times> cell) list res" where
  "waiting occ next_positions p = (case p of (agv_id, current) \<Rightarrow>
     (let next_pos = dget_or next_positions agv_id current in
      if cell_eq next_pos current then Inr []
      else bindR (hash_cell next_pos) (\<lambda>h. let blocker = occupant occ h in
        Inr (if blocker \<noteq> [] \<and> blocker \<noteq> agv_id then [(agv_id, blocker, next_pos)] else []))))"

function chase :: "string dict \<Rightarrow> string list \<Rightarrow> string \<Rightarrow> string list \<times> string" where
  "chase wait_for traversal node = (case dget wait_for node of
     None \<Rightarrow> (traversal, node)
   | Some next_node \<Rightarrow> if node \<in> set traversal then (traversal, node)
       else chase wait_for (traversal @ [node]) next_node)"
  by pat_completeness auto

termination
proof (relation "measure (\<lambda>(w, t, n). card (fst ` set w - set t))")
  show "((w, t @ [n], m), (w, t, n)) \<in> measure (\<lambda>(w, t, n). card (fst ` set w - set t))"
    if "dget w n = Some m" "n \<notin> set t" for w :: "string dict" and t n m
  proof -
    have "n \<in> fst ` set w - set t" using that by (force dest: map_of_SomeD)
    then have "fst ` set w - set (t @ [n]) \<subset> fst ` set w - set t" by auto
    then show ?thesis by (simp only: in_measure case_prod_conv) (rule psubset_card_mono; simp)
  qed
qed simp

declare chase.simps [simp del]

definition is_pure_swap :: "cell dict \<Rightarrow> cell dict \<Rightarrow> string list \<Rightarrow> bool" where
  "is_pure_swap positions next_positions cycle = (case cycle of
     [a, b] \<Rightarrow> (let ca = dget_or positions a []; cb = dget_or positions b [] in
        cell_eq (dget_or next_positions a ca) cb \<and> cell_eq (dget_or next_positions b cb) ca)
   | _ \<Rightarrow> False)"

text \<open>The cycles found, in order, from each start that no earlier traversal has visited.\<close>

fun find_cycles :: "(string list \<Rightarrow> bool) \<Rightarrow> string dict \<Rightarrow> string list \<Rightarrow> string list \<Rightarrow> string list list \<Rightarrow> string list list" where
  "find_cycles skip wait_for visited [] found = found"
| "find_cycles skip wait_for visited (start # starts) found =
     (if start \<in> set visited then find_cycles skip wait_for visited starts found
      else (let (traversal, node) = chase wait_for [] start; cycle = dropWhile (\<lambda>n. n \<noteq> node) traversal in
        find_cycles skip wait_for (visited @ traversal) starts
          (if node \<notin> set traversal \<or> length cycle < 2 \<or> skip cycle \<or> (\<exists>c\<in>set found. sort c = sort cycle)
           then found else found @ [cycle])))"

definition cycle_violation :: "nat \<Rightarrow> cell dict \<Rightarrow> cell dict \<Rightarrow> string list \<Rightarrow> pv dict res" where
  "cycle_violation step positions desired cycle =
     bindR (mapR (\<lambda>a. bindR (cell_pv (dget_or desired a [])) (\<lambda>c. Inr (a, c))) (filter (\<lambda>a. dhas desired a) cycle)) (\<lambda>ds.
     bindR (mapR (\<lambda>a. bindR (cell_pv (dget_or positions a [])) (\<lambda>c. Inr (a, c))) cycle) (\<lambda>ps. Inr
       [(''step'', VInt (int step)), (''constraint'', VStr ''deadlock_cycle''), (''agv_cycle'', id_list cycle),
        (''desired_positions'', VDict ds), (''positions'', VDict ps)]))"

definition wait_graph :: "cell dict \<Rightarrow> cell dict \<Rightarrow> (string \<times> string \<times> cell) list res" where
  "wait_graph positions next_positions =
     bindR (occupancy positions) (\<lambda>occ. bindR (mapR (waiting occ next_positions) positions) (\<lambda>ws. Inr (concat ws)))"

definition detect_deadlock_cycles :: "nat \<Rightarrow> cell dict \<Rightarrow> cell dict \<Rightarrow> pv dict list res" where
  "detect_deadlock_cycles step positions next_positions =
     bindR (wait_graph positions next_positions) (\<lambda>waits.
     (let wait_for = map (\<lambda>(a, b, c). (a, b)) waits; desired = map (\<lambda>(a, b, c). (a, c)) waits in
      mapR (cycle_violation step positions desired)
        (find_cycles (is_pure_swap positions next_positions) wait_for [] (dkeys wait_for) [])))"

subsection \<open>Obstacles, boundary and rules\<close>

definition outside :: "des \<Rightarrow> pv \<Rightarrow> pv \<Rightarrow> bool res" where
  "outside ds x y =
     bindR (py_rel RLt x (VInt 0)) (\<lambda>a. if a then Inr True else
     bindR (py_rel RGe x (VInt (ds_width ds))) (\<lambda>b. if b then Inr True else
     bindR (py_rel RLt y (VInt 0)) (\<lambda>c. if c then Inr True else py_rel RGe y (VInt (ds_height ds)))))"

definition place_violations :: "des \<Rightarrow> nat \<Rightarrow> string \<times> cell \<Rightarrow> pv dict list res" where
  "place_violations ds step p = (case p of (agv_id, c) \<Rightarrow>
     bindR (hash_cell c) (\<lambda>_.
     bindR (if list_ex (\<lambda>b. cell_eq b c) (ds_obstacles ds)
            then bindR (cell_pv c) (\<lambda>v. Inr [[(''step'', VInt (int step)), (''constraint'', VStr ''obstacle_collision''),
                   (''agv_id'', VStr agv_id), (''position'', v)]])
            else Inr []) (\<lambda>obstacle.
     bindR (unpack_cell c) (\<lambda>(x, y).
     bindR (outside ds x y) (\<lambda>out. Inr (obstacle @ (if out then
       [[(''step'', VInt (int step)), (''constraint'', VStr ''grid_boundary''), (''agv_id'', VStr agv_id),
         (''position'', VList [x, y]), (''grid_size'', VList [VInt (ds_width ds), VInt (ds_height ds)])]] else [])))))))"

definition rule_violation :: "nat \<Rightarrow> pv dict \<Rightarrow> pv \<Rightarrow> string \<Rightarrow> nat \<Rightarrow> cell \<Rightarrow> pv dict list res" where
  "rule_violation step rule target field i c =
     (let lo = vget rule ''min''; hi = vget rule ''max'' in
      if \<not> py_eq target (VStr field) \<or> lo = VNone \<or> hi = VNone then Inr []
      else bindR (at_index c i) (\<lambda>v.
           bindR (py_rel RLt v lo) (\<lambda>below. bindR (if below then Inr True else py_rel RGt v hi) (\<lambda>bad. Inr (if bad
             then [[(''step'', VInt (int step)), (''constraint'', dget_or rule ''rule_id'' target), (''value'', v),
                    (''limit'', VList [lo, hi])]] else [])))))"

definition range_violations :: "nat \<Rightarrow> cell list \<Rightarrow> pv \<Rightarrow> pv dict list res" where
  "range_violations step cs rule = (case rule of
     VDict d \<Rightarrow> if \<not> py_eq (dget_or d ''type'' (VStr [])) (VStr ''range'') then Inr []
       else (let target = dget_or d ''target_field'' (VStr []) in
         bindR (mapR (\<lambda>c. bindR (rule_violation step d target ''position_x'' 0 c) (\<lambda>xs.
                          bindR (rule_violation step d target ''position_y'' 1 c) (\<lambda>ys. Inr (xs @ ys)))) cs) (\<lambda>vs. Inr (concat vs)))
   | _ \<Rightarrow> Inr [])"

text \<open>The violations of a step and the pairs in conflict.\<close>

definition detect_step_violations ::
  "sim_env \<Rightarrow> des \<Rightarrow> nat \<Rightarrow> cell dict \<Rightarrow> cell dict \<Rightarrow> pv \<Rightarrow> (pv dict list \<times> (string \<times> string) list) res" where
  "detect_step_violations env ds step positions next_positions ruleset =
     bindR (mapR (too_close env ds step) (pairs_of positions)) (\<lambda>close.
     bindR (detect_edge_swap_conflicts step positions next_positions) (\<lambda>swaps.
     bindR (detect_deadlock_cycles step positions next_positions) (\<lambda>deadlocks.
     bindR (mapR (place_violations ds step) positions) (\<lambda>places.
     bindR (bindR (py_iter ruleset) (mapR (range_violations step (dvals positions)))) (\<lambda>ranges.
     (let conflicts = concat close @ swaps in
      Inr (map snd conflicts @ deadlocks @ concat places @ concat ranges, map fst conflicts)))))))"

subsection \<open>The run\<close>

definition dedupe_collision_pairs :: "(string \<times> string) list \<Rightarrow> (string \<times> string) list" where
  "dedupe_collision_pairs pairs = foldl (\<lambda>unique (a, b). let key = (if a \<le> b then (a, b) else (b, a)) in
     if key \<in> set unique then unique else unique @ [key]) [] pairs"

definition step_record ::
  "sim_env \<Rightarrow> des \<Rightarrow> cell dict \<Rightarrow> paths \<Rightarrow> nat \<Rightarrow> pv \<Rightarrow> nat
    \<Rightarrow> (pv dict list \<times> (string \<times> string) list \<times> pv list) res" where
  "step_record env ds initial paths max_steps ruleset step =
     (let positions = positions_for_step step initial paths;
          next_positions = positions_for_step (min (step + 1) max_steps) initial paths in
      bindR (detect_step_violations env ds step positions next_positions ruleset) (\<lambda>(vs, pairs).
      bindR (mapR (\<lambda>(agv_id, c). bindR (cell_pv c) (\<lambda>v. Inr (VDict [(''t_step'', VInt (int step)),
               (''event'', VStr (agv_id @ ''_at'')), (''location'', v)]))) positions) (\<lambda>events.
      Inr (vs, pairs, events))))"

definition named_item :: "string \<Rightarrow> string \<Rightarrow> pv dict list \<Rightarrow> pv list" where
  "named_item constraint key violations = filter truthy (map (\<lambda>v. vget v key)
     (filter (\<lambda>v. py_eq (vget v ''constraint'') (VStr constraint)) violations))"

definition des_report ::
  "sim_env \<Rightarrow> des \<Rightarrow> nat \<Rightarrow> nat \<Rightarrow> bool \<Rightarrow> pv dict list \<Rightarrow> (string \<times> string) list \<Rightarrow> pv list \<Rightarrow> pv dict" where
  "des_report env ds agv_count max_steps rendered violations pairs event_log =
     (let cycles = named_item ''deadlock_cycle'' ''agv_cycle'' violations;
          first = (case violations of [] \<Rightarrow> [] | v # vs \<Rightarrow> v) in
      [(''verdict'', VStr (if violations \<noteq> [] then ''UNSAFE'' else ''SAFE'')), (''engine'', VStr ''discrete_event''),
       (''common'', VDict [(''first_violation_step'', vget first ''step''), (''violated_constraint'', vget first ''constraint''),
          (''latency_ms'', of_num (se_latency env)), (''steps_completed'', VInt (int max_steps))]),
       (''details'', VDict [(''event_log'', VList (take 30 event_log)),
          (''collision_pairs'', VList (map (\<lambda>(a, b). id_list [a, b]) (dedupe_collision_pairs pairs))),
          (''deadlock_detected'', VBool (cycles \<noteq> [])), (''deadlock_cycles'', VList cycles),
          (''edge_conflicts'', VList (named_item ''edge_swap_conflict'' ''agv_pair'' violations)),
          (''total_events'', VInt (int (length event_log))), (''violations'', VList (map VDict (take 10 violations))),
          (''grid_size'', VList [VInt (ds_width ds), VInt (ds_height ds)]), (''agv_count'', VInt (int agv_count)),
          (''visualization_enabled'', VBool (truthy (vget (ds_visualization ds) ''enabled''))),
          (''visualization_rendered'', VBool rendered)])])"

definition des_validate_trajectory ::
  "sim_env \<Rightarrow> des \<Rightarrow> pv dict \<Rightarrow> pv dict list \<Rightarrow> pv dict \<Rightarrow> pv dict res option" where
  "des_validate_trajectory env ds current_state action_sequence constraints =
     bindO (Some (extract_agv_positions ds current_state)) (\<lambda>positions.
     bindO (extract_agv_paths ds action_sequence positions) (\<lambda>paths.
     (let max_steps = foldr max (map (length \<circ> snd) paths) 0; ruleset = dget_or constraints ''ruleset'' (VList []) in
     bindO (Some (mapR (step_record env ds positions paths max_steps ruleset) [0..<max_steps + 1])) (\<lambda>steps.
     (let violations = concat (map fst steps); pairs = concat (map (fst \<circ> snd) steps);
          event_log = concat (map (snd \<circ> snd) steps) in
     bindO (Some (ask_viewer env (ds_visualization ds) (if violations \<noteq> [] then ''UNSAFE'' else ''SAFE'') violations)) (\<lambda>rendered.
       Some (Inr (des_report env ds (length positions) max_steps rendered violations pairs event_log))))))))"

end
