(* ===== verification/WaitCycles.thy ===== *)
theory WaitCycles
  imports DiscreteEvent
begin

section \<open>Cycles in the wait-for graph\<close>

text \<open>
  Every vehicle waits for at most one other, so the graph is a partial function and a traversal that
  returns to a visited vehicle ends in a cycle.  \<open>find_cycles\<close> visits every vehicle once; it reports a
  cycle exactly when there is one that is not to be skipped.
\<close>

fun linked :: "(string \<Rightarrow> string option) \<Rightarrow> string list \<Rightarrow> bool" where
  "linked f (a # b # xs) = (f a = Some b \<and> linked f (b # xs))"
| "linked f xs = True"

definition is_cycle :: "(string \<Rightarrow> string option) \<Rightarrow> string list \<Rightarrow> bool" where
  "is_cycle f c \<longleftrightarrow> c \<noteq> [] \<and> distinct c \<and> linked f (c @ [hd c])"

definition edges :: "(string \<Rightarrow> string option) \<Rightarrow> (string \<times> string) set" where
  "edges f = {(a, b). f a = Some b}"

lemma linked_append: "linked f (xs @ y # ys) \<longleftrightarrow> linked f (xs @ [y]) \<and> linked f (y # ys)"
proof (induction xs)
  case Nil
  then show ?case by simp
next
  case (Cons a xs)
  then show ?case by (cases xs) auto
qed

lemma linked_Cons: "linked f (a # xs) \<Longrightarrow> linked f xs"
  by (cases xs) auto

lemma linked_reaches: "linked f (a # xs) \<Longrightarrow> y \<in> set xs \<Longrightarrow> (a, y) \<in> (edges f)\<^sup>*"
proof (induction xs arbitrary: a)
  case Nil
  then show ?case by simp
next
  case (Cons b xs)
  then have "(a, b) \<in> edges f" "y = b \<or> (b, y) \<in> (edges f)\<^sup>*" by (auto simp: edges_def)
  then show ?case by (auto intro: converse_rtrancl_into_rtrancl)
qed

lemma linked_next: "linked f xs \<Longrightarrow> Suc i < length xs \<Longrightarrow> f (xs ! i) = Some (xs ! Suc i)"
proof (induction f xs arbitrary: i rule: linked.induct)
  case (1 f a b xs)
  then show ?case by (cases i) auto
qed auto

lemma cycle_next: "is_cycle f c \<Longrightarrow> x \<in> set c \<Longrightarrow> \<exists>y\<in>set c. f x = Some y"
proof -
  assume c: "is_cycle f c" and "x \<in> set c"
  then obtain i where i: "i < length c" "x = c ! i" by (auto simp: in_set_conv_nth)
  then have "f x = Some ((c @ [hd c]) ! Suc i)"
    using c linked_next [of f "c @ [hd c]" i] by (auto simp: is_cycle_def nth_append split: if_splits)
  moreover have "(c @ [hd c]) ! Suc i \<in> set c"
    using c i by (auto simp: is_cycle_def nth_append less_Suc_eq)
  ultimately show ?thesis by blast
qed

lemma cycle_closed: "is_cycle f c \<Longrightarrow> x \<in> set c \<Longrightarrow> (x, y) \<in> (edges f)\<^sup>* \<Longrightarrow> y \<in> set c"
  by (erule rtrancl_induct) (auto simp: edges_def dest: cycle_next)

lemma cycle_reaches: "is_cycle f c \<Longrightarrow> x \<in> set c \<Longrightarrow> y \<in> set c \<Longrightarrow> (x, y) \<in> (edges f)\<^sup>*"
proof -
  assume c: "is_cycle f c" and x: "x \<in> set c" and y: "y \<in> set c"
  obtain p q where pq: "c = p @ x # q" using x by (auto simp: in_set_conv_decomp)
  have round: "linked f (x # q @ [hd c])" "linked f (p @ [x])"
    using c linked_append [of f p x "q @ [hd c]"] by (auto simp: is_cycle_def pq)
  have "(x, hd c) \<in> (edges f)\<^sup>*" using linked_reaches [OF round(1), of "hd c"] by simp
  moreover have "(hd c, y) \<in> (edges f)\<^sup>*" if "y \<in> set p"
    using that round(2) linked_reaches [of f "hd p" "tl p @ [x]" y]
    by (cases p) (auto simp: pq)
  ultimately show ?thesis
    using y linked_reaches [OF round(1), of y] by (auto simp: pq intro: rtrancl_trans)
qed

text \<open>Two cycles that meet are one cycle.\<close>

lemma cycle_unique: "is_cycle f c \<Longrightarrow> is_cycle f d \<Longrightarrow> x \<in> set c \<Longrightarrow> x \<in> set d \<Longrightarrow> set c = set d"
  by (auto intro: cycle_closed cycle_reaches)

subsection \<open>The traversal\<close>

lemma chase_spec:
  assumes "linked (dget w) (t @ [n])" "distinct t" "chase w t n = (t', m)"
  shows "linked (dget w) (t' @ [m]) \<and> distinct t' \<and> (\<exists>u. t' @ [m] = t @ n # u \<or> t' = t \<and> m = n)
    \<and> (m \<in> set t' \<or> dget w m = None)"
  using assms
proof (induction w t n rule: chase.induct)
  case (1 w t n)
  show ?case
  proof (cases "dget w n")
    case None
    then show ?thesis using 1 by (auto simp: chase.simps [of w t n])
  next
    case (Some k)
    show ?thesis
    proof (cases "n \<in> set t")
      case True
      then show ?thesis using 1 Some by (auto simp: chase.simps [of w t n])
    next
      case False
      have "linked (dget w) ((t @ [n]) @ [k])"
        using 1(2) Some linked_append [of "dget w" t n "[k]"] by simp
      then show ?thesis
        using 1(1) [OF Some False] 1(3,4) Some False by (fastforce simp: chase.simps [of w t n])
    qed
  qed
qed

lemma chase_start:
  assumes "chase w [] s = (t, m)" "dhas w s"
  shows "linked (dget w) (t @ [m])" "distinct t" "s \<in> set t" "m \<in> set t \<or> dget w m = None"
proof -
  obtain k where k: "dget w s = Some k" using assms(2) by auto
  have c: "chase w [s] k = (t, m)" using assms(1) k by (simp add: chase.simps [of w "[]" s])
  have "linked (dget w) ([s] @ [k])" using k by simp
  from chase_spec [OF this _ c] show "linked (dget w) (t @ [m])" "distinct t" "s \<in> set t" "m \<in> set t \<or> dget w m = None"
    by (auto simp: append_eq_Cons_conv)
qed

lemma chase_cycle:
  assumes "chase w [] s = (t, m)" "m \<in> set t"
  shows "is_cycle (dget w) (dropWhile (\<lambda>n. n \<noteq> m) t)" "m \<in> set (dropWhile (\<lambda>n. n \<noteq> m) t)"
proof -
  have "linked (dget w) (t @ [m])" "distinct t"
    using chase_spec [of w "[]" s t m] assms(1) by simp_all
  moreover obtain p q where t: "t = p @ m # q" "m \<notin> set p" using split_list_first [OF assms(2)] by blast
  ultimately have "dropWhile (\<lambda>n. n \<noteq> m) t = m # q" "linked (dget w) (m # q @ [m])" "distinct (m # q)"
    using linked_append [of "dget w" p m "q @ [m]"] by (auto simp: dropWhile_append)
  then show "is_cycle (dget w) (dropWhile (\<lambda>n. n \<noteq> m) t)" "m \<in> set (dropWhile (\<lambda>n. n \<noteq> m) t)"
    by (simp_all add: is_cycle_def)
qed

text \<open>A traversal that touches a cycle ends in it.\<close>

lemma chase_enters:
  assumes "chase w [] s = (t, m)" "dhas w s" "is_cycle (dget w) c" "x \<in> set t" "x \<in> set c"
  shows "m \<in> set t \<and> set (dropWhile (\<lambda>n. n \<noteq> m) t) = set c"
proof -
  note l = chase_start [OF assms(1,2)]
  obtain p q where t: "t = p @ x # q" using assms(4) by (auto simp: in_set_conv_decomp)
  have "linked (dget w) (x # q @ [m])" using l(1) linked_append [of "dget w" p x "q @ [m]"] by (simp add: t)
  then have "(x, m) \<in> (edges (dget w))\<^sup>*" using linked_reaches by force
  then have m: "m \<in> set c" using cycle_closed [OF assms(3,5)] by blast
  then have mt: "m \<in> set t" using l(4) cycle_next [OF assms(3)] by force
  from chase_cycle [OF assms(1) mt] cycle_unique [OF _ assms(3)] m mt show ?thesis by blast
qed

subsection \<open>What is found\<close>

lemma find_cycles_sound:
  assumes "c \<in> set (find_cycles skip w visited starts found)"
    and "\<forall>d\<in>set found. is_cycle (dget w) d \<and> 2 \<le> length d \<and> \<not> skip d"
  shows "is_cycle (dget w) c \<and> 2 \<le> length c \<and> \<not> skip c"
  using assms
proof (induction skip w visited starts found rule: find_cycles.induct)
  case (1 skip w visited found)
  then show ?case by simp
next
  case (2 skip w visited start starts found)
  show ?case
  proof (cases "start \<in> set visited")
    case True
    then show ?thesis using 2(1) [OF True] 2(3,4) by simp
  next
    case False
    obtain t m where tm: "chase w [] start = (t, m)" by force
    let ?c = "dropWhile (\<lambda>n. n \<noteq> m) t"
    let ?found = "if m \<notin> set t \<or> length ?c < 2 \<or> skip ?c \<or> (\<exists>d\<in>set found. sort d = sort ?c) then found else found @ [?c]"
    have "is_cycle (dget w) ?c" if "m \<in> set t" using chase_cycle [OF tm that] by blast
    then have "\<forall>d\<in>set ?found. is_cycle (dget w) d \<and> 2 \<le> length d \<and> \<not> skip d"
      using 2(4) by (auto split: if_splits)
    moreover have "c \<in> set (find_cycles skip w (visited @ t) starts ?found)" using 2(3) False tm by (simp only: find_cycles.simps Let_def prod.case if_False)
    ultimately show ?thesis using 2(2) [OF False tm [symmetric] refl refl] by blast
  qed
qed

lemma find_cycles_complete:
  assumes "is_cycle (dget w) c" "2 \<le> length c" "\<And>d. is_cycle (dget w) d \<Longrightarrow> set d = set c \<Longrightarrow> \<not> skip d"
    and "\<forall>v\<in>set visited. v \<in> set c \<longrightarrow> (\<exists>d\<in>set found. set d = set c)"
    and "(set visited \<union> set starts) \<inter> set c \<noteq> {}"
    and "\<forall>s\<in>set starts. dhas w s"
  shows "\<exists>d\<in>set (find_cycles skip w visited starts found). set d = set c"
  using assms
proof (induction skip w visited starts found rule: find_cycles.induct)
  case (1 skip w visited found)
  then show ?case by auto
next
  case (2 skip w visited start starts found)
  show ?case
  proof (cases "start \<in> set visited")
    case True
    then show ?thesis using 2(1) [OF True] 2(3-) by (simp add: insert_absorb)
  next
    case False
    obtain t m where tm: "chase w [] start = (t, m)" by force
    let ?c = "dropWhile (\<lambda>n. n \<noteq> m) t"
    let ?found = "if m \<notin> set t \<or> length ?c < 2 \<or> skip ?c \<or> (\<exists>d\<in>set found. sort d = sort ?c) then found else found @ [?c]"
    have start: "dhas w start" using 2(8) by simp
    have new: "\<exists>d\<in>set ?found. set d = set c" if x: "x \<in> set t" "x \<in> set c" for x
    proof -
      have c: "m \<in> set t" "set ?c = set c" using chase_enters [OF tm start 2(3) x] by simp_all
      have cy: "is_cycle (dget w) ?c" using chase_cycle [OF tm c(1)] by blast
      then have "length ?c = length c" using c(2) 2(3) by (simp add: is_cycle_def distinct_card [symmetric])
      moreover have "\<not> skip ?c" using 2(5) cy c(2) by blast
      moreover have "set d = set c" if "sort d = sort ?c" for d using arg_cong [OF that, of set] c(2) by simp
      ultimately show ?thesis using c 2(4) by auto
    qed
    have "start \<in> set t" using chase_start [OF tm start] by blast
    moreover have "\<forall>v\<in>set (visited @ t). v \<in> set c \<longrightarrow> (\<exists>d\<in>set ?found. set d = set c)"
    proof (intro ballI impI)
      fix v assume v: "v \<in> set (visited @ t)" "v \<in> set c"
      show "\<exists>d\<in>set ?found. set d = set c"
      proof (cases "v \<in> set t")
        case True
        then show ?thesis using new v(2) by blast
      next
        case False
        then have "v \<in> set visited" using v(1) by simp
        then have "\<exists>d\<in>set found. set d = set c" using 2(6) v(2) by blast
        moreover have "set found \<subseteq> set ?found" by auto
        ultimately show ?thesis by blast
      qed
    qed
    ultimately have "\<exists>d\<in>set (find_cycles skip w (visited @ t) starts ?found). set d = set c"
      using 2(3-5,7,8) by (intro 2(2) [OF False tm [symmetric] refl refl]) auto
    then show ?thesis using False tm by (simp add: Let_def)
  qed
qed

lemma pure_swap_set:
  assumes "is_pure_swap ps ns d" "set d = set c" "distinct c" "distinct d"
  shows "is_pure_swap ps ns c"
proof -
  obtain a b where d: "d = [a, b]" using assms(1) by (auto simp: is_pure_swap_def split: list.splits)
  have "length c = card (set d)" using assms(2,3) by (simp add: distinct_card)
  then have "length c = 2" using assms(4) d by simp
  then obtain x y where c: "c = [x, y]" by (auto simp: numeral_2_eq_2 length_Suc_conv)
  then have "(x = a \<and> y = b) \<or> (x = b \<and> y = a)" using assms(2) d by (auto simp: doubleton_eq_iff)
  then show ?thesis using assms(1) d c by (auto simp: is_pure_swap_def Let_def)
qed

theorem deadlock_found_iff:
  "find_cycles (is_pure_swap ps ns) w [] (dkeys w) [] \<noteq> [] \<longleftrightarrow>
   (\<exists>c. is_cycle (dget w) c \<and> 2 \<le> length c \<and> \<not> is_pure_swap ps ns c)"
proof
  assume "find_cycles (is_pure_swap ps ns) w [] (dkeys w) [] \<noteq> []"
  then obtain c where "c \<in> set (find_cycles (is_pure_swap ps ns) w [] (dkeys w) [])"
    using hd_in_set by blast
  from find_cycles_sound [OF this] show "\<exists>c. is_cycle (dget w) c \<and> 2 \<le> length c \<and> \<not> is_pure_swap ps ns c"
    by auto
next
  assume "\<exists>c. is_cycle (dget w) c \<and> 2 \<le> length c \<and> \<not> is_pure_swap ps ns c"
  then obtain c where c: "is_cycle (dget w) c" "2 \<le> length c" "\<not> is_pure_swap ps ns c" by blast
  have keys: "\<forall>s\<in>set (dkeys w). dhas w s" by (simp add: dkeys_def map_of_eq_None_iff)
  obtain x where "x \<in> set c" using c(2) by (cases c) auto
  then obtain y where "dget w x = Some y" using cycle_next [OF c(1)] by blast
  then have "x \<in> set (dkeys w)" by (auto simp: dkeys_def dest!: map_of_SomeD intro!: image_eqI)
  then have "\<exists>d\<in>set (find_cycles (is_pure_swap ps ns) w [] (dkeys w) []). set d = set c"
    using \<open>x \<in> set c\<close> keys
  proof (intro find_cycles_complete [OF c(1,2)])
    show "\<not> is_pure_swap ps ns d" if "is_cycle (dget w) d" "set d = set c" for d
      using that c pure_swap_set [of ps ns d c] by (auto simp: is_cycle_def)
  qed auto
  then show "find_cycles (is_pure_swap ps ns) w [] (dkeys w) [] \<noteq> []" by auto
qed

end
