(* ===== verification/GridFacts.thy ===== *)
theory GridFacts
  imports WaitCycles
begin

section \<open>What a SAFE grid simulation means\<close>

text \<open>
  The verdict is SAFE exactly when every step is clear: distances, swaps, deadlocks, obstacles,
  boundary and range rules.  Then the generated paths: on whole coordinates they are shortest and end
  at the target, on others the generation does not return.
\<close>

lemma mapR_concat_Nil: "mapR f xs = Inr yss \<Longrightarrow> concat yss = [] \<longleftrightarrow> (\<forall>x\<in>set xs. f x = Inr [])"
  by (induction xs arbitrary: yss) auto

definition apart :: "sim_env \<Rightarrow> des \<Rightarrow> (string \<times> cell) \<times> (string \<times> cell) \<Rightarrow> bool" where
  "apart env ds p \<longleftrightarrow> (case cell_distance env (snd (fst p)) (snd (snd p)) of
     Inr d \<Rightarrow> \<not> num_rel RLt (NF d) (NF (ds_min_distance ds)) | Inl e \<Rightarrow> False)"

definition wait_for :: "(string \<times> string \<times> cell) list \<Rightarrow> string dict" where
  "wait_for waits = map (\<lambda>(a, b, c). (a, b)) waits"

definition deadlock_free :: "cell dict \<Rightarrow> cell dict \<Rightarrow> bool" where
  "deadlock_free positions next_positions \<longleftrightarrow> (case wait_graph positions next_positions of
     Inr waits \<Rightarrow> \<not> (\<exists>c. is_cycle (dget (wait_for waits)) c \<and> 2 \<le> length c \<and> \<not> is_pure_swap positions next_positions c)
   | Inl e \<Rightarrow> False)"

definition well_placed :: "des \<Rightarrow> cell \<Rightarrow> bool" where
  "well_placed ds c \<longleftrightarrow> (case c of [x, y] \<Rightarrow> py_rel RLt x (VInt 0) = Inr False \<and> py_rel RGe x (VInt (ds_width ds)) = Inr False
         \<and> py_rel RLt y (VInt 0) = Inr False \<and> py_rel RGe y (VInt (ds_height ds)) = Inr False | _ \<Rightarrow> False)
     \<and> \<not> list_ex (\<lambda>b. cell_eq b c) (ds_obstacles ds)"

definition obeys :: "pv \<Rightarrow> string \<Rightarrow> nat \<Rightarrow> cell \<Rightarrow> bool" where
  "obeys rule field i c \<longleftrightarrow> (case rule of
     VDict d \<Rightarrow> (let lo = vget d ''min''; hi = vget d ''max'' in
       py_eq (dget_or d ''type'' (VStr [])) (VStr ''range'') \<and> py_eq (dget_or d ''target_field'' (VStr [])) (VStr field)
         \<and> lo \<noteq> VNone \<and> hi \<noteq> VNone
       \<longrightarrow> i < length c \<and> py_rel RLt (c ! i) lo = Inr False \<and> py_rel RGt (c ! i) hi = Inr False)
   | _ \<Rightarrow> True)"

definition step_clear :: "sim_env \<Rightarrow> des \<Rightarrow> pv list \<Rightarrow> cell dict \<Rightarrow> cell dict \<Rightarrow> bool" where
  "step_clear env ds ruleset positions next_positions \<longleftrightarrow>
     list_all (apart env ds) (pairs_of positions) \<and> \<not> list_ex (is_swap next_positions) (pairs_of positions)
     \<and> deadlock_free positions next_positions \<and> list_all (well_placed ds) (dvals positions)
     \<and> list_all (\<lambda>rule. list_all (\<lambda>c. obeys rule ''position_x'' 0 c \<and> obeys rule ''position_y'' 1 c) (dvals positions)) ruleset"

lemma too_close_Nil: "too_close env ds step p = Inr vs \<Longrightarrow> vs = [] \<longleftrightarrow> apart env ds p"
  by (auto simp: too_close_def apart_def split: prod.splits if_splits)

lemma swap_Nil: "swap_violation step ns p = Inr vs \<Longrightarrow> vs = [] \<longleftrightarrow> \<not> is_swap ns p"
  by (auto simp: swap_violation_def split: prod.splits if_splits)

lemma deadlocks_Nil:
  assumes "detect_deadlock_cycles step ps ns = Inr vs"
  shows "vs = [] \<longleftrightarrow> deadlock_free ps ns"
proof -
  obtain waits where w: "wait_graph ps ns = Inr waits" and m: "mapR (cycle_violation step ps (map (\<lambda>(a, b, c). (a, c)) waits))
      (find_cycles (is_pure_swap ps ns) (wait_for waits) [] (dkeys (wait_for waits)) []) = Inr vs"
    using assms by (auto simp: detect_deadlock_cycles_def wait_for_def Let_def)
  then have "vs = [] \<longleftrightarrow> find_cycles (is_pure_swap ps ns) (wait_for waits) [] (dkeys (wait_for waits)) [] = []"
    using mapR_Inr_length [OF m] by (metis length_0_conv)
  then show ?thesis using deadlock_found_iff [of ps ns "wait_for waits"] w by (auto simp: deadlock_free_def)
qed

lemma unpack_cell_Inr: "unpack_cell c = Inr p \<longleftrightarrow> c = [fst p, snd p]"
  by (cases p) (auto simp: unpack_cell_def split: list.splits)

lemma place_Nil: "place_violations ds step (a, c) = Inr vs \<Longrightarrow> vs = [] \<longleftrightarrow> well_placed ds c"
  by (auto simp: place_violations_def well_placed_def outside_def unpack_cell_Inr split: if_splits)

lemma rule_violation_Nil:
  "rule_violation step d target field i c = Inr vs \<Longrightarrow> vs = [] \<longleftrightarrow>
   (py_eq target (VStr field) \<and> vget d ''min'' \<noteq> VNone \<and> vget d ''max'' \<noteq> VNone \<longrightarrow>
    i < length c \<and> py_rel RLt (c ! i) (vget d ''min'') = Inr False \<and> py_rel RGt (c ! i) (vget d ''max'') = Inr False)"
  by (auto simp: rule_violation_def at_index_def Let_def split: if_splits)

lemma range_Nil:
  assumes "range_violations step cs rule = Inr vs"
  shows "vs = [] \<longleftrightarrow> list_all (\<lambda>c. obeys rule ''position_x'' 0 c \<and> obeys rule ''position_y'' 1 c) cs"
proof (cases "\<exists>d. rule = VDict d \<and> py_eq (dget_or d ''type'' (VStr [])) (VStr ''range'')")
  case False
  then show ?thesis using assms
    by (cases rule) (auto simp: range_violations_def obeys_def list_all_iff)
next
  case True
  then obtain d where d: "rule = VDict d" "py_eq (dget_or d ''type'' (VStr [])) (VStr ''range'')" by blast
  let ?t = "dget_or d ''target_field'' (VStr [])"
  let ?f = "\<lambda>c. bindR (rule_violation step d ?t ''position_x'' 0 c) (\<lambda>xs. bindR (rule_violation step d ?t ''position_y'' 1 c) (\<lambda>ys. Inr (xs @ ys)))"
  obtain vss where m: "mapR ?f cs = Inr vss" "vs = concat vss"
    using assms d by (auto simp: range_violations_def Let_def)
  have "?f c = Inr [] \<longleftrightarrow> obeys rule ''position_x'' 0 c \<and> obeys rule ''position_y'' 1 c" if c: "c \<in> set cs" for c
  proof -
    obtain i where "i < length cs" "c = cs ! i" using c by (auto simp: in_set_conv_nth)
    then have "?f c = Inr (vss ! i)" using mapR_Inr_nth [OF m(1)] by blast
    then obtain xs ys where v: "rule_violation step d ?t ''position_x'' 0 c = Inr xs" "rule_violation step d ?t ''position_y'' 1 c = Inr ys"
      by auto
    then have "?f c = Inr [] \<longleftrightarrow> xs = [] \<and> ys = []" by auto
    then show ?thesis using rule_violation_Nil [OF v(1)] rule_violation_Nil [OF v(2)] d by (simp add: obeys_def Let_def)
  qed
  then show ?thesis using mapR_concat_Nil [OF m(1)] m(2) by (auto simp: list_all_iff)
qed

text \<open>A loop that collects violations finds none exactly when every turn is clean.\<close>

lemma mapR_clean:
  assumes "mapR f xs = Inr yss" "\<And>x ys. x \<in> set xs \<Longrightarrow> f x = Inr ys \<Longrightarrow> ys = [] \<longleftrightarrow> P x"
  shows "concat yss = [] \<longleftrightarrow> list_all P xs"
proof -
  have "f x = Inr [] \<longleftrightarrow> P x" if "x \<in> set xs" for x
  proof -
    obtain i where "i < length xs" "x = xs ! i" using \<open>x \<in> set xs\<close> by (auto simp: in_set_conv_nth)
    then have "f x = Inr (yss ! i)" using mapR_Inr_nth [OF assms(1)] by blast
    then show ?thesis using assms(2) [OF that] by auto
  qed
  then show ?thesis using mapR_concat_Nil [OF assms(1)] by (auto simp: list_all_iff)
qed

lemma step_Nil:
  assumes "detect_step_violations env ds step ps ns (VList ruleset) = Inr (vs, pairs)"
  shows "vs = [] \<longleftrightarrow> step_clear env ds ruleset ps ns"
proof -
  obtain close swaps deadlocks places ranges where
    c: "mapR (too_close env ds step) (pairs_of ps) = Inr close" and
    s: "mapR (swap_violation step ns) (pairs_of ps) = Inr swaps" and
    d: "detect_deadlock_cycles step ps ns = Inr deadlocks" and
    p: "mapR (place_violations ds step) ps = Inr places" and
    r: "mapR (range_violations step (dvals ps)) ruleset = Inr ranges" and
    vs: "vs = map snd (concat close @ concat swaps) @ deadlocks @ concat places @ concat ranges"
    using assms by (auto simp: detect_step_violations_def detect_edge_swap_conflicts_def Let_def)
  have "concat close = [] \<longleftrightarrow> list_all (apart env ds) (pairs_of ps)"
    by (rule mapR_clean [OF c]) (rule too_close_Nil)
  moreover have "concat swaps = [] \<longleftrightarrow> list_all (\<lambda>p. \<not> is_swap ns p) (pairs_of ps)"
    by (rule mapR_clean [OF s]) (rule swap_Nil)
  moreover have "concat places = [] \<longleftrightarrow> list_all (\<lambda>p. well_placed ds (snd p)) ps"
    by (rule mapR_clean [OF p]) (metis place_Nil surjective_pairing)
  moreover have "concat ranges = [] \<longleftrightarrow> list_all (\<lambda>rule. list_all (\<lambda>c. obeys rule ''position_x'' 0 c \<and> obeys rule ''position_y'' 1 c) (dvals ps)) ruleset"
    by (rule mapR_clean [OF r]) (rule range_Nil)
  ultimately show ?thesis
    using deadlocks_Nil [OF d] by (simp add: vs step_clear_def list_all_iff list_ex_iff dvals_def)
qed

definition horizon :: "paths \<Rightarrow> nat" where
  "horizon paths = foldr max (map (length \<circ> snd) paths) 0"

lemma path_within_horizon: "(k, path) \<in> set paths \<Longrightarrow> length path \<le> horizon paths"
  unfolding horizon_def by (induction paths) (auto simp: le_max_iff_disj)

lemma des_verdict:
  assumes "extract_agv_positions ds st = Inr start" "extract_agv_paths ds acts start = Some (Inr paths)"
    and "dget_or cons ''ruleset'' (VList []) = VList ruleset"
    and "des_validate_trajectory env ds st acts cons = Some (Inr r)"
  shows "dget r ''verdict'' = Some (VStr ''SAFE'') \<longleftrightarrow>
    (\<forall>step\<le>horizon paths. step_clear env ds ruleset (positions_for_step step start paths)
       (positions_for_step (min (step + 1) (horizon paths)) start paths))"
proof -
  obtain steps rendered where
    m: "mapR (step_record env ds start paths (horizon paths) (VList ruleset)) [0..<horizon paths + 1] = Inr steps" and
    r: "r = des_report env ds (length start) (horizon paths) rendered (concat (map fst steps))
          (concat (map (fst \<circ> snd) steps)) (concat (map (snd \<circ> snd) steps))"
    using assms unfolding des_validate_trajectory_def Let_def horizon_def [symmetric] by auto
  let ?clear = "\<lambda>step. step_clear env ds ruleset (positions_for_step step start paths)
       (positions_for_step (min (step + 1) (horizon paths)) start paths)"
  have turn: "fst (steps ! i) = [] \<longleftrightarrow> ?clear i" if "i < horizon paths + 1" for i
  proof -
    have "step_record env ds start paths (horizon paths) (VList ruleset) i = Inr (steps ! i)"
      using mapR_Inr_nth [OF m, of i] that by (simp del: upt_Suc)
    then show ?thesis by (cases "steps ! i") (auto simp: step_record_def Let_def dest: step_Nil)
  qed
  have len: "length steps = horizon paths + 1" using mapR_Inr_length [OF m] by simp
  have "concat (map fst steps) = [] \<longleftrightarrow> (\<forall>i<length steps. fst (steps ! i) = [])"
    by (auto simp: all_set_conv_all_nth)
  also have "\<dots> \<longleftrightarrow> (\<forall>step\<le>horizon paths. ?clear step)" using turn len by (auto simp: less_Suc_eq_le)
  finally show ?thesis by (auto simp: r des_report_def Let_def)
qed

text \<open>C8: A run of the grid simulation that returns says SAFE exactly when at every step up to the end of the longest path: no two vehicles are closer than the minimum distance, none swap cells, none wait for each other in a cycle, all stand inside the grid and off the obstacles, and all obey the range rules on positions.\<close>

theorem des_safe_iff:
  assumes "extract_agv_positions ds st = Inr start" "extract_agv_paths ds acts start = Some (Inr paths)"
    and "dget_or cons ''ruleset'' (VList []) = VList ruleset"
    and "des_validate_trajectory env ds st acts cons = Some (Inr r)"
  shows "dget r ''verdict'' = Some (VStr ''SAFE'') \<longleftrightarrow>
    (\<forall>step\<le>horizon paths. step_clear env ds ruleset (positions_for_step step start paths)
       (positions_for_step (min (step + 1) (horizon paths)) start paths))"
  by (rule des_verdict [OF assms])

text \<open>Two vehicles on the default grid, one moving a cell to the right.\<close>

definition demo_sim :: sim_env where
  "demo_sim = \<lparr> se_getenv = (\<lambda>n. None), se_root = ''/pcag'', se_resolve = (\<lambda>p. p), se_pow = (\<lambda>b e. Inr b),
     se_latency = NI 0, se_viewer = (\<lambda>vis verdict vs. Inr False) \<rparr>"

definition demo_grid :: des where
  "demo_grid = projr (des_initialize demo_sim (VDict []))"

definition demo_moves :: "pv dict list" where
  "demo_moves = [[(''action_type'', VStr ''move_to''), (''params'', VDict [(''path'', VList [VList [VInt 1, VInt 0]])])]]"

theorem des_safe_iff_witness:
  "\<exists>start paths. extract_agv_positions demo_grid [] = Inr start \<and> extract_agv_paths demo_grid demo_moves start = Some (Inr paths) \<and>
     (\<forall>step\<le>horizon paths. step_clear demo_sim demo_grid [] (positions_for_step step start paths)
       (positions_for_step (min (step + 1) (horizon paths)) start paths))"
proof -
  let ?start = "[(''agv_01'', [VInt 0, VInt 0]), (''agv_02'', [VInt 9, VInt 9])]"
  let ?paths = "[(VStr ''agv_01'', [[VInt 1, VInt 0]])]"
  let ?run = "des_validate_trajectory demo_sim demo_grid [] demo_moves []"
  have start: "extract_agv_positions demo_grid [] = Inr ?start" by code_simp
  have paths: "extract_agv_paths demo_grid demo_moves ?start = Some (Inr ?paths)" by code_simp
  have rules: "dget_or [] ''ruleset'' (VList []) = VList []" by code_simp
  have "\<exists>r. ?run = Some (Inr r) \<and> dget r ''verdict'' = Some (VStr ''SAFE'')"
  proof -
    have "(case ?run of Some (Inr r) \<Rightarrow> dget r ''verdict'' = Some (VStr ''SAFE'') | _ \<Rightarrow> False)" by code_simp
    then show ?thesis by (auto split: option.splits sum.splits)
  qed
  then show ?thesis using des_safe_iff [OF start paths rules] start paths by blast
qed

subsection \<open>Generated paths\<close>

definition towards :: "int \<Rightarrow> int \<Rightarrow> int list" where
  "towards x t = (if x \<le> t then [x + 1..t] else rev [t..x - 1])"

lemma towards_simps:
  "towards t t = []" "x < t \<Longrightarrow> towards x t = (x + 1) # towards (x + 1) t" "t < x \<Longrightarrow> towards x t = (x - 1) # towards (x - 1) t"
  by (auto simp: towards_def upto_rec1 [of "x + 1" t] upto_rec2 [of t "x - 1"])

lemma length_towards: "length (towards x t) = nat \<bar>t - x\<bar>"
  by (auto simp: towards_def)

lemma towards_induct [case_names here up down]:
  assumes "P t" "\<And>x. x < t \<Longrightarrow> P (x + 1) \<Longrightarrow> P x" "\<And>x. t < x \<Longrightarrow> P (x - 1) \<Longrightarrow> P x"
  shows "P (x::int)"
proof (induction "nat \<bar>t - x\<bar>" arbitrary: x)
  case 0
  then show ?case using assms(1) by simp
next
  case (Suc n)
  consider "x < t" | "t < x" using Suc(2) by linarith
  then show ?case
  proof cases
    case 1
    then have "n = nat \<bar>t - (x + 1)\<bar>" using Suc(2) by linarith
    then show ?thesis using Suc(1) assms(2) 1 by blast
  next
    case 2
    then have "n = nat \<bar>t - (x - 1)\<bar>" using Suc(2) by linarith
    then show ?thesis using Suc(1) assms(3) 2 by blast
  qed
qed

lemma walk_to_int: "walk_to (VInt t) (VInt x) taken = Some (Inr (taken @ map VInt (towards x t)))"
proof (induction x arbitrary: taken rule: towards_induct [of _ t])
  case here
  then show ?case by (subst walk_to.simps) (simp add: num_eq_def towards_simps)
next
  case (up x)
  then show ?case
    by (subst walk_to.simps) (simp add: num_eq_def towards_simps py_rel_number num_rel_def arith_op_def nadd_def num_op_def)
next
  case (down x)
  then show ?case
    by (subst walk_to.simps) (simp add: num_eq_def towards_simps py_rel_number num_rel_def arith_op_def nadd_def num_op_def)
qed

lemma last_towards: "last (x # towards x t) = t"
  by (induction x rule: towards_induct [of _ t]) (simp_all add: towards_simps)

definition grid_path :: "int \<times> int \<Rightarrow> int \<times> int \<Rightarrow> (int \<times> int) list" where
  "grid_path s t = map (\<lambda>a. (a, snd s)) (towards (fst s) (fst t)) @ map (\<lambda>b. (fst t, b)) (towards (snd s) (snd t))"

lemma generate_simple_path_int:
  "generate_simple_path [VInt x, VInt y] (VInt tx, VInt ty) =
   Some (Inr (map (\<lambda>(a, b). [VInt a, VInt b]) (grid_path (x, y) (tx, ty))))"
  using last_map [of "x # towards x tx" VInt] last_towards [of x tx]
  by (simp add: generate_simple_path_def unpack_cell_def walk_to_int grid_path_def Let_def o_def split: if_splits)

fun unit_steps :: "(int \<times> int) list \<Rightarrow> bool" where
  "unit_steps ((a, b) # (c, d) # ps) = (\<bar>a - c\<bar> + \<bar>b - d\<bar> = 1 \<and> unit_steps ((c, d) # ps))"
| "unit_steps ps = True"

lemma unit_steps_x: "unit_steps ((tx, y) # rest) \<Longrightarrow> unit_steps ((x, y) # map (\<lambda>a. (a, y)) (towards x tx) @ rest)"
  by (induction x rule: towards_induct [of _ tx]) (simp_all add: towards_simps)

lemma unit_steps_y: "unit_steps ((x, y) # map (\<lambda>b. (x, b)) (towards y ty))"
  by (induction y rule: towards_induct [of _ ty]) (simp_all add: towards_simps)

text \<open>C35: On whole coordinates the path generation returns a shortest path: one cell per unit of distance, from next to the start to the target, each a neighbour of the one before.\<close>

theorem simple_path_shortest:
  "\<exists>path. generate_simple_path [VInt x, VInt y] (VInt tx, VInt ty) = Some (Inr (map (\<lambda>(a, b). [VInt a, VInt b]) path)) \<and>
     length path = nat \<bar>tx - x\<bar> + nat \<bar>ty - y\<bar> \<and> last ((x, y) # path) = (tx, ty) \<and> unit_steps ((x, y) # path)"
proof (intro exI conjI)
  show "generate_simple_path [VInt x, VInt y] (VInt tx, VInt ty) = Some (Inr (map (\<lambda>(a, b). [VInt a, VInt b]) (grid_path (x, y) (tx, ty))))"
    by (rule generate_simple_path_int)
  show "length (grid_path (x, y) (tx, ty)) = nat \<bar>tx - x\<bar> + nat \<bar>ty - y\<bar>"
    by (simp add: grid_path_def length_towards)
  show "last ((x, y) # grid_path (x, y) (tx, ty)) = (tx, ty)"
    using last_towards [of x tx] last_towards [of y ty]
    by (auto simp: grid_path_def last_map last_append split: if_splits)
  show "unit_steps ((x, y) # grid_path (x, y) (tx, ty))"
    using unit_steps_x [of tx y "map (\<lambda>b. (tx, b)) (towards y ty)" x] unit_steps_y [of tx y ty]
    by (simp add: grid_path_def)
qed

text \<open>Halves are exact, so a step of one from a half leads to a half.\<close>

lemma is64_half: "\<bar>k\<bar> \<le> 2 ^ 50 \<Longrightarrow> is64 (of_int k + 1 / 2)"
proof -
  assume k: "\<bar>k\<bar> \<le> 2 ^ 50"
  have eq: "of_int k + 1 / 2 = (of_int (2 * k + 1) :: rat) * pow2 (- 1)" by (simp add: pow2_def field_simps)
  have small: "\<bar>of_int (2 * k + 1) :: rat\<bar> \<le> of_int (2 ^ 51 + 1)"
  proof -
    have "\<bar>2 * k + 1\<bar> \<le> 2 ^ 51 + (1::int)" using k by (simp add: abs_le_iff)
    then show ?thesis by (simp only: of_int_abs [symmetric] of_int_le_iff)
  qed
  have abs: "\<bar>of_int k + 1 / 2 :: rat\<bar> = \<bar>of_int (2 * k + 1)\<bar> / 2" by (simp add: abs_if field_simps)
  have "2 * k + 1 \<noteq> 0" by presburger
  then have "0 < \<bar>of_int k + 1 / 2 :: rat\<bar>" unfolding abs by (simp only: of_int_0_eq_iff zero_less_abs_iff zero_less_divide_iff) simp
  moreover have "\<bar>of_int k + 1 / 2 :: rat\<bar> < pow2 (51 + 1)" unfolding abs using small by (simp add: pow2_def)
  ultimately have "flog2 \<bar>of_int k + 1 / 2 :: rat\<bar> \<le> 51" by (rule flog2_le)
  then have "rnd_exp (of_int k + 1 / 2) \<le> - 1" by (simp add: rnd_exp_def)
  then have "rnd64 (of_int k + 1 / 2) = of_int k + 1 / 2" using rnd64_exact [OF eq] by simp
  moreover have "\<bar>of_int k + 1 / 2 :: rat\<bar> < max64" unfolding abs using small by (simp add: max64_def)
  ultimately show ?thesis by (simp add: is64_def)
qed

lemma half_nonzero: "of_int k + 1 / 2 \<noteq> (of_int i :: rat)"
proof
  assume "of_int k + 1 / 2 = (of_int i :: rat)"
  then have "(of_int (2 * k + 1) :: rat) = of_int (2 * i)" by simp
  then have "2 * k + 1 = 2 * i" by (simp only: of_int_eq_iff)
  then show False by presburger
qed

lemma half_step:
  assumes "\<bar>k + d\<bar> \<le> 2 ^ 50" "d = 1 \<or> d = - 1"
  shows "arith_op ''+='' nadd (VFloat (Fin (of_int k + 1 / 2))) (VInt d) = Inr (NF (Fin (of_int (k + d) + 1 / 2)))"
proof -
  have d: "int_to_flt d = Fin (of_int d)" using int_to_flt_exact [of d] assms(2) by auto
  have "fadd (Fin (of_int k + 1 / 2)) (Fin (of_int d)) = Fin (of_int (k + d) + 1 / 2)"
    using mk_flt_exact [OF is64_half [OF assms(1)]] half_nonzero [of "k + d" 0]
    by (simp add: fadd_def Let_def algebra_simps)
  then show ?thesis using d by (simp add: arith_op_def nadd_def num_op_def)
qed

lemma walk_half_never:
  assumes "walk_to (VInt t) (VFloat (Fin (of_int k + 1 / 2))) taken = Some r" "\<bar>t\<bar> < 2 ^ 50" "\<bar>k\<bar> < 2 ^ 50"
  shows False
proof -
  have "\<forall>k. x = VFloat (Fin (of_int k + 1 / 2)) \<longrightarrow> target = VInt t \<longrightarrow> \<bar>k\<bar> \<le> 2 ^ 50 \<longrightarrow> False"
    if ret: "walk_to target x taken = Some r" for target x taken r
  proof (rule walk_to.raw_induct [where P = "\<lambda>target x taken r.
      \<forall>k. x = VFloat (Fin (of_int k + 1 / 2)) \<longrightarrow> target = VInt t \<longrightarrow> \<bar>k\<bar> \<le> 2 ^ 50 \<longrightarrow> False" and xa = "((target, x), taken)", simplified prod.case, OF _ ret], intro allI impI)
    fix walk target x taken r k
    assume IH: "\<And>target x taken r. walk target x taken = Some r \<Longrightarrow>
        \<forall>k. x = VFloat (Fin (of_int k + 1 / 2)) \<longrightarrow> target = VInt t \<longrightarrow> \<bar>k\<bar> \<le> 2 ^ 50 \<longrightarrow> False"
      and turn: "(if py_eq x target then Some (Inr taken)
       else case py_rel RGt target x of Inl e \<Rightarrow> Some (Inl e)
         | Inr up \<Rightarrow> (case arith_op ''+='' nadd x (VInt (if up then 1 else - 1)) of Inl e \<Rightarrow> Some (Inl e)
             | Inr n \<Rightarrow> walk target (of_num n) (taken @ [of_num n]))) = Some r"
      and x: "x = VFloat (Fin (of_int k + 1 / 2))" "target = VInt t" "\<bar>k\<bar> \<le> 2 ^ 50"
    define d where "d = (if k < t then 1 else - 1 :: int)"
    have "(of_int k + 1 / 2 < (of_int t :: rat)) = (k < t)"
      using half_nonzero [of k t] by (simp add: field_simps) linarith
    then have "py_rel RGt target x = Inr (k < t)" using x by (simp add: py_rel_number num_rel_def)
    moreover have "\<not> py_eq x target" using half_nonzero [of k t] x by (simp add: num_eq_def)
    moreover have kd: "\<bar>k + d\<bar> \<le> 2 ^ 50" using assms(2) x(3) unfolding d_def by (auto split: if_splits)
    moreover have "arith_op ''+='' nadd x (VInt d) = Inr (NF (Fin (of_int (k + d) + 1 / 2)))"
      using half_step [OF kd] x(1) by (simp add: d_def)
    ultimately have "walk target (VFloat (Fin (of_int (k + d) + 1 / 2))) (taken @ [VFloat (Fin (of_int (k + d) + 1 / 2))]) = Some r"
      using turn by (simp add: d_def split: if_splits)
    with IH x(2) kd show False by blast
  qed
  with assms show False by (metis less_imp_le)
qed

text \<open>From a start half a cell off the grid the path generation never returns: the position jumps over the target for ever.\<close>

theorem simple_path_diverges:
  assumes "\<bar>k\<bar> < 2 ^ 50" "\<bar>tx\<bar> < 2 ^ 50"
  shows "generate_simple_path [VFloat (Fin (of_int k + 1 / 2)), y] (VInt tx, ty) = None"
proof -
  have "walk_to (VInt tx) (VFloat (Fin (of_int k + 1 / 2))) [] = None"
    using walk_half_never [OF _ assms(2,1)] by (meson not_None_eq)
  then show ?thesis by (simp add: generate_simple_path_def unpack_cell_def)
qed

theorem simple_path_diverges_witness: "generate_simple_path [VFloat (Fin (of_int 0 + 1 / 2)), VInt 0] (VInt 3, VInt 0) = None"
  by (rule simple_path_diverges) simp_all

end
