(* ===== verification/OdeSolver.thy ===== *)
theory OdeSolver
  imports SimBackend PlcCodec Http
begin

section \<open>The reactor backend (plugins/simulation/ode_solver.py)\<close>

text \<open>
  The thermal reactor.  scipy's \<open>solve_ivp\<close> and numpy's \<open>linspace\<close> are parameters: the solver gets the
  right-hand side, which may raise, the initial state, the times and the step bound, and returns a
  solution or raises.  Inside the right-hand side the state is a numpy float, whose division by zero is
  an infinity or nan; parameters that are no numbers raise there.  \<open>elapsed i\<close> is the time, in
  milliseconds, after action \<open>i\<close>.
\<close>

record ivp =
  iv_success :: bool
  iv_message :: string
  iv_t :: "flt list"
  iv_temperature :: "flt list"
  iv_pressure :: "flt list"

type_synonym rhs = "flt \<Rightarrow> flt \<Rightarrow> (flt \<times> flt) res"

record ode_env = sim_env +
  se_solve_ivp :: "rhs \<Rightarrow> flt \<Rightarrow> flt \<Rightarrow> flt \<Rightarrow> flt list \<Rightarrow> flt \<Rightarrow> ivp res"
  se_linspace :: "flt \<Rightarrow> int \<Rightarrow> flt list"
  se_elapsed :: "nat \<Rightarrow> pnum"

record ode =
  od_params :: "pv dict"
  od_horizon_ms :: int
  od_dt_ms :: int
  od_timeout_ms :: int
  od_visualization :: "pv dict"

subsection \<open>Configuration\<close>

definition default_reactor_params :: "pv dict" where
  "default_reactor_params = map (\<lambda>(k, v). (k, VFloat (Fin v)))
     [(''mass_kg'', 1), (''specific_heat_j_kg_k'', 4186), (''heater_max_power_w'', 20000), (''heat_transfer_coeff_w_k'', 100),
      (''coolant_temp_c'', 20), (''ambient_temp_c'', 25), (''loss_coeff_w_k'', 5), (''pressure_coeff_atm_k'', rnd64 (1 / 100))]"

definition ode_default_visualization :: "pv dict" where
  "ode_default_visualization = [(''enabled'', VBool False), (''mode'', VStr ''persistent''), (''step_delay_ms'', VInt 200),
     (''hold_final_ms'', VInt 1500), (''poll_interval_ms'', VInt 250), (''window_title'', VStr ''PCAG Reactor Viewer'')]"

definition ode_resolve_visualization :: "'a ode_env_scheme \<Rightarrow> pv \<Rightarrow> pv dict res" where
  "ode_resolve_visualization env0 config = (let env = sim_env.truncate env0 in
     bindR (if truthy config then py_update ode_default_visualization config else Inr ode_default_visualization) (in_turn
       [vis_enabled env [''PCAG_PROCESS_GUI'', ''PCAG_ENABLE_PROCESS_GUI''], vis_mode env ''PCAG_PROCESS_GUI_MODE'',
        vis_int ''step_delay_ms'' 200, vis_int ''hold_final_ms'' 1500, vis_int ''poll_interval_ms'' 250,
        vis_title ''PCAG Reactor Viewer'',
        vis_path env ''state_file'' ''PCAG_PROCESS_GUI_STATE_FILE''
          (se_root env @ ''/tests/benchmarks/pcag_ijamt_benchmark/results/process_gui_state_latest.json''),
        vis_path env ''pid_file'' ''PCAG_PROCESS_GUI_PID_FILE''
          (se_root env @ ''/tests/benchmarks/pcag_ijamt_benchmark/results/process_gui_viewer.pid'')]))"

definition ode_initialize :: "ode_env \<Rightarrow> pv \<Rightarrow> ode res" where
  "ode_initialize env config =
     bindR (py_get config ''params'' (VDict [])) (\<lambda>p.
     bindR (case p of VDict d \<Rightarrow> Inr (dmerge default_reactor_params d)
       | _ \<Rightarrow> raise TypeError (quoted (type_name p) @ '' object is not a mapping'')) (\<lambda>params.
     bindR (bindR (py_get config ''horizon_ms'' (VInt 5000)) py_int) (\<lambda>horizon.
     bindR (bindR (py_get config ''dt_ms'' (VInt 100)) py_int) (\<lambda>dt.
     bindR (bindR (py_get config ''timeout_ms'' (VInt 200)) py_int) (\<lambda>timeout.
     bindR (bindR (py_get config ''visualization'' (VDict [])) (ode_resolve_visualization env)) (\<lambda>visualization. Inr
       \<lparr> od_params = params, od_horizon_ms = horizon, od_dt_ms = dt, od_timeout_ms = timeout,
         od_visualization = visualization \<rparr>))))))"

definition require_numeric :: "pv dict \<Rightarrow> string \<Rightarrow> flt res" where
  "require_numeric current_state field = (case dget current_state field of
     None \<Rightarrow> raise ValueError (''ODE Solver: Missing required field '' @ quoted field @ '' in current_state'')
   | Some v \<Rightarrow> if is_number v then py_float v
       else raise ValueError (''ODE Solver: Field '' @ quoted field @ '' must be numeric, got '' @ type_name v))"

record reactor_state =
  rs_temperature :: flt
  rs_pressure :: flt
  rs_heater_output :: flt
  rs_cooling_valve :: flt

definition read_state :: "pv dict \<Rightarrow> reactor_state res" where
  "read_state current_state =
     bindR (require_numeric current_state ''temperature'') (\<lambda>t. bindR (require_numeric current_state ''pressure'') (\<lambda>p.
     bindR (require_numeric current_state ''heater_output'') (\<lambda>h. bindR (require_numeric current_state ''cooling_valve'') (\<lambda>c.
       Inr \<lparr> rs_temperature = t, rs_pressure = p, rs_heater_output = h, rs_cooling_valve = c \<rparr>))))"

subsection \<open>One segment\<close>

text \<open>\<open>max(a, b)\<close> on floats\<close>

definition fmax :: "flt \<Rightarrow> flt \<Rightarrow> flt" where
  "fmax a b = (if num_rel RGt (NF b) (NF a) then b else a)"

definition np_div :: "flt \<Rightarrow> flt \<Rightarrow> flt" where
  "np_div a b = (if is_finite b \<and> fval b = 0
     then (if a = NaN \<or> (is_finite a \<and> fval a = 0) then NaN else finf (fneg_sign a \<noteq> fneg_sign b))
     else fdiv a b)"

definition param_num :: "pv dict \<Rightarrow> string \<Rightarrow> pnum res" where
  "param_num params k = bindR (py_getitem (VDict params) k) (\<lambda>v. case num_of v of
     Some n \<Rightarrow> Inr n | None \<Rightarrow> raise TypeError (''unsupported operand type: '' @ quoted (type_name v)))"

definition param_flt :: "pv dict \<Rightarrow> string \<Rightarrow> flt res" where
  "param_flt params k = bindR (param_num params k) num_flt"

definition reactor_ode :: "pv dict \<Rightarrow> flt \<Rightarrow> flt \<Rightarrow> rhs" where
  "reactor_ode params heater_frac cooling_frac temperature pressure =
     bindR (param_flt params ''heater_max_power_w'') (\<lambda>max_power.
     bindR (param_flt params ''heat_transfer_coeff_w_k'') (\<lambda>transfer.
     bindR (param_flt params ''coolant_temp_c'') (\<lambda>coolant.
     bindR (param_flt params ''loss_coeff_w_k'') (\<lambda>loss.
     bindR (param_flt params ''ambient_temp_c'') (\<lambda>ambient.
     bindR (param_num params ''mass_kg'') (\<lambda>mass.
     bindR (param_num params ''specific_heat_j_kg_k'') (\<lambda>specific_heat.
     bindR (bindR (nmul mass specific_heat) num_flt) (\<lambda>capacity.
     bindR (param_flt params ''pressure_coeff_atm_k'') (\<lambda>coeff.
     (let heater_power = fmul heater_frac max_power;
          cooling_power = fmul (fmul cooling_frac transfer) (fsub temperature coolant);
          heat_loss = fmul loss (fsub temperature ambient);
          d_temperature = np_div (fsub (fsub heater_power cooling_power) heat_loss) capacity in
      Inr (d_temperature, fmul coeff d_temperature)))))))))))"

definition seconds :: "int \<Rightarrow> flt res" where
  "seconds ms = bindR (ndiv (NI ms) (NF (Fin 1000))) num_flt"

definition build_t_eval :: "ode_env \<Rightarrow> ode \<Rightarrow> int \<Rightarrow> flt list res" where
  "build_t_eval env od duration_ms0 = (let duration_ms = max duration_ms0 (od_dt_ms od) in
     bindR (seconds duration_ms) (\<lambda>duration_s.
     bindR (bindR (ndiv (NI duration_ms) (NI (od_dt_ms od))) num_round) (\<lambda>n.
       Inr (se_linspace env duration_s (max n 1 + 1)))))"

definition solve_segment :: "ode_env \<Rightarrow> ode \<Rightarrow> flt \<Rightarrow> flt \<Rightarrow> flt \<Rightarrow> flt \<Rightarrow> int \<Rightarrow> ivp res" where
  "solve_segment env od current_temperature current_pressure heater_frac cooling_frac duration_ms0 =
     (let duration_ms = max duration_ms0 (od_dt_ms od) in
      bindR (seconds duration_ms) (\<lambda>duration_s.
      bindR (build_t_eval env od duration_ms) (\<lambda>t_eval.
      bindR (seconds (od_dt_ms od)) (\<lambda>dt_s.
      bindR (se_solve_ivp env (reactor_ode (od_params od) heater_frac cooling_frac) duration_s current_temperature
               current_pressure t_eval (fmax dt_s (Fin (rnd64 (5 / 100))))) (\<lambda>sol.
        if \<not> iv_success sol then raise RuntimeError (''ODE solver failed: '' @ iv_message sol) else Inr sol)))))"

definition control_fraction :: "pv \<Rightarrow> flt \<Rightarrow> flt res" where
  "control_fraction params current = bindR (py_get params ''value'' (VFloat (fmul current (Fin 100)))) (\<lambda>v.
     bindR (py_float v) (\<lambda>f. Inr (fdiv f (Fin 100))))"

definition apply_action_controls :: "pv \<Rightarrow> pv \<Rightarrow> flt \<times> flt \<Rightarrow> (flt \<times> flt) res" where
  "apply_action_controls action_type params fracs = (case fracs of (heater_frac, cooling_frac) \<Rightarrow>
     if py_eq action_type (VStr ''set_heater_output'') then bindR (control_fraction params heater_frac) (\<lambda>h. Inr (h, cooling_frac))
     else if py_eq action_type (VStr ''set_cooling_valve'') then bindR (control_fraction params cooling_frac) (\<lambda>c. Inr (heater_frac, c))
     else Inr fracs)"

definition make_point :: "int \<Rightarrow> reactor_state \<Rightarrow> pv dict" where
  "make_point t_ms s = [(''t_ms'', VInt t_ms), (''temperature'', VFloat (fround 3 (rs_temperature s))),
     (''pressure'', VFloat (fround 3 (rs_pressure s))), (''heater_output'', VFloat (fround 3 (rs_heater_output s))),
     (''cooling_valve'', VFloat (fround 3 (rs_cooling_valve s)))]"

subsection \<open>Constraints\<close>

definition field_of :: "reactor_state \<Rightarrow> string \<Rightarrow> flt option" where
  "field_of s k = map_of [(''temperature'', rs_temperature s), (''pressure'', rs_pressure s),
     (''heater_output'', rs_heater_output s), (''cooling_valve'', rs_cooling_valve s)] k"

text \<open>\<open>x in {...}\<close> for a set of texts\<close>

definition in_texts :: "string list \<Rightarrow> pv \<Rightarrow> bool res" where
  "in_texts texts v = (if unhashable v then unhashable_error v else Inr (\<exists>t\<in>set texts. v = VStr t))"

definition exceeds :: "rel \<Rightarrow> flt \<Rightarrow> pv \<Rightarrow> bool res" where
  "exceeds r value limit = bindR (py_float limit) (\<lambda>l. Inr (num_rel r (NF value) (NF l)))"

definition violation_of :: "pv \<Rightarrow> flt \<Rightarrow> pv \<Rightarrow> pv dict" where
  "violation_of rule_id value limit = [(''constraint'', rule_id), (''value'', VFloat (fround 3 value)), (''limit'', limit)]"

definition opt_limit :: "pv \<Rightarrow> pv res" where
  "opt_limit v = (if v = VNone then Inr VNone else bindR (py_float v) (\<lambda>f. Inr (VFloat f)))"

definition threshold_check :: "pv dict \<Rightarrow> pv \<Rightarrow> flt \<Rightarrow> pv dict option res" where
  "threshold_check d rule_id value =
     (let oper = dget_or d ''operator'' (VStr ''lte''); limit = vget d ''value'' in
      if limit = VNone then Inr None
      else bindR (in_texts [''lte'', ''lt''] oper) (\<lambda>upper. bindR (if upper then exceeds RGt value limit else Inr False) (\<lambda>bad.
        if bad then bindR (opt_limit limit) (\<lambda>l. Inr (Some (violation_of rule_id value l)))
        else bindR (in_texts [''gte'', ''gt''] oper) (\<lambda>lower. bindR (if lower then exceeds RLt value limit else Inr False) (\<lambda>bad.
          if bad then bindR (opt_limit limit) (\<lambda>l. Inr (Some (violation_of rule_id value l))) else Inr None)))))"

definition range_bad :: "pv dict \<Rightarrow> flt \<Rightarrow> bool res" where
  "range_bad d value = (let lo = vget d ''min''; hi = vget d ''max'' in
     bindR (if lo = VNone then Inr False else exceeds RLt value lo) (\<lambda>below.
       if below then Inr True else if hi = VNone then Inr False else exceeds RGt value hi))"

definition limits_pv :: "pv dict \<Rightarrow> pv res" where
  "limits_pv d = bindR (opt_limit (vget d ''min'')) (\<lambda>lo. bindR (opt_limit (vget d ''max'')) (\<lambda>hi. Inr (VList [lo, hi])))"

definition check_one :: "reactor_state \<Rightarrow> pv \<Rightarrow> pv dict option res" where
  "check_one s rule =
     bindR (py_get rule ''rule_id'' (VStr [])) (\<lambda>rule_id.
     (let d = as_dict rule; target = dget_or d ''target_field'' (VStr []); rule_type = dget_or d ''type'' (VStr []) in
      if unhashable target then unhashable_error target
      else (case (case target of VStr k \<Rightarrow> field_of s k | _ \<Rightarrow> None) of
        None \<Rightarrow> Inr None
      | Some value \<Rightarrow>
          if py_eq rule_type (VStr ''threshold'') then threshold_check d rule_id value
          else if py_eq rule_type (VStr ''range'') then bindR (range_bad d value) (\<lambda>bad.
            if bad then bindR (limits_pv d) (\<lambda>l. Inr (Some (violation_of rule_id value l))) else Inr None)
          else Inr None)))"

text \<open>The first violated rule.\<close>

fun check_constraints :: "reactor_state \<Rightarrow> pv list \<Rightarrow> pv dict option res" where
  "check_constraints s [] = Inr None"
| "check_constraints s (rule # rules) = bindR (check_one s rule) (\<lambda>v. case v of
     Some violation \<Rightarrow> Inr (Some violation) | None \<Rightarrow> check_constraints s rules)"

subsection \<open>The run\<close>

record ode_run =
  or_values :: reactor_state
  or_max_temperature :: flt
  or_max_pressure :: flt
  or_trajectory :: "pv dict list"
  or_violations :: "pv dict list"
  or_first_violation_step :: "nat option"

definition segment_violation :: "nat \<Rightarrow> int \<Rightarrow> pv dict \<Rightarrow> pv dict" where
  "segment_violation step_idx t_ms v = [(''step'', VInt (int step_idx)), (''t_ms'', VInt t_ms),
     (''constraint'', vget v ''constraint''), (''value'', vget v ''value''), (''limit'', vget v ''limit'')]"

text \<open>One point of the solution: its time, temperature and pressure.\<close>

definition record_point ::
  "pv \<Rightarrow> int \<Rightarrow> nat \<Rightarrow> flt \<Rightarrow> flt \<Rightarrow> flt \<times> flt \<times> flt \<Rightarrow> ode_run \<Rightarrow> ode_run res" where
  "record_point ruleset total_t_ms step_idx heater_frac cooling_frac pt run = (case pt of (t, temperature, pressure) \<Rightarrow>
     (let values = \<lparr> rs_temperature = temperature, rs_pressure = pressure, rs_heater_output = fmul heater_frac (Fin 100),
                    rs_cooling_valve = fmul cooling_frac (Fin 100) \<rparr> in
      bindR (flt_round (fmul t (Fin 1000))) (\<lambda>ms.
      (let t_ms = total_t_ms + ms;
           run1 = run\<lparr> or_values := values, or_trajectory := or_trajectory run @ [make_point t_ms values],
                      or_max_temperature := fmax (or_max_temperature run) temperature,
                      or_max_pressure := fmax (or_max_pressure run) pressure \<rparr> in
       bindR (bindR (py_iter ruleset) (check_constraints values)) (\<lambda>v. Inr (case v of
         None \<Rightarrow> run1
       | Some violation \<Rightarrow> run1\<lparr> or_violations := or_violations run @ [segment_violation step_idx t_ms violation],
           or_first_violation_step := (if or_first_violation_step run = None then Some step_idx
             else or_first_violation_step run) \<rparr>))))))"

definition points_of :: "ivp \<Rightarrow> (flt \<times> flt \<times> flt) list" where
  "points_of sol = zip (iv_t sol) (zip (iv_temperature sol) (iv_pressure sol))"

definition record_segment ::
  "pv \<Rightarrow> ivp \<Rightarrow> int \<Rightarrow> nat \<Rightarrow> flt \<Rightarrow> flt \<Rightarrow> ode_run \<Rightarrow> ode_run res" where
  "record_segment ruleset sol total_t_ms step_idx heater_frac cooling_frac run =
     foldR (record_point ruleset total_t_ms step_idx heater_frac cooling_frac) (drop 1 (points_of sol)) run"

definition ode_result :: "ode_env \<Rightarrow> ode \<Rightarrow> string \<Rightarrow> ode_run \<Rightarrow> bool \<Rightarrow> pv dict \<Rightarrow> pv dict" where
  "ode_result env od verdict run rendered extra =
     (let violations = or_violations run; first = (case violations of [] \<Rightarrow> [] | v # vs \<Rightarrow> v); n = length (or_trajectory run) in
      [(''verdict'', VStr verdict), (''engine'', VStr ''ode_solver''),
       (''common'', VDict [(''first_violation_step'', opt_int (map_option int (or_first_violation_step run))),
          (''violated_constraint'', vget first ''constraint''), (''latency_ms'', of_num (se_latency env)),
          (''steps_completed'', VInt (max (int n - 1) 0))]),
       (''details'', VDict (dmerge [(''state_trajectory'', VList (map VDict (take 40 (or_trajectory run)))),
          (''trajectory_points'', VInt (int n)), (''convergence'', VBool (verdict \<noteq> ''INDETERMINATE'')),
          (''solver_steps'', VInt (int n)), (''violations'', VList (map VDict (take 10 violations))),
          (''visualization_enabled'', VBool (truthy (vget (od_visualization od) ''enabled''))),
          (''visualization_rendered'', VBool rendered)] extra))])"

definition gave_up :: "ode_env \<Rightarrow> ode \<Rightarrow> ode_run \<Rightarrow> string \<Rightarrow> pv dict" where
  "gave_up env od run reason = ode_result env od ''INDETERMINATE'' run False [(''reason'', VStr reason)]"

text \<open>
  The actions in turn, from the fractions and the time reached: \<open>Inl\<close> for the result of giving up,
  on an exception of the solver or after the time is over.
\<close>

fun run_actions ::
  "ode_env \<Rightarrow> ode \<Rightarrow> pv \<Rightarrow> nat \<Rightarrow> nat \<Rightarrow> pv dict list \<Rightarrow> int \<times> flt \<times> flt \<Rightarrow> ode_run \<Rightarrow> (pv dict + ode_run) res" where
  "run_actions env od ruleset n i [] clock run = Inr (Inr run)"
| "run_actions env od ruleset n i (action # actions) (total_t_ms, heater0, cooling0) run =
     bindR (py_int (dget_or action ''duration_ms'' (VInt (od_horizon_ms od div int (max n 1))))) (\<lambda>duration_ms.
     bindR (apply_action_controls (dget_or action ''action_type'' (VStr [])) (dget_or action ''params'' (VDict []))
              (heater0, cooling0)) (\<lambda>(heater, cooling).
     (case solve_segment env od (rs_temperature (or_values run)) (rs_pressure (or_values run)) heater cooling duration_ms of
        Inl e \<Rightarrow> Inr (Inl (gave_up env od run (''ODE error: '' @ exc_msg e)))
      | Inr sol \<Rightarrow> bindR (record_segment ruleset sol total_t_ms i heater cooling run) (\<lambda>run1.
          if num_rel RGt (se_elapsed env i) (NI (od_timeout_ms od))
          then Inr (Inl (gave_up env od run1 ''Simulation timeout''))
          else run_actions env od ruleset n (Suc i) actions (total_t_ms + duration_ms, heater, cooling) run1))))"

definition run_idle :: "ode_env \<Rightarrow> ode \<Rightarrow> pv \<Rightarrow> flt \<times> flt \<Rightarrow> ode_run \<Rightarrow> (pv dict + ode_run) res" where
  "run_idle env od ruleset fracs run = (case fracs of (heater, cooling) \<Rightarrow>
     (case solve_segment env od (rs_temperature (or_values run)) (rs_pressure (or_values run)) heater cooling (od_horizon_ms od) of
        Inl e \<Rightarrow> Inr (Inl (gave_up env od run (''ODE error: '' @ exc_msg e)))
      | Inr sol \<Rightarrow> bindR (record_segment ruleset sol 0 0 heater cooling run) (\<lambda>run1. Inr (Inr run1))))"

text \<open>\<open>_extract_safe_ranges\<close>, which only the viewer shows but which may raise.\<close>

definition safe_range :: "pv \<Rightarrow> (pv \<times> flt \<times> flt) list \<Rightarrow> (pv \<times> flt \<times> flt) list res" where
  "safe_range rule ranges =
     bindR (py_get rule ''target_field'' VNone) (\<lambda>target. let d = as_dict rule; rule_type = dget_or d ''type'' VNone in
       if \<not> truthy target then Inr ranges
       else if py_eq rule_type (VStr ''range'') then
         bindR (if vget d ''min'' = VNone then Inr NegInf else py_float (vget d ''min'')) (\<lambda>lo.
         bindR (if vget d ''max'' = VNone then Inr PosInf else py_float (vget d ''max'')) (\<lambda>hi.
         if unhashable target then unhashable_error target
         else Inr ((target, lo, hi) # filter (\<lambda>p. \<not> py_eq (fst p) target) ranges)))
       else if py_eq rule_type (VStr ''threshold'') then
         bindR (py_getitem (VDict d) ''value'') (\<lambda>limit. bindR (py_float limit) (\<lambda>value.
         if unhashable target then unhashable_error target else
         (let (lo, hi) = (case find (\<lambda>p. py_eq (fst p) target) ranges of Some (k, r) \<Rightarrow> r | None \<Rightarrow> (NegInf, PosInf));
              oper = dget_or d ''operator'' (VStr ''lte'') in
          bindR (in_texts [''lte'', ''lt''] oper) (\<lambda>upper. bindR (if upper then Inr False else in_texts [''gte'', ''gt''] oper) (\<lambda>lower.
            Inr ((target, (if lower then fmax lo value else lo), (if upper \<and> num_rel RLt (NF value) (NF hi) then value else hi))
              # filter (\<lambda>p. \<not> py_eq (fst p) target) ranges))))))
       else Inr ranges)"

definition ode_validate_trajectory ::
  "ode_env \<Rightarrow> ode \<Rightarrow> pv dict \<Rightarrow> pv dict list \<Rightarrow> pv dict \<Rightarrow> pv dict res" where
  "ode_validate_trajectory env od current_state action_sequence constraints =
     bindR (read_state current_state) (\<lambda>values.
     (let run0 = \<lparr> or_values = values, or_max_temperature = rs_temperature values, or_max_pressure = rs_pressure values,
                  or_trajectory = [make_point 0 values], or_violations = [], or_first_violation_step = None \<rparr>;
          fracs = (fdiv (rs_heater_output values) (Fin 100), fdiv (rs_cooling_valve values) (Fin 100));
          ruleset = dget_or constraints ''ruleset'' (VList []) in
     bindR (if action_sequence = [] then run_idle env od ruleset fracs run0
            else run_actions env od ruleset (length action_sequence) 0 action_sequence (0, fracs) run0) (\<lambda>outcome. case outcome of
       Inl result \<Rightarrow> Inr result
     | Inr run \<Rightarrow> (let verdict = (if or_violations run \<noteq> [] then ''UNSAFE'' else ''SAFE'') in
         bindR (if truthy (vget (od_visualization od) ''enabled'') then bindR (py_iter ruleset) (\<lambda>rules. foldR safe_range rules []) else Inr []) (\<lambda>_.
         bindR (ask_viewer (sim_env.truncate env) (od_visualization od) verdict (or_violations run)) (\<lambda>rendered.
         Inr (ode_result env od verdict run rendered [(''max_value'', VDict
           [(''temperature'', VFloat (fround 3 (or_max_temperature run))), (''pressure'', VFloat (fround 3 (or_max_pressure run)))])])))))))"

end
