(* ===== verification/OdeFacts.thy ===== *)
theory OdeFacts
  imports OdeSolver
begin

section \<open>What a SAFE reactor simulation means\<close>

text \<open>
  The states the plant passes through, computed apart from the checks, and what it is for a state to keep the
  limits the simulation reads from a rule: an upper or a lower bound of a threshold (a strict one read as not
  strict) and the bounds of a range.  A rule of another kind or with another operator sets no limit.  The
  simulation says SAFE exactly when every state it passes through keeps the limits of every rule.
\<close>

definition inside_limit :: "rel \<Rightarrow> flt \<Rightarrow> pv \<Rightarrow> bool" where
  "inside_limit r value limit \<longleftrightarrow> (case py_float limit of Inr l \<Rightarrow> \<not> num_rel r (NF value) (NF l) | Inl e \<Rightarrow> False)"

definition value_keeps_limits :: "pv dict \<Rightarrow> flt \<Rightarrow> bool" where
  "value_keeps_limits d value \<longleftrightarrow>
     (py_eq (dget_or d ''type'' (VStr [])) (VStr ''threshold'') \<and> vget d ''value'' \<noteq> VNone \<longrightarrow>
        (dget_or d ''operator'' (VStr ''lte'') \<in> {VStr ''lte'', VStr ''lt''} \<longrightarrow> inside_limit RGt value (vget d ''value'')) \<and>
        (dget_or d ''operator'' (VStr ''lte'') \<in> {VStr ''gte'', VStr ''gt''} \<longrightarrow> inside_limit RLt value (vget d ''value''))) \<and>
     (py_eq (dget_or d ''type'' (VStr [])) (VStr ''range'') \<longrightarrow>
        (vget d ''min'' \<noteq> VNone \<longrightarrow> inside_limit RLt value (vget d ''min'')) \<and>
        (vget d ''max'' \<noteq> VNone \<longrightarrow> inside_limit RGt value (vget d ''max'')))"

definition keeps_limits :: "reactor_state \<Rightarrow> pv \<Rightarrow> bool" where
  "keeps_limits s rule \<longleftrightarrow> (case dget_or (as_dict rule) ''target_field'' (VStr []) of
     VStr k \<Rightarrow> (case field_of s k of Some value \<Rightarrow> value_keeps_limits (as_dict rule) value | None \<Rightarrow> True)
   | _ \<Rightarrow> True)"

lemma exceeds_False: "exceeds r v l = Inr b \<Longrightarrow> b \<longleftrightarrow> \<not> inside_limit r v l"
  by (auto simp: exceeds_def inside_limit_def)

lemma in_texts_Inr: "in_texts ts v = Inr b \<Longrightarrow> b \<longleftrightarrow> (\<exists>t\<in>set ts. v = VStr t)"
  by (auto simp: in_texts_def unhashable_error_def split: if_splits)

lemma threshold_check_None:
  assumes "threshold_check d rid value = Inr v"
  shows "v = None \<longleftrightarrow> (vget d ''value'' \<noteq> VNone \<longrightarrow>
        (dget_or d ''operator'' (VStr ''lte'') \<in> {VStr ''lte'', VStr ''lt''} \<longrightarrow> inside_limit RGt value (vget d ''value'')) \<and>
        (dget_or d ''operator'' (VStr ''lte'') \<in> {VStr ''gte'', VStr ''gt''} \<longrightarrow> inside_limit RLt value (vget d ''value'')))"
  using assms
  by (auto simp: threshold_check_def Let_def split: if_splits dest!: in_texts_Inr exceeds_False)

lemma range_bad_iff:
  "range_bad d value = Inr b \<Longrightarrow> b \<longleftrightarrow> \<not> ((vget d ''min'' \<noteq> VNone \<longrightarrow> inside_limit RLt value (vget d ''min'')) \<and>
        (vget d ''max'' \<noteq> VNone \<longrightarrow> inside_limit RGt value (vget d ''max'')))"
  by (auto simp: range_bad_def Let_def split: if_splits dest: exceeds_False)

lemma py_eq_text: "py_eq v (VStr s) \<longleftrightarrow> v = VStr s"
  by (cases v) auto

lemma check_one_None:
  assumes "check_one s rule = Inr v"
  shows "v = None \<longleftrightarrow> keeps_limits s rule"
  using assms
  by (auto simp: check_one_def keeps_limits_def value_keeps_limits_def Let_def py_get_Inr py_eq_text unhashable_error_def
      split: if_splits pv.splits option.splits dest!: threshold_check_None range_bad_iff)

lemma check_constraints_None:
  "check_constraints s rules = Inr v \<Longrightarrow> v = None \<longleftrightarrow> list_all (keeps_limits s) rules"
  by (induction rules) (auto split: option.splits dest: check_one_None)

subsection \<open>The states passed through\<close>

definition segment_states :: "flt \<Rightarrow> flt \<Rightarrow> ivp \<Rightarrow> reactor_state list" where
  "segment_states heater_frac cooling_frac sol = map (\<lambda>(t, temperature, pressure).
     \<lparr> rs_temperature = temperature, rs_pressure = pressure, rs_heater_output = fmul heater_frac (Fin 100),
       rs_cooling_valve = fmul cooling_frac (Fin 100) \<rparr>) (drop 1 (points_of sol))"

text \<open>\<open>None\<close> where the simulation does not come through: an action of the wrong shape, or a solver that fails.\<close>

fun plant_path :: "ode_env \<Rightarrow> ode \<Rightarrow> nat \<Rightarrow> pv dict list \<Rightarrow> flt \<times> flt \<Rightarrow> reactor_state \<Rightarrow> reactor_state list option" where
  "plant_path env od n [] fracs s = Some []"
| "plant_path env od n (action # actions) fracs s =
     (case bindR (py_int (dget_or action ''duration_ms'' (VInt (od_horizon_ms od div int (max n 1))))) (\<lambda>duration_ms.
       bindR (apply_action_controls (dget_or action ''action_type'' (VStr [])) (dget_or action ''params'' (VDict [])) fracs)
         (\<lambda>(heater, cooling).
       bindR (solve_segment env od (rs_temperature s) (rs_pressure s) heater cooling duration_ms)
         (\<lambda>sol. Inr ((heater, cooling), segment_states heater cooling sol)))) of
       Inl e \<Rightarrow> None
     | Inr (fracs1, states) \<Rightarrow> map_option ((@) states) (plant_path env od n actions fracs1 (last (s # states))))"

definition plant_states :: "ode_env \<Rightarrow> ode \<Rightarrow> pv dict list \<Rightarrow> reactor_state \<Rightarrow> reactor_state list option" where
  "plant_states env od actions s =
     (let fracs = (fdiv (rs_heater_output s) (Fin 100), fdiv (rs_cooling_valve s) (Fin 100)) in
      if actions = [] then
        (case solve_segment env od (rs_temperature s) (rs_pressure s) (fst fracs) (snd fracs) (od_horizon_ms od) of
           Inl e \<Rightarrow> None | Inr sol \<Rightarrow> Some (segment_states (fst fracs) (snd fracs) sol))
      else plant_path env od (length actions) actions fracs s)"

definition start_run :: "reactor_state \<Rightarrow> ode_run" where
  "start_run s = \<lparr> or_values = s, or_max_temperature = rs_temperature s, or_max_pressure = rs_pressure s,
     or_trajectory = [make_point 0 s], or_violations = [], or_first_violation_step = None \<rparr>"

lemma start_run_simps [simp]: "or_values (start_run s) = s" "or_violations (start_run s) = []"
  by (simp_all add: start_run_def)

lemma record_point_Inr:
  assumes "record_point (VList rules) t0 i heater cooling (t, temperature, pressure) run = Inr run1"
  shows "or_values run1 = \<lparr> rs_temperature = temperature, rs_pressure = pressure, rs_heater_output = fmul heater (Fin 100),
       rs_cooling_valve = fmul cooling (Fin 100) \<rparr>"
    and "or_violations run1 = [] \<longleftrightarrow> or_violations run = [] \<and> list_all (keeps_limits (or_values run1)) rules"
proof -
  let ?s = "\<lparr> rs_temperature = temperature, rs_pressure = pressure, rs_heater_output = fmul heater (Fin 100),
       rs_cooling_valve = fmul cooling (Fin 100) \<rparr>"
  obtain v where v: "check_constraints ?s rules = Inr v" using assms by (auto simp: record_point_def Let_def)
  show "or_values run1 = ?s" and "or_violations run1 = [] \<longleftrightarrow> or_violations run = [] \<and> list_all (keeps_limits (or_values run1)) rules"
    using assms check_constraints_None [OF v] by (cases v; auto simp: record_point_def Let_def v)+
qed

lemma record_points_Inr:
  "foldR (record_point (VList rules) t0 i heater cooling) pts run = Inr run1 \<Longrightarrow>
   states = map (\<lambda>(t, temperature, pressure). \<lparr> rs_temperature = temperature, rs_pressure = pressure,
       rs_heater_output = fmul heater (Fin 100), rs_cooling_valve = fmul cooling (Fin 100) \<rparr>) pts \<Longrightarrow>
   or_values run1 = last (or_values run # states) \<and>
   (or_violations run1 = [] \<longleftrightarrow> or_violations run = [] \<and> list_all (\<lambda>s. list_all (keeps_limits s) rules) states)"
proof (induction pts arbitrary: run states)
  case Nil
  then show ?case by simp
next
  case (Cons pt pts)
  obtain t temperature pressure where pt: "pt = (t, temperature, pressure)" by (cases pt)
  obtain run' where first: "record_point (VList rules) t0 i heater cooling (t, temperature, pressure) run = Inr run'"
    and rest: "foldR (record_point (VList rules) t0 i heater cooling) pts run' = Inr run1"
    using Cons.prems(1) pt by auto
  show ?case
    using record_point_Inr [OF first] Cons.IH [OF rest refl] Cons.prems(2) pt by simp
qed

lemma record_segment_Inr:
  assumes "record_segment (VList rules) sol t0 i heater cooling run = Inr run1"
  shows "or_values run1 = last (or_values run # segment_states heater cooling sol)"
    and "or_violations run1 = [] \<longleftrightarrow> or_violations run = [] \<and> list_all (\<lambda>s. list_all (keeps_limits s) rules) (segment_states heater cooling sol)"
  using record_points_Inr [OF assms [unfolded record_segment_def] refl] by (simp_all add: segment_states_def)

lemma case_sum_bindR:
  "(case m of Inl e \<Rightarrow> Inr (f e) | Inr x \<Rightarrow> bindR (g x) (h x)) = Inr y \<longleftrightarrow>
   (case m of Inl e \<Rightarrow> y = f e | Inr x \<Rightarrow> \<exists>z. g x = Inr z \<and> h x z = Inr y)"
  by (auto split: sum.split)

lemma if_Inr_iff: "(if b then Inr x else m) = Inr y \<longleftrightarrow> (if b then y = x else m = Inr y)"
  by auto

lemma run_actions_Cons:
  "run_actions env od ruleset n i (action # actions) (t0, fracs) run = Inr x \<longleftrightarrow> (\<exists>duration heater cooling.
     py_int (dget_or action ''duration_ms'' (VInt (od_horizon_ms od div int (max n 1)))) = Inr duration \<and>
     apply_action_controls (dget_or action ''action_type'' (VStr [])) (dget_or action ''params'' (VDict [])) fracs = Inr (heater, cooling) \<and>
     (case solve_segment env od (rs_temperature (or_values run)) (rs_pressure (or_values run)) heater cooling duration of
        Inl e \<Rightarrow> x = Inl (gave_up env od run (''ODE error: '' @ exc_msg e))
      | Inr sol \<Rightarrow> \<exists>run1. record_segment ruleset sol t0 i heater cooling run = Inr run1 \<and>
          (if num_rel RGt (se_elapsed env i) (NI (od_timeout_ms od))
           then x = Inl (gave_up env od run1 ''Simulation timeout'')
           else run_actions env od ruleset n (Suc i) actions (t0 + duration, heater, cooling) run1 = Inr x)))"
  by (cases fracs) (simp only: run_actions.simps bindR_Inr_iff split_paired_Ex prod.case case_sum_bindR if_Inr_iff ex_simps)

lemma run_actions_states:
  "run_actions env od (VList rules) n i actions (t0, fracs) run = Inr (Inr run1) \<Longrightarrow>
   \<exists>states. plant_path env od n actions fracs (or_values run) = Some states \<and>
     (or_violations run1 = [] \<longleftrightarrow> or_violations run = [] \<and> list_all (\<lambda>s. list_all (keeps_limits s) rules) states)"
proof (induction actions arbitrary: i t0 fracs run)
  case Nil
  then show ?case by simp
next
  case (Cons action actions)
  obtain duration heater cooling sol run' where
    d: "py_int (dget_or action ''duration_ms'' (VInt (od_horizon_ms od div int (max n 1)))) = Inr duration" and
    c: "apply_action_controls (dget_or action ''action_type'' (VStr [])) (dget_or action ''params'' (VDict [])) fracs = Inr (heater, cooling)" and
    s: "solve_segment env od (rs_temperature (or_values run)) (rs_pressure (or_values run)) heater cooling duration = Inr sol" and
    r: "record_segment (VList rules) sol t0 i heater cooling run = Inr run'" and
    rest: "run_actions env od (VList rules) n (Suc i) actions (t0 + duration, heater, cooling) run' = Inr (Inr run1)"
    using Cons.prems [unfolded run_actions_Cons] by - (elim exE conjE, auto split: sum.split_asm if_split_asm)
  obtain states where st: "plant_path env od n actions (heater, cooling) (or_values run') = Some states"
    "or_violations run1 = [] \<longleftrightarrow> or_violations run' = [] \<and> list_all (\<lambda>s. list_all (keeps_limits s) rules) states"
    using Cons.IH [OF rest] by blast
  have "plant_path env od n (action # actions) fracs (or_values run) = Some (segment_states heater cooling sol @ states)"
    using d c s st(1) record_segment_Inr(1) [OF r] by simp
  then show ?case using st(2) record_segment_Inr(2) [OF r] by auto
qed

lemma run_actions_gave_up:
  "run_actions env od ruleset n i actions (t0, fracs) run = Inr (Inl r) \<Longrightarrow> \<exists>run1 reason. r = gave_up env od run1 reason"
proof (induction actions arbitrary: i t0 fracs run)
  case (Cons action actions)
  show ?case using Cons.prems [unfolded run_actions_Cons]
    by - (elim exE conjE, auto split: sum.split_asm if_split_asm dest: Cons.IH)
qed simp

lemma verdict_of_result: "dget (ode_result env od verdict run rendered extra) ''verdict'' = Some (VStr verdict)"
  by (simp add: ode_result_def Let_def)

lemma ode_validate_Inr:
  assumes "ode_validate_trajectory env od current actions cons = Inr r" "read_state current = Inr s0"
  shows "\<exists>outcome. (if actions = [] then run_idle env od (dget_or cons ''ruleset'' (VList []))
        (fdiv (rs_heater_output s0) (Fin 100), fdiv (rs_cooling_valve s0) (Fin 100)) (start_run s0)
      else run_actions env od (dget_or cons ''ruleset'' (VList [])) (length actions) 0 actions
        (0, fdiv (rs_heater_output s0) (Fin 100), fdiv (rs_cooling_valve s0) (Fin 100)) (start_run s0)) = Inr outcome \<and>
    (case outcome of Inl res \<Rightarrow> r = res | Inr run \<Rightarrow> \<exists>rendered extra.
      r = ode_result env od (if or_violations run \<noteq> [] then ''UNSAFE'' else ''SAFE'') run rendered extra)"
  using assms(1) unfolding ode_validate_trajectory_def assms(2) bindR.simps Let_def start_run_def [symmetric] bindR_Inr_iff
  by - (elim exE conjE, intro exI conjI, assumption, auto split: sum.split_asm sum.split, blast+)

lemma ode_verdict_states:
  assumes "ode_validate_trajectory env od current actions cons = Inr r"
    and "dget_or cons ''ruleset'' (VList []) = VList rules" and "read_state current = Inr s0"
    and "dget r ''verdict'' \<noteq> Some (VStr ''INDETERMINATE'')"
  shows "\<exists>states. plant_states env od actions s0 = Some states \<and>
    (dget r ''verdict'' = Some (VStr ''SAFE'') \<longleftrightarrow> (\<forall>s\<in>set states. \<forall>rule\<in>set rules. keeps_limits s rule))"
proof -
  let ?fracs = "(fdiv (rs_heater_output s0) (Fin 100), fdiv (rs_cooling_valve s0) (Fin 100))"
  obtain outcome where out: "(if actions = [] then run_idle env od (VList rules) ?fracs (start_run s0)
      else run_actions env od (VList rules) (length actions) 0 actions (0, ?fracs) (start_run s0)) = Inr outcome" and
    r: "case outcome of Inl res \<Rightarrow> r = res | Inr run \<Rightarrow> \<exists>rendered extra.
      r = ode_result env od (if or_violations run \<noteq> [] then ''UNSAFE'' else ''SAFE'') run rendered extra"
    using ode_validate_Inr [OF assms(1,3), unfolded assms(2)] by blast
  have "\<exists>run1 reason. res = gave_up env od run1 reason" if "outcome = Inl res" for res
    using out that by (auto simp: run_idle_def split: if_splits sum.splits dest: run_actions_gave_up)
  then obtain run where run: "outcome = Inr run"
    using r assms(4) by (cases outcome) (force simp: gave_up_def verdict_of_result)+
  have "\<exists>states. plant_states env od actions s0 = Some states \<and>
      (or_violations run = [] \<longleftrightarrow> list_all (\<lambda>s. list_all (keeps_limits s) rules) states)"
  proof (cases "actions = []")
    case True
    then show ?thesis using out run
      by (auto simp: run_idle_def plant_states_def Let_def split: sum.splits dest: record_segment_Inr(2))
  next
    case False
    then have "run_actions env od (VList rules) (length actions) 0 actions (0, ?fracs) (start_run s0) = Inr (Inr run)" using out run by simp
    from run_actions_states [OF this] False show ?thesis by (auto simp: plant_states_def Let_def)
  qed
  then show ?thesis using r run by (auto simp: verdict_of_result list_all_iff)
qed

text \<open>C9: A reactor simulation that is given a list of rules and comes to a verdict says SAFE exactly when every state the plant passes through, from the first step of the first action on, keeps the limits that the simulation reads from the rules: the field of a threshold lte or lt (the operator when none is given) does not exceed its value, that of a threshold gte or gt does not fall below it, and that of a range stays within the bounds it gives. A strict limit is read as not strict, and eq and ne thresholds, the other kinds of rules and rules for a field that is not simulated set no limit.\<close>

theorem ode_safe_iff:
  assumes "ode_validate_trajectory env od current actions cons = Inr r"
    and "dget_or cons ''ruleset'' (VList []) = VList rules" and "read_state current = Inr s0"
    and "dget r ''verdict'' \<noteq> Some (VStr ''INDETERMINATE'')"
  shows "\<exists>states. plant_states env od actions s0 = Some states \<and>
    (dget r ''verdict'' = Some (VStr ''SAFE'') \<longleftrightarrow> (\<forall>s\<in>set states. \<forall>rule\<in>set rules. keeps_limits s rule))"
  by (rule ode_verdict_states [OF assms])

text \<open>A simulation that comes to a verdict says SAFE whatever the states, when every rule is a threshold with eq or ne.\<close>

theorem ode_equality_unchecked:
  assumes "ode_validate_trajectory env od current actions cons = Inr r"
    and "dget_or cons ''ruleset'' (VList []) = VList rules" and "read_state current = Inr s0"
    and "dget r ''verdict'' \<noteq> Some (VStr ''INDETERMINATE'')"
    and "\<forall>rule\<in>set rules. \<exists>d. rule = VDict d \<and> dget d ''type'' = Some (VStr ''threshold'') \<and>
      dget d ''operator'' \<in> {Some (VStr ''eq''), Some (VStr ''ne'')}"
  shows "dget r ''verdict'' = Some (VStr ''SAFE'')"
proof -
  have "keeps_limits s rule" if "rule \<in> set rules" for s rule
    using assms(5) that by (fastforce simp: keeps_limits_def value_keeps_limits_def dget_or_def split: pv.splits option.splits)
  then show ?thesis using ode_verdict_states [OF assms(1-4)] by auto
qed

text \<open>A plant at 150 degrees that a solver lets rise by two degrees, and a clock with or without time.\<close>

definition ramp :: "rhs \<Rightarrow> flt \<Rightarrow> flt \<Rightarrow> flt \<Rightarrow> flt list \<Rightarrow> flt \<Rightarrow> ivp res" where
  "ramp f duration temperature pressure ts step = Inr
     \<lparr> iv_success = True, iv_message = [], iv_t = [Fin 0, duration],
       iv_temperature = [temperature, fadd temperature (Fin 2)], iv_pressure = [pressure, pressure] \<rparr>"

definition demo_plant :: "int \<Rightarrow> ode_env" where
  "demo_plant elapsed = \<lparr> se_getenv = (\<lambda>n. None), se_root = ''/pcag'', se_resolve = (\<lambda>p. p), se_pow = (\<lambda>b e. Inr b),
     se_latency = NI 0, se_viewer = (\<lambda>vis verdict vs. Inr False), se_solve_ivp = ramp,
     se_linspace = (\<lambda>stop n. [Fin 0, stop]), se_elapsed = (\<lambda>i. NI elapsed) \<rparr>"

definition demo_reactor :: ode where
  "demo_reactor = \<lparr> od_params = default_reactor_params, od_horizon_ms = 5000, od_dt_ms = 125, od_timeout_ms = 200,
     od_visualization = ode_default_visualization \<rparr>"

definition demo_readings :: "pv dict" where
  "demo_readings = [(''temperature'', VInt 150), (''pressure'', VInt 1), (''heater_output'', VInt 0), (''cooling_valve'', VInt 0)]"

definition demo_heating :: "pv dict list" where
  "demo_heating = [[(''action_type'', VStr ''set_heater_output''), (''params'', VDict [(''value'', VInt 50)]), (''duration_ms'', VInt 1000)]]"

definition demo_limit :: "int \<Rightarrow> pv dict" where
  "demo_limit limit = [(''ruleset'', VList [VDict [(''rule_id'', VStr ''max_temp''), (''type'', VStr ''threshold''),
     (''target_field'', VStr ''temperature''), (''operator'', VStr ''lte''), (''value'', VInt limit)]])]"

text \<open>The verdict of a run, and the rule it names as violated.\<close>

definition verdict_and_rule :: "pv dict res \<Rightarrow> (pv \<times> pv) option" where
  "verdict_and_rule m = (case m of Inl e \<Rightarrow> None
     | Inr r \<Rightarrow> Some (vget r ''verdict'', vget (as_dict (vget r ''common'')) ''violated_constraint''))"

lemma verdict_and_rule_Some:
  "verdict_and_rule m = Some (VStr v, w) \<longleftrightarrow>
   (\<exists>r. m = Inr r \<and> dget r ''verdict'' = Some (VStr v) \<and> vget (as_dict (vget r ''common'')) ''violated_constraint'' = w)"
  by (auto simp: verdict_and_rule_def vget_def dget_or_def split: sum.splits option.splits)

theorem ode_safe_iff_witness:
  "\<exists>s0 states. read_state demo_readings = Inr s0 \<and> plant_states (demo_plant 0) demo_reactor demo_heating s0 = Some states \<and>
     (\<forall>s\<in>set states. \<forall>rule\<in>set (case vget (demo_limit 180) ''ruleset'' of VList rules \<Rightarrow> rules | _ \<Rightarrow> []). keeps_limits s rule)"
proof -
  have "verdict_and_rule (ode_validate_trajectory (demo_plant 0) demo_reactor demo_readings demo_heating (demo_limit 180))
      = Some (VStr ''SAFE'', VNone)" by code_simp
  then obtain r where r: "ode_validate_trajectory (demo_plant 0) demo_reactor demo_readings demo_heating (demo_limit 180) = Inr r"
    "dget r ''verdict'' = Some (VStr ''SAFE'')" by (auto simp: verdict_and_rule_Some)
  obtain s0 where s0: "read_state demo_readings = Inr s0"
    using r(1) by (auto simp: ode_validate_trajectory_def)
  obtain rules where rules: "dget_or (demo_limit 180) ''ruleset'' (VList []) = VList rules" "vget (demo_limit 180) ''ruleset'' = VList rules"
    by (auto simp: demo_limit_def vget_def dget_or_def)
  show ?thesis using ode_safe_iff [OF r(1) rules(1) s0] r(2) s0 rules(2) by auto
qed

text \<open>A threshold lt for the temperature: heated from 150 to 152 degrees, the plant does not stay below 152, and the simulation says SAFE.\<close>

definition demo_strict :: "int \<Rightarrow> pv dict" where
  "demo_strict limit = [(''ruleset'', VList [VDict [(''rule_id'', VStr ''temp''), (''type'', VStr ''threshold''),
     (''target_field'', VStr ''temperature''), (''operator'', VStr ''lt''), (''value'', VInt limit)]])]"

theorem ode_strict_limit_reached:
  "verdict_and_rule (ode_validate_trajectory (demo_plant 0) demo_reactor demo_readings demo_heating (demo_strict 152))
     = Some (VStr ''SAFE'', VNone)"
  by code_simp

lemma timeout_gives_up:
  "run_actions env od ruleset n i actions (t0, fracs) run = Inr outcome \<Longrightarrow> j < length actions \<Longrightarrow>
   num_rel RGt (se_elapsed env (i + j)) (NI (od_timeout_ms od)) \<Longrightarrow> \<exists>r. outcome = Inl r"
proof (induction actions arbitrary: i j t0 fracs run)
  case (Cons action actions)
  show ?case
  proof (cases j)
    case 0
    then show ?thesis using Cons.prems(1,3) [unfolded run_actions_Cons] by - (elim exE conjE, auto split: sum.split_asm)
  next
    case (Suc k)
    then show ?thesis using Cons.prems(1) [unfolded run_actions_Cons] Cons.prems(2,3) Cons.IH [of "Suc i" _ _ _ k]
      by - (elim exE conjE, auto split: sum.split_asm if_split_asm)
  qed
qed simp

text \<open>A reactor simulation whose time is over after some action answers INDETERMINATE, also when it has already recorded a violation.\<close>

theorem ode_timeout_indeterminate:
  assumes "ode_validate_trajectory env od current actions cons = Inr r" "i < length actions"
    and "num_rel RGt (se_elapsed env i) (NI (od_timeout_ms od))"
  shows "dget r ''verdict'' = Some (VStr ''INDETERMINATE'')"
proof -
  obtain s0 where s0: "read_state current = Inr s0" using assms(1) by (auto simp: ode_validate_trajectory_def)
  have "actions \<noteq> []" using assms(2) by auto
  with ode_validate_Inr [OF assms(1) s0] obtain outcome where
    out: "run_actions env od (dget_or cons ''ruleset'' (VList [])) (length actions) 0 actions
        (0, fdiv (rs_heater_output s0) (Fin 100), fdiv (rs_cooling_valve s0) (Fin 100)) (start_run s0) = Inr outcome"
    and r: "case outcome of Inl res \<Rightarrow> r = res | Inr run \<Rightarrow> \<exists>rendered extra.
      r = ode_result env od (if or_violations run \<noteq> [] then ''UNSAFE'' else ''SAFE'') run rendered extra" by auto
  obtain res where "outcome = Inl res" using timeout_gives_up [OF out assms(2)] assms(3) by auto
  then show ?thesis using r out by (auto simp: gave_up_def verdict_of_result dest: run_actions_gave_up)
qed

theorem ode_timeout_indeterminate_witness:
  "verdict_and_rule (ode_validate_trajectory (demo_plant 300) demo_reactor demo_readings demo_heating (demo_limit 100))
     = Some (VStr ''INDETERMINATE'', VStr ''max_temp'')"
proof -
  have "map_option snd (verdict_and_rule (ode_validate_trajectory (demo_plant 300) demo_reactor demo_readings demo_heating (demo_limit 100)))
      = Some (VStr ''max_temp'')" by code_simp
  then obtain v where v: "verdict_and_rule (ode_validate_trajectory (demo_plant 300) demo_reactor demo_readings demo_heating (demo_limit 100))
      = Some (v, VStr ''max_temp'')" by auto
  then obtain r where r: "ode_validate_trajectory (demo_plant 300) demo_reactor demo_readings demo_heating (demo_limit 100) = Inr r"
    by (auto simp: verdict_and_rule_def split: sum.splits)
  have "dget r ''verdict'' = Some (VStr ''INDETERMINATE'')"
    by (rule ode_timeout_indeterminate [OF r, of 0]) (simp_all add: demo_heating_def demo_plant_def demo_reactor_def num_rel_def)
  then show ?thesis using v r by (simp add: verdict_and_rule_def vget_def dget_or_def)
qed

end
