(* ===== verification/SimContracts.thy ===== *)
theory SimContracts
  imports SafetyFacts GridFacts OdeFacts
begin

section \<open>The backends behind the safety cluster\<close>

text \<open>
  What the cluster expects of a simulation backend, as an interface: an answer carries one of the three verdicts
  and a dictionary of details, so that the consensus is never refused the simulation's result.
  The grid, the reactor and the disabled simulation provide it.  Then the composition:
  what a SAFE answer of the cluster says of the plan when the grid simulates it.
\<close>

locale trajectory_backend =
  fixes run :: "'c \<Rightarrow> pv dict \<Rightarrow> pv dict list \<Rightarrow> pv dict \<Rightarrow> pv dict res \<Rightarrow> bool"
  assumes verdict_law: "run c s a k (Inr r) \<Longrightarrow> \<exists>v. dget r ''verdict'' = Some (VStr (verdict_text v))"
    and details_law: "run c s a k (Inr r) \<Longrightarrow> \<exists>d. dget r ''details'' = Some (VDict d)"
begin

lemma accepted:
  assumes "run c s a k (Inr r)"
  obtains v d where "dget r ''verdict'' = Some (VStr (verdict_text v))" "dget r ''details'' = Some (VDict d)"
    "parse_verdict (VStr (verdict_text v)) (VDict d) = Inr \<lparr> vv_verdict = v, vv_details = d \<rparr>"
proof -
  obtain v d where "dget r ''verdict'' = Some (VStr (verdict_text v))" "dget r ''details'' = Some (VDict d)"
    using verdict_law [OF assms] details_law [OF assms] by blast
  moreover have "parse_literal ''ValidatorVerdict'' verdicts (VStr (verdict_text v)) = Inr v"
    by (cases v) (simp_all add: parse_literal_def verdicts_def)
  ultimately show ?thesis using that by (simp add: parse_verdict_def)
qed

text \<open>The simulation part of the cluster hands the answer on.\<close>

lemma handed_on:
  assumes "resolve_simulation_backend env config w = (Inr backend, w1)"
    and "build_runtime_sim_config (ce_fs env) sim_config ctx = Inr config"
    and "\<And>k. \<exists>r. run c s a k (Inr r) \<and> backend s a k w1 = (Inr (VDict r), w2)"
  shows "\<exists>verdict details sim. run_simulation_validator env s a ruleset sim_config ctx w = (Inr (verdict, details), w2)
     \<and> parse_verdict verdict details = Inr sim"
proof -
  let ?k = "[(''ruleset'', serialize_ruleset ruleset), (''world_ref'', vget (as_dict config) ''world_ref''),
            (''workspace_limits'', vget (as_dict config) ''workspace_limits''), (''torque_limits'', vget (as_dict config) ''torque_limits''),
            (''joint_limits'', vget (as_dict config) ''joint_limits''), (''collision'', vget (as_dict config) ''collision''),
            (''runtime_context'', case ctx of None \<Rightarrow> VNone | Some c \<Rightarrow> VDict c)]"
  obtain r where r: "run c s a ?k (Inr r)" "backend s a ?k w1 = (Inr (VDict r), w2)" using assms(3) by blast
  obtain v d where a: "dget r ''verdict'' = Some (VStr (verdict_text v))" "dget r ''details'' = Some (VDict d)"
      "parse_verdict (VStr (verdict_text v)) (VDict d) = Inr \<lparr> vv_verdict = v, vv_details = d \<rparr>"
    by (rule accepted [OF r(1)])
  have "run_simulation_validator env s a ruleset sim_config ctx w = (Inr (VStr (verdict_text v), VDict d), w2)"
    using assms(1,2) r(2) a(1,2)
    by (simp add: run_simulation_validator_def bindE_def liftE_def retE_def Let_def py_getitem_def dget_or_def)
  with a(3) show ?thesis by blast
qed

end

definition grid_runs :: "sim_env \<times> des \<Rightarrow> pv dict \<Rightarrow> pv dict list \<Rightarrow> pv dict \<Rightarrow> pv dict res \<Rightarrow> bool" where
  "grid_runs c s a k m \<longleftrightarrow> des_validate_trajectory (fst c) (snd c) s a k = Some m"

definition reactor_runs :: "ode_env \<times> ode \<Rightarrow> pv dict \<Rightarrow> pv dict list \<Rightarrow> pv dict \<Rightarrow> pv dict res \<Rightarrow> bool" where
  "reactor_runs c s a k m \<longleftrightarrow> ode_validate_trajectory (fst c) (snd c) s a k = m"

lemma des_answer:
  assumes "des_validate_trajectory env ds s a k = Some (Inr r)"
  shows "\<exists>n m b vs ps es. r = des_report env ds n m b vs ps es"
  using assms by (simp add: des_validate_trajectory_def Let_def del: upt_Suc) blast

interpretation grid: trajectory_backend grid_runs
proof
  fix c s a k r
  assume "grid_runs c s a k (Inr r)"
  then obtain n m b vs ps es where r: "r = des_report (fst c) (snd c) n m b vs ps es"
    using des_answer unfolding grid_runs_def by blast
  show "\<exists>v. dget r ''verdict'' = Some (VStr (verdict_text v))"
  proof -
    have "dget r ''verdict'' = Some (VStr (verdict_text (if vs = [] then SAFE else UNSAFE)))"
      by (simp add: r des_report_def Let_def)
    then show ?thesis by blast
  qed
  show "\<exists>d. dget r ''details'' = Some (VDict d)" by (simp add: r des_report_def Let_def)
qed

lemma run_actions_verdict:
  assumes "ode_validate_trajectory env od s a k = Inr r"
  shows "\<exists>v run b extra. r = ode_result env od (verdict_text v) run b extra"
proof -
  obtain s0 where s0: "read_state s = Inr s0" using assms by (auto simp: ode_validate_trajectory_def)
  from ode_validate_Inr [OF assms s0] obtain outcome where
    out: "(if a = [] then run_idle env od (dget_or k ''ruleset'' (VList []))
        (fdiv (rs_heater_output s0) (Fin 100), fdiv (rs_cooling_valve s0) (Fin 100)) (start_run s0)
      else run_actions env od (dget_or k ''ruleset'' (VList [])) (length a) 0 a
        (0, fdiv (rs_heater_output s0) (Fin 100), fdiv (rs_cooling_valve s0) (Fin 100)) (start_run s0)) = Inr outcome" and
    r: "case outcome of Inl res \<Rightarrow> r = res | Inr run \<Rightarrow> \<exists>rendered extra.
      r = ode_result env od (if or_violations run \<noteq> [] then ''UNSAFE'' else ''SAFE'') run rendered extra" by blast
  show ?thesis
  proof (cases outcome)
    case (Inl res)
    then have "\<exists>run1 reason. res = gave_up env od run1 reason"
      using out by (auto simp: run_idle_def split: if_splits sum.splits dest: run_actions_gave_up)
    then obtain run1 reason where "r = ode_result env od (verdict_text INDETERMINATE) run1 False [(''reason'', VStr reason)]"
      using r Inl by (auto simp: gave_up_def)
    then show ?thesis by blast
  next
    case (Inr run)
    then obtain b extra where "r = ode_result env od (verdict_text (if or_violations run \<noteq> [] then UNSAFE else SAFE)) run b extra"
      using r by (auto split: if_splits)
    then show ?thesis by blast
  qed
qed

interpretation reactor: trajectory_backend reactor_runs
proof
  fix c s a k r
  assume "reactor_runs c s a k (Inr r)"
  then obtain v run b extra where r: "r = ode_result (fst c) (snd c) (verdict_text v) run b extra"
    using run_actions_verdict unfolding reactor_runs_def by blast
  show "\<exists>v. dget r ''verdict'' = Some (VStr (verdict_text v))" using r by (auto simp: verdict_of_result)
  show "\<exists>d. dget r ''details'' = Some (VDict d)" by (simp add: r ode_result_def Let_def)
qed

interpretation disabled: trajectory_backend "\<lambda>c s a k m. m = Inr (as_dict none_backend)"
  by unfold_locales (auto simp: none_backend_def intro: exI [of _ INDETERMINATE])

text \<open>Whatever the grid, the reactor or the disabled simulation answers, the safety cluster's model of a verdict accepts it.\<close>

theorem backend_answer_accepted:
  assumes "des_validate_trajectory env ds s a k = Some (Inr r) \<or> ode_validate_trajectory oenv od s a k = Inr r
      \<or> VDict r = none_backend"
  shows "\<exists>v d. parse_verdict (vget r ''verdict'') (dget_or r ''details'' common) = Inr \<lparr> vv_verdict = v, vv_details = d \<rparr>"
proof -
  have "grid_runs (env, ds) s a k (Inr r) \<or> reactor_runs (oenv, od) s a k (Inr r) \<or> Inr r = Inr (as_dict none_backend)"
    using assms by (auto simp: grid_runs_def reactor_runs_def none_backend_def)
  then obtain v d where "dget r ''verdict'' = Some (VStr (verdict_text v))" "dget r ''details'' = Some (VDict d)"
      "parse_verdict (VStr (verdict_text v)) (VDict d) = Inr \<lparr> vv_verdict = v, vv_details = d \<rparr>"
    using grid.accepted reactor.accepted disabled.accepted [of r] by metis
  then show ?thesis by (simp add: vget_def dget_or_def)
qed

theorem backend_answer_accepted_witness:
  "\<exists>r v d. des_validate_trajectory demo_sim demo_grid [] demo_moves [] = Some (Inr r) \<and>
     parse_verdict (vget r ''verdict'') (dget_or r ''details'' VNone) = Inr \<lparr> vv_verdict = v, vv_details = d \<rparr>"
proof -
  have "(case des_validate_trajectory demo_sim demo_grid [] demo_moves [] of Some (Inr r) \<Rightarrow> True | _ \<Rightarrow> False)" by code_simp
  then obtain r where r: "des_validate_trajectory demo_sim demo_grid [] demo_moves [] = Some (Inr r)"
    by (auto split: option.splits sum.splits)
  show ?thesis using backend_answer_accepted [OF disjI1 [OF r]] r by blast
qed

subsection \<open>A SAFE answer of the cluster and the grid\<close>

text \<open>The cluster's grid backend: a new instance, initialised with the configuration and run, where the run returns.\<close>

definition grid_answer :: "sim_env \<Rightarrow> pv \<Rightarrow> pv dict \<Rightarrow> pv dict list \<Rightarrow> pv dict \<Rightarrow> pv res option" where
  "grid_answer senv config s a k = bindO (bindO (Some (des_initialize senv config))
     (\<lambda>ds. des_validate_trajectory senv ds s a k)) (\<lambda>r. Some (Inr (VDict r)))"

definition serves_grid :: "sim_env \<Rightarrow> 'w cluster_env \<Rightarrow> bool" where
  "serves_grid senv env \<longleftrightarrow> (\<forall>config s a k m w. grid_answer senv config s a k = Some m \<longrightarrow>
     ce_discrete_event env config s a k w = (m, w))"

lemma grid_returns:
  assumes "extract_agv_positions ds s = Inr start" "extract_agv_paths ds a start = Some (Inr paths)"
  shows "\<exists>m. des_validate_trajectory env ds s a k = Some m"
  using assms by (auto simp: des_validate_trajectory_def bindO_def Let_def simp del: upt_Suc split: option.splits sum.splits)

text \<open>C7: At SIL 3 or 4 with the mode left to AUTO and the grid as the policy's simulation, a SAFE answer of the safety cluster means that the plan is free of collisions: at every step of the simulated plan the vehicles keep their distance, do not swap cells, do not block each other in a cycle, stay inside the grid, off the obstacles and within the position ranges of the policy.\<close>

theorem safe_plan_is_clear:
  assumes "run_safety_validation http env tx asset v actions snapshot ctx w = (Inr r, w')"
    and "fetch_asset_profile http (ce_urls env) v asset w = (Inr (VDict profile), w1)"
    and "demands_all profile" "vget profile ''ruleset'' = VList items" "sr_final_verdict r = SAFE"
    and "build_runtime_sim_config (ce_fs env) (dget_or profile ''simulation'' (VDict [])) ctx = Inr (VDict config)"
    and "dget config ''engine'' = Some (VStr ''discrete_event'')" "serves_grid senv env"
    and "des_initialize senv (VDict config) = Inr ds"
    and "extract_agv_positions ds snapshot = Inr start" "extract_agv_paths ds actions start = Some (Inr paths)"
  shows "\<exists>ruleset rules. build_ruleset (ce_as_float env) (VList items) = Inr ruleset \<and> serialize_ruleset ruleset = VList rules \<and>
    (\<forall>step\<le>horizon paths. step_clear senv ds rules (positions_for_step step start paths)
       (positions_for_step (min (step + 1) (horizon paths)) start paths))"
proof -
  obtain ruleset simulation where rs: "build_ruleset (ce_as_float env) (VList items) = Inr ruleset"
    and sim: "run_simulation_validator env snapshot actions ruleset (dget_or profile ''simulation'' (VDict [])) ctx w1
        = (Inr simulation, w')" and safe: "fst simulation = VStr ''SAFE''"
    using sil3_sound [OF assms(1-5)] by blast
  obtain rules where rules: "serialize_ruleset ruleset = VList rules" by (simp add: serialize_ruleset_def)
  let ?k = "[(''ruleset'', serialize_ruleset ruleset), (''world_ref'', vget config ''world_ref''),
      (''workspace_limits'', vget config ''workspace_limits''), (''torque_limits'', vget config ''torque_limits''),
      (''joint_limits'', vget config ''joint_limits''), (''collision'', vget config ''collision''),
      (''runtime_context'', case ctx of None \<Rightarrow> VNone | Some c \<Rightarrow> VDict c)]"
  obtain m where m: "des_validate_trajectory senv ds snapshot actions ?k = Some m"
    using grid_returns [OF assms(10,11)] by blast
  then have "ce_discrete_event env (VDict config) snapshot actions ?k w1 = (bindR m (\<lambda>r. Inr (VDict r)), w1)"
    using assms(8,9) by (cases m) (simp_all add: serves_grid_def grid_answer_def)
  then obtain res where res: "m = Inr res" "dget res ''verdict'' = Some (VStr ''SAFE'')"
    using sim safe assms(6,7)
    by (cases m) (auto simp: run_simulation_validator_def resolve_simulation_backend_def bindE_def liftE_def retE_def Let_def
        dget_or_def py_getitem_def split: option.splits)
  have "dget_or ?k ''ruleset'' (VList []) = VList rules" by (simp add: dget_or_def rules)
  from des_verdict [OF assms(10,11) this] m res rs rules show ?thesis by metis
qed

text \<open>A policy of SIL 3 for the default grid.\<close>

definition grid_profile :: "pv dict" where
  "grid_profile = [(''sil_level'', VInt 3), (''ruleset'', VList [temperature_rule ''lte'']),
     (''simulation'', VDict [(''engine'', VStr ''discrete_event'')])]"

definition grid_cluster :: "unit cluster_env" where
  "grid_cluster = demo_env\<lparr> ce_discrete_event := (\<lambda>config s a k w. (case grid_answer demo_sim config s a k of
     Some m \<Rightarrow> m | None \<Rightarrow> raise RuntimeError [], w)) \<rparr>"

theorem safe_plan_is_clear_witness:
  "\<exists>ds start paths rules. des_initialize demo_sim (VDict [(''engine'', VStr ''discrete_event'')]) = Inr ds \<and>
     extract_agv_positions ds [(''temperature'', VInt 150)] = Inr start \<and> extract_agv_paths ds demo_moves start = Some (Inr paths) \<and>
     (\<forall>step\<le>horizon paths. step_clear demo_sim ds rules (positions_for_step step start paths)
       (positions_for_step (min (step + 1) (horizon paths)) start paths))"
proof -
  let ?snap = "[(''temperature'', VInt 150)]"
  let ?config = "[(''engine'', VStr ''discrete_event'')]"
  let ?run = "run_safety_validation (serving grid_profile) grid_cluster ''tx'' ''agv'' ''v1'' demo_moves ?snap None ()"
  have run: "\<not> isl (fst ?run) \<and> sr_final_verdict (projr (fst ?run)) = SAFE" by code_simp
  then obtain r where r: "?run = (Inr r, ())" "sr_final_verdict r = SAFE"
    by (cases "fst ?run"; cases ?run) auto
  have fetch: "fetch_asset_profile (serving grid_profile) (ce_urls grid_cluster) ''v1'' ''agv'' () = (Inr (VDict grid_profile), ())"
    by code_simp
  have all: "demands_all grid_profile" "vget grid_profile ''ruleset'' = VList [temperature_rule ''lte'']" by code_simp+
  have config: "build_runtime_sim_config (ce_fs grid_cluster) (dget_or grid_profile ''simulation'' (VDict [])) None = Inr (VDict ?config)"
    "dget ?config ''engine'' = Some (VStr ''discrete_event'')" by code_simp+
  have serves: "serves_grid demo_sim grid_cluster" by (simp add: serves_grid_def grid_cluster_def)
  have "\<not> isl (des_initialize demo_sim (VDict ?config))" by code_simp
  then obtain ds where ds: "des_initialize demo_sim (VDict ?config) = Inr ds"
    by (cases "des_initialize demo_sim (VDict ?config)") auto
  have dsv: "ds = projr (des_initialize demo_sim (VDict ?config))" using ds by simp
  have start: "extract_agv_positions ds ?snap = Inr [(''agv_01'', [VInt 0, VInt 0]), (''agv_02'', [VInt 9, VInt 9])]"
    unfolding dsv by code_simp
  have paths: "extract_agv_paths ds demo_moves [(''agv_01'', [VInt 0, VInt 0]), (''agv_02'', [VInt 9, VInt 9])]
      = Some (Inr [(VStr ''agv_01'', [[VInt 1, VInt 0]])])" unfolding dsv by code_simp
  show ?thesis using safe_plan_is_clear [OF r(1) fetch all r(2) config serves ds start paths] ds start paths by blast
qed

end
