(* ===== verification/IsaacWorker.thy ===== *)
theory IsaacWorker
  imports Effects SimBackend Cbf Http
begin

section \<open>The Isaac worker (apps/safety_cluster/isaac_worker.py, plugins/simulation/isaac_collision.py)\<close>

text \<open>
  The trajectory check inside the Isaac process.  The simulator and numpy are parameters: what the calls on
  \<open>world\<close> and \<open>robot\<close> do to the scene, \<open>'w\<close>, and what they return; numpy's conversions and its norm.
  The loop over the jobs keeps the scene loaded, the runtime's identity and the number of joints.
\<close>

record 'w isaac_api =
  ia_reset :: "('w, unit) eff"
  ia_step :: "('w, unit) eff"
  ia_set_positions :: "flt list \<Rightarrow> ('w, unit) eff"
  ia_takes_velocities :: "'w \<Rightarrow> bool"
  ia_set_velocities :: "flt list \<Rightarrow> ('w, unit) eff"
  ia_positions :: "('w, flt list) eff"
  ia_velocities :: "('w, flt list) eff"
  ia_efforts :: "('w, flt list) eff"
  ia_has_end_effector :: "('w, bool) eff"
  ia_world_pose :: "('w, flt list) eff"
  ia_time :: "'w \<Rightarrow> pnum"
  ia_reload_scene :: "pv \<Rightarrow> ('w, unit) eff"
  ia_preload :: "pv \<Rightarrow> pv \<Rightarrow> ('w, pv dict) eff"
  np_float32 :: "pv \<Rightarrow> flt res"
  np_floats :: "pv \<Rightarrow> flt list res"
  np_norm :: "flt list \<Rightarrow> flt"
  np_exceeds :: "flt \<Rightarrow> pv \<Rightarrow> bool res"
  np_divergence :: "flt list \<Rightarrow> flt list \<Rightarrow> flt res"

subsection \<open>The collision probe\<close>

definition get_end_effector_position :: "'w isaac_api \<Rightarrow> ('w, flt list option) eff" where
  "get_end_effector_position api = tryE
     (bindE (ia_has_end_effector api) (\<lambda>present. if present then bindE (ia_world_pose api) (\<lambda>p. retE (Some p)) else retE None))
     (\<lambda>e. retE None)"

text \<open>\<open>np.minimum\<close> and \<open>np.maximum\<close> hand a nan on.\<close>

definition np_min :: "flt \<Rightarrow> flt \<Rightarrow> flt" where
  "np_min a b = (if a = NaN \<or> b = NaN then NaN else if num_rel RLe (NF a) (NF b) then a else b)"

definition np_max :: "flt \<Rightarrow> flt \<Rightarrow> flt" where
  "np_max a b = (if a = NaN \<or> b = NaN then NaN else if num_rel RGe (NF a) (NF b) then a else b)"

definition closest_on_axis :: "flt \<Rightarrow> flt \<Rightarrow> flt \<Rightarrow> flt" where
  "closest_on_axis c m s = (let half = fdiv s (Fin 2) in np_min (np_max c (fsub m half)) (fadd m half))"

definition sphere_intersects_aabb :: "'w isaac_api \<Rightarrow> flt list \<Rightarrow> flt \<Rightarrow> flt list \<Rightarrow> flt list \<Rightarrow> bool" where
  "sphere_intersects_aabb api center radius box_center box_scale =
     (let closest = map (\<lambda>(c, m, s). closest_on_axis c m s) (zip center (zip box_center box_scale));
          distance = np_norm api (map (\<lambda>(c, d). fsub c d) (zip center closest)) in
      num_rel RLe (NF distance) (NF radius))"

text \<open>\<open>sorted(set(ids))\<close>: hashing and comparing may raise.\<close>

definition add_id :: "pv \<Rightarrow> pv list \<Rightarrow> pv list res" where
  "add_id x ids = (if unhashable x then unhashable_error x else Inr (if py_in x ids then ids else ids @ [x]))"

fun insert_sorted :: "pv \<Rightarrow> pv list \<Rightarrow> pv list res" where
  "insert_sorted x [] = Inr [x]"
| "insert_sorted x (y # ys) = bindR (py_rel RLt x y) (\<lambda>less.
     if less then Inr (x # y # ys) else bindR (insert_sorted x ys) (\<lambda>zs. Inr (y # zs)))"

definition insert_all :: "pv list \<Rightarrow> pv list res" where
  "insert_all ids = foldR insert_sorted ids []"

definition sorted_set :: "pv list \<Rightarrow> pv list res" where
  "sorted_set xs = bindR (foldR add_id xs []) insert_all"

text \<open>The fixture's id when the probe at \<open>ee\<close> touches it.\<close>

definition touched :: "'w isaac_api \<Rightarrow> flt list \<Rightarrow> flt \<Rightarrow> pv \<Rightarrow> pv option res" where
  "touched api ee radius obj =
     bindR (py_get obj ''object_id'' VNone) (\<lambda>oid. let d = as_dict obj; object_id = or_else oid (vget d ''id'');
         center = vget d ''center''; scale = vget d ''scale'' in
       if \<not> truthy object_id \<or> center = VNone \<or> scale = VNone then Inr None
       else bindR (py_len center) (\<lambda>n. bindR (if n \<noteq> 3 then Inr n else py_len scale) (\<lambda>m.
         if n \<noteq> 3 \<or> m \<noteq> 3 then Inr None
         else bindR (np_floats api center) (\<lambda>c. bindR (np_floats api scale) (\<lambda>s.
           Inr (if sphere_intersects_aabb api ee radius c s then Some object_id else None))))))"

record probe_result =
  pr_enabled :: bool
  pr_radius :: "flt option"
  pr_objects :: int
  pr_collided :: "pv list"
  pr_unavailable :: bool

definition pr_detected :: "probe_result \<Rightarrow> bool" where
  "pr_detected p \<longleftrightarrow> pr_collided p \<noteq> []"

definition evaluate_collision_probe :: "'w isaac_api \<Rightarrow> flt list option \<Rightarrow> pv \<Rightarrow> probe_result res" where
  "evaluate_collision_probe api ee_position collision_config = (let config = or_else collision_config (VDict []) in
     bindR (py_get config ''enabled'' (VBool False)) (\<lambda>e. let enabled = truthy e; d = as_dict config;
         forbidden = or_else (vget d ''forbidden_objects'') (VList []) in
     bindR (py_float (dget_or d ''probe_radius_m'' (VFloat (Fin (rnd64 (45 / 1000)))))) (\<lambda>radius.
     bindR (py_len forbidden) (\<lambda>count.
     (let result = \<lparr> pr_enabled = enabled, pr_radius = (if enabled then Some radius else None), pr_objects = count,
                     pr_collided = [], pr_unavailable = False \<rparr> in
      if \<not> enabled then Inr result
      else case ee_position of
        None \<Rightarrow> Inr (result\<lparr> pr_unavailable := True \<rparr>)
      | Some ee \<Rightarrow> bindR (py_iter forbidden) (\<lambda>objs. bindR (mapR (touched api ee radius) objs) (\<lambda>hits.
          bindR (sorted_set (concat (map (\<lambda>h. case h of None \<Rightarrow> [] | Some x \<Rightarrow> [x]) hits))) (\<lambda>ids.
            Inr (result\<lparr> pr_collided := ids \<rparr>)))))))))"

subsection \<open>Joint vectors\<close>

text \<open>\<open>np.array(v[:n], dtype=np.float32)\<close>, filled up with zeros.\<close>

definition joint_array :: "'w isaac_api \<Rightarrow> nat \<Rightarrow> pv \<Rightarrow> flt list res" where
  "joint_array api n v = (case v of
     VList xs \<Rightarrow> bindR (mapR (np_float32 api) (take n xs)) (\<lambda>fs. Inr (fs @ replicate (n - length fs) (Fin 0)))
   | VStr s \<Rightarrow> raise TypeError ''len() of unsized object''
   | VDict d \<Rightarrow> raise TypeError (''unhashable type: '' @ quoted ''slice'')
   | _ \<Rightarrow> raise TypeError (quoted (type_name v) @ '' object is not subscriptable''))"

definition joint_key :: "nat \<Rightarrow> string" where
  "joint_key i = ''joint_'' @ str_int (int i)"

definition joint_positions_of :: "pv dict \<Rightarrow> nat \<Rightarrow> pv" where
  "joint_positions_of state n = (case vget state ''joint_positions'' of
     VNone \<Rightarrow> VList (map (\<lambda>i. dget_or state (joint_key i) (VFloat (Fin 0))) [0..<n]) | v \<Rightarrow> v)"

definition extract_joint_positions :: "'w isaac_api \<Rightarrow> pv dict \<Rightarrow> nat \<Rightarrow> flt list res" where
  "extract_joint_positions api state n = joint_array api n (joint_positions_of state n)"

text \<open>Single velocities are read for seven joints at most: with more there are none.\<close>

definition extract_joint_velocities :: "'w isaac_api \<Rightarrow> pv dict \<Rightarrow> nat \<Rightarrow> flt list option res" where
  "extract_joint_velocities api state n = (case vget state ''joint_velocities'' of
     VNone \<Rightarrow> (let key = (\<lambda>i. joint_key i @ ''_velocity'') in
       if list_all (\<lambda>i. i < 7 \<and> dhas state (key i)) [0..<n]
       then bindR (joint_array api n (VList (map (\<lambda>i. vget state (key i)) [0..<n]))) (\<lambda>v. Inr (Some v)) else Inr None)
   | v \<Rightarrow> bindR (joint_array api n v) (\<lambda>v. Inr (Some v)))"

definition apply_velocities :: "'w isaac_api \<Rightarrow> flt list option \<Rightarrow> ('w, unit) eff" where
  "apply_velocities api velocities = (case velocities of None \<Rightarrow> retE ()
   | Some v \<Rightarrow> bindE (getE (ia_takes_velocities api)) (\<lambda>ok.
       if ok then tryE (ia_set_velocities api v) (\<lambda>e. retE ()) else retE ()))"

definition restore_robot_state :: "'w isaac_api \<Rightarrow> pv dict \<Rightarrow> nat \<Rightarrow> ('w, unit) eff" where
  "restore_robot_state api state n =
     bindE (liftE (extract_joint_positions api state n)) (\<lambda>p. bindE (ia_set_positions api p) (\<lambda>_.
     bindE (liftE (extract_joint_velocities api state n)) (apply_velocities api)))"

subsection \<open>Joint limits and rules\<close>

text \<open>\<open>xs[i]\<close> with Python's negative indices\<close>

definition index_list :: "'a list \<Rightarrow> int \<Rightarrow> 'a res" where
  "index_list xs i = (let j = (if i < 0 then i + int (length xs) else i) in
     if 0 \<le> j \<and> j < int (length xs) then Inr (xs ! nat j) else raise IndexError ''index is out of bounds'')"

definition py_index :: "pv \<Rightarrow> int \<Rightarrow> pv res" where
  "py_index v i = (case v of
     VList xs \<Rightarrow> index_list xs i
   | VStr s \<Rightarrow> bindR (index_list s i) (\<lambda>c. Inr (VStr [c]))
   | VDict d \<Rightarrow> raise KeyError (str_int i)
   | _ \<Rightarrow> raise TypeError (quoted (type_name v) @ '' object is not subscriptable''))"

text \<open>\<open>value < lo or value > hi\<close>\<close>

definition out_of :: "pv \<Rightarrow> pv res \<Rightarrow> pv res \<Rightarrow> bool res" where
  "out_of value lo hi = bindR lo (\<lambda>l. bindR (py_rel RLt value l) (\<lambda>below.
     if below then Inr True else bindR hi (\<lambda>h. py_rel RGt value h)))"

definition joint_violation :: "pv \<Rightarrow> flt \<Rightarrow> pv \<Rightarrow> pv dict" where
  "joint_violation constraint value limits =
     [(''constraint'', constraint), (''value'', VFloat (fround 4 value)), (''limits'', limits)]"

text \<open>A loop that returns the first result its body gives.\<close>

fun first_found :: "('a \<Rightarrow> 'b option res) \<Rightarrow> 'a list \<Rightarrow> 'b option res" where
  "first_found f [] = Inr None"
| "first_found f (x # xs) = bindR (f x) (\<lambda>v. case v of Some y \<Rightarrow> Inr (Some y) | None \<Rightarrow> first_found f xs)"

definition check_limit :: "flt list \<Rightarrow> string \<times> pv \<Rightarrow> pv dict option res" where
  "check_limit joints entry = (case entry of (key, limits) \<Rightarrow>
     bindR (py_int (VStr key)) (\<lambda>idx.
       if int (length joints) \<le> idx then Inr None
       else bindR (index_list joints idx) (\<lambda>value. bindR (out_of (VFloat value) (py_index limits 0) (py_index limits 1)) (\<lambda>bad.
         Inr (if bad then Some (joint_violation (VStr (''joint_'' @ str_int idx @ ''_limit'')) value limits) else None)))))"

text \<open>The joint a rule is about: the number between the first two underscores of its field.\<close>

definition joint_of_field :: "string \<Rightarrow> int option" where
  "joint_of_field target = (case py_int (VStr (takeWhile (\<lambda>c. c \<noteq> CHR ''_'') (drop 6 target))) of
     Inr i \<Rightarrow> Some i | Inl e \<Rightarrow> None)"

definition check_joint_rule :: "flt list \<Rightarrow> pv \<Rightarrow> pv dict option res" where
  "check_joint_rule joints rule = (case rule of
     VDict d \<Rightarrow> (case dget_or d ''target_field'' (VStr []) of
       VStr target \<Rightarrow>
         if \<not> starts_with ''joint_'' target then Inr None
         else (case joint_of_field target of
           None \<Rightarrow> Inr None
         | Some idx \<Rightarrow>
             if int (length joints) \<le> idx then Inr None
             else bindR (index_list joints idx) (\<lambda>value. let lo = vget d ''min''; hi = vget d ''max'' in
               if \<not> py_eq (dget_or d ''type'' (VStr [])) (VStr ''range'') then Inr None
               else bindR (if lo = VNone then Inr False else py_rel RLt (VFloat value) lo) (\<lambda>below.
                 bindR (if below then Inr True else if hi = VNone then Inr False else py_rel RGt (VFloat value) hi) (\<lambda>bad.
                   Inr (if bad then Some (joint_violation (dget_or d ''rule_id'' (VStr [])) value (VList [lo, hi])) else None)))))
     | target \<Rightarrow> PyObj.no_attr target ''startswith'')
   | _ \<Rightarrow> Inr None)"

definition check_joints :: "flt list \<Rightarrow> pv \<Rightarrow> pv \<Rightarrow> pv dict option res" where
  "check_joints joints joint_limits ruleset =
     bindR (py_items (or_else joint_limits (VDict []))) (\<lambda>limits.
     bindR (first_found (check_limit joints) limits) (\<lambda>v. case v of
       Some violation \<Rightarrow> Inr (Some violation)
     | None \<Rightarrow> bindR (py_iter ruleset) (first_found (check_joint_rule joints))))"

subsection \<open>The trajectory\<close>

record isaac_run =
  ir_trajectory :: "pv list"
  ir_violations :: "pv dict list"
  ir_first :: "nat option"
  ir_collided :: "pv list"
  ir_detected :: bool
  ir_unavailable :: bool

definition round4 :: "flt list \<Rightarrow> pv" where
  "round4 fs = VList (map (\<lambda>f. VFloat (fround 4 f)) fs)"

definition stamped :: "nat \<Rightarrow> string \<Rightarrow> pv dict \<Rightarrow> pv dict" where
  "stamped i check v = dset ''check_type'' (VStr check) (dset ''step'' (VInt (int i)) v)"

text \<open>The first violation is recorded; later ones only when the check says so.\<close>

definition note_step :: "nat \<Rightarrow> isaac_run \<Rightarrow> isaac_run" where
  "note_step i run = run\<lparr> ir_first := (case ir_first run of None \<Rightarrow> Some i | Some j \<Rightarrow> Some j) \<rparr>"

definition record_first :: "nat \<Rightarrow> pv dict option \<Rightarrow> isaac_run \<Rightarrow> isaac_run" where
  "record_first i v run = (case v of
     Some violation \<Rightarrow> (if ir_first run = None then (note_step i run)\<lparr> ir_violations := ir_violations run @ [violation] \<rparr> else run)
   | None \<Rightarrow> run)"

definition add_violation :: "pv dict \<Rightarrow> isaac_run \<Rightarrow> isaac_run" where
  "add_violation v run = run\<lparr> ir_violations := ir_violations run @ [v] \<rparr>"

text \<open>The probe's finding after one simulated step: the two flags are set once and a violation is recorded with each.\<close>

definition note_probe :: "nat \<Rightarrow> probe_result \<Rightarrow> isaac_run \<Rightarrow> isaac_run res" where
  "note_probe i p run =
     (let run1 = (if pr_unavailable p \<and> \<not> ir_unavailable run
        then add_violation [(''constraint'', VStr ''collision_probe_unavailable''), (''step'', VInt (int i)),
            (''check_type'', VStr ''sim_collision''),
            (''detail'', VStr ''Collision policy is enabled but end-effector pose is unavailable.'')]
          (note_step i (run\<lparr> ir_unavailable := True \<rparr>)) else run) in
      if pr_detected p
      then bindR (foldR add_id (pr_collided p) (ir_collided run1)) (\<lambda>ids.
        let run2 = note_step i (run1\<lparr> ir_detected := True, ir_collided := ids \<rparr>) in
        Inr (if ir_detected run1 then run2 else add_violation
          [(''constraint'', VStr ''fixture_collision''), (''step'', VInt (int i)), (''check_type'', VStr ''sim_collision''),
           (''objects'', VList (pr_collided p)), (''probe_radius_m'', opt_flt (pr_radius p))] run2))
      else Inr run1)"

definition probe_step :: "'w isaac_api \<Rightarrow> pv \<Rightarrow> nat \<Rightarrow> isaac_run \<Rightarrow> ('w, isaac_run) eff" where
  "probe_step api collision i run = bindE (ia_step api) (\<lambda>_.
     bindE (liftE (py_get collision ''enabled'' VNone)) (\<lambda>enabled.
       if truthy enabled then
         bindE (get_end_effector_position api) (\<lambda>ee.
         bindE (liftE (evaluate_collision_probe api ee collision)) (\<lambda>p. liftE (note_probe i p run)))
       else retE run))"

text \<open>The torque check: whatever raises in it is swallowed, and nothing is recorded then.\<close>

fun torque_excess :: "'w isaac_api \<Rightarrow> pv \<Rightarrow> nat \<Rightarrow> flt list \<Rightarrow> (nat \<times> flt \<times> pv) option res" where
  "torque_excess api limits idx [] = Inr None"
| "torque_excess api limits idx (effort # efforts) =
     bindR (py_len limits) (\<lambda>n.
     bindR (if int idx < n then py_index limits (int idx) else Inr VNone) (\<lambda>limit.
     bindR (if truthy limit then np_exceeds api (fabs effort) limit else Inr False) (\<lambda>over.
       if over then Inr (Some (idx, effort, limit)) else torque_excess api limits (Suc idx) efforts)))"

definition check_torque :: "'w isaac_api \<Rightarrow> pv \<Rightarrow> nat \<Rightarrow> isaac_run \<Rightarrow> ('w, isaac_run) eff" where
  "check_torque api limits i run = (if \<not> truthy limits then retE run
     else tryE (bindE (ia_efforts api) (\<lambda>efforts. bindE (liftE (torque_excess api limits 0 efforts)) (\<lambda>excess.
        retE (record_first i (map_option (\<lambda>(idx, effort, limit).
          [(''constraint'', VStr (joint_key idx @ ''_torque'')), (''value'', VFloat (fround 4 effort)), (''limit'', limit),
           (''step'', VInt (int i)), (''check_type'', VStr ''sim_torque'')]) excess) run)))) (\<lambda>e. retE run))"

definition axis_limits :: "pv \<Rightarrow> (pv \<times> pv) res" where
  "axis_limits v = bindR (py_iter v) (\<lambda>xs. case xs of [lo, hi] \<Rightarrow> Inr (lo, hi)
     | _ \<Rightarrow> raise ValueError ''wrong number of values to unpack (expected 2)'')"

fun outside_workspace :: "flt list \<Rightarrow> nat \<Rightarrow> pv list \<Rightarrow> bool res" where
  "outside_workspace ee axis [] = Inr False"
| "outside_workspace ee axis (v # vs) = bindR (axis_limits v) (\<lambda>(lo, hi).
     bindR (index_list ee (int axis)) (\<lambda>value. bindR (out_of (VFloat value) (Inr lo) (Inr hi)) (\<lambda>bad.
       if bad then Inr True else outside_workspace ee (Suc axis) vs)))"

definition check_workspace :: "'w isaac_api \<Rightarrow> pv \<Rightarrow> nat \<Rightarrow> isaac_run \<Rightarrow> ('w, isaac_run) eff" where
  "check_workspace api limits i run = (if \<not> truthy limits then retE run
     else bindE (get_end_effector_position api) (\<lambda>ee. case ee of
         None \<Rightarrow> retE run
       | Some p \<Rightarrow> bindE (liftE (bindR (py_iter limits) (outside_workspace p 0))) (\<lambda>bad.
           retE (record_first i (if bad then Some [(''constraint'', VStr ''workspace_limit''), (''value'', round4 p),
               (''limit'', limits), (''step'', VInt (int i)), (''check_type'', VStr ''sim_workspace'')] else None) run))))"

record job_limits =
  jl_ruleset :: pv
  jl_joint_limits :: pv
  jl_workspace_limits :: pv
  jl_torque_limits :: pv
  jl_collision :: pv

fun times :: "nat \<Rightarrow> ('a \<Rightarrow> ('w, 'a) eff) \<Rightarrow> 'a \<Rightarrow> ('w, 'a) eff" where
  "times 0 f x = retE x"
| "times (Suc n) f x = bindE (f x) (times n f)"

definition move_target :: "'w isaac_api \<Rightarrow> nat \<Rightarrow> pv dict \<Rightarrow> flt list option res" where
  "move_target api joint_count action =
     (if \<not> py_eq (dget_or action ''action_type'' (VStr [])) (VStr ''move_joint'') then Inr None
      else bindR (py_get (or_else (vget action ''params'') (VDict [])) ''target_positions'' VNone) (\<lambda>target.
        if target = VNone then Inr None else bindR (joint_array api joint_count target) (\<lambda>t. Inr (Some t))))"

definition simulate_action ::
  "'w isaac_api \<Rightarrow> nat \<Rightarrow> nat \<Rightarrow> job_limits \<Rightarrow> nat \<times> pv dict \<Rightarrow> isaac_run \<Rightarrow> ('w, isaac_run) eff" where
  "simulate_action api joint_count steps_per_action limits = (\<lambda>(i, action) run.
     bindE (liftE (move_target api joint_count action)) (\<lambda>t. case t of None \<Rightarrow> retE run | Some target \<Rightarrow>
     bindE (liftE (check_joints target (jl_joint_limits limits) (jl_ruleset limits))) (\<lambda>pre.
     bindE (ia_set_positions api target) (\<lambda>_.
     bindE (times steps_per_action (probe_step api (jl_collision limits) i)
              (record_first i (map_option (stamped i ''pre_check'') pre) run)) (\<lambda>run1.
     bindE (ia_positions api) (\<lambda>result.
     bindE (check_torque api (jl_torque_limits limits) i run1) (\<lambda>run2.
     bindE (check_workspace api (jl_workspace_limits limits) i run2) (\<lambda>run3.
     (let run4 = run3\<lparr> ir_trajectory := ir_trajectory run3 @ [VDict [(''step'', VInt (int i)), (''action'', VStr ''move_joint''),
           (''target'', round4 target), (''actual'', round4 result)]] \<rparr> in
     bindE (liftE (check_joints result (jl_joint_limits limits) (jl_ruleset limits))) (\<lambda>post.
     bindE (liftE (np_divergence api (take 7 target) (take 7 result))) (\<lambda>divergence.
       retE (record_first i (if num_rel RGt (NF divergence) (NF (Fin (rnd64 (1 / 10))))
           then Some [(''step'', VInt (int i)), (''constraint'', VStr ''command_divergence''),
             (''divergence_rad'', VFloat (fround 4 divergence)), (''check_type'', VStr ''divergence_check'')] else None)
         (record_first i (map_option (stamped i ''post_check'') post) run4)))))))))))))"

text \<open>\<open>try: ... finally: ...\<close>: an exception of the last part replaces the one before.\<close>

definition finallyE :: "('s, 'a) eff \<Rightarrow> ('s, unit) eff \<Rightarrow> ('s, 'a) eff" where
  "finallyE m after = bindE (caught m) (\<lambda>r. bindE after (\<lambda>_. liftE r))"

definition text_test :: "string \<Rightarrow> (string \<Rightarrow> bool) \<Rightarrow> pv dict \<Rightarrow> bool res" where
  "text_test meth f v = (case dget_or v ''constraint'' (VStr []) of
     VStr s \<Rightarrow> Inr (f s) | c \<Rightarrow> PyObj.no_attr c meth)"

definition constraint_contains :: "string \<Rightarrow> pv dict \<Rightarrow> bool res" where
  "constraint_contains s v = str_in s (dget_or v ''constraint'' (VStr []))"

text \<open>\<open>any(...)\<close> stops at the first that holds.\<close>

fun anyR :: "('a \<Rightarrow> bool res) \<Rightarrow> 'a list \<Rightarrow> bool res" where
  "anyR f [] = Inr False"
| "anyR f (x # xs) = bindR (f x) (\<lambda>b. if b then Inr True else anyR f xs)"

definition isaac_verdict :: "pnum \<Rightarrow> isaac_run \<Rightarrow> pv dict res" where
  "isaac_verdict latency_ms run =
     (let vs = ir_violations run; first = (case vs of [] \<Rightarrow> [] | v # rest \<Rightarrow> v) in
      bindR (insert_all (ir_collided run)) (\<lambda>objects.
      bindR (anyR (text_test ''endswith'' (\<lambda>s. starts_with (rev ''_limit'') (rev s))) vs) (\<lambda>joint_limit.
      bindR (anyR (constraint_contains ''torque'') vs) (\<lambda>torque.
      bindR (anyR (constraint_contains ''workspace'') vs) (\<lambda>workspace. Inr
      [(''verdict'', VStr (if vs \<noteq> [] then ''UNSAFE'' else ''SAFE'')), (''engine'', VStr ''isaac_sim''),
       (''common'', VDict [(''first_violation_step'', opt_int (map_option int (ir_first run))),
          (''violated_constraint'', vget first ''constraint''), (''latency_ms'', of_num (nround 3 latency_ms)),
          (''steps_completed'', VInt (int (length (ir_trajectory run)) - 1))]),
       (''details'', VDict [(''collision_detected'', VBool (ir_detected run)),
          (''collision_probe_unavailable'', VBool (ir_unavailable run)), (''collision_objects'', VList objects),
          (''joint_limit_exceeded'', VBool joint_limit), (''torque_violation'', VBool torque),
          (''workspace_violation'', VBool workspace), (''trajectory'', VList (take 10 (ir_trajectory run))),
          (''violations'', VList (map VDict (take 5 vs)))])])))))"

definition no_joints :: "pv dict" where
  "no_joints = [(''verdict'', VStr ''INDETERMINATE''), (''engine'', VStr ''isaac_sim''),
     (''common'', VDict [(''first_violation_step'', VNone), (''violated_constraint'', VNone), (''latency_ms'', VInt 0),
        (''steps_completed'', VInt 0)]),
     (''details'', VDict [(''reason'', VStr ''No joint positions in current_state'')])]"

definition job_limits_of :: "pv dict \<Rightarrow> job_limits" where
  "job_limits_of c = \<lparr> jl_ruleset = or_else (vget c ''ruleset'') (VList []), jl_joint_limits = or_else (vget c ''joint_limits'') (VDict []),
     jl_workspace_limits = vget c ''workspace_limits'', jl_torque_limits = vget c ''torque_limits'',
     jl_collision = or_else (vget c ''collision'') (VDict []) \<rparr>"

definition simulate ::
  "'w isaac_api \<Rightarrow> nat \<Rightarrow> nat \<Rightarrow> job_limits \<Rightarrow> pv dict list \<Rightarrow> ('w, isaac_run) eff" where
  "simulate api joint_count steps_per_action limits actions = bindE (ia_positions api) (\<lambda>actual.
     foldE (simulate_action api joint_count steps_per_action limits) (zip [0..<length actions] actions)
       \<lparr> ir_trajectory = [VDict [(''step'', VInt (- 1)), (''action'', VStr ''initial''), (''joint_positions'', round4 actual)]],
         ir_violations = [], ir_first = None, ir_collided = [], ir_detected = False, ir_unavailable = False \<rparr>)"

text \<open>\<open>_validate_trajectory\<close> of a job: its state, actions and constraints.\<close>

definition worker_validate ::
  "'w isaac_api \<Rightarrow> nat \<Rightarrow> nat \<Rightarrow> pv dict \<Rightarrow> pv dict list \<Rightarrow> pv dict \<Rightarrow> ('w, pv dict) eff" where
  "worker_validate api joint_count steps_per_action current_state actions constraints =
     bindE (getE (ia_time api)) (\<lambda>start_time.
       if \<not> truthy (joint_positions_of current_state joint_count) then retE no_joints
       else
     bindE (ia_reset api) (\<lambda>_.
     bindE (liftE (extract_joint_positions api current_state joint_count)) (\<lambda>initial.
     bindE (ia_set_positions api initial) (\<lambda>_.
     bindE (liftE (extract_joint_velocities api current_state joint_count)) (\<lambda>velocities.
     bindE (apply_velocities api velocities) (\<lambda>_.
     bindE (times 5 (\<lambda>u. ia_step api) ()) (\<lambda>_.
     bindE (finallyE (simulate api joint_count steps_per_action (job_limits_of constraints) actions)
              (restore_robot_state api current_state joint_count)) (\<lambda>run.
     bindE (getE (ia_time api)) (\<lambda>now.
     bindE (liftE (bindR (nsub now start_time) (\<lambda>d. nmul d (NI 1000)))) (\<lambda>latency.
       liftE (isaac_verdict latency run)))))))))))"

end
