(* ===== verification/IsaacFacts.thy ===== *)
theory IsaacFacts
  imports IsaacWorker
begin

section \<open>What a SAFE answer of the Isaac worker means\<close>

text \<open>
  The record of a run stays consistent: a first violation is known exactly when one is recorded, and a
  collision or a probe that cannot be placed is one.  So a SAFE answer means no collision and no unavailable
  probe at any simulated step, and that every commanded target obeys the joint limits and the range rules.
\<close>

definition run_ok :: "isaac_run \<Rightarrow> bool" where
  "run_ok run \<longleftrightarrow> (ir_first run = None \<longleftrightarrow> ir_violations run = []) \<and>
     (ir_detected run \<or> ir_unavailable run \<longrightarrow> ir_violations run \<noteq> [])"

definition extends :: "isaac_run \<Rightarrow> isaac_run \<Rightarrow> bool" where
  "extends r s \<longleftrightarrow> (run_ok r \<longrightarrow> run_ok s) \<and> (ir_violations s = [] \<longrightarrow> ir_violations r = [])"

lemma extends_refl [simp]: "extends r r"
  by (simp add: extends_def)

lemma extends_trans: "extends r s \<Longrightarrow> extends s t \<Longrightarrow> extends r t"
  by (auto simp: extends_def)

lemma record_first_extends: "extends run (record_first i v run)"
  by (cases v) (auto simp: extends_def run_ok_def record_first_def note_step_def)

lemma record_first_None: "run_ok run \<Longrightarrow> ir_violations (record_first i v run) = [] \<Longrightarrow> v = None"
  by (cases v) (auto simp: run_ok_def record_first_def note_step_def split: if_splits)

lemma note_probe_extends: "note_probe i p run = Inr run1 \<Longrightarrow> extends run run1"
  unfolding note_probe_def Let_def
  by (cases "pr_unavailable p \<and> \<not> ir_unavailable run"; cases "pr_detected p"; cases "ir_first run"; cases "ir_detected run")
    (auto simp: extends_def run_ok_def add_violation_def note_step_def)

lemma probe_step_extends: "probe_step api c i run w = (Inr run1, w1) \<Longrightarrow> extends run run1"
  by (auto simp: probe_step_def bindE_Inr liftE_def retE_def split: if_splits dest: note_probe_extends)

lemma times_extends:
  "(\<And>r w s w'. f r w = (Inr s, w') \<Longrightarrow> extends r s) \<Longrightarrow> times n f run w = (Inr run1, w1) \<Longrightarrow> extends run run1"
proof (induction n arbitrary: run w)
  case 0
  then show ?case by (simp add: retE_def)
next
  case (Suc n)
  then obtain s u where f: "f run w = (Inr s, u)" and rest: "times n f s u = (Inr run1, w1)" by (auto simp: bindE_Inr)
  have "extends s run1" by (rule Suc.IH [OF _ rest]) (rule Suc.prems(1))
  with Suc.prems(1) [OF f] show ?case by (rule extends_trans)
qed

lemma check_torque_extends: "check_torque api l i run w = (Inr run1, w1) \<Longrightarrow> extends run run1"
  by (auto simp: check_torque_def tryE_def bindE_def liftE_def retE_def record_first_extends split: if_splits prod.splits sum.splits)

lemma check_workspace_extends: "check_workspace api l i run w = (Inr run1, w1) \<Longrightarrow> extends run run1"
  by (auto simp: check_workspace_def bindE_Inr liftE_def retE_def record_first_extends split: if_splits option.splits)

lemma simulate_action_extends:
  assumes "simulate_action api n steps limits (i, action) run w = (Inr run1, w1)"
  shows "extends run run1"
    and "move_target api n action = Inr (Some target) \<Longrightarrow> run_ok run \<Longrightarrow> ir_violations run1 = [] \<Longrightarrow>
      check_joints target (jl_joint_limits limits) (jl_ruleset limits) = Inr None"
proof -
  obtain t where t: "move_target api n action = Inr t"
    using assms by (auto simp: simulate_action_def bindE_Inr liftE_def)
  have all: "extends run run1 \<and> (\<forall>target. t = Some target \<longrightarrow> run_ok run \<longrightarrow> ir_violations run1 = [] \<longrightarrow>
      check_joints target (jl_joint_limits limits) (jl_ruleset limits) = Inr None)"
  proof (cases t)
    case None
    then show ?thesis using assms t by (simp add: simulate_action_def retE_def)
  next
    case (Some target)
    obtain pre run2 run3 run4 w2 w3 w4 w5 w6 w7 v u where
      pre: "check_joints target (jl_joint_limits limits) (jl_ruleset limits) = Inr pre" and
      frames: "times steps (probe_step api (jl_collision limits) i) (record_first i (map_option (stamped i ''pre_check'') pre) run) w2
          = (Inr run2, w3)" and
      torque: "check_torque api (jl_torque_limits limits) i run2 w4 = (Inr run3, w5)" and
      workspace: "check_workspace api (jl_workspace_limits limits) i run3 w6 = (Inr run4, w7)" and
      run1: "\<exists>traj. run1 = record_first i u (record_first i v (run4\<lparr> ir_trajectory := traj \<rparr>))"
      using assms t Some unfolding simulate_action_def
      by (simp add: bindE_Inr Let_def) (clarsimp simp: liftE_def retE_def, blast)
    have "extends (record_first i (map_option (stamped i ''pre_check'') pre) run) run4"
    proof -
      have "extends (record_first i (map_option (stamped i ''pre_check'') pre) run) run2"
        by (rule times_extends [OF _ frames]) (rule probe_step_extends)
      then show ?thesis using check_torque_extends [OF torque] check_workspace_extends [OF workspace]
        by (blast intro: extends_trans)
    qed
    moreover have "extends run4 (run4\<lparr> ir_trajectory := traj \<rparr>)" for traj by (simp add: extends_def run_ok_def)
    moreover obtain traj where "run1 = record_first i u (record_first i v (run4\<lparr> ir_trajectory := traj \<rparr>))" using run1 by blast
    then have "extends (run4\<lparr> ir_trajectory := traj \<rparr>) run1"
      using extends_trans [OF record_first_extends record_first_extends] by simp
    ultimately have e: "extends (record_first i (map_option (stamped i ''pre_check'') pre) run) run1"
      by (blast intro: extends_trans)
    have "pre = None" if "run_ok run" "ir_violations run1 = []"
      using record_first_None [OF that(1), of i "map_option (stamped i ''pre_check'') pre"] e that(2) by (auto simp: extends_def)
    then show ?thesis using extends_trans [OF record_first_extends e] pre Some by simp
  qed
  then show "extends run run1" by blast
  show "check_joints target (jl_joint_limits limits) (jl_ruleset limits) = Inr None"
    if "move_target api n action = Inr (Some target)" "run_ok run" "ir_violations run1 = []"
    using all t that by simp
qed

lemma simulate_actions:
  assumes "foldE (simulate_action api n steps limits) ias run w = (Inr run1, w1)"
  shows "extends run run1 \<and> (run_ok run \<longrightarrow> ir_violations run1 = [] \<longrightarrow> (\<forall>(i, action)\<in>set ias. \<forall>target.
      move_target api n action = Inr (Some target) \<longrightarrow>
      check_joints target (jl_joint_limits limits) (jl_ruleset limits) = Inr None))"
  using assms
proof (induction ias arbitrary: run w)
  case Nil
  then show ?case by (simp add: retE_def)
next
  case (Cons ia ias)
  obtain i action where ia: "ia = (i, action)" by (cases ia)
  obtain run' w' where first: "simulate_action api n steps limits (i, action) run w = (Inr run', w')"
    and rest: "foldE (simulate_action api n steps limits) ias run' w' = (Inr run1, w1)"
    using Cons.prems ia by (auto simp: bindE_Inr)
  note step = simulate_action_extends [OF first]
  show ?case using step Cons.IH [OF rest] ia by (auto simp: extends_def intro: extends_trans [OF step(1)])
qed

lemma finallyE_Inr: "finallyE m after w = (Inr x, w1) \<Longrightarrow> \<exists>w2. m w = (Inr x, w2)"
  by (auto simp: finallyE_def bindE_Inr caught_Inr liftE_def)

definition fresh_run :: "flt list \<Rightarrow> isaac_run" where
  "fresh_run actual = \<lparr> ir_trajectory = [VDict [(''step'', VInt (- 1)), (''action'', VStr ''initial''), (''joint_positions'', round4 actual)]],
     ir_violations = [], ir_first = None, ir_collided = [], ir_detected = False, ir_unavailable = False \<rparr>"

lemma fresh_run_ok: "run_ok (fresh_run actual)"
  by (simp add: fresh_run_def run_ok_def)

lemma worker_validate_run:
  assumes "worker_validate api n steps st acts cons w = (Inr r, w1)" "dget r ''verdict'' = Some (VStr ''SAFE'')"
  shows "\<exists>run latency. isaac_verdict latency run = Inr r \<and> run_ok run \<and> ir_violations run = [] \<and>
    (\<forall>action\<in>set acts. \<forall>target. move_target api n action = Inr (Some target) \<longrightarrow>
      check_joints target (jl_joint_limits (job_limits_of cons)) (jl_ruleset (job_limits_of cons)) = Inr None)"
proof -
  have "r \<noteq> no_joints" using assms(2) by (auto simp: no_joints_def)
  then obtain run latency w2 w3 where
    sim: "finallyE (simulate api n steps (job_limits_of cons) acts) (restore_robot_state api st n) w2 = (Inr run, w3)" and
    verdict: "isaac_verdict latency run = Inr r"
    using assms(1) unfolding worker_validate_def
    by (auto simp: bindE_Inr liftE_def retE_def getE_def split: if_splits)
  then obtain w4 actual w5 where "foldE (simulate_action api n steps (job_limits_of cons)) (zip [0..<length acts] acts) (fresh_run actual) w4
      = (Inr run, w5)"
    using finallyE_Inr [OF sim] by (auto simp: simulate_def bindE_Inr fresh_run_def)
  note sims = simulate_actions [OF this]
  have none: "ir_violations run = []" using verdict assms(2) by (auto simp: isaac_verdict_def Let_def split: if_splits)
  have "\<exists>i. (i, action) \<in> set (zip [0..<length acts] acts)" if "action \<in> set acts" for action
    using that by (auto simp: in_set_conv_nth set_zip)
  then show ?thesis using sims none fresh_run_ok verdict by (fastforce simp: extends_def)
qed

text \<open>C11: A SAFE answer of the Isaac worker means that the simulation recorded nothing: no collision and no unavailable probe at any simulated step, no first violation, no violated constraint.\<close>

theorem isaac_safe_record:
  assumes "worker_validate api n steps st acts cons w = (Inr r, w1)" "dget r ''verdict'' = Some (VStr ''SAFE'')"
  shows "\<exists>common details. dget r ''common'' = Some (VDict common) \<and> dget r ''details'' = Some (VDict details) \<and>
    vget common ''first_violation_step'' = VNone \<and> vget common ''violated_constraint'' = VNone \<and>
    vget details ''collision_detected'' = VBool False \<and> vget details ''collision_probe_unavailable'' = VBool False \<and>
    vget details ''violations'' = VList []"
proof -
  obtain run latency where "isaac_verdict latency run = Inr r" "run_ok run" "ir_violations run = []"
    using worker_validate_run [OF assms] by blast
  then show ?thesis by (auto simp: isaac_verdict_def Let_def run_ok_def vget_def dget_or_def opt_int_def)
qed

lemma first_found_None: "first_found f xs = Inr None \<longleftrightarrow> (\<forall>x\<in>set xs. f x = Inr None)"
  by (induction xs) (auto split: option.splits)

lemma out_of_False:
  "out_of (VFloat f) (Inr lo) (Inr hi) = Inr False \<Longrightarrow> num_of lo = Some l \<Longrightarrow> num_of hi = Some h \<Longrightarrow>
   \<not> num_rel RLt (NF f) l \<and> \<not> num_rel RGt (NF f) h"
  by (auto simp: out_of_def py_rel_number split: if_splits)

text \<open>C10: A SAFE answer of the Isaac worker means that every commanded joint target lies within the joint limits of the policy, whatever the simulator does.\<close>

theorem isaac_safe_targets:
  assumes "worker_validate api n steps st acts cons w = (Inr r, w1)" "dget r ''verdict'' = Some (VStr ''SAFE'')"
    and "action \<in> set acts" "move_target api n action = Inr (Some target)"
    and "vget cons ''joint_limits'' = VDict limits" "(key, VList [lo, hi]) \<in> set limits" "py_int (VStr key) = Inr (int i)"
    and "i < length target" "num_of lo = Some l" "num_of hi = Some h"
  shows "\<not> num_rel RLt (NF (target ! i)) l \<and> \<not> num_rel RGt (NF (target ! i)) h"
proof -
  have "check_joints target (VDict limits) (jl_ruleset (job_limits_of cons)) = Inr None"
    using worker_validate_run [OF assms(1,2)] assms(3-6) by (auto simp: job_limits_of_def or_else_def split: if_splits)
  then have "first_found (check_limit target) limits = Inr None"
    using assms(6) by (auto simp: check_joints_def or_else_def py_items_def split: option.splits if_splits)
  then have "check_limit target (key, VList [lo, hi]) = Inr None" using assms(6) by (auto simp: first_found_None)
  then have "out_of (VFloat (target ! i)) (Inr lo) (Inr hi) = Inr False"
    using assms(7,8) by (auto simp: check_limit_def py_index_def index_list_def split: if_splits)
  then show ?thesis by (rule out_of_False [OF _ assms(9,10)])
qed

text \<open>A robot of one joint, whose scene is the position.\<close>

definition demo_robot :: "flt list isaac_api" where
  "demo_robot = \<lparr> ia_reset = retE (), ia_step = retE (), ia_set_positions = (\<lambda>p. modE (\<lambda>w. p)), ia_takes_velocities = (\<lambda>w. False),
     ia_set_velocities = (\<lambda>v. retE ()), ia_positions = getE id, ia_velocities = retE [Fin 0], ia_efforts = retE [Fin 0],
     ia_has_end_effector = retE False, ia_world_pose = throwE RuntimeError ''no pose'', ia_time = (\<lambda>w. NI 0),
     ia_reload_scene = (\<lambda>v. retE ()), ia_preload = (\<lambda>c s. retE []), np_float32 = py_float,
     np_floats = (\<lambda>v. bindR (py_iter v) (mapR py_float)), np_norm = (\<lambda>v. Fin 0), np_exceeds = (\<lambda>f v. Inr False),
     np_divergence = (\<lambda>a b. Inr (Fin 0)) \<rparr>"

definition demo_move :: "pv dict" where
  "demo_move = [(''action_type'', VStr ''move_joint''), (''params'', VDict [(''target_positions'', VList [VInt 1])])]"

definition demo_joint_policy :: "pv dict" where
  "demo_joint_policy = [(''joint_limits'', VDict [(''0'', VList [VInt (- 2), VInt 2])])]"

lemma demo_worker_run:
  "\<exists>r w. worker_validate demo_robot 1 2 [] [demo_move] demo_joint_policy [Fin 0] = (Inr r, w) \<and> dget r ''verdict'' = Some (VStr ''SAFE'')"
proof -
  have "(case worker_validate demo_robot 1 2 [] [demo_move] demo_joint_policy [Fin 0] of
      (Inr r, w) \<Rightarrow> dget r ''verdict'' = Some (VStr ''SAFE'') | _ \<Rightarrow> False)" by code_simp
  then show ?thesis by (auto split: prod.splits sum.splits)
qed

theorem isaac_safe_record_witness:
  "\<exists>r details. fst (worker_validate demo_robot 1 2 [] [demo_move] demo_joint_policy [Fin 0]) = Inr r \<and>
     dget r ''details'' = Some (VDict details) \<and> vget details ''violations'' = VList []"
proof -
  obtain r w where r: "worker_validate demo_robot 1 2 [] [demo_move] demo_joint_policy [Fin 0] = (Inr r, w)"
    "dget r ''verdict'' = Some (VStr ''SAFE'')" using demo_worker_run by blast
  from isaac_safe_record [OF this] r show ?thesis by auto
qed

theorem isaac_safe_targets_witness: "\<not> num_rel RLt (NF (Fin 1)) (NI (- 2)) \<and> \<not> num_rel RGt (NF (Fin 1)) (NI 2)"
proof -
  obtain r w where r: "worker_validate demo_robot 1 2 [] [demo_move] demo_joint_policy [Fin 0] = (Inr r, w)"
    "dget r ''verdict'' = Some (VStr ''SAFE'')" using demo_worker_run by blast
  have target: "move_target demo_robot 1 demo_move = Inr (Some [Fin 1])" by code_simp
  have key: "py_int (VStr ''0'') = Inr (int 0)" by code_simp
  have limits: "vget demo_joint_policy ''joint_limits'' = VDict [(''0'', VList [VInt (- 2), VInt 2])]" by code_simp
  show ?thesis
    using isaac_safe_targets [OF r _ target limits _ key] by (simp add: demo_move_def)
qed

text \<open>The text before the second underscore of a field names the joint, so what follows is ignored.\<close>

lemma no_underscore: "CHR ''_'' \<notin> set (dec n)"
  using dec_digits [of "CHR ''_''" n] by (auto simp: is_digit_def)

lemma take_joint: "takeWhile (\<lambda>c. c \<noteq> CHR ''_'') (dec n @ CHR ''_'' # rest) = dec n"
  using no_underscore [of n] by (subst takeWhile_append2) auto

lemma take_joint_end: "takeWhile (\<lambda>c. c \<noteq> CHR ''_'') (dec n) = dec n"
  using no_underscore [of n] by (subst takeWhile_eq_all_conv) auto

text \<open>A range rule on a joint's velocity or effort is checked against the joint's position: the worker reads only the joint's number off the field's name.\<close>

theorem joint_rule_reads_position:
  "check_joint_rule joints (VDict (dset ''target_field'' (VStr (joint_key i @ ''_'' @ quantity)) d)) =
   check_joint_rule joints (VDict (dset ''target_field'' (VStr (joint_key i)) d))"
proof -
  have "joint_of_field (joint_key i @ ''_'' @ quantity) = joint_of_field (joint_key i)"
    by (simp add: joint_of_field_def joint_key_def str_int_def take_joint take_joint_end)
  moreover have "starts_with ''joint_'' (joint_key i @ s)" for s by (simp add: starts_with_def joint_key_def)
  then have "starts_with ''joint_'' (joint_key i @ ''_'' @ quantity)" "starts_with ''joint_'' (joint_key i)"
    by (metis, metis append_Nil2)
  ultimately show ?thesis
    by (cases "joint_of_field (joint_key i)") (simp_all add: check_joint_rule_def vget_def dget_or_def Let_def cong: if_cong)
qed

end
