(* ===== verification/IsaacProxy.thy ===== *)
theory IsaacProxy
  imports IsaacFacts
begin

section \<open>The worker's loop and the proxy (isaac_worker.py, isaac_proxy.py)\<close>

text \<open>
  Two processes joined by two queues.  The worker takes the requests in order and puts one message for
  each.  A call of the proxy puts a request and takes the first message, or raises when none has
  come in time.  How many jobs the worker ends while a call waits is the schedule, a function of the timeout.
  The lock makes a call one step.  Job ids come from \<open>uuid4\<close> and are arguments.
\<close>

subsection \<open>The worker\<close>

record 'w worker =
  wk_world :: 'w
  wk_scene :: pv
  wk_runtime_id :: pv
  wk_meta :: "pv dict"
  wk_joint_count :: nat

definition on_world :: "('w, 'a) eff \<Rightarrow> ('w worker, 'a) eff" where
  "on_world m s = (case m (wk_world s) of (r, w) \<Rightarrow> (r, s\<lparr> wk_world := w \<rparr>))"

definition get_current_state :: "'w isaac_api \<Rightarrow> pv dict \<Rightarrow> ('w, pv dict) eff" where
  "get_current_state api runtime_meta =
     (let floats = (\<lambda>fs. VList (map VFloat fs)) in
     bindE (ia_positions api) (\<lambda>positions. bindE (ia_velocities api) (\<lambda>velocities.
     bindE (tryE (ia_efforts api) (\<lambda>e. retE (replicate (length positions) (Fin 0)))) (\<lambda>efforts.
     bindE (get_end_effector_position api) (\<lambda>ee. bindE (getE (ia_time api)) (\<lambda>now. retE
       ([(''joint_positions'', floats positions), (''joint_velocities'', floats velocities), (''joint_efforts'', floats efforts),
         (''ee_position'', case ee of None \<Rightarrow> VNone | Some p \<Rightarrow> floats p), (''timestamp'', of_num now)] @
        (if runtime_meta = [] then [] else [(''runtime_id'', vget runtime_meta ''runtime_id''),
          (''scene_path'', vget runtime_meta ''scene_path'')]))))))))"

text \<open>After a scene is loaded: what is remembered of it, and the joints counted anew.\<close>

definition remember :: "'w isaac_api \<Rightarrow> pv \<Rightarrow> pv \<Rightarrow> pv dict \<Rightarrow> ('w worker, unit) eff" where
  "remember api scene runtime_id meta =
     bindE (modE (\<lambda>s. s\<lparr> wk_scene := scene, wk_runtime_id := runtime_id, wk_meta := meta \<rparr>)) (\<lambda>_.
     bindE (on_world (ia_positions api)) (\<lambda>p. modE (\<lambda>s. s\<lparr> wk_joint_count := length p \<rparr>)))"

definition preload :: "'w isaac_api \<Rightarrow> pv \<Rightarrow> pv \<Rightarrow> ('w worker, pv dict) eff" where
  "preload api runtime_context initial_state =
     bindE (on_world (ia_preload api runtime_context initial_state)) (\<lambda>result.
     bindE (remember api (vget result ''scene_path'') (vget result ''runtime_id'') result) (\<lambda>_. retE result))"

text \<open>The scene a validation job wants.\<close>

definition load_scene :: "'w isaac_api \<Rightarrow> pv dict \<Rightarrow> ('w worker, unit) eff" where
  "load_scene api job =
     bindE (liftE (py_get (or_else (vget job ''constraints'') (VDict [])) ''runtime_context'' VNone)) (\<lambda>c.
     let runtime_context = or_else c (vget job ''runtime_context''); world_ref = vget job ''world_ref'' in
     if truthy runtime_context then
       bindE (liftE (py_get runtime_context ''runtime_id'' VNone)) (\<lambda>desired_id.
       bindE (getE (\<lambda>s. let desired_scene = or_else (vget (as_dict runtime_context) ''scene_ref'') world_ref in
           \<not> py_eq desired_id (wk_runtime_id s) \<or> truthy desired_scene \<and> py_str desired_scene \<noteq> py_str (wk_scene s))) (\<lambda>other.
         if other then bindE (preload api runtime_context (or_else (vget job ''initial_state'') (VDict []))) (\<lambda>_. retE ())
         else retE ()))
     else
       bindE (getE (\<lambda>s. truthy world_ref \<and> py_str world_ref \<noteq> py_str (wk_scene s))) (\<lambda>other.
         if other then bindE (on_world (ia_reload_scene api world_ref)) (\<lambda>_. remember api world_ref VNone []) else retE ()))"

text \<open>The proxy puts dictionaries for the actions.\<close>

definition job_actions :: "pv dict \<Rightarrow> pv dict list" where
  "job_actions job = map as_dict (as_list (vget job ''actions''))"

definition run_job :: "'w isaac_api \<Rightarrow> nat \<Rightarrow> pv dict \<Rightarrow> ('w worker, pv) eff" where
  "run_job api steps_per_action job =
     (if vget job ''type'' = VStr ''GET_STATE'' then
        bindE (getE wk_meta) (\<lambda>meta. bindE (on_world (get_current_state api meta)) (\<lambda>s. retE (VDict s)))
      else if vget job ''type'' = VStr ''PRELOAD_RUNTIME'' then
        bindE (preload api (or_else (vget job ''runtime_context'') (VDict [])) (or_else (vget job ''initial_state'') (VDict [])))
          (\<lambda>r. retE (VDict r))
      else
        bindE (load_scene api job) (\<lambda>_. bindE (getE wk_joint_count) (\<lambda>n.
        bindE (on_world (worker_validate api n steps_per_action (as_dict (vget job ''state'')) (job_actions job)
            (as_dict (vget job ''constraints'')))) (\<lambda>r. retE (VDict r)))))"

text \<open>One turn of the loop: the message put for a job, whether it ends well or raises.\<close>

definition work :: "'w isaac_api \<Rightarrow> nat \<Rightarrow> pv dict \<Rightarrow> 'w worker \<Rightarrow> pv dict \<times> 'w worker" where
  "work api steps_per_action job s = (let job_id = dget_or job ''job_id'' (VStr ''unknown'') in
     case run_job api steps_per_action job s of
       (Inr result, t) \<Rightarrow> ([(''job_id'', job_id), (''ok'', VBool True), (''result'', result)], t)
     | (Inl e, t) \<Rightarrow> ([(''job_id'', job_id), (''ok'', VBool False), (''error'', VStr (exc_msg e))], t))"

subsection \<open>The proxy\<close>

text \<open>The process, with whether it is alive, and its two queues.\<close>

record 'w proxy =
  px_enabled :: bool
  px_process :: "bool option"
  px_initialized :: bool
  px_timeout_s :: pnum
  px_requests :: "pv dict list"
  px_replies :: "pv dict list"
  px_worker :: "'w worker"

definition is_initialized :: "'w proxy \<Rightarrow> bool" where
  "is_initialized s \<longleftrightarrow> px_initialized s \<and> px_process s = Some True"

definition cleanup :: "'w proxy \<Rightarrow> 'w proxy" where
  "cleanup s = s\<lparr> px_process := None, px_requests := [], px_replies := [], px_initialized := False \<rparr>"

text \<open>The worker takes one job; a request to shut down ends the process, whose queues are then dropped.\<close>

definition work_one :: "'w isaac_api \<Rightarrow> nat \<Rightarrow> 'w proxy \<Rightarrow> 'w proxy" where
  "work_one api steps s = (case px_requests s of
     [] \<Rightarrow> s
   | job # rest \<Rightarrow>
       if px_process s \<noteq> Some True then s
       else if vget job ''type'' = VStr ''SHUTDOWN'' then s\<lparr> px_process := Some False \<rparr>
       else (case work api steps job (px_worker s) of (message, wk) \<Rightarrow>
         s\<lparr> px_requests := rest, px_replies := px_replies s @ [message], px_worker := wk \<rparr>))"

text \<open>The boot message: none in time, a failure, or a worker that is ready.\<close>

definition proxy_initialize :: "pv dict \<Rightarrow> 'w worker res option \<Rightarrow> ('w proxy, unit) eff" where
  "proxy_initialize config boot s =
     (if px_initialized s \<or> \<not> px_enabled s then retE () s
      else bindE (liftE (arith_op ''/'' ndiv (dget_or config ''timeout_ms'' (VInt 30000)) (VInt 1000))) (\<lambda>t.
        modE (\<lambda>s. let started = s\<lparr> px_timeout_s := t, px_process := Some True, px_requests := [], px_replies := [] \<rparr> in
          case boot of Some (Inr wk) \<Rightarrow> started\<lparr> px_initialized := True, px_worker := wk \<rparr>
          | _ \<Rightarrow> cleanup started)) s)"

definition round_trip ::
  "'w isaac_api \<Rightarrow> nat \<Rightarrow> (pnum \<Rightarrow> nat) \<Rightarrow> pv dict \<Rightarrow> pnum \<Rightarrow> ('w proxy, pv dict) eff" where
  "round_trip api steps ended request timeout_s s =
     (if px_process s = None then (raise AttributeError (quoted ''NoneType'' @ '' object has no attribute '' @ quoted ''put''), s)
      else (let waited = (work_one api steps ^^ ended timeout_s) (s\<lparr> px_requests := px_requests s @ [request] \<rparr>) in
        case px_replies waited of
          [] \<Rightarrow> (raise TransportError [], waited)
        | message # rest \<Rightarrow> (Inr message, waited\<lparr> px_replies := rest \<rparr>)))"

definition indeterminate_result :: "string \<Rightarrow> pv" where
  "indeterminate_result reason = VDict [(''verdict'', VStr ''INDETERMINATE''), (''engine'', VStr ''isaac_sim''),
     (''common'', VDict [(''first_violation_step'', VNone), (''violated_constraint'', VNone), (''latency_ms'', VInt 0),
        (''steps_completed'', VInt 0)]), (''details'', VDict [(''reason'', VStr reason)])]"

definition validation_request :: "string \<Rightarrow> pv dict \<Rightarrow> pv dict list \<Rightarrow> pv dict \<Rightarrow> pv dict" where
  "validation_request job_id current_state actions constraints =
     [(''job_id'', VStr job_id), (''state'', VDict current_state), (''actions'', VList (map VDict actions)),
      (''constraints'', VDict constraints), (''world_ref'', vget constraints ''world_ref'')]"

definition proxy_validate ::
  "'w isaac_api \<Rightarrow> nat \<Rightarrow> (pnum \<Rightarrow> nat) \<Rightarrow> string \<Rightarrow> pv dict \<Rightarrow> pv dict list \<Rightarrow> pv dict \<Rightarrow> ('w proxy, pv) eff" where
  "proxy_validate api steps ended job_id current_state actions constraints =
     bindE (getE (\<lambda>s. (is_initialized s, px_timeout_s s))) (\<lambda>(ready, timeout_s).
       if \<not> ready then retE (indeterminate_result ''Isaac Sim Worker not available'')
       else bindE (caught (round_trip api steps ended (validation_request job_id current_state actions constraints) timeout_s))
         (\<lambda>r. case r of
           Inl e \<Rightarrow> retE (indeterminate_result (''Worker communication error: '' @ exc_msg e))
         | Inr message \<Rightarrow>
             if \<not> py_eq (vget message ''job_id'') (VStr job_id)
             then retE (indeterminate_result ''Worker returned mismatched job_id'')
             else if truthy (vget message ''ok'') then liftE (py_getitem (VDict message) ''result'')
             else retE (indeterminate_result (''Worker error: '' @ py_str (vget message ''error'')))))"

definition proxy_state :: "'w isaac_api \<Rightarrow> nat \<Rightarrow> (pnum \<Rightarrow> nat) \<Rightarrow> string \<Rightarrow> ('w proxy, pv) eff" where
  "proxy_state api steps ended job_id =
     bindE (getE is_initialized) (\<lambda>ready.
       if \<not> ready then retE (VDict [])
       else bindE (caught (round_trip api steps ended [(''type'', VStr ''GET_STATE''), (''job_id'', VStr job_id)] (NF (Fin 5))))
         (\<lambda>r. case r of
           Inl e \<Rightarrow> retE (VDict [])
         | Inr message \<Rightarrow>
             if py_eq (vget message ''job_id'') (VStr job_id) \<and> truthy (vget message ''ok'')
             then liftE (py_getitem (VDict message) ''result'') else retE (VDict [])))"

definition proxy_preload ::
  "'w isaac_api \<Rightarrow> nat \<Rightarrow> (pnum \<Rightarrow> nat) \<Rightarrow> string \<Rightarrow> pv dict \<Rightarrow> pv \<Rightarrow> ('w proxy, pv) eff" where
  "proxy_preload api steps ended job_id runtime_context initial_state =
     bindE (getE (\<lambda>s. (is_initialized s, px_timeout_s s))) (\<lambda>(ready, timeout_s).
       if \<not> ready then throwE RuntimeError ''Isaac Sim Worker not available''
       else bindE (round_trip api steps ended [(''type'', VStr ''PRELOAD_RUNTIME''), (''job_id'', VStr job_id),
             (''runtime_context'', VDict runtime_context), (''initial_state'', or_else initial_state (VDict []))]
             (if num_rel RGt (NF (Fin 60)) timeout_s then NF (Fin 60) else timeout_s)) (\<lambda>message.
         if \<not> py_eq (vget message ''job_id'') (VStr job_id)
         then throwE RuntimeError ''Worker returned mismatched job_id for PRELOAD_RUNTIME''
         else if \<not> truthy (vget message ''ok'')
         then throwE RuntimeError (py_str (or_else (vget message ''error'') (VStr ''Runtime preload failed'')))
         else retE (or_else (vget message ''result'') (VDict []))))"

text \<open>\<open>shutdown\<close>: whatever the worker still does, the proxy forgets it.\<close>

definition proxy_shutdown :: "('w proxy, unit) eff" where
  "proxy_shutdown = modE cleanup"

subsection \<open>The handlers (apps/safety_cluster/routes.py)\<close>

text \<open>The response model of a preload: \<open>as_float\<close> is pydantic's coercion.\<close>

definition opt_text :: "pv \<Rightarrow> pv res" where
  "opt_text v = (case v of VNone \<Rightarrow> Inr VNone | VStr s \<Rightarrow> Inr v | _ \<Rightarrow> validation_error ''RuntimePreloadResponse'')"

definition opt_floats :: "(pv \<Rightarrow> flt res) \<Rightarrow> pv \<Rightarrow> pv res" where
  "opt_floats as_float v = (case v of
     VNone \<Rightarrow> Inr VNone
   | VList xs \<Rightarrow> bindR (mapR as_float xs) (\<lambda>fs. Inr (VList (map VFloat fs)))
   | _ \<Rightarrow> validation_error ''RuntimePreloadResponse'')"

definition preload_response :: "(pv \<Rightarrow> flt res) \<Rightarrow> string \<Rightarrow> pv \<Rightarrow> pv res" where
  "preload_response as_float asset_id result =
     bindR (py_get result ''status'' (VStr ''READY'')) (\<lambda>status. let d = as_dict result in
     case (vget d ''runtime_id'', vget d ''current_state'') of
       (VStr runtime_id, VDict state) \<Rightarrow>
         if status \<noteq> VStr ''READY'' then validation_error ''RuntimePreloadResponse''
         else bindR (opt_text (vget d ''scene_path'')) (\<lambda>scene. bindR (opt_text (vget d ''shell_config_path'')) (\<lambda>shell.
           bindR (opt_floats as_float (vget d ''robot_spawn_position'')) (\<lambda>spawn.
           bindR (opt_floats as_float (vget d ''applied_initial_joint_positions'')) (\<lambda>initial.
             Inr (VDict [(''asset_id'', VStr asset_id), (''runtime_id'', VStr runtime_id), (''status'', status),
               (''scene_path'', scene), (''shell_config_path'', shell), (''robot_spawn_position'', spawn),
               (''applied_initial_joint_positions'', initial), (''current_state'', VDict state)])))))
     | _ \<Rightarrow> validation_error ''RuntimePreloadResponse'')"

text \<open>Without a configured backend there is no proxy to ask.\<close>

definition preload_route ::
  "'w isaac_api \<Rightarrow> nat \<Rightarrow> (pv \<Rightarrow> flt res) \<Rightarrow> (pnum \<Rightarrow> nat) \<Rightarrow> string \<Rightarrow> bool \<Rightarrow> string \<Rightarrow> pv dict \<Rightarrow> pv \<Rightarrow> ('w proxy, pv) eff" where
  "preload_route api steps as_float ended job_id configured asset_id runtime_context initial_state =
     (if \<not> configured then liftE (http_error 503 ''Isaac Sim backend not configured'')
      else bindE (getE is_initialized) (\<lambda>ready.
        if \<not> ready then liftE (http_error 503 ''Isaac Sim worker not ready'')
        else bindE (tryE (proxy_preload api steps ended job_id runtime_context initial_state)
            (\<lambda>e. liftE (http_error 500 (''Runtime preload failed: '' @ exc_msg e)))) (\<lambda>result.
          liftE (preload_response as_float asset_id result))))"

definition simulation_state_route :: "'w isaac_api \<Rightarrow> nat \<Rightarrow> (pnum \<Rightarrow> nat) \<Rightarrow> string \<Rightarrow> bool \<Rightarrow> ('w proxy, pv) eff" where
  "simulation_state_route api steps ended job_id configured =
     (if \<not> configured then retE (VDict [(''error'', VStr ''Isaac Sim not configured'')])
      else bindE (getE is_initialized) (\<lambda>ready.
        if \<not> ready then retE (VDict [(''error'', VStr ''Isaac Sim worker not ready'')])
        else proxy_state api steps ended job_id))"

subsection \<open>Which answer a call reads\<close>

text \<open>The ids of the jobs put and not yet read, in the order their answers are read.\<close>

definition unread :: "'w proxy \<Rightarrow> pv list" where
  "unread s = map (\<lambda>m. vget m ''job_id'') (px_replies s) @ map (\<lambda>j. dget_or j ''job_id'' (VStr ''unknown'')) (px_requests s)"

lemma work_job_id: "vget (fst (work api steps job wk)) ''job_id'' = dget_or job ''job_id'' (VStr ''unknown'')"
  by (auto simp: work_def Let_def vget_def dget_or_def split: prod.splits sum.splits)

lemma work_one_unread [simp]: "unread (work_one api steps s) = unread s"
proof (cases "px_requests s")
  case (Cons job rest)
  obtain message wk where w: "work api steps job (px_worker s) = (message, wk)" by fastforce
  then have "vget message ''job_id'' = dget_or job ''job_id'' (VStr ''unknown'')" using work_job_id [of api steps job "px_worker s"] by simp
  then show ?thesis using Cons w by (simp add: work_one_def unread_def)
qed (simp add: work_one_def)

lemma work_unread [simp]: "unread ((work_one api steps ^^ n) s) = unread s"
  by (induction n) simp_all

lemma work_one_keeps [simp]: "px_initialized (work_one api steps s) = px_initialized s" "px_process (work_one api steps s) = None \<longleftrightarrow> px_process s = None"
  by (auto simp: work_one_def split: list.splits prod.splits)

lemma round_trip_unread:
  assumes "round_trip api steps ended request t s = (r, s1)" "px_process s \<noteq> None"
  shows "(\<exists>e. r = Inl e \<and> unread s1 = unread s @ [dget_or request ''job_id'' (VStr ''unknown'')]) \<or>
    (\<exists>message. r = Inr message \<and>
       vget message ''job_id'' # unread s1 = unread s @ [dget_or request ''job_id'' (VStr ''unknown'')])"
proof -
  let ?put = "s\<lparr> px_requests := px_requests s @ [request] \<rparr>"
  have put: "unread ?put = unread s @ [dget_or request ''job_id'' (VStr ''unknown'')]" by (simp add: unread_def)
  have same: "unread ((work_one api steps ^^ ended t) ?put) = unread ?put" by simp
  show ?thesis
  proof (cases "px_replies ((work_one api steps ^^ ended t) ?put)")
    case Nil
    then show ?thesis using assms same put by (auto simp: round_trip_def Let_def)
  next
    case (Cons message rest)
    then have "unread ((work_one api steps ^^ ended t) ?put) = vget message ''job_id'' #
        unread ((work_one api steps ^^ ended t) ?put\<lparr> px_replies := rest \<rparr>)" by (simp add: unread_def)
    then show ?thesis using assms Cons same put by (auto simp: round_trip_def Let_def)
  qed
qed

text \<open>An answer that stems from the proxy itself.\<close>

definition is_indeterminate :: "pv res \<Rightarrow> bool" where
  "is_indeterminate r \<longleftrightarrow> (case r of Inr (VDict d) \<Rightarrow> vget d ''verdict'' = VStr ''INDETERMINATE'' | _ \<Rightarrow> False)"

lemma is_indeterminate_result [simp]: "is_indeterminate (Inr (indeterminate_result reason))"
  by (simp add: is_indeterminate_def indeterminate_result_def vget_def dget_or_def)

lemma stale_answer:
  assumes "unread s \<noteq> []" "VStr job_id \<notin> set (unread s)" "list_all (\<lambda>v. \<exists>i. v = VStr i) (unread s)"
    and "proxy_validate api steps ended job_id st acts cons s = (r, s1)"
  shows "is_indeterminate r \<and> unread s1 \<noteq> [] \<and> set (unread s1) \<subseteq> insert (VStr job_id) (set (unread s)) \<and>
    list_all (\<lambda>v. \<exists>i. v = VStr i) (unread s1)"
proof (cases "is_initialized s")
  case False
  then show ?thesis using assms by (auto simp: proxy_validate_def bindE_def getE_def retE_def)
next
  case True
  let ?request = "validation_request job_id st acts cons"
  have id: "dget_or ?request ''job_id'' (VStr ''unknown'') = VStr job_id" by (simp add: validation_request_def dget_or_def)
  obtain m s2 where trip: "round_trip api steps ended ?request (px_timeout_s s) s = (m, s2)" by fastforce
  have "px_process s \<noteq> None" using True by (simp add: is_initialized_def)
  note cases = round_trip_unread [OF trip this, unfolded id]
  have run: "proxy_validate api steps ended job_id st acts cons s = (case m of
       Inl e \<Rightarrow> retE (indeterminate_result (''Worker communication error: '' @ exc_msg e))
     | Inr message \<Rightarrow>
         if \<not> py_eq (vget message ''job_id'') (VStr job_id) then retE (indeterminate_result ''Worker returned mismatched job_id'')
         else if truthy (vget message ''ok'') then liftE (py_getitem (VDict message) ''result'')
         else retE (indeterminate_result (''Worker error: '' @ py_str (vget message ''error'')))) s2"
    using True trip by (cases m) (simp_all add: proxy_validate_def bindE_def getE_def caught_Inr [THEN iffD2])
  show ?thesis
  proof (cases m)
    case (Inl e)
    then show ?thesis using run assms cases by (auto simp: retE_def)
  next
    case (Inr message)
    then have ids: "vget message ''job_id'' # unread s2 = unread s @ [VStr job_id]" using cases by auto
    then have head: "vget message ''job_id'' \<in> set (unread s)" "unread s2 = tl (unread s) @ [VStr job_id]"
      using assms(1) by (cases "unread s"; auto)+
    then have "\<not> py_eq (vget message ''job_id'') (VStr job_id)" using assms(2,3) by (auto simp: list_all_iff)
    then have "r = Inr (indeterminate_result ''Worker returned mismatched job_id'')" "s1 = s2"
      using run Inr assms(4) by (auto simp: retE_def)
    then show ?thesis using head assms(1,3) by (cases "unread s") auto
  qed
qed

text \<open>Validations one after another, each with its own schedule and its own id, and the work done between them.\<close>

record validation =
  va_ended :: "pnum \<Rightarrow> nat"
  va_between :: nat
  va_job_id :: string
  va_state :: "pv dict"
  va_actions :: "pv dict list"
  va_constraints :: "pv dict"

fun validate_all :: "'w isaac_api \<Rightarrow> nat \<Rightarrow> validation list \<Rightarrow> 'w proxy \<Rightarrow> pv res list \<times> 'w proxy" where
  "validate_all api steps [] s = ([], s)"
| "validate_all api steps (v # vs) s =
     (case proxy_validate api steps (va_ended v) (va_job_id v) (va_state v) (va_actions v) (va_constraints v)
         ((work_one api steps ^^ va_between v) s) of
       (r, s1) \<Rightarrow> (case validate_all api steps vs s1 of (rs, s2) \<Rightarrow> (r # rs, s2)))"

lemma stale_for_ever:
  "unread s \<noteq> [] \<Longrightarrow> list_all (\<lambda>v. \<exists>i. v = VStr i) (unread s) \<Longrightarrow> distinct (map va_job_id vs) \<Longrightarrow>
   set (unread s) \<inter> set (map (VStr \<circ> va_job_id) vs) = {} \<Longrightarrow> validate_all api steps vs s = (rs, s1) \<Longrightarrow>
   list_all is_indeterminate rs"
proof (induction vs arbitrary: s rs s1)
  case (Cons v vs)
  let ?s = "(work_one api steps ^^ va_between v) s"
  obtain r s2 where first: "proxy_validate api steps (va_ended v) (va_job_id v) (va_state v) (va_actions v) (va_constraints v) ?s = (r, s2)"
    by fastforce
  obtain rs1 s3 where rest: "validate_all api steps vs s2 = (rs1, s3)" by fastforce
  have "is_indeterminate r \<and> unread s2 \<noteq> [] \<and> set (unread s2) \<subseteq> insert (VStr (va_job_id v)) (set (unread s)) \<and>
      list_all (\<lambda>v. \<exists>i. v = VStr i) (unread s2)"
    using stale_answer [OF _ _ _ first] Cons.prems(1,2,4) by simp
  moreover have "set (unread s2) \<inter> set (map (VStr \<circ> va_job_id) vs) = {}"
  proof -
    have "VStr (va_job_id x) \<notin> insert (VStr (va_job_id v)) (set (unread s))" if "x \<in> set vs" for x
      using that Cons.prems(3,4) by (auto intro: rev_image_eqI)
    then show ?thesis using calculation by auto
  qed
  ultimately show ?case using Cons.IH [OF _ _ _ _ rest] Cons.prems(3,5) first rest by auto
qed simp

text \<open>C33: Once a call has timed out and its answer is still to come, every later validation answers INDETERMINATE, for any schedule and any number of calls: each call reads the answer to an earlier one.\<close>

theorem proxy_stays_behind:
  assumes "unread s \<noteq> []" "\<forall>v\<in>set (unread s). \<exists>i. v = VStr i"
    and "distinct (map va_job_id vs)" "set (unread s) \<inter> set (map (VStr \<circ> va_job_id) vs) = {}"
  shows "\<forall>r\<in>set (fst (validate_all api steps vs s)). is_indeterminate r"
  using stale_for_ever [of s vs api steps] assms by (cases "validate_all api steps vs s") (auto simp: list_all_iff)

text \<open>C32: In step with the worker, which ends the job in time, the proxy answers what the worker's run of this very request gives.\<close>

theorem proxy_in_step:
  assumes "unread s = []" "is_initialized s" "ended (px_timeout_s s) = Suc k"
    and "run_job api steps (validation_request job_id st acts cons) (px_worker s) = (Inr v, wk)"
  shows "\<exists>s1. proxy_validate api steps ended job_id st acts cons s = (Inr v, s1) \<and> unread s1 = []"
proof -
  let ?request = "validation_request job_id st acts cons"
  have empty: "px_requests s = []" "px_replies s = []" using assms(1) by (simp_all add: unread_def)
  have alive: "px_process s = Some True" using assms(2) by (simp add: is_initialized_def)
  define m where "m = [(''job_id'', VStr job_id), (''ok'', VBool True), (''result'', v)]"
  have worked: "work api steps ?request (px_worker s) = (m, wk)"
    using assms(4) by (simp add: work_def m_def validation_request_def dget_or_def)
  have kind: "vget ?request ''type'' \<noteq> VStr ''SHUTDOWN''" by (simp add: validation_request_def vget_def dget_or_def)
  let ?done = "s\<lparr> px_requests := [], px_replies := [m], px_worker := wk \<rparr>"
  have "work_one api steps (s\<lparr> px_requests := [?request] \<rparr>) = ?done"
    using alive empty worked kind by (simp add: work_one_def)
  moreover have "(work_one api steps ^^ n) ?done = ?done" for n by (induction n) (simp_all add: work_one_def)
  ultimately have "(work_one api steps ^^ Suc k) (s\<lparr> px_requests := [?request] \<rparr>) = ?done"
    by (simp add: funpow_Suc_right del: funpow.simps)
  then have "round_trip api steps ended ?request (px_timeout_s s) s = (Inr m, ?done\<lparr> px_replies := [] \<rparr>)"
    using alive empty assms(3) by (simp add: round_trip_def Let_def del: funpow.simps)
  then have "proxy_validate api steps ended job_id st acts cons s = (Inr v, ?done\<lparr> px_replies := [] \<rparr>)"
    using assms(2) by (simp add: proxy_validate_def bindE_def getE_def caught_Inr [THEN iffD2] m_def vget_def dget_or_def
        liftE_def py_getitem_def)
  then show ?thesis by (simp add: unread_def)
qed

text \<open>A proxy whose worker has one joint, in step and after a timeout.\<close>

definition demo_proxy :: "pv dict list \<Rightarrow> flt list proxy" where
  "demo_proxy requests = \<lparr> px_enabled = True, px_process = Some True, px_initialized = True, px_timeout_s = NI 30,
     px_requests = requests, px_replies = [],
     px_worker = \<lparr> wk_world = [Fin 0], wk_scene = VNone, wk_runtime_id = VNone, wk_meta = [], wk_joint_count = 1 \<rparr> \<rparr>"

definition demo_call :: "string \<Rightarrow> validation" where
  "demo_call i = \<lparr> va_ended = (\<lambda>t. 1), va_between = 1, va_job_id = i, va_state = [], va_actions = [demo_move],
     va_constraints = demo_joint_policy \<rparr>"

theorem proxy_stays_behind_witness:
  "unread (demo_proxy [validation_request ''a'' [] [demo_move] demo_joint_policy]) = [VStr ''a''] \<and>
   list_all is_indeterminate (fst (validate_all demo_robot 2 [demo_call ''b'', demo_call ''c'']
      (demo_proxy [validation_request ''a'' [] [demo_move] demo_joint_policy])))"
proof -
  let ?s = "demo_proxy [validation_request ''a'' [] [demo_move] demo_joint_policy]"
  have u: "unread ?s = [VStr ''a'']" by (simp add: unread_def demo_proxy_def validation_request_def dget_or_def)
  have "\<forall>r\<in>set (fst (validate_all demo_robot 2 [demo_call ''b'', demo_call ''c''] ?s)). is_indeterminate r"
    by (rule proxy_stays_behind) (simp_all add: u demo_call_def)
  with u show ?thesis by (simp add: list_all_iff)
qed

theorem proxy_in_step_witness:
  "\<exists>v s1. proxy_validate demo_robot 2 (\<lambda>t. 1) ''b'' [] [demo_move] demo_joint_policy (demo_proxy []) = (Inr v, s1) \<and>
     vget (as_dict v) ''verdict'' = VStr ''SAFE''"
proof -
  let ?run = "run_job demo_robot 2 (validation_request ''b'' [] [demo_move] demo_joint_policy) (px_worker (demo_proxy []))"
  have "(case ?run of (Inr v, wk) \<Rightarrow> vget (as_dict v) ''verdict'' = VStr ''SAFE'' | _ \<Rightarrow> False)" by code_simp
  then obtain v wk where v: "?run = (Inr v, wk)" "vget (as_dict v) ''verdict'' = VStr ''SAFE''"
    by (auto split: prod.splits sum.splits)
  have "unread (demo_proxy []) = []" "is_initialized (demo_proxy [])"
    by (simp_all add: unread_def is_initialized_def demo_proxy_def)
  from proxy_in_step [OF this _ v(1), of "\<lambda>t. 1" 0] v(2) show ?thesis by auto
qed

end
