(* ===== verification/SensorGateway.thy ===== *)
theory SensorGateway
  imports PlcRoutes Canonical
begin

section \<open>The sensor gateway (apps/sensor_gateway/routes.py, plugins/sensor)\<close>

text \<open>
  A snapshot is read from the source the asset is routed to: the PLC adapter, the Isaac simulation of the
  safety cluster, or, outside production, fixed data.  The composite is made at the first request.  The state
  is the composite and that of the HTTP client, \<open>'w\<close>.  The fixed data are handed out by reference, so taking the
  hash payload out of a snapshot takes it out of them.
\<close>

subsection \<open>The Isaac source\<close>

definition isaac_names :: "string \<Rightarrow> string \<Rightarrow> nat \<Rightarrow> string option" where
  "isaac_names joint_suffix finger_suffix i =
     (if i < 7 then Some (''joint_'' @ str_int (int i) @ joint_suffix)
      else if i = 7 then Some (''finger_joint_0'' @ finger_suffix)
      else if i = 8 then Some (''finger_joint_1'' @ finger_suffix) else None)"

text \<open>One list of the reply spread over single fields.\<close>

definition spread :: "pv dict \<Rightarrow> string \<Rightarrow> string \<Rightarrow> string \<Rightarrow> pv dict \<Rightarrow> pv dict" where
  "spread data key joint_suffix finger_suffix snapshot = (case dget data key of
     Some (VList xs) \<Rightarrow> fold (\<lambda>(i, v) s. case isaac_names joint_suffix finger_suffix i of
         Some k \<Rightarrow> dset k v s | None \<Rightarrow> s) (zip [0..<length xs] xs) snapshot
   | _ \<Rightarrow> snapshot)"

definition basis_keys :: "string list" where
  "basis_keys = [''joint_positions'', ''joint_0'', ''joint_1'', ''joint_2'', ''joint_3'', ''joint_4'', ''joint_5'', ''joint_6'',
     ''finger_joint_0'', ''finger_joint_1'', ''runtime_id'', ''scene_path'']"

definition integrity_basis :: "pv dict \<Rightarrow> pv dict" where
  "integrity_basis snapshot = concat (map (\<lambda>k. case dget snapshot k of Some v \<Rightarrow> [(k, v)] | None \<Rightarrow> []) basis_keys)"

definition payload_key :: string where
  "payload_key = ''__integrity_hash_payload''"

definition isaac_fields :: "pv dict \<Rightarrow> pv dict" where
  "isaac_fields data = spread data ''joint_efforts'' ''_effort'' ''_force''
     (spread data ''joint_velocities'' ''_velocity'' ''_velocity''
     (spread data ''joint_positions'' [] [] (ddel ''timestamp'' data)))"

definition isaac_snapshot :: "pv \<Rightarrow> pv dict res" where
  "isaac_snapshot reply = bindR (str_in ''error'' reply) (\<lambda>failed.
     if failed then bindR (py_getitem reply ''error'') (\<lambda>e. raise RuntimeError (''Isaac Sim returned error: '' @ py_str e))
     else bindR (py_items reply) (\<lambda>data. let snapshot = isaac_fields data in
       if snapshot = [] then raise RuntimeError ''Isaac Sim returned empty snapshot data''
       else Inr (dset payload_key (VDict (integrity_basis snapshot)) snapshot)))"

definition isaac_sensor_url :: "pv dict \<Rightarrow> string" where
  "isaac_sensor_url config = py_str (dget_or config ''safety_cluster_url'' (VStr ''http://localhost:8001'')) @ ''/v1/simulation/state''"

definition isaac_sensor_read :: "'w http_client \<Rightarrow> string \<Rightarrow> ('w, pv) eff" where
  "isaac_sensor_read http url = bindE (http ''GET'' url VNone) (\<lambda>resp.
     if rp_code resp \<noteq> 200 then throwE RuntimeError (''Isaac Sim returned status '' @ str_int (rp_code resp))
     else liftE (bindR (resp_json resp) (\<lambda>data. bindR (isaac_snapshot data) (\<lambda>s. Inr (VDict s)))))"

subsection \<open>The composite\<close>

datatype source = PlcSource (plc_url: string) | MockSource (mock_data: pv) | IsaacSource (isaac_url: string)

record composite =
  cp_sources :: "source dict"
  cp_routing :: "string dict"

definition mock_read :: "pv \<Rightarrow> string \<Rightarrow> pv res" where
  "mock_read data asset_id = bindR (str_in asset_id data) (\<lambda>known.
     if \<not> known then raise RuntimeError (''MockSensorSource: No mock data defined for asset '' @ quoted asset_id)
     else py_getitem data asset_id)"

text \<open>Where one asset is read; \<open>None\<close> leaves it without a source.\<close>

definition route_of :: "bool \<Rightarrow> string \<Rightarrow> pv \<Rightarrow> string option res" where
  "route_of production asset_id props =
     bindR (py_get props ''source'' (VStr ''auto'')) (\<lambda>preferred.
       if py_eq preferred (VStr ''isaac'') then Inr (Some ''isaac'')
       else if py_eq preferred (VStr ''mock'') then
         (if production then raise RuntimeError (''Asset '' @ asset_id @
              '' is configured to use MOCK source, which is forbidden in PRODUCTION.'')
          else Inr (Some ''mock''))
       else if py_eq preferred (VStr ''modbus'') then Inr (Some ''modbus'')
       else bindR (str_in ''mappings'' props) (\<lambda>mapped. Inr (if mapped then Some ''modbus'' else None)))"

definition build_routing :: "bool \<Rightarrow> pv dict \<Rightarrow> string dict res" where
  "build_routing production assets = foldR (\<lambda>(asset_id, props) routing.
     bindR (route_of production asset_id props) (\<lambda>r. Inr (case r of Some s \<Rightarrow> dset asset_id s routing | None \<Rightarrow> routing))) assets []"

definition composite_initialize :: "bool \<Rightarrow> pv dict res \<Rightarrow> pv \<Rightarrow> composite res" where
  "composite_initialize production urls config =
     bindR urls (\<lambda>u. if \<not> truthy (vget u ''plc_adapter'') then raise RuntimeError ''PLC Adapter URL not configured in services.yaml'' else
     bindR (adapter_url (VDict [(''plc_adapter_url'', vget u ''plc_adapter'')]) urls) (\<lambda>(plc, timeout).
     bindR (if production then Inr []
            else bindR (py_get config ''mock_data'' (VDict [])) (\<lambda>d. Inr [(''mock'', MockSource d)])) (\<lambda>mock.
     if \<not> truthy (vget u ''safety_cluster'') then raise RuntimeError ''Safety Cluster URL not configured in services.yaml'' else
     bindR (bindR (py_get config ''assets'' (VDict [])) py_items) (\<lambda>assets.
     bindR (build_routing production assets) (\<lambda>routing.
       Inr \<lparr> cp_sources = [(''modbus'', PlcSource plc)] @ mock @
               [(''isaac'', IsaacSource (isaac_sensor_url [(''safety_cluster_url'', vget u ''safety_cluster'')]))],
             cp_routing = routing \<rparr>)))))"

definition read_source :: "'w http_client \<Rightarrow> source \<Rightarrow> string \<Rightarrow> ('w, pv) eff" where
  "read_source http s asset_id = (case s of
     PlcSource url \<Rightarrow> plc_sensor_read http url asset_id
   | MockSource data \<Rightarrow> liftE (mock_read data asset_id)
   | IsaacSource url \<Rightarrow> isaac_sensor_read http url)"

definition composite_read :: "'w http_client \<Rightarrow> composite \<Rightarrow> string \<Rightarrow> ('w, pv) eff" where
  "composite_read http c asset_id =
     (case dget_or (cp_routing c) asset_id [] of
        [] \<Rightarrow> throwE RuntimeError (''No sensor source routed for asset '' @ asset_id)
      | key \<Rightarrow> (case dget (cp_sources c) key of
          None \<Rightarrow> throwE RuntimeError (''Sensor source '' @ quoted key @ '' not initialized'')
        | Some s \<Rightarrow> read_source http s asset_id))"

definition get_source_name :: "composite \<Rightarrow> string \<Rightarrow> string" where
  "get_source_name c asset_id = dget_or (cp_routing c) asset_id ''unknown''"

subsection \<open>The handler\<close>

record 'w sensor_gateway =
  sg_source :: "composite option"
  sg_http :: 'w

definition on_http :: "('w, 'a) eff \<Rightarrow> ('w sensor_gateway, 'a) eff" where
  "on_http m s = (case m (sg_http s) of (r, w) \<Rightarrow> (r, s\<lparr> sg_http := w \<rparr>))"

text \<open>The composite, made when there is none yet.\<close>

definition get_sensor_source :: "bool \<Rightarrow> pv dict res \<Rightarrow> pv res \<Rightarrow> ('w sensor_gateway, composite) eff" where
  "get_sensor_source production urls mappings = bindE (getE sg_source) (\<lambda>source. case source of
     Some c \<Rightarrow> retE c
   | None \<Rightarrow> bindE (liftE (bindR mappings (composite_initialize production urls))) (\<lambda>c.
       bindE (modE (\<lambda>s. s\<lparr> sg_source := Some c \<rparr>)) (\<lambda>_. retE c)))"

text \<open>\<open>sensor_data.pop(...)\<close>: the payload, the data without it, and the fixed data when they were read.\<close>

definition pop_payload :: "pv \<Rightarrow> (pv \<times> pv dict) res" where
  "pop_payload sensor_data = (case sensor_data of
     VDict d \<Rightarrow> Inr (vget d payload_key, ddel payload_key d)
   | VList xs \<Rightarrow> raise TypeError ''pop expected at most 1 argument, got 2''
   | _ \<Rightarrow> no_attr sensor_data ''pop'')"

definition forget_payload :: "string \<Rightarrow> composite \<Rightarrow> composite" where
  "forget_payload asset_id c = (case (dget (cp_routing c) asset_id, dget (cp_sources c) ''mock'') of
     (Some k, Some (MockSource (VDict data))) \<Rightarrow> (case (k = ''mock'', dget data asset_id) of
         (True, Some (VDict d)) \<Rightarrow> c\<lparr> cp_sources := dset ''mock''
             (MockSource (VDict (dset asset_id (VDict (ddel payload_key d)) data))) (cp_sources c) \<rparr>
       | _ \<Rightarrow> c)
   | _ \<Rightarrow> c)"

definition hash_basis :: "pv \<Rightarrow> pv dict \<Rightarrow> pv" where
  "hash_basis payload sensor_data = (if is_dict payload \<and> truthy payload then payload else VDict sensor_data)"

definition is_hash :: "string \<Rightarrow> bool" where
  "is_hash s \<longleftrightarrow> length s = 64 \<and> list_all (\<lambda>c. is_digit c \<or> c \<in> set ''abcdefABCDEF'') s"

definition snapshot_response :: "string \<Rightarrow> int \<Rightarrow> pv dict \<Rightarrow> string \<Rightarrow> pv res" where
  "snapshot_response asset_id timestamp_ms sensor_data snapshot_hash =
     (if \<not> is_hash snapshot_hash then validation_error ''SensorSnapshotResponse''
      else Inr (VDict [(''asset_id'', VStr asset_id), (''snapshot_id'', VStr (''snap_'' @ str_int timestamp_ms)),
        (''timestamp_ms'', VInt timestamp_ms), (''sensor_snapshot'', VDict sensor_data),
        (''sensor_snapshot_hash'', VStr snapshot_hash),
        (''sensor_reliability_index'', VFloat (Fin (if sensor_data \<noteq> [] then rnd64 (95 / 100) else 0)))]))"

definition get_latest_snapshot ::
  "'w http_client \<Rightarrow> (string \<Rightarrow> string) \<Rightarrow> bool \<Rightarrow> pv dict res \<Rightarrow> pv res \<Rightarrow> int \<Rightarrow> string \<Rightarrow> ('w sensor_gateway, pv) eff" where
  "get_latest_snapshot http sha production urls mappings now asset_id =
     bindE (tryE
       (bindE (get_sensor_source production urls mappings) (\<lambda>c.
        bindE (on_http (composite_read http c asset_id)) (\<lambda>v.
        bindE (liftE (pop_payload v)) (\<lambda>(payload, sensor_data).
        bindE (modE (\<lambda>s. s\<lparr> sg_source := map_option (forget_payload asset_id) (sg_source s) \<rparr>)) (\<lambda>_.
          retE (sensor_data, compute_sensor_hash sha (hash_basis payload sensor_data)))))))
       (\<lambda>e. liftE (http_error 500 (''Sensor read failed: '' @ exc_msg e)))) (\<lambda>(sensor_data, snapshot_hash).
     liftE (snapshot_response asset_id now sensor_data snapshot_hash))"

subsection \<open>Routing\<close>

definition served :: "bool \<Rightarrow> string \<Rightarrow> bool" where
  "served production s \<longleftrightarrow> s \<in> {''isaac'', ''mock'', ''modbus''} \<and> (production \<longrightarrow> s \<noteq> ''mock'')"

lemma route_of_served: "route_of production asset_id props = Inr (Some s) \<Longrightarrow> served production s"
  unfolding served_def by (auto simp: route_of_def split: if_splits)

lemma routing_served:
  "foldR (\<lambda>(asset_id, props) routing. bindR (route_of production asset_id props)
      (\<lambda>r. Inr (case r of Some s \<Rightarrow> dset asset_id s routing | None \<Rightarrow> routing))) assets r0 = Inr r1 \<Longrightarrow>
   (\<And>a s. dget r0 a = Some s \<Longrightarrow> served production s) \<Longrightarrow> dget r1 a = Some s \<Longrightarrow> served production s"
proof (induction assets arbitrary: r0)
  case (Cons entry assets)
  obtain b props where entry: "entry = (b, props)" by (cases entry)
  obtain r where r: "route_of production b props = Inr r" using Cons.prems(1) entry by auto
  let ?r0 = "case r of Some s \<Rightarrow> dset b s r0 | None \<Rightarrow> r0"
  have "served production t" if "dget ?r0 c = Some t" for c t
    using that Cons.prems(2) r by (cases r) (auto split: if_splits dest: route_of_served)
  then show ?case using Cons.IH [of ?r0] Cons.prems(1,3) entry r by simp
qed simp

lemma build_routing_served:
  "build_routing production assets = Inr routing \<Longrightarrow> dget routing asset_id = Some s \<Longrightarrow> served production s"
  unfolding build_routing_def by (erule routing_served) simp_all

text \<open>In every composite that is made, each routed asset has its source; in production none is read from fixed data.\<close>

theorem composite_routes_served:
  assumes "composite_initialize production urls config = Inr c" "dget (cp_routing c) asset_id = Some key"
  shows "\<exists>s. dget (cp_sources c) key = Some s \<and> composite_read http c asset_id = read_source http s asset_id \<and>
    (production \<longrightarrow> (\<forall>d. s \<noteq> MockSource d))"
proof -
  obtain assets plc u where r: "build_routing production assets = Inr (cp_routing c)" and
    src: "(production \<longrightarrow> cp_sources c = [(''modbus'', PlcSource plc),
        (''isaac'', IsaacSource (isaac_sensor_url [(''safety_cluster_url'', vget u ''safety_cluster'')]))]) \<and>
      (\<not> production \<longrightarrow> (\<exists>d. cp_sources c = [(''modbus'', PlcSource plc), (''mock'', MockSource d),
        (''isaac'', IsaacSource (isaac_sensor_url [(''safety_cluster_url'', vget u ''safety_cluster'')]))]))"
    using assms(1) by (auto simp: composite_initialize_def split: if_splits)
  have key: "key \<in> {''isaac'', ''mock'', ''modbus''}" "production \<longrightarrow> key \<noteq> ''mock''"
    using build_routing_served [OF r assms(2)] unfolding served_def by blast+
  have read: "composite_read http c asset_id = read_source http s asset_id" if "dget (cp_sources c) key = Some s" for s
    using that assms(2) key by (cases key) (auto simp: composite_read_def dget_or_def)
  show ?thesis using src key read by (cases production) auto
qed

definition demo_urls :: "pv dict res" where
  "demo_urls = Inr [(''plc_adapter'', VStr ''http://plc/''), (''safety_cluster'', VStr ''http://safety'')]"

definition demo_sensor_config :: pv where
  "demo_sensor_config = VDict [(''assets'', VDict [(''reactor_01'', VDict [(''source'', VStr ''modbus'')]),
     (''robot_arm_01'', VDict [(''source'', VStr ''isaac'')])])]"

theorem composite_routes_served_witness:
  "\<exists>c s. composite_initialize True demo_urls demo_sensor_config = Inr c \<and> dget (cp_sources c) ''isaac'' = Some s \<and>
     (\<forall>d. s \<noteq> MockSource d)"
proof -
  have "(case composite_initialize True demo_urls demo_sensor_config of Inr c \<Rightarrow> dget (cp_routing c) ''robot_arm_01'' = Some ''isaac''
      | _ \<Rightarrow> False)" by code_simp
  then obtain c where c: "composite_initialize True demo_urls demo_sensor_config = Inr c" "dget (cp_routing c) ''robot_arm_01'' = Some ''isaac''"
    by (auto split: sum.splits)
  show ?thesis using composite_routes_served [OF c] c(1) by blast
qed

subsection \<open>The hash of a snapshot\<close>

text \<open>A snapshot that is answered comes from the asset's source; its hash is that of the payload the source names for it, or, when it names none, of the very data that are answered.\<close>

theorem snapshot_hash_basis:
  assumes "get_latest_snapshot http sha production urls mappings now asset_id s = (Inr reply, s1)" "sg_source s = Some c"
  shows "\<exists>v data payload w. composite_read http c asset_id (sg_http s) = (Inr v, w) \<and> pop_payload v = Inr (payload, data) \<and>
    vget (as_dict reply) ''sensor_snapshot'' = VDict data \<and>
    vget (as_dict reply) ''sensor_snapshot_hash'' = VStr (compute_sensor_hash sha
      (if is_dict payload \<and> truthy payload then payload else VDict data))"
proof -
  obtain v w payload data where r: "composite_read http c asset_id (sg_http s) = (Inr v, w)" "pop_payload v = Inr (payload, data)"
      "snapshot_response asset_id now data (compute_sensor_hash sha (hash_basis payload data)) = Inr reply"
    using assms unfolding get_latest_snapshot_def get_sensor_source_def
    by (auto simp: bindE_Inr tryE_def liftE_def retE_def getE_def modE_def bindE_def on_http_def http_error_def
        split: prod.splits sum.splits)
  from r(3) have "vget (as_dict reply) ''sensor_snapshot'' = VDict data \<and>
      vget (as_dict reply) ''sensor_snapshot_hash'' = VStr (compute_sensor_hash sha (hash_basis payload data))"
    by (auto simp: snapshot_response_def validation_error_def vget_def dget_or_def split: if_splits)
  with r show ?thesis by (auto simp: hash_basis_def)
qed

text \<open>A plant of one sensor behind the PLC adapter, and a stand-in for SHA-256 of the right form.\<close>

definition demo_sha :: "string \<Rightarrow> string" where
  "demo_sha data = replicate 64 CHR ''a''"

definition demo_adapter :: "unit http_client" where
  "demo_adapter meth url body = retE (Reply 200 (Some (VDict [(''sensor_snapshot'', VDict [(''temperature'', VInt 150)])])))"

definition demo_sensors :: composite where
  "demo_sensors = \<lparr> cp_sources = [(''modbus'', PlcSource ''http://plc'')], cp_routing = [(''reactor_01'', ''modbus'')] \<rparr>"

theorem snapshot_hash_basis_witness:
  "\<exists>reply. fst (get_latest_snapshot demo_adapter demo_sha True demo_urls (Inr demo_sensor_config) 5 ''reactor_01''
       \<lparr> sg_source = Some demo_sensors, sg_http = () \<rparr>) = Inr reply \<and>
     (\<exists>v data payload. pop_payload v = Inr (payload, data) \<and> vget (as_dict reply) ''sensor_snapshot'' = VDict data \<and>
       vget (as_dict reply) ''sensor_snapshot_hash'' = VStr (compute_sensor_hash demo_sha
         (if is_dict payload \<and> truthy payload then payload else VDict data)))"
proof -
  let ?s = "\<lparr> sg_source = Some demo_sensors, sg_http = () \<rparr>"
  let ?run = "get_latest_snapshot demo_adapter demo_sha True demo_urls (Inr demo_sensor_config) 5 ''reactor_01'' ?s"
  have "\<not> isl (fst ?run)" by code_simp
  then obtain reply s1 where r: "?run = (Inr reply, s1)" by (cases ?run; cases "fst ?run") auto
  then have "fst ?run = Inr reply" by simp
  moreover have "sg_source ?s = Some demo_sensors" by simp
  ultimately show ?thesis using snapshot_hash_basis [OF r] by blast
qed

text \<open>Fields named after velocities, efforts and forces are not part of the basis.\<close>

lemma last_of_basis: "k \<in> set basis_keys \<Longrightarrow> last k \<notin> set ''yet''"
  by (auto simp: basis_keys_def)

lemma motion_not_basis:
  "isaac_names j f i = Some k \<Longrightarrow> (j, f) \<in> {(''_velocity'', ''_velocity''), (''_effort'', ''_force'')} \<Longrightarrow> k \<notin> set basis_keys"
  using last_of_basis [of k] by (auto simp: isaac_names_def split: if_splits)

lemma fold_spread_other:
  assumes "\<And>i. isaac_names j f i \<noteq> Some k"
  shows "dget (fold (\<lambda>(i, v) s. case isaac_names j f i of Some k \<Rightarrow> dset k v s | None \<Rightarrow> s) ivs s) k = dget s k"
proof (induction ivs arbitrary: s)
  case (Cons iv ivs)
  then show ?case using assms by (cases iv; cases "isaac_names j f (fst iv)") auto
qed simp

lemma spread_motion:
  "k \<in> set basis_keys \<Longrightarrow> (j, f) \<in> {(''_velocity'', ''_velocity''), (''_effort'', ''_force'')} \<Longrightarrow>
   dget (spread data key j f s) k = dget s k"
  unfolding spread_def using fold_spread_other [of j f k] motion_not_basis [of j f _ k]
  by (auto split: option.split pv.split)

lemma fold_spread_same:
  "dget s k = dget t k \<Longrightarrow>
   dget (fold (\<lambda>(i, v) s. case isaac_names j f i of Some k \<Rightarrow> dset k v s | None \<Rightarrow> s) ivs s) k =
   dget (fold (\<lambda>(i, v) s. case isaac_names j f i of Some k \<Rightarrow> dset k v s | None \<Rightarrow> s) ivs t) k"
proof (induction ivs arbitrary: s t)
  case (Cons iv ivs)
  obtain i v where iv: "iv = (i, v)" by (cases iv)
  let ?f = "\<lambda>s. case isaac_names j f i of Some k \<Rightarrow> dset k v s | None \<Rightarrow> s"
  have "dget (?f s) k = dget (?f t) k" using Cons.prems by (cases "isaac_names j f i") simp_all
  from Cons.IH [OF this] show ?case by (simp add: iv)
qed simp

lemma isaac_basis_field:
  assumes "k \<in> set basis_keys"
  shows "dget (isaac_fields data) k = dget (spread data ''joint_positions'' [] [] (ddel ''timestamp'' data)) k"
  unfolding isaac_fields_def using spread_motion [OF assms] by simp

lemma basis_of_motion:
  assumes "m \<in> {''joint_velocities'', ''joint_efforts''}"
  shows "integrity_basis (isaac_fields (dset m v data)) = integrity_basis (isaac_fields data)"
proof -
  have "dget (isaac_fields (dset m v data)) k = dget (isaac_fields data) k" if k: "k \<in> set basis_keys" for k
  proof -
    have m: "m \<noteq> k" "m \<noteq> ''joint_positions''" using assms k by (auto simp: basis_keys_def)
    have "dget (ddel ''timestamp'' (dset m v data)) k = dget (ddel ''timestamp'' data) k" using m by simp
    from fold_spread_same [OF this] m this show ?thesis
      unfolding isaac_basis_field [OF k] spread_def by (auto split: option.split pv.split)
  qed
  then show ?thesis unfolding integrity_basis_def by (intro arg_cong [of _ _ concat] map_cong) auto
qed

lemma isaac_snapshot_Inr:
  assumes "isaac_snapshot (VDict data) = Inr s"
  shows "vget s payload_key = VDict (integrity_basis (isaac_fields data))"
  using assms by (auto simp: isaac_snapshot_def Let_def py_items_def vget_def dget_or_def split: if_splits)

text \<open>The hash that stands for a robot's state does not see its motion: replies of the simulation that differ in the joint velocities or efforts only are answered with the same hash.\<close>

theorem isaac_hash_ignores_motion:
  assumes "m \<in> {''joint_velocities'', ''joint_efforts''}" "dget data ''joint_positions'' = Some p"
    and "isaac_snapshot (VDict data) = Inr s" "isaac_snapshot (VDict (dset m v data)) = Inr t"
  shows "compute_sensor_hash sha (hash_basis (vget t payload_key) (ddel payload_key t)) =
    compute_sensor_hash sha (hash_basis (vget s payload_key) (ddel payload_key s))"
proof -
  have "dget (isaac_fields data) ''joint_positions'' \<noteq> None"
  proof -
    have no: "isaac_names [] [] i \<noteq> Some ''joint_positions''" for i
    proof
      assume "isaac_names [] [] i = Some ''joint_positions''"
      then have "i < 7" "str_int (int i) = ''positions''" by (auto simp: isaac_names_def split: if_splits)
      moreover have "hd (str_int (int i)) \<noteq> CHR ''p''"
        using dec_digits [of "hd (dec (int i))" "int i"] by (auto simp: str_int_def is_digit_def)
      ultimately show False by simp
    qed
    have key: "''joint_positions'' \<in> set basis_keys" by (simp add: basis_keys_def)
    show ?thesis using assms(2) unfolding isaac_basis_field [OF key] spread_def
      by (cases p) (simp_all add: fold_spread_other [OF no])
  qed
  then have "integrity_basis (isaac_fields data) \<noteq> []" by (auto simp: integrity_basis_def basis_keys_def)
  then show ?thesis
    using isaac_snapshot_Inr [OF assms(3)] isaac_snapshot_Inr [OF assms(4)] basis_of_motion [OF assms(1)]
    by (simp add: hash_basis_def)
qed

theorem isaac_hash_ignores_motion_witness:
  "\<exists>s t. isaac_snapshot (VDict [(''joint_positions'', VList [VInt 1]), (''joint_velocities'', VList [VInt 0])]) = Inr s \<and>
     isaac_snapshot (VDict (dset ''joint_velocities'' (VList [VInt 99])
       [(''joint_positions'', VList [VInt 1]), (''joint_velocities'', VList [VInt 0])])) = Inr t \<and>
     dget s ''joint_0_velocity'' \<noteq> dget t ''joint_0_velocity'' \<and>
     compute_sensor_hash demo_sha (hash_basis (vget t payload_key) (ddel payload_key t)) =
     compute_sensor_hash demo_sha (hash_basis (vget s payload_key) (ddel payload_key s))"
proof -
  let ?d = "[(''joint_positions'', VList [VInt 1]), (''joint_velocities'', VList [VInt 0])]"
  have "(case (isaac_snapshot (VDict ?d), isaac_snapshot (VDict (dset ''joint_velocities'' (VList [VInt 99]) ?d))) of
      (Inr s, Inr t) \<Rightarrow> dget s ''joint_0_velocity'' = Some (VInt 0) \<and> dget t ''joint_0_velocity'' = Some (VInt 99) | _ \<Rightarrow> False)" by code_simp
  then obtain s t where st: "isaac_snapshot (VDict ?d) = Inr s" "isaac_snapshot (VDict (dset ''joint_velocities'' (VList [VInt 99]) ?d)) = Inr t"
    "dget s ''joint_0_velocity'' = Some (VInt 0)" "dget t ''joint_0_velocity'' = Some (VInt 99)" by (auto split: sum.splits)
  from isaac_hash_ignores_motion [of "''joint_velocities''" ?d "VList [VInt 1]" s "VList [VInt 99]" t demo_sha] st
  show ?thesis by (intro exI [of _ s] exI [of _ t]) auto
qed

end
