(* ===== verification/ModbusPlugins.thy ===== *)
theory ModbusPlugins
  imports PlcAdapter
begin

section \<open>The direct Modbus plugins (plugins/executor/modbus_executor.py, plugins/sensor/modbus_sensor.py)\<close>

text \<open>
  The executor and the sensor source that talk to a device themselves.  The client calls of pymodbus are the
  operations \<open>modbus_ops\<close> on the device, \<open>'d\<close>; there is one client, so its key is the empty text.
\<close>

record 'd modbus_executor =
  mx_installed :: bool
  mx_client :: bool
  mx_connected :: bool
  mx_host :: pv
  mx_port :: pv
  mx_safe_state_actions :: pv
  mx_action_mappings :: pv
  mx_last_error :: "string option"
  mx_dev :: 'd

definition on_dev :: "('d, 'a) eff \<Rightarrow> ('d modbus_executor, 'a) eff" where
  "on_dev m s = (case m (mx_dev s) of (r, d) \<Rightarrow> (r, s\<lparr> mx_dev := d \<rparr>))"

definition set_error :: "string option \<Rightarrow> ('d modbus_executor, unit) eff" where
  "set_error e = modE (\<lambda>s. s\<lparr> mx_last_error := e \<rparr>)"

subsection \<open>Connecting\<close>

definition executor_connect :: "'d modbus_ops \<Rightarrow> ('d modbus_executor, bool) eff" where
  "executor_connect ops = bindE (getE mx_installed) (\<lambda>installed.
     if \<not> installed then bindE (set_error (Some ''pymodbus not installed'')) (\<lambda>_. retE False)
     else tryE
       (bindE (getE mx_client) (\<lambda>old. bindE (if old then on_dev (mb_close ops []) else retE ()) (\<lambda>_.
        bindE (modE (\<lambda>s. s\<lparr> mx_client := True \<rparr>)) (\<lambda>_.
        bindE (getE (\<lambda>s. (mx_host s, mx_port s))) (\<lambda>(host, port).
        bindE (on_dev (mb_connect ops host port)) (\<lambda>ok.
        bindE (modE (\<lambda>s. s\<lparr> mx_connected := ok \<rparr>)) (\<lambda>_.
        bindE (set_error (if ok then None else Some (''Failed to connect to '' @ py_str host @ '':'' @ py_str port)))
          (\<lambda>_. retE ok))))))))
       (\<lambda>e. bindE (modE (\<lambda>s. s\<lparr> mx_connected := False, mx_last_error := Some (exc_msg e) \<rparr>)) (\<lambda>_. retE False)))"

definition executor_initialize :: "'d modbus_ops \<Rightarrow> pv dict \<Rightarrow> ('d modbus_executor, unit) eff" where
  "executor_initialize ops config = bindE (getE mx_installed) (\<lambda>installed.
     if \<not> installed then set_error (Some ''pymodbus not installed'')
     else bindE (modE (\<lambda>s. s\<lparr> mx_host := dget_or config ''host'' (VStr ''127.0.0.1''), mx_port := dget_or config ''port'' (VInt 503),
         mx_safe_state_actions := dget_or config ''safe_state_actions'' (VDict []),
         mx_action_mappings := dget_or config ''action_mappings'' (VDict []) \<rparr>)) (\<lambda>_.
       bindE (executor_connect ops) (\<lambda>_. retE ())))"

definition ensure_connected :: "'d modbus_ops \<Rightarrow> ('d modbus_executor, bool) eff" where
  "ensure_connected ops = bindE (getE mx_connected) (\<lambda>ok. if ok then retE True else executor_connect ops)"

subsection \<open>Actions\<close>

text \<open>\<open>params[name]\<close>\<close>

definition py_item :: "pv \<Rightarrow> pv \<Rightarrow> pv res" where
  "py_item v k = (case (v, k) of
     (VDict d, VStr s) \<Rightarrow> py_getitem v s
   | (VDict d, _) \<Rightarrow> if unhashable k then unhashable_error k else raise KeyError (py_repr k)
   | _ \<Rightarrow> bad_index v ''is not subscriptable'')"

definition low_level :: "pv \<Rightarrow> pv \<Rightarrow> pv" where
  "low_level register value = VDict [(''type'', VStr ''write_register''), (''register'', register), (''value'', value)]"

definition translate_one :: "pv \<Rightarrow> pv \<Rightarrow> pv \<Rightarrow> pv res" where
  "translate_one action_type params mapping =
     bindR (py_getitem mapping ''param'') (\<lambda>param_name. bindR (py_getitem mapping ''register'') (\<lambda>register.
     bindR (py_get mapping ''scale'' (VFloat (Fin 1))) (\<lambda>scale.
     bindR (pv_in param_name params) (\<lambda>given.
       if \<not> given then bindR (py_keys params) (\<lambda>ks. raise ValueError (''Action param '' @ quoted (py_str param_name) @
         '' not found in params '' @ py_repr (VList ks) @ '' for action_type='' @ py_str action_type))
       else bindR (py_item params param_name) (\<lambda>raw_value. bindR (py_float raw_value) (\<lambda>f.
         bindR (arith_op ''*'' nmul (VFloat f) scale) (\<lambda>n. bindR (py_int (of_num n)) (\<lambda>scaled_value.
           Inr (low_level register (VInt scaled_value))))))))))"

definition translate_action :: "pv \<Rightarrow> string \<Rightarrow> pv \<Rightarrow> pv list res" where
  "translate_action action_mappings asset_id action =
     bindR (py_get action ''action_type'' (VStr [])) (\<lambda>action_type. bindR (py_get action ''params'' (VDict [])) (\<lambda>params.
     bindR (py_get action_mappings asset_id (VDict [])) (\<lambda>asset_mappings.
     bindR (py_getv asset_mappings action_type (VList [])) (\<lambda>type_mappings.
       if \<not> truthy type_mappings then bindR (py_keys asset_mappings) (\<lambda>ks. raise ValueError (''No action_mapping found for asset='' @
         asset_id @ '', action_type='' @ py_str action_type @ ''. Available: '' @ py_repr (VList ks)))
       else bindR (py_iter type_mappings) (mapR (translate_one action_type params))))))"

text \<open>The words to be written by \<open>write_registers\<close>.\<close>

definition words_of :: "pv \<Rightarrow> pv res" where
  "words_of action = bindR (py_get action ''values'' VNone) (\<lambda>given.
     if given \<noteq> VNone then Inr given
     else (let d = as_dict action; value = vget d ''value''; dtype = dget_or d ''data_type'' (VStr ''uint16'') in
       if value \<noteq> VNone \<and> py_eq dtype (VStr ''float32'')
       then bindR (py_float value) (\<lambda>f. case pack_float32 f of
           None \<Rightarrow> raise OverflowError ''float too large to pack with f format''
         | Some w \<Rightarrow> Inr (VList [VInt (uint (high16 w)), VInt (uint (low16 w))]))
       else raise ValueError (''Missing '' @ quoted ''values'' @ '' or '' @ quoted ''value'' @ ''/'' @ quoted ''data_type'' @
         '' in action: '' @ py_repr action)))"

definition write_result :: "modbus_reply \<Rightarrow> unit res" where
  "write_result r = (case r of MbError m \<Rightarrow> raise RuntimeError (''Modbus write error: '' @ m) | MbRegisters rs \<Rightarrow> Inr ())"

text \<open>One low-level action: every exception becomes \<open>False\<close> and the last error.\<close>

definition execute_single_action :: "'d modbus_ops \<Rightarrow> pv \<Rightarrow> ('d modbus_executor, bool) eff" where
  "execute_single_action ops action = tryE
     (bindE (liftE (py_get action ''type'' VNone)) (\<lambda>action_type.
      bindE (liftE (py_get action ''register'' VNone)) (\<lambda>register.
      if register = VNone then throwE ValueError (''Missing '' @ quoted ''register'' @ '' in action: '' @ py_repr action)
      else if py_eq action_type (VStr ''write_register'') then
        bindE (liftE (py_get action ''value'' VNone)) (\<lambda>value.
        if value = VNone then throwE ValueError (''Missing '' @ quoted ''value'' @ '' in action: '' @ py_repr action)
        else bindE (liftE (py_int value)) (\<lambda>i. bindE (on_dev (mb_write_register ops [] register i)) (\<lambda>r.
          bindE (liftE (write_result r)) (\<lambda>_. bindE (set_error None) (\<lambda>_. retE True)))))
      else if py_eq action_type (VStr ''write_registers'') then
        bindE (liftE (words_of action)) (\<lambda>words. bindE (on_dev (mb_write_registers ops [] register words)) (\<lambda>r.
          bindE (liftE (write_result r)) (\<lambda>_. bindE (set_error None) (\<lambda>_. retE True))))
      else bindE (set_error (Some (''Unknown action type: '' @ py_str action_type))) (\<lambda>_. retE False))))
     (\<lambda>e. bindE (set_error (Some (exc_msg e))) (\<lambda>_. retE False))"

text \<open>The writes an action is translated to, up to the first that fails.\<close>

fun write_until_failure :: "'d modbus_ops \<Rightarrow> pv list \<Rightarrow> ('d modbus_executor, bool) eff" where
  "write_until_failure ops [] = retE True"
| "write_until_failure ops (a # as) = bindE (execute_single_action ops a) (\<lambda>ok.
     if ok then write_until_failure ops as else retE False)"

definition is_low_level :: "pv \<Rightarrow> bool res" where
  "is_low_level action = bindR (str_in ''type'' action) (\<lambda>t. if t then str_in ''register'' action else Inr False)"

text \<open>The loop over the actions: the outcome of an action that is already low-level is dropped.\<close>

fun execute_actions :: "'d modbus_ops \<Rightarrow> string \<Rightarrow> pv list \<Rightarrow> ('d modbus_executor, bool) eff" where
  "execute_actions ops asset_id [] = retE True"
| "execute_actions ops asset_id (action # actions) =
     bindE (liftE (is_low_level action)) (\<lambda>low.
     if low then bindE (execute_single_action ops action) (\<lambda>_. execute_actions ops asset_id actions)
     else bindE (getE (\<lambda>s. translate_action (mx_action_mappings s) asset_id action)) (\<lambda>t. case t of
         Inl e \<Rightarrow> if exc_kind e = ValueError then bindE (set_error (Some (exc_msg e))) (\<lambda>_. retE False) else rethrowE e
       | Inr low_level_actions \<Rightarrow> bindE (write_until_failure ops low_level_actions) (\<lambda>ok.
           if ok then execute_actions ops asset_id actions else retE False)))"

definition modbus_execute :: "'d modbus_ops \<Rightarrow> string \<Rightarrow> pv list \<Rightarrow> ('d modbus_executor, bool) eff" where
  "modbus_execute ops asset_id action_sequence =
     bindE (set_error None) (\<lambda>_. bindE (ensure_connected ops) (\<lambda>ok.
       if ok then execute_actions ops asset_id action_sequence else retE False))"

definition modbus_safe_state :: "'d modbus_ops \<Rightarrow> string \<Rightarrow> ('d modbus_executor, bool) eff" where
  "modbus_safe_state ops asset_id =
     bindE (getE mx_safe_state_actions) (\<lambda>all. bindE (liftE (py_get all asset_id VNone)) (\<lambda>actions.
       if \<not> truthy actions
       then bindE (set_error (Some (''No safe state actions defined for '' @ asset_id))) (\<lambda>_.
         throwE RuntimeError (''No safe state actions defined for '' @ asset_id))
       else bindE (liftE (py_iter actions)) (modbus_execute ops asset_id)))"

definition executor_shutdown :: "'d modbus_ops \<Rightarrow> ('d modbus_executor, unit) eff" where
  "executor_shutdown ops = bindE (getE mx_client) (\<lambda>c. bindE (if c then on_dev (mb_close ops []) else retE ()) (\<lambda>_.
     modE (\<lambda>s. s\<lparr> mx_connected := False \<rparr>)))"

subsection \<open>The sensor source\<close>

record 'd modbus_sensor =
  ms_installed :: bool
  ms_client :: bool
  ms_connected :: bool
  ms_host :: pv
  ms_port :: pv
  ms_config :: pv
  ms_sensor_dev :: 'd

definition on_sensor_dev :: "('d, 'a) eff \<Rightarrow> ('d modbus_sensor, 'a) eff" where
  "on_sensor_dev m s = (case m (ms_sensor_dev s) of (r, d) \<Rightarrow> (r, s\<lparr> ms_sensor_dev := d \<rparr>))"

text \<open>Importing pymodbus, making the client and connecting it, where an exception is an outcome too.\<close>

definition sensor_connect :: "'d modbus_ops \<Rightarrow> ('d modbus_sensor, bool) eff" where
  "sensor_connect ops = bindE (getE ms_installed) (\<lambda>installed.
     if \<not> installed then throwE RuntimeError ''No module named pymodbus''
     else bindE (modE (\<lambda>s. s\<lparr> ms_client := True \<rparr>)) (\<lambda>_. bindE (getE (\<lambda>s. (ms_host s, ms_port s))) (\<lambda>(host, port).
       bindE (on_sensor_dev (mb_connect ops host port)) (\<lambda>ok.
       bindE (modE (\<lambda>s. s\<lparr> ms_connected := ok \<rparr>)) (\<lambda>_. retE ok)))))"

definition sensor_initialize :: "'d modbus_ops \<Rightarrow> pv dict \<Rightarrow> ('d modbus_sensor, unit) eff" where
  "sensor_initialize ops config =
     bindE (modE (\<lambda>s. s\<lparr> ms_config := VDict config, ms_host := dget_or config ''host'' (VStr ''127.0.0.1''),
         ms_port := dget_or config ''port'' (VInt 503) \<rparr>)) (\<lambda>_.
     tryE (bindE (sensor_connect ops) (\<lambda>_. retE ())) (\<lambda>e. modE (\<lambda>s. s\<lparr> ms_connected := False \<rparr>)))"

text \<open>Up to three attempts, each closing the old client first; waiting in between has no effect on the model.\<close>

definition reconnect_once :: "'d modbus_ops \<Rightarrow> ('d modbus_sensor, bool) eff" where
  "reconnect_once ops = tryE
     (bindE (getE ms_client) (\<lambda>c. bindE (if c then tryE (on_sensor_dev (mb_close ops [])) (\<lambda>e. retE ()) else retE ())
       (\<lambda>_. sensor_connect ops)))
     (\<lambda>e. retE False)"

fun reconnect :: "'d modbus_ops \<Rightarrow> nat \<Rightarrow> ('d modbus_sensor, bool) eff" where
  "reconnect ops 0 = bindE (modE (\<lambda>s. s\<lparr> ms_connected := False \<rparr>)) (\<lambda>_. retE False)"
| "reconnect ops (Suc n) = bindE (reconnect_once ops) (\<lambda>ok. if ok then retE True else reconnect ops n)"

abbreviation max_reconnect_attempts :: nat where "max_reconnect_attempts \<equiv> 3"

definition scaled_value :: "pv dict \<Rightarrow> int \<Rightarrow> pv res" where
  "scaled_value mapping value = (case dget mapping ''scale'' of
     None \<Rightarrow> Inr (VInt value)
   | Some scale \<Rightarrow> bindR (arith_op ''*'' nmul (VInt value) scale) (\<lambda>n. Inr (of_num (nround 3 n))))"

definition field_value :: "pv dict \<Rightarrow> int list \<Rightarrow> pv res" where
  "field_value mapping registers = (let dtype = map_dtype mapping in
     if is_float32_pair mapping
     then bindR (reg_at registers 0) (\<lambda>r0. bindR (reg_at registers 1) (\<lambda>r1. bindR (ushort r0) (\<lambda>h. bindR (ushort r1) (\<lambda>l.
       Inr (VFloat (fround 3 (unpack_float32 (join16 h l))))))))
     else bindR (reg_at registers 0) (\<lambda>r0.
       if py_eq dtype (VStr ''uint16'') then scaled_value mapping r0
       else if py_eq dtype (VStr ''int16'') then scaled_value mapping (if 32767 < r0 then r0 - 65536 else r0)
       else Inr (VInt r0)))"

text \<open>One field, read and converted.\<close>

definition registers_of :: "string \<Rightarrow> pv \<Rightarrow> pv \<Rightarrow> modbus_reply \<Rightarrow> int list res" where
  "registers_of what fld addr reply = (case reply of
     MbError m \<Rightarrow> raise ConnectionError (what @ '' error for '' @ py_str fld @ '' at addr '' @ py_str addr @ '': '' @ m)
   | MbRegisters registers \<Rightarrow> Inr registers)"

definition store_field :: "pv \<Rightarrow> pv \<Rightarrow> pv dict \<Rightarrow> pv dict res" where
  "store_field fld v snapshot = (if unhashable fld then unhashable_error fld
     else Inr (case fld of VStr k \<Rightarrow> dset k v snapshot | _ \<Rightarrow> snapshot))"

definition read_sensor_field :: "'d modbus_ops \<Rightarrow> string \<Rightarrow> pv dict \<Rightarrow> pv \<Rightarrow> pv \<Rightarrow> pv \<Rightarrow> pv dict \<Rightarrow> ('d modbus_sensor, pv dict) eff" where
  "read_sensor_field ops what mapping fld addr count snapshot =
     bindE (getE ms_client) (\<lambda>client. if \<not> client then throwE AttributeError (quoted ''NoneType'' @ '' object has no attribute '' @
         quoted ''read_holding_registers'')
     else bindE (on_sensor_dev (mb_read ops [] addr count)) (\<lambda>reply. liftE (bindR (registers_of what fld addr reply) (\<lambda>registers.
       bindR (field_value mapping registers) (\<lambda>v. store_field fld v snapshot)))))"

text \<open>
  The fields in turn; a mapping of the wrong shape raises at once.  \<open>failed\<close> says what becomes of an
  exception while a field is read: the connection counts as lost either way.
\<close>

fun read_fields ::
  "'d modbus_ops \<Rightarrow> string \<Rightarrow> (pv \<Rightarrow> exc \<Rightarrow> pv dict option res) \<Rightarrow> pv list \<Rightarrow> pv dict \<Rightarrow> ('d modbus_sensor, pv dict option) eff" where
  "read_fields ops what failed [] snapshot = retE (Some snapshot)"
| "read_fields ops what failed (m # ms) snapshot =
     bindE (liftE (py_getitem m ''field'')) (\<lambda>fld. bindE (liftE (py_getitem m ''register'')) (\<lambda>addr.
     let mapping = as_dict m in
     bindE (caught (read_sensor_field ops what mapping fld addr (map_count mapping) snapshot)) (\<lambda>r. case r of
         Inr snapshot1 \<Rightarrow> read_fields ops what failed ms snapshot1
       | Inl e \<Rightarrow> bindE (modE (\<lambda>s. s\<lparr> ms_connected := False \<rparr>)) (\<lambda>_. liftE (failed fld e)))))"

definition read_all_fields :: "'d modbus_ops \<Rightarrow> pv list \<Rightarrow> ('d modbus_sensor, pv dict) eff" where
  "read_all_fields ops mappings = bindE
     (read_fields ops ''Modbus retry read'' (\<lambda>fld e. raise ConnectionError (''Modbus retry failed for '' @ py_str fld @ '': '' @ exc_msg e))
       mappings [])
     (\<lambda>s. retE (case s of Some snapshot \<Rightarrow> snapshot | None \<Rightarrow> []))"

definition sensor_read_snapshot :: "'d modbus_ops \<Rightarrow> string \<Rightarrow> ('d modbus_sensor, pv dict) eff" where
  "sensor_read_snapshot ops asset_id =
     (let lost = throwE ConnectionError (''Modbus reconnect failed for '' @ asset_id) in
     bindE (getE (\<lambda>s. ms_connected s \<and> ms_client s)) (\<lambda>up.
     bindE (if up then retE True else reconnect ops max_reconnect_attempts) (\<lambda>ok.
     if \<not> ok then lost
     else
     bindE (getE (\<lambda>s. bindR (py_get (ms_config s) ''asset_mappings'' (VDict [])) (\<lambda>all.
         bindR (py_get all asset_id (VDict [])) (\<lambda>asset_config. py_get asset_config ''mappings'' (VList []))))) (\<lambda>found.
     bindE (liftE found) (\<lambda>mappings.
     if \<not> truthy mappings then retE []
     else
     bindE (liftE (py_iter mappings)) (\<lambda>ms.
     bindE (read_fields ops ''Modbus read'' (\<lambda>fld e. Inr None) ms []) (\<lambda>s. case s of
       Some snapshot \<Rightarrow> retE snapshot
     | None \<Rightarrow> bindE (reconnect ops max_reconnect_attempts) (\<lambda>ok. if ok then read_all_fields ops ms else lost))))))))"

definition sensor_shutdown :: "'d modbus_ops \<Rightarrow> ('d modbus_sensor, unit) eff" where
  "sensor_shutdown ops = bindE (getE ms_client) (\<lambda>c.
     bindE (if c then tryE (on_sensor_dev (mb_close ops [])) (\<lambda>e. retE ()) else retE ()) (\<lambda>_.
     modE (\<lambda>s. s\<lparr> ms_connected := False \<rparr>)))"

subsection \<open>What the executor reports\<close>

lemma tryE_total: "(\<And>e t. \<exists>x u. h e t = (Inr x, u)) \<Longrightarrow> \<exists>x u. tryE m h s = (Inr x, u)"
  by (cases "m s"; cases "fst (m s)") (auto simp: tryE_def)

lemma single_total: "\<exists>b s1. execute_single_action ops a s = (Inr b, s1)"
  unfolding execute_single_action_def by (rule tryE_total) (auto simp: bindE_def set_error_def modE_def retE_def)

text \<open>Writing changes neither the configuration nor whether the client counts as connected.\<close>

definition wired :: "pv \<Rightarrow> bool \<Rightarrow> 'd modbus_executor \<Rightarrow> bool" where
  "wired mappings up s \<longleftrightarrow> mx_action_mappings s = mappings \<and> mx_connected s = up"

lemma wired_steps [keeps_intros]: "keeps (wired m c) (on_dev f)" "keeps (wired m c) (set_error e)"
  by (auto simp: keeps_def wp_def on_dev_def set_error_def modE_def wired_def split: prod.splits sum.splits)

lemma wired_single: "keeps (wired m c) (execute_single_action ops a)"
  unfolding execute_single_action_def by (intro keeps_intros)

lemma single_wired: "execute_single_action ops a s = (r, t) \<Longrightarrow> mx_action_mappings t = mx_action_mappings s"
  using keeps_result [OF wired_single, of "mx_action_mappings s" "mx_connected s" s ops a r t] by (simp add: wired_def)

lemma write_append:
  "write_until_failure ops (as @ bs) = bindE (write_until_failure ops as) (\<lambda>ok. if ok then write_until_failure ops bs else retE False)"
proof (induction as)
  case (Cons a as)
  have assoc: "bindE (bindE m f) g = bindE m (\<lambda>x. bindE (f x) g)" for m :: "('c, 'x) eff" and f :: "'x \<Rightarrow> ('c, 'y) eff" and g :: "'y \<Rightarrow> ('c, 'z) eff"
    by (auto simp: fun_eq_iff bindE_def split: prod.split sum.split)
  show ?case by (auto simp: Cons.IH assoc bindE_if intro!: arg_cong2 [of _ _ _ _ bindE])
qed simp

lemma write_wired: "write_until_failure ops as s = (r, t) \<Longrightarrow> mx_action_mappings t = mx_action_mappings s"
proof (induction as arbitrary: s)
  case (Cons a as)
  obtain b u where b: "execute_single_action ops a s = (Inr b, u)" using single_total by blast
  then show ?case using Cons single_wired [OF b] by (cases b) (auto simp: bindE_def retE_def)
qed (simp add: retE_def)

text \<open>Actions of the application's form, translated by the mappings, are executed as the one sequence of their register writes, in order and up to the first that fails; the executor reports success exactly when all succeed.\<close>

theorem modbus_execute_flat:
  assumes "\<forall>a\<in>set actions. is_low_level a = Inr False" "mapR (translate_action (mx_action_mappings s) asset_id) actions = Inr writes"
  shows "execute_actions ops asset_id actions s = write_until_failure ops (concat writes) s"
  using assms
proof (induction actions arbitrary: s writes)
  case (Cons a actions)
  obtain w ws where w: "translate_action (mx_action_mappings s) asset_id a = Inr w" "writes = w # ws"
      "mapR (translate_action (mx_action_mappings s) asset_id) actions = Inr ws" using Cons.prems(2) by auto
  obtain r t where t: "write_until_failure ops w s = (r, t)" by fastforce
  then have "mx_action_mappings t = mx_action_mappings s" using write_wired by blast
  with Cons.IH [of t ws] Cons.prems(1) w(3)
  have rest: "execute_actions ops asset_id actions t = write_until_failure ops (concat ws) t" by simp
  have "execute_actions ops asset_id (a # actions) s =
      bindE (write_until_failure ops w) (\<lambda>ok. if ok then execute_actions ops asset_id actions else retE False) s"
    using Cons.prems(1) w(1) by (simp add: bindE_def liftE_def getE_def)
  then show ?case using t rest by (auto simp: w(2) write_append bindE_def split: sum.split)
qed simp

text \<open>A safe state made of low-level actions is reported as reached on a connected client, whatever the device answers to the writes.\<close>

theorem modbus_safe_state_unchecked:
  assumes "mx_safe_state_actions s = VDict m" "dget m asset_id = Some (VList actions)" "actions \<noteq> []"
    and "\<forall>a\<in>set actions. is_low_level a = Inr True" "mx_connected s"
  shows "\<exists>t. modbus_safe_state ops asset_id s = (Inr True, t)"
proof -
  have run: "\<exists>t. execute_actions ops asset_id as s = (Inr True, t)" if "\<forall>a\<in>set as. is_low_level a = Inr True" for as s
    using that
  proof (induction as arbitrary: s)
    case (Cons a as)
    obtain b u where b: "execute_single_action ops a s = (Inr b, u)" using single_total by blast
    then show ?case using Cons by (simp add: bindE_def liftE_def)
  qed (simp add: retE_def)
  let ?s = "s\<lparr> mx_last_error := None \<rparr>"
  obtain t where t: "execute_actions ops asset_id actions ?s = (Inr True, t)" using run [OF assms(4), of ?s] by blast
  show ?thesis using assms t
    by (auto simp: modbus_safe_state_def modbus_execute_def ensure_connected_def set_error_def bindE_def getE_def modE_def liftE_def retE_def dget_or_def)
qed

text \<open>A device that refuses every write.\<close>

definition refusing :: "unit modbus_ops" where
  "refusing = \<lparr> mb_connect = (\<lambda>h p. retE True), mb_close = (\<lambda>k. retE ()), mb_read = (\<lambda>k a n. retE (MbError ''refused'')),
     mb_write_register = (\<lambda>k a v. retE (MbError ''refused'')), mb_write_registers = (\<lambda>k a v. retE (MbError ''refused'')) \<rparr>"

definition demo_executor :: "unit modbus_executor" where
  "demo_executor = \<lparr> mx_installed = True, mx_client = True, mx_connected = True, mx_host = VStr ''plc'', mx_port = VInt 502,
     mx_safe_state_actions = VDict [(''reactor_01'', VList [low_level (VInt 2) (VInt 0)])],
     mx_action_mappings = VDict [(''reactor_01'', VDict [(''set_heater_output'',
       VList [VDict [(''param'', VStr ''value''), (''register'', VInt 2)]])])], mx_last_error = None, mx_dev = () \<rparr>"

theorem modbus_safe_state_unchecked_witness:
  "\<exists>t. modbus_safe_state refusing ''reactor_01'' demo_executor = (Inr True, t) \<and> mx_last_error t = Some ''Modbus write error: refused''"
proof -
  let ?m = "[(''reactor_01'', VList [low_level (VInt 2) (VInt 0)])]"
  have "mx_safe_state_actions demo_executor = VDict ?m" "mx_connected demo_executor" by (simp_all add: demo_executor_def)
  moreover have "dget ?m ''reactor_01'' = Some (VList [low_level (VInt 2) (VInt 0)])" by simp
  moreover have "\<forall>a\<in>set [low_level (VInt 2) (VInt 0)]. is_low_level a = Inr True" by code_simp
  ultimately have "\<exists>t. modbus_safe_state refusing ''reactor_01'' demo_executor = (Inr True, t)"
    by (intro modbus_safe_state_unchecked [of demo_executor ?m "''reactor_01''" "[low_level (VInt 2) (VInt 0)]"]) simp_all
  then obtain t where t: "modbus_safe_state refusing ''reactor_01'' demo_executor = (Inr True, t)" by blast
  have "mx_last_error (snd (modbus_safe_state refusing ''reactor_01'' demo_executor)) = Some ''Modbus write error: refused''" by code_simp
  with t show ?thesis by simp
qed

definition demo_heat :: pv where
  "demo_heat = VDict [(''action_type'', VStr ''set_heater_output''), (''params'', VDict [(''value'', VInt 40)])]"

theorem modbus_execute_flat_witness:
  "execute_actions refusing ''reactor_01'' [demo_heat, demo_heat] demo_executor =
   write_until_failure refusing [low_level (VInt 2) (VInt 40), low_level (VInt 2) (VInt 40)] demo_executor"
proof -
  have "\<forall>a\<in>set [demo_heat, demo_heat]. is_low_level a = Inr False" by code_simp
  moreover have "mapR (translate_action (mx_action_mappings demo_executor) ''reactor_01'') [demo_heat, demo_heat]
      = Inr [[low_level (VInt 2) (VInt 40)], [low_level (VInt 2) (VInt 40)]]" by code_simp
  ultimately have "execute_actions refusing ''reactor_01'' [demo_heat, demo_heat] demo_executor =
      write_until_failure refusing (concat [[low_level (VInt 2) (VInt 40)], [low_level (VInt 2) (VInt 40)]]) demo_executor"
    by (rule modbus_execute_flat)
  then show ?thesis by (simp only: concat.simps append.simps)
qed

subsection \<open>What a snapshot holds\<close>

lemma store_field_keeps: "store_field fld v snapshot = Inr out \<Longrightarrow> dget snapshot k \<noteq> None \<Longrightarrow> dget out k \<noteq> None"
  by (cases fld) (auto simp: store_field_def unhashable_def unhashable_error_def)

lemma read_sensor_field_Inr:
  "read_sensor_field ops what mapping fld addr count snapshot s = (Inr out, t) \<Longrightarrow> \<exists>v. store_field fld v snapshot = Inr out"
  by (auto simp: read_sensor_field_def bindE_Inr getE_def liftE_def throwE_def split: if_splits)

definition has_fields :: "pv list \<Rightarrow> pv dict \<Rightarrow> bool" where
  "has_fields ms snapshot \<longleftrightarrow> (\<forall>m\<in>set ms. \<forall>k. vget (as_dict m) ''field'' = VStr k \<longrightarrow> dget snapshot k \<noteq> None)"

lemma caught_cases:
  "bindE (caught m) (\<lambda>r. case r of Inl e \<Rightarrow> f e | Inr x \<Rightarrow> g x) s = (Inr y, t) \<longleftrightarrow>
   (\<exists>e u. m s = (Inl e, u) \<and> f e u = (Inr y, t)) \<or> (\<exists>x u. m s = (Inr x, u) \<and> g x u = (Inr y, t))"
  by (cases "m s"; cases "fst (m s)") (auto simp: caught_def tryE_def bindE_def retE_def)

lemma read_fields_Some:
  "read_fields ops what failed ms snapshot s = (Inr (Some out), t) \<Longrightarrow> (\<And>f e x. failed f e \<noteq> Inr (Some x)) \<Longrightarrow>
   has_fields ms out \<and> (\<forall>k. dget snapshot k \<noteq> None \<longrightarrow> dget out k \<noteq> None)"
proof (induction ms arbitrary: snapshot s)
  case Nil
  then show ?case by (simp add: retE_def has_fields_def)
next
  case (Cons m ms)
  obtain fld addr where f: "py_getitem m ''field'' = Inr fld" "py_getitem m ''register'' = Inr addr"
    using Cons.prems(1) by (auto simp: bindE_Inr liftE_def)
  obtain snapshot1 u where r: "read_sensor_field ops what (as_dict m) fld addr (map_count (as_dict m)) snapshot s = (Inr snapshot1, u)"
    and rest: "read_fields ops what failed ms snapshot1 u = (Inr (Some out), t)"
    using Cons.prems f by (simp add: Let_def caught_cases) (auto simp: liftE_def)
  have ih: "has_fields ms out" "\<And>k. dget snapshot1 k \<noteq> None \<Longrightarrow> dget out k \<noteq> None"
    using Cons.IH [OF rest Cons.prems(2)] by blast+
  have "dget out k \<noteq> None" if "vget (as_dict m) ''field'' = VStr k" for k
  proof -
    have "fld = VStr k" using f(1) that by (cases m) (auto simp: py_getitem_def vget_def dget_or_def bad_index_def split: option.splits)
    then obtain v where "snapshot1 = dset k v snapshot" using read_sensor_field_Inr [OF r] by (auto simp: store_field_def unhashable_def)
    then show ?thesis using ih(2) by simp
  qed
  moreover have "dget out k \<noteq> None" if "dget snapshot k \<noteq> None" for k
    using ih(2) read_sensor_field_Inr [OF r] store_field_keeps that by blast
  ultimately show ?case using ih(1) by (auto simp: has_fields_def)
qed

lemma read_fields_raise: "read_fields ops what (\<lambda>fld e. raise ConnectionError (h fld e)) ms d w \<noteq> (Inr None, t)"
  by (induction ms arbitrary: d w) (auto simp: retE_def bindE_Inr [of "liftE m" for m] Let_def caught_cases liftE_def)

definition config_is :: "pv \<Rightarrow> 'd modbus_sensor \<Rightarrow> bool" where
  "config_is c s \<longleftrightarrow> ms_config s = c"

lemma config_steps [keeps_intros]: "keeps (config_is c) (on_sensor_dev f)" "keeps (config_is c) (modE (\<lambda>s. s\<lparr> ms_connected := b \<rparr>))"
  "keeps (config_is c) (modE (\<lambda>s. s\<lparr> ms_client := b \<rparr>))"
  by (auto simp: keeps_def wp_def on_sensor_dev_def modE_def config_is_def split: prod.splits sum.splits)

lemma config_reconnect: "keeps (config_is c) (reconnect ops n)"
proof (induction n)
  case 0
  show ?case unfolding reconnect.simps by (intro keeps_intros)
next
  case (Suc n)
  show ?case unfolding reconnect.simps reconnect_once_def sensor_connect_def by (intro keeps_intros Suc)
qed

text \<open>C37: A snapshot of the Modbus source that is returned holds every mapped field: a field that cannot be read is never left out, also after the one reconnection and retry.\<close>

theorem modbus_snapshot_complete:
  assumes "sensor_read_snapshot ops asset_id s = (Inr snapshot, t)"
    and "py_get (ms_config s) ''asset_mappings'' (VDict []) = Inr all" "py_get all asset_id (VDict []) = Inr asset"
    and "py_get asset ''mappings'' (VList []) = Inr (VList ms)"
  shows "has_fields ms snapshot"
proof -
  let ?up = "ms_connected s \<and> ms_client s"
  obtain ok u where up: "(if ?up then retE True else reconnect ops max_reconnect_attempts) s = (Inr ok, u)"
    using assms(1) by (auto simp: sensor_read_snapshot_def Let_def bindE_Inr getE_def)
  have "keeps (config_is (ms_config s)) (if ?up then retE True else reconnect ops max_reconnect_attempts)"
    by (intro keeps_intros config_reconnect)
  from keeps_result [OF this _ up] have config: "ms_config u = ms_config s" by (simp add: config_is_def)
  show ?thesis
  proof (cases "ms = []")
    case True
    then show ?thesis by (simp add: has_fields_def)
  next
    case False
    obtain found v where first: "read_fields ops ''Modbus read'' (\<lambda>fld e. Inr None) ms [] u = (Inr found, v)" and
      rest: "case found of Some x \<Rightarrow> snapshot = x | None \<Rightarrow> \<exists>w. read_all_fields ops ms w = (Inr snapshot, t)"
      using assms up config False
      by (auto simp: sensor_read_snapshot_def Let_def bindE_Inr getE_def liftE_def retE_def throwE_def simp del: reconnect.simps
          split: if_split_asm option.split_asm option.split)
    show ?thesis
    proof (cases found)
      case (Some x)
      then show ?thesis using read_fields_Some [OF first [unfolded Some]] rest by simp
    next
      case None
      then obtain w found1 where again: "read_fields ops ''Modbus retry read''
          (\<lambda>fld e. raise ConnectionError (''Modbus retry failed for '' @ py_str fld @ '': '' @ exc_msg e)) ms [] w = (Inr found1, t)"
        "snapshot = (case found1 of Some x \<Rightarrow> x | None \<Rightarrow> [])"
        using rest by (auto simp: read_all_fields_def bindE_Inr retE_def)
      show ?thesis
      proof (cases found1)
        case (Some x)
        then show ?thesis using read_fields_Some [OF again(1) [unfolded Some]] again(2) by simp
      next
        case None
        then have "read_fields ops ''Modbus retry read''
            (\<lambda>fld e. raise ConnectionError (''Modbus retry failed for '' @ py_str fld @ '': '' @ exc_msg e)) ms [] w = (Inr None, t)"
          using again(1) by simp
        then show ?thesis by (simp only: read_fields_raise)
      qed
    qed
  qed
qed

text \<open>A device that answers every read with the word 100, behind a client that has lost its connection.\<close>

definition steady :: "unit modbus_ops" where
  "steady = refusing\<lparr> mb_read := (\<lambda>k a n. retE (MbRegisters [100])) \<rparr>"

definition demo_sensor :: "unit modbus_sensor" where
  "demo_sensor = \<lparr> ms_installed = True, ms_client = True, ms_connected = False, ms_host = VStr ''plc'', ms_port = VInt 502,
     ms_config = VDict [(''asset_mappings'', VDict [(''reactor_01'', VDict [(''mappings'', VList
       [VDict [(''field'', VStr ''heater_output''), (''register'', VInt 2)]])])])], ms_sensor_dev = () \<rparr>"

theorem modbus_snapshot_complete_witness:
  "\<exists>snapshot. fst (sensor_read_snapshot steady ''reactor_01'' demo_sensor) = Inr snapshot \<and>
     has_fields [VDict [(''field'', VStr ''heater_output''), (''register'', VInt 2)]] snapshot"
proof -
  let ?run = "sensor_read_snapshot steady ''reactor_01'' demo_sensor"
  let ?ms = "[VDict [(''field'', VStr ''heater_output''), (''register'', VInt 2)]]"
  let ?asset = "VDict [(''mappings'', VList ?ms)]"
  have "\<not> isl (fst ?run)" by code_simp
  then obtain snapshot t where r: "?run = (Inr snapshot, t)" by (cases ?run; cases "fst ?run") auto
  have "py_get (ms_config demo_sensor) ''asset_mappings'' (VDict []) = Inr (VDict [(''reactor_01'', ?asset)])"
    "py_get (VDict [(''reactor_01'', ?asset)]) ''reactor_01'' (VDict []) = Inr ?asset"
    "py_get ?asset ''mappings'' (VList []) = Inr (VList ?ms)" by code_simp+
  from modbus_snapshot_complete [OF r this] r show ?thesis by simp
qed

end
