(* ===== verification/ConfigLoader.thy ===== *)
theory ConfigLoader
  imports Http
begin

section \<open>The configuration loader (pcag/core/utils/config_loader.py)\<close>

text \<open>
  The state is the process's environment and the cache of loaded documents.  The files and PyYAML are
  parameters: whether a path exists, what reading it gives, and what \<open>yaml.safe_load\<close> makes of a text.
\<close>

record file_ops =
  fo_exists :: "string \<Rightarrow> bool"
  fo_read :: "string \<Rightarrow> string res"
  fo_yaml :: "string \<Rightarrow> pv res"

record loader =
  ld_environ :: "string dict"
  ld_cache :: "pv dict"

subsection \<open>The .env file\<close>

definition is_break :: "char \<Rightarrow> bool" where
  "is_break c \<longleftrightarrow> (let n = of_char c :: nat in (10 \<le> n \<and> n \<le> 13) \<or> (28 \<le> n \<and> n \<le> 30) \<or> n = 133)"

text \<open>\<open>str.splitlines\<close>\<close>

function lines_from :: "string \<Rightarrow> string \<Rightarrow> string list" where
  "lines_from cur [] = (if cur = [] then [] else [cur])"
| "lines_from cur (c # cs) =
     (if is_break c then cur # lines_from [] (if c = CHR 0x0D \<and> starts_with [CHR 0x0A] cs then drop 1 cs else cs)
      else lines_from (cur @ [c]) cs)"
  by pat_completeness auto
termination by (relation "measure (\<lambda>(cur, s). length s)") auto

definition splitlines :: "string \<Rightarrow> string list" where
  "splitlines s = lines_from [] s"

definition strip_char :: "char \<Rightarrow> string \<Rightarrow> string" where
  "strip_char q s = rev (dropWhile (\<lambda>c. c = q) (rev (dropWhile (\<lambda>c. c = q) s)))"

text \<open>The variable a line sets.\<close>

definition dotenv_entry :: "string \<Rightarrow> (string \<times> string) option" where
  "dotenv_entry raw_line = (let line = strip_ws raw_line in
     if line = [] \<or> starts_with ''#'' line \<or> CHR ''='' \<notin> set line then None
     else (let key = strip_ws (takeWhile (\<lambda>c. c \<noteq> CHR ''='') line);
               value = strip_char (CHR 0x22) (strip_char (CHR 0x27) (strip_ws (drop 1 (dropWhile (\<lambda>c. c \<noteq> CHR ''='') line)))) in
           if key = [] then None else Some (key, value)))"

definition set_environ :: "string \<Rightarrow> string \<Rightarrow> (loader, unit) eff" where
  "set_environ key value =
     (if CHR 0x00 \<in> set (key @ value) then throwE ValueError ''embedded null byte''
      else modE (\<lambda>s. s\<lparr> ld_environ := dset key value (ld_environ s) \<rparr>))"

definition load_line :: "bool \<Rightarrow> string \<Rightarrow> (loader, unit) eff" where
  "load_line override raw_line = (case dotenv_entry raw_line of
     None \<Rightarrow> retE ()
   | Some (key, value) \<Rightarrow> bindE (getE (\<lambda>s. dhas (ld_environ s) key)) (\<lambda>present.
       if override \<or> \<not> present then set_environ key value else retE ()))"

text \<open>Whatever goes wrong is only logged; the lines before it have been taken over.\<close>

definition load_dotenv_file :: "file_ops \<Rightarrow> string \<Rightarrow> bool \<Rightarrow> (loader, unit) eff" where
  "load_dotenv_file fo path override =
     (if \<not> fo_exists fo path then retE ()
      else tryE (bindE (liftE (fo_read fo path)) (\<lambda>t. eachE (load_line override) (splitlines t))) (\<lambda>e. retE ()))"

subsection \<open>References to environment variables\<close>

text \<open>
  What the pattern finds after a dollar and a brace: the name, up to a colon or a closing brace, the
  default after a colon, and the text behind the closing brace.
\<close>

definition closes :: "char \<Rightarrow> bool" where
  "closes c \<longleftrightarrow> c = CHR 0x7D"

definition match_ref :: "string \<Rightarrow> (string \<times> string option \<times> string) option" where
  "match_ref s = (let name = takeWhile (\<lambda>c. \<not> closes c \<and> c \<noteq> CHR '':'') s; rest = drop (length name) s in
     case rest of
       [] \<Rightarrow> None
     | c # after \<Rightarrow>
         if name = [] then None
         else if closes c then Some (name, None, after)
         else (let dflt = takeWhile (\<lambda>c. \<not> closes c) after in
           case drop (length dflt) after of [] \<Rightarrow> None | _ # behind \<Rightarrow> Some (name, Some dflt, behind)))"

lemma match_ref_shorter: "match_ref s = Some (name, dflt, behind) \<Longrightarrow> length behind < length s"
proof -
  assume m: "match_ref s = Some (name, dflt, behind)"
  let ?n = "length (takeWhile (\<lambda>c. \<not> closes c \<and> c \<noteq> CHR '':'') s)"
  obtain c after where d: "drop ?n s = c # after" and b: "behind = after \<or> (\<exists>k x. drop k after = x # behind)"
    using m by (auto simp: match_ref_def Let_def split: list.splits if_splits)
  show "length behind < length s"
  proof -
    have "length s - ?n = Suc (length after)" using arg_cong [OF d, of length] by (simp del: length_takeWhile_le)
    moreover have "length behind \<le> length after" using b by (auto dest!: arg_cong [of "drop _ after" _ length])
    ultimately show ?thesis by linarith
  qed
qed

definition open_ref :: string where
  "open_ref = [CHR ''$'', CHR 0x7B]"

function expand_refs :: "string dict \<Rightarrow> string \<Rightarrow> string" where
  "expand_refs env [] = []"
| "expand_refs env (c # cs) =
     (case (if starts_with open_ref (c # cs) then match_ref (drop 2 (c # cs)) else None) of
        Some (name, dflt, behind) \<Rightarrow>
          dget_or env name (case dflt of None \<Rightarrow> [] | Some d \<Rightarrow> d) @ expand_refs env behind
      | None \<Rightarrow> c # expand_refs env cs)"
  by pat_completeness auto
termination
  by (relation "measure (length \<circ> snd)") (auto split: if_splits dest!: match_ref_shorter)

fun substitute_env_vars :: "string dict \<Rightarrow> pv \<Rightarrow> pv" where
  "substitute_env_vars env (VDict d) = VDict (map (\<lambda>(k, v). (k, substitute_env_vars env v)) d)"
| "substitute_env_vars env (VList xs) = VList (map (substitute_env_vars env) xs)"
| "substitute_env_vars env (VStr s) = VStr (expand_refs env s)"
| "substitute_env_vars env v = v"

subsection \<open>Loading a document\<close>

definition config_path :: "string \<Rightarrow> string \<Rightarrow> string" where
  "config_path dir filename = (if starts_with ''/'' filename then filename else dir @ ''/'' @ filename)"

definition load_config :: "file_ops \<Rightarrow> string \<Rightarrow> string \<Rightarrow> bool \<Rightarrow> (loader, pv) eff" where
  "load_config fo dir filename required =
     bindE (getE (\<lambda>s. dget (ld_cache s) filename)) (\<lambda>cached. case cached of
       Some data \<Rightarrow> retE data
     | None \<Rightarrow> (let filepath = config_path dir filename in
         if \<not> fo_exists fo filepath then
           (if required then throwE FileNotFoundError (''Required config file not found: '' @ filepath) else retE (VDict []))
         else
           bindE (liftE (bindR (fo_read fo filepath) (fo_yaml fo))) (\<lambda>loaded.
           bindE (getE (\<lambda>s. substitute_env_vars (ld_environ s) (or_else loaded (VDict [])))) (\<lambda>data.
           bindE (modE (\<lambda>s. s\<lparr> ld_cache := dset filename data (ld_cache s) \<rparr>)) (\<lambda>_. retE data)))))"

definition load_required_config :: "file_ops \<Rightarrow> string \<Rightarrow> string \<Rightarrow> (loader, pv) eff" where
  "load_required_config fo dir filename = load_config fo dir filename True"

definition clear_cache :: "loader \<Rightarrow> loader" where
  "clear_cache s = s\<lparr> ld_cache := [] \<rparr>"

subsection \<open>The sections the services read\<close>

definition read_section :: "file_ops \<Rightarrow> string \<Rightarrow> string \<Rightarrow> (pv res \<Rightarrow> 'a res) \<Rightarrow> (loader, 'a) eff" where
  "read_section fo dir filename f = bindE (load_config fo dir filename False) (\<lambda>c. liftE (f (Inr c)))"

definition load_service_urls :: "file_ops \<Rightarrow> string \<Rightarrow> (loader, pv dict) eff" where
  "load_service_urls fo dir = read_section fo dir ''services.yaml'' get_service_urls"

definition get_sensor_mappings :: "file_ops \<Rightarrow> string \<Rightarrow> (loader, pv) eff" where
  "get_sensor_mappings fo dir = load_config fo dir ''sensor_mappings.yaml'' False"

definition load_cbf_mappings :: "file_ops \<Rightarrow> string \<Rightarrow> (loader, pv) eff" where
  "load_cbf_mappings fo dir = read_section fo dir ''cbf_mappings.yaml'' get_cbf_mappings"

definition load_auth_config :: "file_ops \<Rightarrow> string \<Rightarrow> (loader, pv) eff" where
  "load_auth_config fo dir = read_section fo dir ''services.yaml'' (\<lambda>c. bindR c (\<lambda>d. py_get d ''auth'' (VDict [])))"

definition get_benchmark_runtime_config :: "file_ops \<Rightarrow> string \<Rightarrow> (loader, pv) eff" where
  "get_benchmark_runtime_config fo dir =
     read_section fo dir ''services.yaml'' (\<lambda>c. bindR c (\<lambda>d. py_get d ''benchmark_runtime'' (VDict [])))"

subsection \<open>What loading keeps\<close>

lemma eachE_rel:
  assumes "\<And>x s r t. f x s = (r, t) \<Longrightarrow> R s t" "\<And>s. R s s" "\<And>s t u. R s t \<Longrightarrow> R t u \<Longrightarrow> R s u"
  shows "eachE f xs s = (r, t) \<Longrightarrow> R s t"
proof (induction xs arbitrary: s)
  case Nil
  then show ?case using assms(2) by (simp add: retE_def)
next
  case (Cons x xs)
  obtain r1 u where u: "f x s = (r1, u)" by (cases "f x s")
  from assms(1) [OF u] Cons u show ?case
    by (cases r1) (auto simp: bindE_def intro: assms(3))
qed

definition env_kept :: "loader \<Rightarrow> loader \<Rightarrow> bool" where
  "env_kept s t \<longleftrightarrow> ld_cache t = ld_cache s \<and> (\<forall>k v. dget (ld_environ s) k = Some v \<longrightarrow> dget (ld_environ t) k = Some v)"

lemma load_line_kept: "load_line False l s = (r, t) \<Longrightarrow> env_kept s t"
  by (auto simp: load_line_def set_environ_def env_kept_def retE_def throwE_def modE_def split: option.splits prod.splits if_splits)

text \<open>Reading the .env file never changes a variable that is already set, nor the loaded documents, and it never raises once the file exists; what it adds is what its lines say.\<close>

theorem dotenv_keeps_environment:
  assumes "load_dotenv_file fo path False s = (r, t)"
  shows "r = Inr () \<and> ld_cache t = ld_cache s \<and> (dget (ld_environ s) k = Some v \<longrightarrow> dget (ld_environ t) k = Some v)"
proof -
  obtain r1 t1 where e: "bindE (liftE (fo_read fo path)) (\<lambda>x. eachE (load_line False) (splitlines x)) s = (r1, t1)" by fastforce
  have lines: "eachE (load_line False) xs u = (q, v) \<Longrightarrow> env_kept u v" for xs u q v
    by (erule eachE_rel [rotated -1], erule load_line_kept) (auto simp: env_kept_def)
  have "env_kept s t1"
    using e lines by (cases "fo_read fo path") (auto simp: liftE_def env_kept_def)
  then show ?thesis using assms e
    by (cases r1) (auto simp: load_dotenv_file_def tryE_def retE_def env_kept_def split: if_splits)
qed

text \<open>A reference to an environment variable stands for the variable's value, or for the default behind the colon when it is not set; the text before it stays and the text behind it is read on.\<close>

theorem env_reference_value:
  assumes "CHR ''$'' \<notin> set before" "name \<noteq> []" "list_all (\<lambda>c. \<not> closes c \<and> c \<noteq> CHR '':'') name" "list_all (\<lambda>c. \<not> closes c) dflt"
  shows "expand_refs env (before @ open_ref @ name @ '':'' @ dflt @ [CHR 0x7D] @ behind) =
    before @ dget_or env name dflt @ expand_refs env behind"
  using assms(1)
proof (induction before)
  case Nil
  have "match_ref (name @ '':'' @ dflt @ [CHR 0x7D] @ behind) = Some (name, Some dflt, behind)"
    using assms(2-4) by (simp add: match_ref_def Let_def takeWhile_append list_all_iff closes_def)
  then show ?case by (simp add: open_ref_def starts_with_def)
next
  case (Cons c before)
  then have "\<not> starts_with open_ref ((c # before) @ open_ref @ name @ '':'' @ dflt @ [CHR 0x7D] @ behind)"
    by (auto simp: starts_with_def open_ref_def)
  then show ?case using Cons by simp
qed

text \<open>A document is read once: after a load that found the file every later load gives the same value and changes nothing, whatever has become of the file and the environment, until the cache is cleared.\<close>

theorem config_loaded_once:
  assumes "load_config fo dir filename required s = (Inr data, t)" "fo_exists fo (config_path dir filename) \<or> dhas (ld_cache s) filename"
  shows "load_config fo' dir' filename required' (t\<lparr> ld_environ := env \<rparr>) = (Inr data, t\<lparr> ld_environ := env \<rparr>)"
  using assms by (auto simp: load_config_def Let_def retE_def bindE_Inr liftE_def split: option.splits)

end
