(* ===== verification/LogFormat.thy ===== *)
theory LogFormat
  imports ConfigLoader
begin

section \<open>Log lines (core/utils/logging_config.py and the parser of apps/dashboard/service.py)\<close>

text \<open>
  The line written for a record, and how the dashboard reads it back.  \<open>json.dumps\<close> and \<open>strftime\<close> are
  parameters: the first is a function, the second has given a record its date and time of day.  The
  lemmas are about \<open>str.split\<close> and \<open>str.splitlines\<close>; the log file is read back record by record, field by field.
\<close>

record log_record =
  lr_date :: string
  lr_clock :: string
  lr_level :: string
  lr_module :: string
  lr_file :: string
  lr_line :: int
  lr_function :: string
  lr_message :: string
  lr_extra :: "pv dict"

text \<open>The context variables and the name given at the start.\<close>

record log_context =
  lc_service :: string
  lc_default_service :: string
  lc_request :: string
  lc_transaction :: string
  lc_asset :: string

subsection \<open>Settings\<close>

definition as_bool :: "pv \<Rightarrow> bool \<Rightarrow> bool" where
  "as_bool v dflt = (case v of
     VNone \<Rightarrow> dflt
   | VBool b \<Rightarrow> b
   | VStr s \<Rightarrow> map lower_char (strip_ws s) \<in> {''1'', ''true'', ''yes'', ''on'', ''always''}
   | _ \<Rightarrow> truthy v)"

definition upper_char :: "char \<Rightarrow> char" where
  "upper_char c = (let n = of_char c :: nat in if 97 \<le> n \<and> n \<le> 122 then char_of (n - 32) else c)"

definition upper_text :: "string \<Rightarrow> string" where
  "upper_text s = map upper_char s"

definition normalize_level_set :: "pv \<Rightarrow> string list \<Rightarrow> string list res" where
  "normalize_level_set levels dflt =
     (if \<not> truthy levels then Inr dflt
      else bindR (py_iter levels) (\<lambda>xs. Inr (map (\<lambda>v. upper_text (py_str v)) xs)))"

definition supports_color :: "string \<Rightarrow> bool \<Rightarrow> bool" where
  "supports_color mode isatty = (let normalized = map lower_char (strip_ws (if mode = [] then ''auto'' else mode)) in
     if normalized = ''always'' then True else if normalized = ''never'' then False else isatty)"

subsection \<open>The line\<close>

definition format_value :: "(pv \<Rightarrow> string) \<Rightarrow> pv \<Rightarrow> string" where
  "format_value dumps v = (case v of VFloat f \<Rightarrow> fmt_fixed 2 f | VDict d \<Rightarrow> dumps v | VList xs \<Rightarrow> dumps v | _ \<Rightarrow> py_str v)"

definition ljust :: "nat \<Rightarrow> string \<Rightarrow> string" where
  "ljust n s = s @ replicate (n - length s) CHR '' ''"

definition escape :: "string \<Rightarrow> string" where
  "escape code = [CHR 0x1B, CHR 0x5B] @ code @ ''m''"

definition level_colors :: "string dict" where
  "level_colors = [(''DEBUG'', escape ''33''), (''INFO'', escape ''32''), (''WARNING'', escape ''31''), (''ERROR'', escape ''31''),
     (''CRITICAL'', escape (''97'' @ [CHR 0x3B] @ ''41''))]"

definition service_of :: "log_context \<Rightarrow> string" where
  "service_of ctx = (if lc_service ctx = [] then lc_default_service ctx else lc_service ctx)"

text \<open>The fields of a line, in the order they are written.\<close>

definition line_fields :: "bool \<Rightarrow> string list \<Rightarrow> log_context \<Rightarrow> log_record \<Rightarrow> (string \<times> string) list" where
  "line_fields include_module source_levels ctx r =
     [(''req'', lc_request ctx)]
     @ (if lc_transaction ctx \<noteq> ''-'' then [(''tx'', lc_transaction ctx)] else [])
     @ (if lc_asset ctx \<noteq> ''-'' then [(''asset'', lc_asset ctx)] else [])
     @ (if include_module then [(''mod'', lr_module r)] else [])
     @ (if upper_text (lr_level r) \<in> set source_levels
        then [(''src'', lr_file r @ '':'' @ str_int (lr_line r)), (''fn'', lr_function r)] else [])"

definition pair_text :: "string \<times> string \<Rightarrow> string" where
  "pair_text p = fst p @ ''='' @ snd p"

definition line_message :: "(pv \<Rightarrow> string) \<Rightarrow> log_record \<Rightarrow> string" where
  "line_message dumps r = lr_message r @ (if lr_extra r = [] then []
     else '' | '' @ join_with '' '' (map (\<lambda>(k, v). pair_text (k, format_value dumps v)) (lr_extra r)))"

definition human_format ::
  "(pv \<Rightarrow> string) \<Rightarrow> bool \<Rightarrow> bool \<Rightarrow> string list \<Rightarrow> log_context \<Rightarrow> log_record \<Rightarrow> string" where
  "human_format dumps use_color include_module source_levels ctx r =
     (let level = upper_text (lr_level r);
          parts = [lr_date r @ '' '' @ lr_clock r, ljust 8 level, ljust 14 (service_of ctx)]
            @ map pair_text (line_fields include_module source_levels ctx r);
          message = join_with '' '' parts @ '' | '' @ line_message dumps r;
          color = dget_or level_colors level [] in
      if use_color \<and> color \<noteq> [] then color @ message @ escape ''0'' else message)"

definition json_format :: "(pv \<Rightarrow> string) \<Rightarrow> string \<Rightarrow> log_context \<Rightarrow> log_record \<Rightarrow> string" where
  "json_format dumps timestamp ctx r = dumps (VDict
     ([(''timestamp'', VStr timestamp), (''level'', VStr (upper_text (lr_level r))), (''service'', VStr (service_of ctx)),
       (''request_id'', VStr (lc_request ctx)), (''transaction_id'', VStr (lc_transaction ctx)), (''asset_id'', VStr (lc_asset ctx)),
       (''module'', VStr (lr_module r)), (''source'', VStr (lr_file r @ '':'' @ str_int (lr_line r))),
       (''function'', VStr (lr_function r)), (''message'', VStr (lr_message r))]
      @ (if lr_extra r = [] then [] else [(''extra'', VDict (lr_extra r))])))"

subsection \<open>Reading a line\<close>

text \<open>\<open>s.split()\<close>, \<open>s.split(' | ', 1)\<close> and \<open>s.split('=', 1)\<close>\<close>

fun words_from :: "string \<Rightarrow> string \<Rightarrow> string list" where
  "words_from cur [] = (if cur = [] then [] else [cur])"
| "words_from cur (c # cs) =
     (if is_space c then (if cur = [] then words_from [] cs else cur # words_from [] cs) else words_from (cur @ [c]) cs)"

definition py_words :: "string \<Rightarrow> string list" where
  "py_words s = words_from [] s"

fun split_bar :: "string \<Rightarrow> (string \<times> string) option" where
  "split_bar [] = None"
| "split_bar (c # cs) = (if starts_with '' | '' (c # cs) then Some ([], drop 3 (c # cs))
     else map_option (\<lambda>(a, b). (c # a, b)) (split_bar cs))"

definition split_pair :: "string \<Rightarrow> (string \<times> string) option" where
  "split_pair token = (if CHR ''='' \<in> set token
     then Some (takeWhile (\<lambda>c. c \<noteq> CHR ''='') token, drop 1 (dropWhile (\<lambda>c. c \<noteq> CHR ''='') token)) else None)"

definition unparsed :: "string \<Rightarrow> string dict" where
  "unparsed line = [(''level'', ''INFO''), (''service'', ''unknown''), (''message'', line)]"

definition parse_log_line :: "string \<Rightarrow> string dict" where
  "parse_log_line line = (case split_bar line of
     None \<Rightarrow> unparsed line
   | Some (prefix, message) \<Rightarrow> (case py_words prefix of
       date # clock # level # service # tokens \<Rightarrow>
         fold (\<lambda>token item. case split_pair token of Some (k, v) \<Rightarrow> dset k v item | None \<Rightarrow> item) tokens
           [(''timestamp'', date @ '' '' @ clock), (''level'', level), (''service'', service), (''message'', message)]
     | _ \<Rightarrow> unparsed line))"

definition tail_logs :: "string list \<Rightarrow> nat \<Rightarrow> string dict list" where
  "tail_logs all_lines log_tail_lines =
     take 40 (map parse_log_line (rev (drop (length all_lines - log_tail_lines) all_lines)))"

subsection \<open>A line is read back\<close>

text \<open>A text without blanks and bars; a word is one that is not empty.\<close>

definition solid :: "string \<Rightarrow> bool" where
  "solid s \<longleftrightarrow> list_all (\<lambda>c. \<not> is_space c \<and> c \<noteq> CHR ''|'') s"

lemma solid_simps [simp]:
  "solid []" "solid (c # s) \<longleftrightarrow> \<not> is_space c \<and> c \<noteq> CHR ''|'' \<and> solid s" "solid (s @ t) \<longleftrightarrow> solid s \<and> solid t"
  by (auto simp: solid_def)

lemma blank_space [simp]: "is_space CHR '' ''"
  by code_simp

lemma words_solid: "solid w \<Longrightarrow> words_from cur (w @ s) = words_from (cur @ w) s"
  by (induction w arbitrary: cur) simp_all

lemma words_word: "solid w \<Longrightarrow> w \<noteq> [] \<Longrightarrow> words_from [] (w @ CHR '' '' # s) = w # words_from [] s"
  by (simp add: words_solid)

lemma words_gap: "words_from [] (replicate n CHR '' '' @ CHR '' '' # s) = words_from [] s"
  by (induction n) simp_all

lemma words_padded: "solid w \<Longrightarrow> w \<noteq> [] \<Longrightarrow> words_from [] (ljust n w @ CHR '' '' # s) = w # words_from [] s"
  by (cases "n - length w") (simp_all add: ljust_def words_solid words_gap)

lemma words_joined: "list_all (\<lambda>w. solid w \<and> w \<noteq> []) ws \<Longrightarrow> words_from [] (join_with '' '' ws) = ws"
proof (induction ws)
  case (Cons w ws)
  then show ?case using words_solid [of w "[]" "[]"] by (cases ws) (simp_all add: words_word)
qed simp

lemma split_bar_first: "CHR ''|'' \<notin> set p \<Longrightarrow> split_bar (p @ '' | '' @ m) = Some (p, m)"
proof (induction p)
  case Nil
  then show ?case by (simp add: starts_with_def)
next
  case (Cons c p)
  have "\<not> starts_with '' | '' ((c # p) @ '' | '' @ m)"
    using Cons.prems by (cases p) (auto simp: starts_with_def)
  then show ?case using Cons by simp
qed

lemma split_pair_text: "CHR ''='' \<notin> set k \<Longrightarrow> split_pair (pair_text (k, v)) = Some (k, v)"
  by (simp add: split_pair_def pair_text_def takeWhile_append dropWhile_append)

lemma update_new: "k \<notin> fst ` set d \<Longrightarrow> dset k v d = d @ [(k, v)]"
  by (induction d) auto

lemma fold_fields:
  assumes "distinct (map fst (d @ fs))" "\<And>k v. (k, v) \<in> set fs \<Longrightarrow> CHR ''='' \<notin> set k"
  shows "fold (\<lambda>token item. case split_pair token of Some (k, v) \<Rightarrow> dset k v item | None \<Rightarrow> item) (map pair_text fs) d = d @ fs"
  using assms
proof (induction fs arbitrary: d)
  case (Cons f fs)
  obtain k v where f: "f = (k, v)" by fastforce
  have "split_pair (pair_text f) = Some (k, v)" using Cons.prems(2) [of k v] by (simp add: f split_pair_text)
  moreover have "dset k v d = d @ [f]" using Cons.prems(1) by (auto simp: f intro: update_new)
  moreover have "fold (\<lambda>token item. case split_pair token of Some (k, v) \<Rightarrow> dset k v item | None \<Rightarrow> item) (map pair_text fs) (d @ [f])
      = (d @ [f]) @ fs" by (rule Cons.IH) (use Cons.prems in auto)
  ultimately show ?case by simp
qed simp

lemma upper_solid [simp]: "solid (upper_text s) \<longleftrightarrow> solid s"
proof -
  have "is_space (upper_char c) = is_space c \<and> (upper_char c = CHR ''|'') = (c = CHR ''|'')" for c
    by (auto simp: upper_char_def is_space_def Let_def dest: arg_cong [of _ _ "of_char :: char \<Rightarrow> nat"])
  then show ?thesis by (induction s) (simp_all add: upper_text_def)
qed

lemma solid_no_bar: "solid s \<Longrightarrow> CHR ''|'' \<notin> set s"
  by (auto simp: solid_def list_all_iff)

lemma join_no_bar: "list_all (\<lambda>w. CHR ''|'' \<notin> set w) ws \<Longrightarrow> CHR ''|'' \<notin> set (join_with '' '' ws)"
proof (induction ws)
  case (Cons w ws)
  then show ?case by (cases ws) auto
qed simp

lemma upper_Nil [simp]: "upper_text s = [] \<longleftrightarrow> s = []"
  by (simp add: upper_text_def)

lemma line_field_names:
  "distinct (map fst ([(''timestamp'', a), (''level'', b), (''service'', c), (''message'', d)] @ line_fields m ls ctx r))"
  "(k, v) \<in> set (line_fields m ls ctx r) \<Longrightarrow> solid k \<and> k \<noteq> [] \<and> CHR ''='' \<notin> set k"
  by (auto simp: line_fields_def solid_def is_space_def split: if_splits)

text \<open>
  A record whose names hold no blanks and no bars, what the dashboard shows of a record, and the log
  file, in which the handler ends every record with a newline.
\<close>

definition plain_names :: "bool \<Rightarrow> string list \<Rightarrow> log_context \<times> log_record \<Rightarrow> bool" where
  "plain_names include_module source_levels = (\<lambda>(ctx, r).
     list_all (\<lambda>w. solid w \<and> w \<noteq> []) [lr_date r, lr_clock r, lr_level r, service_of ctx] \<and>
     list_all (\<lambda>f. solid (snd f)) (line_fields include_module source_levels ctx r))"

definition shown_entry :: "(pv \<Rightarrow> string) \<Rightarrow> bool \<Rightarrow> string list \<Rightarrow> log_context \<times> log_record \<Rightarrow> string dict" where
  "shown_entry dumps include_module source_levels = (\<lambda>(ctx, r).
     [(''timestamp'', lr_date r @ '' '' @ lr_clock r), (''level'', upper_text (lr_level r)), (''service'', service_of ctx),
      (''message'', line_message dumps r)] @ line_fields include_module source_levels ctx r)"

definition log_file_text :: "(pv \<Rightarrow> string) \<Rightarrow> bool \<Rightarrow> string list \<Rightarrow> (log_context \<times> log_record) list \<Rightarrow> string" where
  "log_file_text dumps include_module source_levels entries =
     concat (map (\<lambda>(ctx, r). human_format dumps False include_module source_levels ctx r @ [CHR 0x0A]) entries)"

definition unbroken :: "string \<Rightarrow> bool" where
  "unbroken s \<longleftrightarrow> list_all (\<lambda>c. \<not> is_break c) s"

lemma unbroken_simps [simp]:
  "unbroken []" "unbroken (c # s) \<longleftrightarrow> \<not> is_break c \<and> unbroken s" "unbroken (s @ t) \<longleftrightarrow> unbroken s \<and> unbroken t"
  by (auto simp: unbroken_def)

lemma break_space: "is_break c \<Longrightarrow> is_space c"
  by (auto simp: is_break_def is_space_def Let_def)

lemma solid_unbroken: "solid s \<Longrightarrow> unbroken s"
  by (auto simp: solid_def unbroken_def list_all_iff dest: break_space)

lemma blank_unbroken [simp]: "\<not> is_break CHR '' ''" "\<not> is_break CHR ''|''" "\<not> is_break CHR ''=''" "is_break CHR 0x0A"
  by code_simp+

lemma replicate_unbroken [simp]: "unbroken (replicate n CHR '' '')"
  by (induction n) simp_all

lemma join_unbroken: "list_all unbroken ws \<Longrightarrow> unbroken (join_with '' '' ws)"
proof (induction ws)
  case (Cons w ws)
  then show ?case by (cases ws) auto
qed simp

lemma parse_formatted:
  assumes "plain_names include_module source_levels (ctx, r)"
  shows "parse_log_line (human_format dumps False include_module source_levels ctx r) =
    shown_entry dumps include_module source_levels (ctx, r)"
proof -
  note names = assms [unfolded plain_names_def prod.case, THEN conjunct1] assms [unfolded plain_names_def prod.case, THEN conjunct2]
  let ?fs = "line_fields include_module source_levels ctx r"
  let ?tokens = "map pair_text ?fs"
  let ?level = "upper_text (lr_level r)"
  let ?prefix = "join_with '' '' ([lr_date r @ '' '' @ lr_clock r, ljust 8 ?level, ljust 14 (service_of ctx)] @ ?tokens)"
  have token: "solid w \<and> w \<noteq> []" if "w \<in> set ?tokens" for w
    using that names(2) line_field_names(2) by (fastforce simp: pair_text_def list_all_iff is_space_def)
  obtain t ts where ts: "?tokens = t # ts" by (simp add: line_fields_def)
  have "list_all (\<lambda>w. CHR ''|'' \<notin> set w) ([lr_date r @ '' '' @ lr_clock r, ljust 8 ?level, ljust 14 (service_of ctx)] @ ?tokens)"
    using names(1) token solid_no_bar [of ?level] by (auto simp: ljust_def list_all_iff dest: solid_no_bar)
  then have bar: "split_bar (?prefix @ '' | '' @ line_message dumps r) = Some (?prefix, line_message dumps r)"
    by (intro split_bar_first join_no_bar)
  have "?prefix = lr_date r @ CHR '' '' # lr_clock r @ CHR '' '' # ljust 8 ?level @ CHR '' '' # ljust 14 (service_of ctx)
      @ CHR '' '' # join_with '' '' ?tokens" by (simp add: ts)
  then have words: "py_words ?prefix = lr_date r # lr_clock r # ?level # service_of ctx # ?tokens"
    using names(1) token words_joined [of ?tokens]
    by (simp add: py_words_def words_word words_padded list_all_iff)
  have "human_format dumps False include_module source_levels ctx r = ?prefix @ '' | '' @ line_message dumps r"
    by (simp add: human_format_def Let_def)
  then show ?thesis
    by (simp only: parse_log_line_def bar words option.case prod.case list.case shown_entry_def)
      (rule fold_fields [OF line_field_names(1)], simp add: line_field_names(2))
qed

lemma human_format_unbroken:
  assumes "plain_names include_module source_levels (ctx, r)" "unbroken (line_message dumps r)"
  shows "unbroken (human_format dumps False include_module source_levels ctx r)"
proof -
  have "unbroken (pair_text f)" if "f \<in> set (line_fields include_module source_levels ctx r)" for f
    using that assms(1) line_field_names(2) [of "fst f" "snd f"]
    by (auto simp: plain_names_def pair_text_def list_all_iff intro: solid_unbroken)
  moreover have "list_all unbroken [lr_date r, lr_clock r, upper_text (lr_level r), service_of ctx]"
    using assms(1) by (auto simp: plain_names_def intro: solid_unbroken)
  ultimately have "unbroken (join_with '' '' ([lr_date r @ '' '' @ lr_clock r, ljust 8 (upper_text (lr_level r)),
      ljust 14 (service_of ctx)] @ map pair_text (line_fields include_module source_levels ctx r)))"
    by (intro join_unbroken) (auto simp: ljust_def list_all_iff)
  with assms(2) show ?thesis by (simp add: human_format_def Let_def)
qed

lemma lines_from_line: "unbroken l \<Longrightarrow> lines_from cur (l @ CHR 0x0A # s) = (cur @ l) # lines_from [] s"
  by (induction l arbitrary: cur) simp_all

lemma splitlines_joined: "list_all unbroken ls \<Longrightarrow> splitlines (concat (map (\<lambda>l. l @ [CHR 0x0A]) ls)) = ls"
  by (induction ls) (simp_all add: splitlines_def lines_from_line)

text \<open>C39: The dashboard reads the log file back as it was written: when the records are written by the human formatter without colours, their date, time, level and service are not empty, these and the values of the fields hold no blanks and no bars, and the messages, bars and all, no line breaks, it shows the last records of the file, at most as many as configured and at most forty, the newest first, each with its date and time, level, service, message and every field.\<close>

theorem log_file_roundtrip:
  assumes "list_all (plain_names include_module source_levels) entries"
    and "list_all (\<lambda>(ctx, r). unbroken (line_message dumps r)) entries"
  shows "tail_logs (splitlines (log_file_text dumps include_module source_levels entries)) n =
    take 40 (map (shown_entry dumps include_module source_levels) (rev (drop (length entries - n) entries)))"
proof -
  let ?format = "\<lambda>(ctx, r). human_format dumps False include_module source_levels ctx r"
  have "log_file_text dumps include_module source_levels entries = concat (map (\<lambda>l. l @ [CHR 0x0A]) (map ?format entries))"
    by (simp add: log_file_text_def o_def case_prod_unfold)
  moreover have "list_all unbroken (map ?format entries)"
    using assms by (auto simp: list_all_iff intro!: human_format_unbroken)
  ultimately have "splitlines (log_file_text dumps include_module source_levels entries) = map ?format entries"
    by (simp only: splitlines_joined)
  moreover have "map parse_log_line (map ?format es) = map (shown_entry dumps include_module source_levels) es"
    if "set es \<subseteq> set entries" for es
    using that assms(1) by (auto simp: list_all_iff intro!: parse_formatted)
  moreover have "set (rev (drop (length entries - n) entries)) \<subseteq> set entries" by (auto dest: in_set_dropD)
  ultimately show ?thesis by (simp only: tail_logs_def length_map drop_map rev_map)
qed

definition demo_context :: log_context where
  "demo_context = \<lparr> lc_service = ''gateway'', lc_default_service = ''service'', lc_request = ''r1'', lc_transaction = ''t1'', lc_asset = ''-'' \<rparr>"

definition demo_record :: "string \<Rightarrow> log_record" where
  "demo_record message = \<lparr> lr_date = ''2025-03-01'', lr_clock = ''10:00:00'', lr_level = ''error'', lr_module = ''pcag'', lr_file = ''routes.py'',
     lr_line = 7, lr_function = ''submit'', lr_message = message, lr_extra = [(''status'', VInt 500)] \<rparr>"

theorem log_file_roundtrip_witness:
  "tail_logs (splitlines (log_file_text py_repr False [''ERROR'']
      [(demo_context, demo_record ''first''), (demo_context, demo_record ''a | b'')])) 1 =
   [[(''timestamp'', ''2025-03-01 10:00:00''), (''level'', ''ERROR''), (''service'', ''gateway''), (''message'', ''a | b | status=500''),
     (''req'', ''r1''), (''tx'', ''t1''), (''src'', ''routes.py:7''), (''fn'', ''submit'')]]"
  (is "tail_logs (splitlines (log_file_text _ _ _ ?entries)) 1 = _")
proof -
  have plain: "list_all (plain_names False [''ERROR'']) ?entries"
    "list_all (\<lambda>(ctx, r). unbroken (line_message py_repr r)) ?entries" by code_simp+
  show ?thesis unfolding log_file_roundtrip [OF plain] by code_simp
qed

text \<open>A message with a line break becomes two entries, and the second one has lost its level and its service.\<close>

theorem multi_line_message_split:
  "map (\<lambda>entry. (dget entry ''level'', dget entry ''service'', dget entry ''message''))
     (tail_logs (splitlines (log_file_text py_repr False [''ERROR'']
        [(demo_context, demo_record (''failed:'' @ CHR 0x0A # ''timeout''))])) 10) =
   [(Some ''INFO'', Some ''unknown'', Some ''timeout | status=500''), (Some ''ERROR'', Some ''gateway'', Some ''failed:'')]"
  by code_simp

end
