(* ===== verification/RequestLog.thy ===== *)
theory RequestLog
  imports LogFormat
begin

section \<open>The request log (pcag/core/middleware/logging_middleware.py)\<close>

text \<open>
  Every request is logged before and after its handler, with secrets masked.  Parameters: \<open>json.loads\<close> of a body
  (\<open>None\<close> when it is not JSON), \<open>json.dumps\<close>, the decoding of a body, the fresh request id and the
  duration.  The lemmas: after masking nothing is left under a masked key, and what is logged does not
  depend on the values under masked keys.
\<close>

record http_request =
  rq_method :: string
  rq_path :: string
  rq_headers :: "string dict"
  rq_client :: "string option"
  rq_query :: string
  rq_body :: string

record http_response =
  rs_status :: int
  rs_content_type :: string
  rs_streaming :: bool
  rs_body :: string

record log_env =
  le_loads :: "string \<Rightarrow> pv option"
  le_dumps :: "pv \<Rightarrow> string"
  le_decode :: "string \<Rightarrow> string"
  le_fresh_id :: string
  le_duration :: pnum

text \<open>An entry: the level, the message, the extra fields and the context it is written in.\<close>

record entry =
  en_level :: string
  en_message :: string
  en_extra :: "pv dict"
  en_request :: string
  en_transaction :: string
  en_asset :: string

subsection \<open>Masking and summaries\<close>

definition masked :: pv where
  "masked = VStr ''***MASKED***''"

fun mask_sensitive_data :: "pv \<Rightarrow> pv \<Rightarrow> pv res" where
  "mask_sensitive_data mask_fields (VDict d) = bindR (mapR (\<lambda>(k, v). bindR (str_in k mask_fields) (\<lambda>hit.
     if hit then Inr (k, masked) else bindR (mask_sensitive_data mask_fields v) (\<lambda>w. Inr (k, w)))) d) (\<lambda>e. Inr (VDict e))"
| "mask_sensitive_data mask_fields (VList xs) = bindR (mapR (mask_sensitive_data mask_fields) xs) (\<lambda>ys. Inr (VList ys))"
| "mask_sensitive_data mask_fields v = Inr v"

text \<open>The first result that is not \<open>None\<close>.\<close>

definition first_some :: "pv list \<Rightarrow> pv" where
  "first_some xs = (case filter (\<lambda>v. v \<noteq> VNone) xs of [] \<Rightarrow> VNone | v # _ \<Rightarrow> v)"

fun extract_first :: "string \<Rightarrow> pv \<Rightarrow> pv" where
  "extract_first key (VDict d) = (case dget d key of Some v \<Rightarrow> v
     | None \<Rightarrow> first_some (map (\<lambda>(k, v). extract_first key v) d))"
| "extract_first key (VList xs) = first_some (map (extract_first key) xs)"
| "extract_first key v = VNone"

definition list_text :: "int \<Rightarrow> string" where
  "list_text n = ''list'' @ [CHR 0x5B] @ str_int n @ [CHR 0x5D]"

definition describe_keys :: "pv \<Rightarrow> string" where
  "describe_keys payload = (case payload of
     VDict d \<Rightarrow> (let s = join_with '','' (take 8 (dkeys d)) in if s = [] then ''-'' else s)
   | VList xs \<Rightarrow> list_text (int (length xs))
   | _ \<Rightarrow> type_name payload)"

definition compact :: "log_env \<Rightarrow> pv \<Rightarrow> string" where
  "compact env payload = take 240 (le_dumps env payload)"

definition copy_field :: "string \<Rightarrow> string \<Rightarrow> pv dict \<Rightarrow> pv dict" where
  "copy_field to key d = (case dget d key of Some v \<Rightarrow> [(to, v)] | None \<Rightarrow> [])"

definition summarize_request :: "log_env \<Rightarrow> bool \<Rightarrow> pv \<Rightarrow> pv dict" where
  "summarize_request env include_body payload = [(''request_keys'', VStr (describe_keys payload))] @ (case payload of
     VDict d \<Rightarrow>
       copy_field ''request_tx'' ''transaction_id'' d @ copy_field ''request_asset'' ''asset_id'' d
       @ (case vget d ''proof_package'' of
           VDict proof \<Rightarrow> [(''policy_version'', dget_or proof ''policy_version_id'' (VStr ''-'')),
             (''action_count'', case or_else (vget proof ''action_sequence'') (VList []) of
                VList xs \<Rightarrow> VInt (int (length xs)) | _ \<Rightarrow> VStr ''-'')]
             @ (if truthy (vget proof ''sensor_snapshot_hash'')
                then [(''sensor_hash'', VStr (take 10 (py_str (vget proof ''sensor_snapshot_hash'')) @ ''...''))] else [])
         | _ \<Rightarrow> [])
       @ (if include_body then [(''request_body'', VStr (compact env payload))] else [])
   | _ \<Rightarrow> [])"

definition summarize_response :: "log_env \<Rightarrow> bool \<Rightarrow> pv \<Rightarrow> pv dict" where
  "summarize_response env include_body payload = [(''response_keys'', VStr (describe_keys payload))] @ (case payload of
     VDict d \<Rightarrow>
       concat (map (\<lambda>field. copy_field field field d) [''status'', ''reason_code'', ''final_verdict'', ''evidence_ref''])
       @ (case vget d ''detail'' of
           VList xs \<Rightarrow> [(''detail'', VStr (list_text (int (length xs))))]
         | VNone \<Rightarrow> []
         | v \<Rightarrow> [(''detail'', v)])
       @ (if include_body then [(''response_body'', VStr (compact env payload))] else [])
   | _ \<Rightarrow> [])"

definition summarize_text_body :: "log_env \<Rightarrow> bool \<Rightarrow> string \<Rightarrow> pv dict" where
  "summarize_text_body env include_body body =
     (if body = [] then [(''body_size'', VInt 0)]
      else [(''body_size'', VInt (int (length body)))]
        @ (if include_body then [(''body_preview'', VStr (take 160 (le_decode env body)))] else []))"

definition parse_json_body :: "log_env \<Rightarrow> string \<Rightarrow> pv" where
  "parse_json_body env body = (if body = [] then VNone else case le_loads env body of Some v \<Rightarrow> v | None \<Rightarrow> VNone)"

definition header :: "string \<Rightarrow> string \<Rightarrow> http_request \<Rightarrow> string" where
  "header name dflt req = dget_or (rq_headers req) name dflt"

definition should_capture_request_body :: "http_request \<Rightarrow> bool" where
  "should_capture_request_body req \<longleftrightarrow> upper_text (rq_method req) \<notin> {''GET'', ''HEAD'', ''OPTIONS''}
     \<and> \<not> has_substring ''text/event-stream'' (map lower_char (header ''accept'' [] req))"

definition should_capture_response_body :: "http_response \<Rightarrow> bool" where
  "should_capture_response_body r \<longleftrightarrow> \<not> rs_streaming r \<and> (let lowered = map lower_char (rs_content_type r) in
     \<not> has_substring ''text/event-stream'' lowered \<and> (has_substring ''application/json'' lowered \<or> has_substring ''text/'' lowered))"

definition response_log_level :: "int \<Rightarrow> string" where
  "response_log_level status_code = (if status_code \<ge> 500 then ''ERROR'' else if status_code \<ge> 400 then ''WARNING'' else ''INFO'')"

subsection \<open>A request\<close>

record log_config =
  lo_mask_fields :: pv
  lo_request_body :: bool
  lo_response_body :: bool

definition log_config_of :: "pv \<Rightarrow> log_config res" where
  "log_config_of config = bindR (py_get config ''logging'' (VDict [])) (\<lambda>l.
     bindR (py_get l ''mask_fields'' (VList [VStr ''api_key'', VStr ''X-API-Key''])) (\<lambda>mask_fields. Inr
       \<lparr> lo_mask_fields = mask_fields, lo_request_body = truthy (dget_or (as_dict l) ''log_request_body'' (VBool False)),
         lo_response_body = truthy (dget_or (as_dict l) ''log_response_body'' (VBool False)) \<rparr>))"

text \<open>What is known of a request before its handler runs: the context variables and the summary.\<close>

definition context_value :: "pv \<Rightarrow> string" where
  "context_value v = (if truthy v then py_str v else ''-'')"

definition read_request :: "log_env \<Rightarrow> log_config \<Rightarrow> http_request \<Rightarrow> (string \<times> string \<times> pv dict) res" where
  "read_request env config req =
     (let body = (if should_capture_request_body req then rq_body req else []);
          json = parse_json_body env body;
          start = [(''content_type'', VStr (header ''content-type'' ''-'' req))] in
      if json = VNone then Inr (''-'', ''-'', dmerge start (summarize_text_body env (lo_request_body config) body))
      else bindR (mask_sensitive_data (lo_mask_fields config) json) (\<lambda>payload.
        Inr (context_value (extract_first ''transaction_id'' payload), context_value (extract_first ''asset_id'' payload),
             dmerge start (summarize_request env (lo_request_body config) payload))))"

definition request_id_of :: "log_env \<Rightarrow> http_request \<Rightarrow> string" where
  "request_id_of env req = header ''x-request-id'' (le_fresh_id env) req"

definition http_text :: "http_request \<Rightarrow> string \<Rightarrow> string" where
  "http_text req what = ''HTTP '' @ rq_method req @ '' '' @ rq_path req @ '' '' @ what"

definition entry_in :: "string \<times> string \<times> string \<Rightarrow> string \<Rightarrow> string \<Rightarrow> pv dict \<Rightarrow> entry" where
  "entry_in ctx level message extra = \<lparr> en_level = level, en_message = message, en_extra = extra,
     en_request = fst ctx, en_transaction = fst (snd ctx), en_asset = snd (snd ctx) \<rparr>"

definition started_extra :: "http_request \<Rightarrow> pv dict \<Rightarrow> pv dict" where
  "started_extra req summary = dmerge [(''client'', VStr (case rq_client req of Some h \<Rightarrow> h | None \<Rightarrow> ''unknown'')),
     (''query'', VStr (if rq_query req = [] then ''-'' else rq_query req))] summary"

definition duration_ms :: "log_env \<Rightarrow> pv" where
  "duration_ms env = of_num (nround 2 (le_duration env))"

definition response_summary :: "log_env \<Rightarrow> log_config \<Rightarrow> http_response \<Rightarrow> pv dict" where
  "response_summary env config r =
     (if \<not> should_capture_response_body r then []
      else (let json = parse_json_body env (rs_body r) in
        if json = VNone then summarize_text_body env (lo_response_body config) (rs_body r)
        else (case mask_sensitive_data (lo_mask_fields config) json of
            Inr payload \<Rightarrow> summarize_response env (lo_response_body config) payload
          | Inl e \<Rightarrow> [(''response_summary'', VStr ([CHR 0x5B] @ ''response_read_error:'' @ exc_msg e @ [CHR 0x5D]))])))"

text \<open>
  The entries written and the outcome.  The context variables hold the new request's id from the start
  and the ids found in its body once they are read.
\<close>

definition dispatch ::
  "log_env \<Rightarrow> pv \<Rightarrow> http_request \<Rightarrow> ('w \<Rightarrow> http_response res \<times> 'w) \<Rightarrow> 'w \<Rightarrow> (http_response res \<times> entry list) \<times> 'w" where
  "dispatch env loaded req call_next w = (case log_config_of loaded of
     Inl e \<Rightarrow> ((Inl e, []), w)
   | Inr config \<Rightarrow>
       (let rid = request_id_of env req;
            failed = (\<lambda>ctx e. entry_in ctx ''ERROR'' (http_text req ''raised exception'')
              [(''duration_ms'', duration_ms env), (''error'', VStr (exc_msg e))]) in
        case read_request env config req of
          Inl e \<Rightarrow> ((Inl e, [failed (rid, ''-'', ''-'') e]), w)
        | Inr (tx, asset, summary) \<Rightarrow>
            (let ctx = (rid, tx, asset); started = entry_in ctx ''INFO'' (http_text req ''started'') (started_extra req summary) in
             case call_next w of
               (Inl e, w1) \<Rightarrow> ((Inl e, [started, failed ctx e]), w1)
             | (Inr r, w1) \<Rightarrow> ((Inr r, [started, entry_in ctx (response_log_level (rs_status r)) (http_text req ''completed'')
                   (dmerge [(''status'', VInt (rs_status r)), (''duration_ms'', duration_ms env)] (response_summary env config r))]), w1))))"

subsection \<open>Secrets\<close>

text \<open>Nothing but the mask stands under a masked key, at any depth.\<close>

fun clean :: "pv \<Rightarrow> pv \<Rightarrow> bool" where
  "clean names (VDict d) \<longleftrightarrow> (\<forall>(k, v)\<in>set d. (str_in k names = Inr True \<longrightarrow> v = masked) \<and> clean names v)"
| "clean names (VList xs) \<longleftrightarrow> (\<forall>v\<in>set xs. clean names v)"
| "clean names v \<longleftrightarrow> True"

text \<open>Two values that are equal but for what stands under masked keys.\<close>

inductive agree :: "pv \<Rightarrow> pv \<Rightarrow> pv \<Rightarrow> bool" for names where
  agree_refl: "agree names v v"
| agree_dict: "list_all2 (\<lambda>p q. fst p = fst q \<and> (str_in (fst p) names = Inr True \<or> agree names (snd p) (snd q))) d e
    \<Longrightarrow> agree names (VDict d) (VDict e)"
| agree_list: "list_all2 (agree names) xs ys \<Longrightarrow> agree names (VList xs) (VList ys)"

lemma mapR_mem: "mapR f xs = Inr ys \<Longrightarrow> y \<in> set ys \<Longrightarrow> \<exists>x\<in>set xs. f x = Inr y"
  by (metis in_set_conv_nth mapR_Inr_length mapR_Inr_nth)

lemma mapR_eq2: "list_all2 (\<lambda>x y. f x = g y) xs ys \<Longrightarrow> mapR f xs = mapR g ys"
  by (induction rule: list_all2_induct) simp_all

text \<open>After masking, no value but the mask is left under a masked key, however deep it stands.\<close>

theorem mask_leaves_no_secret: "mask_sensitive_data names v = Inr w \<Longrightarrow> clean names w"
proof (induction names v arbitrary: w rule: mask_sensitive_data.induct)
  case (1 names d)
  let ?f = "\<lambda>(k, v). bindR (str_in k names) (\<lambda>hit. if hit then Inr (k, masked)
     else bindR (mask_sensitive_data names v) (\<lambda>w. Inr (k, w)))"
  obtain e where e: "mapR ?f d = Inr e" "w = VDict e" using 1(2) by auto
  have "(str_in k names = Inr True \<longrightarrow> x = masked) \<and> clean names x" if kx: "(k, x) \<in> set e" for k x
  proof -
    obtain k0 v where kv: "(k0, v) \<in> set d" "?f (k0, v) = Inr (k, x)" using mapR_mem [OF e(1) kx] by auto
    then obtain hit where "str_in k names = Inr hit" "k0 = k" "if hit then x = masked else mask_sensitive_data names v = Inr x"
      by (auto split: if_splits)
    then show ?thesis using 1(1) [OF kv(1) refl] by (cases hit) (auto simp: masked_def)
  qed
  then show ?case by (auto simp: e(2))
next
  case (2 names xs)
  obtain ys where ys: "mapR (mask_sensitive_data names) xs = Inr ys" "w = VList ys" using 2(2) by auto
  then show ?case using mapR_mem [OF ys(1)] 2(1) by auto
qed simp_all

theorem mask_leaves_no_secret_witness:
  "clean (VList [VStr ''api_key'']) (VDict [(''a'', VList [VDict [(''api_key'', masked), (''b'', VInt 1)]])])"
proof -
  have "mask_sensitive_data (VList [VStr ''api_key'']) (VDict [(''a'', VList [VDict [(''api_key'', VStr ''s3cret''), (''b'', VInt 1)]])])
      = Inr (VDict [(''a'', VList [VDict [(''api_key'', masked), (''b'', VInt 1)]])])" by code_simp
  then show ?thesis by (rule mask_leaves_no_secret)
qed

lemma mask_agrees: "agree names v w \<Longrightarrow> mask_sensitive_data names v = mask_sensitive_data names w"
proof (induction rule: agree.induct)
  case (agree_dict d e)
  have "mapR (\<lambda>(k, v). bindR (str_in k names) (\<lambda>hit. if hit then Inr (k, masked)
        else bindR (mask_sensitive_data names v) (\<lambda>w. Inr (k, w)))) d =
      mapR (\<lambda>(k, v). bindR (str_in k names) (\<lambda>hit. if hit then Inr (k, masked)
        else bindR (mask_sensitive_data names v) (\<lambda>w. Inr (k, w)))) e"
    by (rule mapR_eq2, rule list_all2_mono [OF agree_dict.IH]) (auto split: prod.splits cong: if_cong)
  then show ?case by simp
next
  case (agree_list xs ys)
  have "mapR (mask_sensitive_data names) xs = mapR (mask_sensitive_data names) ys"
    by (rule mapR_eq2, rule list_all2_mono [OF agree_list.IH]) simp
  then show ?case by simp
qed simp

lemma agree_None: "agree names v w \<Longrightarrow> v = VNone \<longleftrightarrow> w = VNone"
  by (auto elim: agree.cases)

text \<open>C38: What is logged of a request does not depend on its secrets: two bodies that are equal but for the values under masked keys leave the same entries and the same outcome, given the same answer of the handler.\<close>

theorem secrets_not_logged:
  assumes "log_config_of loaded = Inr config" "agree (lo_mask_fields config) v w"
    and "le_loads env body = Some v" "le_loads env body' = Some w" "v \<noteq> VNone" "body \<noteq> []" "body' \<noteq> []"
  shows "dispatch env loaded (req\<lparr> rq_body := body \<rparr>) call_next u = dispatch env loaded (req\<lparr> rq_body := body' \<rparr>) call_next u"
proof -
  have same: "read_request env config (req\<lparr> rq_body := body \<rparr>) = read_request env config (req\<lparr> rq_body := body' \<rparr>)"
    using assms agree_None [OF assms(2)] mask_agrees [OF assms(2)]
    by (simp add: read_request_def parse_json_body_def should_capture_request_body_def header_def)
  have rest: "request_id_of env (req\<lparr> rq_body := b \<rparr>) = request_id_of env req" "http_text (req\<lparr> rq_body := b \<rparr>) = http_text req"
    "started_extra (req\<lparr> rq_body := b \<rparr>) = started_extra req" for b
    by (simp_all add: request_id_of_def header_def http_text_def started_extra_def fun_eq_iff)
  show ?thesis unfolding dispatch_def assms(1) sum.case rest same by (rule refl)
qed

definition demo_log :: log_env where
  "demo_log = \<lparr> le_loads = (\<lambda>s. Some (VDict [(''asset_id'', VStr ''reactor_01''), (''api_key'', VStr s)])), le_dumps = py_repr,
     le_decode = id, le_fresh_id = ''r1'', le_duration = NI 1 \<rparr>"

definition demo_request :: http_request where
  "demo_request = \<lparr> rq_method = ''POST'', rq_path = ''/v1/control-requests'', rq_headers = [], rq_client = None, rq_query = [], rq_body = [] \<rparr>"

theorem secrets_not_logged_witness:
  "dispatch demo_log (VDict []) (demo_request\<lparr> rq_body := ''k1'' \<rparr>) (Pair (Inl (Exc ValueError []))) () =
   dispatch demo_log (VDict []) (demo_request\<lparr> rq_body := ''k2'' \<rparr>) (Pair (Inl (Exc ValueError []))) ()"
proof (rule secrets_not_logged)
  let ?config = "\<lparr> lo_mask_fields = VList [VStr ''api_key'', VStr ''X-API-Key''], lo_request_body = False, lo_response_body = False \<rparr>"
  show "log_config_of (VDict []) = Inr ?config" by code_simp
  show "le_loads demo_log k = Some (VDict [(''asset_id'', VStr ''reactor_01''), (''api_key'', VStr k)])" for k
    by (simp add: demo_log_def)
  have "str_in ''api_key'' (lo_mask_fields ?config) = Inr True" by code_simp
  then show "agree (lo_mask_fields ?config) (VDict [(''asset_id'', VStr ''reactor_01''), (''api_key'', VStr ''k1'')])
      (VDict [(''asset_id'', VStr ''reactor_01''), (''api_key'', VStr ''k2'')])"
    by (intro agree_dict) (simp add: agree_refl)
qed (simp_all add: demo_log_def)

end
