(* ===== verification/Dashboard.thy ===== *)
theory Dashboard
  imports LogFormat Ledger OtStore PolicyStore "HOL-Library.Char_ord" "HOL-Library.List_Lexorder"
begin

section \<open>The dashboard (pcag/apps/dashboard/service.py)\<close>

text \<open>
  What the dashboard makes of the tables and of the other services.  The queries run on the evidence events
  and the transactions, with the times at which the database wrote them, in microseconds; rows that a query
  leaves in any order keep the order of the table.  Parameters: \<open>json.loads\<close>, \<open>json.dumps\<close>, the text of
  a time, the clock, the latencies measured, the files read, and the HTTP client.  The requests sent
  together are modelled one after the other.
\<close>

record stored_event = event +
  se_created_at :: int

record stored_tx = tx_row +
  st_updated_at :: int

record dash_env =
  de_loads :: "string \<Rightarrow> pv res"
  de_dumps :: "pv \<Rightarrow> string"
  de_clock_text :: "int \<Rightarrow> string"
  de_iso_text :: "int \<Rightarrow> string"
  de_minute :: "int \<Rightarrow> int"
  de_now_ms :: int
  de_latency :: "string \<Rightarrow> pnum"
  de_log_lines :: "string list res option"
  de_unreadable :: "string \<Rightarrow> string"
  de_eval_single :: "pv res option"
  de_eval_repeat :: "pv res option"

record dash_config =
  dc_urls :: "pv dict"
  dc_sensors :: pv
  dc_options :: "pv dict"
  dc_refresh_ms :: int
  dc_window_minutes :: int
  dc_max_transactions :: nat
  dc_max_assets :: int
  dc_log_tail_lines :: nat
  dc_probe_paths :: "pv dict"
  dc_started_at_ms :: int

subsection \<open>Helpers\<close>

definition safe_json_load :: "dash_env \<Rightarrow> pv \<Rightarrow> pv" where
  "safe_json_load env raw = (case raw of
     VDict d \<Rightarrow> raw
   | VStr s \<Rightarrow> (case de_loads env s of Inr v \<Rightarrow> v | Inl e \<Rightarrow> VDict [])
   | _ \<Rightarrow> VDict [])"

definition coerce_latency_ms :: "pnum option \<Rightarrow> pv" where
  "coerce_latency_ms v = (case v of None \<Rightarrow> VNone | Some x \<Rightarrow> of_num (nround 2 x))"

definition summarize_snapshot_fields :: "dash_env \<Rightarrow> pv dict \<Rightarrow> pv" where
  "summarize_snapshot_fields env snapshot = VList (map (\<lambda>(key, v). VDict [(''name'', VStr key),
     (''value'', VStr (case v of VFloat f \<Rightarrow> fmt_fixed 3 f | VDict d \<Rightarrow> de_dumps env v | VList xs \<Rightarrow> de_dumps env v | _ \<Rightarrow> py_str v))])
     (take 6 snapshot))"

definition final_stages :: "string dict" where
  "final_stages = [(''COMMIT_ACK'', ''COMMITTED''), (''SAFETY_UNSAFE'', ''UNSAFE''), (''INTEGRITY_REJECTED'', ''REJECTED''),
     (''PREPARE_LOCK_DENIED'', ''ABORTED''), (''REVERIFY_FAILED'', ''ABORTED''), (''COMMIT_TIMEOUT'', ''ABORTED''),
     (''COMMIT_FAILED'', ''ERROR''), (''COMMIT_ERROR'', ''ERROR''), (''ABORTED'', ''ABORTED''), (''ESTOP_TRIGGERED'', ''ABORTED'')]"

definition map_transaction_status :: "string \<Rightarrow> string option \<Rightarrow> string" where
  "map_transaction_status latest_stage tx_status =
     (if tx_status = Some ''COMMITTED'' then ''COMMITTED''
      else if tx_status = Some ''ABORTED'' then ''ABORTED''
      else if tx_status = Some ''LOCKED'' then ''IN_PROGRESS''
      else dget_or final_stages latest_stage ''IN_PROGRESS'')"

text \<open>\<open>s.replace('_01', '')\<close>\<close>

fun without_number :: "string \<Rightarrow> string" where
  "without_number (a # b # c # s) = (if [a, b, c] = ''_01'' then without_number s else a # without_number (b # c # s))"
| "without_number s = s"

definition infer_asset :: "dash_config \<Rightarrow> string \<Rightarrow> pv res" where
  "infer_asset cfg transaction_id = bindR (py_get (dc_sensors cfg) ''assets'' (VDict [])) (\<lambda>assets.
     bindR (py_items assets) (\<lambda>items. Inr (case List.find (\<lambda>a. let prefix = without_number a in
         prefix \<noteq> [] \<and> has_substring prefix transaction_id) (dkeys items) of Some a \<Rightarrow> VStr a | None \<Rightarrow> VNone)))"

subsection \<open>The queries\<close>

text \<open>\<open>SELECT DISTINCT ON (key)\<close>: the first row of each key.\<close>

fun distinct_on :: "('a \<Rightarrow> 'k) \<Rightarrow> 'a list \<Rightarrow> 'a list" where
  "distinct_on key [] = []"
| "distinct_on key (x # xs) = x # distinct_on key (filter (\<lambda>y. key y \<noteq> key x) xs)"

definition latest_events :: "stored_event list \<Rightarrow> stored_event list" where
  "latest_events events = distinct_on ev_transaction_id
     (sort_key ev_transaction_id (sort_key (\<lambda>e. - ev_sequence_no e) events))"

definition group_counts :: "'a list \<Rightarrow> ('a \<times> int) list" where
  "group_counts xs = map (\<lambda>x. (x, int (count_list xs x))) (remdups xs)"

record tx_summary =
  ts_transaction_id :: string
  ts_stage :: string
  ts_created_at :: int
  ts_payload :: pv
  ts_started_at :: int
  ts_ended_at :: int
  ts_event_count :: int
  ts_asset_id :: "string option"
  ts_status :: "string option"

definition summarize_transaction :: "stored_event list \<Rightarrow> stored_tx list \<Rightarrow> stored_event \<Rightarrow> tx_summary" where
  "summarize_transaction events txs e =
     (let times = map se_created_at (filter (\<lambda>x. ev_transaction_id x = ev_transaction_id e) events);
          tx = List.find (\<lambda>t. tr_transaction_id t = ev_transaction_id e) txs in
      \<lparr> ts_transaction_id = ev_transaction_id e, ts_stage = ev_stage e, ts_created_at = se_created_at e, ts_payload = ev_payload e,
        ts_started_at = foldr min times (se_created_at e), ts_ended_at = foldr max times (se_created_at e),
        ts_event_count = int (length times),
        ts_asset_id = map_option tr_asset_id tx, ts_status = map_option tr_status tx \<rparr>)"

definition query_transactions :: "nat \<Rightarrow> stored_event list \<Rightarrow> stored_tx list \<Rightarrow> tx_summary list" where
  "query_transactions limit events txs =
     take limit (sort_key (\<lambda>t. - ts_created_at t) (map (summarize_transaction events txs) (latest_events events)))"

definition query_locks :: "int \<Rightarrow> stored_tx list \<Rightarrow> stored_tx list" where
  "query_locks current_time_ms txs = sort_key (\<lambda>t. - st_updated_at t)
     (filter (\<lambda>t. tr_status t = ''LOCKED'' \<and> current_time_ms < (case tr_lock_expires t of None \<Rightarrow> 0 | Some e \<Rightarrow> e)) txs)"

definition in_window :: "int \<Rightarrow> int \<Rightarrow> stored_event \<Rightarrow> bool" where
  "in_window now window_minutes e \<longleftrightarrow> now - window_minutes * 60000000 \<le> se_created_at e"

definition query_outcomes :: "(int \<Rightarrow> int) \<Rightarrow> stored_event list \<Rightarrow> ((int \<times> string) \<times> int) list" where
  "query_outcomes minute recent =
     sort_key (fst \<circ> fst) (group_counts (map (\<lambda>e. (minute (se_created_at e), ev_stage e)) (latest_events recent)))"

definition query_stages :: "stored_event list \<Rightarrow> (string \<times> int) list" where
  "query_stages recent = sort_key (\<lambda>r. - snd r) (group_counts (map ev_stage recent))"

definition query_safety :: "stored_event list \<Rightarrow> stored_event list" where
  "query_safety recent = take 120 (sort_key (\<lambda>e. - se_created_at e)
     (filter (\<lambda>e. ev_stage e \<in> {''SAFETY_PASSED'', ''SAFETY_UNSAFE''}) recent))"

subsection \<open>Rows for display\<close>

definition first_item :: "pv \<Rightarrow> pv res" where
  "first_item v = (case v of
     VList (x # xs) \<Rightarrow> Inr x
   | VStr (c # s) \<Rightarrow> Inr (VStr [c])
   | VDict d \<Rightarrow> raise KeyError ''0''
   | VList [] \<Rightarrow> raise IndexError ''list index out of range''
   | VStr [] \<Rightarrow> raise IndexError ''string index out of range''
   | _ \<Rightarrow> raise TypeError (quoted (type_name v) @ '' object is not subscriptable''))"

definition said_unsafe :: "pv \<Rightarrow> string \<Rightarrow> bool res" where
  "said_unsafe validators name = bindR (py_get validators name (VDict [])) (\<lambda>v.
     bindR (py_get v ''verdict'' VNone) (\<lambda>verdict. Inr (py_eq verdict (VStr ''UNSAFE''))))"

definition violated_rules :: "pv \<Rightarrow> pv res" where
  "violated_rules validators = bindR (py_get validators ''rules'' (VDict [])) (\<lambda>r.
     bindR (py_get r ''details'' (VDict [])) (\<lambda>d. py_get d ''violated_rules'' (VList [])))"

definition validators_of :: "pv \<Rightarrow> pv res" where
  "validators_of payload = bindR (py_get payload ''details'' (VDict [])) (\<lambda>d. py_get d ''validators'' (VDict []))"

definition unsafe_excerpt :: "pv \<Rightarrow> pv res" where
  "unsafe_excerpt payload = bindR (validators_of payload) (\<lambda>validators.
     bindR (violated_rules validators) (\<lambda>rules.
     if truthy rules then bindR (first_item rules) (\<lambda>first. bindR (py_get first ''rule_id'' VNone) (\<lambda>rule_id.
       bindR (py_get first ''reason'' VNone) (\<lambda>reason. Inr (VStr (py_str rule_id @ '': '' @ py_str reason)))))
     else bindR (said_unsafe validators ''cbf'') (\<lambda>cbf. if cbf then Inr (VStr ''CBF barrier violation'')
     else bindR (said_unsafe validators ''simulation'') (\<lambda>sim. Inr (if sim then VStr ''Simulation violation'' else VNone)))))"

definition extract_reason_excerpt :: "string \<Rightarrow> pv \<Rightarrow> pv res" where
  "extract_reason_excerpt stage payload =
     (if \<not> truthy payload then Inr VNone
      else bindR (str_in ''reason'' payload) (\<lambda>reason.
        if reason then bindR (py_get payload ''reason'' VNone) (\<lambda>r. Inr (VStr (py_str r)))
        else bindR (str_in ''error'' payload) (\<lambda>error.
          if error then bindR (py_get payload ''error'' VNone) (\<lambda>r. Inr (VStr (py_str r)))
          else if stage = ''SAFETY_UNSAFE'' then unsafe_excerpt payload else Inr VNone)))"

text \<open>The milliseconds between two times, as \<open>total_seconds() * 1000\<close> gives them.\<close>

definition span_ms :: "int \<Rightarrow> int \<Rightarrow> pv res" where
  "span_ms started ended = bindR (ndiv (NI (ended - started)) (NI 1000000)) (\<lambda>s.
     bindR (nmul s (NI 1000)) (\<lambda>ms. Inr (of_num (nround 2 ms))))"

definition final_status :: "tx_summary \<Rightarrow> string" where
  "final_status row = map_transaction_status (ts_stage row) (ts_status row)"

definition normalize_transaction_row :: "dash_env \<Rightarrow> dash_config \<Rightarrow> tx_summary \<Rightarrow> pv dict res" where
  "normalize_transaction_row env cfg row =
     bindR (span_ms (ts_started_at row) (ts_ended_at row)) (\<lambda>duration_ms.
     bindR (case ts_asset_id row of Some a \<Rightarrow> if a = [] then infer_asset cfg (ts_transaction_id row) else Inr (VStr a)
            | None \<Rightarrow> infer_asset cfg (ts_transaction_id row)) (\<lambda>asset.
     bindR (extract_reason_excerpt (ts_stage row) (safe_json_load env (ts_payload row))) (\<lambda>excerpt.
     let iso = (\<lambda>t. VStr (de_iso_text env t)); ref = ''/v1/transactions/'' @ ts_transaction_id row in Inr
       [(''transaction_id'', VStr (ts_transaction_id row)), (''asset_id'', asset), (''latest_stage'', VStr (ts_stage row)),
        (''final_status'', VStr (final_status row)), (''tx_status'', opt_pv (ts_status row)),
        (''started_at'', iso (ts_started_at row)), (''ended_at'', iso (ts_ended_at row)),
        (''latest_created_at'', iso (ts_created_at row)), (''event_count'', VInt (ts_event_count row)),
        (''duration_ms'', duration_ms), (''reason_excerpt'', excerpt), (''evidence_ref'', VStr ref),
        (''evidence_url'', VStr (py_str (dget_or (dc_urls cfg) ''evidence_ledger'' (VStr [])) @ ref))])))"

definition normalize_lock_row :: "dash_env \<Rightarrow> stored_tx \<Rightarrow> pv dict" where
  "normalize_lock_row env row = (let lock_expires = (case tr_lock_expires row of None \<Rightarrow> 0 | Some e \<Rightarrow> e) in
     [(''transaction_id'', VStr (tr_transaction_id row)), (''asset_id'', VStr (tr_asset_id row)), (''status'', VStr (tr_status row)),
      (''lock_expires_at_ms'', VInt lock_expires), (''remaining_ms'', VInt (max (lock_expires - de_now_ms env) 0)),
      (''updated_at'', VStr (de_iso_text env (st_updated_at row)))])"

subsection \<open>Counts\<close>

definition outcomes :: "string list" where
  "outcomes = [''COMMITTED'', ''UNSAFE'', ''REJECTED'', ''ABORTED'', ''ERROR'', ''IN_PROGRESS'']"

definition no_counts :: "int dict" where
  "no_counts = map (\<lambda>k. (k, 0)) outcomes"

definition add_count :: "string \<Rightarrow> int \<Rightarrow> int dict \<Rightarrow> int dict" where
  "add_count k n counts = dset k (dget_or counts k 0 + n) counts"

definition build_latest_outcome_counts :: "string list \<Rightarrow> int dict" where
  "build_latest_outcome_counts statuses = fold (\<lambda>s. add_count s 1) statuses no_counts"

text \<open>One entry per label; \<open>entry[status] += n\<close> raises when the status is none of the six.\<close>

definition count_outcome :: "(int \<Rightarrow> string) \<Rightarrow> (int \<times> string) \<times> int \<Rightarrow> int dict dict \<Rightarrow> int dict dict res" where
  "count_outcome clock_text row buckets = (case row of ((bucket, stage), n) \<Rightarrow>
     (let label = clock_text bucket; entry = dget_or buckets label no_counts; status = map_transaction_status stage None in
      if dhas entry status then Inr (dset label (add_count status n entry) buckets) else raise KeyError (str_repr status)))"

definition build_outcome_timeseries :: "(int \<Rightarrow> string) \<Rightarrow> ((int \<times> string) \<times> int) list \<Rightarrow> int dict dict res" where
  "build_outcome_timeseries clock_text rows = foldR (count_outcome clock_text) rows []"

text \<open>A counter whose keys come from payloads.\<close>

fun bump :: "pv \<Rightarrow> (pv \<times> int) list \<Rightarrow> (pv \<times> int) list" where
  "bump k [] = [(k, 1)]"
| "bump k ((l, n) # counts) = (if py_eq l k then (l, n + 1) # counts else (l, n) # bump k counts)"

definition count_key :: "pv \<Rightarrow> (pv \<times> int) list \<Rightarrow> (pv \<times> int) list res" where
  "count_key k counts = (if unhashable k then unhashable_error k else Inr (bump k counts))"

record safety_counts =
  sc_series :: "pv list"
  sc_reasons :: "(pv \<times> int) list"
  sc_validators :: "(pv \<times> int) list"

text \<open>\<open>v[:n]\<close>\<close>

definition slice_to :: "int \<Rightarrow> pv \<Rightarrow> pv list res" where
  "slice_to n v = (let cut = (\<lambda>k. if n < 0 then nat (int k + n) else nat n) in case v of
     VList xs \<Rightarrow> Inr (take (cut (length xs)) xs)
   | VStr s \<Rightarrow> Inr (map (\<lambda>c. VStr [c]) (take (cut (length s)) s))
   | VDict d \<Rightarrow> raise TypeError (''unhashable type: '' @ quoted ''slice'')
   | _ \<Rightarrow> raise TypeError (quoted (type_name v) @ '' object is not subscriptable''))"

definition count_unsafe :: "pv \<Rightarrow> safety_counts \<Rightarrow> safety_counts res" where
  "count_unsafe payload sc = bindR (validators_of payload) (\<lambda>validators. bindR (py_items validators) (\<lambda>items.
     bindR (foldR (\<lambda>(name, verdict) counts. bindR (py_get verdict ''verdict'' VNone) (\<lambda>v.
         if py_eq v (VStr ''UNSAFE'') then Inr (bump (VStr name) counts) else Inr counts)) items (sc_validators sc)) (\<lambda>unsafe.
     bindR (violated_rules validators) (\<lambda>rules.
     bindR (if truthy rules then bindR (slice_to 3 rules) (\<lambda>vs. foldR (\<lambda>v counts.
              bindR (py_get v ''rule_id'' (VStr ''rule'')) (\<lambda>k. count_key k counts)) vs (sc_reasons sc))
            else bindR (said_unsafe validators ''cbf'') (\<lambda>cbf. if cbf then Inr (bump (VStr ''CBF_BARRIER'') (sc_reasons sc))
            else bindR (said_unsafe validators ''simulation'') (\<lambda>sim. Inr (bump
              (VStr (if sim then ''SIMULATION_VIOLATION'' else ''CONSENSUS_THRESHOLD'')) (sc_reasons sc))))) (\<lambda>reasons.
     Inr (sc\<lparr> sc_validators := unsafe, sc_reasons := reasons \<rparr>))))))"

definition count_safety :: "dash_env \<Rightarrow> stored_event \<Rightarrow> safety_counts \<Rightarrow> safety_counts res" where
  "count_safety env row sc = (let payload = safe_json_load env (ev_payload row) in
     if ev_stage row = ''SAFETY_PASSED'' then
       bindR (py_get payload ''consensus'' (VDict [])) (\<lambda>consensus. bindR (py_get consensus ''score'' VNone) (\<lambda>score.
         if score = VNone then Inr sc
         else bindR (py_float score) (\<lambda>f. Inr (sc\<lparr> sc_series := sc_series sc @
           [VDict [(''label'', VStr (de_clock_text env (se_created_at row))), (''score'', VFloat (fround 3 f))]] \<rparr>))))
     else count_unsafe payload sc)"

definition by_count :: "(pv \<times> int) list \<Rightarrow> pv list" where
  "by_count counts = map (\<lambda>(label, n). VDict [(''label'', label), (''count'', VInt n)]) (sort_key (\<lambda>p. - snd p) counts)"

definition build_safety_summary :: "dash_env \<Rightarrow> stored_event list \<Rightarrow> pv dict res" where
  "build_safety_summary env rows =
     bindR (foldR (count_safety env) (rev rows) \<lparr> sc_series = [], sc_reasons = [], sc_validators = [] \<rparr>) (\<lambda>sc. Inr
       [(''consensus_score_series'', VList (drop (length (sc_series sc) - 50) (sc_series sc))),
        (''unsafe_reason_counts'', VList (take 8 (by_count (sc_reasons sc)))),
        (''unsafe_validator_counts'', VList (by_count (sc_validators sc)))])"

end
