(* ===== verification/DashMonitor.thy ===== *)
theory DashMonitor
  imports Dashboard
begin

section \<open>The dashboard's monitor (pcag/apps/dashboard/service.py, routes.py)\<close>

text \<open>
  The state: the samples kept of each service, at most 180, and the duration of the last collection.  A
  snapshot asks the tables, probes the services, reads the log and gives one document.
\<close>

record 'w monitor =
  mn_net :: 'w
  mn_history :: "pv list dict"
  mn_last_duration :: pnum

subsection \<open>Configuration\<close>

definition probe_paths0 :: "pv dict" where
  "probe_paths0 = map (\<lambda>k. (k, VStr ''/openapi.json''))
       [''gateway'', ''policy_store'', ''sensor_gateway'', ''safety_cluster'', ''ot_interface'', ''evidence_ledger'']
     @ [(''policy_admin'', VStr ''/v1/admin/health''), (''plc_adapter'', VStr ''/v1/health''), (''dashboard'', VStr ''/v1/health'')]"

definition option_int :: "pv dict \<Rightarrow> string \<Rightarrow> int \<Rightarrow> int res" where
  "option_int options key d = py_int (dget_or options key (VInt d))"

definition monitor_config :: "dash_env \<Rightarrow> pv \<Rightarrow> pv dict \<Rightarrow> pv \<Rightarrow> dash_config res" where
  "monitor_config env config urls sensors =
     bindR (py_get config ''dashboard'' (VDict [])) (\<lambda>d. bindR (py_get d ''refresh_ms'' (VInt 2000)) (\<lambda>_. let options = as_dict d in
     bindR (option_int options ''refresh_ms'' 2000) (\<lambda>refresh_ms.
     bindR (option_int options ''window_minutes'' 30) (\<lambda>window_minutes.
     bindR (option_int options ''max_transactions'' 18) (\<lambda>max_transactions.
     bindR (option_int options ''max_assets'' 8) (\<lambda>max_assets.
     bindR (option_int options ''log_tail_lines'' 120) (\<lambda>log_tail_lines.
     bindR (case dget_or options ''probe_paths'' (VDict []) of VDict m \<Rightarrow> Inr m
            | v \<Rightarrow> raise TypeError (quoted (type_name v) @ '' object is not a mapping'')) (\<lambda>paths. Inr
       \<lparr> dc_urls = urls, dc_sensors = sensors, dc_options = options, dc_refresh_ms = refresh_ms, dc_window_minutes = window_minutes,
         dc_max_transactions = nat max_transactions, dc_max_assets = max_assets, dc_log_tail_lines = nat log_tail_lines,
         dc_probe_paths = dmerge probe_paths0 paths, dc_started_at_ms = de_now_ms env \<rparr>))))))))"

definition health_route :: "dash_config \<Rightarrow> pv dict" where
  "health_route cfg = [(''status'', VStr ''healthy''), (''refresh_ms'', VInt (dc_refresh_ms cfg)),
     (''window_minutes'', VInt (dc_window_minutes cfg))]"

subsection \<open>Probes\<close>

definition on_net :: "('w, 'a) eff \<Rightarrow> ('w monitor, 'a) eff" where
  "on_net m s = (case m (mn_net s) of (r, w) \<Rightarrow> (r, s\<lparr> mn_net := w \<rparr>))"

definition kept_samples :: nat where
  "kept_samples = 180"

definition record_service_sample :: "dash_env \<Rightarrow> string \<Rightarrow> string \<Rightarrow> pnum option \<Rightarrow> int \<Rightarrow> 'w monitor \<Rightarrow> 'w monitor" where
  "record_service_sample env name status latency_ms timestamp_ms s =
     (let samples = dget_or (mn_history s) name [] @ [VDict [(''timestamp_ms'', VInt timestamp_ms),
            (''label'', VStr (de_clock_text env (timestamp_ms * 1000))), (''latency_ms'', coerce_latency_ms latency_ms),
            (''status'', VStr status)]] in
      s\<lparr> mn_history := dset name (drop (length samples - kept_samples) samples) (mn_history s) \<rparr>)"

record probe =
  pb_status :: string
  pb_code :: "int option"
  pb_latency :: "pnum option"
  pb_error :: "string option"

definition probe_of :: "dash_env \<Rightarrow> string \<Rightarrow> http_reply res \<Rightarrow> probe" where
  "probe_of env name r = (case r of
     Inl e \<Rightarrow> \<lparr> pb_status = ''unreachable'', pb_code = None, pb_latency = None, pb_error = Some (exc_msg e) \<rparr>
   | Inr resp \<Rightarrow>
       \<lparr> pb_status = (if rp_code resp \<ge> 500 then ''unhealthy'' else if rp_code resp \<ge> 400 then ''degraded'' else ''healthy''),
         pb_code = Some (rp_code resp), pb_latency = Some (de_latency env name),
         pb_error = (if rp_code resp \<ge> 400 then Some (http_code_text resp) else None) \<rparr>)"

definition service_entry :: "string \<Rightarrow> pv \<Rightarrow> pv \<Rightarrow> int \<Rightarrow> probe \<Rightarrow> pv" where
  "service_entry name url probe_path now_ms p = VDict [(''name'', VStr name), (''url'', url), (''probe_path'', probe_path),
     (''status'', VStr (pb_status p)), (''status_code'', opt_int (pb_code p)), (''latency_ms'', coerce_latency_ms (pb_latency p)),
     (''last_error'', opt_pv (pb_error p)), (''updated_at_ms'', VInt now_ms)]"

definition probe_service :: "dash_env \<Rightarrow> dash_config \<Rightarrow> 'w http_client \<Rightarrow> string \<times> pv \<Rightarrow> ('w monitor, string \<times> pv) eff" where
  "probe_service env cfg http service = (case service of (name, base_url) \<Rightarrow>
     let probe_path = dget_or (dc_probe_paths cfg) name (VStr ''/openapi.json'') in
     bindE (caught (on_net (http ''GET'' (py_str base_url @ py_str probe_path) VNone))) (\<lambda>r. let p = probe_of env name r in
     bindE (modE (record_service_sample env name (pb_status p) (pb_latency p) (de_now_ms env))) (\<lambda>_.
       retE (name, service_entry name base_url probe_path (de_now_ms env) p))))"

fun mapE :: "('a \<Rightarrow> ('s, 'b) eff) \<Rightarrow> 'a list \<Rightarrow> ('s, 'b list) eff" where
  "mapE f [] = retE []"
| "mapE f (x # xs) = bindE (f x) (\<lambda>y. bindE (mapE f xs) (\<lambda>ys. retE (y # ys)))"

definition probe_services :: "dash_env \<Rightarrow> dash_config \<Rightarrow> 'w http_client \<Rightarrow> ('w monitor, pv list) eff" where
  "probe_services env cfg http = bindE (mapE (probe_service env cfg http) (filter (\<lambda>p. fst p \<noteq> ''dashboard'') (dc_urls cfg)))
     (\<lambda>results. retE (map snd (sort_key fst results)))"

definition fetch_plc_health :: "dash_env \<Rightarrow> dash_config \<Rightarrow> 'w http_client \<Rightarrow> ('w monitor, pv) eff" where
  "fetch_plc_health env cfg http = (let plc_url = vget (dc_urls cfg) ''plc_adapter'' in
     if \<not> truthy plc_url then retE (VDict [(''status'', VStr ''missing''), (''connections'', VList []),
       (''error'', VStr ''plc_adapter URL missing'')])
     else tryE
       (bindE (on_net (http ''GET'' (py_str plc_url @ ''/v1/health'') VNone)) (\<lambda>resp.
          liftE (bindR (if rp_code resp = 200 then resp_json resp else Inr (VDict [])) (\<lambda>payload.
            bindR (py_setitem payload ''latency_ms'' (coerce_latency_ms (Some (de_latency env ''plc_adapter'')))) (\<lambda>p.
              py_setitem p ''status_code'' (VInt (rp_code resp)))))))
       (\<lambda>e. retE (VDict [(''status'', VStr ''unreachable''), (''connections'', VList []), (''error'', VStr (exc_msg e)),
          (''latency_ms'', VNone), (''status_code'', VNone)])))"

definition asset_error :: "pv \<Rightarrow> pv \<Rightarrow> pv \<Rightarrow> string \<Rightarrow> pv" where
  "asset_error asset_id source_hint latency message = VDict [(''asset_id'', asset_id), (''status'', VStr ''error''),
     (''source_hint'', source_hint), (''latency_ms'', latency), (''error'', VStr message)]"

definition fetch_asset_snapshot ::
  "dash_env \<Rightarrow> dash_config \<Rightarrow> 'w http_client \<Rightarrow> string \<Rightarrow> pv \<Rightarrow> ('w monitor, pv) eff" where
  "fetch_asset_snapshot env cfg http sensor_url asset_id =
     bindE (liftE (bindR (py_get (dc_sensors cfg) ''assets'' (VDict [])) (\<lambda>assets.
       bindR (py_getv assets asset_id (VDict [])) (\<lambda>a. py_get a ''source'' (VStr ''unknown''))))) (\<lambda>source_hint.
     let latency = coerce_latency_ms (Some (de_latency env (py_str asset_id))) in
     tryE
       (bindE (on_net (http ''GET'' (sensor_url @ ''/v1/assets/'' @ py_str asset_id @ ''/snapshots/latest'') VNone)) (\<lambda>resp.
          if rp_code resp \<noteq> 200 then retE (asset_error asset_id source_hint latency (http_code_text resp))
          else liftE (bindR (resp_json resp) (\<lambda>payload. bindR (py_get payload ''sensor_snapshot'' (VDict [])) (\<lambda>snapshot.
            bindR (py_items snapshot) (\<lambda>items. let p = as_dict payload in Inr (VDict
              [(''asset_id'', asset_id), (''status'', VStr ''healthy''), (''source_hint'', source_hint), (''latency_ms'', latency),
               (''timestamp_ms'', vget p ''timestamp_ms''), (''sensor_snapshot_hash'', vget p ''sensor_snapshot_hash''),
               (''sensor_reliability_index'', vget p ''sensor_reliability_index''),
               (''summary_fields'', summarize_snapshot_fields env items), (''field_count'', VInt (int (length items)))])))))))
       (\<lambda>e. retE (asset_error asset_id source_hint VNone (exc_msg e))))"

definition fetch_asset_snapshots ::
  "dash_env \<Rightarrow> dash_config \<Rightarrow> 'w http_client \<Rightarrow> pv list \<Rightarrow> ('w monitor, pv list) eff" where
  "fetch_asset_snapshots env cfg http active_assets = (let sensor_url = vget (dc_urls cfg) ''sensor_gateway'' in
     if \<not> truthy sensor_url then retE []
     else bindE (liftE (slice_to (dc_max_assets cfg) (or_else (vget (dc_options cfg) ''watched_assets'') (VList active_assets))))
       (mapE (fetch_asset_snapshot env cfg http (py_str sensor_url))))"

subsection \<open>Files\<close>

definition logs_shown :: "dash_env \<Rightarrow> dash_config \<Rightarrow> string dict list" where
  "logs_shown env cfg = (case de_log_lines env of
     None \<Rightarrow> []
   | Some (Inl e) \<Rightarrow> [[(''level'', ''ERROR''), (''service'', ''dashboard''), (''message'', de_unreadable env (exc_msg e))]]
   | Some (Inr lines) \<Rightarrow> tail_logs lines (dc_log_tail_lines cfg))"

definition int_field :: "pv \<Rightarrow> string \<Rightarrow> int res" where
  "int_field v key = bindR (py_get v key (VInt 0)) py_int"

definition single_summary :: "pv \<Rightarrow> pv res" where
  "single_summary single = bindR (int_field single ''total'') (\<lambda>total. bindR (int_field single ''passed'') (\<lambda>passed.
     bindR (int_field single ''failed'') (\<lambda>failed.
     bindR (if total = 0 then Inr VNone else bindR (ndiv (NI passed) (NI total)) (\<lambda>q.
       bindR (nmul q (NI 100)) (\<lambda>pct. Inr (of_num (nround 2 pct))))) (\<lambda>accuracy.
     Inr (VDict [(''generated_at_ms'', vget (as_dict single) ''generated_at_ms''), (''passed'', VInt passed), (''failed'', VInt failed),
       (''total'', VInt total), (''accuracy_pct'', accuracy)])))))"

definition flaky_case :: "pv \<Rightarrow> pv list \<Rightarrow> pv list res" where
  "flaky_case item found = bindR (py_get item ''failed_runs'' (VInt 0)) (\<lambda>n. bindR (py_rel RGt n (VInt 0)) (\<lambda>failed.
     Inr (if failed then found @ [VDict (map (\<lambda>k. (k, vget (as_dict item) k)) [''case_id'', ''pass_rate_pct'', ''loss_rate_pct''])]
          else found)))"

definition repeat_summary :: "pv \<Rightarrow> pv res" where
  "repeat_summary rpt = bindR (py_get rpt ''per_case'' (VList [])) (\<lambda>cases. bindR (py_iter cases) (\<lambda>items.
     bindR (foldR flaky_case items []) (\<lambda>flaky. Inr (VDict
       (map (\<lambda>k. (k, vget (as_dict rpt) k))
          [''generated_at_ms'', ''runs'', ''overall_accuracy_pct'', ''loss_rate_pct'', ''run_success_rate_pct'']
        @ [(''flaky_cases'', VList (take 8 flaky))])))))"

definition summary_of_file :: "(pv \<Rightarrow> pv res) \<Rightarrow> pv res option \<Rightarrow> pv" where
  "summary_of_file f contents = (case contents of None \<Rightarrow> VNone
   | Some r \<Rightarrow> (case bindR r f of Inr v \<Rightarrow> v | Inl e \<Rightarrow> VDict [(''error'', VStr (exc_msg e))]))"

definition load_evaluation_summary :: "dash_env \<Rightarrow> pv" where
  "load_evaluation_summary env = VDict [(''single'', summary_of_file single_summary (de_eval_single env)),
     (''repeat'', summary_of_file repeat_summary (de_eval_repeat env))]"

subsection \<open>The database\<close>

record tables =
  tb_policies :: policy_table
  tb_events :: "stored_event list"
  tb_transactions :: "stored_tx list"
  tb_now :: int

definition policy_asset :: "string \<times> pv \<Rightarrow> pv res" where
  "policy_asset entry = (case entry of (asset_id, profile) \<Rightarrow>
     bindR (py_get profile ''sil_level'' VNone) (\<lambda>sil. let p = as_dict profile in
     bindR (py_get (dget_or p ''consensus'' (VDict [])) ''mode'' VNone) (\<lambda>mode.
     bindR (py_get (dget_or p ''simulation'' (VDict [])) ''engine'' VNone) (\<lambda>engine. Inr (VDict
       [(''asset_id'', VStr asset_id), (''sil_level'', sil), (''consensus_mode'', mode), (''simulation_engine'', engine),
        (''sensor_source'', vget p ''sensor_source''), (''ot_executor'', vget p ''ot_executor'')])))))"

definition count_of :: "'a list \<Rightarrow> pv" where
  "count_of xs = VInt (int (length xs))"

record db_metrics =
  dm_overview :: "pv dict"
  dm_policy :: "pv dict"
  dm_asset_ids :: "pv list"
  dm_transactions :: "pv list"
  dm_locks :: "pv list"
  dm_pipeline :: "pv dict"
  dm_safety :: "pv dict"

definition counts_pv :: "int dict \<Rightarrow> pv" where
  "counts_pv counts = VDict (map (\<lambda>(k, n). (k, VInt n)) counts)"

definition overview_of :: "dash_env \<Rightarrow> dash_config \<Rightarrow> pnum \<Rightarrow> tables \<Rightarrow> pv \<Rightarrow> pv dict res" where
  "overview_of env cfg last_duration t version =
     (let txs = tb_transactions t; with_status = (\<lambda>s. count_of (filter (\<lambda>x. tr_status x = s) txs)) in
      bindR (ndiv (NI (de_now_ms env - dc_started_at_ms cfg)) (NI 1000)) (\<lambda>uptime. Inr
       [(''active_policy_version'', version), (''policy_version_count'', count_of (tb_policies t)),
        (''evidence_event_count'', count_of (tb_events t)), (''transaction_count'', count_of txs),
        (''locked_count'', count_of (query_locks (de_now_ms env) txs)), (''committed_count'', with_status ''COMMITTED''),
        (''aborted_count'', with_status ''ABORTED''), (''dashboard_uptime_s'', of_num (nround 1 uptime)),
        (''collection_latency_ms'', coerce_latency_ms (Some last_duration))]))"

definition query_db_metrics :: "dash_env \<Rightarrow> dash_config \<Rightarrow> pnum \<Rightarrow> tables \<Rightarrow> db_metrics res" where
  "query_db_metrics env cfg last_duration t =
     (let active = List.find po_is_active (tb_policies t);
          version = (case active of Some p \<Rightarrow> VStr (po_version p) | None \<Rightarrow> VNone);
          document = safe_json_load env (case active of Some p \<Rightarrow> po_document p | None \<Rightarrow> VNone);
          recent = filter (in_window (tb_now t) (dc_window_minutes cfg)) (tb_events t);
          rows = query_transactions (dc_max_transactions cfg) (tb_events t) (tb_transactions t) in
      bindR (py_get document ''assets'' (VDict [])) (\<lambda>profiles.
      bindR (mapR (normalize_transaction_row env cfg) rows) (\<lambda>items.
      bindR (build_outcome_timeseries (de_clock_text env) (query_outcomes (de_minute env) recent)) (\<lambda>series.
      bindR (build_safety_summary env (query_safety recent)) (\<lambda>safety.
      bindR (py_items profiles) (\<lambda>profile_items. bindR (mapR policy_asset profile_items) (\<lambda>assets.
      bindR (overview_of env cfg last_duration t version) (\<lambda>overview. Inr
        \<lparr> dm_overview = overview,
          dm_policy = [(''active_policy_version'', version), (''policy_version_count'', count_of (tb_policies t)),
            (''asset_count'', count_of profile_items), (''assets'', VList assets), (''document'', document)],
          dm_asset_ids = map (\<lambda>p. VStr (fst p)) profile_items,
          dm_transactions = map VDict items,
          dm_locks = map (\<lambda>r. VDict (normalize_lock_row env r)) (query_locks (de_now_ms env) (tb_transactions t)),
          dm_pipeline =
            [(''outcome_timeseries'', VList (map (\<lambda>(label, counts). VDict ((''label'', VStr label) # as_dict (counts_pv counts))) series)),
             (''latest_outcome_counts'', counts_pv (build_latest_outcome_counts (map final_status rows))),
             (''stage_totals'', VList (map (\<lambda>(stage, n). VDict [(''stage'', VStr stage), (''count'', VInt n)]) (query_stages recent)))],
          dm_safety = safety \<rparr>))))))))"

definition dashboard_entry :: "dash_env \<Rightarrow> dash_config \<Rightarrow> pv" where
  "dashboard_entry env cfg = service_entry ''dashboard'' (dget_or (dc_urls cfg) ''dashboard'' (VStr [])) (VStr ''/v1/health'')
     (de_now_ms env) \<lparr> pb_status = ''healthy'', pb_code = Some 200, pb_latency = Some (de_latency env ''dashboard''), pb_error = None \<rparr>"

definition build_snapshot :: "dash_env \<Rightarrow> dash_config \<Rightarrow> 'w http_client \<Rightarrow> tables \<Rightarrow> ('w monitor, pv dict) eff" where
  "build_snapshot env cfg http t =
     bindE (getE mn_last_duration) (\<lambda>last.
     bindE (liftE (query_db_metrics env cfg last t)) (\<lambda>m.
     bindE (probe_services env cfg http) (\<lambda>services.
     bindE (fetch_plc_health env cfg http) (\<lambda>plc.
     bindE (fetch_asset_snapshots env cfg http (dm_asset_ids m)) (\<lambda>assets.
     let now = de_now_ms env; took = de_latency env ''dashboard'' in
     bindE (modE (\<lambda>s. record_service_sample env ''dashboard'' ''healthy'' (Some took) now (s\<lparr> mn_last_duration := took \<rparr>))) (\<lambda>_.
     bindE (getE mn_history) (\<lambda>history. retE
       [(''generated_at_ms'', VInt now), (''generated_at'', VStr (de_iso_text env (now * 1000))),
        (''refresh_ms'', VInt (dc_refresh_ms cfg)), (''window_minutes'', VInt (dc_window_minutes cfg)),
        (''overview'', VDict (dset ''collection_latency_ms'' (coerce_latency_ms (Some took)) (dm_overview m))),
        (''services'', VList (services @ [dashboard_entry env cfg])),
        (''service_history'', VDict (map (\<lambda>(name, samples). (name, VList samples)) history)),
        (''policy'', VDict (dm_policy m)), (''pipeline'', VDict (dm_pipeline m)), (''transactions'', VList (dm_transactions m)),
        (''safety'', VDict (dm_safety m)), (''locks'', VList (dm_locks m)), (''plc'', plc), (''assets'', VList assets),
        (''logs'', VList (map (\<lambda>l. VDict (map (\<lambda>(k, v). (k, VStr v)) l)) (logs_shown env cfg))),
        (''evaluation'', load_evaluation_summary env)])))))))"

end
