(* ===== verification/DashFacts.thy ===== *)
theory DashFacts
  imports DashMonitor
begin

section \<open>What the dashboard shows\<close>

text \<open>
  The row of a transaction is the end of its evidence chain; no transaction is counted twice or left out;
  the history stays bounded.  A transaction whose lock was never given back is shown as in progress.
\<close>

subsection \<open>The end of the chain\<close>

lemma distinct_on_iff: "x \<in> set (distinct_on key xs) \<longleftrightarrow> (\<exists>ys. filter (\<lambda>y. key y = key x) xs = x # ys)"
proof (induction key xs rule: distinct_on.induct)
  case (2 key a xs)
  show ?case
  proof (cases "key x = key a")
    case True
    then have "filter (\<lambda>y. key y = key x) (filter (\<lambda>y. key y \<noteq> key a) xs) = []" by (auto simp: filter_empty_conv)
    then show ?thesis using 2 True by auto
  next
    case False
    then have "filter (\<lambda>y. key y = key x) (filter (\<lambda>y. key y \<noteq> key a) xs) = filter (\<lambda>y. key y = key x) xs"
      by (auto intro: filter_cong)
    then show ?thesis using 2 False by auto
  qed
qed simp

lemma length_distinct_on: "length (distinct_on key xs) = card (key ` set xs)"
proof (induction key xs rule: distinct_on.induct)
  case (2 key a xs)
  have "key ` set (a # xs) = insert (key a) (key ` set (filter (\<lambda>y. key y \<noteq> key a) xs))" by auto
  moreover have "key a \<notin> key ` set (filter (\<lambda>y. key y \<noteq> key a) xs)" by auto
  ultimately show ?case using 2 by (simp only: distinct_on.simps list.size card_insert_disjoint finite_imageI finite_set) simp
qed simp

lemma insort_map: "insort_key f (g x) (map g xs) = map g (insort_key (\<lambda>x. f (g x)) x xs)"
  by (induction xs) auto

lemma sort_map: "sort_key f (map g xs) = map g (sort_key (\<lambda>x. f (g x)) xs)"
  by (induction xs) (auto simp: insort_map)

lemma latest_event:
  assumes "e \<in> set (latest_events events)"
  shows "e \<in> set events" "\<And>d. d \<in> set events \<Longrightarrow> ev_transaction_id d = ev_transaction_id e \<Longrightarrow> ev_sequence_no d \<le> ev_sequence_no e"
proof -
  let ?own = "filter (\<lambda>y. ev_transaction_id y = ev_transaction_id e) events"
  obtain es where es: "sort_key (\<lambda>e. - ev_sequence_no e) ?own = e # es"
    using assms by (auto simp: latest_events_def distinct_on_iff sort_key_stable filter_sort)
  have "set (e # es) = set ?own" by (metis es set_sort)
  then show "e \<in> set events" by auto
  have "sorted (map (\<lambda>e. - ev_sequence_no e) (e # es))" by (metis es sorted_sort_key)
  then show "ev_sequence_no d \<le> ev_sequence_no e" if "d \<in> set events" "ev_transaction_id d = ev_transaction_id e" for d
    using that \<open>set (e # es) = set ?own\<close> by fastforce
qed

lemma query_transactions_row:
  "row \<in> set (query_transactions n events txs) \<Longrightarrow> \<exists>e\<in>set (latest_events events). row = summarize_transaction events txs e"
  by (auto simp: query_transactions_def dest!: in_set_takeD)

lemma truncated: "ev_transaction_id (event.truncate e) = ev_transaction_id e" "ev_sequence_no (event.truncate e) = ev_sequence_no e"
  "ev_stage (event.truncate e) = ev_stage e" "ev_payload (event.truncate e) = ev_payload e"
  by (simp_all add: event.defs)

text \<open>C40: The dashboard's row of a transaction is the end of the transaction's evidence chain as the ledger returns it: the stage and the payload of its last event, and the number of its events, given that a transaction's sequence numbers are unique.\<close>

theorem dashboard_shows_last_event:
  assumes "row \<in> set (query_transactions n events txs)"
    and "distinct (map (\<lambda>e. (ev_transaction_id e, ev_sequence_no e)) events)"
    and "chain = get_transaction_events (ts_transaction_id row) (map event.truncate events)"
  shows "chain \<noteq> [] \<and> ts_stage row = ev_stage (last chain) \<and> ts_payload row = ev_payload (last chain)
    \<and> ts_event_count row = int (length chain)"
proof -
  obtain e where e: "e \<in> set (latest_events events)" "row = summarize_transaction events txs e"
    using query_transactions_row [OF assms(1)] by blast
  let ?own = "filter (\<lambda>y. ev_transaction_id y = ev_transaction_id e) events"
  have chain: "chain = map event.truncate (sort_key ev_sequence_no ?own)"
    using e(2) by (simp add: assms(3) get_transaction_events_def filter_map comp_def truncated sort_map summarize_transaction_def Let_def)
  have own: "e \<in> set ?own" using latest_event(1) [OF e(1)] by simp
  then have some: "sort_key ev_sequence_no ?own \<noteq> []" by (metis emptyE empty_set set_sort)
  let ?l = "last (sort_key ev_sequence_no ?own)"
  have l: "?l \<in> set ?own" using some by (metis last_in_set set_sort)
  have "ev_sequence_no e \<le> ev_sequence_no ?l"
  proof -
    obtain i where i: "i < length (sort_key ev_sequence_no ?own)" "sort_key ev_sequence_no ?own ! i = e"
      using own by (metis in_set_conv_nth set_sort)
    have "map ev_sequence_no (sort_key ev_sequence_no ?own) ! i \<le> map ev_sequence_no (sort_key ev_sequence_no ?own) !
        (length (sort_key ev_sequence_no ?own) - 1)"
      using i(1) some by (intro sorted_nth_mono) auto
    then show ?thesis using i some by (simp add: last_conv_nth)
  qed
  moreover have "ev_sequence_no ?l \<le> ev_sequence_no e" using l latest_event(2) [OF e(1)] by simp
  ultimately have "?l = e"
    using l own assms(2) by (auto simp: distinct_map dest!: inj_onD)
  then show ?thesis
    using some e(2) by (simp add: chain last_map truncated summarize_transaction_def Let_def)
qed

subsection \<open>Counting\<close>

lemma update_sum:
  fixes f :: "'a \<Rightarrow> int"
  assumes "f dflt = 0"
  shows "sum_list (map (f \<circ> snd) (dset k v d)) = sum_list (map (f \<circ> snd) d) - f (dget_or d k dflt) + f v"
  using assms by (induction d) (auto simp: dget_or_def)

lemma add_count_sum: "sum_list (map snd (add_count k n c)) = sum_list (map snd c) + n"
  using update_sum [of "\<lambda>x. x" 0 k "dget_or c k 0 + n" c] by (simp add: add_count_def comp_def)

lemma dget_add_count: "dget_or (add_count k n c) j 0 = dget_or c j 0 + (if j = k then n else 0)"
  by (simp add: add_count_def dget_or_def)

lemma update_mem: "p \<in> set (dset k v d) \<Longrightarrow> p = (k, v) \<or> p \<in> set d"
  by (induction d) (auto split: if_splits)

lemma keys_update: "k \<in> set (map fst d) \<Longrightarrow> map fst (dset k v d) = map fst d"
  by (induction d) auto

lemma status_known: "map_transaction_status stage st \<in> set outcomes"
  by (auto simp: map_transaction_status_def dget_or_def final_stages_def outcomes_def)

lemma fold_counts:
  "set ss \<subseteq> set outcomes \<Longrightarrow> map fst c = outcomes \<Longrightarrow>
   map fst (fold (\<lambda>s. add_count s 1) ss c) = outcomes \<and>
   sum_list (map snd (fold (\<lambda>s. add_count s 1) ss c)) = sum_list (map snd c) + int (length ss) \<and>
   dget_or (fold (\<lambda>s. add_count s 1) ss c) j 0 = dget_or c j 0 + int (count_list ss j)"
proof (induction ss arbitrary: c)
  case (Cons s ss)
  have "map fst (add_count s 1 c) = outcomes" using Cons.prems by (simp add: add_count_def keys_update)
  from Cons.IH [OF _ this] Cons.prems show ?case by (simp add: add_count_sum dget_add_count)
qed simp

text \<open>The counts by outcome add up to the number of transactions shown, each count is the number of transactions with that outcome, and no outcome but the six of the display occurs.\<close>

theorem outcome_counts_total:
  "map fst (build_latest_outcome_counts (map final_status rows)) = outcomes \<and>
   sum_list (map snd (build_latest_outcome_counts (map final_status rows))) = int (length rows) \<and>
   dget_or (build_latest_outcome_counts (map final_status rows)) outcome 0 = int (count_list (map final_status rows) outcome)"
proof -
  have "set (map final_status rows) \<subseteq> set outcomes" using status_known by (auto simp: final_status_def)
  moreover have "map fst no_counts = outcomes" "sum_list (map snd no_counts) = 0" by code_simp+
  moreover have "dget_or no_counts outcome 0 = 0"
    by (auto simp: no_counts_def dget_or_def dest!: map_of_SomeD split: option.splits)
  ultimately show ?thesis
    using fold_counts [of "map final_status rows" no_counts outcome] by (simp add: build_latest_outcome_counts_def)
qed

lemma count_outcome_total:
  assumes "\<forall>b\<in>set buckets. map fst (snd b) = outcomes"
  shows "\<exists>bs. count_outcome ct row buckets = Inr bs \<and> (\<forall>b\<in>set bs. map fst (snd b) = outcomes) \<and>
    sum_list (map (\<lambda>b. sum_list (map snd (snd b))) bs) = sum_list (map (\<lambda>b. sum_list (map snd (snd b))) buckets) + snd row"
proof -
  obtain bucket stage n where row: "row = ((bucket, stage), n)" by (metis prod.exhaust)
  let ?label = "ct bucket" and ?status = "map_transaction_status stage None"
  let ?entry = "dget_or buckets ?label no_counts"
  let ?new = "dset ?label (add_count ?status n ?entry) buckets"
  have entry: "map fst ?entry = outcomes"
    using assms by (auto simp: dget_or_def no_counts_def comp_def split: option.splits dest!: map_of_SomeD)
  then have has: "dhas ?entry ?status" using status_known [of stage None] by (metis map_of_eq_None_iff set_map)
  have "map fst (add_count ?status n ?entry) = outcomes"
    using entry status_known [of stage None] by (simp add: add_count_def keys_update)
  then have "\<forall>b\<in>set ?new. map fst (snd b) = outcomes"
    using assms by (auto dest!: update_mem)
  moreover have "sum_list (map (\<lambda>b. sum_list (map snd (snd b))) ?new) = sum_list (map (\<lambda>b. sum_list (map snd (snd b))) buckets) + n"
    using update_sum [of "\<lambda>c. sum_list (map snd c)" no_counts ?label "add_count ?status n ?entry" buckets]
    by (simp add: comp_def add_count_sum no_counts_def outcomes_def)
  ultimately show ?thesis using has by (auto simp: row count_outcome_def Let_def)
qed

lemma timeseries_total:
  "\<forall>b\<in>set buckets. map fst (snd b) = outcomes \<Longrightarrow> \<exists>bs. foldR (count_outcome ct) rows buckets = Inr bs \<and>
    sum_list (map (\<lambda>b. sum_list (map snd (snd b))) bs) =
    sum_list (map (\<lambda>b. sum_list (map snd (snd b))) buckets) + sum_list (map snd rows)"
proof (induction rows arbitrary: buckets)
  case (Cons row rows)
  from count_outcome_total [OF Cons.prems, of ct row] obtain bs where
    "count_outcome ct row buckets = Inr bs" "\<forall>b\<in>set bs. map fst (snd b) = outcomes"
    "sum_list (map (\<lambda>b. sum_list (map snd (snd b))) bs) = sum_list (map (\<lambda>b. sum_list (map snd (snd b))) buckets) + snd row" by blast
  with Cons.IH [OF this(2)] show ?case by auto
qed simp

lemma sum_insort: "sum_list (map f (insort_key g x xs)) = f x + sum_list (map f xs)" for f :: "'a \<Rightarrow> int"
  by (induction xs) auto

lemma sum_sort_key: "sum_list (map f (sort_key g xs)) = sum_list (map f xs)" for f :: "'a \<Rightarrow> int"
  by (induction xs) (auto simp: sum_insort)

lemma sum_int: "sum_list (map (\<lambda>x. int (f x)) xs) = int (sum_list (map f xs))"
  by (induction xs) auto

lemma group_counts_total: "sum_list (map snd (group_counts xs)) = int (length xs)"
  by (simp add: group_counts_def comp_def sum_int sum_list_distinct_conv_sum_set sum_count_set)

text \<open>The time series of outcomes never fails and counts every transaction with an event in the window exactly once, whatever labels the times are given.\<close>

theorem outcome_series_total:
  "\<exists>buckets. build_outcome_timeseries clock_text (query_outcomes minute recent) = Inr buckets \<and>
    sum_list (map (\<lambda>b. sum_list (map snd (snd b))) buckets) = int (card (ev_transaction_id ` set recent))"
  using timeseries_total [of "[]" clock_text "query_outcomes minute recent"]
  by (simp add: build_outcome_timeseries_def query_outcomes_def sum_sort_key group_counts_total latest_events_def length_distinct_on)

subsection \<open>The history\<close>

definition history_ok :: "'w monitor \<Rightarrow> bool" where
  "history_ok s \<longleftrightarrow> list_all (\<lambda>h. length (snd h) \<le> kept_samples) (mn_history s)"

lemma record_sample_ok: "history_ok s \<Longrightarrow> history_ok (record_service_sample env name st l t s)"
  by (auto simp: history_ok_def record_service_sample_def Let_def list_all_iff dest!: update_mem)

lemma keeps_mapE: "(\<And>x. keeps I (f x)) \<Longrightarrow> keeps I (mapE f xs)"
  by (induction xs) (auto intro!: keeps_bindE keeps_pure)

lemma keeps_on_net: "keeps history_ok (on_net m)"
  by (rule keepsI) (auto simp: on_net_def history_ok_def wp_def split: prod.splits sum.splits)

text \<open>However many snapshots are built, whether they succeed or fail, the dashboard keeps at most 180 samples of a service.\<close>

theorem history_bounded:
  assumes "history_ok s"
  shows "history_ok (snd (build_snapshot env cfg http t s))"
proof -
  note intros = keeps_intros keeps_mapE keeps_on_net keeps_modE record_sample_ok
  have "keeps history_ok (probe_services env cfg http)"
    unfolding probe_services_def probe_service_def Let_def by (intro intros)
  moreover have "keeps history_ok (fetch_plc_health env cfg http)"
    unfolding fetch_plc_health_def Let_def by (intro intros)
  moreover have "keeps history_ok (fetch_asset_snapshots env cfg http ids)" for ids
    unfolding fetch_asset_snapshots_def fetch_asset_snapshot_def Let_def by (intro intros)
  moreover have "history_ok (record_service_sample env name st l now (u\<lparr> mn_last_duration := d \<rparr>))" if "history_ok u" for name st l now u d
    using that by (intro record_sample_ok) (simp add: history_ok_def)
  ultimately have "keeps history_ok (build_snapshot env cfg http t)"
    unfolding build_snapshot_def Let_def by (intro keeps_bindE keeps_pure keeps_modE)
  then show ?thesis using assms by (rule keeps_result [OF _ _ surjective_pairing])
qed

text \<open>A lock that was never given back hides how the transaction ended: whatever its last stage, and however long ago the lock expired, it is shown as in progress.\<close>

lemma locked_shown_in_progress: "ts_status row = Some ''LOCKED'' \<Longrightarrow> final_status row = ''IN_PROGRESS''"
  by (simp add: final_status_def map_transaction_status_def)

subsection \<open>A concrete run\<close>

definition demo_event :: "int \<Rightarrow> string \<Rightarrow> stored_event" where
  "demo_event n stage = \<lparr> ev_transaction_id = ''t1'', ev_sequence_no = n, ev_stage = stage, ev_timestamp_ms = 0, ev_payload = VDict [],
     ev_input_hash = [], ev_prev_hash = [], ev_event_hash = [], se_created_at = n \<rparr>"

definition demo_dash :: dash_env where
  "demo_dash = \<lparr> de_loads = (\<lambda>s. raise ValueError s), de_dumps = py_repr, de_clock_text = str_int, de_iso_text = str_int,
     de_minute = (\<lambda>t. t div 60000000), de_now_ms = 10, de_latency = (\<lambda>n. NI 1), de_log_lines = None, de_unreadable = id,
     de_eval_single = None, de_eval_repeat = None \<rparr>"

theorem history_bounded_witness:
  "history_ok (snd (build_snapshot demo_dash (projr (monitor_config demo_dash (VDict []) [(''gateway'', VStr ''http://g'')] (VDict [])))
     (\<lambda>meth url body. retE (Reply 200 None)) \<lparr> tb_policies = [], tb_events = [demo_event 0 ''RECEIVED''], tb_transactions = [], tb_now = 10 \<rparr>
     \<lparr> mn_net = (), mn_history = [], mn_last_duration = NI 0 \<rparr>))"
  by (rule history_bounded) (simp add: history_ok_def)

theorem dashboard_shows_last_event_witness:
  "\<exists>row. row \<in> set (query_transactions 5 [demo_event 1 ''COMMIT_ACK'', demo_event 0 ''RECEIVED''] []) \<and>
     ts_stage row = ''COMMIT_ACK'' \<and> ts_event_count row = 2 \<and> final_status row = ''COMMITTED''"
proof -
  let ?events = "[demo_event 1 ''COMMIT_ACK'', demo_event 0 ''RECEIVED'']"
  let ?row = "summarize_transaction ?events [] (demo_event 1 ''COMMIT_ACK'')"
  have row: "?row \<in> set (query_transactions 5 ?events [])"
    by (simp add: query_transactions_def latest_events_def demo_event_def)
  have dist: "distinct (map (\<lambda>e. (ev_transaction_id e, ev_sequence_no e)) ?events)" by (simp add: demo_event_def)
  have chain: "get_transaction_events (ts_transaction_id ?row) (map event.truncate ?events) =
      map event.truncate [demo_event 0 ''RECEIVED'', demo_event 1 ''COMMIT_ACK'']"
    by (simp add: get_transaction_events_def summarize_transaction_def demo_event_def truncated event.defs Let_def)
  have shown: "ts_stage ?row = ''COMMIT_ACK'' \<and> ts_event_count ?row = 2"
    using dashboard_shows_last_event [OF row dist refl] unfolding chain by (simp add: truncated demo_event_def event.defs)
  have "final_status ?row = ''COMMITTED''" using shown
    by (simp add: final_status_def map_transaction_status_def summarize_transaction_def final_stages_def dget_or_def Let_def)
  then show ?thesis using row shown by blast
qed

end
