(* ===== verification/SeedPolicy.thy ===== *)
theory SeedPolicy
  imports Http PolicyStore Auth
begin

section \<open>The seeded policies (scripts/seed_policy.py, apps/policy_store/seed_data.py)\<close>

text \<open>
  The policy that the seeding script writes into the running services, the reference data kept beside the
  policy store, and the script itself: what it creates, updates and activates, over the client of the two
  policy services.  \<open>site\<close> is these services behind HTTP, one request after the other; a request of no route
  that the development has is answered 404.  A literal \<open>q\<close> is the binary64 number nearest to it.
\<close>

subsection \<open>Literals\<close>

abbreviation lit :: "rat \<Rightarrow> pv" where
  "lit q \<equiv> VFloat (mk_flt False q)"

definition threshold_entry :: "string \<Rightarrow> string \<Rightarrow> string \<Rightarrow> rat \<Rightarrow> string \<Rightarrow> pv" where
  "threshold_entry rule_id target_field operator val unit = VDict
     [(''rule_id'', VStr rule_id), (''type'', VStr ''threshold''), (''target_field'', VStr target_field),
      (''operator'', VStr operator), (''value'', lit val), (''unit'', VStr unit)]"

definition range_entry :: "string \<Rightarrow> string \<Rightarrow> rat \<Rightarrow> rat \<Rightarrow> string \<Rightarrow> pv" where
  "range_entry rule_id target_field lo hi unit = VDict
     [(''rule_id'', VStr rule_id), (''type'', VStr ''range''), (''target_field'', VStr target_field),
      (''min'', lit lo), (''max'', lit hi), (''unit'', VStr unit)]"

definition divergence_entry :: "string \<Rightarrow> rat \<Rightarrow> pv" where
  "divergence_entry sensor_type max_divergence = VDict
     [(''sensor_type'', VStr sensor_type), (''method'', VStr ''absolute''), (''max_divergence'', lit max_divergence)]"

definition action_entry :: "string \<Rightarrow> pv dict \<Rightarrow> pv" where
  "action_entry action_type params = VDict [(''action_type'', VStr action_type), (''params'', VDict params)]"

definition execution_section :: "pv list \<Rightarrow> pv" where
  "execution_section safe_state = VDict [(''lock_ttl_ms'', VInt 5000), (''commit_ack_timeout_ms'', VInt 3000),
     (''safe_state'', VList safe_state)]"

definition integrity_section :: "pv list \<Rightarrow> pv" where
  "integrity_section thresholds = VDict [(''timestamp_max_age_ms'', VInt 5000),
     (''sensor_divergence_thresholds'', VList thresholds)]"

definition weighted_section :: "rat \<Rightarrow> pv" where
  "weighted_section threshold = VDict [(''mode'', VStr ''WEIGHTED''),
     (''weights'', VDict [(''rules'', lit (4/10)), (''cbf'', lit (35/100)), (''sim'', lit (25/100))]),
     (''threshold'', lit threshold), (''on_sim_indeterminate'', VStr ''RENORMALIZE'')]"

subsection \<open>The three assets of the script\<close>

definition reactor_ruleset :: "pv list" where
  "reactor_ruleset =
     [threshold_entry ''max_temperature'' ''temperature'' ''lte'' 180 ''celsius'',
      threshold_entry ''min_temperature'' ''temperature'' ''gte'' 0 ''celsius'',
      range_entry ''safe_pressure'' ''pressure'' 0 3 ''atm'',
      threshold_entry ''max_heater_output'' ''heater_output'' ''lte'' 90 ''%'']"

definition reactor_profile :: "pv dict" where
  "reactor_profile =
     [(''asset_id'', VStr ''reactor_01''), (''sil_level'', VInt 2), (''sensor_source'', VStr ''modbus_sensor''),
      (''allowed_action_types'', VList [VStr ''set_heater_output'', VStr ''set_cooling_valve'']),
      (''ot_executor'', VStr ''modbus_executor''), (''consensus'', weighted_section (8/10)),
      (''integrity'', integrity_section [divergence_entry ''temperature'' 5, divergence_entry ''pressure'' 1]),
      (''ruleset'', VList reactor_ruleset),
      (''simulation'', VDict [(''engine'', VStr ''ode_solver''), (''timeout_ms'', VInt 5000), (''horizon_ms'', VInt 5000),
         (''dt_ms'', VInt 100)]),
      (''execution'', execution_section [action_entry ''set_heater_output'' [(''value'', VInt 0)],
         action_entry ''set_cooling_valve'' [(''value'', VInt 100)]])]"

definition joint_position_rules :: "pv list" where
  "joint_position_rules =
     [range_entry ''panda_joint1_pos'' ''joint_0'' (-28973/10000) (28973/10000) ''rad'',
      range_entry ''panda_joint2_pos'' ''joint_1'' (-17628/10000) (17628/10000) ''rad'',
      range_entry ''panda_joint3_pos'' ''joint_2'' (-28973/10000) (28973/10000) ''rad'',
      range_entry ''panda_joint4_pos'' ''joint_3'' (-30718/10000) (-698/10000) ''rad'',
      range_entry ''panda_joint5_pos'' ''joint_4'' (-28973/10000) (28973/10000) ''rad'',
      range_entry ''panda_joint6_pos'' ''joint_5'' (-175/10000) (37525/10000) ''rad'',
      range_entry ''panda_joint7_pos'' ''joint_6'' (-28973/10000) (28973/10000) ''rad'']"

definition finger_position_rules :: "pv list" where
  "finger_position_rules =
     [range_entry ''panda_finger_joint1_pos'' ''finger_joint_0'' 0 (4/100) ''m'',
      range_entry ''panda_finger_joint2_pos'' ''finger_joint_1'' 0 (4/100) ''m'']"

definition velocity_rules :: "pv list" where
  "velocity_rules =
     [threshold_entry ''panda_joint1_vel'' ''joint_0_velocity'' ''lte'' (2175/1000) ''rad/s'',
      threshold_entry ''panda_joint2_vel'' ''joint_1_velocity'' ''lte'' (2175/1000) ''rad/s'',
      threshold_entry ''panda_joint3_vel'' ''joint_2_velocity'' ''lte'' (2175/1000) ''rad/s'',
      threshold_entry ''panda_joint4_vel'' ''joint_3_velocity'' ''lte'' (2175/1000) ''rad/s'',
      threshold_entry ''panda_joint5_vel'' ''joint_4_velocity'' ''lte'' (2610/1000) ''rad/s'',
      threshold_entry ''panda_joint6_vel'' ''joint_5_velocity'' ''lte'' (2610/1000) ''rad/s'',
      threshold_entry ''panda_joint7_vel'' ''joint_6_velocity'' ''lte'' (2610/1000) ''rad/s'',
      threshold_entry ''panda_finger_joint1_vel'' ''finger_joint_0_velocity'' ''lte'' (2/10) ''m/s'',
      threshold_entry ''panda_finger_joint2_vel'' ''finger_joint_1_velocity'' ''lte'' (2/10) ''m/s'']"

definition effort_rules :: "pv list" where
  "effort_rules =
     [threshold_entry ''panda_joint1_effort'' ''joint_0_effort'' ''lte'' 87 ''Nm'',
      threshold_entry ''panda_joint2_effort'' ''joint_1_effort'' ''lte'' 87 ''Nm'',
      threshold_entry ''panda_joint3_effort'' ''joint_2_effort'' ''lte'' 87 ''Nm'',
      threshold_entry ''panda_joint4_effort'' ''joint_3_effort'' ''lte'' 150 ''Nm'',
      threshold_entry ''panda_joint5_effort'' ''joint_4_effort'' ''lte'' 12 ''Nm'',
      threshold_entry ''panda_joint6_effort'' ''joint_5_effort'' ''lte'' 50 ''Nm'',
      threshold_entry ''panda_joint7_effort'' ''joint_6_effort'' ''lte'' 12 ''Nm'',
      threshold_entry ''panda_finger_joint1_force'' ''finger_joint_0_force'' ''lte'' 20 ''N'',
      threshold_entry ''panda_finger_joint2_force'' ''finger_joint_1_force'' ''lte'' 20 ''N'']"

definition interval :: "rat \<Rightarrow> rat \<Rightarrow> pv" where
  "interval lo hi = VList [lit lo, lit hi]"

definition robot_workspace :: pv where
  "robot_workspace = VList [interval (-855/1000) (855/1000), interval (-855/1000) (855/1000), interval (-36/100) (119/100)]"

definition robot_collision :: pv where
  "robot_collision = VDict [(''enabled'', VBool False), (''mode'', VStr ''end_effector_sphere''),
     (''probe_radius_m'', lit (45/1000)), (''forbidden_objects'', VList [])]"

definition robot_simulation :: pv where
  "robot_simulation = VDict
     [(''engine'', VStr ''isaac_sim''), (''timeout_ms'', VInt 10000), (''headless'', VBool True),
      (''simulation_steps_per_action'', VInt 30), (''world_ref'', VNone), (''workspace_limits'', robot_workspace),
      (''torque_limits'', VList (map VInt [87, 87, 87, 87, 12, 12, 12])),
      (''joint_limits'', VDict [(''0'', interval (-28973/10000) (28973/10000)), (''1'', interval (-17628/10000) (17628/10000)),
         (''2'', interval (-28973/10000) (28973/10000)), (''3'', interval (-30718/10000) (-698/10000)),
         (''4'', interval (-28973/10000) (28973/10000)), (''5'', interval (-175/10000) (37525/10000)),
         (''6'', interval (-28973/10000) (28973/10000)), (''7'', interval 0 (4/100)), (''8'', interval 0 (4/100))]),
      (''collision'', robot_collision)]"

definition robot_execution :: pv where
  "robot_execution = execution_section [action_entry ''move_joint'' [(''target_positions'',
     VList [VInt 0, VInt 0, VInt 0, lit (-15/10), VInt 0, lit 1, VInt 0, lit (4/100), lit (4/100)])]]"

definition robot_ruleset :: "pv list" where
  "robot_ruleset = joint_position_rules @ finger_position_rules @ velocity_rules @ effort_rules"

definition robot_profile :: "pv dict" where
  "robot_profile =
     [(''asset_id'', VStr ''robot_arm_01''), (''sil_level'', VInt 2), (''sensor_source'', VStr ''isaac_sim_sensor''),
      (''allowed_action_types'', VList [VStr ''move_joint'']), (''ot_executor'', VStr ''mock_executor''),
      (''consensus'', weighted_section (5/10)), (''integrity'', integrity_section []),
      (''ruleset'', VList robot_ruleset), (''simulation'', robot_simulation), (''execution'', robot_execution)]"

definition agv_ruleset :: "pv list" where
  "agv_ruleset =
     [range_entry ''agv_x_bounds'' ''position_x'' 0 10 ''cell'', range_entry ''agv_y_bounds'' ''position_y'' 0 10 ''cell'']"

definition agv_simulation :: pv where
  "agv_simulation = VDict
     [(''engine'', VStr ''discrete_event''), (''timeout_ms'', VInt 1000),
      (''grid'', VDict [(''width'', VInt 10), (''height'', VInt 10), (''obstacles'', VList [VList [VInt 3, VInt 3]]),
         (''intersections'', VList [])]),
      (''agvs'', VDict [(''agv_01'', VDict [(''position'', VList [VInt 0, VInt 0]), (''speed'', lit 1)]),
         (''agv_02'', VDict [(''position'', VList [VInt 9, VInt 9]), (''speed'', lit 1)])]),
      (''min_distance'', lit 1)]"

definition agv_profile :: "pv dict" where
  "agv_profile =
     [(''asset_id'', VStr ''agv_01''), (''sil_level'', VInt 1), (''sensor_source'', VStr ''modbus_sensor''),
      (''allowed_action_types'', VList [VStr ''move_to'']), (''ot_executor'', VStr ''modbus_executor''),
      (''consensus'', VDict [(''mode'', VStr ''WORST_CASE''), (''on_sim_indeterminate'', VStr ''RENORMALIZE'')]),
      (''integrity'', integrity_section []), (''ruleset'', VList agv_ruleset), (''simulation'', agv_simulation),
      (''execution'', execution_section [action_entry ''move_to''
         [(''agv_id'', VStr ''agv_01''), (''target_x'', VInt 0), (''target_y'', VInt 0)]])]"

definition policy_version_id :: string where
  "policy_version_id = ''v2025-03-06''"

definition seed_global_policy :: "pv dict" where
  "seed_global_policy = [(''hash'', VDict [(''algorithm'', VStr ''sha256''), (''canonicalization_version'', VStr ''1.0'')]),
     (''defaults'', VDict [(''timestamp_max_age_ms'', VInt 5000)])]"

definition seed_assets :: "pv dict" where
  "seed_assets = [(''reactor_01'', VDict reactor_profile), (''robot_arm_01'', VDict robot_profile), (''agv_01'', VDict agv_profile)]"

definition build_initial_policy :: "int \<Rightarrow> pv dict" where
  "build_initial_policy now_ms = [(''policy_version_id'', VStr policy_version_id), (''issued_at_ms'', VInt now_ms),
     (''global_policy'', VDict seed_global_policy), (''assets'', VDict seed_assets)]"

subsection \<open>The reference data\<close>

text \<open>
  The data kept beside the store has no list of allowed actions, and of the robot only the position rules of the
  seven joints and a shorter simulation section.
\<close>

definition reference_reactor :: "pv dict" where
  "reference_reactor =
     [(''asset_id'', VStr ''reactor_01''), (''sil_level'', VInt 2), (''sensor_source'', VStr ''modbus_sensor''),
      (''ot_executor'', VStr ''modbus_executor''), (''consensus'', weighted_section (8/10)),
      (''integrity'', integrity_section [divergence_entry ''temperature'' 5, divergence_entry ''pressure'' 1]),
      (''ruleset'', VList reactor_ruleset),
      (''simulation'', VDict [(''engine'', VStr ''ode_solver''), (''timeout_ms'', VInt 5000), (''horizon_ms'', VInt 5000),
         (''dt_ms'', VInt 100)]),
      (''execution'', execution_section [action_entry ''set_heater_output'' [(''value'', VInt 0)],
         action_entry ''set_cooling_valve'' [(''value'', VInt 100)]])]"

definition reference_robot :: "pv dict" where
  "reference_robot =
     [(''asset_id'', VStr ''robot_arm_01''), (''sil_level'', VInt 2), (''sensor_source'', VStr ''isaac_sim_sensor''),
      (''ot_executor'', VStr ''mock_executor''), (''consensus'', weighted_section (5/10)),
      (''integrity'', integrity_section []), (''ruleset'', VList joint_position_rules),
      (''simulation'', VDict [(''engine'', VStr ''isaac_sim''), (''timeout_ms'', VInt 10000), (''headless'', VBool True),
         (''simulation_steps_per_action'', VInt 30), (''workspace_limits'', robot_workspace),
         (''collision'', robot_collision)]),
      (''execution'', robot_execution)]"

definition reference_agv :: "pv dict" where
  "reference_agv =
     [(''asset_id'', VStr ''agv_01''), (''sil_level'', VInt 1), (''sensor_source'', VStr ''modbus_sensor''),
      (''ot_executor'', VStr ''modbus_executor''),
      (''consensus'', VDict [(''mode'', VStr ''WORST_CASE''), (''on_sim_indeterminate'', VStr ''RENORMALIZE'')]),
      (''integrity'', integrity_section []), (''ruleset'', VList agv_ruleset), (''simulation'', agv_simulation),
      (''execution'', execution_section [action_entry ''move_to''
         [(''agv_id'', VStr ''agv_01''), (''target_x'', VInt 0), (''target_y'', VInt 0)]])]"

definition reference_policy_data :: "pv dict" where
  "reference_policy_data = [(''policy_version_id'', VStr policy_version_id), (''issued_at_ms'', VInt 1740000000000),
     (''global_policy'', VDict seed_global_policy),
     (''assets'', VDict [(''reactor_01'', VDict reference_reactor), (''robot_arm_01'', VDict reference_robot),
        (''agv_01'', VDict reference_agv)])]"

subsection \<open>The script\<close>

text \<open>The URLs and the key that the module reads when it is loaded.\<close>

record seed_config =
  sc_admin_url :: string
  sc_policy_url :: string
  sc_api_key :: string

definition seed_service_url :: "pv dict \<Rightarrow> string \<Rightarrow> string \<Rightarrow> string" where
  "seed_service_url urls name fallback = py_str (or_else (vget urls name) (VStr fallback))"

definition seed_config_of :: "pv dict res \<Rightarrow> string dict \<Rightarrow> seed_config res" where
  "seed_config_of urls environ = bindR urls (\<lambda>u. Inr
     \<lparr> sc_admin_url = seed_service_url u ''policy_admin'' ''http://127.0.0.1:8006'',
       sc_policy_url = seed_service_url u ''policy_store'' ''http://127.0.0.1:8002'',
       sc_api_key = dget_or environ ''PCAG_ADMIN_KEY'' ''pcag-admin-key-001'' \<rparr>)"

text \<open>A client that also takes the value of the \<open>X-Admin-Key\<close> header.\<close>

type_synonym 'w keyed_client = "string option \<Rightarrow> 'w http_client"

definition update_existing_assets :: "'w keyed_client \<Rightarrow> seed_config \<Rightarrow> pv dict \<Rightarrow> ('w, unit) eff" where
  "update_existing_assets client cfg policy =
     bindE (liftE (py_getitem (VDict policy) ''policy_version_id'')) (\<lambda>version.
     bindE (liftE (bindR (py_getitem (VDict policy) ''assets'') py_items)) (\<lambda>assets.
     eachE (\<lambda>(asset_id, profile).
       bindE (client (Some (sc_api_key cfg)) ''PUT''
           (sc_admin_url cfg @ ''/v1/admin/policies/'' @ py_str version @ ''/assets/'' @ asset_id)
           (VDict [(''profile'', profile)])) (\<lambda>response.
         if rp_code response = 200 then bindE (liftE (resp_json response)) (\<lambda>_. retE ()) else retE ())) assets))"

text \<open>The steps after the policy has been created or updated.\<close>

definition activate_and_verify :: "'w keyed_client \<Rightarrow> seed_config \<Rightarrow> string \<Rightarrow> ('w, int) eff" where
  "activate_and_verify client cfg version =
     bindE (client (Some (sc_api_key cfg)) ''PUT'' (sc_admin_url cfg @ ''/v1/admin/policies/'' @ version @ ''/activate'') VNone)
       (\<lambda>response. if rp_code response \<noteq> 200 then retE 1
        else bindE (liftE (resp_json response)) (\<lambda>_.
          bindE (client None ''GET'' (sc_policy_url cfg @ ''/v1/policies/active'') VNone) (\<lambda>response.
            if rp_code response \<noteq> 200 then retE 1
            else bindE (liftE (resp_json response)) (\<lambda>_. retE 0))))"

text \<open>
  The exit code.  Only a failed connection is caught, as \<open>httpx.ConnectError\<close>; \<open>refused\<close> tells which
  exceptions are one.
\<close>

definition seed :: "(exc \<Rightarrow> bool) \<Rightarrow> 'w keyed_client \<Rightarrow> seed_config \<Rightarrow> int \<Rightarrow> ('w, int) eff" where
  "seed refused client cfg now_ms =
     (let policy = build_initial_policy now_ms in
     bindE (liftE (py_getitem (VDict policy) ''policy_version_id'')) (\<lambda>version.
     tryE
       (bindE (client (Some (sc_api_key cfg)) ''POST'' (sc_admin_url cfg @ ''/v1/admin/policies'') (VDict policy)) (\<lambda>response.
          if rp_code response = 200
          then bindE (liftE (resp_json response)) (\<lambda>_. activate_and_verify client cfg (py_str version))
          else if rp_code response = 409
          then bindE (update_existing_assets client cfg policy) (\<lambda>_. activate_and_verify client cfg (py_str version))
          else retE 1))
       (\<lambda>e. if refused e then retE 1 else rethrowE e)))"

subsection \<open>The two policy services behind HTTP\<close>

text \<open>The bodies of requests and replies; a body of the wrong shape is answered with 422 after the key check.\<close>

definition parse_create_request :: "pv \<Rightarrow> create_policy_request option" where
  "parse_create_request body = (case body of
     VDict d \<Rightarrow> (case (vget d ''policy_version_id'', vget d ''global_policy'', vget d ''assets'') of
       (VStr v, VDict g, VDict a) \<Rightarrow>
         if list_all is_dict (dvals a)
         then Some \<lparr> cp_policy_version_id = v, cp_global_policy = g, cp_assets = a \<rparr> else None
     | _ \<Rightarrow> None)
   | _ \<Rightarrow> None)"

definition optional_str :: "pv \<Rightarrow> string option option" where
  "optional_str v = (case v of VNone \<Rightarrow> Some None | VStr s \<Rightarrow> Some (Some s) | _ \<Rightarrow> None)"

definition parse_update_request :: "pv \<Rightarrow> update_asset_policy_request option" where
  "parse_update_request body = (case body of
     VDict d \<Rightarrow> (case (vget d ''profile'', optional_str (vget d ''new_policy_version_id''), optional_str (vget d ''change_reason'')) of
       (VDict p, Some n, Some c) \<Rightarrow> Some \<lparr> ua_profile = p, ua_new_policy_version_id = n, ua_change_reason = c \<rparr>
     | _ \<Rightarrow> None)
   | _ \<Rightarrow> None)"

definition create_response :: "string \<times> int \<Rightarrow> pv" where
  "create_response r = VDict [(''policy_version_id'', VStr (fst r)), (''created_at_ms'', VInt (snd r))]"

definition activate_response :: "activate_policy_response \<Rightarrow> pv" where
  "activate_response r = VDict [(''policy_version_id'', VStr (ac_policy_version_id r)),
     (''activated_at_ms'', VInt (ac_activated_at_ms r)), (''previous_active_version'', opt_pv (ac_previous_active_version r))]"

definition update_response :: "update_asset_policy_response \<Rightarrow> pv" where
  "update_response r = VDict [(''policy_version_id'', VStr (uq_policy_version_id r)), (''asset_id'', VStr (uq_asset_id r)),
     (''updated_at_ms'', VInt (uq_updated_at_ms r)), (''previous_policy_version_id'', VStr (uq_previous_policy_version_id r))]"

definition profile_response :: "asset_policy_response \<Rightarrow> pv" where
  "profile_response r = VDict [(''policy_version_id'', VStr (ap_version r)), (''asset_id'', VStr (ap_asset_id r)),
     (''profile'', ap_profile r)]"

definition document_response :: "policy_document_response \<Rightarrow> pv" where
  "document_response r = VDict [(''policy_version_id'', VStr (pd_version r)), (''issued_at_ms'', VInt (pd_issued_at_ms r)),
     (''global_policy'', pd_global_policy r), (''assets'', pd_assets r)]"

text \<open>
  The table and the number of the request; the clock and the random names of a request are read from the
  environment at that number.  An update whose names are used up has not ended: the client sees no answer.
\<close>

record policy_site =
  ps_table :: policy_table
  ps_requests :: nat

record policy_env =
  pe_config :: "pv res"
  pe_loads :: "string \<Rightarrow> pv res"
  pe_dup :: string
  pe_clock :: "nat \<Rightarrow> int"
  pe_draws :: "nat \<Rightarrow> string list"

definition unprocessable :: http_reply where
  "unprocessable = Reply 422 (Some (VDict [(''detail'', VList [])]))"

definition answered :: "('r \<Rightarrow> pv) \<Rightarrow> 'r res \<times> policy_table \<Rightarrow> http_reply res \<times> policy_table" where
  "answered f = map_prod (\<lambda>r. Inr (answer (map_sum id f r))) id"

definition admin_post :: "policy_env \<Rightarrow> nat \<Rightarrow> pv \<Rightarrow> policy_table \<Rightarrow> http_reply res \<times> policy_table" where
  "admin_post env n body table = (case parse_create_request body of
     None \<Rightarrow> (Inr unprocessable, table)
   | Some request \<Rightarrow> answered create_response (create_policy_route (pe_dup env) (pe_clock env n) request table))"

definition admin_put_asset ::
  "policy_env \<Rightarrow> nat \<Rightarrow> string \<Rightarrow> string \<Rightarrow> pv \<Rightarrow> policy_table \<Rightarrow> http_reply res \<times> policy_table" where
  "admin_put_asset env n version asset_id body table = (case parse_update_request body of
     None \<Rightarrow> (Inr unprocessable, table)
   | Some request \<Rightarrow>
       (case update_asset_policy_route (pe_loads env) (pe_dup env) (pe_clock env n) (pe_draws env n) version asset_id request table of
          None \<Rightarrow> (raise TransportError ''timed out'', table)
        | Some result \<Rightarrow> answered update_response result))"

text \<open>The routes of apps/policy_admin; the key is checked first.\<close>

definition admin_request ::
  "policy_env \<Rightarrow> nat \<Rightarrow> string option \<Rightarrow> string \<Rightarrow> string list \<Rightarrow> pv \<Rightarrow> policy_table \<Rightarrow> http_reply res \<times> policy_table" where
  "admin_request env n key verb path body table =
     (let handle = (if path = [] \<and> verb = ''POST'' then Some (admin_post env n body)
        else case path of
          [version, leaf] \<Rightarrow> if verb = ''PUT'' \<and> leaf = ''activate''
            then Some (\<lambda>t. answered activate_response (activate_policy_route (pe_clock env n) version t)) else None
        | [version, branch, asset_id] \<Rightarrow> if verb = ''PUT'' \<and> branch = ''assets''
            then Some (admin_put_asset env n version asset_id body) else None
        | _ \<Rightarrow> None) in
      case handle of
        None \<Rightarrow> (Inr (Reply 404 (Some (error_body ''Not Found''))), table)
      | Some h \<Rightarrow> (case verify_admin_key (pe_config env) key of
            Inl e \<Rightarrow> (Inr (answer (Inl e)), table) | Inr k \<Rightarrow> h table))"

text \<open>The routes of apps/policy_store.\<close>

definition store_request :: "policy_env \<Rightarrow> string \<Rightarrow> string list \<Rightarrow> policy_table \<Rightarrow> http_reply" where
  "store_request env verb path table = (if verb \<noteq> ''GET'' then Reply 404 (Some (error_body ''Not Found''))
     else case path of
       [version] \<Rightarrow> if version = ''active''
         then answer (map_sum id (\<lambda>v. VDict [(''policy_version_id'', VStr v)]) (get_active_policy_route table))
         else answer (map_sum id document_response (get_policy_route (pe_loads env) version table))
     | [version, branch, asset_id] \<Rightarrow> if branch = ''assets''
         then answer (map_sum id profile_response (get_asset_policy_route (pe_loads env) version asset_id table))
         else Reply 404 (Some (error_body ''Not Found''))
     | _ \<Rightarrow> Reply 404 (Some (error_body ''Not Found'')))"

text \<open>The segments of the path after a base URL; the empty path is no segment.\<close>

definition path_after :: "string \<Rightarrow> string \<Rightarrow> string list option" where
  "path_after base url = (if \<not> starts_with base url then None
     else case drop (length base) url of
       [] \<Rightarrow> Some []
     | c # cs \<Rightarrow> if c = CHR ''/'' then Some (split_on CHR ''/'' cs) else None)"

definition site :: "policy_env \<Rightarrow> seed_config \<Rightarrow> policy_site keyed_client" where
  "site env cfg key verb url body s =
     (case path_after (sc_admin_url cfg @ ''/v1/admin/policies'') url of
        Some path \<Rightarrow> (let (r, t) = admin_request env (ps_requests s) key verb path body (ps_table s)
          in (r, \<lparr> ps_table = t, ps_requests = Suc (ps_requests s) \<rparr>))
      | None \<Rightarrow> (case path_after (sc_policy_url cfg @ ''/v1/policies'') url of
          Some path \<Rightarrow> (Inr (store_request env verb path (ps_table s)), s\<lparr> ps_requests := Suc (ps_requests s) \<rparr>)
        | None \<Rightarrow> (raise TransportError ''Name or service not known'', s)))"

end
