(* ===== verification/SeedFacts.thy ===== *)
theory SeedFacts
  imports SeedPolicy SafetyFacts
begin

section \<open>What the seeding script leaves, and what the seeded policy demands\<close>

text \<open>
  The script on a store without the version installs and activates its policy; on a store that has it, the
  profiles stay as they were.  With the seeded weights the reactor needs both the rules and the CBF validator;
  the robot's lower threshold does not.
\<close>

subsection \<open>What a run leaves in the store\<close>

text \<open>The two services do not share a URL.\<close>

definition separate :: "seed_config \<Rightarrow> bool" where
  "separate cfg \<longleftrightarrow> (let a = sc_admin_url cfg @ ''/v1/admin/policies''; p = sc_policy_url cfg @ ''/v1/policies'' in
     \<not> starts_with a p \<and> \<not> starts_with p a)"

lemma starts_with_iff: "starts_with p s \<longleftrightarrow> (\<exists>x. s = p @ x)"
  by (auto simp: starts_with_def append_eq_conv_conj) (metis append_take_drop_id)

lemma path_after_append [simp]: "path_after base (base @ x) =
    (case x of [] \<Rightarrow> Some [] | c # cs \<Rightarrow> if c = CHR ''/'' then Some (split_on CHR ''/'' cs) else None)"
  by (auto simp: path_after_def starts_with_iff)

lemma separate_paths:
  assumes "separate cfg"
  shows "path_after (sc_admin_url cfg @ ''/v1/admin/policies'') (sc_policy_url cfg @ ''/v1/policies'' @ x) = None"
proof -
  have "\<not> starts_with a (p @ x)" if "\<not> starts_with a p" "\<not> starts_with p a" for a p :: string
    using that by (auto simp: starts_with_iff append_eq_append_conv2)
  from this [of "sc_admin_url cfg @ ''/v1/admin/policies''" "sc_policy_url cfg @ ''/v1/policies''"] assms
  show ?thesis by (simp add: separate_def Let_def path_after_def)
qed

lemma admin_call:
  assumes "path_after [] x = Some path"
  shows "site env cfg key verb (sc_admin_url cfg @ ''/v1/admin/policies'' @ x) body s =
     (let (r, t) = admin_request env (ps_requests s) key verb path body (ps_table s)
      in (r, \<lparr> ps_table = t, ps_requests = Suc (ps_requests s) \<rparr>))"
proof -
  have "path_after (sc_admin_url cfg @ ''/v1/admin/policies'') ((sc_admin_url cfg @ ''/v1/admin/policies'') @ x) = Some path"
    using path_after_append [of "[]" x] assms by (simp only: path_after_append append.simps)
  then show ?thesis by (simp add: site_def)
qed

lemma store_call:
  assumes "separate cfg"
  shows "site env cfg key verb (sc_policy_url cfg @ ''/v1/policies/'' @ x) body s =
     (Inr (store_request env verb (split_on CHR ''/'' x) (ps_table s)), s\<lparr> ps_requests := Suc (ps_requests s) \<rparr>)"
  using separate_paths [OF assms, of "CHR ''/'' # x"]
    path_after_append [of "sc_policy_url cfg @ ''/v1/policies''" "CHR ''/'' # x"]
  by (simp add: site_def)

text \<open>A request leaves the table or is an operation of the store.\<close>

lemma answered_snd [simp]: "snd (answered f p) = snd p"
  by (simp add: answered_def)

lemma admin_request_step:
  "snd (admin_request env n key verb path body t) = t \<or> policy_step t (snd (admin_request env n key verb path body t))"
proof -
  have post: "snd (admin_post env n body t) = t \<or> policy_step t (snd (admin_post env n body t))"
    by (auto simp: admin_post_def step_create split: option.split)
  have put: "snd (admin_put_asset env n v a body t) = t \<or> policy_step t (snd (admin_put_asset env n v a body t))" for v a
    by (auto simp: admin_put_asset_def split: option.split) (metis step_update surjective_pairing)
  show ?thesis
    using post put by (auto simp: admin_request_def Let_def step_activate split: list.split option.split sum.split)
qed

lemma site_history:
  assumes h: "policy_history t (ps_table s)"
  shows "policy_history t (ps_table (snd (site env cfg key verb url body s)))"
proof -
  have "policy_history t (snd (admin_request env (ps_requests s) key verb path body (ps_table s)))" for path
    using h admin_request_step [of env "ps_requests s" key verb path body "ps_table s"]
    unfolding policy_history_def by (metis rtranclp.rtrancl_into_rtrancl)
  with h show ?thesis by (auto simp: site_def Let_def split: option.split prod.split dest: sndI)
qed

lemma eachE_keeps:
  assumes "\<And>x s. I s \<Longrightarrow> I (snd (f x s))"
  shows "I s \<Longrightarrow> I (snd (eachE f xs s))"
  using assms by (induction xs arbitrary: s) (auto simp: retE_def bindE_def split: prod.split sum.split; metis snd_conv)+

lemma update_existing_history:
  assumes "policy_history t (ps_table s)"
  shows "policy_history t (ps_table (snd (update_existing_assets (site env cfg) cfg policy s)))"
proof -
  have each: "policy_history t (ps_table (snd (eachE (\<lambda>(a, p).
       bindE (site env cfg k verb (url a) (body p)) (\<lambda>response.
         if rp_code response = 200 then bindE (liftE (resp_json response)) (\<lambda>_. retE ()) else retE ())) xs s)))"
    for k verb url body xs
    using assms
  proof (rule eachE_keeps [where I = "\<lambda>s. policy_history t (ps_table s)", rotated])
    fix x and s :: policy_site
    assume "policy_history t (ps_table s)"
    from site_history [OF this, of env cfg k verb "url (fst x)" "body (snd x)"]
    show "policy_history t (ps_table (snd ((case x of (a, p) \<Rightarrow> bindE (site env cfg k verb (url a) (body p)) (\<lambda>response.
         if rp_code response = 200 then bindE (liftE (resp_json response)) (\<lambda>_. retE ()) else retE ())) s)))"
      by (auto simp: bindE_def liftE_def retE_def split: prod.split sum.split)
  qed
  show ?thesis
    unfolding update_existing_assets_def
    using each assms by (auto simp: bindE_def liftE_def split: sum.split)
qed

text \<open>The calls of the script.\<close>

lemma create_call:
  "site env cfg key ''POST'' (sc_admin_url cfg @ ''/v1/admin/policies'') body s =
     (case verify_admin_key (pe_config env) key of
        Inl e \<Rightarrow> (Inr (answer (Inl e)), s\<lparr> ps_requests := Suc (ps_requests s) \<rparr>)
      | Inr k \<Rightarrow> (let (r, t) = admin_post env (ps_requests s) body (ps_table s)
          in (r, \<lparr> ps_table = t, ps_requests = Suc (ps_requests s) \<rparr>)))"
  using admin_call [of "[]" "[]" env cfg key "''POST''" body s] path_after_append [of "[]" "[]"]
  by (simp add: admin_request_def split: sum.split)

lemma activate_path: "path_after [] (''/'' @ policy_version_id @ ''/activate'') = Some [policy_version_id, ''activate'']"
  by code_simp

lemma activate_call:
  "site env cfg key ''PUT'' (sc_admin_url cfg @ ''/v1/admin/policies/'' @ policy_version_id @ ''/activate'') body s =
     (case verify_admin_key (pe_config env) key of
        Inl e \<Rightarrow> (Inr (answer (Inl e)), s\<lparr> ps_requests := Suc (ps_requests s) \<rparr>)
      | Inr k \<Rightarrow> (let (r, t) = answered activate_response
            (activate_policy_route (pe_clock env (ps_requests s)) policy_version_id (ps_table s))
          in (r, \<lparr> ps_table = t, ps_requests = Suc (ps_requests s) \<rparr>)))"
  using admin_call [OF activate_path, of env cfg key "''PUT''" body s]
  by (simp add: admin_request_def split: sum.split)

definition seed_request :: create_policy_request where
  "seed_request = \<lparr> cp_policy_version_id = policy_version_id, cp_global_policy = seed_global_policy, cp_assets = seed_assets \<rparr>"

definition seed_document :: pv where
  "seed_document = VDict [(''policy_version_id'', VStr policy_version_id), (''global_policy'', VDict seed_global_policy),
     (''assets'', VDict seed_assets)]"

lemma parse_seed: "parse_create_request (VDict (build_initial_policy now)) = Some seed_request"
proof -
  have "list_all is_dict (dvals seed_assets)" by (simp add: seed_assets_def dvals_def)
  then show ?thesis by (simp add: parse_create_request_def build_initial_policy_def vget_def dget_or_def seed_request_def)
qed

lemma seed_version [simp]: "py_getitem (VDict (build_initial_policy now)) ''policy_version_id'' = Inr (VStr policy_version_id)"
  by (simp add: py_getitem_def build_initial_policy_def)

lemma find_marked:
  "get_policy v t \<noteq> None \<Longrightarrow> get_active_version (map (mark v) (map lower t)) = Some v"
proof (induction t)
  case (Cons r t)
  show ?case
  proof (cases "po_version r = v")
    case True
    then show ?thesis by (simp add: get_active_version_def mark_def)
  next
    case False
    then have "\<not> po_is_active (mark v (lower r))" by (simp add: mark_def)
    with Cons False show ?thesis by (simp add: get_active_version_def get_policy_def)
  qed
qed (simp add: get_policy_def)

lemma archive_activated: "archive_of (map (mark v) (map lower t)) = archive_of t"
  by (simp only: archive_map mark_fields lower_fields)

lemma profile_route_archive:
  assumes "archive_of t v = archive_of t' v"
  shows "get_asset_policy_route loads v a t = get_asset_policy_route loads v a t'"
  using assms
  by (auto simp: archive_of_def get_asset_policy_route_def get_asset_profile_def get_assets_def get_document_def
      split: option.splits)

lemma active_call:
  assumes "separate cfg"
  shows "site env cfg key verb (sc_policy_url cfg @ ''/v1/policies/active'') body s =
     (Inr (store_request env verb [''active''] (ps_table s)), s\<lparr> ps_requests := Suc (ps_requests s) \<rparr>)"
proof -
  have "split_on CHR ''/'' ''active'' = [''active'']" by code_simp
  then show ?thesis using store_call [OF assms, of env key verb "''active''" body s] by simp
qed

text \<open>The last two calls in one equation.\<close>

lemma activate_run:
  assumes "separate cfg" and key: "verify_admin_key (pe_config env) (Some (sc_api_key cfg)) = Inr k"
  shows "activate_and_verify (site env cfg) cfg policy_version_id s =
     (if get_policy policy_version_id (ps_table s) = None
      then (Inr 1, s\<lparr> ps_requests := Suc (ps_requests s) \<rparr>)
      else (Inr 0, \<lparr> ps_table = map (mark policy_version_id) (map lower (ps_table s)), ps_requests = ps_requests s + 2 \<rparr>))"
proof -
  have route: "get_active_policy_route (map (mark policy_version_id) (map lower t)) = Inr policy_version_id"
    if "get_policy policy_version_id t \<noteq> None" for t
    using find_marked [OF that] by (simp add: get_active_policy_route_def policy_version_id_def)
  show ?thesis
    using route [of "ps_table s"]
    unfolding activate_and_verify_def bindE_def activate_call active_call [OF assms(1)] key
    by (auto simp: activate_policy_route_def activate_policy_eq answered_def answer_def resp_json_def store_request_def
        version_not_found_def http_error_def retE_def liftE_def bindE_def Let_def
        simp del: map_map split: option.split)
qed

text \<open>The whole run: the first request creates the version, or finds it and goes on to the updates.\<close>

lemma seed_fresh:
  assumes "separate cfg" and key: "verify_admin_key (pe_config env) (Some (sc_api_key cfg)) = Inr k"
    and none: "get_policy policy_version_id (ps_table s) = None"
  defines "row \<equiv> \<lparr> po_version = policy_version_id, po_issued_at_ms = pe_clock env (ps_requests s),
      po_document = seed_document, po_is_active = False, po_created_by = None \<rparr>"
  shows "seed refused (site env cfg) cfg now s = (Inr 0,
      \<lparr> ps_table = map (mark policy_version_id) (map lower (ps_table s @ [row])), ps_requests = ps_requests s + 3 \<rparr>)"
proof -
  have post: "admin_post env n (VDict (build_initial_policy now)) t =
      (Inr (Reply 200 (Some (create_response (policy_version_id, pe_clock env n)))),
       t @ [\<lparr> po_version = policy_version_id, po_issued_at_ms = pe_clock env n, po_document = seed_document,
         po_is_active = False, po_created_by = None \<rparr>])" if "get_policy policy_version_id t = None" for n t
    using that by (simp add: admin_post_def parse_seed create_policy_route_def create_policy_def seed_request_def
        answered_def answer_def seed_document_def Let_def)
  have present: "get_policy policy_version_id (ps_table s @ [row]) \<noteq> None"
    by (simp add: get_policy_append row_def split: option.split)
  show ?thesis
    using activate_run [OF assms(1) key, of "\<lparr> ps_table = ps_table s @ [row], ps_requests = Suc (ps_requests s) \<rparr>"] present
    unfolding seed_def bindE_def tryE_def create_call key Let_def
    by (simp add: post [OF none] row_def liftE_def resp_json_def py_str.simps del: map_map)
qed

text \<open>With more names than stored versions every request is answered, and a reply of 200 has a body.\<close>

lemma answer_body: "rp_code (answer r) = 200 \<Longrightarrow> \<exists>v. resp_json (answer r) = Inr v"
  by (auto simp: answer_def resp_json_def split: sum.splits exc_kind.splits)

lemma admin_request_reply:
  assumes "distinct (map (take 8) (pe_draws env n))" "length t < length (pe_draws env n)"
  shows "\<exists>r. fst (admin_request env n key verb path body t) = Inr r \<and> (rp_code r = 200 \<longrightarrow> (\<exists>v. resp_json r = Inr v))"
proof -
  have post: "\<exists>r. fst (admin_post env n body t) = Inr r \<and> (rp_code r = 200 \<longrightarrow> (\<exists>v. resp_json r = Inr v))"
    by (auto simp: admin_post_def unprocessable_def answered_def intro: answer_body split: option.split)
  have put: "\<exists>r. fst (admin_put_asset env n v a body t) = Inr r \<and> (rp_code r = 200 \<longrightarrow> (\<exists>v. resp_json r = Inr v))" for v a
  proof (cases "parse_update_request body")
    case (Some request)
    have "update_asset_policy_route (pe_loads env) (pe_dup env) (pe_clock env n) (pe_draws env n) v a request t \<noteq> None"
      using update_asset_profile_returns [OF assms] by (simp add: update_asset_policy_route_def)
    with Some show ?thesis by (auto simp: admin_put_asset_def answered_def intro: answer_body)
  qed (simp add: admin_put_asset_def unprocessable_def)
  show ?thesis
    using post put
    by (auto simp: admin_request_def Let_def answered_def intro: answer_body split: list.split option.split sum.split)
qed

lemma policy_step_length: "policy_step t t' \<Longrightarrow> length t' \<le> Suc (length t)"
  by (erule policy_step_cases) auto

lemma admin_request_length: "length (snd (admin_request env n key verb path body t)) \<le> Suc (length t)"
  using admin_request_step [of env n key verb path body t] policy_step_length by fastforce

lemma update_call_ends:
  fixes cfg key verb x body
  assumes "distinct (map (take 8) (pe_draws env (ps_requests s)))" "length (ps_table s) < length (pe_draws env (ps_requests s))"
  defines "call \<equiv> bindE (site env cfg key verb (sc_admin_url cfg @ ''/v1/admin/policies/'' @ x) body) (\<lambda>response.
      if rp_code response = 200 then bindE (liftE (resp_json response)) (\<lambda>_. retE ()) else retE ())"
  shows "fst (call s) = Inr () \<and> length (ps_table (snd (call s))) \<le> Suc (length (ps_table s))"
proof -
  obtain path where path: "path_after [] (CHR ''/'' # x) = Some path"
    using path_after_append [of "[]" "CHR ''/'' # x"] by simp
  have site: "site env cfg key verb (sc_admin_url cfg @ ''/v1/admin/policies/'' @ x) body s =
     (let (r, t) = admin_request env (ps_requests s) key verb path body (ps_table s)
      in (r, \<lparr> ps_table = t, ps_requests = Suc (ps_requests s) \<rparr>))"
    using admin_call [OF path, of env cfg key verb body s] by simp
  obtain r t where rt: "admin_request env (ps_requests s) key verb path body (ps_table s) = (Inr r, t)"
      "rp_code r = 200 \<longrightarrow> (\<exists>v. resp_json r = Inr v)"
    using admin_request_reply [OF assms(1,2), of key verb path body] by (metis prod.collapse)
  have "length t \<le> Suc (length (ps_table s))"
    using admin_request_length [of env "ps_requests s" key verb path body "ps_table s"] by (simp add: rt(1))
  then show ?thesis
    using rt(2) unfolding call_def bindE_def site
    by (cases "resp_json r") (auto simp: rt(1) retE_def liftE_def bindE_def)
qed

lemma eachE_bounded:
  fixes size_of :: "'s \<Rightarrow> nat"
  assumes "\<And>x s. size_of s < m \<Longrightarrow> fst (f x s) = Inr () \<and> size_of (snd (f x s)) \<le> Suc (size_of s)"
  shows "size_of s + length xs \<le> m \<Longrightarrow> fst (eachE f xs s) = Inr ()"
proof (induction xs arbitrary: s)
  case (Cons x xs)
  obtain t where "f x s = (Inr (), t)" "size_of t \<le> Suc (size_of s)"
    using assms [of s x] Cons.prems by (cases "f x s") auto
  with Cons show ?case by (simp add: bindE_def)
qed (simp add: retE_def)

text \<open>Names for \<open>m\<close> stored versions, at every request.\<close>

definition names_for :: "policy_env \<Rightarrow> nat \<Rightarrow> bool" where
  "names_for env m \<longleftrightarrow> (\<forall>n. distinct (map (take 8) (pe_draws env n)) \<and> m \<le> length (pe_draws env n))"

lemma update_existing_ends:
  assumes "names_for env (length (ps_table s) + 3)"
  shows "fst (update_existing_assets (site env cfg) cfg (build_initial_policy now) s) = Inr ()"
proof -
  have assets: "py_getitem (VDict (build_initial_policy now)) ''assets'' = Inr (VDict seed_assets)"
    by (simp add: py_getitem_def build_initial_policy_def)
  have ends: "fst (eachE (\<lambda>(a, p). bindE (site env cfg key verb (sc_admin_url cfg @ ''/v1/admin/policies/'' @ x a) (body p))
      (\<lambda>response. if rp_code response = 200 then bindE (liftE (resp_json response)) (\<lambda>_. retE ()) else retE ())) seed_assets s) = Inr ()"
    for key verb x body
  proof (rule eachE_bounded [where size_of = "\<lambda>s. length (ps_table s)" and m = "length (ps_table s) + 3"])
    fix y and u :: policy_site
    assume "length (ps_table u) < length (ps_table s) + 3"
    then have "distinct (map (take 8) (pe_draws env (ps_requests u)))" "length (ps_table u) < length (pe_draws env (ps_requests u))"
      using assms by (auto simp: names_for_def intro: less_le_trans)
    from update_call_ends [OF this, of cfg key verb "x (fst y)" "body (snd y)"]
    show "fst ((case y of (a, p) \<Rightarrow> bindE (site env cfg key verb (sc_admin_url cfg @ ''/v1/admin/policies/'' @ x a) (body p))
        (\<lambda>response. if rp_code response = 200 then bindE (liftE (resp_json response)) (\<lambda>_. retE ()) else retE ())) u) = Inr () \<and>
      length (ps_table (snd ((case y of (a, p) \<Rightarrow> bindE (site env cfg key verb (sc_admin_url cfg @ ''/v1/admin/policies/'' @ x a) (body p))
        (\<lambda>response. if rp_code response = 200 then bindE (liftE (resp_json response)) (\<lambda>_. retE ()) else retE ())) u))) \<le> Suc (length (ps_table u))"
      by (simp only: split_beta)
  qed (simp add: seed_assets_def)
  show ?thesis
    unfolding update_existing_assets_def seed_version assets bindE_unit bindR.simps py_items_def pv.case by (rule ends)
qed

lemma seed_present:
  assumes "separate cfg" and key: "verify_admin_key (pe_config env) (Some (sc_api_key cfg)) = Inr k"
    and present: "get_policy policy_version_id (ps_table s) \<noteq> None" and inv: "policy_inv (ps_table s)"
    and run: "seed refused (site env cfg) cfg now s = (r, s')" and names: "names_for env (length (ps_table s) + 3)"
  shows "r = Inr 0 \<and> (\<exists>t. policy_history (ps_table s) t \<and> ps_table s' = map (mark policy_version_id) (map lower t))"
proof -
  let ?s = "\<lparr> ps_table = ps_table s, ps_requests = Suc (ps_requests s) \<rparr>"
  let ?up = "update_existing_assets (site env cfg) cfg (build_initial_policy now) ?s"
  have post: "admin_post env n (VDict (build_initial_policy now)) (ps_table s) =
      (Inr (Reply 409 (Some (error_body (''Policy version '' @ quoted policy_version_id @ '' already exists'')))), ps_table s)" for n
    using present by (simp add: admin_post_def parse_seed create_policy_route_def seed_request_def
        answered_def answer_def http_error_def)
  have hist: "policy_history (ps_table s) (ps_table (snd ?up))"
    by (rule update_existing_history) (simp add: policy_history_def)
  have "archive_of (ps_table s) \<subseteq>\<^sub>m archive_of (ps_table (snd ?up))"
    using policy_history_inv [OF hist inv] by blast
  moreover have "policy_version_id \<in> dom (archive_of (ps_table s))" using present by (auto simp: archive_of_def)
  ultimately have "policy_version_id \<in> dom (archive_of (ps_table (snd ?up)))" using map_le_implies_dom_le by blast
  then have kept: "get_policy policy_version_id (ps_table (snd ?up)) \<noteq> None" by (auto simp: archive_of_def)
  note last = activate_run [OF assms(1) key, of "snd ?up"]
  obtain x u where up: "?up = (x, u)" by fastforce
  have "x = Inr ()" using update_existing_ends [of env ?s cfg now] names up by simp
  then have "seed refused (site env cfg) cfg now s = activate_and_verify (site env cfg) cfg policy_version_id u"
    using up last kept unfolding seed_def bindE_def tryE_def create_call key Let_def
    by (simp add: post liftE_def py_str.simps del: map_map)
  with run last kept hist up show ?thesis by auto
qed

subsection \<open>What the seeded policy demands\<close>

definition rule_of :: "string \<Rightarrow> rule_type \<Rightarrow> string \<Rightarrow> cmp_op option \<Rightarrow> pv \<Rightarrow> flt option \<Rightarrow> flt option \<Rightarrow> string \<Rightarrow> rule" where
  "rule_of i t f oper v lo hi unit = \<lparr> r_rule_id = i, r_type = t, r_target_field = f, r_operator = oper, r_value = v,
     r_min = lo, r_max = hi, r_allowed_values = None, r_forbidden_pairs = None, r_conditions = None,
     r_unit = Some unit, r_aas_source = None \<rparr>"

definition reactor_rules :: "rule list" where
  "reactor_rules =
     [rule_of ''max_temperature'' THRESHOLD ''temperature'' (Some OpLte) (lit 180) None None ''celsius'',
      rule_of ''min_temperature'' THRESHOLD ''temperature'' (Some OpGte) (lit 0) None None ''celsius'',
      rule_of ''safe_pressure'' RANGE ''pressure'' None VNone (Some (mk_flt False 0)) (Some (mk_flt False 3)) ''atm'',
      rule_of ''max_heater_output'' THRESHOLD ''heater_output'' (Some OpLte) (lit 90) None None ''%'']"

lemma parse_threshold_entry:
  "parse_rule as_float (as_dict (threshold_entry i f (op_text oper) v u)) = Inr (rule_of i THRESHOLD f (Some oper) (lit v) None None u)"
  by (cases oper) (simp_all add: threshold_entry_def rule_of_def parse_rule_def parse_str_def parse_opt_def parse_literal_def
      rule_types_def operators_def vget_def dget_or_def Let_def)

lemma parse_range_entry:
  assumes "\<And>x. as_float (VFloat x) = Inr x"
  shows "parse_rule as_float (as_dict (range_entry i f lo hi u)) =
     Inr (rule_of i RANGE f None VNone (Some (mk_flt False lo)) (Some (mk_flt False hi)) u)"
  by (simp add: range_entry_def rule_of_def parse_rule_def parse_str_def parse_opt_def parse_literal_def
      rule_types_def operators_def vget_def dget_or_def assms Let_def)

text \<open>Every entry of the ruleset becomes a rule: none is dropped.\<close>

definition parses_to :: "(pv \<Rightarrow> flt res) \<Rightarrow> pv list \<Rightarrow> rule list \<Rightarrow> bool" where
  "parses_to as_float items rs \<longleftrightarrow>
     list_all2 (\<lambda>v r. is_dict v \<and> parse_rule as_float (as_dict v) = Inr r) items rs"

lemma build_parses:
  assumes "parses_to as_float items rs"
  shows "build_ruleset as_float (VList items) = Inr (map CObj rs)"
proof -
  have "concat (map (\<lambda>item. case item of
       VDict d \<Rightarrow> (case parse_rule as_float d of Inr r \<Rightarrow> [CObj r] | Inl e \<Rightarrow> []) | _ \<Rightarrow> [CVal item]) items) = map CObj rs"
    using assms unfolding parses_to_def
  proof (induction rule: list_all2_induct)
    case (Cons v vs r rs)
    then show ?case by (cases v) simp_all
  qed simp
  then show ?thesis by (cases items) (simp_all add: build_ruleset_def or_else_def py_iter_def)
qed

lemma entry_dict [simp]: "is_dict (threshold_entry i f oper v u)" "is_dict (range_entry i f lo hi u)"
  by (simp_all add: threshold_entry_def range_entry_def)

lemma parse_lte: "parse_rule as_float (as_dict (threshold_entry i f ''lte'' v u)) = Inr (rule_of i THRESHOLD f (Some OpLte) (lit v) None None u)"
  and parse_gte: "parse_rule as_float (as_dict (threshold_entry i f ''gte'' v u)) = Inr (rule_of i THRESHOLD f (Some OpGte) (lit v) None None u)"
  using parse_threshold_entry [of as_float i f OpLte v u] parse_threshold_entry [of as_float i f OpGte v u] by simp_all

lemmas parse_entry = parse_lte parse_gte parse_range_entry

lemma reactor_parses: "(\<And>x. as_float (VFloat x) = Inr x) \<Longrightarrow> parses_to as_float reactor_ruleset reactor_rules"
  by (simp add: parses_to_def reactor_ruleset_def reactor_rules_def parse_entry)

text \<open>The consensus of the seed: the weights are the default ones, the threshold differs.\<close>

lemma weights_val: "[(''rules'', mk_flt False (4/10)), (''cbf'', mk_flt False (35/100)), (''sim'', mk_flt False (25/100))]
    = default_weights"
  by (simp add: default_weights_def)

lemma weighted_config:
  assumes "\<And>x. as_float (VFloat x) = Inr x"
  shows "build_consensus_config as_float (weighted_section t) = Inr \<lparr> cc_mode = WEIGHTED, cc_weights = Some default_weights,
     cc_threshold = Some (mk_flt False t), cc_on_sim_indeterminate = RENORMALIZE \<rparr>"
  by (simp add: build_consensus_config_def weighted_section_def dget_or_def parse_config_def parse_opt_def assms
      parse_literal_def consensus_modes_def sim_policies_def weights_val [symmetric])

definition outvotes :: "rat \<Rightarrow> verdict \<Rightarrow> verdict \<Rightarrow> verdict \<Rightarrow> bool" where
  "outvotes t r c s \<longleftrightarrow>
     num_rel RGe (NF (weighted_score (effective_weights RENORMALIZE s default_weights) r c s)) (NF (mk_flt False t))"

lemma weighted_combine:
  assumes "parse_verdict (fst simulation) (snd simulation) = Inr sim" "\<And>x. as_float (VFloat x) = Inr x"
  shows "\<exists>res. combine as_float tx sil (weighted_section t) rules cbf simulation = Inr res \<and>
     (sr_final_verdict res = SAFE \<longleftrightarrow> outvotes t (vv_verdict rules) (vv_verdict cbf) (vv_verdict sim))"
  by (simp add: combine_def assms(1) weighted_config [OF assms(2)] sil_of_def Let_def evaluate_weighted resolve_mode_def
      config_weights_def config_threshold_def outvotes_def default_weights_def)

lemma combine_parsed: "combine as_float tx sil c rules cbf simulation = Inr res \<Longrightarrow>
    \<exists>sim. parse_verdict (fst simulation) (snd simulation) = Inr sim"
  by (auto simp: combine_def)

lemma seeded_threshold_val: "mk_flt False (4/5) = Fin (3602879701896397/4503599627370496)"
  by code_simp

text \<open>Without the rules or without the CBF validator the threshold of 0.8 is not reached, whatever the simulation says.\<close>

lemma reactor_scores:
  "\<not> num_rel RGe (NF (weighted_score default_weights UNSAFE (if b then SAFE else UNSAFE) (if d then SAFE else UNSAFE)))
      (NF (Fin (3602879701896397/4503599627370496)))"
  "\<not> num_rel RGe (NF (weighted_score default_weights (if b then SAFE else UNSAFE) UNSAFE (if d then SAFE else UNSAFE)))
      (NF (Fin (3602879701896397/4503599627370496)))"
  unfolding default_weights_val by (cases b; cases d; simp only: if_True if_False; code_simp)+

lemma reactor_renormalized:
  "\<not> num_rel RGe (NF (weighted_score (effective_weights RENORMALIZE INDETERMINATE default_weights) UNSAFE
      (if b then SAFE else UNSAFE) UNSAFE)) (NF (Fin (3602879701896397/4503599627370496)))"
  "\<not> num_rel RGe (NF (weighted_score (effective_weights RENORMALIZE INDETERMINATE default_weights)
      (if b then SAFE else UNSAFE) UNSAFE UNSAFE)) (NF (Fin (3602879701896397/4503599627370496)))"
  unfolding renormalized_val by (cases b; simp only: if_True if_False; code_simp)+

lemma reactor_votes: "outvotes (8/10) r c s \<Longrightarrow> r = SAFE \<and> c = SAFE"
  using reactor_scores [of "c = SAFE" "s = SAFE"] reactor_scores [of "r = SAFE" "s = SAFE"]
    reactor_renormalized [of "c = SAFE"] reactor_renormalized [of "r = SAFE"] weighted_score_safe [of _ r c s]
  by (cases "s = INDETERMINATE"; cases "r = SAFE"; cases "c = SAFE")
     (simp_all add: outvotes_def seeded_threshold_val effective_weights_def)

text \<open>After a run on a store without the version.\<close>

lemma seed_installs:
  assumes "separate cfg" "verify_admin_key (pe_config env) (Some (sc_api_key cfg)) = Inr k"
    and "get_policy policy_version_id (ps_table s) = None" "seed refused (site env cfg) cfg now s = (r, s')"
  shows "r = Inr 0 \<and> get_active_version (ps_table s') = Some policy_version_id \<and>
     list_all (\<lambda>(a, p). get_asset_policy_route loads policy_version_id a (ps_table s') =
       Inr \<lparr> ap_version = policy_version_id, ap_asset_id = a, ap_profile = p \<rparr>) seed_assets"
proof -
  let ?row = "\<lparr> po_version = policy_version_id, po_issued_at_ms = pe_clock env (ps_requests s),
      po_document = seed_document, po_is_active = False, po_created_by = None \<rparr>"
  have run: "r = Inr 0" "ps_table s' = map (mark policy_version_id) (map lower (ps_table s @ [?row]))"
    using seed_fresh [OF assms(1-3), of refused now] assms(4) by simp_all
  have row: "get_policy policy_version_id (ps_table s @ [?row]) = Some ?row"
    using assms(3) by (simp add: get_policy_append)
  have active: "get_active_version (ps_table s') = Some policy_version_id"
    unfolding run(2) by (rule find_marked) (simp add: row)
  have same: "get_asset_policy_route loads policy_version_id a (ps_table s') =
      get_asset_policy_route loads policy_version_id a (ps_table s @ [?row])" for a
    by (rule profile_route_archive) (simp only: run(2) archive_activated)
  have "get_asset_profile loads a ?row = Inr (dget_or seed_assets a VNone)" for a
    by (simp add: get_asset_profile_def get_assets_def get_document_def seed_document_def dget_or_def)
  then have served: "get_asset_policy_route loads policy_version_id a (ps_table s') =
      Inr \<lparr> ap_version = policy_version_id, ap_asset_id = a, ap_profile = p \<rparr>"
    if "dget_or seed_assets a VNone = p" "truthy p" "is_dict p" for a p
    using that unfolding same by (simp add: get_asset_policy_route_def row)
  have "truthy (VDict reactor_profile)" "truthy (VDict robot_profile)" "truthy (VDict agv_profile)"
    by (simp_all add: reactor_profile_def robot_profile_def agv_profile_def)
  with run(1) active show ?thesis
    by (simp add: served seed_assets_def dget_or_def)
qed

text \<open>On a store without the version, and with an accepted key, the seeding script exits with 0; the version is then the active one, and every asset of the script is served with exactly the profile the script holds.\<close>

theorem seed_installs_policy:
  assumes "separate cfg" "verify_admin_key (pe_config env) (Some (sc_api_key cfg)) = Inr k"
    and "get_policy policy_version_id (ps_table s) = None" "seed refused (site env cfg) cfg now s = (r, s')"
  shows "r = Inr 0 \<and> get_active_version (ps_table s') = Some policy_version_id \<and>
     list_all (\<lambda>(a, p). get_asset_policy_route loads policy_version_id a (ps_table s') =
       Inr \<lparr> ap_version = policy_version_id, ap_asset_id = a, ap_profile = p \<rparr>) seed_assets"
  using assms by (rule seed_installs)

text \<open>C36: Seeding again does not update the policy: on a store that has the version, the script, given enough names for the derived versions, exits with 0 and activates the version, but every asset keeps the profile it had before, whatever the script holds.  The updates the script sends go to derived versions that it does not activate.\<close>

theorem reseed_keeps_profiles:
  assumes "separate cfg" "verify_admin_key (pe_config env) (Some (sc_api_key cfg)) = Inr k"
    and "get_policy policy_version_id (ps_table s) \<noteq> None" "policy_inv (ps_table s)"
    and "seed refused (site env cfg) cfg now s = (r, s')" "names_for env (length (ps_table s) + 3)"
  shows "r = Inr 0 \<and> get_active_version (ps_table s') = Some policy_version_id \<and>
     get_asset_policy_route loads policy_version_id a (ps_table s') = get_asset_policy_route loads policy_version_id a (ps_table s)"
proof -
  obtain t where t: "r = Inr 0" "policy_history (ps_table s) t" "ps_table s' = map (mark policy_version_id) (map lower t)"
    using seed_present [OF assms] by blast
  have le: "archive_of (ps_table s) \<subseteq>\<^sub>m archive_of t" using policy_history_inv [OF t(2) assms(4)] by blast
  have old: "policy_version_id \<in> dom (archive_of (ps_table s))" using assms(3) by (auto simp: archive_of_def)
  have same: "archive_of (ps_table s) policy_version_id = archive_of t policy_version_id"
    using le old unfolding map_le_def by (rule bspec)
  have "policy_version_id \<in> dom (archive_of t)" using old same by (simp only: domIff simp_thms)
  then have "get_policy policy_version_id t \<noteq> None" by (auto simp: archive_of_def)
  then have "get_active_version (ps_table s') = Some policy_version_id" unfolding t(3) by (rule find_marked)
  moreover have "get_asset_policy_route loads policy_version_id a (ps_table s') =
      get_asset_policy_route loads policy_version_id a (ps_table s)"
    by (rule profile_route_archive) (simp only: t(3) archive_activated same)
  ultimately show ?thesis using t(1) by simp
qed

text \<open>The safety cluster reads its profiles from the same services.\<close>

lemma fetch_seeded:
  assumes "separate cfg" "ce_urls cenv = Inr u" "vget u ''policy_store'' = VStr (sc_policy_url cfg)" "sc_policy_url cfg \<noteq> []"
    and "get_asset_policy_route (pe_loads env) policy_version_id ''reactor_01'' (ps_table s) =
       Inr \<lparr> ap_version = policy_version_id, ap_asset_id = ''reactor_01'', ap_profile = VDict p \<rparr>"
  shows "\<exists>s1. fetch_asset_profile (site env cfg None) (ce_urls cenv) policy_version_id ''reactor_01'' s = (Inr (VDict p), s1)"
proof -
  have split: "split_on CHR ''/'' (policy_version_id @ ''/assets/'' @ ''reactor_01'') = [policy_version_id, ''assets'', ''reactor_01'']"
    by code_simp
  have url: "get_policy_store_url (ce_urls cenv) = Inr (sc_policy_url cfg)"
    using assms(2-4) by (cases "sc_policy_url cfg") (simp_all add: get_policy_store_url_def py_str.simps)
  show ?thesis
    unfolding fetch_asset_profile_def url bindE_unit unfolding bindE_def store_call [OF assms(1)] split
    by (simp add: liftE_def store_request_def assms(5) answer_def resp_json_def profile_response_def dget_or_def)
qed

text \<open>C6: From the seeding script to the verdict: once the script has run on a fresh store, a SAFE answer of the safety cluster for the reactor under the seeded version means that the rules on temperature, pressure and heater hold in the snapshot and in every action, and that the CBF validator said SAFE on the same rules, whatever the simulation answers.\<close>

theorem seeded_reactor_sound:
  assumes "separate cfg" "verify_admin_key (pe_config env) (Some (sc_api_key cfg)) = Inr k"
    and "get_policy policy_version_id (ps_table s0) = None" "seed refused (site env cfg) cfg now s0 = (c, s)"
    and "ce_urls cenv = Inr u" "vget u ''policy_store'' = VStr (sc_policy_url cfg)" "sc_policy_url cfg \<noteq> []"
    and "\<And>x. ce_as_float cenv (VFloat x) = Inr x"
    and "run_safety_validation (site env cfg None) cenv tx ''reactor_01'' policy_version_id actions snapshot ctx s = (Inr res, s')"
    and "sr_final_verdict res = SAFE"
  shows "list_all (rule_passes (sources (VDict snapshot) (map VDict actions))) reactor_rules \<and>
     (\<exists>mappings cbf. ce_cbf_mappings cenv = Inr mappings \<and> vv_verdict cbf = SAFE \<and>
        run_cbf_validator (ce_latency cenv) snapshot actions (map CObj reactor_rules) mappings = Inr cbf)"
proof -
  have "get_asset_policy_route (pe_loads env) policy_version_id ''reactor_01'' (ps_table s) =
       Inr \<lparr> ap_version = policy_version_id, ap_asset_id = ''reactor_01'', ap_profile = VDict reactor_profile \<rparr>"
    using seed_installs [OF assms(1-4), of "pe_loads env"] by (simp add: seed_assets_def)
  from fetch_seeded [OF assms(1,5-7) this] obtain s1 where
    f: "fetch_asset_profile (site env cfg None) (ce_urls cenv) policy_version_id ''reactor_01'' s = (Inr (VDict reactor_profile), s1)" by blast
  have parts: "dget_or reactor_profile ''ruleset'' (VList []) = VList reactor_ruleset"
      "dget_or reactor_profile ''consensus'' (VDict []) = weighted_section (8/10)"
    by (simp_all add: reactor_profile_def dget_or_def)
  from assms(9) f show ?thesis
  proof (cases rule: run_safety_cases)
    case (refused t)
    with assms(10) show ?thesis by (simp add: refusal_def)
  next
    case (decided ruleset mappings rules cbf simulation)
    have rules: "ruleset = map CObj reactor_rules"
      using decided(1) build_parses [OF reactor_parses [OF assms(8)]] by (simp add: parts)
    obtain sim where "parse_verdict (fst simulation) (snd simulation) = Inr sim"
      using combine_parsed [OF decided(3)] by blast
    from weighted_combine [OF this assms(8), of tx "dget_or reactor_profile ''sil_level'' (VInt 2)" "8/10" rules cbf]
    have "outvotes (8/10) (vv_verdict rules) (vv_verdict cbf) (vv_verdict sim)"
      using decided(3) assms(10) unfolding parts by auto
    then have "vv_verdict rules = SAFE" "vv_verdict cbf = SAFE" using reactor_votes by blast+
    with run_validators_results [OF decided(2)] decided(4) show ?thesis
      unfolding rules by (auto simp: list_all_iff intro: rules_validator_safe)
  qed
qed

subsection \<open>Concrete runs\<close>

definition demo_site :: seed_config where
  "demo_site = \<lparr> sc_admin_url = ''http://a'', sc_policy_url = ''http://p'', sc_api_key = ''key'' \<rparr>"

definition demo_policy_env :: policy_env where
  "demo_policy_env = \<lparr> pe_config = Inr (VDict [(''auth'', VDict [(''enabled'', VBool True), (''admin_keys'', VList [VStr ''key''])])]),
     pe_loads = \<lambda>t. raise ValueError t, pe_dup = ''duplicate'', pe_clock = (\<lambda>n. 1000 * int n), pe_draws = (\<lambda>n. [''00000001'', ''00000002'', ''00000003'', ''00000004'']) \<rparr>"

lemma demo_site_ok: "separate demo_site" "verify_admin_key (pe_config demo_policy_env) (Some (sc_api_key demo_site)) = Inr ''key''"
  by code_simp+

text \<open>A store whose version allows 500 degrees.\<close>

definition lax_site :: policy_site where
  "lax_site = \<lparr> ps_table = [\<lparr> po_version = policy_version_id, po_issued_at_ms = 0,
      po_document = VDict [(''assets'', VDict [(''reactor_01'', VDict [(''ruleset'',
        VList [VDict [(''rule_id'', VStr ''max_temperature''), (''value'', VInt 500)]])])])],
      po_is_active = True, po_created_by = None \<rparr>], ps_requests = 0 \<rparr>"

theorem seed_installs_policy_witness:
  "get_active_version (ps_table (snd (seed (\<lambda>e. False) (site demo_policy_env demo_site) demo_site 5
      \<lparr> ps_table = [], ps_requests = 0 \<rparr>))) = Some policy_version_id"
  using seed_installs_policy [OF demo_site_ok, of "\<lparr> ps_table = [], ps_requests = 0 \<rparr>" "\<lambda>e. False" 5, OF _ prod.collapse [symmetric]]
  by (simp add: get_policy_def)

theorem reseed_keeps_profiles_witness:
  "get_asset_policy_route (pe_loads demo_policy_env) policy_version_id ''reactor_01''
      (ps_table (snd (seed (\<lambda>e. False) (site demo_policy_env demo_site) demo_site 5 lax_site)))
    = Inr \<lparr> ap_version = policy_version_id, ap_asset_id = ''reactor_01'', ap_profile = VDict [(''ruleset'',
        VList [VDict [(''rule_id'', VStr ''max_temperature''), (''value'', VInt 500)]])] \<rparr>"
proof -
  have "get_asset_policy_route (pe_loads demo_policy_env) policy_version_id ''reactor_01'' (ps_table lax_site)
    = Inr \<lparr> ap_version = policy_version_id, ap_asset_id = ''reactor_01'', ap_profile = VDict [(''ruleset'',
        VList [VDict [(''rule_id'', VStr ''max_temperature''), (''value'', VInt 500)]])] \<rparr>"
    by code_simp
  moreover have "names_for demo_policy_env (length (ps_table lax_site) + 3)"
    by (simp add: names_for_def demo_policy_env_def lax_site_def)
  moreover have "policy_inv (ps_table lax_site)" "get_policy policy_version_id (ps_table lax_site) \<noteq> None" by code_simp+
  ultimately show ?thesis
    using reseed_keeps_profiles [OF demo_site_ok, of lax_site "\<lambda>e. False" 5, OF _ _ prod.collapse [symmetric]] by simp
qed

lemma run_after_fetch:
  assumes "fetch_asset_profile http (ce_urls cenv) v a s = (Inr (VDict p), s1)"
    and "fetch_asset_profile (serving p) (ce_urls cenv) v a s1 = (Inr (VDict p), s1)"
  shows "run_safety_validation http cenv tx a v actions snapshot ctx s =
     run_safety_validation (serving p) cenv tx a v actions snapshot ctx s1"
  unfolding run_safety_validation_def bindE_def [of "fetch_asset_profile http (ce_urls cenv) v a"]
    bindE_def [of "fetch_asset_profile (serving p) (ce_urls cenv) v a"] assms by simp

definition demo_cluster :: "policy_site cluster_env" where
  "demo_cluster = \<lparr> ce_urls = Inr [(''policy_store'', VStr ''http://p'')], ce_cbf_mappings = Inr heater_map, ce_as_float = py_float,
     ce_latency = NI 0, ce_fs = no_files, ce_ode_solver = calm_backend, ce_discrete_event = calm_backend,
     ce_isaac_ready = (\<lambda>w. False), ce_isaac = calm_backend VNone \<rparr>"

definition warm_snapshot :: "pv dict" where
  "warm_snapshot = [(''temperature'', VInt 150), (''pressure'', VInt 1), (''heater_output'', VInt 40)]"

definition heater_action :: "pv dict" where
  "heater_action = [(''action_type'', VStr ''set_heater_output''), (''params'', VDict [(''value'', VInt 60)])]"

lemma bounds_val: "mk_flt False 0 = Fin 0" "mk_flt False 3 = Fin 3" "mk_flt False 90 = Fin 90" "mk_flt False 180 = Fin 180"
  by code_simp+

lemma all_votes: "outvotes (8/10) SAFE SAFE SAFE"
  unfolding outvotes_def by code_simp

lemma warm_rules:
  "\<exists>v. run_rules_validator warm_snapshot [heater_action] (map CObj reactor_rules) = Inr v \<and> vv_verdict v = SAFE"
proof -
  have "\<not> isl (run_rules_validator warm_snapshot [heater_action] (map CObj reactor_rules)) \<and>
    vv_verdict (projr (run_rules_validator warm_snapshot [heater_action] (map CObj reactor_rules))) = SAFE"
    unfolding reactor_rules_def bounds_val by code_simp
  then show ?thesis by (metis sum.collapse(2))
qed

abbreviation warm_barriers :: "rat \<Rightarrow> barriers" where
  "warm_barriers h \<equiv> [(''max_temperature'', NF (Fin 30)), (''min_temperature'', NF (Fin 150)), (''safe_pressure'', NF (Fin 1)), (''max_heater_output'', NF (Fin h))]"

lemma warm_barriers_now: "compute_barriers warm_snapshot (map CObj reactor_rules) [] = Inr (warm_barriers 50)"
  unfolding reactor_rules_def bounds_val by code_simp

lemma warm_barriers_next: "compute_barriers (dset ''heater_output'' (VInt 60) warm_snapshot) (map CObj reactor_rules) [] = Inr (warm_barriers 30)"
  unfolding reactor_rules_def bounds_val by code_simp

lemma warm_projected: "create_projected_state warm_snapshot heater_action heater_map = Inr (dset ''heater_output'' (VInt 60) warm_snapshot)"
  by code_simp

lemma warm_least: "barriers_min (warm_barriers 50) = NF (Fin 1)" "barriers_min (warm_barriers 30) = NF (Fin 1)" by code_simp+
lemma warm_ratio: "\<exists>x. ndiv (NF (Fin 1)) (NF (Fin 150)) = Inr x" by (simp add: num_eq_def)
lemma warm_greatest: "nmax_list (NF (Fin 30)) [NF (Fin 150), NF (Fin 1), NF (Fin 50), NF (Fin 30), NF (Fin 150), NF (Fin 1), NF (Fin 30)] = NF (Fin 150)"
  by code_simp

lemma warm_cbf:
  "\<exists>v. run_cbf_validator (NI 0) warm_snapshot [heater_action] (map CObj reactor_rules) heater_map = Inr v \<and> vv_verdict v = SAFE"
proof -
  have "reactor_rules \<noteq> []" by (simp add: reactor_rules_def)
  then show ?thesis using warm_ratio
  by (auto simp: run_cbf_validator_def validate_safety_def warm_barriers_now warm_barriers_next warm_projected cbf_step_def observe_def warm_least warm_greatest ninf_def num_rel_def num_eq_def Let_def)
qed

lemma warm_run:
  "\<exists>res. run_safety_validation (serving reactor_profile) demo_cluster ''tx'' ''reactor_01'' policy_version_id
      [heater_action] warm_snapshot None s = (Inr res, s) \<and> sr_final_verdict res = SAFE"
proof -
  have float: "ce_as_float demo_cluster (VFloat x) = Inr x" for x by (simp add: demo_cluster_def)
  obtain r c where rc: "run_rules_validator warm_snapshot [heater_action] (map CObj reactor_rules) = Inr r" "vv_verdict r = SAFE"
      "run_cbf_validator (ce_latency demo_cluster) warm_snapshot [heater_action] (map CObj reactor_rules) heater_map = Inr c"
      "vv_verdict c = SAFE"
    using warm_rules warm_cbf by (auto simp: demo_cluster_def)
  have sim: "run_simulation_validator demo_cluster warm_snapshot [heater_action] (map CObj reactor_rules)
      (dget_or reactor_profile ''simulation'' (VDict [])) None s = (Inr (VStr ''SAFE'', VDict []), s)"
    by (simp add: run_simulation_validator_def build_runtime_sim_config_def resolve_simulation_backend_def reactor_profile_def
        demo_cluster_def calm_backend_def bindE_def liftE_def retE_def dget_or_def py_getitem_def Let_def)
  have "parse_verdict (VStr ''SAFE'') (VDict []) = Inr \<lparr> vv_verdict = SAFE, vv_details = [] \<rparr>"
    by (simp add: parse_verdict_def parse_literal_def verdicts_def)
  then obtain res where res: "combine (ce_as_float demo_cluster) ''tx'' (VInt 2) (weighted_section (8/10)) r c (VStr ''SAFE'', VDict []) = Inr res"
      "sr_final_verdict res = SAFE"
    using weighted_combine [of "(VStr ''SAFE'', VDict [])" _ "ce_as_float demo_cluster" "''tx''" "VInt 2" "8/10" r c, OF _ float]
      all_votes rc(2,4) by auto
  have fetch: "fetch_asset_profile (serving reactor_profile) (ce_urls demo_cluster) policy_version_id ''reactor_01'' s
      = (Inr (VDict reactor_profile), s)"
    by (simp add: fetch_asset_profile_def serving_def demo_cluster_def get_policy_store_url_def vget_def dget_or_def
        resp_json_def retE_def bindE_def liftE_def)
  have parts: "dget_or reactor_profile ''allowed_action_types'' (VList []) = VList [VStr ''set_heater_output'', VStr ''set_cooling_valve'']"
      "dget_or reactor_profile ''sil_level'' (VInt 2) = VInt 2" "dget_or reactor_profile ''ruleset'' (VList []) = VList reactor_ruleset"
      "dget_or reactor_profile ''consensus'' (VDict []) = weighted_section (8/10)"
    by (simp_all add: reactor_profile_def dget_or_def)
  have listed: "first_refused (VList [VStr ''set_heater_output'', VStr ''set_cooling_valve'']) [heater_action] = Inr None"
    by code_simp
  have mappings: "ce_cbf_mappings demo_cluster = Inr heater_map" "heater_map \<noteq> []" by (simp_all add: demo_cluster_def heater_map_def)
  show ?thesis
    using res unfolding run_safety_validation_def bindE_def
    by (simp add: fetch liftE_def parts listed build_parses [OF reactor_parses [OF float]] mappings
        run_validators_parallel_def rc(1,3) sim del: first_refused.simps)
qed

theorem seeded_reactor_sound_witness:
  "list_all (rule_passes (sources (VDict warm_snapshot) [VDict heater_action])) reactor_rules"
proof -
  let ?s0 = "\<lparr> ps_table = [], ps_requests = 0 \<rparr>"
  obtain c s where seed: "seed (\<lambda>e. False) (site demo_policy_env demo_site) demo_site 5 ?s0 = (c, s)" by fastforce
  have none: "get_policy policy_version_id (ps_table ?s0) = None" by (simp add: get_policy_def)
  have urls: "ce_urls demo_cluster = Inr [(''policy_store'', VStr ''http://p'')]" by (simp add: demo_cluster_def)
  have url: "vget [(''policy_store'', VStr ''http://p'')] ''policy_store'' = VStr (sc_policy_url demo_site)"
      "sc_policy_url demo_site \<noteq> []"
    by (simp_all add: demo_site_def vget_def dget_or_def)
  have "get_asset_policy_route (pe_loads demo_policy_env) policy_version_id ''reactor_01'' (ps_table s) =
       Inr \<lparr> ap_version = policy_version_id, ap_asset_id = ''reactor_01'', ap_profile = VDict reactor_profile \<rparr>"
    using seed_installs [OF demo_site_ok none seed, of "pe_loads demo_policy_env"] by (simp add: seed_assets_def)
  from fetch_seeded [OF demo_site_ok(1) urls url this] obtain s1 where
    fetch: "fetch_asset_profile (site demo_policy_env demo_site None) (ce_urls demo_cluster) policy_version_id ''reactor_01'' s
      = (Inr (VDict reactor_profile), s1)" by blast
  have "fetch_asset_profile (serving reactor_profile) (ce_urls demo_cluster) policy_version_id ''reactor_01'' s1
      = (Inr (VDict reactor_profile), s1)"
    by (simp add: fetch_asset_profile_def serving_def urls get_policy_store_url_def vget_def dget_or_def py_str.simps resp_json_def retE_def bindE_def liftE_def)
  note run = run_after_fetch [OF fetch this]
  obtain res s' where res: "run_safety_validation (site demo_policy_env demo_site None) demo_cluster ''tx'' ''reactor_01''
      policy_version_id [heater_action] warm_snapshot None s = (Inr res, s')" "sr_final_verdict res = SAFE"
    using warm_run [of s1] unfolding run by blast
  have "ce_as_float demo_cluster (VFloat x) = Inr x" for x by (simp add: demo_cluster_def)
  from seeded_reactor_sound [OF demo_site_ok none seed urls url this res] show ?thesis by simp
qed

subsection \<open>The seeded robot\<close>

text \<open>Every rule of the three assets is one the cluster reads; none is dropped.\<close>

lemma seeded_rules_parse:
  assumes "\<And>x. as_float (VFloat x) = Inr x"
  shows "\<exists>rs. length rs = length robot_ruleset \<and> build_ruleset as_float (VList robot_ruleset) = Inr (map CObj rs)"
    and "\<exists>rs. length rs = length agv_ruleset \<and> build_ruleset as_float (VList agv_ruleset) = Inr (map CObj rs)"
proof -
  have kept: "\<exists>rs. length rs = length items \<and> build_ruleset as_float (VList items) = Inr (map CObj rs)"
    if "list_all (\<lambda>v. is_dict v \<and> \<not> isl (parse_rule as_float (as_dict v))) items" for items
  proof -
    have "parses_to as_float items (map (\<lambda>v. projr (parse_rule as_float (as_dict v))) items)"
      using that by (induction items) (auto simp: parses_to_def)
    from build_parses [OF this] show ?thesis
      by (intro exI [of _ "map (\<lambda>v. projr (parse_rule as_float (as_dict v))) items"]) simp
  qed
  show "\<exists>rs. length rs = length robot_ruleset \<and> build_ruleset as_float (VList robot_ruleset) = Inr (map CObj rs)"
    by (rule kept) (simp add: robot_ruleset_def joint_position_rules_def finger_position_rules_def velocity_rules_def
        effort_rules_def parse_entry assms)
  show "\<exists>rs. length rs = length agv_ruleset \<and> build_ruleset as_float (VList agv_ruleset) = Inr (map CObj rs)"
    by (rule kept) (simp add: agv_ruleset_def parse_entry assms)
qed

text \<open>With the robot's threshold of 0.5 the CBF validator and the simulation outvote the rules: an action that breaks a joint limit of the policy can be answered SAFE.\<close>

lemma robot_votes: "outvotes (5/10) UNSAFE SAFE SAFE"
  unfolding outvotes_def by code_simp

theorem robot_rules_outvoted:
  assumes "vv_verdict rules = UNSAFE" "vv_verdict cbf = SAFE" "\<And>x. as_float (VFloat x) = Inr x"
  shows "\<exists>res. combine as_float tx (vget robot_profile ''sil_level'') (vget robot_profile ''consensus'') rules cbf
      (VStr ''SAFE'', VDict d) = Inr res \<and> sr_final_verdict res = SAFE"
proof -
  have parts: "vget robot_profile ''consensus'' = weighted_section (5/10)"
    by (simp add: robot_profile_def vget_def dget_or_def)
  have "parse_verdict (VStr ''SAFE'') (VDict d) = Inr \<lparr> vv_verdict = SAFE, vv_details = d \<rparr>"
    by (simp add: parse_verdict_def parse_literal_def verdicts_def)
  then show ?thesis
    using weighted_combine [of "(VStr ''SAFE'', VDict d)" _ as_float tx _ "5/10" rules cbf, OF _ assms(3)] robot_votes assms(1,2)
    by (fastforce simp: parts)
qed

end
