(* ===== verification/IsaacBackend.thy ===== *)
theory IsaacBackend
  imports IsaacWorker
begin

section \<open>The in-process Isaac backend (plugins/simulation/isaac_backend.py)\<close>

text \<open>
  The backend that runs the simulator in its own process: its start, the loading of scenes and robots, the
  trajectory check and the shutdown.  The simulator's calls are parameters, as for the worker; what is drawn and
  the lock are left out.  The messages are Korean: \<open>say\<close> gives the text of a message from a gloss and its detail.
  The record of a run is part of the state, so that an exception keeps what was recorded before it.
\<close>

record 'w isaac_setup =
  su_import_app :: "('w, unit) eff"
  su_start_app :: "pv dict \<Rightarrow> ('w, unit) eff"
  su_import_core :: "('w, unit) eff"
  su_import_old_core :: "('w, unit) eff"
  su_new_world :: "('w, unit) eff"
  su_ground_plane :: "('w, unit) eff"
  su_franka :: "('w, unit) eff"
  su_old_franka :: "('w, unit) eff"
  su_add_robot :: "pv \<Rightarrow> ('w, unit) eff"
  su_stop :: "('w, unit) eff"
  su_clear :: "('w, unit) eff"
  su_close :: "('w, unit) eff"
  su_say :: "string \<Rightarrow> string \<Rightarrow> string"

record 'w isaac_backend =
  ib_scene :: 'w
  ib_app :: bool
  ib_world :: bool
  ib_robot :: bool
  ib_initialized :: bool
  ib_config :: "pv dict"
  ib_current_scene :: pv
  ib_joint_count :: nat

definition new_backend :: "'w \<Rightarrow> 'w isaac_backend" where
  "new_backend w = \<lparr> ib_scene = w, ib_app = False, ib_world = False, ib_robot = False, ib_initialized = False,
     ib_config = [], ib_current_scene = VNone, ib_joint_count = 9 \<rparr>"

definition in_scene :: "('w, 'a) eff \<Rightarrow> ('w isaac_backend, 'a) eff" where
  "in_scene m b = (case m (ib_scene b) of (r, w) \<Rightarrow> (r, b\<lparr> ib_scene := w \<rparr>))"

text \<open>\<open>try: m except Exception as e: raise RuntimeError(text)\<close>\<close>

definition or_runtime_error :: "(string \<Rightarrow> string) \<Rightarrow> ('s, 'a) eff \<Rightarrow> ('s, 'a) eff" where
  "or_runtime_error msg m = tryE m (\<lambda>e. throwE RuntimeError (msg (exc_msg e)))"

definition ignoring :: "('s, unit) eff \<Rightarrow> ('s, unit) eff" where
  "ignoring m = tryE m (\<lambda>e. retE ())"

subsection \<open>Scenes and robots\<close>

text \<open>The robot is at rest after ten frames; its joints are counted.\<close>

definition settle :: "'w isaac_api \<Rightarrow> ('w isaac_backend, unit) eff" where
  "settle api = eachE (\<lambda>n. in_scene (ia_step api)) [0..<10]"

definition count_joints :: "'w isaac_api \<Rightarrow> ('w isaac_backend, unit) eff" where
  "count_joints api = bindE (in_scene (ia_positions api)) (\<lambda>joints. modE (\<lambda>b. b\<lparr> ib_joint_count := length joints \<rparr>))"

definition load_initial_robot :: "'w isaac_api \<Rightarrow> 'w isaac_setup \<Rightarrow> ('w isaac_backend, unit) eff" where
  "load_initial_robot api su = or_runtime_error (su_say su ''loading the robot failed'')
     (bindE (caught (in_scene (su_franka su))) (\<lambda>first.
      bindE (if isl first then caught (in_scene (su_old_franka su)) else retE first) (\<lambda>second.
      bindE (if isl second
         then bindE (getE (\<lambda>b. vget (ib_config b) ''world_ref'')) (\<lambda>world_ref.
           if truthy world_ref
           then bindE (in_scene (su_add_robot su world_ref)) (\<lambda>_. modE (\<lambda>b. b\<lparr> ib_current_scene := world_ref \<rparr>))
           else throwE RuntimeError (su_say su ''no robot can be loaded'' []))
         else retE ()) (\<lambda>_.
      bindE (modE (\<lambda>b. b\<lparr> ib_robot := True \<rparr>)) (\<lambda>_.
      bindE (in_scene (ia_reset api)) (\<lambda>_.
      bindE (count_joints api) (\<lambda>_. settle api)))))))"

definition make_world :: "'w isaac_setup \<Rightarrow> ('w isaac_backend, unit) eff" where
  "make_world su = bindE (in_scene (su_new_world su)) (\<lambda>_. bindE (modE (\<lambda>b. b\<lparr> ib_world := True \<rparr>)) (\<lambda>_.
     in_scene (su_ground_plane su)))"

definition app_config :: "pv dict \<Rightarrow> pv dict" where
  "app_config config = (let headless = dget_or config ''headless'' (VBool True) in
     (''headless'', headless) # (if truthy headless then []
       else [(''width'', dget_or config ''width'' (VInt 1280)), (''height'', dget_or config ''height'' (VInt 720))]))"

definition backend_initialize :: "'w isaac_api \<Rightarrow> 'w isaac_setup \<Rightarrow> pv dict \<Rightarrow> ('w isaac_backend, unit) eff" where
  "backend_initialize api su config = bindE (getE ib_initialized) (\<lambda>initialized.
     if initialized then retE ()
     else
     bindE (modE (\<lambda>b. b\<lparr> ib_config := config \<rparr>)) (\<lambda>_.
     bindE (tryE (in_scene (su_import_app su)) (\<lambda>e. throwE (exc_kind e) (su_say su ''Isaac Sim cannot be imported'' (exc_msg e)))) (\<lambda>_.
     bindE (or_runtime_error (su_say su ''the application did not start'')
       (bindE (in_scene (su_start_app su (app_config config))) (\<lambda>_. modE (\<lambda>b. b\<lparr> ib_app := True \<rparr>)))) (\<lambda>_.
     bindE (tryE (in_scene (su_import_core su)) (\<lambda>e. in_scene (su_import_old_core su))) (\<lambda>_.
     bindE (or_runtime_error (su_say su ''the world was not created'') (make_world su)) (\<lambda>_.
     bindE (load_initial_robot api su) (\<lambda>_. modE (\<lambda>b. b\<lparr> ib_initialized := True \<rparr>))))))))"

definition stop_and_clear :: "'w isaac_setup \<Rightarrow> ('w isaac_backend, unit) eff" where
  "stop_and_clear su = bindE (getE ib_world) (\<lambda>present. if present
     then bindE (ignoring (in_scene (su_stop su))) (\<lambda>_. ignoring (in_scene (su_clear su))) else retE ())"

text \<open>\<open>scene_path and scene_path.endswith(".usd")\<close>\<close>

definition is_usd :: "pv \<Rightarrow> bool res" where
  "is_usd scene_path = (if \<not> truthy scene_path then Inr False else case scene_path of
     VStr s \<Rightarrow> Inr (starts_with (rev ''.usd'') (rev s)) | v \<Rightarrow> PyObj.no_attr v ''endswith'')"

definition reload_scene :: "'w isaac_api \<Rightarrow> 'w isaac_setup \<Rightarrow> pv \<Rightarrow> ('w isaac_backend, unit) eff" where
  "reload_scene api su scene_path = or_runtime_error (\<lambda>m. ''Scene reload failed: '' @ m)
     (bindE (stop_and_clear su) (\<lambda>_.
      bindE (in_scene (su_import_core su)) (\<lambda>_.
      bindE (make_world su) (\<lambda>_.
      bindE (liftE (is_usd scene_path)) (\<lambda>usd.
      bindE (if usd
         then tryE (bindE (in_scene (su_add_robot su scene_path)) (\<lambda>_. modE (\<lambda>b. b\<lparr> ib_robot := True \<rparr>)))
                (\<lambda>e. load_initial_robot api su)
         else load_initial_robot api su) (\<lambda>_.
      bindE (in_scene (ia_reset api)) (\<lambda>_.
      bindE (settle api) (\<lambda>_.
      bindE (count_joints api) (\<lambda>_. modE (\<lambda>b. b\<lparr> ib_current_scene := scene_path \<rparr>))))))))))"

definition backend_shutdown :: "'w isaac_setup \<Rightarrow> ('w isaac_backend, unit) eff" where
  "backend_shutdown su = bindE (stop_and_clear su) (\<lambda>_.
     bindE (getE ib_app) (\<lambda>app. bindE (if app then ignoring (in_scene (su_close su)) else retE ()) (\<lambda>_.
       modE (\<lambda>b. b\<lparr> ib_initialized := False, ib_world := False, ib_robot := False, ib_app := False \<rparr>))))"

subsection \<open>Joint limits and rules\<close>

definition backend_limit :: "(string \<Rightarrow> string \<Rightarrow> string) \<Rightarrow> flt list \<Rightarrow> string \<times> pv \<Rightarrow> pv dict option res" where
  "backend_limit say joints entry = (case entry of (key, limits) \<Rightarrow>
     bindR (py_int (VStr key)) (\<lambda>idx.
       if int (length joints) \<le> idx then Inr None
       else bindR (index_list joints idx) (\<lambda>val. bindR (out_of (VFloat val) (py_index limits 0) (py_index limits 1)) (\<lambda>bad.
         if \<not> bad then Inr None
         else bindR (py_index limits 0) (\<lambda>lo. bindR (py_index limits 1) (\<lambda>hi. Inr (Some
           [(''constraint'', VStr (''joint_'' @ str_int idx @ ''_limit'')), (''joint_index'', VInt idx),
            (''value'', VFloat (fround 4 val)), (''limits'', limits),
            (''detail'', VStr (say ''joint outside its limits'' (str_int idx @ '' '' @ fmt_fixed 4 val @ '' ['' @ py_str lo @ '', '' @ py_str hi @ '']'')))])))))))"

definition backend_rule :: "flt list \<Rightarrow> pv \<Rightarrow> pv dict option res" where
  "backend_rule joints rule = (case rule of
     VDict d \<Rightarrow> (case dget_or d ''target_field'' (VStr []) of
       VStr target \<Rightarrow>
         if \<not> starts_with ''joint_'' target then Inr None
         else (case joint_of_field target of
           None \<Rightarrow> Inr None
         | Some idx \<Rightarrow>
             if int (length joints) \<le> idx then Inr None
             else bindR (index_list joints idx) (\<lambda>val. let lo = vget d ''min''; hi = vget d ''max'' in
               if \<not> py_eq (dget_or d ''type'' (VStr [])) (VStr ''range'') then Inr None
               else bindR (if lo = VNone then Inr False else py_rel RLt (VFloat val) lo) (\<lambda>below.
                 bindR (if below then Inr True else if hi = VNone then Inr False else py_rel RGt (VFloat val) hi) (\<lambda>bad.
                   Inr (if bad then Some [(''constraint'', dget_or d ''rule_id'' (VStr [])), (''joint_index'', VInt idx),
                     (''value'', VFloat (fround 4 val)), (''limits'', VList [lo, hi])] else None)))))
     | target \<Rightarrow> PyObj.no_attr target ''startswith'')
   | _ \<Rightarrow> Inr None)"

definition check_joint_constraints ::
  "(string \<Rightarrow> string \<Rightarrow> string) \<Rightarrow> flt list \<Rightarrow> pv \<Rightarrow> pv \<Rightarrow> pv dict option res" where
  "check_joint_constraints say joints joint_limits ruleset =
     bindR (py_items joint_limits) (\<lambda>limits.
     bindR (first_found (backend_limit say joints) limits) (\<lambda>v. case v of
       Some violation \<Rightarrow> Inr (Some violation)
     | None \<Rightarrow> bindR (py_iter ruleset) (first_found (backend_rule joints))))"

subsection \<open>The record of a run\<close>

record backend_run =
  br_trajectory :: "pv list"
  br_violations :: "pv dict list"
  br_first :: "int option"
  br_collided :: "pv list"
  br_detected :: bool
  br_unavailable :: bool

definition empty_run :: backend_run where
  "empty_run = \<lparr> br_trajectory = [], br_violations = [], br_first = None, br_collided = [], br_detected = False,
     br_unavailable = False \<rparr>"

type_synonym 'w run_state = "'w isaac_backend \<times> backend_run"

definition on_backend :: "('w isaac_backend, 'a) eff \<Rightarrow> ('w run_state, 'a) eff" where
  "on_backend m s = (case m (fst s) of (r, b) \<Rightarrow> (r, (b, snd s)))"

definition scene_call :: "('w, 'a) eff \<Rightarrow> ('w run_state, 'a) eff" where
  "scene_call m = on_backend (in_scene m)"

definition note_run :: "(backend_run \<Rightarrow> backend_run) \<Rightarrow> ('w run_state, unit) eff" where
  "note_run f s = (Inr (), (fst s, f (snd s)))"

definition first_at :: "int \<Rightarrow> backend_run \<Rightarrow> backend_run" where
  "first_at i run = run\<lparr> br_first := (case br_first run of None \<Rightarrow> Some i | Some j \<Rightarrow> Some j) \<rparr>"

definition add_run_violation :: "pv dict \<Rightarrow> backend_run \<Rightarrow> backend_run" where
  "add_run_violation v run = run\<lparr> br_violations := br_violations run @ [v] \<rparr>"

text \<open>\<open>if violation and first_violation_step is None\<close>\<close>

definition note_first :: "int \<Rightarrow> pv dict option \<Rightarrow> backend_run \<Rightarrow> backend_run" where
  "note_first i v run = (case v of
     Some violation \<Rightarrow> if br_first run = None then add_run_violation violation (first_at i run) else run
   | None \<Rightarrow> run)"

definition step_entry :: "int \<Rightarrow> string \<Rightarrow> pv dict \<Rightarrow> pv dict" where
  "step_entry i check v = dset ''check_type'' (VStr check) (dset ''step'' (VInt i) v)"

definition note_unavailable :: "int \<Rightarrow> backend_run \<Rightarrow> backend_run" where
  "note_unavailable i run = (if br_unavailable run then run else
     add_run_violation [(''constraint'', VStr ''collision_probe_unavailable''), (''step'', VInt i),
         (''check_type'', VStr ''sim_collision''),
         (''detail'', VStr ''Collision policy is enabled but end-effector pose is unavailable.'')]
       (first_at i (run\<lparr> br_unavailable := True \<rparr>)))"

definition note_collision :: "int \<Rightarrow> probe_result \<Rightarrow> pv list \<Rightarrow> backend_run \<Rightarrow> backend_run" where
  "note_collision i p ids run = (let run1 = first_at i (run\<lparr> br_detected := True, br_collided := ids \<rparr>) in
     if br_detected run then run1 else add_run_violation
       [(''constraint'', VStr ''fixture_collision''), (''step'', VInt i), (''check_type'', VStr ''sim_collision''),
        (''objects'', VList (pr_collided p)), (''probe_radius_m'', opt_flt (pr_radius p))] run1)"

definition probe_frame :: "'w isaac_api \<Rightarrow> pv \<Rightarrow> int \<Rightarrow> ('w run_state, unit) eff" where
  "probe_frame api collision i = bindE (scene_call (ia_step api)) (\<lambda>_.
     bindE (liftE (py_get collision ''enabled'' VNone)) (\<lambda>enabled. if \<not> truthy enabled then retE ()
       else
       bindE (scene_call (get_end_effector_position api)) (\<lambda>ee.
       bindE (liftE (evaluate_collision_probe api ee collision)) (\<lambda>p.
       bindE (if pr_unavailable p then note_run (note_unavailable i) else retE ()) (\<lambda>_.
         if pr_detected p
         then bindE (getE (\<lambda>s. br_collided (snd s))) (\<lambda>old. bindE (liftE (foldR add_id (pr_collided p) old)) (\<lambda>ids.
           note_run (note_collision i p ids)))
         else retE ())))))"

subsection \<open>The trajectory check\<close>

text \<open>The first \<open>n\<close> joints as numpy takes them, filled up with zeros; a text is read as one number.\<close>

definition joint_vector :: "'w isaac_api \<Rightarrow> nat \<Rightarrow> pv \<Rightarrow> flt list res" where
  "joint_vector api n v = (case v of
     VStr s \<Rightarrow> bindR (np_float32 api (VStr (take n s))) (\<lambda>_. raise TypeError ''len() of unsized object'')
   | _ \<Rightarrow> joint_array api n v)"

definition backend_joints :: "pv dict \<Rightarrow> nat \<Rightarrow> pv" where
  "backend_joints state n = (case vget state ''joint_positions'' of
     VNone \<Rightarrow> VList (map (\<lambda>i. vget state (joint_key i)) (takeWhile (\<lambda>i. dhas state (joint_key i)) [0..<n]))
   | v \<Rightarrow> v)"

record backend_job =
  bj_ruleset :: pv
  bj_joint_limits :: pv
  bj_collision :: pv
  bj_config :: "pv dict"
  bj_joint_count :: nat
  bj_start :: pnum

definition elapsed_ms :: "pnum \<Rightarrow> pnum \<Rightarrow> pnum res" where
  "elapsed_ms start now = bindR (nsub now start) (\<lambda>d. nmul d (NI 1000))"

text \<open>\<open>f"{elapsed:.0f}"\<close>\<close>

definition no_decimals :: "pnum \<Rightarrow> string" where
  "no_decimals n = (case n of NI i \<Rightarrow> str_int i | NF f \<Rightarrow> fmt_fixed 0 f)"

definition breaks_joint :: "pv dict \<Rightarrow> bool res" where
  "breaks_joint v = bindR (text_test ''endswith'' (\<lambda>s. starts_with (rev ''_limit'') (rev s)) v) (\<lambda>b.
     Inr (b \<or> py_eq (vget v ''constraint'') (VStr ''command_divergence'')))"

text \<open>No clearance and no force is ever measured.\<close>

definition backend_result :: "string \<Rightarrow> pv dict \<Rightarrow> pnum \<Rightarrow> pv list \<Rightarrow> backend_run \<Rightarrow> pv dict res" where
  "backend_result verdict reason latency objects run =
     (let vs = br_violations run in
      bindR (anyR breaks_joint vs) (\<lambda>joint_limit. Inr
      [(''verdict'', VStr verdict), (''engine'', VStr ''isaac_sim''),
       (''common'', VDict [(''first_violation_step'', opt_int (br_first run)),
          (''violated_constraint'', case vs of [] \<Rightarrow> VNone | v # rest \<Rightarrow> dget_or v ''constraint'' (VStr ''unknown'')),
          (''latency_ms'', of_num (nround 3 latency)), (''steps_completed'', VInt (int (length (br_trajectory run)) - 1))]),
       (''details'', VDict ([(''min_clearance_m'', VNone), (''max_force_N'', VNone), (''collision_detected'', VBool (br_detected run)),
          (''collision_objects'', VList objects), (''collision_probe_unavailable'', VBool (br_unavailable run)),
          (''joint_limit_exceeded'', VBool joint_limit), (''trajectory'', VList (take 10 (br_trajectory run))),
          (''violations'', VList (map VDict (take 5 vs)))] @ reason))]))"

definition make_result ::
  "'w isaac_api \<Rightarrow> pnum \<Rightarrow> string \<Rightarrow> pv dict \<Rightarrow> ('w run_state, pv dict) eff" where
  "make_result api start verdict reason = bindE (getE snd) (\<lambda>run.
     bindE (liftE (insert_all (br_collided run))) (\<lambda>objects.
     bindE (getE (\<lambda>s. ia_time api (ib_scene (fst s)))) (\<lambda>now.
     bindE (liftE (elapsed_ms start now)) (\<lambda>latency. liftE (backend_result verdict reason latency objects run)))))"

definition check_timeout :: "'w isaac_api \<Rightarrow> backend_job \<Rightarrow> ('w run_state, pv dict option) eff" where
  "check_timeout api job = bindE (getE (\<lambda>s. ia_time api (ib_scene (fst s)))) (\<lambda>now.
     bindE (liftE (elapsed_ms (bj_start job) now)) (\<lambda>elapsed.
     (let timeout_ms = dget_or (bj_config job) ''timeout_ms'' (VInt 5000) in
     bindE (liftE (py_rel RGt (of_num elapsed) timeout_ms)) (\<lambda>late. if \<not> late then retE None
       else bindE (make_result api (bj_start job) ''INDETERMINATE'' [(''reason'', VStr (''Simulation timeout: '' @
              no_decimals elapsed @ ''ms > '' @ py_str timeout_ms @ ''ms''))]) (\<lambda>r. retE (Some r))))))"

definition check_joints_of :: "(string \<Rightarrow> string \<Rightarrow> string) \<Rightarrow> backend_job \<Rightarrow> flt list \<Rightarrow> pv dict option res" where
  "check_joints_of say job joints = check_joint_constraints say joints (bj_joint_limits job) (bj_ruleset job)"

definition note_divergence :: "(string \<Rightarrow> string \<Rightarrow> string) \<Rightarrow> int \<Rightarrow> flt \<Rightarrow> backend_run \<Rightarrow> backend_run" where
  "note_divergence say i divergence run =
     (if num_rel RGt (NF divergence) (NF (Fin (rnd64 (1 / 10))))
      then add_run_violation [(''step'', VInt i), (''constraint'', VStr ''command_divergence''),
          (''divergence_rad'', VFloat (fround 4 divergence)), (''check_type'', VStr ''divergence_check''),
          (''detail'', VStr (say ''command and reached angle differ'' []))] (first_at i run)
      else run)"

text \<open>A commanded target: checked, run and compared with what was reached; \<open>Some\<close> is the answer when the time is up.\<close>

definition run_target ::
  "'w isaac_api \<Rightarrow> (string \<Rightarrow> string \<Rightarrow> string) \<Rightarrow> backend_job \<Rightarrow> int \<Rightarrow> pv \<Rightarrow> flt list \<Rightarrow> ('w run_state, pv dict option) eff" where
  "run_target api say job i action_type target =
     bindE (liftE (check_joints_of say job target)) (\<lambda>pre.
     bindE (note_run (note_first i (map_option (step_entry i ''pre_check'') pre))) (\<lambda>_.
     bindE (scene_call (ia_set_positions api target)) (\<lambda>_.
     bindE (liftE (py_range (dget_or (bj_config job) ''simulation_steps_per_action'' (VInt 30)))) (\<lambda>frames.
     bindE (eachE (\<lambda>_. probe_frame api (bj_collision job) i) frames) (\<lambda>_.
     bindE (scene_call (ia_positions api)) (\<lambda>reached.
     bindE (note_run (\<lambda>run. run\<lparr> br_trajectory := br_trajectory run @ [VDict [(''step'', VInt i), (''action'', action_type),
         (''target_positions'', round4 target), (''actual_positions'', round4 reached)]] \<rparr>)) (\<lambda>_.
     bindE (liftE (check_joints_of say job reached)) (\<lambda>post.
     bindE (note_run (note_first i (map_option (step_entry i ''post_check'') post))) (\<lambda>_.
     bindE (liftE (np_divergence api (take 7 target) (take 7 reached))) (\<lambda>divergence.
     bindE (note_run (note_divergence say i divergence)) (\<lambda>_. check_timeout api job)))))))))))"

definition backend_action ::
  "'w isaac_api \<Rightarrow> (string \<Rightarrow> string \<Rightarrow> string) \<Rightarrow> backend_job \<Rightarrow> nat \<times> pv dict \<Rightarrow> ('w run_state, pv dict option) eff" where
  "backend_action api say job = (\<lambda>(k, action). let action_type = dget_or action ''action_type'' (VStr []);
       params = dget_or action ''params'' (VDict []) in
     if \<not> py_eq action_type (VStr ''move_joint'') then retE None
     else bindE (liftE (py_get params ''target_positions'' VNone)) (\<lambda>target_positions.
       if target_positions = VNone
       then throwE ValueError (say ''target_positions missing'' (str_nat k @ '' '' @ py_repr (VList (map VStr (dkeys (as_dict params))))))
       else
     bindE (liftE (joint_vector api (bj_joint_count job) target_positions)) (run_target api say job (int k) action_type)))"

fun backend_actions ::
  "'w isaac_api \<Rightarrow> (string \<Rightarrow> string \<Rightarrow> string) \<Rightarrow> backend_job \<Rightarrow> (nat \<times> pv dict) list \<Rightarrow> ('w run_state, pv dict option) eff" where
  "backend_actions api say job [] = retE None"
| "backend_actions api say job (a # as) = bindE (backend_action api say job a) (\<lambda>done. case done of
     Some r \<Rightarrow> retE (Some r) | None \<Rightarrow> backend_actions api say job as)"

text \<open>What the \<open>try\<close> block does: the initial state, then the actions.\<close>

definition set_up_run ::
  "'w isaac_api \<Rightarrow> (string \<Rightarrow> string \<Rightarrow> string) \<Rightarrow> backend_job \<Rightarrow> pv \<Rightarrow> ('w run_state, unit) eff" where
  "set_up_run api say job joint_positions =
     bindE (scene_call (ia_reset api)) (\<lambda>_.
     bindE (liftE (joint_vector api (bj_joint_count job) joint_positions)) (\<lambda>initial.
     bindE (scene_call (ia_set_positions api initial)) (\<lambda>_.
     bindE (eachE (\<lambda>n. scene_call (ia_step api)) [0..<5]) (\<lambda>_.
     bindE (scene_call (ia_positions api)) (\<lambda>actual.
     bindE (note_run (\<lambda>run. run\<lparr> br_trajectory := [VDict [(''step'', VInt (- 1)), (''action'', VStr ''initial''),
         (''joint_positions'', round4 actual)]] \<rparr>)) (\<lambda>_.
     bindE (liftE (check_joints_of say job actual)) (\<lambda>v.
       note_run (note_first (- 1) (map_option (dset ''step'' (VInt (- 1))) v)))))))))"

definition attempt_run ::
  "'w isaac_api \<Rightarrow> (string \<Rightarrow> string \<Rightarrow> string) \<Rightarrow> backend_job \<Rightarrow> pv \<Rightarrow> pv dict list \<Rightarrow> ('w run_state, pv dict option) eff" where
  "attempt_run api say job joint_positions actions = bindE (set_up_run api say job joint_positions) (\<lambda>_.
     backend_actions api say job (zip [0..<length actions] actions))"

text \<open>The answer: a wrong value is raised, any other exception leaves the verdict open.\<close>

definition judge_run ::
  "'w isaac_api \<Rightarrow> (string \<Rightarrow> string \<Rightarrow> string) \<Rightarrow> backend_job \<Rightarrow> pv \<Rightarrow> pv dict list \<Rightarrow> ('w run_state, pv dict) eff" where
  "judge_run api say job joint_positions actions =
     bindE (tryE (attempt_run api say job joint_positions actions)
       (\<lambda>e. if exc_kind e = ValueError then rethrowE e
         else bindE (make_result api (bj_start job) ''INDETERMINATE''
                [(''reason'', VStr (say ''error during the simulation'' (exc_msg e)))]) (\<lambda>r. retE (Some r)))) (\<lambda>answer.
     case answer of Some r \<Rightarrow> retE r
     | None \<Rightarrow> bindE (getE (\<lambda>s. br_violations (snd s))) (\<lambda>vs.
         make_result api (bj_start job) (if vs \<noteq> [] then ''UNSAFE'' else ''SAFE'') []))"

definition with_run :: "('w run_state, 'a) eff \<Rightarrow> ('w isaac_backend, 'a) eff" where
  "with_run m b = (case m (b, empty_run) of (r, s) \<Rightarrow> (r, fst s))"

definition backend_validate ::
  "'w isaac_api \<Rightarrow> 'w isaac_setup \<Rightarrow> pv dict \<Rightarrow> pv dict list \<Rightarrow> pv dict \<Rightarrow> ('w isaac_backend, pv dict) eff" where
  "backend_validate api su current_state actions constraints =
     bindE (getE ib_initialized) (\<lambda>initialized. if \<not> initialized then throwE RuntimeError (su_say su ''not initialized'' [])
     else
     bindE (getE (\<lambda>b. ia_time api (ib_scene b))) (\<lambda>start.
     bindE (getE (\<lambda>b. or_else (vget constraints ''world_ref'') (vget (ib_config b) ''world_ref''))) (\<lambda>required_scene.
     bindE (getE ib_current_scene) (\<lambda>current.
     bindE (if truthy required_scene \<and> \<not> py_eq required_scene current then reload_scene api su required_scene else retE ()) (\<lambda>_.
     bindE (getE id) (\<lambda>b. let joint_positions = backend_joints current_state (ib_joint_count b);
         job = \<lparr> bj_ruleset = dget_or constraints ''ruleset'' (VList []), bj_joint_limits = dget_or constraints ''joint_limits'' (VDict []),
                 bj_collision = or_else (vget constraints ''collision'') (VDict []), bj_config = ib_config b,
                 bj_joint_count = ib_joint_count b, bj_start = start \<rparr> in
       if \<not> truthy joint_positions
       then throwE ValueError (su_say su ''no joint positions'' (str_int (int (ib_joint_count b) - 1) @ '' '' @ py_repr (VList (map VStr (dkeys current_state)))))
       else with_run (judge_run api (su_say su) job joint_positions actions)))))))"

end
