(* ===== verification/BackendFacts.thy ===== *)
theory BackendFacts
  imports IsaacBackend IsaacFacts SimContracts
begin

section \<open>What the in-process Isaac backend answers\<close>

text \<open>
  The record of a run only grows and stays consistent, whether a call returns or raises.  A SAFE answer means that
  nothing was recorded and that every commanded target was checked; without joint limits in the constraints the
  verdict stays open.  The backend meets the contract of the other backends.
\<close>

definition brun_ok :: "backend_run \<Rightarrow> bool" where
  "brun_ok r \<longleftrightarrow> (br_first r = None \<longleftrightarrow> br_violations r = []) \<and>
     (br_detected r \<or> br_unavailable r \<longrightarrow> br_violations r \<noteq> [])"

definition grows :: "backend_run \<Rightarrow> backend_run \<Rightarrow> bool" where
  "grows r s \<longleftrightarrow> (brun_ok r \<longrightarrow> brun_ok s) \<and> (br_violations s = [] \<longrightarrow> br_violations r = [])"

lemma grows_refl [simp]: "grows r r"
  by (simp add: grows_def)

lemma grows_trans: "grows r s \<Longrightarrow> grows s t \<Longrightarrow> grows r t"
  by (auto simp: grows_def)

text \<open>A computation that only lets the record grow, with the robot it has.\<close>

definition only_grows :: "('w run_state, 'a) eff \<Rightarrow> bool" where
  "only_grows m \<longleftrightarrow> (\<forall>s. grows (snd s) (snd (snd (m s))) \<and>
     ib_joint_count (fst (snd (m s))) = ib_joint_count (fst s))"

named_theorems grow_rules

lemma only_grows_trivial [grow_rules]:
  "only_grows (retE x)" "only_grows (throwE k msg)" "only_grows (rethrowE e)" "only_grows (liftE r)" "only_grows (getE f)"
  "only_grows (scene_call m')"
  by (simp_all add: only_grows_def retE_def throwE_def rethrowE_def liftE_def getE_def scene_call_def on_backend_def
      in_scene_def split: prod.split)

lemma only_grows_bindE [grow_rules]:
  assumes "only_grows m" "\<And>x. only_grows (f x)"
  shows "only_grows (bindE m f)"
  unfolding only_grows_def
proof
  fix s
  obtain r t where m: "m s = (r, t)" by (rule prod.exhaust)
  then have "grows (snd s) (snd t) \<and> ib_joint_count (fst t) = ib_joint_count (fst s)"
    using assms(1) by (metis only_grows_def snd_conv)
  moreover have "grows (snd t) (snd (snd (f x t))) \<and> ib_joint_count (fst (snd (f x t))) = ib_joint_count (fst t)" for x
    using assms(2) by (simp only: only_grows_def)
  ultimately show "grows (snd s) (snd (snd (bindE m f s))) \<and>
      ib_joint_count (fst (snd (bindE m f s))) = ib_joint_count (fst s)"
    using m by (cases r) (auto simp: bindE_def intro: grows_trans simp del: split_paired_All)
qed

lemma only_grows_if [grow_rules]: "only_grows m \<Longrightarrow> only_grows n \<Longrightarrow> only_grows (if b then m else n)"
  by simp

lemma only_grows_option [grow_rules]:
  "only_grows m \<Longrightarrow> (\<And>x. only_grows (f x)) \<Longrightarrow> only_grows (case v of None \<Rightarrow> m | Some x \<Rightarrow> f x)"
  by (cases v) simp_all

lemma only_grows_each [grow_rules]: "(\<And>x. only_grows (f x)) \<Longrightarrow> only_grows (eachE f xs)"
  by (induction xs) (auto intro: only_grows_bindE only_grows_trivial)

lemma only_grows_note [grow_rules]: "(\<And>r. grows r (f r)) \<Longrightarrow> only_grows (note_run f)"
  by (simp add: only_grows_def note_run_def)

lemma grows_note_first [grow_rules]: "grows r (note_first i v r)"
  by (cases v) (auto simp: grows_def brun_ok_def note_first_def add_run_violation_def first_at_def)

lemma grows_unavailable [grow_rules]: "grows r (note_unavailable i r)"
  by (auto simp: grows_def brun_ok_def note_unavailable_def add_run_violation_def first_at_def split: option.splits)

lemma grows_collision [grow_rules]: "grows r (note_collision i p ids r)"
  by (auto simp: grows_def brun_ok_def note_collision_def add_run_violation_def first_at_def Let_def split: option.splits)

lemma grows_divergence [grow_rules]: "grows r (note_divergence say i d r)"
  by (auto simp: grows_def brun_ok_def note_divergence_def add_run_violation_def first_at_def split: option.splits)

lemma grows_trajectory [grow_rules]: "grows r (r\<lparr> br_trajectory := f r \<rparr>)"
  by (simp add: grows_def brun_ok_def)

lemma probe_frame_grows [grow_rules]: "only_grows (probe_frame api c i)"
  unfolding probe_frame_def by (intro grow_rules)

lemma make_result_grows [grow_rules]: "only_grows (make_result api start v reason)"
  unfolding make_result_def by (intro grow_rules)

lemma check_timeout_grows [grow_rules]: "only_grows (check_timeout api job)"
  unfolding check_timeout_def Let_def by (intro grow_rules)

lemma run_target_grows [grow_rules]: "only_grows (run_target api say job i ty target)"
  unfolding run_target_def by (intro grow_rules)

lemma backend_action_grows [grow_rules]: "only_grows (backend_action api say job ka)"
  unfolding backend_action_def Let_def split_beta by (intro grow_rules)

lemma backend_actions_grows [grow_rules]: "only_grows (backend_actions api say job as)"
  by (induction as) (auto intro!: grow_rules)

lemma only_growsD: "only_grows m \<Longrightarrow> m s = (r, t) \<Longrightarrow> grows (snd s) (snd t)"
  by (metis only_grows_def snd_conv)

lemma only_grows_count: "only_grows m \<Longrightarrow> m s = (r, t) \<Longrightarrow> ib_joint_count (fst t) = ib_joint_count (fst s)"
  by (metis only_grows_def snd_conv)

lemma only_grows_tryE [grow_rules]:
  assumes "only_grows m" "\<And>e. only_grows (h e)"
  shows "only_grows (tryE m h)"
  unfolding only_grows_def
proof
  fix s
  obtain r t where m: "m s = (r, t)" by (rule prod.exhaust)
  note first = only_growsD [OF assms(1) m] only_grows_count [OF assms(1) m]
  have "grows (snd t) (snd (snd (h e t))) \<and> ib_joint_count (fst (snd (h e t))) = ib_joint_count (fst t)" for e
    using assms(2) by (simp only: only_grows_def)
  with first show "grows (snd s) (snd (snd (tryE m h s))) \<and>
      ib_joint_count (fst (snd (tryE m h s))) = ib_joint_count (fst s)"
    using m by (cases r) (auto simp: tryE_def intro: grows_trans simp del: split_paired_All)
qed
text \<open>The target of an action, where it commands one.\<close>

definition commanded_target :: "'w isaac_api \<Rightarrow> nat \<Rightarrow> pv dict \<Rightarrow> flt list option" where
  "commanded_target api n action =
     (if py_eq (dget_or action ''action_type'' (VStr [])) (VStr ''move_joint'')
      then (case bindR (py_get (dget_or action ''params'' (VDict [])) ''target_positions'' VNone) (joint_vector api n) of
         Inr target \<Rightarrow> Some target | Inl e \<Rightarrow> None)
      else None)"

lemma bind_lift_Inr: "bindE (liftE r) f s = (Inr y, t) \<longleftrightarrow> (\<exists>x. r = Inr x \<and> f x s = (Inr y, t))"
  by (auto simp: bindE_Inr liftE_def)

lemma bind_note: "bindE (note_run f) g s = (Inr y, t) \<longleftrightarrow> g () (fst s, f (snd s)) = (Inr y, t)"
  by (simp add: bindE_def note_run_def)

lemma backend_action_checks:
  assumes "backend_action api say job (k, action) s = (Inr d, t)"
    and "commanded_target api (bj_joint_count job) action = Some target"
  shows "\<exists>v. check_joints_of say job target = Inr v \<and>
     grows (note_first (int k) (map_option (step_entry (int k) ''pre_check'') v) (snd s)) (snd t)"
proof -
  obtain tp where tp: "py_eq (dget_or action ''action_type'' (VStr [])) (VStr ''move_joint'')"
      "py_get (dget_or action ''params'' (VDict [])) ''target_positions'' VNone = Inr tp" "joint_vector api (bj_joint_count job) tp = Inr target"
    using assms(2) by (auto simp: commanded_target_def split: if_splits sum.splits)
  have "tp \<noteq> VNone" using tp(3) by (auto simp: joint_vector_def joint_array_def)
  with tp assms(1) have "run_target api say job (int k) (dget_or action ''action_type'' (VStr [])) target s = (Inr d, t)"
    by (simp add: backend_action_def bind_lift_Inr)
  then show ?thesis
    unfolding run_target_def bind_lift_Inr bind_note
    by - (elim exE conjE, intro exI conjI, assumption, drule only_growsD [rotated], intro grow_rules, simp)
qed

lemma note_first_empty: "brun_ok r \<Longrightarrow> br_violations (note_first i v r) = [] \<Longrightarrow> v = None"
  by (cases v) (auto simp: brun_ok_def note_first_def add_run_violation_def first_at_def split: if_splits)

text \<open>When all actions ran and nothing was recorded, every commanded target passed.\<close>

lemma backend_actions_checked:
  assumes "backend_actions api say job as s = (Inr None, t)" "brun_ok (snd s)" "br_violations (snd t) = []"
    and "(k, action) \<in> set as" "commanded_target api (bj_joint_count job) action = Some target"
  shows "check_joints_of say job target = Inr None"
  using assms(1,2,4)
proof (induction as arbitrary: s)
  case (Cons a as)
  obtain d u where first: "backend_action api say job a s = (Inr d, u)"
    and d: "d = None" and rest: "backend_actions api say job as u = (Inr None, t)"
    using Cons.prems(1) by (auto simp: bindE_Inr retE_def split: option.splits)
  have grown: "grows (snd s) (snd u)" "grows (snd u) (snd t)"
    using only_growsD [OF backend_action_grows first] only_growsD [OF backend_actions_grows rest] by auto
  then have ok: "brun_ok (snd u)" "br_violations (snd u) = []" using Cons.prems(2) assms(3) by (auto simp: grows_def)
  show ?case
  proof (cases "a = (k, action)")
    case True
    obtain v where v: "check_joints_of say job target = Inr v"
        "grows (note_first (int k) (map_option (step_entry (int k) ''pre_check'') v) (snd s)) (snd u)"
      using backend_action_checks [OF first [unfolded True] assms(5)] by blast
    then have "map_option (step_entry (int k) ''pre_check'') v = None"
      using note_first_empty [OF Cons.prems(2)] ok(2) unfolding grows_def by blast
    with v(1) show ?thesis by simp
  next
    case False
    then show ?thesis using Cons.IH [OF rest ok(1)] Cons.prems(3) by auto
  qed
qed simp

lemma empty_run_ok: "brun_ok empty_run"
  by (simp add: brun_ok_def empty_run_def)

lemma set_up_run_grows: "only_grows (set_up_run api say job p)"
  unfolding set_up_run_def by (intro grow_rules)

lemma judge_run_grows: "only_grows (judge_run api say job p as)"
  unfolding judge_run_def attempt_run_def by (intro grow_rules set_up_run_grows)

lemma attempt_run_checked:
  assumes "attempt_run api say job p as s = (Inr None, t)" "brun_ok (snd s)" "br_violations (snd t) = []"
  shows "brun_ok (snd t)"
    and "action \<in> set as \<Longrightarrow> commanded_target api (bj_joint_count job) action = Some target \<Longrightarrow> check_joints_of say job target = Inr None"
proof -
  obtain u where u: "set_up_run api say job p s = (Inr (), u)"
      "backend_actions api say job (zip [0..<length as] as) u = (Inr None, t)"
    using assms(1) by (auto simp: attempt_run_def bindE_Inr)
  have "brun_ok (snd u)" using only_growsD [OF set_up_run_grows u(1)] assms(2) by (simp add: grows_def)
  then show "brun_ok (snd t)" using only_growsD [OF backend_actions_grows u(2)] by (simp add: grows_def)
  show "check_joints_of say job target = Inr None"
    if "action \<in> set as" "commanded_target api (bj_joint_count job) action = Some target"
  proof -
    obtain k where "(k, action) \<in> set (zip [0..<length as] as)"
      using \<open>action \<in> set as\<close> by (auto simp: in_set_conv_nth set_zip)
    from backend_actions_checked [OF u(2) \<open>brun_ok (snd u)\<close> assms(3) this that(2)] show ?thesis .
  qed
qed

subsection \<open>The shape of an answer\<close>

lemma make_result_answer:
  assumes "make_result api start v reason s = (Inr r, t)"
  shows "\<exists>latency objects run. run = snd s \<and> backend_result v reason latency objects run = Inr r"
  using assms by (auto simp: make_result_def bindE_Inr getE_def liftE_def)

lemma backend_result_fields:
  assumes "backend_result v reason latency objects run = Inr r"
  shows "dget r ''verdict'' = Some (VStr v)" "\<exists>d. dget r ''details'' = Some (VDict d)"
    "dget r ''common'' = Some (VDict [(''first_violation_step'', opt_int (br_first run)),
          (''violated_constraint'', case br_violations run of [] \<Rightarrow> VNone | v # rest \<Rightarrow> dget_or v ''constraint'' (VStr ''unknown'')),
          (''latency_ms'', of_num (nround 3 latency)), (''steps_completed'', VInt (int (length (br_trajectory run)) - 1))])"
  using assms by (auto simp: backend_result_def Let_def)

text \<open>An answer given early is open.\<close>

definition open_answer :: "pv dict \<Rightarrow> bool" where
  "open_answer r \<longleftrightarrow> dget r ''verdict'' = Some (VStr ''INDETERMINATE'') \<and> (\<exists>d. dget r ''details'' = Some (VDict d))"

lemma make_result_open: "make_result api start ''INDETERMINATE'' reason s = (Inr r, t) \<Longrightarrow> open_answer r"
  unfolding open_answer_def by (drule make_result_answer) (auto dest: backend_result_fields)

lemma check_timeout_open: "check_timeout api job s = (Inr (Some r), t) \<Longrightarrow> open_answer r"
  by (auto simp: check_timeout_def bindE_Inr liftE_def retE_def getE_def Let_def split: if_splits dest: make_result_open)

lemma backend_action_open: "backend_action api say job ka s = (Inr (Some r), t) \<Longrightarrow> open_answer r"
  by (cases ka) (auto simp: backend_action_def run_target_def bindE_Inr retE_def throwE_def Let_def
      split: if_splits dest!: check_timeout_open)

lemma backend_actions_open: "backend_actions api say job as s = (Inr (Some r), t) \<Longrightarrow> open_answer r"
  by (induction as arbitrary: s) (auto simp: bindE_Inr retE_def split: option.splits dest: backend_action_open)

text \<open>The answer of a run: open, or the verdict of a record that was made to its end.\<close>

lemma judge_run_cases:
  assumes "judge_run api say job p as s = (Inr r, t)"
  obtains "open_answer r"
  | u latency objects where "attempt_run api say job p as s = (Inr None, u)"
      "backend_result (if br_violations (snd u) \<noteq> [] then ''UNSAFE'' else ''SAFE'') [] latency objects (snd u) = Inr r"
proof -
  obtain answer u where a: "tryE (attempt_run api say job p as)
       (\<lambda>e. if exc_kind e = ValueError then rethrowE e
         else bindE (make_result api (bj_start job) ''INDETERMINATE''
                [(''reason'', VStr (say ''error during the simulation'' (exc_msg e)))]) (\<lambda>r. retE (Some r))) s = (Inr answer, u)"
    and rest: "(case answer of Some r \<Rightarrow> retE r | None \<Rightarrow> bindE (getE (\<lambda>s. br_violations (snd s))) (\<lambda>vs.
         make_result api (bj_start job) (if vs \<noteq> [] then ''UNSAFE'' else ''SAFE'') [])) u = (Inr r, t)"
    using assms by (auto simp: judge_run_def bindE_Inr)
  obtain x w where run: "attempt_run api say job p as s = (x, w)" by (rule prod.exhaust)
  show ?thesis
  proof (cases x)
    case (Inl e)
    then show ?thesis using a rest run that(1)
      by (auto simp: tryE_def rethrowE_def bindE_Inr retE_def split: if_splits dest: make_result_open)
  next
    case (Inr y)
    then have y: "answer = y" "u = w" using a run by (auto simp: tryE_def)
    show ?thesis
    proof (cases y)
      case None
      then have "make_result api (bj_start job) (if br_violations (snd w) \<noteq> [] then ''UNSAFE'' else ''SAFE'') [] w = (Inr r, t)"
        using rest y by (simp add: bindE_Inr getE_def)
      from make_result_answer [OF this] show ?thesis using run Inr None that(2) by blast
    next
      case (Some q)
      then have "open_answer q" using Inr run by (auto simp: attempt_run_def bindE_Inr dest: backend_actions_open)
      then show ?thesis using rest y Some that(1) by (simp add: retE_def)
    qed
  qed
qed

subsection \<open>The whole call\<close>

definition job_of :: "pv dict \<Rightarrow> pv dict \<Rightarrow> nat \<Rightarrow> pnum \<Rightarrow> backend_job" where
  "job_of cons config n start =
     \<lparr> bj_ruleset = dget_or cons ''ruleset'' (VList []), bj_joint_limits = dget_or cons ''joint_limits'' (VDict []),
       bj_collision = or_else (vget cons ''collision'') (VDict []), bj_config = config, bj_joint_count = n, bj_start = start \<rparr>"

lemma backend_validate_run:
  assumes "backend_validate api su st as cons b = (Inr r, b')"
  obtains start config p s t where
    "judge_run api (su_say su) (job_of cons config (ib_joint_count b') start) p as (s, empty_run) = (Inr r, t)"
proof -
  obtain n start config p s t where run: "judge_run api (su_say su) (job_of cons config n start) p as (s, empty_run) = (Inr r, t)"
      "n = ib_joint_count s" "b' = fst t"
    using assms
    by (auto simp: backend_validate_def bindE_Inr getE_def liftE_def throwE_def with_run_def job_of_def Let_def
        split: if_splits prod.splits)
  from only_grows_count [OF judge_run_grows run(1)] run(2,3) have "n = ib_joint_count b'" by simp
  with run(1) that show ?thesis by blast
qed

lemma backend_safe_run:
  assumes "backend_validate api su st as cons b = (Inr r, b')" "dget r ''verdict'' = Some (VStr ''SAFE'')"
  shows "\<exists>run latency objects. backend_result ''SAFE'' [] latency objects run = Inr r \<and> brun_ok run \<and> br_violations run = [] \<and>
     (\<forall>action\<in>set as. \<forall>target. commanded_target api (ib_joint_count b') action = Some target \<longrightarrow>
       check_joint_constraints (su_say su) target (dget_or cons ''joint_limits'' (VDict [])) (dget_or cons ''ruleset'' (VList [])) = Inr None)"
proof -
  obtain start config p s t where run:
      "judge_run api (su_say su) (job_of cons config (ib_joint_count b') start) p as (s, empty_run) = (Inr r, t)"
    by (rule backend_validate_run [OF assms(1)])
  then show ?thesis
  proof (cases rule: judge_run_cases)
    case 1
    with assms(2) show ?thesis by (simp add: open_answer_def)
  next
    case (2 u latency objects)
    have none: "br_violations (snd u) = []"
      using backend_result_fields(1) [OF 2(2)] assms(2) by (auto split: if_splits)
    have ok: "brun_ok (snd (s, empty_run))" by (simp add: empty_run_ok)
    note checked = attempt_run_checked [OF 2(1) ok none]
    show ?thesis
      using 2(2) none checked(1) checked(2) by (intro exI [of _ "snd u"] exI [of _ latency] exI [of _ objects])
        (auto simp: check_joints_of_def job_of_def)
  qed
qed

text \<open>A SAFE answer of the in-process backend means that every commanded joint target lies within the joint limits it was given, and that the run recorded nothing: no first violation and no violated constraint.\<close>

theorem backend_safe_targets:
  assumes "backend_validate api su st as cons b = (Inr r, b')" "dget r ''verdict'' = Some (VStr ''SAFE'')"
    and "vget cons ''joint_limits'' = VDict limits" "(key, VList [lo, hi]) \<in> set limits" "py_int (VStr key) = Inr (int i)"
    and "action \<in> set as" "commanded_target api (ib_joint_count b') action = Some target" "i < length target" "num_of lo = Some l" "num_of hi = Some h"
  shows "\<not> num_rel RLt (NF (target ! i)) l \<and> \<not> num_rel RGt (NF (target ! i)) h \<and>
     (\<exists>common. dget r ''common'' = Some (VDict common) \<and> vget common ''first_violation_step'' = VNone \<and>
        vget common ''violated_constraint'' = VNone)"
proof -
  obtain run latency objects where run: "backend_result ''SAFE'' [] latency objects run = Inr r" "brun_ok run" "br_violations run = []"
      "check_joint_constraints (su_say su) target (dget_or cons ''joint_limits'' (VDict [])) (dget_or cons ''ruleset'' (VList [])) = Inr None"
    using backend_safe_run [OF assms(1,2)] assms(6,7) by blast
  have "dget_or cons ''joint_limits'' (VDict []) = VDict limits"
    using assms(3) by (auto simp: vget_def dget_or_def split: option.splits)
  then have "first_found (backend_limit (su_say su) target) limits = Inr None"
    using run(4) by (auto simp: check_joint_constraints_def py_items_def split: option.splits)
  then have "backend_limit (su_say su) target (key, VList [lo, hi]) = Inr None" using assms(4) by (auto simp: first_found_None)
  then have "out_of (VFloat (target ! i)) (Inr lo) (Inr hi) = Inr False"
    using assms(5,8) by (auto simp: backend_limit_def py_index_def index_list_def split: if_splits)
  note limits = out_of_False [OF this assms(9,10)]
  have "br_first run = None" using run(2,3) by (simp add: brun_ok_def)
  then show ?thesis using limits backend_result_fields(3) [OF run(1)] run(3) by (simp add: vget_def dget_or_def opt_int_def)
qed

text \<open>The safety cluster hands on what the profile says of joint limits, \<open>None\<close> when it says nothing; this backend then never comes to a verdict.\<close>

theorem backend_needs_joint_limits:
  assumes "backend_validate api su st as cons b = (Inr r, b')" "dget cons ''joint_limits'' = Some VNone"
  shows "dget r ''verdict'' = Some (VStr ''INDETERMINATE'')"
proof -
  obtain start config p s t where run:
      "judge_run api (su_say su) (job_of cons config (ib_joint_count b') start) p as (s, empty_run) = (Inr r, t)"
    (is "judge_run api _ ?job p as _ = _")
    by (rule backend_validate_run [OF assms(1)])
  have "isl (check_joints_of say ?job joints)" for say joints
    using assms(2) by (simp add: check_joints_of_def check_joint_constraints_def job_of_def dget_or_def py_items_def PyObj.no_attr_def)
  then have "attempt_run api (su_say su) ?job p as (s, empty_run) \<noteq> (Inr None, u)" for u
    by (auto simp: attempt_run_def set_up_run_def bindE_Inr liftE_def) (metis isl_def sum.simps(4))+
  with run show ?thesis by (cases rule: judge_run_cases) (auto simp: open_answer_def)
qed

subsection \<open>The contract\<close>

definition isaac_runs :: "'w isaac_api \<times> 'w isaac_setup \<times> 'w isaac_backend \<Rightarrow> pv dict \<Rightarrow> pv dict list \<Rightarrow> pv dict \<Rightarrow> pv dict res \<Rightarrow> bool" where
  "isaac_runs c s a k m \<longleftrightarrow> (case c of (api, su, b) \<Rightarrow> fst (backend_validate api su s a k b) = m)"

interpretation isaac: trajectory_backend isaac_runs
proof
  fix c s a k r
  assume "isaac_runs c s a k (Inr r)"
  then have "fst (backend_validate (fst c) (fst (snd c)) s a k (snd (snd c))) = Inr r" by (simp add: isaac_runs_def split_beta)
  then obtain b' where "backend_validate (fst c) (fst (snd c)) s a k (snd (snd c)) = (Inr r, b')"
    by (cases "backend_validate (fst c) (fst (snd c)) s a k (snd (snd c))") simp
  then obtain start config p u t where
    "judge_run (fst c) (su_say (fst (snd c))) (job_of k config (ib_joint_count b') start) p a (u, empty_run) = (Inr r, t)"
    by (rule backend_validate_run)
  then have "(\<exists>v. dget r ''verdict'' = Some (VStr (verdict_text v))) \<and> (\<exists>d. dget r ''details'' = Some (VDict d))"
  proof (cases rule: judge_run_cases)
    case 1
    then show ?thesis by (auto simp: open_answer_def intro: exI [of _ INDETERMINATE])
  next
    case (2 w latency objects)
    then show ?thesis
      using backend_result_fields(1,2) [OF 2(2)]
      by (cases "br_violations (snd w) = []") (auto intro: exI [of _ SAFE] exI [of _ UNSAFE])
  qed
  then show "\<exists>v. dget r ''verdict'' = Some (VStr (verdict_text v))" "\<exists>d. dget r ''details'' = Some (VDict d)" by blast+
qed

text \<open>C34: Whatever the grid, the reactor, the disabled simulation or the in-process Isaac backend answers, the safety cluster's model of a verdict accepts it.\<close>

theorem every_backend_accepted:
  assumes "des_validate_trajectory env ds s a k = Some (Inr r) \<or> ode_validate_trajectory oenv od s a k = Inr r
      \<or> VDict r = none_backend \<or> fst (backend_validate api su s a k b) = Inr r"
  shows "\<exists>v d. parse_verdict (vget r ''verdict'') (dget_or r ''details'' common) = Inr \<lparr> vv_verdict = v, vv_details = d \<rparr>"
proof -
  have "grid_runs (env, ds) s a k (Inr r) \<or> reactor_runs (oenv, od) s a k (Inr r) \<or> Inr r = Inr (as_dict none_backend)
      \<or> isaac_runs (api, su, b) s a k (Inr r)"
    using assms by (auto simp: grid_runs_def reactor_runs_def none_backend_def isaac_runs_def)
  then obtain v d where "dget r ''verdict'' = Some (VStr (verdict_text v))" "dget r ''details'' = Some (VDict d)"
      "parse_verdict (VStr (verdict_text v)) (VDict d) = Inr \<lparr> vv_verdict = v, vv_details = d \<rparr>"
    using grid.accepted reactor.accepted disabled.accepted [of r] isaac.accepted by metis
  then show ?thesis by (simp add: vget_def dget_or_def)
qed

subsection \<open>A run\<close>

text \<open>The robot of one joint, with every call of the setup succeeding.\<close>

definition demo_setup :: "flt list isaac_setup" where
  "demo_setup = \<lparr> su_import_app = retE (), su_start_app = (\<lambda>c. retE ()), su_import_core = retE (), su_import_old_core = retE (),
     su_new_world = retE (), su_ground_plane = retE (), su_franka = retE (), su_old_franka = retE (), su_add_robot = (\<lambda>v. retE ()),
     su_stop = retE (), su_clear = retE (), su_close = retE (), su_say = (\<lambda>gloss detail. gloss @ detail) \<rparr>"

definition demo_backend :: "flt list isaac_backend" where
  "demo_backend = (new_backend [Fin 0])\<lparr> ib_initialized := True, ib_joint_count := 1,
     ib_config := [(''simulation_steps_per_action'', VInt 2)] \<rparr>"

definition demo_state :: "pv dict" where
  "demo_state = [(''joint_0'', VFloat (Fin 0))]"

definition demo_answer :: "pv dict res \<times> flt list isaac_backend" where
  "demo_answer = backend_validate demo_robot demo_setup demo_state [demo_move] demo_joint_policy demo_backend"

lemma demo_answer_safe: "\<exists>r. demo_answer = (Inr r, snd demo_answer) \<and> dget r ''verdict'' = Some (VStr ''SAFE'')"
proof -
  have "(case fst demo_answer of Inr r \<Rightarrow> dget r ''verdict'' = Some (VStr ''SAFE'') | _ \<Rightarrow> False)" by code_simp
  then obtain r where "fst demo_answer = Inr r" "dget r ''verdict'' = Some (VStr ''SAFE'')" by (auto split: sum.splits)
  then show ?thesis by (intro exI [of _ r]) (simp add: prod_eq_iff)
qed

theorem backend_safe_targets_witness: "\<not> num_rel RLt (NF (Fin 1)) (NI (- 2)) \<and> \<not> num_rel RGt (NF (Fin 1)) (NI 2)"
proof -
  obtain r where r: "backend_validate demo_robot demo_setup demo_state [demo_move] demo_joint_policy demo_backend = (Inr r, snd demo_answer)"
      "dget r ''verdict'' = Some (VStr ''SAFE'')"
    using demo_answer_safe unfolding demo_answer_def by blast
  have limits: "vget demo_joint_policy ''joint_limits'' = VDict [(''0'', VList [VInt (- 2), VInt 2])]"
    and key: "py_int (VStr ''0'') = Inr (int 0)" by code_simp+
  have target: "commanded_target demo_robot (ib_joint_count (snd demo_answer)) demo_move = Some [Fin 1]" by code_simp
  show ?thesis using backend_safe_targets [OF r limits _ key _ target] by simp
qed

theorem every_backend_accepted_witness:
  "\<exists>r v d. fst (backend_validate demo_robot demo_setup demo_state [demo_move] demo_joint_policy demo_backend) = Inr r \<and>
     parse_verdict (vget r ''verdict'') (dget_or r ''details'' VNone) = Inr \<lparr> vv_verdict = v, vv_details = d \<rparr>"
proof -
  obtain r where "fst (backend_validate demo_robot demo_setup demo_state [demo_move] demo_joint_policy demo_backend) = Inr r"
    using demo_answer_safe unfolding demo_answer_def by (metis fst_conv)
  then show ?thesis using every_backend_accepted by blast
qed

text \<open>The life of a backend: started once, it is not started again; after a shutdown it validates nothing.\<close>

lemma initialize_once: "ib_initialized b \<Longrightarrow> backend_initialize api su config b = (Inr (), b)"
  by (simp add: backend_initialize_def bindE_def getE_def retE_def)

lemma initialized_after: "backend_initialize api su config b = (Inr (), b') \<Longrightarrow> ib_initialized b'"
  by (auto simp: backend_initialize_def bindE_Inr getE_def modE_def retE_def split: if_splits)

lemma shutdown_stops: "\<exists>b'. backend_shutdown su b = (Inr (), b') \<and> \<not> ib_initialized b'"
proof -
  have ignored: "\<exists>c. ignoring m b = (Inr (), c)" for m and b :: "'a isaac_backend"
    by (cases "m b") (auto simp: ignoring_def tryE_def retE_def split: sum.split)
  then have "\<exists>c. stop_and_clear su b = (Inr (), c)" for b
    unfolding stop_and_clear_def bindE_def getE_def retE_def by (auto split: prod.split sum.split) (metis Inr_Inl_False prod.inject)+
  then show ?thesis
    using ignored unfolding backend_shutdown_def bindE_def getE_def modE_def retE_def
    by (auto split: prod.split sum.split) (metis Inr_Inl_False prod.inject)+
qed

theorem closed_backend_refuses:
  "\<not> ib_initialized b \<Longrightarrow> backend_validate api su st as cons b = (raise RuntimeError (su_say su ''not initialized'' []), b)"
  by (simp add: backend_validate_def bindE_def getE_def throwE_def)

end
