(* ===== verification/Spec2Isabelle.thy ===== *)
theory Spec2Isabelle
  imports Rules Consensus Integrity Cbf Canonical TxMachine OtRoutes Ledger PolicyStore Auth PlcRoutes
    RuntimeShell SafetyFacts GatewayEvidence GatewayAborts SimContracts IsaacProxy SensorGateway ModbusPlugins RequestLog DashFacts SeedFacts BackendFacts
begin

text \<open>
  PCAG is a gate between a planning agent and industrial equipment.  An agent posts a control
  request with a proof package to the gateway; the gateway compares the proof with the active
  policy and the sensors, has the actions judged by the safety cluster, takes a lock at the OT
  interface, reads the sensors once more and only then commits; every step is appended to a hash
  chained evidence ledger.  The services are separate processes that talk JSON over HTTP.

  \<^bold>\<open>Values and effects.\<close>
    \<^item> Prelude: the exceptions (\<open>exc\<close>, a kind and a message), \<open>res\<close> (an exception or a value) with its
      combinators, association lists for Python's dictionaries.
    \<^item> PyFloat, Float32: Python floats as \<open>flt\<close> (rationals rounded to binary64, infinities, nan) with
      the arithmetic of binary64 and binary32.  PyValue, PyObj: the JSON-like values \<open>pv\<close> with truth,
      equality, order, text, \<open>get\<close>, indexing and membership as Python has them, errors included.
    \<^item> Effects: \<open>eff\<close>, state passing with exceptions, and its weakest preconditions \<open>wp\<close>; Http: replies
      and clients.

  \<^bold>\<open>The pure services\<close> (pcag/core/services, pcag/core/utils, pcag/core/models).
    \<^item> Models: rules, verdicts, configurations (models/common.py).
    \<^item> Canonical: canonical text and hashes (utils/canonicalize.py, utils/hash_utils.py): two values have
      the same text exactly when they agree up to rounding and the order of keys.
    \<^item> Rules (rules_validator.py), Consensus (consensus_engine.py), Integrity (integrity_service.py), Cbf
      (cbf_validator.py): what a SAFE verdict, a consensus, a passed check guarantee.  The integrity check is
      compared with what its thresholds ask for over rational numbers (\<open>sensor_agrees\<close>).
    \<^item> TxMachine: the in-memory transaction machine (tx_state_machine.py).  LockContract: a locale for
      what holders of locks may rely on, interpreted on the machine and on the store.

  \<^bold>\<open>The OT interface\<close> (pcag/apps/ot_interface): OtStore is the transaction table (repository.py) and the
  persistent state machine over it (service.py), refined to the life cycle of a transaction; OtRoutes
  the handlers and executors (routes.py, executor_manager.py).

  \<^bold>\<open>The evidence ledger\<close> (pcag/apps/evidence_ledger): Ledger has the table, append, lookup and the
  verification of a chain: append-only, tamper evident under a collision-free hash, and what the
  verification does not notice.

  \<^bold>\<open>Policies and keys\<close>: PolicyStore (pcag/apps/policy_store, policy_admin: versions are immutable, an
  update derives a new version), Auth (core/middleware/auth.py).

  \<^bold>\<open>The PLC adapter\<close> (pcag/apps/plc_adapter and its clients): PlcCodec (values to 16 bit registers and
  back: a register survives being read and written, a float32 field reads the same after it was written back), PlcAdapter (connections, recovery, reading), PlcWrites (low level actions, virtual assets),
  PlcRoutes (handlers).

  \<^bold>\<open>The safety cluster\<close> (pcag/apps/safety_cluster): RuntimeShell (the simulation section patched by
  a runtime context), SafetyCluster (service.py, routes.py, the models' constructors), SafetyFacts
  (what a SAFE answer of the whole service implies).

  \<^bold>\<open>The gateway\<close> (pcag/apps/gateway/routes.py): Gateway has the handler, one definition per stage,
  joined by \<open>next_stage\<close> as the code goes on or returns.  GatewayTrace runs it with a client that
  writes down every call; \<open>calls_only\<close> bounds the calls of a stage and \<open>wp_call_service\<close> is its call rule.
  GatewayFacts: before a COMMIT every gate was passed, in order; GatewayEvidence: what the gateway posts
  is a chain that the model of the ledger accepts and verifies; GatewayAborts: which answers imply a
  confirmed abort, and which leave a lock.  GatewayDemo is a plant for the concrete runs.

  \<^bold>\<open>The simulation backends\<close> (pcag/plugins/simulation).  The safety cluster asks one of them, by its asset.
    \<^item> SimBackend has what they share: the environment, the viewer's configuration, the answer's parts.
    \<^item> DiscreteEvent is the grid of vehicles (discrete_event.py), one definition per method; WaitCycles the theory
      of its deadlock search, a walk along the wait-for map; GridFacts: SAFE means every step is clear.
    \<^item> OdeSolver is the reactor (ode_solver.py); OdeFacts: SAFE means every state the solver gives keeps the
      limits that the simulation reads from the rules, which are fewer and laxer than those of the rules validator.
    \<^item> SimContracts is the contract of a backend as a locale, interpreted on the grid, the reactor and the
      disabled backend (BackendFacts adds the in-process Isaac backend): what it answers is read by the safety cluster, so a SAFE of the cluster at SIL 3 is a
      clear plan of the grid.

  \<^bold>\<open>Isaac Sim\<close>: IsaacWorker is the trajectory check in the simulator's process (isaac_worker.py,
  isaac_collision.py), IsaacFacts what a SAFE answer of it records; IsaacProxy the worker's loop over its jobs
  and the proxy that talks to it through two queues (isaac_proxy.py).  IsaacBackend is the variant that runs the
  simulator in its own process, with its start, the loading of scenes and the shutdown (isaac_backend.py);
  BackendFacts: its record only grows, what its SAFE means, and that it meets the contract of the backends.

  \<^bold>\<open>The sensor gateway\<close>: SensorGateway has the composite of sources, the Isaac source, and the handler with
  the hash of a snapshot (apps/sensor_gateway/routes.py, plugins/sensor).  ModbusPlugins has the executor and
  the source that speak Modbus themselves (modbus_executor.py, modbus_sensor.py).

  \<^bold>\<open>Configuration and log\<close>: ConfigLoader reads the configuration files and the environment once
  (utils/config_loader.py); LogFormat is the line written for a record and how the dashboard takes the log file
  apart again (logging_config.py, the log of dashboard/service.py); RequestLog the middleware that logs each request with its
  secrets masked (logging_middleware.py): the log does not depend on what stands under a masked key.

  \<^bold>\<open>The dashboard\<close> (pcag/apps/dashboard): Dashboard has the queries on the tables of the ledger and the OT interface
  and the rows, counts and series made of them; DashMonitor the probes of the services, the history of samples and
  the snapshot; DashFacts: a row is the end of its transaction's evidence, each transaction is counted once, the
  history stays bounded.

  \<^bold>\<open>Seeding\<close>: SeedPolicy has the policy the script writes, with its three assets, the reference data beside the
  store, the script, and the two policy services behind HTTP (scripts/seed_policy.py, policy_store/seed_data.py,
  policy_admin/routes.py, policy_store/routes.py).  SeedFacts: what a run leaves in the store, and what a SAFE of the
  safety cluster means under the seeded policy, read from those services.

  \<^bold>\<open>Parameters.\<close>  Python's struct and str.splitlines are part of the language and modelled (Float32,
  ConfigLoader), characters having 8 bits.  SHA-256, json.loads, pydantic's coercion of numbers, the clock readings, the database
  errors, pymodbus and httpx, the files read, PyYAML and the text of a time are arguments of the definitions, as
  are the simulator, scipy's solver and numpy's conversions, and the Korean texts of the in-process backend.  When the Isaac worker ends a job is a schedule.  The facts about the gateway hold for any
  client, so for any behaviour of the other services.

  \<^bold>\<open>Bounds.\<close>  No definition has fuel.  The loops are recursions over their data, save three: the search for a
  fresh version name (PolicyStore) and the walk along the wait-for map (\<open>chase\<close>) end by a measure that is
  proved; the loop that walks a vehicle to its cell (\<open>walk_to\<close>) is a partial function whose value is None when
  it does not return.  It returns on whole cells, with the shortest path, and never between two cells.
  The sum of weights in the consensus is that of Python 3.12 and later, which carries rounding errors along.
  A Modbus source tries three times to connect; the dashboard keeps 180 samples of a service.  The expansion of
  references in a configuration and the cutting of a text into lines end because the text gets shorter.

  \<^bold>\<open>What it showed.\<close>  Next to the properties that hold there are theorems about what the code does against
  its intent: \<open>ot_prepare_race\<close>, \<open>mem_commit_twice\<close>, \<open>estop_route_reply\<close>, \<open>ledger_blind_spots\<close>,
  \<open>integrity_nan_passes\<close>, \<open>safety_invalid_rules_pass\<close>, \<open>gateway_timeout_keeps_lock\<close>, \<open>simple_path_diverges\<close>,
  \<open>ode_timeout_indeterminate\<close>, \<open>joint_rule_reads_position\<close>, \<open>isaac_hash_ignores_motion\<close>,
  \<open>modbus_safe_state_unchecked\<close>, \<open>locked_shown_in_progress\<close>, \<open>robot_rules_outvoted\<close>,
  \<open>backend_needs_joint_limits\<close>, \<open>integrity_null_hash_passes\<close>, \<open>consensus_renormalize_not_monotone\<close>,
  \<open>cbf_duplicate_id_hides\<close>, \<open>cbf_nan_hides\<close>, \<open>cbf_equality_unchecked\<close>, \<open>ode_strict_limit_reached\<close>,
  \<open>ode_equality_unchecked\<close> and \<open>multi_line_message_split\<close>.

  \<^bold>\<open>Not modelled.\<close>  The viewers draw what a simulation wrote; the scene that the Isaac worker loads is calls of
  the simulator; the packaging script and the benchmarks are tools around the program; the handlers of Python's
  logging, the pages of the dashboard and the start of the services are input and output.  Interleaving of
  requests is modelled where the code splits a decision from its write (the prepare of the OT interface) or a
  request from its answer (the proxy).
\<close>

end
